(* ===== verification/Prelude.thy ===== *)
theory Prelude
  imports Complex_Main "HOL-Library.AList" "HOL-Library.Char_ord" "HOL-Library.List_Lexorder"
    "HOL-Library.Product_Lexorder"
begin

text \<open>
  The prelude of the EvoCI development: the parts of Python and of its standard library that the
  sources under \<^verbatim>\<open>src/src/evoci\<close> use, as executable HOL functions, and the lemmas on them that
  the component theories share.

  \<^item> A Python \<open>str\<close> is a HOL \<open>string\<close> holding its UTF-8 bytes. Concatenation, equality,
    prefix and substring tests and code-point order agree with the byte sequence; \<open>py_len\<close>,
    \<open>py_take\<close> and \<open>py_drop\<close> count code points (bytes that are not continuation bytes), as
    Python's \<open>len\<close> and slices do. Case folding and white space cover the ASCII range.
  \<^item> An exception is a value of \<open>pyexc\<close>; a function that may raise returns \<open>pyexc + 'a\<close>
    (\<open>Inl\<close> is the raised exception).
  \<^item> A dictionary whose order matters is an association list updated by \<open>AList.update\<close>, which
    keeps the position of an existing key and appends a new one, as a Python dict does.
  \<^item> \<open>dedup\<close> is \<open>list(dict.fromkeys(xs))\<close>.
\<close>

named_theorems py_simps "evaluation and shape facts about the Python prelude"

section \<open>repr of strings\<close>

definition hex_digit :: "nat \<Rightarrow> char" where
  "hex_digit n = (if n < 10 then char_of (48 + n) else char_of (87 + n))"

definition hex2 :: "nat \<Rightarrow> string" where
  "hex2 n = [hex_digit (n div 16), hex_digit (n mod 16)]"

definition backslash :: char where
  "backslash = char_of (92::nat)"

definition repr_char :: "char \<Rightarrow> char \<Rightarrow> string" where
  "repr_char q c =
     (let n = of_char c :: nat in
      if c = q \<or> c = backslash then [backslash, c]
      else if n = 9 then [backslash, CHR ''t''] else if n = 10 then [backslash, CHR ''n'']
      else if n = 13 then [backslash, CHR ''r'']
      else if n < 32 \<or> 127 \<le> n \<and> n \<le> 160 \<or> n = 173 then [backslash, CHR ''x''] @ hex2 n
      else [c])"

definition py_repr :: "string \<Rightarrow> string" where
  "py_repr s =
     (let q = (if char_of (39::nat) \<in> set s \<and> CHR 0x22 \<notin> set s then CHR 0x22 else char_of (39::nat))
      in [q] @ concat (map (repr_char q) s) @ [q])"

section \<open>Exceptions and results\<close>

text \<open>
  The exception classes the sources raise or catch. \<open>PolicyViolation\<close> derives from
  \<open>PermissionError\<close> and so from \<open>OSError\<close>; \<open>FileNotFoundError\<close> and \<open>IsADirectoryError\<close> are
  \<open>OSError\<close>s; \<open>PatchConflict\<close> and \<open>PatchPrecheckError\<close> are \<open>PatchError\<close>s;
  \<open>UnicodeDecodeError\<close>, \<open>TaskScheduleError\<close> and the \<open>ValidationError\<close> of the models are \<open>ValueError\<close>s;
  the errors of patches, integration, workspaces, budgets, the model gateway, the graph, the
  capability registry and the learning state are \<open>RuntimeError\<close>s; \<open>DatabaseError\<close> stands for the errors
  of the database and \<open>RegexError\<close> is \<^verbatim>\<open>re.error\<close>. The text of a \<open>KeyError\<close> is the \<open>repr\<close> of its argument. The flag of
  \<open>ModelGatewayError\<close> records whether the chain of causes of the error holds a timeout.
\<close>

datatype pyexc =
    PolicyViolation string
  | FileNotFoundError string
  | IsADirectoryError string
  | OSError string
  | ValueError string
  | UnicodeDecodeError string
  | TaskScheduleError string
  | KeyError string
  | TypeError string
  | RuntimeError string
  | AssertionError
  | PatchError string
  | PatchConflict string
  | PatchPrecheckError string
  | IntegrationError string
  | WorkspaceCopyError string
  | RepairBudgetExhausted string
  | ModelGatewayError string bool
  | LegacyOrchestrationError string
  | CapabilityRegistryError string
  | ValidationError string
  | DatabaseError string
  | LegacyLearningStateError string
  | AttributeError string
  | RegexError string

fun exc_str :: "pyexc \<Rightarrow> string" where
  "exc_str (PolicyViolation m) = m"
| "exc_str (FileNotFoundError m) = m"
| "exc_str (IsADirectoryError m) = m"
| "exc_str (OSError m) = m"
| "exc_str (ValueError m) = m"
| "exc_str (UnicodeDecodeError m) = m"
| "exc_str (TaskScheduleError m) = m"
| "exc_str (KeyError m) = py_repr m"
| "exc_str (TypeError m) = m"
| "exc_str (RuntimeError m) = m"
| "exc_str AssertionError = []"
| "exc_str (PatchError m) = m"
| "exc_str (PatchConflict m) = m"
| "exc_str (PatchPrecheckError m) = m"
| "exc_str (IntegrationError m) = m"
| "exc_str (WorkspaceCopyError m) = m"
| "exc_str (RepairBudgetExhausted m) = m"
| "exc_str (ModelGatewayError m t) = m"
| "exc_str (LegacyOrchestrationError m) = m"
| "exc_str (CapabilityRegistryError m) = m"
| "exc_str (ValidationError m) = m"
| "exc_str (DatabaseError m) = m"
| "exc_str (LegacyLearningStateError m) = m"
| "exc_str (AttributeError m) = m"
| "exc_str (RegexError m) = m"

text \<open>\<open>type(exc).__name__\<close>\<close>

fun exc_name :: "pyexc \<Rightarrow> string" where
  "exc_name (PolicyViolation m) = ''PolicyViolation''"
| "exc_name (FileNotFoundError m) = ''FileNotFoundError''"
| "exc_name (IsADirectoryError m) = ''IsADirectoryError''"
| "exc_name (OSError m) = ''OSError''"
| "exc_name (ValueError m) = ''ValueError''"
| "exc_name (UnicodeDecodeError m) = ''UnicodeDecodeError''"
| "exc_name (TaskScheduleError m) = ''TaskScheduleError''"
| "exc_name (KeyError m) = ''KeyError''"
| "exc_name (TypeError m) = ''TypeError''"
| "exc_name (RuntimeError m) = ''RuntimeError''"
| "exc_name AssertionError = ''AssertionError''"
| "exc_name (PatchError m) = ''PatchError''"
| "exc_name (PatchConflict m) = ''PatchConflict''"
| "exc_name (PatchPrecheckError m) = ''PatchPrecheckError''"
| "exc_name (IntegrationError m) = ''IntegrationError''"
| "exc_name (WorkspaceCopyError m) = ''WorkspaceCopyError''"
| "exc_name (RepairBudgetExhausted m) = ''RepairBudgetExhausted''"
| "exc_name (ModelGatewayError m t) = ''ModelGatewayError''"
| "exc_name (LegacyOrchestrationError m) = ''LegacyOrchestrationError''"
| "exc_name (CapabilityRegistryError m) = ''CapabilityRegistryError''"
| "exc_name (ValidationError m) = ''ValidationError''"
| "exc_name (DatabaseError m) = ''DatabaseError''"
| "exc_name (LegacyLearningStateError m) = ''LegacyLearningStateError''"
| "exc_name (AttributeError m) = ''AttributeError''"
| "exc_name (RegexError m) = ''error''"

fun is_os_error :: "pyexc \<Rightarrow> bool" where
  "is_os_error (PolicyViolation m) = True"
| "is_os_error (FileNotFoundError m) = True"
| "is_os_error (IsADirectoryError m) = True"
| "is_os_error (OSError m) = True"
| "is_os_error _ = False"

fun is_value_error :: "pyexc \<Rightarrow> bool" where
  "is_value_error (ValueError m) = True"
| "is_value_error (UnicodeDecodeError m) = True"
| "is_value_error (TaskScheduleError m) = True"
| "is_value_error (ValidationError m) = True"
| "is_value_error _ = False"

fun is_runtime_error :: "pyexc \<Rightarrow> bool" where
  "is_runtime_error (RuntimeError m) = True"
| "is_runtime_error (PatchError m) = True"
| "is_runtime_error (PatchConflict m) = True"
| "is_runtime_error (PatchPrecheckError m) = True"
| "is_runtime_error (IntegrationError m) = True"
| "is_runtime_error (WorkspaceCopyError m) = True"
| "is_runtime_error (RepairBudgetExhausted m) = True"
| "is_runtime_error (ModelGatewayError m t) = True"
| "is_runtime_error (LegacyOrchestrationError m) = True"
| "is_runtime_error (CapabilityRegistryError m) = True"
| "is_runtime_error (LegacyLearningStateError m) = True"
| "is_runtime_error _ = False"

fun is_patch_error :: "pyexc \<Rightarrow> bool" where
  "is_patch_error (PatchError m) = True"
| "is_patch_error (PatchConflict m) = True"
| "is_patch_error (PatchPrecheckError m) = True"
| "is_patch_error _ = False"

fun is_budget_error :: "pyexc \<Rightarrow> bool" where
  "is_budget_error (RepairBudgetExhausted m) = True"
| "is_budget_error _ = False"

type_synonym 'a res = "pyexc + 'a"

definition rbind :: "'a res \<Rightarrow> ('a \<Rightarrow> 'b res) \<Rightarrow> 'b res" where
  "rbind r f = (case r of Inl e \<Rightarrow> Inl e | Inr x \<Rightarrow> f x)"

text \<open>A list comprehension whose element expression may raise.\<close>

fun mapM :: "('a \<Rightarrow> 'b res) \<Rightarrow> 'a list \<Rightarrow> 'b list res" where
  "mapM f [] = Inr []"
| "mapM f (x # xs) = rbind (f x) (\<lambda>y. rbind (mapM f xs) (\<lambda>ys. Inr (y # ys)))"

section \<open>Strings\<close>

definition is_space :: "char \<Rightarrow> bool" where
  "is_space c \<longleftrightarrow> of_char c \<in> {9::nat, 10, 11, 12, 13, 28, 29, 30, 31, 32}"

definition lstrip :: "string \<Rightarrow> string" where
  "lstrip s = dropWhile is_space s"

definition rstrip :: "string \<Rightarrow> string" where
  "rstrip s = rev (dropWhile is_space (rev s))"

definition strip :: "string \<Rightarrow> string" where
  "strip s = rstrip (lstrip s)"

definition lower_char :: "char \<Rightarrow> char" where
  "lower_char c = (if 65 \<le> (of_char c :: nat) \<and> (of_char c :: nat) \<le> 90
                   then char_of ((of_char c :: nat) + 32) else c)"

definition lower :: "string \<Rightarrow> string" where
  "lower s = map lower_char s"

definition starts_with :: "string \<Rightarrow> string \<Rightarrow> bool" where
  "starts_with p s \<longleftrightarrow> take (length p) s = p"

definition ends_with :: "string \<Rightarrow> string \<Rightarrow> bool" where
  "ends_with p s \<longleftrightarrow> starts_with (rev p) (rev s)"

text \<open>\<open>p in s\<close> on strings\<close>

fun contains :: "string \<Rightarrow> string \<Rightarrow> bool" where
  "contains p [] = (p = [])"
| "contains p (c # cs) = (starts_with p (c # cs) \<or> contains p cs)"

fun join :: "string \<Rightarrow> string list \<Rightarrow> string" where
  "join sep [] = []"
| "join sep [x] = x"
| "join sep (x # y # ys) = x @ sep @ join sep (y # ys)"

text \<open>\<open>s.split(sep)\<close> for a one-character separator\<close>

fun split_on :: "char \<Rightarrow> string \<Rightarrow> string list" where
  "split_on sep [] = [[]]"
| "split_on sep (c # cs) =
     (if c = sep then [] # split_on sep cs
      else (case split_on sep cs of [] \<Rightarrow> [[c]] | w # ws \<Rightarrow> (c # w) # ws))"

definition replace_char :: "char \<Rightarrow> char \<Rightarrow> string \<Rightarrow> string" where
  "replace_char a b s = map (\<lambda>c. if c = a then b else c) s"

text \<open>A UTF-8 continuation byte; code points are counted by the other bytes.\<close>

definition is_cont :: "char \<Rightarrow> bool" where
  "is_cont c \<longleftrightarrow> 128 \<le> (of_char c :: nat) \<and> (of_char c :: nat) < 192"

definition py_len :: "string \<Rightarrow> nat" where
  "py_len s = length (filter (\<lambda>c. \<not> is_cont c) s)"

text \<open>The code points of an encoded text, each as its bytes, and the number a code point has.\<close>

function code_points :: "string \<Rightarrow> string list" where
  "code_points [] = []"
| "code_points (c # cs) = (c # takeWhile is_cont cs) # code_points (dropWhile is_cont cs)"
  by pat_completeness auto
termination
  by (relation "measure length") (auto simp: le_imp_less_Suc length_dropWhile_le)

definition code_point_value :: "string \<Rightarrow> nat" where
  "code_point_value c =
     (case c of
        [] \<Rightarrow> 0
      | [b] \<Rightarrow> of_char b
      | b # bs \<Rightarrow> foldl (\<lambda>n d. n * 64 + (of_char d - 128))
          (of_char b - (if length bs = 1 then 192 else if length bs = 2 then 224 else 240)) bs)"

text \<open>\<open>s[:n]\<close> and \<open>s[n:]\<close>\<close>

fun py_take :: "nat \<Rightarrow> string \<Rightarrow> string" where
  "py_take n [] = []"
| "py_take n (c # cs) =
     (if is_cont c then c # py_take n cs
      else if n = 0 then [] else c # py_take (n - 1) cs)"

definition py_drop :: "nat \<Rightarrow> string \<Rightarrow> string" where
  "py_drop n s = drop (length (py_take n s)) s"

text \<open>
  \<open>s.count(p)\<close> for a non-empty \<open>p\<close> (occurrences that do not overlap), \<open>s.replace(p, r, n)\<close> and
  \<open>s.replace(p, r)\<close>.
\<close>

function (sequential) py_count :: "string \<Rightarrow> string \<Rightarrow> nat" where
  "py_count p [] = 0"
| "py_count p (c # cs) =
     (if p \<noteq> [] \<and> starts_with p (c # cs) then Suc (py_count p (drop (length p) (c # cs)))
      else py_count p cs)"
  by pat_completeness auto
termination
  by (relation "measure (\<lambda>(p, s). length s)") auto

function (sequential) py_replace :: "string \<Rightarrow> string \<Rightarrow> nat \<Rightarrow> string \<Rightarrow> string" where
  "py_replace p r n [] = []"
| "py_replace p r n (c # cs) =
     (if n = 0 then c # cs
      else if p \<noteq> [] \<and> starts_with p (c # cs)
      then r @ py_replace p r (n - 1) (drop (length p) (c # cs))
      else c # py_replace p r n cs)"
  by pat_completeness auto
termination
  by (relation "measure (\<lambda>(p, r, n, s). length s)") auto

definition replace_all :: "string \<Rightarrow> string \<Rightarrow> string \<Rightarrow> string" where
  "replace_all p r s = py_replace p r (py_count p s) s"

text \<open>The truth value of an optional string.\<close>

definition truthy :: "string option \<Rightarrow> bool" where
  "truthy x \<longleftrightarrow> (case x of None \<Rightarrow> False | Some s \<Rightarrow> s \<noteq> [])"

text \<open>\<open>x or y\<close> on an optional string and a string\<close>

definition or_else :: "string option \<Rightarrow> string \<Rightarrow> string" where
  "or_else x y = (case x of None \<Rightarrow> y | Some s \<Rightarrow> if s = [] then y else s)"

text \<open>\<open>x or y\<close> on two optional strings\<close>

definition or_opt :: "string option \<Rightarrow> string option \<Rightarrow> string option" where
  "or_opt x y = (if truthy x then x else y)"

text \<open>Decimal rendering, as \<open>str(n)\<close> and f-strings produce it.\<close>

fun show_nat :: "nat \<Rightarrow> string" where
  "show_nat n = (if n < 10 then [char_of (48 + n)]
                 else show_nat (n div 10) @ [char_of (48 + n mod 10)])"

declare show_nat.simps [simp del]

definition show_int :: "int \<Rightarrow> string" where
  "show_int i = (if i < 0 then ''-'' @ show_nat (nat (- i)) else show_nat (nat i))"

definition newline :: string where
  "newline = [char_of (10::nat)]"

section \<open>Files as bytes, text as UTF-8\<close>

text \<open>
  \<open>Path.read_text(encoding="utf-8")\<close> decodes strictly and opens the file in text mode, so
  \<open>"\r\n"\<close> and \<open>"\r"\<close> become \<open>"\n"\<close>; \<open>write_text\<close> on the supported (POSIX)
  hosts writes the characters as they are.
\<close>

definition in_range :: "nat \<Rightarrow> nat \<Rightarrow> char \<Rightarrow> bool" where
  "in_range a b c \<longleftrightarrow> a \<le> of_char c \<and> of_char c \<le> b"

text \<open>A decimal digit, and the number a text of digits has.\<close>

definition is_digit :: "char \<Rightarrow> bool" where
  "is_digit c \<longleftrightarrow> in_range 48 57 c"

definition digits_value :: "string \<Rightarrow> nat" where
  "digits_value ds = foldl (\<lambda>n c. n * 10 + (of_char c - 48)) 0 ds"

function (sequential) valid_utf8 :: "string \<Rightarrow> bool" where
  "valid_utf8 [] = True"
| "valid_utf8 (c # cs) =
     (if in_range 0 127 c then valid_utf8 cs
      else if in_range 194 223 c then
        (case cs of c1 # r \<Rightarrow> is_cont c1 \<and> valid_utf8 r | _ \<Rightarrow> False)
      else if in_range 224 239 c then
        (case cs of c1 # c2 # r \<Rightarrow>
            is_cont c1 \<and> is_cont c2 \<and>
            (in_range 224 224 c \<longrightarrow> in_range 160 191 c1) \<and>
            (in_range 237 237 c \<longrightarrow> in_range 128 159 c1) \<and> valid_utf8 r
         | _ \<Rightarrow> False)
      else if in_range 240 244 c then
        (case cs of c1 # c2 # c3 # r \<Rightarrow>
            is_cont c1 \<and> is_cont c2 \<and> is_cont c3 \<and>
            (in_range 240 240 c \<longrightarrow> in_range 144 191 c1) \<and>
            (in_range 244 244 c \<longrightarrow> in_range 128 143 c1) \<and> valid_utf8 r
         | _ \<Rightarrow> False)
      else False)"
  by pat_completeness auto
termination
  by (relation "measure length") auto

fun universal_newlines :: "string \<Rightarrow> string" where
  "universal_newlines [] = []"
| "universal_newlines (c # cs) =
     (if of_char c = (13::nat)
      then char_of (10::nat) #
           (case cs of [] \<Rightarrow> []
            | d # ds \<Rightarrow> if of_char d = (10::nat) then universal_newlines ds
                       else universal_newlines (d # ds))
      else c # universal_newlines cs)"

definition read_text :: "string \<Rightarrow> string res" where
  "read_text bs = (if valid_utf8 bs then Inr (universal_newlines bs)
                   else Inl (UnicodeDecodeError ''invalid utf-8''))"

section \<open>Lists and dictionaries\<close>

text \<open>\<open>list(dict.fromkeys(xs))\<close>\<close>

fun dedup :: "'a list \<Rightarrow> 'a list" where
  "dedup [] = []"
| "dedup (x # xs) = x # filter (\<lambda>y. y \<noteq> x) (dedup xs)"

text \<open>\<open>sorted({...})\<close> of a collection given as a list\<close>

definition sorted_set :: "string list \<Rightarrow> string list" where
  "sorted_set xs = sort (remdups xs)"

text \<open>\<open>INSERT OR IGNORE\<close> into a table whose rows have a primary key\<close>

definition insert_or_ignore :: "('r \<Rightarrow> 'k) \<Rightarrow> 'r \<Rightarrow> 'r list \<Rightarrow> 'r list" where
  "insert_or_ignore key r rows = (if key r \<in> key ` set rows then rows else rows @ [r])"

text \<open>JSON values, the payloads of events and the stored results of operations.\<close>

datatype json =
    JNull
  | JBool bool
  | JInt int
  | JFloat real
  | JStr string
  | JList "json list"
  | JObj "(string \<times> json) list"

type_synonym payload = "(string \<times> json) list"

definition jopt :: "string option \<Rightarrow> json" where
  "jopt x = (case x of None \<Rightarrow> JNull | Some s \<Rightarrow> JStr s)"

definition jint_opt :: "int option \<Rightarrow> json" where
  "jint_opt x = (case x of None \<Rightarrow> JNull | Some i \<Rightarrow> JInt i)"

text \<open>\<open>payload.get(key)\<close> and the truth value of the result\<close>

definition jget :: "payload \<Rightarrow> string \<Rightarrow> json" where
  "jget p k = (case map_of p k of None \<Rightarrow> JNull | Some v \<Rightarrow> v)"

fun jtruthy :: "json \<Rightarrow> bool" where
  "jtruthy JNull = False"
| "jtruthy (JBool b) = b"
| "jtruthy (JInt i) = (i \<noteq> 0)"
| "jtruthy (JFloat r) = (r \<noteq> 0)"
| "jtruthy (JStr s) = (s \<noteq> [])"
| "jtruthy (JList xs) = (xs \<noteq> [])"
| "jtruthy (JObj kvs) = (kvs \<noteq> [])"

definition jstrs :: "string list \<Rightarrow> json" where
  "jstrs xs = JList (map JStr xs)"

text \<open>
  \<open>json.dumps(value, sort_keys=True)\<close> with the default separators and \<open>ensure_ascii\<close>; the \<open>repr\<close> of a
  float is the argument \<open>fl\<close>.
\<close>

definition hex4 :: "nat \<Rightarrow> string" where
  "hex4 n = [backslash, CHR ''u''] @ hex2 (n div 256) @ hex2 (n mod 256)"

definition json_code :: "string \<Rightarrow> string" where
  "json_code c =
     (let n = code_point_value c in
      if n = 34 \<or> n = 92 then backslash # c
      else if n = 10 then [backslash, CHR ''n''] else if n = 13 then [backslash, CHR ''r'']
      else if n = 9 then [backslash, CHR ''t''] else if n = 8 then [backslash, CHR ''b'']
      else if n = 12 then [backslash, CHR ''f'']
      else if 65535 < n then hex4 (55296 + (n - 65536) div 1024) @ hex4 (56320 + (n - 65536) mod 1024)
      else if n < 32 \<or> 126 < n then hex4 n
      else c)"

definition json_string :: "string \<Rightarrow> string" where
  "json_string s = [CHR 0x22] @ concat (map json_code (code_points s)) @ [CHR 0x22]"

fun json_dumps :: "(real \<Rightarrow> string) \<Rightarrow> json \<Rightarrow> string" where
  "json_dumps fl JNull = ''null''"
| "json_dumps fl (JBool b) = (if b then ''true'' else ''false'')"
| "json_dumps fl (JInt i) = show_int i"
| "json_dumps fl (JFloat r) = fl r"
| "json_dumps fl (JStr s) = json_string s"
| "json_dumps fl (JList xs) = ''['' @ join '', '' (map (json_dumps fl) xs) @ '']''"
| "json_dumps fl (JObj kvs) =
     ''{'' @ join '', '' (map (\<lambda>(k, v). json_string k @ '': '' @ v)
               (sort_key fst (map (\<lambda>(k, v). (k, json_dumps fl v)) kvs))) @ ''}''"

section \<open>PurePosixPath\<close>

text \<open>
  \<open>PurePosixPath(raw).parts\<close>: the root first when the path is absolute (two leading slashes, and
  only exactly two, are kept as \<open>//\<close>), then the components without the empty ones and \<open>.\<close>.
\<close>

definition is_abs_path :: "string \<Rightarrow> bool" where
  "is_abs_path raw \<longleftrightarrow> starts_with ''/'' raw"

definition path_components :: "string \<Rightarrow> string list" where
  "path_components raw = filter (\<lambda>p. p \<noteq> [] \<and> p \<noteq> ''.'') (split_on (CHR ''/'') raw)"

definition path_parts :: "string \<Rightarrow> string list" where
  "path_parts raw =
     (if is_abs_path raw
      then (if starts_with ''//'' raw \<and> \<not> starts_with ''///'' raw then ''//'' else ''/'')
           # path_components raw
      else path_components raw)"

text \<open>\<open>str(PurePosixPath(*parts))\<close> for parts of one path\<close>

definition path_str :: "string list \<Rightarrow> string" where
  "path_str parts =
     (case parts of [] \<Rightarrow> ''.''
      | r # rest \<Rightarrow> if starts_with ''/'' r then r @ join ''/'' rest else join ''/'' parts)"

definition path_name :: "string \<Rightarrow> string" where
  "path_name raw = (case rev (path_components raw) of [] \<Rightarrow> [] | n # _ \<Rightarrow> n)"

section \<open>Shared lemmas\<close>

subsection \<open>Results\<close>

lemma rbind_simps [simp]: "rbind (Inl e) f = Inl e" "rbind (Inr x) f = f x"
  by (simp_all add: rbind_def)

lemma rbind_Inr_iff: "rbind r f = Inr y \<longleftrightarrow> (\<exists>x. r = Inr x \<and> f x = Inr y)"
  by (cases r) auto

lemma rbind_Inl_iff: "rbind r f = Inl e \<longleftrightarrow> r = Inl e \<or> (\<exists>x. r = Inr x \<and> f x = Inl e)"
  by (cases r) auto

lemma mapM_Inr_iff: "mapM f xs = Inr ys \<longleftrightarrow> list_all2 (\<lambda>x y. f x = Inr y) xs ys"
  by (induction xs arbitrary: ys)
    (auto simp: rbind_Inr_iff list_all2_Cons1)

lemma mapM_length: "mapM f xs = Inr ys \<Longrightarrow> length ys = length xs"
  by (auto simp: mapM_Inr_iff dest: list_all2_lengthD)

lemma mapM_set: "mapM f xs = Inr ys \<Longrightarrow> y \<in> set ys \<Longrightarrow> \<exists>x\<in>set xs. f x = Inr y"
  by (fastforce simp: mapM_Inr_iff list_all2_conv_all_nth in_set_conv_nth)

lemma mapM_set': "mapM f xs = Inr ys \<Longrightarrow> x \<in> set xs \<Longrightarrow> \<exists>y\<in>set ys. f x = Inr y"
  by (fastforce simp: mapM_Inr_iff list_all2_conv_all_nth in_set_conv_nth)

lemma mapM_Inl: "mapM f xs = Inl e \<Longrightarrow> \<exists>x\<in>set xs. f x = Inl e"
  by (induction xs) (auto simp: rbind_Inl_iff)

lemma truthy_simps [simp]: "\<not> truthy None" "truthy (Some s) \<longleftrightarrow> s \<noteq> []"
  by (simp_all add: truthy_def)

lemma or_opt_simps [simp]: "or_opt None y = y" "s \<noteq> [] \<Longrightarrow> or_opt (Some s) y = Some s"
  by (simp_all add: or_opt_def)

subsection \<open>\<open>dedup\<close>\<close>

lemma set_dedup [simp]: "set (dedup xs) = set xs"
  by (induction xs) auto

lemma distinct_dedup [simp]: "distinct (dedup xs)"
  by (induction xs) auto

lemma dedup_distinct_id: "distinct xs \<Longrightarrow> dedup xs = xs"
  by (induction xs) (auto intro: filter_True)

lemma dedup_idem [simp]: "dedup (dedup xs) = dedup xs"
  by (simp add: dedup_distinct_id)

lemma dedup_Nil_iff [simp]: "dedup xs = [] \<longleftrightarrow> xs = []"
  by (cases xs) auto

lemma length_dedup: "length (dedup xs) \<le> length xs"
  by (induction xs) (auto intro: order_trans [OF length_filter_le])

lemma filter_dedup: "filter P (dedup xs) = dedup (filter P xs)"
proof (induction xs)
  case (Cons x xs)
  have swap: "filter P (filter (\<lambda>y. y \<noteq> x) (dedup xs)) = filter (\<lambda>y. y \<noteq> x) (filter P (dedup xs))"
    by (simp add: conj_commute)
  have "\<not> P x \<Longrightarrow> filter (\<lambda>y. y \<noteq> x) (filter P (dedup xs)) = filter P (dedup xs)"
    by (rule filter_True) auto
  with swap Cons.IH show ?case by (simp del: filter_filter)
qed simp

lemma set_sorted_set [simp]: "set (sorted_set xs) = set xs"
  by (simp add: sorted_set_def)

lemma distinct_sorted_set [simp]: "distinct (sorted_set xs)"
  by (simp add: sorted_set_def)

lemma sorted_sorted_set [simp]: "sorted (sorted_set xs)"
  by (simp add: sorted_set_def)

subsection \<open>Splitting, joining and path components\<close>

lemma split_on_not_Nil [simp]: "split_on sep s \<noteq> []"
  by (cases s) (auto split: list.splits)

lemma split_on_no_sep: "w \<in> set (split_on sep s) \<Longrightarrow> sep \<notin> set w"
  by (induction s arbitrary: w) (auto split: if_splits list.splits)

lemma split_on_word: "sep \<notin> set w \<Longrightarrow> split_on sep w = [w]"
  by (induction w) auto

lemma split_on_app:
  assumes "sep \<notin> set w"
  shows "split_on sep (w @ sep # s) = w # split_on sep s"
  using assms by (induction w) auto

lemma split_on_join:
  assumes "ws \<noteq> []" and "\<And>w. w \<in> set ws \<Longrightarrow> sep \<notin> set w"
  shows "split_on sep (join [sep] ws) = ws"
  using assms by (induction "[sep]" ws rule: join.induct) (auto simp: split_on_word split_on_app)

definition clean_part :: "string \<Rightarrow> bool" where
  "clean_part p \<longleftrightarrow> p \<noteq> [] \<and> p \<noteq> ''.'' \<and> CHR ''/'' \<notin> set p"

lemma path_components_clean: "p \<in> set (path_components raw) \<Longrightarrow> clean_part p"
  by (auto simp: path_components_def clean_part_def dest: split_on_no_sep)

lemma path_components_join:
  assumes "ps \<noteq> []" and "\<And>p. p \<in> set ps \<Longrightarrow> clean_part p"
  shows "path_components (join ''/'' ps) = ps"
proof -
  have "split_on (CHR ''/'') (join ''/'' ps) = ps"
    using assms by (intro split_on_join) (auto simp: clean_part_def)
  then show ?thesis
    using assms by (auto simp: path_components_def clean_part_def intro: filter_True)
qed

lemma starts_with_slash: "starts_with ''/'' s \<longleftrightarrow> (\<exists>r. s = CHR ''/'' # r)"
  by (cases s) (auto simp: starts_with_def)

lemma clean_not_abs: "clean_part p \<Longrightarrow> \<not> starts_with ''/'' p"
  by (auto simp: clean_part_def starts_with_slash)

lemma join_Cons_app: "join sep (x # xs) = x @ (if xs = [] then [] else sep @ join sep xs)"
  by (cases xs) auto

lemma clean_join_not_abs:
  assumes "ps \<noteq> []" and "\<And>p. p \<in> set ps \<Longrightarrow> clean_part p"
  shows "\<not> is_abs_path (join ''/'' ps)"
proof -
  obtain p qs where ps: "ps = p # qs" using assms(1) by (cases ps) auto
  then have "clean_part p" using assms(2) by auto
  then obtain c cs where "p = c # cs" "c \<noteq> CHR ''/''" by (cases p) (auto simp: clean_part_def)
  then show ?thesis by (simp add: ps join_Cons_app is_abs_path_def starts_with_slash)
qed

lemma path_str_clean:
  assumes "ps \<noteq> []" and "\<And>p. p \<in> set ps \<Longrightarrow> clean_part p"
  shows "path_str ps = join ''/'' ps"
  using assms by (cases ps) (auto simp: path_str_def clean_not_abs)

subsection \<open>Keyed append-only tables\<close>

text \<open>
  The interface of every append-only table of the runtime: the event log, the in-memory recorder,
  the run table and the tables of applied operations. Appending a row with a known key changes
  nothing; a row with a new key is stored at the end. The lemmas below are what makes a replay after a
  crash harmless: they hold once for every instance.
\<close>

locale keyed_log =
  fixes ident :: "'e \<Rightarrow> 'k"
    and stored :: "'e \<Rightarrow> 'e"
    and append :: "'e \<Rightarrow> 'l \<Rightarrow> 'l"
    and entries :: "'l \<Rightarrow> 'e list"
  assumes append_fresh: "ident e \<notin> ident ` set (entries l) \<Longrightarrow> entries (append e l) = entries l @ [stored e]"
    and append_known: "ident e \<in> ident ` set (entries l) \<Longrightarrow> append e l = l"
    and ident_stored: "ident (stored e) = ident e"
begin

lemma append_ids: "ident ` set (entries (append e l)) = insert (ident e) (ident ` set (entries l))"
  by (cases "ident e \<in> ident ` set (entries l)") (auto simp: append_fresh append_known ident_stored)

lemma append_idem: "append e (append e l) = append e l"
  by (rule append_known) (simp add: append_ids)

lemma append_extends: "\<exists>xs. entries (append e l) = entries l @ xs \<and> set xs \<subseteq> {stored e}"
  by (cases "ident e \<in> ident ` set (entries l)") (auto simp: append_fresh append_known)

lemma append_distinct: "distinct (map ident (entries l)) \<Longrightarrow> distinct (map ident (entries (append e l)))"
  by (cases "ident e \<in> ident ` set (entries l)") (auto simp: append_fresh append_known ident_stored)

lemma fold_append_ids: "ident ` set (entries (fold append es l)) = ident ` set es \<union> ident ` set (entries l)"
  by (induction es arbitrary: l) (auto simp: append_ids)

lemma fold_append_known: "ident ` set es \<subseteq> ident ` set (entries l) \<Longrightarrow> fold append es l = l"
  by (induction es) (auto simp: append_known)

lemma replay: "fold append es (fold append es l) = fold append es l"
  by (rule fold_append_known) (auto simp: fold_append_ids)

lemma fold_append_extends: "\<exists>xs. entries (fold append es l) = entries l @ xs"
proof (induction es arbitrary: l)
  case (Cons e es)
  obtain xs where "entries (append e l) = entries l @ xs" using append_extends by blast
  moreover obtain ys where "entries (fold append es (append e l)) = entries (append e l) @ ys"
    using Cons.IH by blast
  ultimately show ?case by simp
qed simp

lemma fold_append_distinct:
  "distinct (map ident (entries l)) \<Longrightarrow> distinct (map ident (entries (fold append es l)))"
  by (induction es arbitrary: l) (auto simp: append_distinct)

end

lemma insert_or_ignore_keyed_log: "keyed_log key id (insert_or_ignore key) id"
  by unfold_locales (auto simp: insert_or_ignore_def)

subsection \<open>Prefixes and substrings\<close>

lemma starts_with_append: "starts_with p s \<Longrightarrow> starts_with p (s @ r)"
proof -
  assume p: "starts_with p s"
  then have "length p \<le> length s"
    by (metis length_take min.cobounded1 min.commute starts_with_def)
  with p show ?thesis by (simp add: starts_with_def)
qed

lemma starts_with_iff: "starts_with p s \<longleftrightarrow> (\<exists>r. s = p @ r)"
  by (metis append_eq_conv_conj append_take_drop_id starts_with_def)

lemma contains_Nil [simp]: "contains [] s"
  by (cases s) (auto simp: starts_with_def)

lemma contains_append_right: "contains t b \<Longrightarrow> contains t (a @ b)"
  by (induction a) auto

lemma contains_append_left: "contains t a \<Longrightarrow> contains t (a @ b)"
  by (induction a) (auto dest: starts_with_append)

lemma contains_self: "contains t (a @ t @ b)"
  by (rule contains_append_right, cases t) (auto simp: starts_with_def)

lemma sorted_set_Nil_iff [simp]: "sorted_set xs = [] \<longleftrightarrow> xs = []"
  by (metis set_empty set_sorted_set)

subsection \<open>Code points\<close>

lemma py_len_Nil [simp]: "py_len [] = 0"
  by (simp add: py_len_def)

lemma py_len_append [simp]: "py_len (a @ b) = py_len a + py_len b"
  by (simp add: py_len_def)

lemma py_len_Cons: "py_len (c # s) = (if is_cont c then 0 else 1) + py_len s"
  by (simp add: py_len_def)

lemma py_len_py_take: "py_len (py_take n s) = min n (py_len s)"
  by (induction n s rule: py_take.induct) (auto simp: py_len_Cons)

lemma py_len_le_length: "py_len s \<le> length s"
  by (simp add: py_len_def)

lemma py_take_prefix: "\<exists>t. s = py_take n s @ t"
  by (induction n s rule: py_take.induct) auto

lemma py_take_append_py_drop: "py_take n s @ py_drop n s = s"
proof -
  obtain t where "s = py_take n s @ t" using py_take_prefix by blast
  then show ?thesis unfolding py_drop_def by (metis append_eq_conv_conj)
qed

lemma py_take_all: "py_len s \<le> n \<Longrightarrow> py_take n s = s"
  by (induction n s rule: py_take.induct) (auto simp: py_len_Cons split: if_splits)

subsection \<open>Stripping\<close>

lemma strip_Nil [simp]: "strip [] = []"
  by (simp add: strip_def lstrip_def rstrip_def)

lemma strip_id:
  assumes "s \<noteq> [] \<Longrightarrow> \<not> is_space (hd s) \<and> \<not> is_space (last s)"
  shows "strip s = s"
proof (cases s)
  case (Cons c cs)
  then have "lstrip s = s" using assms by (simp add: lstrip_def)
  moreover have "rstrip s = s"
  proof (cases s rule: rev_cases)
    case (snoc xs x)
    then show ?thesis using assms by (simp add: rstrip_def)
  qed (simp add: rstrip_def)
  ultimately show ?thesis by (simp add: strip_def)
qed simp

subsection \<open>Decimal numerals\<close>

text \<open>Distinct numbers have distinct renderings, so identifiers built from them do not collide.\<close>

lemma show_nat_digit: "n < 10 \<Longrightarrow> show_nat n = [char_of (48 + n)]"
  by (subst show_nat.simps) simp

lemma show_nat_rec: "10 \<le> n \<Longrightarrow> show_nat n = show_nat (n div 10) @ [char_of (48 + n mod 10)]"
  by (subst show_nat.simps) simp

lemma show_nat_not_Nil [simp]: "show_nat n \<noteq> []"
  by (subst show_nat.simps) simp

lemma char_of_digit_inj:
  "(a::nat) < 10 \<Longrightarrow> b < 10 \<Longrightarrow> (char_of (48 + a) :: char) = char_of (48 + b) \<Longrightarrow> a = b"
  by (drule arg_cong [of _ _ "of_char :: char \<Rightarrow> nat"]) (simp add: of_char_of)

lemma show_nat_digits: "c \<in> set (show_nat n) \<Longrightarrow> 48 \<le> (of_char c :: nat) \<and> (of_char c :: nat) \<le> 57"
proof (induction n rule: less_induct)
  case (less n)
  show ?case
  proof (cases "n < 10")
    case True
    with less.prems show ?thesis by (auto simp: show_nat_digit of_char_of)
  next
    case False
    then have "c \<in> set (show_nat (n div 10)) \<or> c = char_of (48 + n mod 10)"
      using less.prems by (auto simp: show_nat_rec)
    moreover have "n div 10 < n" using False by simp
    ultimately show ?thesis using less.IH by (auto simp: of_char_of)
  qed
qed

lemma show_nat_inj: "show_nat a = show_nat b \<Longrightarrow> a = b"
proof (induction a arbitrary: b rule: less_induct)
  case (less a)
  have len1: "length (show_nat k) = 1 \<Longrightarrow> k < 10" for k :: nat
    by (cases "k < 10") (auto simp: show_nat_rec)
  show ?case
  proof (cases "a < 10")
    case True
    then have "length (show_nat a) = 1" by (simp add: show_nat_digit)
    then have "b < 10" using less.prems len1 [of b] by simp
    with True less.prems show ?thesis by (simp add: show_nat_digit char_of_digit_inj)
  next
    case False
    then have b: "\<not> b < 10" using less.prems len1 [of a] by (auto simp: show_nat_digit)
    have eq: "show_nat (a div 10) = show_nat (b div 10)" "a mod 10 = b mod 10"
      using less.prems False b
      by (auto simp: show_nat_rec intro: char_of_digit_inj)
    have "a div 10 = b div 10" using less.IH [OF _ eq(1)] False by simp
    with eq(2) show ?thesis by (metis div_mult_mod_eq)
  qed
qed

end
