(* ===== verification/Domain.thy ===== *)
theory Domain
  imports Prelude "HOL-Library.Multiset"
begin

text \<open>
  The data model of \<^verbatim>\<open>src/src/evoci/domain/models.py\<close>: the literals as datatypes, the pydantic
  models as records, and each validator as a function that returns the validated model or the
  \<open>ValueError\<close> pydantic reports. Field names carry a short prefix where two models share one.
  A \<open>float\<close> is a \<open>real\<close>: the sources only compare confidences and scores. A \<open>datetime\<close> is an
  \<open>int\<close>, except where its parts are read (theory \<open>DateTime\<close>).
\<close>

section \<open>Literals\<close>

datatype investigation_role = RLog | RRepository | RWorkflow | RDependency | RTest | RSpecialist

datatype failure_class = FCRepair | FCModel | FCBudget | FCPolicy | FCInfrastructure

datatype worker_kind = Investigate | Repair

datatype supervisor_action = Dispatch | Stop

datatype worker_task_status = Completed | Blocked | BudgetExhausted

definition ORCHESTRATION_SCHEMA_VERSION :: int where
  "ORCHESTRATION_SCHEMA_VERSION = 3"

datatype evidence_kind =
  CiLog | SourceCode | GitHistory | GitDiff | EWorkflow | EDependency | TestResult | ERuntime

datatype risk_level = Low | Medium | High

datatype command_source = Mandatory | Supplementary

datatype verification_status =
  VPassed | VFailed | VIncomplete | VUnavailable | VInfraError | VInconclusive

datatype review_status = RevPassed | RevFailed | RevNotPerformed

datatype verification_level = Targeted | Repository | FullCi

datatype incomplete_cause = CauseBudget | CauseExecution

datatype oracle_source = OracleHarness | OracleNone

text \<open>The literal strings, where the code renders or compares them.\<close>

fun failure_class_str :: "failure_class \<Rightarrow> string" where
  "failure_class_str FCRepair = ''repair''"
| "failure_class_str FCModel = ''model''"
| "failure_class_str FCBudget = ''budget''"
| "failure_class_str FCPolicy = ''policy''"
| "failure_class_str FCInfrastructure = ''infrastructure''"

fun worker_kind_str :: "worker_kind \<Rightarrow> string" where
  "worker_kind_str Investigate = ''investigate''"
| "worker_kind_str Repair = ''repair''"

fun supervisor_action_str :: "supervisor_action \<Rightarrow> string" where
  "supervisor_action_str Dispatch = ''dispatch''"
| "supervisor_action_str Stop = ''stop''"

fun worker_task_status_str :: "worker_task_status \<Rightarrow> string" where
  "worker_task_status_str Completed = ''completed''"
| "worker_task_status_str Blocked = ''blocked''"
| "worker_task_status_str BudgetExhausted = ''budget_exhausted''"

fun risk_str :: "risk_level \<Rightarrow> string" where
  "risk_str Low = ''low''"
| "risk_str Medium = ''medium''"
| "risk_str High = ''high''"

fun command_source_str :: "command_source \<Rightarrow> string" where
  "command_source_str Mandatory = ''mandatory''"
| "command_source_str Supplementary = ''supplementary''"

fun verification_status_str :: "verification_status \<Rightarrow> string" where
  "verification_status_str VPassed = ''passed''"
| "verification_status_str VFailed = ''failed''"
| "verification_status_str VIncomplete = ''incomplete''"
| "verification_status_str VUnavailable = ''unavailable''"
| "verification_status_str VInfraError = ''infra_error''"
| "verification_status_str VInconclusive = ''inconclusive''"

section \<open>Models\<close>

record repo_spec =
  owner :: string
  repo_name :: string
  base_commit :: string

definition full_name :: "repo_spec \<Rightarrow> string" where
  "full_name r = owner r @ ''/'' @ repo_name r"

record ci_failure =
  cf_summary :: string
  cf_log_excerpt :: string
  failed_commands :: "string list list"
  workflow_yaml :: string
  workflow_path :: "string option"
  task_family :: string

record investigation_task =
  it_task_id :: string
  it_role :: investigation_role
  it_objective :: string
  it_expected_evidence :: "string list"
  it_priority :: int

record investigation_plan =
  ip_tasks :: "investigation_task list"
  ip_reasoning_summary :: string

record evidence_item =
  ev_id :: string
  ev_source_agent :: string
  ev_kind :: evidence_kind
  ev_claim :: string
  ev_file_path :: "string option"
  ev_line_start :: "int option"
  ev_line_end :: "int option"
  ev_command :: "string option"
  ev_excerpt :: "string option"
  ev_confidence :: real
  ev_artifact_ref :: "string option"

record skill_ref =
  sr_skill_id :: string

record task_budget =
  tb_max_model_calls :: int
  tb_max_tool_calls :: int

record worker_task =
  wt_task_id :: string
  wt_kind :: worker_kind
  wt_objective :: string
  wt_acceptance_criteria :: "string list"
  wt_evidence_refs :: "string list"
  wt_hypothesis :: "string option"
  wt_read_scope :: "string list"
  wt_write_scope :: "string list"
  wt_depends_on :: "string list"
  wt_fact_refs :: "string list"
  wt_recommended_skill_refs :: "skill_ref list"
  wt_budget :: "task_budget option"
  wt_resume_candidate_id :: "string option"

record supervisor_decision =
  sd_action :: supervisor_action
  sd_reasoning_summary :: string
  sd_tasks :: "worker_task list"
  sd_stop_reason :: "string option"

record worker_execution_result =
  wr_task_id :: string
  wr_status :: worker_task_status
  wr_summary :: string
  wr_evidence :: "evidence_item list"
  wr_unresolved_questions :: "string list"
  wr_base_revision :: "string option"
  wr_snapshot_id :: "string option"
  wr_patch_artifact_ref :: "string option"
  wr_changed_files :: "string list"
  wr_command_result_refs :: "string list"
  wr_used_memory_ids :: "string list"
  wr_used_skill_refs :: "skill_ref list"

record failed_candidate_ref =
  fc_candidate_id :: string
  fc_task_id :: string
  fc_batch :: int
  fc_baseline_snapshot_id :: string
  fc_artifact_ref :: string
  fc_changed_files :: "string list"

record skill_catalog_entry =
  sce_skill_id :: string
  sce_name :: string
  sce_description :: string

record file_edit =
  fe_path :: string
  fe_content :: "string option"
  fe_delete :: bool
  fe_expected_sha256 :: "string option"

record verification_command_spec =
  vs_argv :: "string list"
  vs_cwd :: string

record patch_proposal =
  pp_summary :: string
  pp_changed_files :: "string list"
  pp_commands_run :: "string list"
  pp_risk :: risk_level
  pp_verification_plan :: "verification_command_spec list"

record fixer_output =
  fo_proposal :: patch_proposal
  fo_edits :: "file_edit list"
  fo_used_memory_ids :: "string list"
  fo_used_skill_refs :: "skill_ref list"

record verification_command_result =
  vc_command :: "string list"
  vc_exit_code :: int
  vc_stdout :: string
  vc_stderr :: string
  vc_timed_out :: bool
  vc_source :: command_source
  vc_executed :: bool
  vc_skip_reason :: "string option"
  vc_cwd :: string

record verification_result =
  vr_passed :: bool
  vr_status :: verification_status
  vr_level :: verification_level
  vr_commands :: "verification_command_result list"
  vr_expected_count :: nat
  vr_executed_count :: nat
  vr_incomplete_reason :: "string option"
  vr_incomplete_cause :: "incomplete_cause option"
  vr_oracle_source :: oracle_source

record review_result =
  rv_accepted :: bool
  rv_performed :: bool
  rv_status :: review_status
  rv_blockers :: "string list"
  rv_warnings :: "string list"
  rv_confidence :: real
  rv_used_memory_ids :: "string list"
  rv_used_skill_refs :: "skill_ref list"

record memory_hit =
  mh_memory_id :: string
  mh_namespace :: string
  mh_content :: string
  mh_score :: real

record skill_catalog =
  sc_entries :: "skill_catalog_entry list"
  sc_omitted_count :: nat
  sc_context_chars :: nat

record skill_usage =
  su_skill_id :: string
  su_agent_id :: string
  su_used_at :: int

section \<open>Validators\<close>

definition unique_task_ids :: "investigation_plan \<Rightarrow> investigation_plan res" where
  "unique_task_ids p =
     (let ids = map it_task_id (ip_tasks p) in
      if length ids \<noteq> card (set ids)
      then Inl (ValueError ''investigation task IDs must be unique'') else Inr p)"

definition scope_matches_kind :: "worker_task \<Rightarrow> worker_task res" where
  "scope_matches_kind t =
     (if strip (wt_task_id t) = [] then Inl (ValueError ''task_id must be non-empty'')
      else if wt_kind t = Investigate \<and> wt_write_scope t \<noteq> []
      then Inl (ValueError ''investigate tasks cannot declare write_scope'')
      else if wt_depends_on t \<noteq> []
      then Inl (ValueError ''depends_on is removed; dispatch exactly one independent task'')
      else Inr t)"

definition action_payload_is_complete :: "supervisor_decision \<Rightarrow> supervisor_decision res" where
  "action_payload_is_complete d =
     (let ids = map wt_task_id (sd_tasks d) in
      if length ids \<noteq> card (set ids) then Inl (ValueError ''worker task IDs must be unique'')
      else if sd_action d = Dispatch \<and> length (sd_tasks d) \<noteq> 1
      then Inl (ValueError ''dispatch requires exactly one task'')
      else if sd_action d = Stop \<and> sd_tasks d \<noteq> []
      then Inl (ValueError ''stop cannot include tasks'')
      else if sd_action d = Stop \<and> strip (or_else (sd_stop_reason d) []) = []
      then Inl (ValueError ''stop requires stop_reason'')
      else Inr d)"

definition content_matches_operation :: "file_edit \<Rightarrow> file_edit res" where
  "content_matches_operation e =
     (if fe_delete e = (fe_content e \<noteq> None)
      then Inl (ValueError ''exactly one of delete=true or content must be provided'')
      else Inr e)"

definition normalize_repo_cwd :: "string option \<Rightarrow> string res" where
  "normalize_repo_cwd cwd =
     (let raw = (case cwd of None \<Rightarrow> ''.'' | Some c \<Rightarrow> or_else (Some (strip c)) ''.'') in
      if is_abs_path raw
      then Inl (ValueError (''verification cwd must be workspace-relative: '' @ or_else cwd []))
      else
        let parts = filter (\<lambda>p. p \<noteq> [] \<and> p \<noteq> ''.'')
                      (path_parts (replace_char (char_of (92::nat)) (CHR ''/'') raw)) in
        if ''..'' \<in> set parts
        then Inl (ValueError (''verification cwd escapes workspace: '' @ or_else cwd []))
        else if parts = [] then Inr ''.'' else Inr (path_str parts))"

text \<open>
  \<open>VerificationCommandSpec(argv=..., cwd=...)\<close>: between 1 and 32 items, each with a visible
  character, and the normalised working directory.
\<close>

definition mk_command_spec :: "string list \<Rightarrow> string \<Rightarrow> verification_command_spec res" where
  "mk_command_spec argv cwd =
     (if argv = [] \<or> 32 < length argv then Inl (ValueError ''argv length'')
      else if list_ex (\<lambda>a. strip a = []) argv
      then Inl (ValueError ''verification argv items must be non-empty'')
      else rbind (normalize_repo_cwd (Some cwd)) (\<lambda>c. Inr \<lparr>vs_argv = argv, vs_cwd = c\<rparr>))"

text \<open>
  The objects \<open>parse_verification_command\<close> accepts: a parsed spec, a dict (an absent key is
  \<open>None\<close>), a list or tuple of strings; \<open>RawOther\<close> stands for every other object, which includes
  a dict or list with an item of the wrong type.
\<close>

datatype raw_command =
    RawSpec verification_command_spec
  | RawDict "string list option" "string option"
  | RawList "string list"
  | RawOther

fun parse_verification_command :: "raw_command \<Rightarrow> verification_command_spec res" where
  "parse_verification_command (RawSpec s) = Inr s"
| "parse_verification_command (RawDict argv cwd) =
     (case argv of None \<Rightarrow> Inl (ValueError ''argv is required'')
      | Some a \<Rightarrow> mk_command_spec a (case cwd of None \<Rightarrow> ''.'' | Some c \<Rightarrow> c))"
| "parse_verification_command (RawList argv) =
     (if argv = [] then Inl (ValueError ''invalid verification command'')
      else mk_command_spec argv ''.'')"
| "parse_verification_command RawOther = Inl (ValueError ''invalid verification command'')"

definition parse_verification_plan ::
  "raw_command list option \<Rightarrow> verification_command_spec list res" where
  "parse_verification_plan raw =
     (case raw of None \<Rightarrow> Inr [] | Some items \<Rightarrow> mapM parse_verification_command items)"

definition edits_match_changed_files :: "fixer_output \<Rightarrow> fixer_output res" where
  "edits_match_changed_files o' =
     (if sort (map fe_path (fo_edits o')) \<noteq> sort (pp_changed_files (fo_proposal o'))
      then Inl (ValueError ''proposal changed_files must exactly match edit paths'')
      else Inr o')"

text \<open>
  The \<open>mode="before"\<close> validator of \<open>VerificationResult\<close>: zero counts are replaced by the number
  of commands and of executed commands, and a bare \<open>passed=True\<close> gets the status \<open>passed\<close>.
\<close>

definition normalize_completeness :: "verification_result \<Rightarrow> verification_result" where
  "normalize_completeness v =
     v\<lparr>vr_status := (if vr_passed v \<and> vr_status v = VFailed \<and> \<not> truthy (vr_incomplete_reason v)
                     then VPassed else vr_status v),
       vr_expected_count := (if vr_expected_count v \<noteq> 0 then vr_expected_count v
                             else length (vr_commands v)),
       vr_executed_count := (if vr_executed_count v \<noteq> 0 then vr_executed_count v
                             else length (filter vc_executed (vr_commands v)))\<rparr>"

definition verify_success_contract :: "verification_result \<Rightarrow> verification_result res" where
  "verify_success_contract v =
     (if vr_passed v \<and> vr_status v \<noteq> VPassed
      then Inl (ValueError ''passed=true is only valid for verified success'')
      else if vr_status v = VPassed \<and> \<not> vr_passed v
      then Inl (ValueError ''status=passed requires passed=true'')
      else Inr v)"

definition mk_verification_result :: "verification_result \<Rightarrow> verification_result res" where
  "mk_verification_result v = verify_success_contract (normalize_completeness v)"

definition normalize_review_status :: "review_result \<Rightarrow> review_result" where
  "normalize_review_status r =
     (if \<not> rv_performed r then r\<lparr>rv_accepted := False, rv_status := RevNotPerformed\<rparr>
      else if rv_accepted r then r\<lparr>rv_status := RevPassed\<rparr>
      else r\<lparr>rv_status := RevFailed\<rparr>)"

definition unperformed_review_is_not_accepted :: "review_result \<Rightarrow> review_result res" where
  "unperformed_review_is_not_accepted r =
     (if \<not> rv_performed r \<and> rv_accepted r
      then Inl (ValueError ''unperformed review cannot be accepted'') else Inr r)"

definition mk_review_result :: "review_result \<Rightarrow> review_result res" where
  "mk_review_result r = unperformed_review_is_not_accepted (normalize_review_status r)"

section \<open>Facts the components use\<close>

lemma card_set_length_distinct: "length xs = card (set xs) \<longleftrightarrow> distinct xs"
  by (metis card_distinct distinct_card)

lemma action_payload_dispatch:
  assumes "action_payload_is_complete d = Inr d'" and "sd_action d = Dispatch"
  shows "d' = d" "\<exists>t. sd_tasks d = [t]"
proof -
  have "length (sd_tasks d) = Suc 0" and "d' = d"
    using assms by (auto simp: action_payload_is_complete_def Let_def split: if_splits)
  then show "d' = d" "\<exists>t. sd_tasks d = [t]"
    by (auto simp: length_Suc_conv)
qed

lemma edits_match_mset:
  assumes "edits_match_changed_files o' = Inr out"
  shows "mset (map fe_path (fo_edits out)) = mset (pp_changed_files (fo_proposal out))"
proof -
  have "out = o'" and eq: "sort (map fe_path (fo_edits o')) = sort (pp_changed_files (fo_proposal o'))"
    using assms by (auto simp: edits_match_changed_files_def split: if_splits)
  then show ?thesis by (metis mset_sort)
qed

lemma mk_verification_result_shape:
  assumes "mk_verification_result v = Inr r"
  shows "vr_commands r = vr_commands v" "vr_incomplete_reason r = vr_incomplete_reason v"
    "vr_incomplete_cause r = vr_incomplete_cause v" "vr_passed r = vr_passed v"
    "vr_passed r \<longleftrightarrow> vr_status r = VPassed"
  using assms
  by (auto simp: mk_verification_result_def verify_success_contract_def normalize_completeness_def
      split: if_splits)

end
