(* ===== verification/Policy.thy ===== *)
theory Policy
  imports Domain "HOL-Library.Sublist"
begin

text \<open>
  The permission layer: \<^verbatim>\<open>tools/policy.py\<close> (capabilities, the workspace boundary, the command
  allowlist), \<^verbatim>\<open>tools/scope.py\<close> (write authorisation by exact path), \<^verbatim>\<open>graph/scheduler.py\<close> (harness
  checks of a dispatched task) and \<^verbatim>\<open>graph/routing.py\<close> (the approval gate and the scan of the final
  diff for test bypasses).

  The file system is a map from absolute paths, as lists of components, to nodes. A path that a
  symbolic link does not occur in is canonical; \<open>resolve_path\<close> is \<open>Path.resolve()\<close>, following at most
  40 links, the kernel's bound. A longer chain, which includes every loop, is an \<open>OSError\<close> here, whether or not
  the path has to exist; Python reports a loop as a \<open>RuntimeError\<close> before version 3.13 and, since then, leaves the
  rest of a path that need not exist as it is.
\<close>

lemma starts_with_prefix: "starts_with p s \<longleftrightarrow> prefix p s"
  by (metis append_eq_conv_conj prefix_def starts_with_def append_take_drop_id)

section \<open>File system and workspace boundary\<close>

type_synonym path = "string list"

text \<open>A regular file has its bytes and its permission bits; a link has its target's components.\<close>

datatype node = Reg string int | Dir | Link path

type_synonym fs = "path \<rightharpoonup> node"

definition link_at :: "fs \<Rightarrow> path \<Rightarrow> path option" where
  "link_at fs p = (case fs p of Some (Link t) \<Rightarrow> Some t | _ \<Rightarrow> None)"

function (sequential) resolve_from :: "nat \<Rightarrow> fs \<Rightarrow> path \<Rightarrow> path \<Rightarrow> path res" where
  "resolve_from n fs acc [] = Inr acc"
| "resolve_from n fs acc (c # cs) =
     (if c = ''..'' then resolve_from n fs (butlast acc) cs
      else (case link_at fs (acc @ [c]) of
              Some t \<Rightarrow>
                (if n = 0 then Inl (OSError ''too many levels of symbolic links'')
                 else resolve_from (n - 1) fs [] (t @ cs))
            | None \<Rightarrow> resolve_from n fs (acc @ [c]) cs))"
  by pat_completeness auto
termination
  by (relation "measures [\<lambda>(n, fs, acc, cs). n, \<lambda>(n, fs, acc, cs). length cs]") auto

definition resolve_path :: "fs \<Rightarrow> path \<Rightarrow> path res" where
  "resolve_path fs p = resolve_from 40 fs [] p"

text \<open>\<open>root / path\<close>: an absolute right operand replaces the left one.\<close>

definition join_root :: "path \<Rightarrow> string \<Rightarrow> path" where
  "join_root wroot p = (if is_abs_path p then path_components p else wroot @ path_components p)"

definition path_exists :: "fs \<Rightarrow> path \<Rightarrow> bool" where
  "path_exists fs p \<longleftrightarrow> fs p \<noteq> None"

definition is_file :: "fs \<Rightarrow> path \<Rightarrow> bool" where
  "is_file fs p \<longleftrightarrow> (case fs p of Some (Reg b m) \<Rightarrow> True | _ \<Rightarrow> False)"

text \<open>\<open>raw.is_symlink()\<close> of a path that is not resolved: its directory is, its last part is not.\<close>

definition is_symlink :: "fs \<Rightarrow> path \<Rightarrow> bool" where
  "is_symlink fs p \<longleftrightarrow>
     (case resolve_path fs (butlast p) of
        Inl e \<Rightarrow> False
      | Inr d \<Rightarrow> p \<noteq> [] \<and> link_at fs (d @ [last p]) \<noteq> None)"

text \<open>\<open>WorkspaceBoundary.resolve\<close>; \<open>wroot\<close> is the boundary's resolved root.\<close>

definition boundary_resolve :: "fs \<Rightarrow> path \<Rightarrow> string \<Rightarrow> bool \<Rightarrow> path res" where
  "boundary_resolve fs wroot p must_exist =
     rbind (resolve_path fs (join_root wroot p)) (\<lambda>candidate.
       if candidate \<noteq> wroot \<and> \<not> strict_prefix wroot candidate
       then Inl (PolicyViolation (''path escapes workspace: '' @ p))
       else if must_exist \<and> \<not> path_exists fs candidate
       then Inl (FileNotFoundError (path_str (''/'' # candidate)))
       else Inr candidate)"

section \<open>Capabilities\<close>

record worker_capabilities =
  read_files :: bool
  search_code_cap :: bool
  git_read :: bool
  execute_tests :: bool
  write_files :: bool
  network :: bool

definition SUPERVISOR_CAPABILITIES :: worker_capabilities where
  "SUPERVISOR_CAPABILITIES = \<lparr>read_files = True, search_code_cap = True, git_read = True,
     execute_tests = False, write_files = False, network = False\<rparr>"

definition WORKER_INVESTIGATE_CAPABILITIES :: worker_capabilities where
  "WORKER_INVESTIGATE_CAPABILITIES = \<lparr>read_files = True, search_code_cap = True, git_read = True,
     execute_tests = True, write_files = False, network = False\<rparr>"

definition WORKER_REPAIR_CAPABILITIES :: worker_capabilities where
  "WORKER_REPAIR_CAPABILITIES = \<lparr>read_files = True, search_code_cap = True, git_read = True,
     execute_tests = True, write_files = True, network = False\<rparr>"

section \<open>Command allowlist\<close>

definition SAFE_COMMANDS :: "string list" where
  "SAFE_COMMANDS = [''python'', ''python3'', ''pytest'', ''ruff'', ''mypy'', ''git'', ''uv'',
     ''npm'', ''pnpm'', ''yarn'', ''node'', ''cargo'', ''go'']"

definition is_digit :: "char \<Rightarrow> bool" where
  "is_digit c \<longleftrightarrow> in_range 48 57 c"

text \<open>\<open>re.fullmatch(r"python3(?:\.\d+)?", executable)\<close>\<close>

definition versioned_python :: "string \<Rightarrow> bool" where
  "versioned_python x \<longleftrightarrow>
     x = ''python3'' \<or>
     (starts_with ''python3.'' x \<and> drop 8 x \<noteq> [] \<and> list_all is_digit (drop 8 x))"

definition forbidden_patterns :: "string list" where
  "forbidden_patterns = [''sudo '', ''rm -rf'', ''curl '', ''wget '', ''--privileged'', ''/etc/'', ''../'']"

definition validate_command :: "string list \<Rightarrow> bool \<Rightarrow> unit res" where
  "validate_command argv net =
     (case argv of
        [] \<Rightarrow> Inl (PolicyViolation ''empty command'')
      | a0 # _ \<Rightarrow>
        (let executable = path_name a0; joined = lower (join '' '' argv) in
         if executable \<notin> set SAFE_COMMANDS \<and> \<not> versioned_python executable
         then Inl (PolicyViolation (''command is not allowlisted: '' @ executable))
         else if list_ex (\<lambda>token. contains token joined) forbidden_patterns
         then Inl (PolicyViolation ''command contains a forbidden pattern'')
         else if \<not> net \<and> executable \<in> {''npm'', ''pnpm'', ''yarn'', ''uv''} \<and>
                 list_ex (\<lambda>token. token \<in> set argv) [''add'', ''install'', ''publish'', ''upload'']
         then Inl (PolicyViolation ''network-affecting package command is disabled'')
         else Inr ()))"

section \<open>Write scope\<close>

definition normalize_write_path :: "string \<Rightarrow> string res" where
  "normalize_write_path p =
     (let raw = strip p in
      if raw = [] \<or> raw = ''.'' \<or> raw = ''./''
      then Inl (PolicyViolation ''write path must be a relative file path'')
      else if is_abs_path raw then Inl (PolicyViolation (''path escapes workspace: '' @ p))
      else
        let parts = filter (\<lambda>x. x \<noteq> [] \<and> x \<noteq> ''.'') (path_parts raw) in
        if parts = [] \<or> ''..'' \<in> set parts
        then Inl (PolicyViolation (''path escapes workspace: '' @ p))
        else Inr (path_str parts))"

definition normalize_write_scope :: "string list \<Rightarrow> string list res" where
  "normalize_write_scope paths = rbind (mapM normalize_write_path paths) (\<lambda>unique. Inr (dedup unique))"

text \<open>
  The optional workspace is the pair of a file system and a boundary root. An empty scope allows
  every path, as the \<open>if allowed and ...\<close> of the source does.
\<close>

definition assert_write_path_allowed ::
  "string \<Rightarrow> string list \<Rightarrow> (fs \<times> path) option \<Rightarrow> string res" where
  "assert_write_path_allowed p write_scope workspace =
     rbind (normalize_write_path p) (\<lambda>normalized.
       if write_scope \<noteq> [] \<and> normalized \<notin> set write_scope
       then Inl (PolicyViolation (''write outside task write_scope: '' @ p))
       else (case workspace of
               None \<Rightarrow> Inr normalized
             | Some (fs, wroot) \<Rightarrow>
                 rbind (boundary_resolve fs wroot normalized False) (\<lambda>target.
                   if is_symlink fs (join_root wroot normalized) \<or> is_symlink fs target
                   then Inl (PolicyViolation (''refusing to operate on symlink: '' @ p))
                   else Inr normalized)))"

section \<open>Scheduler\<close>

definition normalize_task :: "worker_task \<Rightarrow> worker_task res" where
  "normalize_task task =
     rbind (normalize_write_scope (wt_write_scope task)) (\<lambda>ws.
       rbind (if wt_read_scope task = [] then Inr [] else normalize_write_scope (wt_read_scope task))
         (\<lambda>rs. Inr (task\<lparr>wt_write_scope := ws, wt_read_scope := rs\<rparr>)))"

definition validate_single_task ::
  "worker_task list \<Rightarrow> string set \<Rightarrow> int \<Rightarrow> int \<Rightarrow> worker_task res" where
  "validate_single_task tasks known_task_ids remaining_model_calls remaining_tool_calls =
     (case tasks of
        [t] \<Rightarrow>
          rbind (normalize_task t) (\<lambda>task.
            if wt_task_id task \<in> known_task_ids
            then Inl (TaskScheduleError (''task_id already used in this run: '' @ wt_task_id task))
            else if wt_depends_on task \<noteq> []
            then Inl (TaskScheduleError ''depends_on is not supported'')
            else if wt_kind task = Repair \<and> wt_write_scope task = []
            then Inl (TaskScheduleError (''repair task '' @ wt_task_id task @
                   '' must declare exact write_scope paths''))
            else if wt_kind task = Investigate \<and> wt_write_scope task \<noteq> []
            then Inl (TaskScheduleError (''investigate task '' @ wt_task_id task @ '' cannot write''))
            else (case wt_budget task of
                    None \<Rightarrow> Inr task
                  | Some b \<Rightarrow>
                      if remaining_model_calls < tb_max_model_calls b
                      then Inl (TaskScheduleError (''task '' @ wt_task_id task @
                             '' exceeds remaining model-call budget''))
                      else if remaining_tool_calls < tb_max_tool_calls b
                      then Inl (TaskScheduleError (''task '' @ wt_task_id task @
                             '' exceeds remaining tool-call budget''))
                      else Inr task))
      | _ \<Rightarrow> Inl (TaskScheduleError ''dispatch requires exactly one task''))"

section \<open>Approval gate and review bypass scan\<close>

definition requires_approval :: "fixer_output \<Rightarrow> bool" where
  "requires_approval output =
     (let proposal = fo_proposal output;
          paths = remdups (map path_parts (pp_changed_files proposal));
          lowered = map (\<lambda>p. lower (path_name (path_str p))) paths
      in pp_risk proposal \<in> {Medium, High} \<or>
         list_ex (\<lambda>p. starts_with ''.github/workflows/'' (path_str p)) paths \<or>
         list_ex fe_delete (fo_edits output) \<or> length paths > 4 \<or>
         (list_ex (\<lambda>n. n \<in> {''pyproject.toml'', ''package.json'', ''cargo.toml'', ''go.mod''}) lowered
          \<and> list_ex (\<lambda>n. n \<in> {''uv.lock'', ''poetry.lock'', ''package-lock.json'',
                              ''pnpm-lock.yaml'', ''yarn.lock''}) lowered))"

definition bypass_tokens :: "string list" where
  "bypass_tokens = [''pytest.skip('', ''@pytest.mark.skip'', ''continue-on-error: true'',
     ''|| true'', ''# noqa'', ''eslint-disable'']"

text \<open>
  The two Git calls of \<open>contains_workspace_review_bypass\<close> are parameters: the lines of
  \<open>git diff --unified=0 HEAD --\<close> and the rows of \<open>git status --porcelain=v1 --untracked-files=all\<close>,
  \<open>None\<close> for a non-zero exit status; \<open>decode\<close> is UTF-8 decoding with \<open>errors="replace"\<close>.
\<close>

definition diff_blockers :: "string list \<Rightarrow> string list" where
  "diff_blockers diff_lines =
     concat (map (\<lambda>line.
       if starts_with ''+'' line \<and> \<not> starts_with ''+++'' line
       then map (\<lambda>token. ''possible test or CI bypass in final diff: '' @ token)
              (filter (\<lambda>token. contains token line) bypass_tokens)
       else []) diff_lines)"

definition untracked_blockers ::
  "(string \<Rightarrow> string) \<Rightarrow> fs \<Rightarrow> path \<Rightarrow> string list \<Rightarrow> string list" where
  "untracked_blockers decode fs wroot rows =
     concat (map (\<lambda>row.
       if \<not> starts_with ''?? '' row then []
       else
         let relative = drop 3 row in
         if relative = ''.evoci'' \<or> starts_with ''.evoci/'' relative then []
         else (case resolve_path fs (join_root wroot relative) of
                 Inl e \<Rightarrow> []
               | Inr target \<Rightarrow>
                   (case fs target of
                      Some (Reg b m) \<Rightarrow>
                        if strict_prefix wroot target \<and>
                           list_ex (\<lambda>token. contains token (universal_newlines (decode b))) bypass_tokens
                        then [''possible test or CI bypass in untracked file '' @ relative] else []
                    | _ \<Rightarrow> []))) rows)"

definition contains_workspace_review_bypass ::
  "(string \<Rightarrow> string) \<Rightarrow> string list option \<Rightarrow> string list option \<Rightarrow> fs \<Rightarrow> path \<Rightarrow> string list" where
  "contains_workspace_review_bypass decode diff_out status_out fs wroot =
     sorted_set
       ((case diff_out of None \<Rightarrow> [] | Some lines \<Rightarrow> diff_blockers lines) @
        (case status_out of None \<Rightarrow> [] | Some rows \<Rightarrow> untracked_blockers decode fs wroot rows))"

section \<open>Lemmas\<close>

lemma path_parts_rel: "\<not> is_abs_path raw \<Longrightarrow> path_parts raw = path_components raw"
  by (simp add: path_parts_def)

lemma filter_path_components [simp]:
  "filter (\<lambda>x. x \<noteq> [] \<and> x \<noteq> ''.'') (path_components raw) = path_components raw"
  by (simp add: path_components_def)

text \<open>The only way \<open>normalize_write_path\<close> returns: clean relative components, joined.\<close>

lemma normalize_write_pathE:
  assumes "normalize_write_path p = Inr q"
  obtains ps where "ps \<noteq> []" "\<And>x. x \<in> set ps \<Longrightarrow> clean_part x" "''..'' \<notin> set ps"
    "q = join ''/'' ps" "ps = path_components (strip p)"
proof
  let ?ps = "path_components (strip p)"
  have noabs: "\<not> is_abs_path (strip p)"
    using assms by (auto simp: normalize_write_path_def Let_def split: if_splits)
  show ne: "?ps \<noteq> []" and "''..'' \<notin> set ?ps"
    using assms noabs by (auto simp: normalize_write_path_def Let_def path_parts_rel split: if_splits)
  show cl: "clean_part x" if "x \<in> set ?ps" for x using that by (rule path_components_clean)
  have "q = path_str ?ps"
    using assms noabs by (auto simp: normalize_write_path_def Let_def path_parts_rel split: if_splits)
  then show "q = join ''/'' ?ps" using path_str_clean [OF ne cl] by simp
qed simp

lemma normalize_write_path_components:
  assumes "normalize_write_path p = Inr q"
  shows "path_components q \<noteq> []" "''..'' \<notin> set (path_components q)" "\<not> is_abs_path q"
    "q = join ''/'' (path_components q)"
proof -
  obtain ps where ps: "ps \<noteq> []" "\<And>x. x \<in> set ps \<Longrightarrow> clean_part x" "''..'' \<notin> set ps"
    "q = join ''/'' ps" using normalize_write_pathE [OF assms] by blast
  then have "path_components q = ps" by (simp add: path_components_join)
  with ps show "path_components q \<noteq> []" "''..'' \<notin> set (path_components q)" "\<not> is_abs_path q"
    "q = join ''/'' (path_components q)"
    by (auto simp: clean_join_not_abs)
qed

lemma normalize_write_scope_mem:
  assumes "normalize_write_scope ps = Inr qs" and "q \<in> set qs"
  shows "\<exists>p\<in>set ps. normalize_write_path p = Inr q"
  using assms by (auto simp: normalize_write_scope_def rbind_Inr_iff dest: mapM_set)

lemma normalize_write_scope_Nil_iff: "normalize_write_scope ps = Inr [] \<longleftrightarrow> ps = []"
  by (cases ps) (auto simp: normalize_write_scope_def rbind_Inr_iff)

text \<open>The resolution of a path without links and \<open>..\<close> is the path itself.\<close>

lemma resolve_from_lexical:
  assumes "\<And>k. k < length cs \<Longrightarrow> link_at fs (acc @ take (Suc k) cs) = None"
    and "''..'' \<notin> set cs"
  shows "resolve_from n fs acc cs = Inr (acc @ cs)"
  using assms
proof (induction cs arbitrary: acc)
  case (Cons c cs)
  have nolink: "link_at fs (acc @ [c]) = None" using Cons.prems(1) [of 0] by simp
  have "link_at fs ((acc @ [c]) @ take (Suc k) cs) = None" if "k < length cs" for k
    using Cons.prems(1) [of "Suc k"] that by simp
  then have "resolve_from n fs (acc @ [c]) cs = Inr ((acc @ [c]) @ cs)"
    using Cons.prems(2) by (intro Cons.IH) auto
  then show ?case using Cons.prems(2) nolink by auto
qed simp

lemma resolve_path_lexical:
  assumes "\<And>q. prefix q p \<Longrightarrow> link_at fs q = None" and "''..'' \<notin> set p"
  shows "resolve_path fs p = Inr p"
  using resolve_from_lexical [of p fs "[]" 40] assms by (auto simp: resolve_path_def take_is_prefix)

lemma boundary_resolve_inside:
  assumes "boundary_resolve fs wroot p must_exist = Inr target"
  shows "prefix wroot target" "must_exist \<Longrightarrow> fs target \<noteq> None"
  using assms
  by (auto simp: boundary_resolve_def rbind_Inr_iff path_exists_def strict_prefix_def split: if_splits)

lemma assert_write_path_allowed_scope:
  assumes "assert_write_path_allowed p scope ws = Inr q"
  shows "normalize_write_path p = Inr q" "scope = [] \<or> q \<in> set scope"
  using assms
  by (auto simp: assert_write_path_allowed_def rbind_Inr_iff split: if_splits option.splits prod.splits)

lemma normalize_task_fields:
  assumes "normalize_task t = Inr t'"
  shows "wt_task_id t' = wt_task_id t" "wt_kind t' = wt_kind t" "wt_budget t' = wt_budget t"
    "wt_depends_on t' = wt_depends_on t" "normalize_write_scope (wt_write_scope t) = Inr (wt_write_scope t')"
    "wt_fact_refs t' = wt_fact_refs t" "wt_recommended_skill_refs t' = wt_recommended_skill_refs t"
    "wt_resume_candidate_id t' = wt_resume_candidate_id t"
  using assms by (auto simp: normalize_task_def rbind_Inr_iff)

section \<open>Properties\<close>

text \<open>
  a path that write authorisation accepts is a non-empty relative path with no \<open>..\<close> component,
  and if no symbolic link lies on it, the workspace boundary resolves it to the location below the
  root that its components spell, so a scoped write cannot leave the workspace.
\<close>

theorem normalized_write_path_stays_inside:
  assumes "normalize_write_path p = Inr q"
    and "\<And>r. prefix r (wroot @ path_components q) \<Longrightarrow> link_at fs r = None"
    and "''..'' \<notin> set wroot"
  shows "''..'' \<notin> set (path_components q) \<and> path_components q \<noteq> [] \<and>
         boundary_resolve fs wroot q False = Inr (wroot @ path_components q)"
proof -
  note q = normalize_write_path_components [OF assms(1)]
  have "join_root wroot q = wroot @ path_components q" using q by (simp add: join_root_def)
  moreover have "resolve_path fs (wroot @ path_components q) = Inr (wroot @ path_components q)"
    using assms(2,3) q by (intro resolve_path_lexical) auto
  ultimately show ?thesis using q
    by (auto simp: boundary_resolve_def strict_prefix_def)
qed

theorem normalized_write_path_stays_inside_witness:
  "boundary_resolve (Map.empty([''w''] \<mapsto> Dir)) [''w''] ''src/a.py'' False = Inr [''w'', ''src'', ''a.py'']"
proof -
  have n: "normalize_write_path '' src//./a.py '' = Inr ''src/a.py''" by code_simp
  have c: "path_components ''src/a.py'' = [''src'', ''a.py'']" by code_simp
  show ?thesis
    using normalized_write_path_stays_inside [OF n, of "[''w'']" "Map.empty([''w''] \<mapsto> Dir)"]
    by (simp add: c link_at_def)
qed

text \<open>
  C15: whatever links the workspace holds, a path the boundary resolves lies at or below the
  workspace root; every other path is refused with \<open>PolicyViolation\<close> or an \<open>OSError\<close>.
\<close>

theorem boundary_resolve_contained:
  "case boundary_resolve fs wroot p must_exist of
     Inr target \<Rightarrow> prefix wroot target \<and> resolve_path fs (join_root wroot p) = Inr target \<and>
       (must_exist \<longrightarrow> path_exists fs target)
   | Inl e \<Rightarrow> is_os_error e"
proof -
  have "is_os_error e" if "resolve_from n fs acc cs = Inl e" for n acc cs e
    using that by (induction n fs acc cs rule: resolve_from.induct)
      (auto split: if_splits option.splits node.splits)
  then show ?thesis
    by (cases "resolve_path fs (join_root wroot p)")
      (auto simp: boundary_resolve_def strict_prefix_def resolve_path_def)
qed

theorem boundary_resolve_contained_witness:
  "prefix [''w''] [''w'', ''b''] \<and>
   resolve_path [[''w'', ''a''] \<mapsto> Link [''w'', ''b''], [''w'', ''b''] \<mapsto> Reg [] 0] (join_root [''w''] ''a'') =
     Inr [''w'', ''b'']"
proof -
  have "boundary_resolve [[''w'', ''a''] \<mapsto> Link [''w'', ''b''], [''w'', ''b''] \<mapsto> Reg [] 0] [''w''] ''a'' True =
      Inr [''w'', ''b'']" by code_simp
  then show ?thesis
    using boundary_resolve_contained
      [where fs = "[[''w'', ''a''] \<mapsto> Link [''w'', ''b''], [''w'', ''b''] \<mapsto> Reg [] 0]" and wroot = "[''w'']"
        and p = "''a''" and must_exist = True]
    by simp
qed

text \<open>
  C14: the scheduler accepts a dispatch only when it is exactly one task with an id not used before
  in the run, without dependencies, with a write scope exactly when it is a repair task, whose scope
  paths are normalised, and whose own budget fits into what the run has left.
\<close>

theorem validate_single_task_contract:
  assumes "validate_single_task tasks known rm rt = Inr task"
  shows "\<exists>t. tasks = [t] \<and> wt_task_id task = wt_task_id t \<and> wt_kind task = wt_kind t \<and>
           wt_task_id task \<notin> known \<and> wt_depends_on task = [] \<and>
           (wt_kind task = Repair \<longleftrightarrow> wt_write_scope task \<noteq> []) \<and>
           distinct (wt_write_scope task) \<and>
           (\<forall>q\<in>set (wt_write_scope task). \<exists>p\<in>set (wt_write_scope t). normalize_write_path p = Inr q) \<and>
           (\<forall>b. wt_budget task = Some b \<longrightarrow> tb_max_model_calls b \<le> rm \<and> tb_max_tool_calls b \<le> rt)"
proof -
  obtain t where t: "tasks = [t]"
    using assms by (auto simp: validate_single_task_def split: list.splits)
  with assms have nt: "normalize_task t = Inr task"
    by (auto simp: validate_single_task_def rbind_Inr_iff split: if_splits option.splits)
  note f = normalize_task_fields [OF nt]
  have "distinct (wt_write_scope task)" using f(5)
    by (metis (no_types, lifting) distinct_dedup normalize_write_scope_def rbind_Inr_iff sum.inject(2))
  moreover have "\<forall>q\<in>set (wt_write_scope task). \<exists>p\<in>set (wt_write_scope t). normalize_write_path p = Inr q"
    using normalize_write_scope_mem [OF f(5)] by blast
  moreover have "wt_task_id task \<notin> known" "wt_depends_on task = []"
    "wt_kind task = Repair \<longleftrightarrow> wt_write_scope task \<noteq> []"
    "\<forall>b. wt_budget task = Some b \<longrightarrow> tb_max_model_calls b \<le> rm \<and> tb_max_tool_calls b \<le> rt"
    using assms t nt by (auto simp: validate_single_task_def split: if_splits option.splits
        intro: worker_kind.exhaust)
  ultimately show ?thesis using t f by auto
qed

definition demo_task :: worker_task where
  "demo_task = \<lparr>wt_task_id = ''t1'', wt_kind = Repair, wt_objective = ''fix'',
     wt_acceptance_criteria = [], wt_evidence_refs = [], wt_hypothesis = None,
     wt_read_scope = [], wt_write_scope = [''./src/a.py'', ''src/a.py''], wt_depends_on = [],
     wt_fact_refs = [], wt_recommended_skill_refs = [],
     wt_budget = Some \<lparr>tb_max_model_calls = 3, tb_max_tool_calls = 4\<rparr>,
     wt_resume_candidate_id = None\<rparr>"

lemma demo_normalize: "normalize_write_path ''./src/a.py'' = Inr ''src/a.py''"
  "normalize_write_path ''src/a.py'' = Inr ''src/a.py''"
  by code_simp+

lemma demo_validates:
  "validate_single_task [demo_task] {''t0''} 5 9 = Inr (demo_task\<lparr>wt_write_scope := [''src/a.py'']\<rparr>)"
  by (simp add: validate_single_task_def normalize_task_def normalize_write_scope_def demo_task_def
      demo_normalize)

theorem validate_single_task_contract_witness:
  "wt_task_id demo_task \<notin> {''t0''} \<and>
   (\<exists>p\<in>set (wt_write_scope demo_task). normalize_write_path p = Inr ''src/a.py'')"
  using validate_single_task_contract [OF demo_validates] by auto

text \<open>
  a command line passes the allowlist only if its executable is a known tool (or a versioned
  Python), the lower-cased joined line has none of the forbidden fragments, in particular no \<open>../\<close>
  in any argument, and without network no package manager argument is an installing or publishing
  verb.
\<close>

theorem validate_command_contract:
  assumes "validate_command argv net = Inr ()"
  shows "\<exists>exe args. argv = exe # args \<and>
     (path_name exe \<in> set SAFE_COMMANDS \<or> versioned_python (path_name exe)) \<and>
     (\<forall>token\<in>set forbidden_patterns. \<forall>a\<in>set argv. \<not> contains token (lower a)) \<and>
     (\<not> net \<and> path_name exe \<in> {''npm'', ''pnpm'', ''yarn'', ''uv''} \<longrightarrow>
        {''add'', ''install'', ''publish'', ''upload''} \<inter> set argv = {})"
proof -
  have join_mem: "contains t (lower (join '' '' xs))" if "a \<in> set xs" "contains t (lower a)" for t a xs
    using that by (induction xs) (auto simp: join_Cons_app lower_def intro: contains_append_left contains_append_right)
  obtain exe args where argv: "argv = exe # args"
    using assms by (auto simp: validate_command_def split: list.splits)
  have nf: "\<not> contains token (lower (join '' '' argv))" if "token \<in> set forbidden_patterns" for token
    using assms that by (auto simp: validate_command_def argv Let_def list_ex_iff split: if_splits)
  have "\<forall>token\<in>set forbidden_patterns. \<forall>a\<in>set argv. \<not> contains token (lower a)"
    using nf join_mem by blast
  moreover have "path_name exe \<in> set SAFE_COMMANDS \<or> versioned_python (path_name exe)"
    and "\<not> net \<and> path_name exe \<in> {''npm'', ''pnpm'', ''yarn'', ''uv''} \<longrightarrow>
        {''add'', ''install'', ''publish'', ''upload''} \<inter> set argv = {}"
    using assms by (auto simp: validate_command_def argv Let_def split: if_splits)
  ultimately show ?thesis using argv by blast
qed

lemma demo_command: "validate_command [''/usr/bin/python3.12'', ''-m'', ''pytest''] False = Inr ()"
  by code_simp

theorem validate_command_contract_witness:
  "\<not> contains ''../'' (lower ''pytest'')"
  using validate_command_contract [OF demo_command] by (simp add: forbidden_patterns_def)

text \<open>
  the bypass scan is complete for the final diff: when it reports nothing and the Git diff could
  be read, no added line (other than a file header) holds a forbidden token, and its report lists
  each blocker once, in order.
\<close>

theorem review_bypass_scan_complete:
  "sorted (contains_workspace_review_bypass dec d st fs wroot) \<and>
   distinct (contains_workspace_review_bypass dec d st fs wroot) \<and>
   (\<forall>lines line token. d = Some lines \<longrightarrow> contains_workspace_review_bypass dec d st fs wroot = [] \<longrightarrow>
      line \<in> set lines \<longrightarrow> starts_with ''+'' line \<longrightarrow> \<not> starts_with ''+++'' line \<longrightarrow>
      token \<in> set bypass_tokens \<longrightarrow> \<not> contains token line)"
proof (intro conjI allI impI)
  fix lines line token
  assume "d = Some lines" "contains_workspace_review_bypass dec d st fs wroot = []"
    and line: "line \<in> set lines" "starts_with ''+'' line" "\<not> starts_with ''+++'' line"
    and token: "token \<in> set bypass_tokens"
  then have "diff_blockers lines = []" by (simp add: contains_workspace_review_bypass_def)
  then have "filter (\<lambda>t. contains t line) bypass_tokens = []"
    using line by (auto simp: diff_blockers_def)
  then show "\<not> contains token line" using token by (simp add: filter_empty_conv)
qed (simp_all add: contains_workspace_review_bypass_def)

theorem review_bypass_scan_complete_witness:
  "\<not> contains ''# noqa'' ''+x = 1''"
proof -
  have e: "contains_workspace_review_bypass id (Some [''+++ b/a.py'', ''+x = 1'', ''-y # noqa'']) None
      Map.empty [''w''] = []" by code_simp
  show ?thesis
    by (rule review_bypass_scan_complete [THEN conjunct2, THEN conjunct2, rule_format, OF refl e])
      (simp_all add: starts_with_def bypass_tokens_def)
qed

text \<open>
  A verification working directory without a backslash that is accepted is \<open>.\<close> or a relative
  path whose components hold no \<open>..\<close>.
\<close>

theorem normalize_repo_cwd_relative:
  assumes "normalize_repo_cwd (Some cwd) = Inr c" and "char_of (92::nat) \<notin> set cwd"
  shows "c = ''.'' \<or> (\<not> is_abs_path c \<and> path_components c \<noteq> [] \<and> ''..'' \<notin> set (path_components c))"
proof (cases "c = ''.''")
  case False
  define raw where "raw = or_else (Some (strip cwd)) ''.''"
  have "set (strip cwd) \<subseteq> set cwd"
    by (auto simp: strip_def lstrip_def rstrip_def dest!: set_dropWhileD)
  then have "set raw \<subseteq> set cwd \<union> {CHR ''.''}"
    by (auto simp: raw_def or_else_def split: if_splits)
  then have "char_of (92::nat) \<notin> set raw" using assms(2) by (auto simp: char_of_def)
  then have rc: "replace_char (char_of (92::nat)) (CHR ''/'') raw = raw"
    by (auto simp: replace_char_def intro: map_idI)
  have rel: "\<not> is_abs_path raw" using assms(1)
    by (auto simp: normalize_repo_cwd_def raw_def [symmetric] Let_def split: if_splits)
  have "c = path_str (path_components raw) \<and> path_components raw \<noteq> [] \<and>
      ''..'' \<notin> set (path_components raw)"
    using assms(1) rel False
    by (auto simp: normalize_repo_cwd_def raw_def [symmetric] Let_def rc path_parts_rel split: if_splits)
  then show ?thesis
    using path_str_clean [of "path_components raw"] path_components_clean
    by (metis clean_join_not_abs path_components_join)
qed simp

theorem normalize_repo_cwd_relative_witness:
  "normalize_repo_cwd (Some '' pkg/./sub'') = Inr ''pkg/sub'' \<and>
   (''pkg/sub'' = ''.'' \<or> (\<not> is_abs_path ''pkg/sub'' \<and> path_components ''pkg/sub'' \<noteq> [] \<and>
      ''..'' \<notin> set (path_components ''pkg/sub'')))"
proof -
  have n: "normalize_repo_cwd (Some '' pkg/./sub'') = Inr ''pkg/sub''" by code_simp
  show ?thesis using normalize_repo_cwd_relative [OF n] n by (simp add: char_of_def)
qed

text \<open>
  The check for a workspace-relative working directory runs before backslashes become slashes,
  so a leading backslash turns into an absolute directory that the validator returns as accepted;
  the same value is refused when it is validated a second time.
\<close>

theorem normalize_repo_cwd_backslash_absolute:
  "normalize_repo_cwd (Some (char_of (92::nat) # ''etc'')) = Inr ''/etc'' \<and> is_abs_path ''/etc'' \<and>
   normalize_repo_cwd (Some ''/etc'') =
     Inl (ValueError ''verification cwd must be workspace-relative: /etc'')"
  by code_simp

text \<open>
  Write-path normalisation is not idempotent: a white-space component before a trailing \<open>/.\<close>
  survives the first pass and is stripped by the second one, so the path compared with the scope is
  a different file.
\<close>

theorem normalize_write_path_not_idempotent:
  "normalize_write_path ''src/ /.'' = Inr ''src/ '' \<and> normalize_write_path ''src/ '' = Inr ''src''"
  by code_simp

end
