(* ===== verification/Files.thy ===== *)
theory Files
  imports Policy
begin

text \<open>
  Workspace files: \<^verbatim>\<open>tools/filesystem.py\<close> (the file tools behind the write permission) and
  \<^verbatim>\<open>tools/patch.py\<close> (desired-state application of edits, the baseline of an attempt and its
  restoration, the collection of staged edits).

  An operation that changes the workspace takes the file system and returns the new one. An operation
  of several steps returns the file system it reached together with the result or the exception, so
  that the writes made before a failure are visible. \<open>sha\<close> is \<open>hashlib.sha256(...).hexdigest()\<close>.
  \<open>write_file\<close> writes a temporary file and renames it over the target; its effect is the one update of
  the target.
\<close>

section \<open>File tools\<close>

record patch_application_result =
  pa_created_files :: "string list"
  pa_modified_files :: "string list"
  pa_deleted_files :: "string list"

definition require_write :: "bool \<Rightarrow> unit res" where
  "require_write writable =
     (if writable then Inr () else Inl (PolicyViolation ''worker does not have write permission''))"

definition file_bytes :: "fs \<Rightarrow> path \<Rightarrow> string res" where
  "file_bytes fs p =
     (case fs p of
        Some (Reg b m) \<Rightarrow> Inr b
      | Some Dir \<Rightarrow> Inl (IsADirectoryError (path_str (''/'' # p)))
      | _ \<Rightarrow> Inl (FileNotFoundError (path_str (''/'' # p))))"

definition file_text :: "fs \<Rightarrow> path \<Rightarrow> string res" where
  "file_text fs p = rbind (file_bytes fs p) read_text"

definition resolve_regular_file :: "fs \<Rightarrow> path \<Rightarrow> string \<Rightarrow> bool \<Rightarrow> path res" where
  "resolve_regular_file fs wroot p must_exist =
     (if is_abs_path p \<or> ''..'' \<in> set (path_parts p)
      then Inl (PolicyViolation (''path escapes workspace: '' @ p))
      else if is_symlink fs (join_root wroot p)
      then Inl (PolicyViolation (''refusing to operate on symlink: '' @ p))
      else rbind (boundary_resolve fs wroot p must_exist) (\<lambda>target.
        if is_symlink fs target
        then Inl (PolicyViolation (''refusing to operate on symlink: '' @ p))
        else if path_exists fs target \<and> \<not> is_file fs target
        then Inl (PolicyViolation (''target is not a regular file: '' @ p))
        else Inr target))"

definition read_utf8_text :: "fs \<Rightarrow> path \<Rightarrow> string \<Rightarrow> string res" where
  "read_utf8_text fs target p =
     (case file_text fs target of
        Inl (UnicodeDecodeError m) \<Rightarrow> Inl (PolicyViolation (''file is not valid UTF-8 text: '' @ p))
      | r \<Rightarrow> r)"

text \<open>\<open>decode\<close> is decoding with \<open>errors="replace"\<close>.\<close>

definition read_file ::
  "(string \<Rightarrow> string) \<Rightarrow> nat \<Rightarrow> fs \<Rightarrow> path \<Rightarrow> string \<Rightarrow> int \<Rightarrow> int option \<Rightarrow> string res" where
  "read_file decode max_chars fs wroot p offset limit =
     (if offset < 0 \<or> (case limit of None \<Rightarrow> False | Some l \<Rightarrow> l < 1)
      then Inl (ValueError ''offset must be non-negative and limit must be positive'')
      else rbind (boundary_resolve fs wroot p True) (\<lambda>target.
        if \<not> is_file fs target then Inl (IsADirectoryError (path_str (''/'' # target)))
        else rbind (file_bytes fs target) (\<lambda>b.
          let window = (case limit of None \<Rightarrow> max_chars | Some l \<Rightarrow> min (nat l) max_chars)
          in Inr (py_take window (py_drop (nat offset) (universal_newlines (decode b)))))))"

text \<open>\<open>mkdir(parents=True, exist_ok=True)\<close> of the parent directory\<close>

definition mkdir_parents :: "fs \<Rightarrow> path \<Rightarrow> fs res" where
  "mkdir_parents fs target =
     (if list_ex (is_file fs) (prefixes (butlast target)) then Inl (OSError ''not a directory'')
      else Inr (\<lambda>q. if fs q = None \<and> prefix q (butlast target) then Some Dir else fs q))"

definition S_IMODE :: "int \<Rightarrow> int" where
  "S_IMODE m = m mod 4096"

definition write_file :: "fs \<Rightarrow> path \<Rightarrow> bool \<Rightarrow> string \<Rightarrow> string \<Rightarrow> int option \<Rightarrow> fs res" where
  "write_file fs wroot writable p content mode =
     (if \<not> writable then Inl (PolicyViolation ''worker does not have write permission'')
      else rbind (boundary_resolve fs wroot p False) (\<lambda>target.
        rbind (mkdir_parents fs target) (\<lambda>fs1.
          let file_mode = (case mode of
                 Some m \<Rightarrow> S_IMODE m
               | None \<Rightarrow> (case fs1 target of Some (Reg b m) \<Rightarrow> S_IMODE m | _ \<Rightarrow> 384))
          in case fs1 target of
               Some Dir \<Rightarrow> Inl (IsADirectoryError (path_str (''/'' # target)))
             | _ \<Rightarrow> Inr (fs1(target \<mapsto> Reg content file_mode)))))"

fun apply_patch_loop ::
  "fs \<Rightarrow> path \<Rightarrow> (string \<times> string) list \<Rightarrow> string list \<Rightarrow> string list \<Rightarrow>
   fs \<times> patch_application_result res" where
  "apply_patch_loop fs wroot [] created modified =
     (fs, Inr \<lparr>pa_created_files = created, pa_modified_files = modified, pa_deleted_files = []\<rparr>)"
| "apply_patch_loop fs wroot ((p, content) # rest) created modified =
     (case boundary_resolve fs wroot p False of
        Inl e \<Rightarrow> (fs, Inl e)
      | Inr target \<Rightarrow>
          (case write_file fs wroot True p content None of
             Inl e \<Rightarrow> (fs, Inl e)
           | Inr fs' \<Rightarrow>
               if path_exists fs target then apply_patch_loop fs' wroot rest created (modified @ [p])
               else apply_patch_loop fs' wroot rest (created @ [p]) modified))"

definition apply_patch ::
  "fs \<Rightarrow> path \<Rightarrow> bool \<Rightarrow> (string \<times> string) list \<Rightarrow> fs \<times> patch_application_result res" where
  "apply_patch fs wroot writable files =
     (case require_write writable of
        Inl e \<Rightarrow> (fs, Inl e)
      | Inr _ \<Rightarrow>
          if 20 < length files then (fs, Inl (PolicyViolation ''patch changes too many files''))
          else apply_patch_loop fs wroot files [] [])"

definition replace_text ::
  "fs \<Rightarrow> path \<Rightarrow> bool \<Rightarrow> string \<Rightarrow> string \<Rightarrow> string \<Rightarrow> int \<Rightarrow> (fs \<times> patch_application_result) res" where
  "replace_text fs wroot writable p old_text new_text expected_replacements =
     rbind (require_write writable) (\<lambda>_.
       if old_text = [] then Inl (PolicyViolation ''old_text must not be empty'')
       else rbind (resolve_regular_file fs wroot p True) (\<lambda>target.
         rbind (read_utf8_text fs target p) (\<lambda>content.
           let matches = py_count old_text content in
           if int matches \<noteq> expected_replacements
           then Inl (PolicyViolation (''replace_text expected '' @ show_int expected_replacements @
                  '' occurrence(s) of old_text in '' @ p @ '', found '' @ show_nat matches))
           else rbind (write_file fs wroot writable p
                        (py_replace old_text new_text (nat expected_replacements) content) None) (\<lambda>fs'.
             Inr (fs', \<lparr>pa_created_files = [], pa_modified_files = [p], pa_deleted_files = []\<rparr>)))))"

definition create_file :: "fs \<Rightarrow> path \<Rightarrow> bool \<Rightarrow> string \<Rightarrow> string \<Rightarrow> (fs \<times> patch_application_result) res" where
  "create_file fs wroot writable p content =
     rbind (require_write writable) (\<lambda>_.
       rbind (resolve_regular_file fs wroot p False) (\<lambda>target.
         if path_exists fs target then Inl (PolicyViolation (''file already exists: '' @ p))
         else rbind (write_file fs wroot writable p content None) (\<lambda>fs'.
           Inr (fs', \<lparr>pa_created_files = [p], pa_modified_files = [], pa_deleted_files = []\<rparr>))))"

definition delete_file :: "fs \<Rightarrow> path \<Rightarrow> bool \<Rightarrow> string \<Rightarrow> (fs \<times> patch_application_result) res" where
  "delete_file fs wroot writable p =
     rbind (require_write writable) (\<lambda>_.
       rbind (resolve_regular_file fs wroot p True) (\<lambda>target.
         Inr (fs(target := None),
              \<lparr>pa_created_files = [], pa_modified_files = [], pa_deleted_files = [p]\<rparr>)))"

section \<open>Edits, baselines and restoration\<close>

record file_baseline =
  fb_content :: "string option"
  fb_mode :: "int option"

text \<open>
  The values a stored baseline may hold: the text or null of the old format, the entry of content and
  mode (any JSON values, since it is read back from a plan file), anything else.
\<close>

datatype raw_baseline = BText "string option" | BEntry json json | BInvalid

definition intended_content :: "file_edit \<Rightarrow> string option" where
  "intended_content e = (if fe_delete e then None else fe_content e)"

definition read_text_or_none :: "fs \<Rightarrow> path \<Rightarrow> string option res" where
  "read_text_or_none fs target =
     (if path_exists fs target \<and> is_file fs target then rbind (file_text fs target) (\<lambda>t. Inr (Some t))
      else Inr None)"

fun json_content :: "json \<Rightarrow> string option option" where
  "json_content JNull = Some None"
| "json_content (JStr s) = Some (Some s)"
| "json_content _ = None"

fun json_mode :: "json \<Rightarrow> int option option" where
  "json_mode JNull = Some None"
| "json_mode (JInt i) = Some (Some i)"
| "json_mode (JBool b) = Some (Some (if b then 1 else 0))"
| "json_mode _ = None"

fun normalize_baseline_value :: "string \<Rightarrow> raw_baseline \<Rightarrow> file_baseline res" where
  "normalize_baseline_value p (BText c) = Inr \<lparr>fb_content = c, fb_mode = None\<rparr>"
| "normalize_baseline_value p (BEntry c m) =
     (case json_content c of
        None \<Rightarrow> Inl (PatchError (''invalid attempt baseline content for '' @ p))
      | Some content \<Rightarrow>
          (case json_mode m of
             None \<Rightarrow> Inl (PatchError (''invalid attempt baseline mode for '' @ p))
           | Some mode \<Rightarrow> Inr \<lparr>fb_content = content, fb_mode = mode\<rparr>))"
| "normalize_baseline_value p BInvalid = Inl (PatchError (''invalid attempt baseline for '' @ p))"

definition normalize_baseline ::
  "(string \<times> raw_baseline) list \<Rightarrow> (string \<times> file_baseline) list res" where
  "normalize_baseline bl =
     mapM (\<lambda>(p, v). rbind (normalize_baseline_value p v) (\<lambda>b. Inr (p, b))) bl"

text \<open>How a baseline is written to a plan file.\<close>

definition raw_of_baseline :: "file_baseline \<Rightarrow> raw_baseline" where
  "raw_of_baseline b = BEntry (jopt (fb_content b)) (jint_opt (fb_mode b))"

fun snapshot_edit_baseline_from ::
  "fs \<Rightarrow> path \<Rightarrow> file_edit list \<Rightarrow> (string \<times> file_baseline) list \<Rightarrow> (string \<times> file_baseline) list res" where
  "snapshot_edit_baseline_from fs wroot [] acc = Inr acc"
| "snapshot_edit_baseline_from fs wroot (e # es) acc =
     rbind (boundary_resolve fs wroot (fe_path e) False) (\<lambda>target.
       case fs target of
         None \<Rightarrow> snapshot_edit_baseline_from fs wroot es
                   (AList.update (fe_path e) \<lparr>fb_content = None, fb_mode = None\<rparr> acc)
       | Some (Reg b m) \<Rightarrow>
           rbind (read_text b) (\<lambda>t.
             snapshot_edit_baseline_from fs wroot es
               (AList.update (fe_path e) \<lparr>fb_content = Some t, fb_mode = Some (S_IMODE m)\<rparr> acc))
       | Some _ \<Rightarrow> Inl (PatchPrecheckError (''patch target is not a regular file: '' @ fe_path e)))"

definition snapshot_edit_baseline ::
  "fs \<Rightarrow> path \<Rightarrow> file_edit list \<Rightarrow> (string \<times> file_baseline) list res" where
  "snapshot_edit_baseline fs wroot edits = snapshot_edit_baseline_from fs wroot edits []"

definition attempt_targets :: "file_edit list \<Rightarrow> (string \<times> string option) list" where
  "attempt_targets edits = fold (\<lambda>e. AList.update (fe_path e) (intended_content e)) edits []"

fun recover_attempt_writes_from ::
  "fs \<Rightarrow> path \<Rightarrow> file_edit list \<Rightarrow> (string \<times> string option) list \<Rightarrow> (string \<times> string option) list res" where
  "recover_attempt_writes_from fs wroot [] written = Inr written"
| "recover_attempt_writes_from fs wroot (e # es) written =
     rbind (boundary_resolve fs wroot (fe_path e) False) (\<lambda>target.
       rbind (read_text_or_none fs target) (\<lambda>t.
         recover_attempt_writes_from fs wroot es
           (if t = intended_content e then AList.update (fe_path e) (intended_content e) written
            else written)))"

definition recover_attempt_writes ::
  "fs \<Rightarrow> path \<Rightarrow> file_edit list \<Rightarrow> (string \<times> string option) list res" where
  "recover_attempt_writes fs wroot edits = recover_attempt_writes_from fs wroot edits []"

text \<open>One round of the loop of \<open>restore_edit_baseline\<close>: the new file system and the two lists.\<close>

definition restore_entry ::
  "fs \<Rightarrow> path \<Rightarrow> string \<Rightarrow> file_baseline \<Rightarrow> (fs \<times> string list \<times> string list) res" where
  "restore_entry fs wroot p snap =
     rbind (boundary_resolve fs wroot p False) (\<lambda>target.
       case fb_content snap of
         None \<Rightarrow>
           (case fs target of
              None \<Rightarrow> Inr (fs, [], [])
            | Some (Reg b m) \<Rightarrow> Inr (fs(target := None), [], [p])
            | Some _ \<Rightarrow> Inl (PatchError (''rollback target is not a regular file: '' @ p)))
       | Some content \<Rightarrow>
           rbind (read_text_or_none fs target) (\<lambda>current.
             if current = Some content
             then (case (fs target, fb_mode snap) of
                     (Some (Reg b m), Some mode) \<Rightarrow>
                       if S_IMODE m \<noteq> mode then Inr (fs(target \<mapsto> Reg b mode), [p], []) else Inr (fs, [], [])
                   | _ \<Rightarrow> Inr (fs, [], []))
             else rbind (write_file fs wroot True p content (fb_mode snap)) (\<lambda>fs'. Inr (fs', [p], []))))"

fun restore_entries ::
  "fs \<Rightarrow> path \<Rightarrow> (string \<times> file_baseline) list \<Rightarrow> string list \<Rightarrow> string list \<Rightarrow>
   fs \<times> (string list \<times> string list) res" where
  "restore_entries fs wroot [] restored removed = (fs, Inr (restored, removed))"
| "restore_entries fs wroot ((p, snap) # rest) restored removed =
     (case restore_entry fs wroot p snap of
        Inl e \<Rightarrow> (fs, Inl e)
      | Inr (fs', r1, r2) \<Rightarrow> restore_entries fs' wroot rest (restored @ r1) (removed @ r2))"

definition restore_edit_baseline ::
  "fs \<Rightarrow> path \<Rightarrow> (string \<times> raw_baseline) list \<Rightarrow> fs \<times> (string list \<times> string list) res" where
  "restore_edit_baseline fs wroot bl =
     (case normalize_baseline bl of
        Inl e \<Rightarrow> (fs, Inl e)
      | Inr entries \<Rightarrow> restore_entries fs wroot entries [] [])"

fun eligible_writes ::
  "fs \<Rightarrow> path \<Rightarrow> (string \<rightharpoonup> file_baseline) \<Rightarrow> (string \<times> string option) list \<Rightarrow>
   (string \<times> file_baseline) list res" where
  "eligible_writes fs wroot nb [] = Inr []"
| "eligible_writes fs wroot nb ((p, applied) # rest) =
     rbind (boundary_resolve fs wroot p False) (\<lambda>target.
       rbind (read_text_or_none fs target) (\<lambda>current.
         rbind (eligible_writes fs wroot nb rest) (\<lambda>es.
           Inr (if current \<noteq> applied then es
                else (p, case nb p of None \<Rightarrow> \<lparr>fb_content = None, fb_mode = None\<rparr> | Some b \<Rightarrow> b) # es))))"

text \<open>
  \<open>restore_attempt_writes\<close>; \<open>written\<close> is a dict, so its keys are distinct. Since the eligible entries
  are already normalised, they go straight to the loop of \<open>restore_edit_baseline\<close>.
\<close>

definition restore_attempt_writes ::
  "fs \<Rightarrow> path \<Rightarrow> (string \<times> raw_baseline) list \<Rightarrow> (string \<times> string option) list \<Rightarrow>
   fs \<times> (string list \<times> string list) res" where
  "restore_attempt_writes fs wroot bl written =
     (case normalize_baseline bl of
        Inl e \<Rightarrow> (fs, Inl e)
      | Inr nb \<Rightarrow>
          (case eligible_writes fs wroot (map_of nb) written of
             Inl e \<Rightarrow> (fs, Inl e)
           | Inr eligible \<Rightarrow> restore_entries fs wroot eligible [] []))"

definition file_digest :: "(string \<Rightarrow> string) \<Rightarrow> fs \<Rightarrow> path \<Rightarrow> string res" where
  "file_digest sha fs target = rbind (file_bytes fs target) (\<lambda>b. Inr (sha b))"

fun precheck_edits_from ::
  "(string \<Rightarrow> string) \<Rightarrow> fs \<Rightarrow> path \<Rightarrow> bool \<Rightarrow> string set \<Rightarrow> file_edit list \<Rightarrow> unit res" where
  "precheck_edits_from sha fs wroot hash_strict seen [] = Inr ()"
| "precheck_edits_from sha fs wroot hash_strict seen (e # es) =
     (if fe_path e \<in> seen then Inl (PatchPrecheckError (''duplicate patch target: '' @ fe_path e))
      else rbind (boundary_resolve fs wroot (fe_path e) False) (\<lambda>target.
        if path_exists fs target \<and> \<not> is_file fs target
        then Inl (PatchPrecheckError (''patch target is not a regular file: '' @ fe_path e))
        else rbind (read_text_or_none fs target) (\<lambda>current.
          if current \<noteq> intended_content e \<and> truthy (fe_expected_sha256 e) \<and> hash_strict
          then (if \<not> path_exists fs target
                then Inl (PatchConflict (''file changed since proposal: '' @ fe_path e))
                else rbind (file_digest sha fs target) (\<lambda>actual.
                  if Some actual \<noteq> fe_expected_sha256 e
                  then Inl (PatchConflict (''file changed since proposal: '' @ fe_path e))
                  else precheck_edits_from sha fs wroot hash_strict (insert (fe_path e) seen) es))
          else precheck_edits_from sha fs wroot hash_strict (insert (fe_path e) seen) es)))"

definition precheck_edits ::
  "(string \<Rightarrow> string) \<Rightarrow> fs \<Rightarrow> path \<Rightarrow> file_edit list \<Rightarrow> bool \<Rightarrow> unit res" where
  "precheck_edits sha fs wroot edits hash_strict = precheck_edits_from sha fs wroot hash_strict {} edits"

text \<open>The digest check of \<open>apply_edit\<close> on an existing target.\<close>

definition check_digest :: "(string \<Rightarrow> string) \<Rightarrow> fs \<Rightarrow> path \<Rightarrow> bool \<Rightarrow> file_edit \<Rightarrow> unit res" where
  "check_digest sha fs target hash_strict e =
     (if truthy (fe_expected_sha256 e) \<and> hash_strict
      then rbind (file_digest sha fs target) (\<lambda>actual.
             if Some actual \<noteq> fe_expected_sha256 e
             then Inl (PatchConflict (''file changed since proposal: '' @ fe_path e)) else Inr ())
      else Inr ())"

definition apply_edit ::
  "(string \<Rightarrow> string) \<Rightarrow> fs \<Rightarrow> path \<Rightarrow> file_edit \<Rightarrow> bool \<Rightarrow> (fs \<times> string list \<times> string list) res" where
  "apply_edit sha fs wroot e hash_strict =
     rbind (boundary_resolve fs wroot (fe_path e) False) (\<lambda>target.
       if fe_delete e then
         (if \<not> path_exists fs target then Inr (fs, [], [])
          else rbind (check_digest sha fs target hash_strict e) (\<lambda>_.
            if is_file fs target then Inr (fs(target := None), [], [fe_path e])
            else Inl (IsADirectoryError (path_str (''/'' # target)))))
       else (case fe_content e of
         None \<Rightarrow> Inl AssertionError
       | Some content \<Rightarrow>
           rbind (if path_exists fs target then rbind (file_text fs target) (\<lambda>t. Inr (t = content))
                  else Inr False) (\<lambda>same.
             if same then Inr (fs, [], [])
             else if truthy (fe_expected_sha256 e) \<and> hash_strict \<and> \<not> path_exists fs target
             then Inl (PatchConflict (''file changed since proposal: '' @ fe_path e))
             else rbind (check_digest sha fs target hash_strict e) (\<lambda>_.
               rbind (write_file fs wroot True (fe_path e) content None) (\<lambda>fs'.
                 Inr (if path_exists fs target then (fs', [], [fe_path e]) else (fs', [fe_path e], [])))))))"

fun apply_edits ::
  "(string \<Rightarrow> string) \<Rightarrow> fs \<Rightarrow> path \<Rightarrow> bool \<Rightarrow> file_edit list \<Rightarrow> string list \<Rightarrow> string list \<Rightarrow>
   fs \<times> (string list \<times> string list) res" where
  "apply_edits sha fs wroot hash_strict [] created modified = (fs, Inr (created, modified))"
| "apply_edits sha fs wroot hash_strict (e # es) created modified =
     (case apply_edit sha fs wroot e hash_strict of
        Inl x \<Rightarrow> (fs, Inl x)
      | Inr (fs', new_files, changed) \<Rightarrow>
          apply_edits sha fs' wroot hash_strict es (created @ new_files) (modified @ changed))"

section \<open>Staged edits\<close>

text \<open>\<open>_resolve_staged_path\<close> makes the same checks as the file tools' resolver, without must-exist.\<close>

definition resolve_staged_path :: "fs \<Rightarrow> path \<Rightarrow> string \<Rightarrow> path res" where
  "resolve_staged_path fs wroot p = resolve_regular_file fs wroot p False"

definition read_staged_text :: "fs \<Rightarrow> path \<Rightarrow> string \<Rightarrow> string res" where
  "read_staged_text fs target p =
     (case file_text fs target of
        Inl (UnicodeDecodeError m) \<Rightarrow> Inl (PolicyViolation (''staged file is not valid UTF-8 text: '' @ p))
      | r \<Rightarrow> r)"

fun collect_staged_from ::
  "(string \<Rightarrow> string) \<Rightarrow> fs \<Rightarrow> path \<Rightarrow> path \<Rightarrow> nat \<Rightarrow> nat \<Rightarrow> string list \<Rightarrow> file_edit list res" where
  "collect_staged_from sha fs source staging max_total_bytes total_bytes [] = Inr []"
| "collect_staged_from sha fs source staging max_total_bytes total_bytes (p # ps) =
     rbind (resolve_staged_path fs source p) (\<lambda>source_target.
     rbind (resolve_staged_path fs staging p) (\<lambda>staging_target.
       if path_exists fs source_target \<and> \<not> path_exists fs staging_target then
         rbind (file_digest sha fs source_target) (\<lambda>d.
         rbind (collect_staged_from sha fs source staging max_total_bytes total_bytes ps) (\<lambda>es.
           Inr (\<lparr>fe_path = p, fe_content = None, fe_delete = True, fe_expected_sha256 = Some d\<rparr> # es)))
       else if \<not> path_exists fs source_target \<and> \<not> path_exists fs staging_target then
         collect_staged_from sha fs source staging max_total_bytes total_bytes ps
       else
         rbind (read_staged_text fs staging_target p) (\<lambda>content.
           if path_exists fs source_target \<and> file_bytes fs source_target = Inr content
           then collect_staged_from sha fs source staging max_total_bytes total_bytes ps
           else
             let size = length content in
             if max_total_bytes < total_bytes + size
             then Inl (PolicyViolation ''staged changes exceed the total byte limit'')
             else
               rbind (if path_exists fs source_target
                      then rbind (file_digest sha fs source_target) (\<lambda>d. Inr (Some d)) else Inr None) (\<lambda>d.
               rbind (collect_staged_from sha fs source staging max_total_bytes (total_bytes + size) ps) (\<lambda>es.
                 Inr (\<lparr>fe_path = p, fe_content = Some content, fe_delete = False,
                        fe_expected_sha256 = d\<rparr> # es))))))"

definition collect_staged_edits ::
  "(string \<Rightarrow> string) \<Rightarrow> fs \<Rightarrow> path \<Rightarrow> path \<Rightarrow> string list \<Rightarrow> nat \<Rightarrow> nat \<Rightarrow> file_edit list res" where
  "collect_staged_edits sha fs source staging changed_paths max_files max_total_bytes =
     (let unique_paths = sorted_set (filter (\<lambda>p. p \<noteq> []) changed_paths) in
      if max_files < length unique_paths
      then Inl (PolicyViolation (''staged changes include too many files: '' @ show_nat (length unique_paths)))
      else collect_staged_from sha fs source staging max_total_bytes 0 unique_paths)"

section \<open>The file tree invariant and frames\<close>

text \<open>
  A workspace tree: the root is a directory, whatever exists lies in a directory. \<open>view\<close> is the
  regular file at a location; two trees with the same links resolve every path alike.
\<close>

definition wf_fs :: "fs \<Rightarrow> bool" where
  "wf_fs fs \<longleftrightarrow> fs [] = Some Dir \<and> (\<forall>q x. fs (q @ [x]) \<noteq> None \<longrightarrow> fs q = Some Dir)"

definition view :: "fs \<Rightarrow> path \<Rightarrow> (string \<times> int) option" where
  "view fs q = (case fs q of Some (Reg b m) \<Rightarrow> Some (b, m) | _ \<Rightarrow> None)"

definition same_links :: "fs \<Rightarrow> fs \<Rightarrow> bool" where
  "same_links fs fs' \<longleftrightarrow> link_at fs = link_at fs'"

definition frame :: "path set \<Rightarrow> fs \<Rightarrow> fs \<Rightarrow> bool" where
  "frame T fs fs' \<longleftrightarrow> wf_fs fs' \<and> same_links fs fs' \<and> (\<forall>q. q \<notin> T \<longrightarrow> view fs' q = view fs q) \<and>
     (\<forall>q. (\<forall>t\<in>T. \<not> prefix q t) \<longrightarrow> fs' q = fs q) \<and> (\<forall>q. fs q = Some Dir \<longrightarrow> fs' q = Some Dir)"

lemma same_links_refl [simp]: "same_links fs fs"
  by (simp add: same_links_def)

lemma frame_refl: "wf_fs fs \<Longrightarrow> frame T fs fs"
  by (simp add: frame_def)

lemma frame_trans: "frame T fs fs1 \<Longrightarrow> frame U fs1 fs2 \<Longrightarrow> frame (T \<union> U) fs fs2"
  by (simp add: frame_def same_links_def)

lemma frameD: "frame T fs fs' \<Longrightarrow> wf_fs fs'" "frame T fs fs' \<Longrightarrow> same_links fs fs'"
  "frame T fs fs' \<Longrightarrow> q \<notin> T \<Longrightarrow> view fs' q = view fs q"
  by (simp_all add: frame_def)

lemma frame_mono: "frame T fs fs' \<Longrightarrow> T \<subseteq> U \<Longrightarrow> frame U fs fs'"
  unfolding frame_def by blast

lemma resolve_from_cong: "link_at fs = link_at fs' \<Longrightarrow> resolve_from n fs acc cs = resolve_from n fs' acc cs"
  by (induction n fs acc cs rule: resolve_from.induct) (auto split: option.splits)

lemma is_symlink_cong: "same_links fs fs' \<Longrightarrow> is_symlink fs p = is_symlink fs' p"
  using resolve_from_cong [of fs fs' 40 "[]" "butlast p"]
  by (cases "resolve_from 40 fs' [] (butlast p)") (auto simp: is_symlink_def resolve_path_def same_links_def)

lemma boundary_resolve_cong:
  "same_links fs fs' \<Longrightarrow> boundary_resolve fs wroot p False = boundary_resolve fs' wroot p False"
  using resolve_from_cong [of fs fs' 40 "[]" "join_root wroot p"]
  by (cases "resolve_from 40 fs' [] (join_root wroot p)")
    (auto simp: boundary_resolve_def resolve_path_def same_links_def)

text \<open>A resolved path has no link on it.\<close>

lemma resolve_from_no_link:
  assumes "resolve_from n fs acc cs = Inr q" and "\<And>r. prefix r acc \<Longrightarrow> link_at fs r = None"
    and "link_at fs [] = None" and "prefix r q"
  shows "link_at fs r = None"
  using assms
proof (induction n fs acc cs rule: resolve_from.induct)
  case (2 n fs acc c cs)
  consider "c = ''..''" | t where "c \<noteq> ''..''" "link_at fs (acc @ [c]) = Some t"
    | "c \<noteq> ''..''" "link_at fs (acc @ [c]) = None" by fastforce
  then show ?case
  proof cases
    case 1
    have "link_at fs r' = None" if "prefix r' (butlast acc)" for r'
      using "2.prems"(2) that by (meson prefix_order.trans prefixeq_butlast)
    then show ?thesis using "2.IH"(1) "2.prems" 1 by auto
  next
    case (2 t)
    then have n: "n \<noteq> 0" and r: "resolve_from (n - 1) fs [] (t @ cs) = Inr q"
      using "2.prems"(1) by (auto split: if_splits)
    then show ?thesis using "2.IH"(3) 2 "2.prems"(3,4) by auto
  next
    case 3
    have "link_at fs r' = None" if "prefix r' (acc @ [c])" for r'
      using that "2.prems"(2) 3 by (auto simp: prefix_snoc)
    then show ?thesis using "2.IH"(2) 3 "2.prems" by auto
  qed
qed simp

lemma boundary_target_no_link:
  assumes "boundary_resolve fs wroot p e = Inr target" and "wf_fs fs" and "prefix r target"
  shows "link_at fs r = None"
proof -
  have "resolve_from 40 fs [] (join_root wroot p) = Inr target"
    using assms(1) by (auto simp: boundary_resolve_def resolve_path_def rbind_Inr_iff split: if_splits)
  then show ?thesis
    using resolve_from_no_link [of 40 fs "[]" _ target r] assms(2,3) by (auto simp: wf_fs_def link_at_def)
qed

text \<open>Updates that keep the tree: a file over a file or a free place in a directory, a file removed.\<close>

lemma wf_fs_no_children: "wf_fs fs \<Longrightarrow> fs q \<noteq> Some Dir \<Longrightarrow> strict_prefix q r \<Longrightarrow> fs r = None"
proof (induction r rule: rev_induct)
  case (snoc x xs)
  then have "prefix q xs" by (auto simp: strict_prefix_def prefix_snoc)
  then have "fs xs \<noteq> Some Dir" using snoc by (cases "q = xs") (auto simp: strict_prefix_def)
  then show ?case using snoc.prems(1) unfolding wf_fs_def by blast
qed simp

lemma wf_fs_parents: "wf_fs fs \<Longrightarrow> fs r \<noteq> None \<Longrightarrow> strict_prefix q r \<Longrightarrow> fs q = Some Dir"
  by (metis wf_fs_no_children)

lemma strict_prefix_butlast: "strict_prefix q r \<Longrightarrow> prefix q (butlast r)"
  by (cases r rule: rev_cases) (auto simp: strict_prefix_def prefix_snoc)

lemma mkdir_parents_effect:
  assumes "mkdir_parents fs target = Inr fs1" and "wf_fs fs"
    and "\<And>r. prefix r target \<Longrightarrow> link_at fs r = None"
  shows "wf_fs fs1" "same_links fs fs1" "\<And>q. view fs1 q = view fs q"
    "\<And>q. prefix q (butlast target) \<Longrightarrow> fs1 q = Some Dir" "\<And>q. \<not> prefix q (butlast target) \<Longrightarrow> fs1 q = fs q"
proof -
  let ?d = "butlast target"
  have fs1: "fs1 = (\<lambda>q. if fs q = None \<and> prefix q ?d then Some Dir else fs q)"
    and nofile: "\<And>q. prefix q ?d \<Longrightarrow> \<not> is_file fs q"
    using assms(1) by (auto simp: mkdir_parents_def list_ex_iff split: if_splits)
  have nolink: "link_at fs q = None" if "prefix q ?d" for q
    using assms(3) that by (meson prefix_order.trans prefixeq_butlast)
  show dir: "fs1 q = Some Dir" if "prefix q ?d" for q
    using nofile [OF that] nolink [OF that] that
    by (auto simp: fs1 is_file_def link_at_def split: option.splits node.splits)
  show "fs1 q = fs q" if "\<not> prefix q ?d" for q using that by (simp add: fs1)
  show "same_links fs fs1" by (auto simp: same_links_def fun_eq_iff link_at_def fs1)
  show "view fs1 q = view fs q" for q by (auto simp: view_def fs1)
  have "fs1 q = Some Dir" if "fs1 (q @ [x]) \<noteq> None" for q x
  proof (cases "prefix (q @ [x]) ?d")
    case True
    then show ?thesis by (intro dir) (auto dest: append_prefixD)
  next
    case False
    then have "fs (q @ [x]) \<noteq> None" using that by (simp add: fs1)
    then show ?thesis using assms(2) by (auto simp: wf_fs_def fs1)
  qed
  moreover have "fs1 [] = Some Dir" by (intro dir) simp
  ultimately show "wf_fs fs1" by (simp add: wf_fs_def)
qed

lemma update_file_frame:
  assumes "wf_fs fs" and "fs target \<noteq> Some Dir" and "link_at fs target = None"
    and "\<And>q. strict_prefix q target \<Longrightarrow> fs q = Some Dir" and "n = None \<or> (\<exists>b m. n = Some (Reg b m))"
  shows "frame {target} fs (fs(target := n))"
proof -
  have ne: "target \<noteq> []" using assms(1,2) by (auto simp: wf_fs_def)
  have kids: "fs (target @ [x]) = None" for x
    using wf_fs_no_children [OF assms(1,2), of "target @ [x]"] by (simp add: strict_prefix_def)
  have "(fs(target := n)) q = Some Dir" if "(fs(target := n)) (q @ [x]) \<noteq> None" for q x
  proof (cases "q @ [x] = target")
    case True
    then have "strict_prefix q target" by (auto simp: strict_prefix_def)
    then show ?thesis using assms(4) [of q] by (auto simp: strict_prefix_def)
  next
    case False
    then have "fs (q @ [x]) \<noteq> None" using that by simp
    then show ?thesis using assms(1) kids by (auto simp: wf_fs_def)
  qed
  then have "wf_fs (fs(target := n))" using ne assms(1) by (auto simp: wf_fs_def)
  moreover have "same_links fs (fs(target := n))"
    using assms(3,5) by (auto simp: same_links_def fun_eq_iff link_at_def)
  ultimately show ?thesis using assms(2) by (auto simp: frame_def view_def)
qed

lemma write_file_effect:
  assumes "write_file fs wroot True p content mode = Inr fs'" and "wf_fs fs"
    and "boundary_resolve fs wroot p False = Inr target"
  shows "frame {target} fs fs'"
    "fs' target = Some (Reg content (case mode of Some m \<Rightarrow> S_IMODE m
        | None \<Rightarrow> (case view fs target of Some (b, m) \<Rightarrow> S_IMODE m | None \<Rightarrow> 384)))"
proof -
  note nolink = boundary_target_no_link [OF assms(3,2)]
  obtain fs1 where fs1: "mkdir_parents fs target = Inr fs1"
    using assms(1,3) by (auto simp: write_file_def rbind_Inr_iff)
  let ?m = "case mode of Some m \<Rightarrow> S_IMODE m
        | None \<Rightarrow> (case fs1 target of Some (Reg b m) \<Rightarrow> S_IMODE m | _ \<Rightarrow> 384)"
  have "(case fs1 target of Some Dir \<Rightarrow> Inl (IsADirectoryError (path_str (''/'' # target)))
         | _ \<Rightarrow> Inr (fs1(target \<mapsto> Reg content ?m))) = Inr fs'"
    using assms(1,3) fs1 by (simp add: write_file_def Let_def)
  then have nd: "fs1 target \<noteq> Some Dir" and fs': "fs' = fs1(target \<mapsto> Reg content ?m)"
    by (cases "fs1 target"; auto split: node.splits)+
  note m = mkdir_parents_effect [OF fs1 assms(2) nolink]
  have par: "fs1 q = Some Dir" if "strict_prefix q target" for q
    using that by (intro m(4) strict_prefix_butlast)
  have "link_at fs1 target = None" using m(2) nolink by (simp add: same_links_def fun_eq_iff)
  then have "frame {target} fs1 fs'"
    unfolding fs' using m(1) nd par by (intro update_file_frame) auto
  then have "frame {target} fs1 fs'" and dir: "\<And>q. fs1 q = Some Dir \<Longrightarrow> fs' q = Some Dir"
    by (auto simp: frame_def)
  moreover have "fs1 q = fs q" if "\<not> prefix q target" for q
    using m(5) that by (metis prefix_order.trans prefixeq_butlast)
  moreover have "fs1 q = Some Dir" if "fs q = Some Dir" for q
    using m(4,5) [of q] that by (cases "prefix q (butlast target)") auto
  ultimately show "frame {target} fs fs'" using m(2,3)
    by (simp add: frame_def same_links_def)
  have "view fs1 target = view fs target" by (rule m(3))
  then show "fs' target = Some (Reg content (case mode of Some m \<Rightarrow> S_IMODE m
        | None \<Rightarrow> (case view fs target of Some (b, m) \<Rightarrow> S_IMODE m | None \<Rightarrow> 384)))"
    by (auto simp: fs' view_def split: option.splits node.splits)
qed

lemma unlink_effect:
  assumes "wf_fs fs" and "boundary_resolve fs wroot p e = Inr target" and "is_file fs target"
  shows "frame {target} fs (fs(target := None))"
proof (rule update_file_frame)
  show "fs q = Some Dir" if "strict_prefix q target" for q
    using wf_fs_parents [OF assms(1) _ that] assms(3) by (auto simp: is_file_def split: option.splits)
qed (use assms in \<open>auto simp: is_file_def link_at_def split: option.splits node.splits\<close>)

section \<open>Desired-state application\<close>

text \<open>
  The contract an edit interpreter has to meet for a replay after a crash to be safe: applying an edit
  establishes what the edit asks for, applying an edit whose demand holds changes nothing, and
  independent edits do not disturb each other.
\<close>

fun apply_all :: "('e \<Rightarrow> 's \<Rightarrow> 's res) \<Rightarrow> 'e list \<Rightarrow> 's \<Rightarrow> 's res" where
  "apply_all apply [] s = Inr s"
| "apply_all apply (e # es) s = rbind (apply e s) (apply_all apply es)"

lemma apply_all_append: "apply_all ap (xs @ ys) s = rbind (apply_all ap xs s) (apply_all ap ys)"
  by (induction xs arbitrary: s) (auto simp: rbind_def split: sum.splits)

locale desired_state =
  fixes apply_one :: "'e \<Rightarrow> 's \<Rightarrow> 's res"
    and holds :: "'e \<Rightarrow> 's \<Rightarrow> bool"
    and ok :: "'e \<Rightarrow> bool"
    and inv :: "'s \<Rightarrow> bool"
    and indep :: "'s \<Rightarrow> 'e \<Rightarrow> 'e \<Rightarrow> bool"
  assumes apply_inv: "inv s \<Longrightarrow> apply_one e s = Inr s' \<Longrightarrow> inv s'"
    and apply_holds: "inv s \<Longrightarrow> ok e \<Longrightarrow> apply_one e s = Inr s' \<Longrightarrow> holds e s'"
    and holds_apply: "inv s \<Longrightarrow> ok e \<Longrightarrow> holds e s \<Longrightarrow> apply_one e s = Inr s"
    and holds_stable: "inv s \<Longrightarrow> holds e s \<Longrightarrow> indep s e e' \<Longrightarrow> apply_one e' s = Inr s' \<Longrightarrow> holds e s'"
    and indep_stable: "inv s \<Longrightarrow> apply_one e s = Inr s' \<Longrightarrow> indep s e1 e2 \<Longrightarrow> indep s' e1 e2"
begin

lemma apply_all_inv: "inv s \<Longrightarrow> apply_all apply_one es s = Inr s' \<Longrightarrow> inv s'"
  by (induction es arbitrary: s) (auto simp: rbind_Inr_iff dest: apply_inv)

lemma apply_all_skip:
  "inv s \<Longrightarrow> (\<And>e. e \<in> set es \<Longrightarrow> ok e \<and> holds e s) \<Longrightarrow> apply_all apply_one es s = Inr s"
  by (induction es) (auto simp: holds_apply)

lemma apply_all_keeps:
  "inv s \<Longrightarrow> holds e s \<Longrightarrow> (\<And>e'. e' \<in> set es \<Longrightarrow> indep s e e') \<Longrightarrow>
   apply_all apply_one es s = Inr s' \<Longrightarrow> holds e s'"
proof (induction es arbitrary: s)
  case (Cons x xs)
  from Cons.prems(4) obtain s1 where s1: "apply_one x s = Inr s1" "apply_all apply_one xs s1 = Inr s'"
    by (auto simp: rbind_Inr_iff)
  have "indep s1 e e'" if "e' \<in> set xs" for e'
    using Cons.prems(1,3) s1(1) that by (auto intro: indep_stable)
  moreover have "holds e s1" using Cons.prems(1-3) s1(1) by (auto intro: holds_stable)
  ultimately show ?case using Cons.IH [of s1] s1 Cons.prems(1) by (auto dest: apply_inv)
qed simp

lemma apply_all_holds:
  "inv s \<Longrightarrow> (\<And>e. e \<in> set es \<Longrightarrow> ok e) \<Longrightarrow> sorted_wrt (indep s) es \<Longrightarrow>
   apply_all apply_one es s = Inr s' \<Longrightarrow> e \<in> set es \<Longrightarrow> holds e s'"
proof (induction es arbitrary: s)
  case (Cons x xs)
  from Cons.prems(4) obtain s1 where s1: "apply_one x s = Inr s1" "apply_all apply_one xs s1 = Inr s'"
    by (auto simp: rbind_Inr_iff)
  have inv1: "inv s1" using Cons.prems(1) s1(1) by (rule apply_inv)
  have ind: "indep s1 a b" if "indep s a b" for a b
    using Cons.prems(1) s1(1) that by (rule indep_stable)
  show ?case
  proof (cases "e = x")
    case True
    have "holds x s1" using Cons.prems(1,2) s1(1) by (auto intro: apply_holds)
    then show ?thesis
      using apply_all_keeps [OF inv1 _ _ s1(2)] Cons.prems(3) ind True by auto
  next
    case False
    have "sorted_wrt (indep s1) xs"
      using Cons.prems(3) ind by (auto intro: sorted_wrt_mono_rel)
    then show ?thesis using Cons.IH [OF inv1 _ _ s1(2)] Cons.prems(2,5) False by auto
  qed
qed simp

text \<open>A run that crashed after the edits \<open>xs\<close> and starts over reaches the state of a run without a crash.\<close>

lemma crash_replay:
  assumes "inv s" and "\<And>e. e \<in> set (xs @ ys) \<Longrightarrow> ok e" and "sorted_wrt (indep s) (xs @ ys)"
    and "apply_all apply_one (xs @ ys) s = Inr s'" and "apply_all apply_one xs s = Inr s1"
  shows "apply_all apply_one (xs @ ys) s1 = Inr s'"
proof -
  have "holds e s1" if "e \<in> set xs" for e
    using apply_all_holds [OF assms(1) _ _ assms(5) that] assms(2,3) by (auto simp: sorted_wrt_append)
  then have "apply_all apply_one xs s1 = Inr s1"
    using apply_all_inv [OF assms(1,5)] assms(2) by (intro apply_all_skip) auto
  then show ?thesis using assms(4,5) by (simp add: apply_all_append)
qed

end

text \<open>Text that reading gives back as written: valid UTF-8 without carriage returns.\<close>

definition plain_text :: "string \<Rightarrow> bool" where
  "plain_text s \<longleftrightarrow> valid_utf8 s \<and> char_of (13::nat) \<notin> set s"

lemma universal_newlines_id: "char_of (13::nat) \<notin> set s \<Longrightarrow> universal_newlines s = s"
proof (induction s rule: universal_newlines.induct)
  case (2 c cs)
  have "of_char c \<noteq> (13::nat)"
  proof
    assume "of_char c = (13::nat)"
    then have "c = char_of (13::nat)" by (metis char_of_char)
    with "2.prems" show False by simp
  qed
  with 2 show ?case by simp
qed simp

lemma read_text_plain: "plain_text s \<Longrightarrow> read_text s = Inr s"
  by (simp add: plain_text_def read_text_def universal_newlines_id)

definition edit_ok :: "file_edit \<Rightarrow> bool" where
  "edit_ok e \<longleftrightarrow> (case fe_content e of None \<Rightarrow> fe_delete e | Some c \<Rightarrow> \<not> fe_delete e \<and> plain_text c)"

definition edit_holds :: "path \<Rightarrow> file_edit \<Rightarrow> fs \<Rightarrow> bool" where
  "edit_holds wroot e fs \<longleftrightarrow>
     (\<exists>t. boundary_resolve fs wroot (fe_path e) False = Inr t \<and>
          (if fe_delete e then fs t = None else \<exists>c. fe_content e = Some c \<and> file_text fs t = Inr c))"

text \<open>Two paths that do not name the same place, or one a place below the other.\<close>

definition path_indep :: "path \<Rightarrow> fs \<Rightarrow> string \<Rightarrow> string \<Rightarrow> bool" where
  "path_indep wroot fs p p' \<longleftrightarrow>
     (case (boundary_resolve fs wroot p False, boundary_resolve fs wroot p' False) of
        (Inr t, Inr t') \<Rightarrow> \<not> prefix t t' \<and> \<not> prefix t' t
      | _ \<Rightarrow> True)"

definition edit_indep :: "path \<Rightarrow> fs \<Rightarrow> file_edit \<Rightarrow> file_edit \<Rightarrow> bool" where
  "edit_indep wroot fs e e' \<longleftrightarrow> path_indep wroot fs (fe_path e) (fe_path e')"

definition apply_edit_fs :: "(string \<Rightarrow> string) \<Rightarrow> path \<Rightarrow> bool \<Rightarrow> file_edit \<Rightarrow> fs \<Rightarrow> fs res" where
  "apply_edit_fs sha wroot hash_strict e fs = rbind (apply_edit sha fs wroot e hash_strict) (\<lambda>r. Inr (fst r))"

lemma file_text_Reg: "file_text fs t = Inr c \<Longrightarrow> \<exists>b m. fs t = Some (Reg b m)"
  by (auto simp: file_text_def file_bytes_def rbind_Inr_iff split: option.splits node.splits)

lemma file_text_written: "plain_text c \<Longrightarrow> fs t = Some (Reg c m) \<Longrightarrow> file_text fs t = Inr c"
  by (simp add: file_text_def file_bytes_def read_text_plain)

lemma file_text_view: "view fs t = view fs' t \<Longrightarrow> file_text fs t = Inr c \<Longrightarrow> file_text fs' t = Inr c"
  by (auto simp: file_text_def file_bytes_def view_def rbind_def split: option.splits node.splits sum.splits)

lemma apply_edit_effect:
  assumes "apply_edit_fs sha wroot hs e fs = Inr fs'" and "wf_fs fs"
  shows "\<exists>t. boundary_resolve fs wroot (fe_path e) False = Inr t \<and> frame {t} fs fs' \<and>
     (if fe_delete e then fs' t = None
      else \<exists>c. fe_content e = Some c \<and> (fs' = fs \<and> file_text fs t = Inr c \<or> (\<exists>m. fs' t = Some (Reg c m))))"
proof -
  obtain t where t: "boundary_resolve fs wroot (fe_path e) False = Inr t"
    using assms(1) by (auto simp: apply_edit_fs_def apply_edit_def rbind_Inr_iff)
  show ?thesis
  proof (cases "fe_delete e")
    case True
    then have "fs' = fs \<and> fs t = None \<or> is_file fs t \<and> fs' = fs(t := None)"
      using assms(1) t by (auto simp: apply_edit_fs_def apply_edit_def rbind_Inr_iff path_exists_def
          split: if_splits)
    then show ?thesis using t True assms(2) unlink_effect [OF assms(2) t] frame_refl [OF assms(2)] by auto
  next
    case False
    then obtain c where c: "fe_content e = Some c"
      using assms(1) t by (auto simp: apply_edit_fs_def apply_edit_def rbind_Inr_iff split: option.splits)
    have "fs' = fs \<and> file_text fs t = Inr c \<or> write_file fs wroot True (fe_path e) c None = Inr fs'"
      using assms(1) t False c
      by (auto simp: apply_edit_fs_def apply_edit_def rbind_Inr_iff split: if_splits)
    then show ?thesis
    proof
      assume "fs' = fs \<and> file_text fs t = Inr c"
      then show ?thesis using t c False frame_refl [OF assms(2)] by auto
    next
      assume w: "write_file fs wroot True (fe_path e) c None = Inr fs'"
      show ?thesis using t c False write_file_effect [OF w assms(2) t] by auto
    qed
  qed
qed

lemma apply_edit_noop:
  assumes "edit_holds wroot e fs"
  shows "apply_edit sha fs wroot e hs = Inr (fs, [], [])"
  using assms file_text_Reg
  by (fastforce simp: edit_holds_def apply_edit_def path_exists_def split: if_splits)

interpretation patch: desired_state "apply_edit_fs sha wroot hs" "edit_holds wroot" edit_ok wf_fs
  "edit_indep wroot" for sha wroot hs
proof unfold_locales
  fix s s' :: fs and e e' e1 e2 :: file_edit
  assume inv: "wf_fs s"
  { assume ap: "apply_edit_fs sha wroot hs e s = Inr s'"
    from apply_edit_effect [OF ap inv] obtain t where
      t: "boundary_resolve s wroot (fe_path e) False = Inr t" "frame {t} s s'"
      and eff: "if fe_delete e then s' t = None
        else \<exists>c. fe_content e = Some c \<and> (s' = s \<and> file_text s t = Inr c \<or> (\<exists>m. s' t = Some (Reg c m)))"
      by blast
    have cong: "boundary_resolve s' wroot p False = boundary_resolve s wroot p False" for p
      using boundary_resolve_cong [OF frameD(2) [OF t(2)]] by simp
    show "wf_fs s'" using frameD(1) t(2) .
    show "edit_holds wroot e s'" if "edit_ok e"
      using that t(1) eff by (auto simp: edit_holds_def cong edit_ok_def file_text_written
            split: if_splits option.splits)
    show "edit_indep wroot s' e1 e2" if "edit_indep wroot s e1 e2"
      using that by (simp add: edit_indep_def path_indep_def cong) }
  show "apply_edit_fs sha wroot hs e s = Inr s" if "edit_holds wroot e s"
    using apply_edit_noop [OF that] by (simp add: apply_edit_fs_def)
  assume h: "edit_holds wroot e s" and ind: "edit_indep wroot s e e'"
    and ap: "apply_edit_fs sha wroot hs e' s = Inr s'"
  from apply_edit_effect [OF ap inv] obtain t' where
    t': "boundary_resolve s wroot (fe_path e') False = Inr t'" "frame {t'} s s'" by blast
  from h obtain t where t: "boundary_resolve s wroot (fe_path e) False = Inr t"
    and ht: "if fe_delete e then s t = None else \<exists>c. fe_content e = Some c \<and> file_text s t = Inr c"
    by (auto simp: edit_holds_def)
  have "\<not> prefix t t'" using ind t t'(1) by (simp add: edit_indep_def path_indep_def)
  then have "s' t = s t" using t'(2) by (simp add: frame_def)
  moreover have "boundary_resolve s' wroot (fe_path e) False = Inr t"
    using t boundary_resolve_cong [OF frameD(2) [OF t'(2)]] by simp
  ultimately show "edit_holds wroot e s'"
    using ht by (auto simp: edit_holds_def file_text_def file_bytes_def)
qed

text \<open>\<open>apply_edits\<close> is the iteration of \<open>apply_edit\<close>; when it fails it leaves the edits before the failure.\<close>

lemma apply_edits_Inr_iff:
  "(\<exists>r. apply_edits sha fs wroot hs es c m = (fs', Inr r)) \<longleftrightarrow>
   apply_all (apply_edit_fs sha wroot hs) es fs = Inr fs'"
  by (induction sha fs wroot hs es c m rule: apply_edits.induct)
    (auto simp: apply_edit_fs_def rbind_def split: sum.splits)

lemma apply_edits_prefix:
  "\<exists>xs ys. es = xs @ ys \<and>
     apply_all (apply_edit_fs sha wroot hs) xs fs = Inr (fst (apply_edits sha fs wroot hs es c m))"
proof (induction es arbitrary: fs c m)
  case (Cons e es)
  show ?case
  proof (cases "apply_edit sha fs wroot e hs")
    case (Inl x)
    then show ?thesis by (intro exI [of _ "[]"] exI [of _ "e # es"]) simp
  next
    case (Inr r)
    obtain fs1 n ch where r: "r = (fs1, n, ch)" by (cases r)
    obtain xs ys where "es = xs @ ys" "apply_all (apply_edit_fs sha wroot hs) xs fs1 =
        Inr (fst (apply_edits sha fs1 wroot hs es (c @ n) (m @ ch)))" using Cons.IH by metis
    then have "e # es = (e # xs) @ ys \<and> apply_all (apply_edit_fs sha wroot hs) (e # xs) fs =
        Inr (fst (apply_edits sha fs wroot hs (e # es) c m))"
      using Inr r by (simp add: apply_edit_fs_def [of _ _ _ e])
    then show ?thesis by blast
  qed
qed simp

text \<open>An interpreter each step of which touches the place its key names only.\<close>

locale framed_apply =
  fixes apply_one :: "'e \<Rightarrow> fs \<Rightarrow> fs res" and key :: "'e \<Rightarrow> string" and wroot :: path
  assumes apply_frame: "wf_fs s \<Longrightarrow> apply_one e s = Inr s' \<Longrightarrow>
    \<exists>t. boundary_resolve s wroot (key e) False = Inr t \<and> frame {t} s s'"
begin

lemma apply_all_frame:
  "wf_fs s \<Longrightarrow> apply_all apply_one es s = Inr s' \<Longrightarrow>
   frame {t. \<exists>e \<in> set es. boundary_resolve s wroot (key e) False = Inr t} s s'"
proof (induction es arbitrary: s)
  case (Cons e es)
  then obtain s1 where s1: "apply_one e s = Inr s1" "apply_all apply_one es s1 = Inr s'"
    by (auto simp: rbind_Inr_iff)
  from apply_frame [OF Cons.prems(1) s1(1)] obtain t where
    t: "boundary_resolve s wroot (key e) False = Inr t" "frame {t} s s1" by blast
  have cong: "boundary_resolve s1 wroot p False = boundary_resolve s wroot p False" for p
    using boundary_resolve_cong [OF frameD(2) [OF t(2)]] by simp
  have "frame ({t} \<union> {t. \<exists>e \<in> set es. boundary_resolve s1 wroot (key e) False = Inr t}) s s'"
    using Cons.IH [OF frameD(1) [OF t(2)] s1(2)] t(2) frame_trans by blast
  then show ?case by (rule frame_mono) (auto simp: cong t(1))
qed (simp add: frame_refl)

end

interpretation patch_frame: framed_apply "apply_edit_fs sha wroot hs" fe_path wroot for sha wroot hs
  using apply_edit_effect by unfold_locales blast

text \<open>
  C12: Applying a list of edits can be restarted after a crash. If the process died after a prefix of
  the edits had been applied, applying the whole list again to what the crash left reaches the very
  file system of an uninterrupted run (plain-text contents, targets not below one another), digest
  checks included: an edit that is already in place is not a conflict.
\<close>

theorem apply_edits_crash_replay:
  assumes "wf_fs fs" and "list_all edit_ok (xs @ ys)" and "sorted_wrt (edit_indep wroot fs) (xs @ ys)"
    and "apply_edits sha fs wroot hs (xs @ ys) [] [] = (fs', Inr r)"
    and "apply_edits sha fs wroot hs xs [] [] = (fs1, Inr r1)"
  shows "\<exists>r2. apply_edits sha fs1 wroot hs (xs @ ys) [] [] = (fs', Inr r2)"
proof -
  note ap = iffD1 [OF apply_edits_Inr_iff, OF exI]
  have "\<And>e. e \<in> set (xs @ ys) \<Longrightarrow> edit_ok e" using assms(2) by (simp only: list_all_iff)
  from patch.crash_replay [OF assms(1) this assms(3) ap [OF assms(4)] ap [OF assms(5)]]
  show ?thesis by (rule iffD2 [OF apply_edits_Inr_iff])
qed

definition demo_fs :: fs where
  "demo_fs = [[] \<mapsto> Dir, [''w''] \<mapsto> Dir, [''w'', ''a.py''] \<mapsto> Reg ''old'' 420]"

definition demo_edit :: "string \<Rightarrow> string \<Rightarrow> string option \<Rightarrow> file_edit" where
  "demo_edit p c d = \<lparr>fe_path = p, fe_content = Some c, fe_delete = False, fe_expected_sha256 = d\<rparr>"

lemma demo_fs_wf [simp]: "wf_fs demo_fs"
  by (auto simp: wf_fs_def demo_fs_def)

definition demo_edits :: "file_edit list" where
  "demo_edits = [demo_edit ''a.py'' ''new'' (Some ''old''), demo_edit ''lib/b.py'' ''x'' None]"

theorem apply_edits_crash_replay_witness:
  "\<exists>r2. apply_edits id (fst (apply_edits id demo_fs [''w''] True (take 1 demo_edits) [] [])) [''w''] True
      (take 1 demo_edits @ drop 1 demo_edits) [] [] =
    (fst (apply_edits id demo_fs [''w''] True (take 1 demo_edits @ drop 1 demo_edits) [] []), Inr r2)"
proof (rule apply_edits_crash_replay [where fs = demo_fs])
  show "sorted_wrt (edit_indep [''w''] demo_fs) (take 1 demo_edits @ drop 1 demo_edits)" by code_simp
  show "list_all edit_ok (take 1 demo_edits @ drop 1 demo_edits)" by code_simp
  have "snd (apply_edits id demo_fs [''w''] True (take 1 demo_edits @ drop 1 demo_edits) [] []) =
      Inr ([''lib/b.py''], [''a.py''])" by code_simp
  then show "apply_edits id demo_fs [''w''] True (take 1 demo_edits @ drop 1 demo_edits) [] [] =
      (fst (apply_edits id demo_fs [''w''] True (take 1 demo_edits @ drop 1 demo_edits) [] []),
       Inr ([''lib/b.py''], [''a.py'']))" by (metis prod.collapse)
  have "snd (apply_edits id demo_fs [''w''] True (take 1 demo_edits) [] []) = Inr ([], [''a.py''])"
    by code_simp
  then show "apply_edits id demo_fs [''w''] True (take 1 demo_edits) [] [] =
      (fst (apply_edits id demo_fs [''w''] True (take 1 demo_edits) [] []), Inr ([], [''a.py'']))"
    by (metis prod.collapse)
qed simp

section \<open>Restoration of an attempt\<close>

text \<open>
  The restoration of a baseline is a desired-state interpreter too: an entry asks for the absence of
  the file, or for its text and mode.
\<close>

definition restore_fs :: "path \<Rightarrow> string \<times> file_baseline \<Rightarrow> fs \<Rightarrow> fs res" where
  "restore_fs wroot e fs = rbind (restore_entry fs wroot (fst e) (snd e)) (\<lambda>r. Inr (fst r))"

definition entry_ok :: "string \<times> file_baseline \<Rightarrow> bool" where
  "entry_ok e \<longleftrightarrow> pred_option plain_text (fb_content (snd e)) \<and> pred_option (\<lambda>m. S_IMODE m = m) (fb_mode (snd e))"

definition matches :: "fs \<Rightarrow> path \<Rightarrow> file_baseline \<Rightarrow> bool" where
  "matches fs t b \<longleftrightarrow>
     (case fb_content b of
        None \<Rightarrow> fs t = None
      | Some c \<Rightarrow> file_text fs t = Inr c \<and>
          (\<forall>b' m. fs t = Some (Reg b' m) \<longrightarrow> pred_option (\<lambda>m'. S_IMODE m = m') (fb_mode b)))"

definition entry_holds :: "path \<Rightarrow> string \<times> file_baseline \<Rightarrow> fs \<Rightarrow> bool" where
  "entry_holds wroot e fs \<longleftrightarrow>
     (\<exists>t. boundary_resolve fs wroot (fst e) False = Inr t \<and> matches fs t (snd e))"

definition entry_indep :: "path \<Rightarrow> fs \<Rightarrow> string \<times> file_baseline \<Rightarrow> string \<times> file_baseline \<Rightarrow> bool" where
  "entry_indep wroot fs e e' \<longleftrightarrow> path_indep wroot fs (fst e) (fst e')"

text \<open>A place that can be restored: a readable file, or a free place in an existing directory.\<close>

definition restorable :: "path \<Rightarrow> fs \<Rightarrow> string \<times> file_baseline \<Rightarrow> bool" where
  "restorable wroot fs e \<longleftrightarrow>
     (\<exists>t. boundary_resolve fs wroot (fst e) False = Inr t \<and>
        ((\<exists>c. file_text fs t = Inr c) \<or>
         fs t = None \<and> (fb_content (snd e) \<noteq> None \<longrightarrow> (\<forall>q. strict_prefix q t \<longrightarrow> fs q = Some Dir))))"

lemma matches_cong: "fs t = fs' t \<Longrightarrow> matches fs t b = matches fs' t b"
  unfolding matches_def file_text_def file_bytes_def by presburger

lemma S_IMODE_idem [simp]: "S_IMODE (S_IMODE m) = S_IMODE m"
  by (simp add: S_IMODE_def)

lemma read_text_or_none_text: "file_text fs t = Inr c \<Longrightarrow> read_text_or_none fs t = Inr (Some c)"
  using file_text_Reg [of fs t c] by (auto simp: read_text_or_none_def path_exists_def is_file_def)

lemma read_text_or_none_Some: "read_text_or_none fs t = Inr (Some c) \<Longrightarrow> file_text fs t = Inr c"
  by (auto simp: read_text_or_none_def rbind_Inr_iff split: if_splits)

lemma restore_entry_effect:
  assumes "restore_fs wroot e fs = Inr fs'" and "wf_fs fs"
  shows "\<exists>t. boundary_resolve fs wroot (fst e) False = Inr t \<and> frame {t} fs fs' \<and>
     (entry_ok e \<longrightarrow> matches fs' t (snd e))"
proof -
  obtain t where t: "boundary_resolve fs wroot (fst e) False = Inr t"
    using assms(1) by (auto simp: restore_fs_def restore_entry_def rbind_Inr_iff)
  note nl = boundary_target_no_link [OF t assms(2)]
  have chmod: "frame {t} fs (fs(t \<mapsto> Reg b' m'))" if "fs t = Some (Reg b m)" for b m b' m'
    using that assms(2) nl wf_fs_parents [OF assms(2)]
    by (intro update_file_frame) (auto simp: link_at_def)
  have unlink: "frame {t} fs (fs(t := None))" if "fs t = Some (Reg b m)" for b m
    using unlink_effect [OF assms(2) t] that by (simp add: is_file_def)
  show ?thesis
  proof (cases "fb_content (snd e)")
    case None
    then have "fs' = fs \<and> fs t = None \<or> (\<exists>b m. fs t = Some (Reg b m)) \<and> fs' = fs(t := None)"
      using assms(1) t by (auto simp: restore_fs_def restore_entry_def split: option.splits node.splits)
    then show ?thesis using t unlink frame_refl [OF assms(2)] None by (auto simp: matches_def)
  next
    case (Some c)
    obtain cur where cur: "read_text_or_none fs t = Inr cur"
      using assms(1) t Some by (auto simp: restore_fs_def restore_entry_def rbind_Inr_iff)
    show ?thesis
    proof (cases "cur = Some c")
      case True
      then have tx: "file_text fs t = Inr c" using cur read_text_or_none_Some by simp
      then obtain b m where reg: "fs t = Some (Reg b m)" using file_text_Reg by blast
      have "fs' = fs \<and> pred_option (\<lambda>m'. S_IMODE m = m') (fb_mode (snd e)) \<or>
            (\<exists>m'. fb_mode (snd e) = Some m' \<and> fs' = fs(t \<mapsto> Reg b m'))"
        using assms(1) t Some cur True reg
        by (auto simp: restore_fs_def restore_entry_def rbind_Inr_iff split: option.splits if_splits)
      then show ?thesis
        using t frame_refl [OF assms(2)] chmod [OF reg] tx reg Some
        by (auto simp: matches_def entry_ok_def file_text_def file_bytes_def)
    next
      case False
      then have w: "write_file fs wroot True (fst e) c (fb_mode (snd e)) = Inr fs'"
        using assms(1) t Some cur by (auto simp: restore_fs_def restore_entry_def rbind_Inr_iff)
      note weff = write_file_effect [OF w assms(2) t]
      then show ?thesis using t Some
        by (auto simp: matches_def entry_ok_def file_text_written split: option.splits)
    qed
  qed
qed

lemma restore_entry_noop:
  assumes "entry_holds wroot e fs"
  shows "restore_fs wroot e fs = Inr fs"
proof -
  from assms obtain t where t: "boundary_resolve fs wroot (fst e) False = Inr t" "matches fs t (snd e)"
    by (auto simp: entry_holds_def)
  show ?thesis
  proof (cases "fb_content (snd e)")
    case (Some c)
    then have tx: "file_text fs t = Inr c" using t(2) by (simp add: matches_def)
    then obtain b m where "fs t = Some (Reg b m)" using file_text_Reg by blast
    then show ?thesis using t Some read_text_or_none_text [OF tx]
      by (cases "fb_mode (snd e)") (auto simp: matches_def restore_fs_def restore_entry_def)
  qed (use t in \<open>simp add: matches_def restore_fs_def restore_entry_def\<close>)
qed

lemma write_file_total:
  assumes "wf_fs fs" and "boundary_resolve fs wroot p False = Inr t" and "fs t \<noteq> Some Dir"
    and "\<And>q. strict_prefix q t \<Longrightarrow> fs q = Some Dir"
  shows "\<exists>fs'. write_file fs wroot True p content mode = Inr fs'"
proof -
  have "t \<noteq> []" using assms(1,3) by (auto simp: wf_fs_def)
  then have "strict_prefix (butlast t) t"
    by (metis append_butlast_last_id append_eq_conv_conj not_Cons_self2 prefixI strict_prefix_def append_self_conv)
  then have below: "fs q = Some Dir" if "prefix q (butlast t)" for q
    using assms(4) that prefix_order.le_less_trans by blast
  then have mk: "mkdir_parents fs t = Inr (\<lambda>q. if fs q = None \<and> prefix q (butlast t) then Some Dir else fs q)"
    by (auto simp: mkdir_parents_def list_ex_iff is_file_def)
  have "\<not> prefix t (butlast t)" using below assms(3) by blast
  then show ?thesis using assms(2,3) mk
    by (cases "fs t") (auto simp: write_file_def Let_def split: node.splits)
qed

lemma restorable_total:
  assumes "restorable wroot fs e" and "wf_fs fs"
  shows "\<exists>fs'. restore_fs wroot e fs = Inr fs'"
proof -
  from assms(1) obtain t where t: "boundary_resolve fs wroot (fst e) False = Inr t"
    and c: "(\<exists>c. file_text fs t = Inr c) \<or>
      fs t = None \<and> (fb_content (snd e) \<noteq> None \<longrightarrow> (\<forall>q. strict_prefix q t \<longrightarrow> fs q = Some Dir))"
    by (auto simp: restorable_def)
  from c consider (readable) c b m where "file_text fs t = Inr c" "fs t = Some (Reg b m)"
    | (free) "fs t = None" "fb_content (snd e) \<noteq> None \<longrightarrow> (\<forall>q. strict_prefix q t \<longrightarrow> fs q = Some Dir)"
    using file_text_Reg [of fs t] by metis
  then show ?thesis
  proof cases
    case readable
    have w: "\<exists>fs'. write_file fs wroot True (fst e) ct md = Inr fs'" for ct md
      using readable wf_fs_parents [OF assms(2)] by (intro write_file_total [OF assms(2) t]) auto
    show ?thesis
    proof (cases "fb_content (snd e)")
      case (Some ct)
      then show ?thesis using t readable read_text_or_none_text [OF readable(1)] w [of ct "fb_mode (snd e)"]
        by (cases "fb_mode (snd e)") (auto simp: restore_fs_def restore_entry_def)
    qed (use t readable in \<open>simp add: restore_fs_def restore_entry_def\<close>)
  next
    case free
    show ?thesis
    proof (cases "fb_content (snd e)")
      case (Some ct)
      then have "\<exists>fs'. write_file fs wroot True (fst e) ct (fb_mode (snd e)) = Inr fs'"
        using free by (intro write_file_total [OF assms(2) t]) auto
      moreover have "read_text_or_none fs t = Inr None"
        using free by (simp add: read_text_or_none_def path_exists_def)
      ultimately show ?thesis using t Some by (auto simp: restore_fs_def restore_entry_def)
    qed (use t free in \<open>simp add: restore_fs_def restore_entry_def\<close>)
  qed
qed

text \<open>Where each edit can also be shown to go through, the whole list goes through.\<close>

locale total_state = desired_state +
  fixes can :: "'b \<Rightarrow> 'a \<Rightarrow> bool"
  assumes can_apply: "inv s \<Longrightarrow> can s e \<Longrightarrow> \<exists>s'. apply_one e s = Inr s'"
    and can_stable: "inv s \<Longrightarrow> can s e \<Longrightarrow> indep s e' e \<Longrightarrow> apply_one e' s = Inr s' \<Longrightarrow> can s' e"
begin

lemma apply_all_total:
  "inv s \<Longrightarrow> sorted_wrt (indep s) es \<Longrightarrow> (\<And>e. e \<in> set es \<Longrightarrow> can s e) \<Longrightarrow>
   \<exists>s'. apply_all apply_one es s = Inr s'"
proof (induction es arbitrary: s)
  case (Cons x xs)
  then obtain s1 where s1: "apply_one x s = Inr s1" using can_apply [of s x] by auto
  have "sorted_wrt (indep s1) xs"
    using Cons.prems(1,2) s1 by (auto intro: sorted_wrt_mono_rel indep_stable)
  moreover have "can s1 e" if "e \<in> set xs" for e
    using Cons.prems s1 that by (auto intro: can_stable)
  ultimately show ?case using Cons.IH [of s1] apply_inv [OF Cons.prems(1) s1] s1 by auto
qed simp

end

interpretation restore: total_state "restore_fs wroot" "entry_holds wroot" entry_ok wf_fs
  "entry_indep wroot" "restorable wroot" for wroot
proof unfold_locales
  fix s s' :: fs and e e' e1 e2 :: "string \<times> file_baseline"
  assume inv: "wf_fs s"
  { assume ap: "restore_fs wroot e s = Inr s'"
    from restore_entry_effect [OF ap inv] obtain t where
      t: "boundary_resolve s wroot (fst e) False = Inr t" "frame {t} s s'"
      and eff: "entry_ok e \<longrightarrow> matches s' t (snd e)" by blast
    have cong: "boundary_resolve s' wroot p False = boundary_resolve s wroot p False" for p
      using boundary_resolve_cong [OF frameD(2) [OF t(2)]] by simp
    show "wf_fs s'" using frameD(1) t(2) .
    show "entry_holds wroot e s'" if "entry_ok e"
      using that t(1) eff by (simp add: entry_holds_def cong)
    show "entry_indep wroot s' e1 e2" if "entry_indep wroot s e1 e2"
      using that by (simp add: entry_indep_def path_indep_def cong) }
  show "restore_fs wroot e s = Inr s" if "entry_holds wroot e s" by (rule restore_entry_noop [OF that])
  show "\<exists>s'. restore_fs wroot e s = Inr s'" if "restorable wroot s e" using restorable_total [OF that inv] .
  have stable: "s' t = s t \<and> (\<forall>q. s q = Some Dir \<longrightarrow> s' q = Some Dir) \<and>
      boundary_resolve s' wroot (fst e) False = Inr t"
    if "restore_fs wroot e' s = Inr s'" and "boundary_resolve s wroot (fst e) False = Inr t"
      and "path_indep wroot s (fst e) (fst e') \<or> path_indep wroot s (fst e') (fst e)" for t e e'
  proof -
    from restore_entry_effect [OF that(1) inv] obtain t' where
      t': "boundary_resolve s wroot (fst e') False = Inr t'" "frame {t'} s s'" by blast
    have "\<not> prefix t t'" using that(2,3) t'(1) by (auto simp: path_indep_def)
    then show ?thesis
      using t'(2) that(2) boundary_resolve_cong [OF frameD(2) [OF t'(2)]] by (simp add: frame_def)
  qed
  show "entry_holds wroot e s'" if "entry_holds wroot e s" "entry_indep wroot s e e'" "restore_fs wroot e' s = Inr s'"
  proof -
    from that(1) obtain t where t: "boundary_resolve s wroot (fst e) False = Inr t" "matches s t (snd e)"
      by (auto simp: entry_holds_def)
    show ?thesis using stable [OF that(3) t(1)] that(2) t(2)
      by (auto simp: entry_holds_def entry_indep_def matches_def file_text_def file_bytes_def split: option.splits)
  qed
  show "restorable wroot s' e"
    if "restorable wroot s e" "entry_indep wroot s e' e" "restore_fs wroot e' s = Inr s'"
  proof -
    from that(1) obtain t where t: "boundary_resolve s wroot (fst e) False = Inr t"
      and r: "(\<exists>c. file_text s t = Inr c) \<or>
         s t = None \<and> (fb_content (snd e) \<noteq> None \<longrightarrow> (\<forall>q. strict_prefix q t \<longrightarrow> s q = Some Dir))"
      by (auto simp: restorable_def)
    show ?thesis using stable [OF that(3) t] that(2) r
      by (auto simp: restorable_def entry_indep_def file_text_def file_bytes_def)
  qed
qed

interpretation restore_frame: framed_apply "restore_fs wroot" fst wroot for wroot
  using restore_entry_effect by unfold_locales blast

lemma restore_entries_Inr_iff:
  "(\<exists>r. restore_entries fs wroot es a b = (fs', Inr r)) \<longleftrightarrow> apply_all (restore_fs wroot) es fs = Inr fs'"
  by (induction fs wroot es a b rule: restore_entries.induct)
    (auto simp: restore_fs_def rbind_def split: sum.splits)

lemma normalize_raw_baseline [simp]:
  "normalize_baseline (map (\<lambda>(p, b). (p, raw_of_baseline b)) bl) = Inr bl"
  by (induction bl)
    (auto simp: normalize_baseline_def raw_of_baseline_def jopt_def jint_opt_def split: option.splits)

lemma set_alist_update: "(p, b) \<in> set (AList.update k v al) \<Longrightarrow> (p, b) = (k, v) \<or> (p, b) \<in> set al"
  by (induction al) (auto split: if_splits)

text \<open>What a snapshot records of a path, and what the recovery of an attempt records.\<close>

definition base_of :: "fs \<Rightarrow> path \<Rightarrow> string \<Rightarrow> file_baseline \<Rightarrow> bool" where
  "base_of fs wroot p b \<longleftrightarrow>
     (\<exists>t. boundary_resolve fs wroot p False = Inr t \<and> matches fs t b \<and>
          pred_option (\<lambda>m. S_IMODE m = m) (fb_mode b))"

lemma snapshot_step:
  assumes "snapshot_edit_baseline_from fs wroot (e # es) acc = Inr bl"
  shows "\<exists>b. snapshot_edit_baseline_from fs wroot es (AList.update (fe_path e) b acc) = Inr bl \<and>
           base_of fs wroot (fe_path e) b"
proof -
  from assms obtain t where t: "boundary_resolve fs wroot (fe_path e) False = Inr t"
    by (auto simp: rbind_Inr_iff)
  consider (free) "fs t = None" | (reg) b m c where "fs t = Some (Reg b m)" "read_text b = Inr c"
    using assms t by (auto simp: rbind_Inr_iff split: option.splits node.splits)
  then show ?thesis
  proof cases
    case free
    then show ?thesis using assms t
      by (intro exI [of _ "\<lparr>fb_content = None, fb_mode = None\<rparr>"]) (auto simp: base_of_def matches_def)
  next
    case reg
    then show ?thesis using assms t
      by (intro exI [of _ "\<lparr>fb_content = Some c, fb_mode = Some (S_IMODE m)\<rparr>"])
        (auto simp: base_of_def matches_def file_text_def file_bytes_def)
  qed
qed

lemma snapshot_from_sound:
  "snapshot_edit_baseline_from fs wroot es acc = Inr bl \<Longrightarrow> (\<And>p b. (p, b) \<in> set acc \<Longrightarrow> base_of fs wroot p b) \<Longrightarrow>
   distinct (map fst acc) \<Longrightarrow>
   (\<forall>(p, b) \<in> set bl. base_of fs wroot p b) \<and> fst ` set bl = fst ` set acc \<union> fe_path ` set es \<and> distinct (map fst bl)"
proof (induction es arbitrary: acc)
  case (Cons e es)
  from snapshot_step [OF Cons.prems(1)] obtain b where
    b: "snapshot_edit_baseline_from fs wroot es (AList.update (fe_path e) b acc) = Inr bl"
    "base_of fs wroot (fe_path e) b" by blast
  have "base_of fs wroot p v" if "(p, v) \<in> set (AList.update (fe_path e) b acc)" for p v
    using set_alist_update [OF that] b(2) Cons.prems(2) by auto
  from Cons.IH [OF b(1) this] Cons.prems(3) show ?case by (simp add: dom_update distinct_update)
qed auto

definition reads :: "fs \<Rightarrow> path \<Rightarrow> string \<Rightarrow> string option \<Rightarrow> bool" where
  "reads fs wroot p a \<longleftrightarrow>
     (\<exists>t. boundary_resolve fs wroot p False = Inr t \<and> read_text_or_none fs t = Inr a)"

lemma recover_from_total:
  "(\<And>e. e \<in> set es \<Longrightarrow> \<exists>a. reads fs wroot (fe_path e) a) \<Longrightarrow> (\<And>p a. (p, a) \<in> set acc \<Longrightarrow> reads fs wroot p a) \<Longrightarrow>
   distinct (map fst acc) \<Longrightarrow>
   \<exists>w. recover_attempt_writes_from fs wroot es acc = Inr w \<and> distinct (map fst w) \<and>
       (\<forall>(p, a) \<in> set w. reads fs wroot p a) \<and> fst ` set w =
         fst ` set acc \<union> fe_path ` {e \<in> set es. reads fs wroot (fe_path e) (intended_content e)}"
proof (induction es arbitrary: acc)
  case (Cons e es)
  from Cons.prems(1) [of e] obtain a t where t: "boundary_resolve fs wroot (fe_path e) False = Inr t"
    and a: "read_text_or_none fs t = Inr a" by (auto simp: reads_def)
  let ?acc = "if a = intended_content e then AList.update (fe_path e) (intended_content e) acc else acc"
  have "reads fs wroot p a" if "(p, a) \<in> set ?acc" for p a
    using that Cons.prems(2) t a by (auto split: if_splits dest!: set_alist_update simp: reads_def)
  moreover have "distinct (map fst ?acc)" using Cons.prems(3) by (simp add: distinct_update)
  moreover have "reads fs wroot (fe_path e) (intended_content e) \<longleftrightarrow> a = intended_content e"
    using t a by (auto simp: reads_def)
  ultimately show ?case using Cons.IH [of ?acc] Cons.prems(1) t a
    by (auto simp: dom_update Collect_disj_eq Un_assoc conj_disj_distribR)
qed auto

lemma eligible_writes_all:
  "(\<And>p a. (p, a) \<in> set w \<Longrightarrow> reads fs wroot p a \<and> nb p \<noteq> None) \<Longrightarrow>
   eligible_writes fs wroot nb w = Inr (map (\<lambda>(p, a). (p, the (nb p))) w)"
  by (induction w) (fastforce simp: reads_def)+

lemma pairwise_sorted_wrt:
  "distinct xs \<Longrightarrow> (\<And>x y. x \<in> set xs \<Longrightarrow> y \<in> set xs \<Longrightarrow> x \<noteq> y \<Longrightarrow> P x y) \<Longrightarrow> sorted_wrt P xs"
  by (induction xs) auto

lemma path_indep_sym: "path_indep wroot fs p q \<Longrightarrow> path_indep wroot fs q p"
  by (auto simp: path_indep_def split: sum.splits)

text \<open>After an attempt, complete or not, every target is as before or as its edit asks.\<close>

lemma attempt_state:
  assumes "wf_fs fs" and "list_all edit_ok edits" and "sorted_wrt (edit_indep wroot fs) edits"
    and fs1: "fs1 = fst (apply_edits sha fs wroot hs edits [] [])"
  shows "frame {t. \<exists>e \<in> set edits. boundary_resolve fs wroot (fe_path e) False = Inr t} fs fs1"
    and "e \<in> set edits \<Longrightarrow> boundary_resolve fs wroot (fe_path e) False = Inr t \<Longrightarrow>
         fs1 t = fs t \<or> edit_holds wroot e fs1"
proof -
  obtain xs ys where es: "edits = xs @ ys" and ap: "apply_all (apply_edit_fs sha wroot hs) xs fs = Inr fs1"
    using apply_edits_prefix [of edits sha wroot hs fs "[]" "[]"] fs1 by blast
  have fr: "frame {t. \<exists>e \<in> set xs. boundary_resolve fs wroot (fe_path e) False = Inr t} fs fs1"
    using patch_frame.apply_all_frame [OF assms(1) ap] .
  then show "frame {t. \<exists>e \<in> set edits. boundary_resolve fs wroot (fe_path e) False = Inr t} fs fs1"
    by (rule frame_mono) (auto simp: es)
  assume e: "e \<in> set edits" and t: "boundary_resolve fs wroot (fe_path e) False = Inr t"
  show "fs1 t = fs t \<or> edit_holds wroot e fs1"
  proof (cases "e \<in> set xs")
    case True
    then show ?thesis using patch.apply_all_holds [OF assms(1) _ _ ap True] assms(2,3)
      by (auto simp: es sorted_wrt_append list_all_iff)
  next
    case False
    then have "edit_indep wroot fs x e" if "x \<in> set xs" for x
      using assms(3) e that by (auto simp: es sorted_wrt_append)
    then have "\<not> prefix t u" if "\<exists>x \<in> set xs. boundary_resolve fs wroot (fe_path x) False = Inr u" for u
      using that t by (force simp: edit_indep_def path_indep_def)
    then show ?thesis using fr by (auto simp: frame_def)
  qed
qed

lemma attempt_reads:
  assumes "matches fs t b" and "fs1 t = fs t \<or> edit_holds wroot e fs1"
    and "boundary_resolve fs1 wroot (fe_path e) False = Inr t" and "edit_ok e"
  shows "fs1 t = None \<or> (\<exists>c. file_text fs1 t = Inr c)"
  using assms by (auto simp: edit_holds_def matches_def file_text_def file_bytes_def
      split: option.splits if_splits)

lemma reads_text:
  "fs t = None \<or> (\<exists>c. file_text fs t = Inr c) \<Longrightarrow> boundary_resolve fs wroot p False = Inr t \<Longrightarrow> \<exists>a. reads fs wroot p a"
  using read_text_or_none_text by (auto simp: reads_def read_text_or_none_def path_exists_def)

lemma restorable_after:
  assumes "matches fs t b" and "wf_fs fs" and "frame T fs fs1" and "fb_content b \<noteq> None" and "strict_prefix q t"
  shows "fs1 q = Some Dir"
proof -
  have "fs t \<noteq> None" using assms(1,4) file_text_Reg [of fs t] by (fastforce simp: matches_def split: option.splits)
  then show ?thesis using wf_fs_parents [OF assms(2) _ assms(5)] assms(3) by (simp add: frame_def)
qed

lemma edits_path_indep:
  assumes "sorted_wrt (edit_indep wroot fs) es" and "e \<in> set es" and "e' \<in> set es" and "fe_path e \<noteq> fe_path e'"
  shows "path_indep wroot fs (fe_path e) (fe_path e')"
  using assms by (induction es) (auto simp: edit_indep_def dest: path_indep_sym)

lemma restore_written:
  assumes "wf_fs fs" and "distinct (map fst el)" and "\<And>e. e \<in> set el \<Longrightarrow> entry_ok e \<and> restorable wroot fs e"
    and "\<And>p p'. p \<in> fst ` set el \<Longrightarrow> p' \<in> fst ` set el \<Longrightarrow> p \<noteq> p' \<Longrightarrow> path_indep wroot fs p p'"
  shows "\<exists>fs2 r. restore_entries fs wroot el [] [] = (fs2, Inr r) \<and> (\<forall>e \<in> set el. entry_holds wroot e fs2) \<and>
     frame {t. \<exists>e \<in> set el. boundary_resolve fs wroot (fst e) False = Inr t} fs fs2"
proof -
  have "sorted_wrt (path_indep wroot fs) (map fst el)"
    using assms(2,4) by (intro pairwise_sorted_wrt) auto
  then have ind: "sorted_wrt (entry_indep wroot fs) el"
    by (simp add: sorted_wrt_map entry_indep_def [abs_def])
  then obtain fs2 where ap: "apply_all (restore_fs wroot) el fs = Inr fs2"
    using restore.apply_all_total [OF assms(1)] assms(3) by blast
  have "\<forall>e \<in> set el. entry_holds wroot e fs2"
    using restore.apply_all_holds [OF assms(1) _ ind ap] assms(3) by blast
  moreover obtain r where "restore_entries fs wroot el [] [] = (fs2, Inr r)"
    using iffD2 [OF restore_entries_Inr_iff, OF ap] by blast
  ultimately show ?thesis using restore_frame.apply_all_frame [OF assms(1) ap] by blast
qed

lemma edit_holds_reads:
  assumes "edit_holds wroot e fs" and "edit_ok e"
  shows "reads fs wroot (fe_path e) (intended_content e)"
proof -
  from assms(1) obtain t where t: "boundary_resolve fs wroot (fe_path e) False = Inr t"
    and h: "if fe_delete e then fs t = None else \<exists>c. fe_content e = Some c \<and> file_text fs t = Inr c"
    by (auto simp: edit_holds_def)
  show ?thesis
  proof (cases "fe_delete e")
    case True
    then show ?thesis using t h by (auto simp: reads_def intended_content_def read_text_or_none_def path_exists_def)
  next
    case False
    then show ?thesis using t h read_text_or_none_text by (auto simp: reads_def intended_content_def)
  qed
qed

text \<open>
  C13: Rolling back an attempt undoes it. Whatever prefix of the edits was applied (all of them, or the
  ones before a failure), the recovery of the attempt's writes and the restoration of the baseline
  taken before it go through, every file that is not a target keeps its bytes and mode, and every
  target is absent again if it was absent, or has its former text and mode (plain-text edits and
  baselines, targets not below one another).
\<close>

theorem attempt_rollback:
  assumes "wf_fs fs" and "list_all edit_ok edits" and "sorted_wrt (edit_indep wroot fs) edits"
    and bl: "snapshot_edit_baseline fs wroot edits = Inr bl" and "list_all entry_ok bl"
    and fs1: "fs1 = fst (apply_edits sha fs wroot hs edits [] [])"
  shows "\<exists>w fs2 r. recover_attempt_writes fs1 wroot edits = Inr w \<and>
     restore_attempt_writes fs1 wroot (map (\<lambda>(p, b). (p, raw_of_baseline b)) bl) w = (fs2, Inr r) \<and>
     (\<forall>q. (\<forall>e \<in> set edits. boundary_resolve fs wroot (fe_path e) False \<noteq> Inr q) \<longrightarrow> view fs2 q = view fs q) \<and>
     (\<forall>(p, b) \<in> set bl. \<exists>t. boundary_resolve fs wroot p False = Inr t \<and> matches fs2 t b)"
proof -
  note st = attempt_state [OF assms(1-3) fs1]
  have cong: "boundary_resolve fs1 wroot p False = boundary_resolve fs wroot p False" for p
    using boundary_resolve_cong [OF frameD(2) [OF st(1)]] by simp
  have base: "\<And>p b. (p, b) \<in> set bl \<Longrightarrow> base_of fs wroot p b" and keys: "fst ` set bl = fe_path ` set edits"
    and dist: "distinct (map fst bl)"
    using snapshot_from_sound [OF bl [unfolded snapshot_edit_baseline_def]] by auto
  have read: "\<exists>t b. (fe_path e, b) \<in> set bl \<and> boundary_resolve fs wroot (fe_path e) False = Inr t \<and>
      matches fs t b \<and> (fs1 t = None \<or> (\<exists>c. file_text fs1 t = Inr c))" if e: "e \<in> set edits" for e
  proof -
    obtain b where b: "(fe_path e, b) \<in> set bl" using keys e by (force simp: image_iff)
    then obtain t where t: "boundary_resolve fs wroot (fe_path e) False = Inr t" "matches fs t b"
      using base by (auto simp: base_of_def)
    show ?thesis using b t attempt_reads [OF t(2) st(2) [OF e t(1)]] e assms(2)
      by (auto simp: cong list_all_iff)
  qed
  have "\<exists>a. reads fs1 wroot (fe_path e) a" if "e \<in> set edits" for e
    using read [OF that] reads_text cong by metis
  from recover_from_total [OF this, of edits "[]"] obtain w where
    w: "recover_attempt_writes fs1 wroot edits = Inr w" "distinct (map fst w)"
    "\<And>p a. (p, a) \<in> set w \<Longrightarrow> reads fs1 wroot p a"
    "fst ` set w = fe_path ` {e \<in> set edits. reads fs1 wroot (fe_path e) (intended_content e)}"
    by (auto simp: recover_attempt_writes_def)
  define el where "el = map (\<lambda>(p, a). (p, the (map_of bl p))) w"
  have el: "map_of bl p = Some b \<and> (\<exists>e \<in> set edits. p = fe_path e)" if "(p, b) \<in> set el" for p b
  proof -
    from that have p: "p \<in> fst ` set w" and b: "b = the (map_of bl p)" by (force simp: el_def)+
    from p w(4) obtain e where e: "e \<in> set edits" "p = fe_path e" by auto
    then have "map_of bl p \<noteq> None" using keys by (simp add: map_of_eq_None_iff)
    then show ?thesis using b e by auto
  qed
  have can: "restorable wroot fs1 (p, b)" if pb: "(p, b) \<in> set el" for p b
  proof -
    obtain e where e: "e \<in> set edits" "p = fe_path e" "map_of bl p = Some b" using el [OF pb] by blast
    from read [OF e(1)] obtain t b' where t: "boundary_resolve fs wroot p False = Inr t" "(p, b') \<in> set bl"
      "matches fs t b'" "fs1 t = None \<or> (\<exists>c. file_text fs1 t = Inr c)" using e(2) by auto
    have "b' = b" using t(2) e(3) dist by (metis eq_key_imp_eq_value map_of_SomeD)
    then show ?thesis using t restorable_after [OF t(3) assms(1) st(1)] by (auto simp: restorable_def cong)
  qed
  have rst: "entry_ok x \<and> restorable wroot fs1 x" if "x \<in> set el" for x
  proof (cases x)
    case (Pair p b)
    then have "x \<in> set bl" using el that map_of_SomeD by metis
    then show ?thesis using Pair that can assms(5)
      by (auto simp: list_all_iff)
  qed
  have ind: "path_indep wroot fs1 p p'" if "p \<in> fst ` set el" "p' \<in> fst ` set el" "p \<noteq> p'" for p p'
  proof -
    from that(1,2) obtain b b' where "(p, b) \<in> set el" "(p', b') \<in> set el" by auto
    then obtain e e' where "e \<in> set edits" "p = fe_path e" "e' \<in> set edits" "p' = fe_path e'"
      using el by metis
    then show ?thesis using edits_path_indep [OF assms(3)] that(3) by (simp add: path_indep_def cong)
  qed
  have "map fst el = map fst w" by (auto simp: el_def)
  with w(2) have "distinct (map fst el)" by metis
  from restore_written [OF frameD(1) [OF st(1)] this rst ind] obtain fs2 r where
    fs2: "restore_entries fs1 wroot el [] [] = (fs2, Inr r)" "\<And>e. e \<in> set el \<Longrightarrow> entry_holds wroot e fs2"
    "frame {t. \<exists>e \<in> set el. boundary_resolve fs1 wroot (fst e) False = Inr t} fs1 fs2" by blast
  have elig: "eligible_writes fs1 wroot (map_of bl) w = Inr el"
    unfolding el_def
  proof (rule eligible_writes_all)
    fix p a assume pa: "(p, a) \<in> set w"
    then have "(p, the (map_of bl p)) \<in> set el" by (force simp: el_def)
    from conjunct1 [OF el [OF this]] w(3) [OF pa] show "reads fs1 wroot p a \<and> map_of bl p \<noteq> None" by blast
  qed
  have keep: "fs2 q = fs1 q" if "\<forall>e \<in> set el. \<forall>t. boundary_resolve fs wroot (fst e) False = Inr t \<longrightarrow> \<not> prefix q t" for q
    using fs2(3) that unfolding frame_def cong by blast
  have "view fs2 q = view fs q" if "\<forall>e \<in> set edits. boundary_resolve fs wroot (fe_path e) False \<noteq> Inr q" for q
  proof -
    have "q \<notin> {t. \<exists>e \<in> set el. boundary_resolve fs1 wroot (fst e) False = Inr t}"
    proof
      assume "q \<in> {t. \<exists>e \<in> set el. boundary_resolve fs1 wroot (fst e) False = Inr t}"
      then obtain p b where "(p, b) \<in> set el" "boundary_resolve fs wroot p False = Inr q" by (auto simp: cong)
      then show False using that el by metis
    qed
    from frameD(3) [OF fs2(3) this] have "view fs2 q = view fs1 q" .
    also have "view fs1 q = view fs q" using that by (intro frameD(3) [OF st(1)]) auto
    finally show ?thesis .
  qed
  moreover have "\<exists>t. boundary_resolve fs wroot p False = Inr t \<and> matches fs2 t b" if pb: "(p, b) \<in> set bl" for p b
  proof -
    obtain t where t: "boundary_resolve fs wroot p False = Inr t" "matches fs t b"
      using base [OF pb] by (auto simp: base_of_def)
    obtain e where e: "e \<in> set edits" "p = fe_path e" using pb keys by force
    show ?thesis
    proof (cases "p \<in> fst ` set w")
      case True
      then have "(p, b) \<in> set el" using pb dist by (force simp: el_def)
      from fs2(2) [OF this] show ?thesis
        using t(1) cong boundary_resolve_cong [OF frameD(2) [OF fs2(3)]] by (auto simp: entry_holds_def)
    next
      case False
      have "\<not> edit_holds wroot e fs1"
        using False e w(4) edit_holds_reads [of wroot e fs1] assms(2) by (auto simp: list_all_iff)
      then have "fs1 t = fs t" using st(2) [OF e(1)] t(1) e(2) by auto
      moreover have "fs2 t = fs1 t"
      proof (rule keep, intro ballI allI impI)
        fix x u assume x: "x \<in> set el" and u: "boundary_resolve fs wroot (fst x) False = Inr u"
        obtain e' where e': "e' \<in> set edits" "fst x = fe_path e'" using el x by (cases x) auto
        have "fst x \<noteq> p" using x False by (force simp: el_def)
        then show "\<not> prefix t u" using edits_path_indep [OF assms(3) e(1) e'(1)] e e' t(1) u
          by (auto simp: path_indep_def)
      qed
      ultimately show ?thesis using t matches_cong [of fs2 t fs b] by auto
    qed
  qed
  ultimately show ?thesis using w(1) fs2(1) elig by (auto simp: restore_attempt_writes_def)
qed

theorem attempt_rollback_witness:
  "\<exists>w fs2 r. recover_attempt_writes (fst (apply_edits id demo_fs [''w''] True demo_edits [] [])) [''w''] demo_edits = Inr w \<and>
     restore_attempt_writes (fst (apply_edits id demo_fs [''w''] True demo_edits [] [])) [''w'']
       (map (\<lambda>(p, b). (p, raw_of_baseline b))
         [(''a.py'', \<lparr>fb_content = Some ''old'', fb_mode = Some 420\<rparr>),
          (''lib/b.py'', \<lparr>fb_content = None, fb_mode = None\<rparr>)]) w = (fs2, Inr r) \<and>
     (\<forall>q. (\<forall>e \<in> set demo_edits. boundary_resolve demo_fs [''w''] (fe_path e) False \<noteq> Inr q) \<longrightarrow>
        view fs2 q = view demo_fs q) \<and>
     (\<forall>(p, b) \<in> set [(''a.py'', \<lparr>fb_content = Some ''old'', fb_mode = Some 420\<rparr>),
          (''lib/b.py'', \<lparr>fb_content = None, fb_mode = None\<rparr>)].
        \<exists>t. boundary_resolve demo_fs [''w''] p False = Inr t \<and> matches fs2 t b)"
proof (rule attempt_rollback [OF demo_fs_wf _ _ _ _ refl])
  have "plain_text ''old'' \<and> S_IMODE 420 = 420" by code_simp
  then show "list_all entry_ok [(''a.py'', \<lparr>fb_content = Some ''old'', fb_mode = Some 420\<rparr>),
      (''lib/b.py'', \<lparr>fb_content = None, fb_mode = None\<rparr>)]" by (simp add: entry_ok_def)
qed code_simp+

text \<open>
  The restoration is a restoration of text, not of bytes: after an attempt on a file with CRLF
  line ends has been rolled back, the file has LF line ends.
\<close>

theorem rollback_rewrites_crlf:
  "let crlf = ''x = 1'' @ [char_of (13::nat), char_of (10::nat)];
       fs = [[] \<mapsto> Dir, [''w''] \<mapsto> Dir, [''w'', ''a.py''] \<mapsto> Reg crlf 420];
       edits = [demo_edit ''a.py'' ''x = 2'' None];
       fs1 = fst (apply_edits id fs [''w''] True edits [] [])
   in snapshot_edit_baseline fs [''w''] edits =
        Inr [(''a.py'', \<lparr>fb_content = Some (''x = 1'' @ [char_of (10::nat)]), fb_mode = Some 420\<rparr>)] \<and>
      recover_attempt_writes fs1 [''w''] edits = Inr [(''a.py'', Some ''x = 2'')] \<and>
      file_bytes (fst (restore_attempt_writes fs1 [''w'']
        [(''a.py'', BEntry (JStr (''x = 1'' @ [char_of (10::nat)])) (JInt 420))] [(''a.py'', Some ''x = 2'')]))
        [''w'', ''a.py''] = Inr (''x = 1'' @ [char_of (10::nat)])"
  by code_simp

text \<open>
  Replaying an edit whose content has a carriage return is not a no-op: the text read back from
  the written file differs from the content, so the replay sees a changed file and, with the digest
  of the proposal, reports a conflict.
\<close>

theorem cr_edit_replay_conflicts:
  "let crlf = ''x = 2'' @ [char_of (13::nat), char_of (10::nat)];
       edits = [demo_edit ''a.py'' crlf (Some ''old'')];
       (fs1, r1) = apply_edits id demo_fs [''w''] True edits [] []
   in r1 = Inr ([], [''a.py'']) \<and>
      snd (apply_edits id fs1 [''w''] True edits [] []) =
        Inl (PatchConflict ''file changed since proposal: a.py'')"
  by code_simp

section \<open>The file tools\<close>

text \<open>
  C17: The replacement tool writes exactly when it should: with write permission, a non-empty text
  to replace and as many occurrences in the file as announced, it leaves the file with every
  occurrence replaced and its mode, and no other file changes; a failed call changes nothing.
\<close>

theorem replace_text_contract:
  assumes "wf_fs fs" and "replace_text fs wroot writable p old new n = Inr (fs', r)"
  shows "\<exists>t c b m. writable \<and> old \<noteq> [] \<and> boundary_resolve fs wroot p True = Inr t \<and>
     fs t = Some (Reg b m) \<and> read_text b = Inr c \<and> int (py_count old c) = n \<and>
     fs' t = Some (Reg (py_replace old new (py_count old c) c) (S_IMODE m)) \<and>
     (\<forall>q. q \<noteq> t \<longrightarrow> view fs' q = view fs q) \<and> pa_modified_files r = [p]"
proof -
  from assms(2) obtain t c where w: "writable" "old \<noteq> []" and r: "resolve_regular_file fs wroot p True = Inr t"
    and c: "read_utf8_text fs t p = Inr c" and n: "int (py_count old c) = n"
    and wr: "write_file fs wroot True p (py_replace old new (nat n) c) None = Inr fs'"
    and rr: "pa_modified_files r = [p]"
    by (auto simp: replace_text_def require_write_def rbind_Inr_iff Let_def split: if_splits)
  have t: "boundary_resolve fs wroot p True = Inr t"
    using r by (auto simp: resolve_regular_file_def rbind_Inr_iff split: if_splits)
  then have t': "boundary_resolve fs wroot p False = Inr t"
    by (auto simp: boundary_resolve_def rbind_Inr_iff split: if_splits)
  have "file_text fs t = Inr c" using c by (auto simp: read_utf8_text_def split: sum.splits pyexc.splits)
  then obtain b m where b: "fs t = Some (Reg b m)" "read_text b = Inr c"
    by (auto simp: file_text_def file_bytes_def rbind_Inr_iff split: option.splits node.splits)
  note weff = write_file_effect [OF wr assms(1) t']
  show ?thesis using w t b n rr weff frameD(3) [OF weff(1)] by (auto simp: view_def)
qed

theorem replace_text_contract_witness:
  "\<exists>t c b m. True \<and> ''ol'' \<noteq> [] \<and> boundary_resolve demo_fs [''w''] ''a.py'' True = Inr t \<and>
     demo_fs t = Some (Reg b m) \<and> read_text b = Inr c \<and> int (py_count ''ol'' c) = 1 \<and>
     fst (projr (replace_text demo_fs [''w''] True ''a.py'' ''ol'' ''be'' 1)) t =
       Some (Reg (py_replace ''ol'' ''be'' (py_count ''ol'' c) c) (S_IMODE m)) \<and>
     (\<forall>q. q \<noteq> t \<longrightarrow> view (fst (projr (replace_text demo_fs [''w''] True ''a.py'' ''ol'' ''be'' 1))) q = view demo_fs q) \<and>
     pa_modified_files (snd (projr (replace_text demo_fs [''w''] True ''a.py'' ''ol'' ''be'' 1))) = [''a.py'']"
proof (rule replace_text_contract [OF demo_fs_wf])
  have "isl (replace_text demo_fs [''w''] True ''a.py'' ''ol'' ''be'' 1) = False" by code_simp
  then show "replace_text demo_fs [''w''] True ''a.py'' ''ol'' ''be'' 1 =
      Inr (fst (projr (replace_text demo_fs [''w''] True ''a.py'' ''ol'' ''be'' 1)),
           snd (projr (replace_text demo_fs [''w''] True ''a.py'' ''ol'' ''be'' 1)))"
    by (cases "replace_text demo_fs [''w''] True ''a.py'' ''ol'' ''be'' 1") auto
qed

end
