(* ===== verification/Effects.thy ===== *)
theory Effects
  imports Prelude
begin

text \<open>
  Computations that change a state and may raise: a function from the state to the state it leaves
  and the value or the exception. The state reached before an exception is kept, as in the program.
\<close>

type_synonym ('s, 'a) io = "'s \<Rightarrow> 's \<times> 'a res"

definition sret :: "'a \<Rightarrow> ('s, 'a) io" where
  "sret x = (\<lambda>s. (s, Inr x))"

definition sraise :: "pyexc \<Rightarrow> ('s, 'a) io" where
  "sraise e = (\<lambda>s. (s, Inl e))"

definition sbind :: "('s, 'a) io \<Rightarrow> ('a \<Rightarrow> ('s, 'b) io) \<Rightarrow> ('s, 'b) io" where
  "sbind m f = (\<lambda>s. case m s of (s', Inl e) \<Rightarrow> (s', Inl e) | (s', Inr x) \<Rightarrow> f x s')"

definition sget :: "('s \<Rightarrow> 'a) \<Rightarrow> ('s, 'a) io" where
  "sget f = (\<lambda>s. (s, Inr (f s)))"

definition smodify :: "('s \<Rightarrow> 's) \<Rightarrow> ('s, unit) io" where
  "smodify f = (\<lambda>s. (f s, Inr ()))"

definition slift :: "'a res \<Rightarrow> ('s, 'a) io" where
  "slift r = (\<lambda>s. (s, r))"

text \<open>\<open>try: m; except Exception as e: h e\<close>, for the exceptions the handler takes\<close>

definition scatch :: "('s, 'a) io \<Rightarrow> (pyexc \<Rightarrow> ('s, 'a) io option) \<Rightarrow> ('s, 'a) io" where
  "scatch m h = (\<lambda>s. case m s of
      (s', Inl e) \<Rightarrow> (case h e of None \<Rightarrow> (s', Inl e) | Some k \<Rightarrow> k s')
    | (s', Inr x) \<Rightarrow> (s', Inr x))"

fun smap :: "('a \<Rightarrow> ('s, 'b) io) \<Rightarrow> 'a list \<Rightarrow> ('s, 'b list) io" where
  "smap f [] = sret []"
| "smap f (x # xs) = sbind (f x) (\<lambda>y. sbind (smap f xs) (\<lambda>ys. sret (y # ys)))"

text \<open>\<open>try: m; except Exception\<close> with the outcome as a value\<close>

definition stry :: "('s, 'a) io \<Rightarrow> ('s, 'a res) io" where
  "stry m = (\<lambda>s. case m s of (s', r) \<Rightarrow> (s', Inr r))"

text \<open>A computation on a component of the state.\<close>

definition sfocus :: "('s \<Rightarrow> 'c) \<Rightarrow> ('c \<Rightarrow> 's \<Rightarrow> 's) \<Rightarrow> ('c, 'a) io \<Rightarrow> ('s, 'a) io" where
  "sfocus get put m = (\<lambda>s. case m (get s) of (c, r) \<Rightarrow> (put c s, r))"

lemma sbind_Inr_iff: "sbind m f s = (s', Inr y) \<longleftrightarrow> (\<exists>s1 x. m s = (s1, Inr x) \<and> f x s1 = (s', Inr y))"
  by (auto simp: sbind_def split: prod.splits sum.splits)

lemma sbind_Inl_iff:
  "sbind m f s = (s', Inl e) \<longleftrightarrow> m s = (s', Inl e) \<or> (\<exists>s1 x. m s = (s1, Inr x) \<and> f x s1 = (s', Inl e))"
  by (auto simp: sbind_def split: prod.splits sum.splits)

lemma effect_simps [simp]:
  "sret x s = (s, Inr x)" "sraise e s = (s, Inl e)" "sget f s = (s, Inr (f s))" "smodify g s = (g s, Inr ())"
  "slift r s = (s, r)" "sbind (sret x) k = k x" "sbind (sraise e) k = sraise e"
  by (auto simp: sret_def sraise_def sget_def smodify_def slift_def sbind_def)

lemma sbind_steps:
  "m s = (s1, Inr x) \<Longrightarrow> sbind m f s = f x s1" "m s = (s1, Inl e) \<Longrightarrow> sbind m f s = (s1, Inl e)"
  by (simp_all add: sbind_def)

text \<open>What every step of a computation keeps, the computation keeps, whether it returns or raises.\<close>

definition keeps :: "('s \<Rightarrow> 's \<Rightarrow> bool) \<Rightarrow> ('s, 'a) io \<Rightarrow> bool" where
  "keeps R m \<longleftrightarrow> (\<forall>s. R s (fst (m s)))"

lemma keepsI: "(\<And>s. R s (fst (m s))) \<Longrightarrow> keeps R m"
  by (simp add: keeps_def)

lemma keepsD: "keeps R m \<Longrightarrow> m s = (s', r) \<Longrightarrow> R s s'"
  by (auto simp: keeps_def dest: spec [of _ s])

lemma keeps_pure: "(\<And>s. R s s) \<Longrightarrow> keeps R (sret x)" "(\<And>s. R s s) \<Longrightarrow> keeps R (sraise e)"
  "(\<And>s. R s s) \<Longrightarrow> keeps R (sget f)" "(\<And>s. R s s) \<Longrightarrow> keeps R (slift r)"
  by (auto simp: keeps_def)

lemma keeps_bind:
  assumes "\<And>a b c. R a b \<Longrightarrow> R b c \<Longrightarrow> R a c" and "keeps R m" and "\<And>x. keeps R (f x)"
  shows "keeps R (sbind m f)"
proof (rule keepsI)
  fix s
  obtain s1 r where m: "m s = (s1, r)" by (cases "m s")
  with assms(2) have 1: "R s s1" by (rule keepsD)
  show "R s (fst (sbind m f s))"
  proof (cases r)
    case (Inr x)
    have "R s1 (fst (f x s1))" using assms(3) by (simp add: keeps_def)
    then show ?thesis using m Inr assms(1) [OF 1] by (simp add: sbind_def)
  qed (use m 1 in \<open>simp add: sbind_def\<close>)
qed

lemma keeps_catch:
  assumes "\<And>a b c. R a b \<Longrightarrow> R b c \<Longrightarrow> R a c" and "keeps R m" and "\<And>e k. h e = Some k \<Longrightarrow> keeps R k"
  shows "keeps R (scatch m h)"
proof (rule keepsI)
  fix s
  obtain s1 r where m: "m s = (s1, r)" by (cases "m s")
  with assms(2) have 1: "R s s1" by (rule keepsD)
  show "R s (fst (scatch m h s))"
  proof (cases r)
    case (Inl e)
    show ?thesis
    proof (cases "h e")
      case (Some k)
      have "R s1 (fst (k s1))" using assms(3) [OF Some] by (simp add: keeps_def)
      then show ?thesis using m Inl Some assms(1) [OF 1] by (simp add: scatch_def)
    qed (use m Inl 1 in \<open>simp add: scatch_def\<close>)
  qed (use m 1 in \<open>simp add: scatch_def\<close>)
qed

lemma stry_Inr_iff [simp]: "stry m s = (s', Inr r) \<longleftrightarrow> m s = (s', r)"
  by (auto simp: stry_def split: prod.splits)

section \<open>What a computation returns\<close>

text \<open>
  \<open>returns P m\<close>: whatever state \<open>m\<close> starts in, if it returns a value, the value has the property
  \<open>P\<close>. The rules follow the shape of a computation, so that \<open>intro\<close> with the collection leaves one
  goal for each \<open>return\<close> of the code.
\<close>

definition returns :: "('a \<Rightarrow> bool) \<Rightarrow> ('s, 'a) io \<Rightarrow> bool" where
  "returns P m \<longleftrightarrow> (\<forall>s s' x. m s = (s', Inr x) \<longrightarrow> P x)"

named_theorems returns_rules \<open>structural rules for the values a computation returns\<close>

lemma returnsI: "(\<And>s s' x. m s = (s', Inr x) \<Longrightarrow> P x) \<Longrightarrow> returns P m"
  by (auto simp: returns_def)

lemma returnsD: "returns P m \<Longrightarrow> m s = (s', Inr x) \<Longrightarrow> P x"
  by (auto simp: returns_def)

lemma returns_ret [returns_rules]: "P x \<Longrightarrow> returns P (sret x)"
  by (simp add: returns_def)

lemma returns_raise [returns_rules]: "returns P (sraise e)"
  by (simp add: returns_def)

lemma returns_bind [returns_rules]: "(\<And>x. returns P (f x)) \<Longrightarrow> returns P (sbind m f)"
  by (auto simp: returns_def sbind_Inr_iff)

lemma returns_bind_strong: "returns Q m \<Longrightarrow> (\<And>x. Q x \<Longrightarrow> returns P (f x)) \<Longrightarrow> returns P (sbind m f)"
  by (auto simp: returns_def sbind_Inr_iff) blast

lemma returns_if [returns_rules]:
  "(b \<Longrightarrow> returns P m) \<Longrightarrow> (\<not> b \<Longrightarrow> returns P m') \<Longrightarrow> returns P (if b then m else m')"
  by simp

lemma returns_option [returns_rules]:
  "(x = None \<Longrightarrow> returns P m) \<Longrightarrow> (\<And>y. x = Some y \<Longrightarrow> returns P (f y)) \<Longrightarrow>
   returns P (case x of None \<Rightarrow> m | Some y \<Rightarrow> f y)"
  by (cases x) auto

lemma returns_sum [returns_rules]:
  "(\<And>e. x = Inl e \<Longrightarrow> returns P (f e)) \<Longrightarrow> (\<And>y. x = Inr y \<Longrightarrow> returns P (g y)) \<Longrightarrow>
   returns P (case x of Inl e \<Rightarrow> f e | Inr y \<Rightarrow> g y)"
  by (cases x) auto

lemma returns_prod [returns_rules]: "(\<And>a b. x = (a, b) \<Longrightarrow> returns P (f a b)) \<Longrightarrow> returns P (case x of (a, b) \<Rightarrow> f a b)"
  by (cases x) auto

lemma returns_pyexc [returns_rules]:
  assumes "\<And>m. e = PolicyViolation m \<Longrightarrow> returns P (f1 m)" "\<And>m. e = FileNotFoundError m \<Longrightarrow> returns P (f2 m)"
    "\<And>m. e = IsADirectoryError m \<Longrightarrow> returns P (f3 m)" "\<And>m. e = OSError m \<Longrightarrow> returns P (f4 m)"
    "\<And>m. e = ValueError m \<Longrightarrow> returns P (f5 m)" "\<And>m. e = UnicodeDecodeError m \<Longrightarrow> returns P (f6 m)"
    "\<And>m. e = TaskScheduleError m \<Longrightarrow> returns P (f7 m)" "\<And>m. e = KeyError m \<Longrightarrow> returns P (f8 m)"
    "\<And>m. e = TypeError m \<Longrightarrow> returns P (f9 m)" "\<And>m. e = RuntimeError m \<Longrightarrow> returns P (f10 m)"
    "e = AssertionError \<Longrightarrow> returns P f11" "\<And>m. e = PatchError m \<Longrightarrow> returns P (f12 m)"
    "\<And>m. e = PatchConflict m \<Longrightarrow> returns P (f13 m)" "\<And>m. e = PatchPrecheckError m \<Longrightarrow> returns P (f14 m)"
    "\<And>m. e = IntegrationError m \<Longrightarrow> returns P (f15 m)" "\<And>m. e = WorkspaceCopyError m \<Longrightarrow> returns P (f16 m)"
    "\<And>m. e = RepairBudgetExhausted m \<Longrightarrow> returns P (f17 m)" "\<And>m t. e = ModelGatewayError m t \<Longrightarrow> returns P (f18 m t)"
    "\<And>m. e = LegacyOrchestrationError m \<Longrightarrow> returns P (f19 m)" "\<And>m. e = CapabilityRegistryError m \<Longrightarrow> returns P (f20 m)"
    "\<And>m. e = ValidationError m \<Longrightarrow> returns P (f21 m)" "\<And>m. e = DatabaseError m \<Longrightarrow> returns P (f22 m)"
    "\<And>m. e = LegacyLearningStateError m \<Longrightarrow> returns P (f23 m)" "\<And>m. e = AttributeError m \<Longrightarrow> returns P (f24 m)"
    "\<And>m. e = RegexError m \<Longrightarrow> returns P (f25 m)"
  shows "returns P (case_pyexc f1 f2 f3 f4 f5 f6 f7 f8 f9 f10 f11 f12 f13 f14 f15 f16 f17 f18 f19 f20 f21 f22 f23 f24 f25 e)"
  using assms by (cases e) auto

section \<open>Total correctness\<close>

text \<open>\<open>achieves P m Q\<close>: from every state with \<open>P\<close> the computation returns, with a value and a state related by \<open>Q\<close>.\<close>

definition achieves :: "('s \<Rightarrow> bool) \<Rightarrow> ('s, 'a) io \<Rightarrow> ('a \<Rightarrow> 's \<Rightarrow> bool) \<Rightarrow> bool" where
  "achieves P m Q \<longleftrightarrow> (\<forall>s. P s \<longrightarrow> (\<exists>s' x. m s = (s', Inr x) \<and> Q x s'))"

lemma achievesD: "achieves P m Q \<Longrightarrow> P s \<Longrightarrow> \<exists>s' x. m s = (s', Inr x) \<and> Q x s'"
  by (auto simp: achieves_def)

lemma achieves_ret: "(\<And>s. P s \<Longrightarrow> Q x s) \<Longrightarrow> achieves P (sret x) Q"
  by (auto simp: achieves_def)

lemma achieves_get: "(\<And>s. P s \<Longrightarrow> Q (f s) s) \<Longrightarrow> achieves P (sget f) Q"
  by (auto simp: achieves_def)

lemma achieves_modify: "(\<And>s. P s \<Longrightarrow> Q () (f s)) \<Longrightarrow> achieves P (smodify f) Q"
  by (auto simp: achieves_def)

lemma achieves_bind: "achieves P m R \<Longrightarrow> (\<And>x. achieves (R x) (f x) Q) \<Longrightarrow> achieves P (sbind m f) Q"
  unfolding achieves_def sbind_def by fastforce

lemma achieves_weaken: "achieves P m Q \<Longrightarrow> (\<And>s. P' s \<Longrightarrow> P s) \<Longrightarrow> (\<And>x s. Q x s \<Longrightarrow> Q' x s) \<Longrightarrow> achieves P' m Q'"
  unfolding achieves_def by fast

lemma achieves_try: "achieves P m Q \<Longrightarrow> achieves P (stry m) (\<lambda>r s. \<exists>x. r = Inr x \<and> Q x s)"
  unfolding achieves_def stry_def by (fastforce split: prod.splits)

lemma achieves_prod: "(\<And>a b. achieves P (f a b) Q) \<Longrightarrow> achieves P (case x of (a, b) \<Rightarrow> f a b) Q"
  by (cases x) simp

lemma stry_ret [simp]: "stry (sret x) = sret (Inr x)"
  by (simp add: stry_def sret_def)

end
