(* ===== verification/Integration.thy ===== *)
theory Integration
  imports Files Effects
begin

text \<open>
  Workspace copies and the integration of candidate patches: \<^verbatim>\<open>tools/isolation.py\<close> and
  \<^verbatim>\<open>graph/integration.py\<close>.

  Git is a parameter: \<open>git args\<close> is what \<open>subprocess.run(["git", *args])\<close> does to the file system and
  its return code, output and error text. \<open>shutil.copytree\<close> follows symbolic links; \<open>listing\<close> gives the
  places of a tree that exist, which decides whether a dangling link makes it raise at the end.
  Directory links that lead back into the copied tree are outside the model. The JSON files under the
  state directory (patch artifacts, apply plans) are maps from their names to what was saved.
\<close>

section \<open>Isolation\<close>

type_synonym git_result = "int \<times> string \<times> string"

type_synonym git_cmd = "string list \<Rightarrow> (fs, git_result) io"

definition ignored_name :: "string \<Rightarrow> bool" where
  "ignored_name n \<longleftrightarrow>
     n \<in> {''.git'', ''.evoci'', ''.evoci_runtime'', ''__pycache__'', ''.pytest_cache''} \<or> ends_with ''.pyc'' n"

text \<open>What \<open>copytree\<close> puts at a place: the file or directory the source's place resolves to.\<close>

definition copy_node :: "fs \<Rightarrow> path \<Rightarrow> path \<Rightarrow> node option" where
  "copy_node fs source q =
     (case resolve_path fs (source @ q) of
        Inl e \<Rightarrow> None
      | Inr t \<Rightarrow> (case fs t of Some (Reg b m) \<Rightarrow> Some (Reg b m) | Some Dir \<Rightarrow> Some Dir | _ \<Rightarrow> None))"

definition copied_fs :: "(path \<Rightarrow> bool) \<Rightarrow> fs \<Rightarrow> path \<Rightarrow> path \<Rightarrow> fs" where
  "copied_fs skip fs source destination =
     (\<lambda>p. if prefix destination p
          then (let q = drop (length destination) p in
                if skip q \<or> ''..'' \<in> set q then fs p
                else (case copy_node fs source q of None \<Rightarrow> fs p | Some n \<Rightarrow> Some n))
          else fs p)"

definition dangling :: "(path \<Rightarrow> bool) \<Rightarrow> (fs \<Rightarrow> path \<Rightarrow> path list) \<Rightarrow> fs \<Rightarrow> path \<Rightarrow> bool" where
  "dangling skip listing fs source =
     list_ex (\<lambda>q. \<not> skip q \<and> link_at fs (source @ q) \<noteq> None \<and> copy_node fs source q = None) (listing fs source)"

definition copytree :: "(path \<Rightarrow> bool) \<Rightarrow> (fs \<Rightarrow> path \<Rightarrow> path list) \<Rightarrow> path \<Rightarrow> path \<Rightarrow> (fs, unit) io" where
  "copytree skip listing source destination =
     (\<lambda>fs. (copied_fs skip fs source destination,
            if dangling skip listing fs source then Inl (OSError ''dangling symbolic link'') else Inr ()))"

definition skip_ignored :: "path \<Rightarrow> bool" where
  "skip_ignored q = list_ex ignored_name q"

definition commit_isolated_baseline :: "git_cmd \<Rightarrow> string \<Rightarrow> (fs, unit) io" where
  "commit_isolated_baseline git destination =
     sbind (git [''-C'', destination, ''config'', ''user.name'', ''EvoCI isolated workspace'']) (\<lambda>_.
     sbind (git [''-C'', destination, ''config'', ''user.email'', ''evoci-isolated@example.invalid'']) (\<lambda>_.
     sbind (git [''-C'', destination, ''add'', ''--all'']) (\<lambda>(added, _).
     sbind (git [''-C'', destination, ''commit'', ''--allow-empty'', ''-qm'', ''isolated baseline'']) (\<lambda>(committed, _, err).
       if added \<noteq> 0 \<or> committed \<noteq> 0
       then sraise (WorkspaceCopyError (or_else (Some (strip err)) ''git baseline commit failed''))
       else sret ()))))"

definition init_isolated :: "git_cmd \<Rightarrow> string \<Rightarrow> (fs, unit) io" where
  "init_isolated git destination =
     sbind (git [''init'', ''-q'', destination]) (\<lambda>(code, _, err).
       if code \<noteq> 0 then sraise (WorkspaceCopyError (or_else (Some (strip err)) ''git init failed''))
       else commit_isolated_baseline git destination)"

text \<open>\<open>source\<close> and \<open>destination\<close> are resolved paths.\<close>

definition abs_str :: "path \<Rightarrow> string" where
  "abs_str p = path_str (''/'' # p)"

definition checked_git :: "git_cmd \<Rightarrow> string list \<Rightarrow> string \<Rightarrow> (fs, unit) io" where
  "checked_git git args message =
     sbind (git args) (\<lambda>(code, _, err).
       if code \<noteq> 0 then sraise (WorkspaceCopyError (or_else (Some (strip err)) message)) else sret ())"

definition copy_git_metadata ::
  "git_cmd \<Rightarrow> (fs \<Rightarrow> path \<Rightarrow> path list) \<Rightarrow> path \<Rightarrow> path \<Rightarrow> string \<Rightarrow> (fs, unit) io" where
  "copy_git_metadata git listing source destination head =
     sbind (sget (\<lambda>fs. case resolve_path fs (source @ [''.git'']) of Inr t \<Rightarrow> fs t = Some Dir | Inl _ \<Rightarrow> False)) (\<lambda>preserve_head.
     sbind (if preserve_head
            then copytree (\<lambda>_. False) listing (source @ [''.git'']) (destination @ [''.git''])
            else init_isolated git (abs_str destination)) (\<lambda>_.
     sbind (if preserve_head
            then sbind (checked_git git [''-C'', abs_str destination, ''update-ref'', ''HEAD'', strip head]
                          ''git update-ref failed'') (\<lambda>_.
                 checked_git git [''-C'', abs_str destination, ''reset'', ''--mixed'', ''HEAD''] ''git reset failed'')
            else sret ()) (\<lambda>_.
     sbind (git [''-C'', abs_str destination, ''remote'', ''remove'', ''origin'']) (\<lambda>_. sret ()))))"

definition copy_workspace_with_independent_git ::
  "git_cmd \<Rightarrow> (fs \<Rightarrow> path \<Rightarrow> path list) \<Rightarrow> path \<Rightarrow> path \<Rightarrow> (fs, path) io" where
  "copy_workspace_with_independent_git git listing source destination =
     sbind (sget (\<lambda>fs. path_exists fs destination)) (\<lambda>taken.
     if taken then sraise (OSError (abs_str destination))
     else
     sbind (copytree skip_ignored listing source destination) (\<lambda>_.
     sbind (sget (\<lambda>fs. copy_node fs source [''.git''] \<noteq> None)) (\<lambda>has_git.
     if \<not> has_git then sbind (init_isolated git (abs_str destination)) (\<lambda>_. sret destination)
     else
     sbind (git [''-C'', abs_str source, ''rev-parse'', ''HEAD'']) (\<lambda>(code, head, _).
     if code \<noteq> 0 then sbind (init_isolated git (abs_str destination)) (\<lambda>_. sret destination)
     else sbind (copy_git_metadata git listing source destination head) (\<lambda>_. sret destination)))))"

text \<open>The bytes the fingerprint of a workspace adds for the untracked files.\<close>

definition untracked_bytes :: "fs \<Rightarrow> path \<Rightarrow> string list \<Rightarrow> string" where
  "untracked_bytes fs wroot names =
     concat (map (\<lambda>name.
       name @ (case resolve_path fs (join_root wroot name) of
                 Inl e \<Rightarrow> []
               | Inr t \<Rightarrow> (case fs t of
                     Some (Reg b m) \<Rightarrow> if is_symlink fs (join_root wroot name) then [] else b
                   | _ \<Rightarrow> []))) names)"

definition workspace_snapshot_id :: "git_cmd \<Rightarrow> (string \<Rightarrow> string) \<Rightarrow> path \<Rightarrow> (fs, string) io" where
  "workspace_snapshot_id git sha wroot =
     sbind (git [''-C'', abs_str wroot, ''rev-parse'', ''HEAD'']) (\<lambda>(code, out, _).
     sbind (git [''-C'', abs_str wroot, ''diff'', ''HEAD'']) (\<lambda>(_, diff, _).
     sbind (git [''-C'', abs_str wroot, ''ls-files'', ''--others'', ''--exclude-standard'', ''-z'']) (\<lambda>(_, untracked, _).
     sget (\<lambda>fs.
       let revision = (if code = 0 then strip out else ''no-head'');
           names = sort (filter (\<lambda>part. part \<noteq> []) (split_on (char_of (0::nat)) untracked))
       in revision @ '':'' @ take 16 (sha (revision @ newline @ diff @ untracked_bytes fs wroot names))))))"

section \<open>Artifacts and apply plans\<close>

record patch_artifact =
  pt_task_id :: string
  pt_write_scope :: "string list"
  pt_baseline_snapshot_id :: string
  pt_summary :: string
  pt_commands_run :: "string list"
  pt_verification_plan :: "verification_command_spec list"
  pt_edits :: "file_edit list"
  pt_changed_files :: "string list"

record apply_plan =
  ap_parent_snapshot_id :: string
  ap_artifact_ref :: "string option"
  ap_edits :: "file_edit list"
  ap_baseline :: "(string \<times> raw_baseline) list"

text \<open>
  What lies at a place of the state directory: a directory, or a JSON file; \<open>SOther\<close> is a document
  that is not an object.
\<close>

datatype stored_json = SDir | SArtifact patch_artifact | SPlan apply_plan | SOther

type_synonym state_files = "string list \<rightharpoonup> stored_json"

definition join_parts :: "string list \<Rightarrow> string \<Rightarrow> string list" where
  "join_parts base p = (if is_abs_path p then path_parts p else base @ path_components p)"

text \<open>\<open>mkdir(parents=True, exist_ok=True)\<close> and \<open>write_text\<close> below the state directory\<close>

definition make_dirs :: "string list \<Rightarrow> (state_files, unit) io" where
  "make_dirs dir =
     (\<lambda>files. if list_ex (\<lambda>p. files p \<notin> {None, Some SDir}) (prefixes dir)
              then (files, Inl (OSError (path_str dir)))
              else ((\<lambda>p. if prefix p dir then Some SDir else files p), Inr ()))"

definition write_json :: "string list \<Rightarrow> stored_json \<Rightarrow> (state_files, unit) io" where
  "write_json p d =
     (\<lambda>files. if files (butlast p) \<noteq> Some SDir then (files, Inl (FileNotFoundError (path_str p)))
              else if files p = Some SDir then (files, Inl (IsADirectoryError (path_str p)))
              else (files(p \<mapsto> d), Inr ()))"

definition artifact_path :: "string list \<Rightarrow> string \<Rightarrow> int \<Rightarrow> string \<Rightarrow> string list" where
  "artifact_path state_dir run_id batch task_id =
     join_parts (join_parts (join_parts (join_parts state_dir ''artifacts'') run_id) (''batch-'' @ show_int batch)) task_id"

definition artifact_dir :: "string list \<Rightarrow> string \<Rightarrow> int \<Rightarrow> string \<Rightarrow> (state_files, string list) io" where
  "artifact_dir state_dir run_id batch task_id =
     (let p = artifact_path state_dir run_id batch task_id in sbind (make_dirs p) (\<lambda>_. sret p))"

definition save_patch_artifact ::
  "string list \<Rightarrow> worker_task \<Rightarrow> file_edit list \<Rightarrow> string \<Rightarrow> string \<Rightarrow> string list \<Rightarrow> raw_command list \<Rightarrow>
   (state_files, string) io" where
  "save_patch_artifact directory task edits baseline_snapshot_id summary commands_run verification_plan =
     sbind (slift (parse_verification_plan (Some verification_plan))) (\<lambda>plan.
     sbind (write_json (directory @ [''patch.json'']) (SArtifact
       \<lparr>pt_task_id = wt_task_id task, pt_write_scope = wt_write_scope task,
        pt_baseline_snapshot_id = baseline_snapshot_id, pt_summary = summary, pt_commands_run = commands_run,
        pt_verification_plan = plan, pt_edits = edits, pt_changed_files = map fe_path edits\<rparr>)) (\<lambda>_.
     sret (path_str (directory @ [''patch.json'']))))"

definition load_patch_artifact :: "string \<Rightarrow> state_files \<Rightarrow> stored_json res" where
  "load_patch_artifact artifact_ref files =
     (case files (path_parts artifact_ref) of
        None \<Rightarrow> Inl (IntegrationError (''missing patch artifact: '' @ artifact_ref))
      | Some SDir \<Rightarrow> Inl (IntegrationError (''missing patch artifact: '' @ artifact_ref))
      | Some SOther \<Rightarrow> Inl (IntegrationError (''invalid patch artifact: '' @ artifact_ref))
      | Some d \<Rightarrow> Inr d)"

fun stored_edits :: "stored_json \<Rightarrow> file_edit list" where
  "stored_edits (SArtifact a) = pt_edits a"
| "stored_edits (SPlan p) = ap_edits p"
| "stored_edits _ = []"

definition edits_from_artifact :: "stored_json \<Rightarrow> file_edit list res" where
  "edits_from_artifact d = mapM content_matches_operation (stored_edits d)"

definition verification_plan_from_artifact :: "stored_json \<Rightarrow> verification_command_spec list res" where
  "verification_plan_from_artifact d =
     (case (case d of SArtifact a \<Rightarrow> parse_verification_plan (Some (map RawSpec (pt_verification_plan a)))
            | _ \<Rightarrow> parse_verification_plan None) of
        Inl e \<Rightarrow> if is_value_error e then Inl (IntegrationError (''invalid verification_plan in patch artifact: '' @ exc_str e))
                 else Inl e
      | r \<Rightarrow> r)"

fun check_scope :: "string list \<Rightarrow> file_edit list \<Rightarrow> unit res" where
  "check_scope allowed [] = Inr ()"
| "check_scope allowed (e # es) =
     rbind (assert_write_path_allowed (fe_path e) allowed None) (\<lambda>_. check_scope allowed es)"

definition validate_edits_against_scope :: "file_edit list \<Rightarrow> string list \<Rightarrow> unit res" where
  "validate_edits_against_scope edits write_scope =
     rbind (mapM normalize_write_path write_scope) (\<lambda>allowed. check_scope allowed edits)"

section \<open>Batch snapshots\<close>

definition rmtree :: "path \<Rightarrow> fs \<Rightarrow> fs" where
  "rmtree d fs = (\<lambda>p. if prefix d p then None else fs p)"

definition save_batch_snapshot ::
  "git_cmd \<Rightarrow> (string \<Rightarrow> string) \<Rightarrow> (fs \<Rightarrow> path \<Rightarrow> path list) \<Rightarrow> path \<Rightarrow> path \<Rightarrow> (fs, string) io" where
  "save_batch_snapshot git sha listing source destination =
     sbind (smodify (\<lambda>fs. if path_exists fs destination then rmtree destination fs else fs)) (\<lambda>_.
     sbind (\<lambda>fs. case mkdir_parents fs destination of Inl e \<Rightarrow> (fs, Inl e) | Inr fs' \<Rightarrow> (fs', Inr ())) (\<lambda>_.
     sbind (copy_workspace_with_independent_git git listing source destination) (\<lambda>_.
     workspace_snapshot_id git sha destination)))"

definition protected_name :: "string \<Rightarrow> bool" where
  "protected_name n \<longleftrightarrow> n \<in> {''.evoci'', ''.git''}"

text \<open>
  The two loops of \<open>restore_batch_snapshot\<close>: what lies below a top-level entry of the workspace other
  than the protected ones goes, then the entries of the snapshot are copied in.
\<close>

definition cleared_fs :: "path \<Rightarrow> fs \<Rightarrow> fs" where
  "cleared_fs workspace fs =
     (\<lambda>p. case drop (length workspace) p of
            [] \<Rightarrow> fs p
          | n # _ \<Rightarrow> if prefix workspace p \<and> \<not> protected_name n then None else fs p)"

definition skip_protected :: "path \<Rightarrow> bool" where
  "skip_protected q = (case q of [] \<Rightarrow> True | n # _ \<Rightarrow> protected_name n)"

definition restore_batch_snapshot :: "(fs \<Rightarrow> path \<Rightarrow> path list) \<Rightarrow> path \<Rightarrow> path \<Rightarrow> (fs, unit) io" where
  "restore_batch_snapshot listing snapshot workspace =
     sbind (sget (\<lambda>fs. path_exists fs snapshot)) (\<lambda>there.
     if \<not> there then sraise (IntegrationError (''batch snapshot missing: '' @ abs_str snapshot))
     else if prefix workspace snapshot
     then sraise (IntegrationError ''batch snapshot must not live inside the workspace'')
     else sbind (smodify (cleared_fs workspace)) (\<lambda>_. copytree skip_protected listing snapshot workspace))"

section \<open>Integration\<close>

fun integrate_loop ::
  "(string \<Rightarrow> string) \<Rightarrow> path \<Rightarrow> bool \<Rightarrow> file_edit list \<Rightarrow> (string \<times> string option) list \<Rightarrow>
   (fs, (string \<times> string option) list) io" where
  "integrate_loop sha wroot hash_strict [] written = sret written"
| "integrate_loop sha wroot hash_strict (e # es) written =
     sbind (\<lambda>fs. case apply_edit sha fs wroot e hash_strict of Inl x \<Rightarrow> (fs, Inl x) | Inr (fs', _) \<Rightarrow> (fs', Inr ())) (\<lambda>_.
       integrate_loop sha wroot hash_strict es (AList.update (fe_path e) (intended_content e) written))"

definition integrate_edits ::
  "git_cmd \<Rightarrow> (string \<Rightarrow> string) \<Rightarrow> path \<Rightarrow> file_edit list \<Rightarrow> string option \<Rightarrow> bool \<Rightarrow>
   (fs, (string \<times> string option) list) io" where
  "integrate_edits git sha wroot edits expected_baseline hash_strict =
     sbind (case expected_baseline of
              None \<Rightarrow> sret ()
            | Some b \<Rightarrow> sbind (workspace_snapshot_id git sha wroot) (\<lambda>current.
                if current \<noteq> b
                then sraise (PatchConflict (''workspace snapshot '' @ current @ '' does not match baseline '' @ b))
                else sret ())) (\<lambda>_.
     if edits = [] then sret []
     else sbind (\<lambda>fs. (fs, precheck_edits sha fs wroot edits hash_strict)) (\<lambda>_.
       integrate_loop sha wroot hash_strict edits []))"

definition fixer_output_from_edits ::
  "string \<Rightarrow> file_edit list \<Rightarrow> string list \<Rightarrow> raw_command list \<Rightarrow> string option \<Rightarrow> fixer_output res" where
  "fixer_output_from_edits summary edits commands_run verification_plan risk =
     (let resolved_risk = or_else risk (if length edits \<le> 4 then ''low'' else ''medium'');
          level = (if resolved_risk = ''low'' then Low else if resolved_risk = ''high'' then High else Medium)
      in rbind (parse_verification_plan (Some verification_plan)) (\<lambda>plan.
         edits_match_changed_files
           \<lparr>fo_proposal = \<lparr>pp_summary = summary, pp_changed_files = map fe_path edits,
              pp_commands_run = commands_run, pp_risk = level, pp_verification_plan = plan\<rparr>,
            fo_edits = edits, fo_used_memory_ids = [], fo_used_skill_refs = []\<rparr>))"

definition candidate_prompt_summary :: "stored_json \<Rightarrow> payload" where
  "candidate_prompt_summary d =
     (case d of
        SArtifact a \<Rightarrow>
          [(''candidate_task_id'', JStr (pt_task_id a)), (''summary'', JStr (pt_summary a)),
           (''changed_files'', jstrs (pt_changed_files a)),
           (''baseline_snapshot_id'', JStr (pt_baseline_snapshot_id a)),
           (''commands_run'', jstrs (pt_commands_run a))]
      | _ \<Rightarrow> [(''candidate_task_id'', JNull), (''summary'', JNull), (''changed_files'', JList []),
              (''baseline_snapshot_id'', JNull), (''commands_run'', JList [])])"

definition apply_plan_path :: "string list \<Rightarrow> string \<Rightarrow> string \<Rightarrow> (state_files, string list) io" where
  "apply_plan_path state_dir run_id operation_id =
     (let directory = join_parts (join_parts (join_parts state_dir ''artifacts'') run_id) ''apply''
      in sbind (make_dirs directory) (\<lambda>_. sret (join_parts directory (operation_id @ ''.json''))))"

definition save_apply_plan ::
  "string list \<Rightarrow> string \<Rightarrow> string option \<Rightarrow> file_edit list \<Rightarrow> (string \<times> file_baseline) list \<Rightarrow> (state_files, unit) io" where
  "save_apply_plan path parent_snapshot_id artifact_ref edits baseline =
     write_json path (SPlan \<lparr>ap_parent_snapshot_id = parent_snapshot_id, ap_artifact_ref = artifact_ref,
       ap_edits = edits, ap_baseline = map (\<lambda>(p, b). (p, raw_of_baseline b)) baseline\<rparr>)"

definition load_apply_plan :: "string list \<Rightarrow> state_files \<Rightarrow> stored_json option res" where
  "load_apply_plan path files =
     (case files path of
        None \<Rightarrow> Inr None
      | Some SDir \<Rightarrow> Inr None
      | Some SOther \<Rightarrow> Inl (IntegrationError (''invalid apply plan: '' @ path_str path))
      | Some d \<Rightarrow> Inr (Some d))"

section \<open>Snapshots restore what they saved\<close>

text \<open>A subtree without links; \<open>..\<close> is not a name of a file, so no part of the subtree is called so.\<close>

definition plain_tree :: "fs \<Rightarrow> path \<Rightarrow> bool" where
  "plain_tree fs d \<longleftrightarrow> (\<forall>p. (prefix p d \<or> prefix d p) \<longrightarrow> link_at fs p = None) \<and> ''..'' \<notin> set d \<and>
     (\<forall>q. fs (d @ q) \<noteq> None \<longrightarrow> ''..'' \<notin> set q)"

lemma plain_tree_copy:
  assumes "plain_tree fs d" and "''..'' \<notin> set q"
  shows "copy_node fs d q = fs (d @ q)"
proof -
  have nolink: "link_at fs r = None" if "prefix r (d @ q)" for r
    using that assms(1) unfolding plain_tree_def by (metis prefix_def prefix_same_cases)
  moreover have "''..'' \<notin> set (d @ q)" using assms by (simp add: plain_tree_def)
  ultimately have "resolve_path fs (d @ q) = Inr (d @ q)" by (rule resolve_path_lexical)
  moreover have "link_at fs (d @ q) = None" by (rule nolink) simp
  ultimately show ?thesis by (auto simp: copy_node_def link_at_def split: option.splits node.splits)
qed

lemma copied_plain:
  assumes "plain_tree fs s" and "fs (d @ q) = None" and "\<not> skip q"
  shows "copied_fs skip fs s d (d @ q) = fs (s @ q)"
proof (cases "''..'' \<in> set q")
  case True
  then have "fs (s @ q) = None" using assms(1) by (auto simp: plain_tree_def)
  then show ?thesis using assms(2) True by (simp add: copied_fs_def)
next
  case False
  then show ?thesis using plain_tree_copy [OF assms(1) False] assms(2,3)
    by (auto simp: copied_fs_def split: option.splits)
qed

lemma copied_elsewhere: "\<not> prefix d p \<or> skip (drop (length d) p) \<Longrightarrow> copied_fs skip fs s d p = fs p"
  by (auto simp: copied_fs_def Let_def)

lemma plain_not_dangling: "plain_tree fs s \<Longrightarrow> \<not> dangling skip listing fs s"
  by (auto simp: dangling_def plain_tree_def list_ex_iff)

lemma cleared_at: "cleared_fs ws fs (ws @ n # q) = (if protected_name n then fs (ws @ n # q) else None)"
  by (simp add: cleared_fs_def)

lemma cleared_elsewhere: "\<not> prefix ws p \<Longrightarrow> cleared_fs ws fs p = fs p" "cleared_fs ws fs ws = fs ws"
  by (auto simp: cleared_fs_def split: list.splits)

lemma incomparable_prefix: "\<not> prefix a b \<Longrightarrow> \<not> prefix b a \<Longrightarrow> \<not> prefix a (b @ q)"
  by (metis prefix_def prefix_same_cases)

lemma plain_tree_cleared:
  assumes "plain_tree fs snap" and "\<not> prefix ws snap" and "\<not> prefix snap ws"
  shows "plain_tree (cleared_fs ws fs) snap"
proof -
  have same: "cleared_fs ws fs (snap @ q) = fs (snap @ q)" for q
    using incomparable_prefix [OF assms(2,3)] by (rule cleared_elsewhere)
  have "link_at (cleared_fs ws fs) p = None" if "link_at fs p = None" for p
    using that by (auto simp: link_at_def cleared_fs_def split: list.splits option.splits node.splits)
  then show ?thesis using assms(1) same by (auto simp: plain_tree_def)
qed

lemma restore_batch_snapshot_mirror:
  assumes "plain_tree fs snap" and "path_exists fs snap" and "\<not> prefix ws snap" and "\<not> prefix snap ws"
  shows "\<exists>fs'. restore_batch_snapshot listing snap ws fs = (fs', Inr ()) \<and>
     (\<forall>n q. \<not> protected_name n \<longrightarrow> fs' (ws @ n # q) = fs (snap @ n # q)) \<and>
     (\<forall>n q. protected_name n \<longrightarrow> fs' (ws @ n # q) = fs (ws @ n # q)) \<and>
     (\<forall>p. \<not> strict_prefix ws p \<longrightarrow> fs' p = fs p)"
proof -
  let ?fs1 = "cleared_fs ws fs" let ?fs2 = "copied_fs skip_protected ?fs1 snap ws"
  note plain = plain_tree_cleared [OF assms(1,3,4)]
  have same: "?fs1 (snap @ q) = fs (snap @ q)" for q
    using incomparable_prefix [OF assms(3,4)] by (rule cleared_elsewhere)
  have run: "restore_batch_snapshot listing snap ws fs = (?fs2, Inr ())"
    using assms(2,3) plain_not_dangling [OF plain]
    by (simp add: restore_batch_snapshot_def sbind_def copytree_def)
  have "?fs2 (ws @ n # q) = fs (snap @ n # q)" if "\<not> protected_name n" for n q
    using copied_plain [OF plain, of ws "n # q" skip_protected] that
    by (simp add: cleared_at skip_protected_def same)
  moreover have "?fs2 (ws @ n # q) = fs (ws @ n # q)" if "protected_name n" for n q
    using that by (subst copied_elsewhere) (simp_all add: skip_protected_def cleared_at)
  moreover have "?fs2 p = fs p" if "\<not> strict_prefix ws p" for p
  proof (cases "p = ws")
    case True
    then show ?thesis using cleared_elsewhere(2) by (subst copied_elsewhere) (simp_all add: skip_protected_def)
  next
    case False
    then have "\<not> prefix ws p" using that by (simp add: strict_prefix_def)
    then show ?thesis using cleared_elsewhere(1) by (subst copied_elsewhere) simp_all
  qed
  ultimately show ?thesis using run by blast
qed

text \<open>
  What the harness relies on of Git: the commands that \<^verbatim>\<open>isolation.py\<close> runs for a copy \<open>d\<close> of \<open>s\<close> write
  nowhere but below the copy's \<^verbatim>\<open>.git\<close>. Only these commands are meant, not commands that update a work tree:
  \<^verbatim>\<open>init\<close> makes the \<^verbatim>\<open>.git\<close> directory, \<^verbatim>\<open>config\<close> and \<^verbatim>\<open>remote remove\<close> write its configuration, \<^verbatim>\<open>add\<close> and
  \<^verbatim>\<open>commit\<close> its index, objects and references, \<^verbatim>\<open>update-ref\<close> a reference, \<^verbatim>\<open>reset --mixed\<close> resets the index but
  not the working tree, and \<^verbatim>\<open>rev-parse\<close>, \<^verbatim>\<open>diff\<close> and \<^verbatim>\<open>ls-files\<close> read (they may refresh the index). That the
  repository configures no hook, filter or external diff that writes elsewhere is part of the assumption.
\<close>

definition outside_git :: "path \<Rightarrow> fs \<Rightarrow> fs \<Rightarrow> bool" where
  "outside_git d fs fs' \<longleftrightarrow> (\<forall>p. \<not> prefix (d @ [''.git'']) p \<longrightarrow> fs' p = fs p)"

definition fingerprint_commands :: "path \<Rightarrow> string list list" where
  "fingerprint_commands d =
     [[''-C'', abs_str d, ''rev-parse'', ''HEAD''], [''-C'', abs_str d, ''diff'', ''HEAD''],
      [''-C'', abs_str d, ''ls-files'', ''--others'', ''--exclude-standard'', ''-z'']]"

definition copy_commands :: "path \<Rightarrow> path \<Rightarrow> string \<Rightarrow> string list list" where
  "copy_commands s d head =
     [[''-C'', abs_str s, ''rev-parse'', ''HEAD''], [''init'', ''-q'', abs_str d],
      [''-C'', abs_str d, ''config'', ''user.name'', ''EvoCI isolated workspace''],
      [''-C'', abs_str d, ''config'', ''user.email'', ''evoci-isolated@example.invalid''],
      [''-C'', abs_str d, ''add'', ''--all''],
      [''-C'', abs_str d, ''commit'', ''--allow-empty'', ''-qm'', ''isolated baseline''],
      [''-C'', abs_str d, ''update-ref'', ''HEAD'', head], [''-C'', abs_str d, ''reset'', ''--mixed'', ''HEAD''],
      [''-C'', abs_str d, ''remote'', ''remove'', ''origin'']]"

definition fingerprint_confined :: "git_cmd \<Rightarrow> path \<Rightarrow> bool" where
  "fingerprint_confined git d \<longleftrightarrow> (\<forall>args \<in> set (fingerprint_commands d). keeps (outside_git d) (git args))"

definition copy_confined :: "git_cmd \<Rightarrow> path \<Rightarrow> path \<Rightarrow> bool" where
  "copy_confined git s d \<longleftrightarrow> (\<forall>head. \<forall>args \<in> set (copy_commands s d head). keeps (outside_git d) (git args))"

lemma outside_git_trans: "outside_git d a b \<Longrightarrow> outside_git d b c \<Longrightarrow> outside_git d a c"
  by (simp add: outside_git_def)

lemma outside_git_refl: "outside_git d a a"
  by (simp add: outside_git_def)

lemmas keeps_git = keeps_bind [where R = "outside_git d" for d, OF outside_git_trans]
  keeps_pure [where R = "outside_git d" for d, OF outside_git_refl]

lemma copy_confinedD:
  assumes "copy_confined git s d"
  shows "keeps (outside_git d) (git [''-C'', abs_str s, ''rev-parse'', ''HEAD''])" "keeps (outside_git d) (git [''init'', ''-q'', abs_str d])"
    "keeps (outside_git d) (git [''-C'', abs_str d, ''config'', ''user.name'', ''EvoCI isolated workspace''])"
    "keeps (outside_git d) (git [''-C'', abs_str d, ''config'', ''user.email'', ''evoci-isolated@example.invalid''])"
    "keeps (outside_git d) (git [''-C'', abs_str d, ''add'', ''--all''])"
    "keeps (outside_git d) (git [''-C'', abs_str d, ''commit'', ''--allow-empty'', ''-qm'', ''isolated baseline''])"
    "keeps (outside_git d) (git [''-C'', abs_str d, ''update-ref'', ''HEAD'', h])"
    "keeps (outside_git d) (git [''-C'', abs_str d, ''reset'', ''--mixed'', ''HEAD''])"
    "keeps (outside_git d) (git [''-C'', abs_str d, ''remote'', ''remove'', ''origin''])"
  using assms by (simp_all add: copy_confined_def copy_commands_def)

lemma fingerprint_confinedD:
  assumes "fingerprint_confined git d"
  shows "keeps (outside_git d) (git [''-C'', abs_str d, ''rev-parse'', ''HEAD''])"
    "keeps (outside_git d) (git [''-C'', abs_str d, ''diff'', ''HEAD''])"
    "keeps (outside_git d) (git [''-C'', abs_str d, ''ls-files'', ''--others'', ''--exclude-standard'', ''-z''])"
  using assms by (simp_all add: fingerprint_confined_def fingerprint_commands_def)

lemma keeps_init_isolated:
  assumes "copy_confined git s d"
  shows "keeps (outside_git d) (init_isolated git (abs_str d))"
  unfolding init_isolated_def commit_isolated_baseline_def
  by (auto intro!: keeps_git copy_confinedD [OF assms] split: prod.splits)

lemma keeps_copy_git_metadata:
  assumes "copy_confined git s d"
  shows "keeps (outside_git d) (copy_git_metadata git listing s d head)"
proof -
  have "keeps (outside_git d) (copytree (\<lambda>_. False) listing (s @ [''.git'']) (d @ [''.git'']))"
    by (auto simp: keeps_def copytree_def outside_git_def copied_elsewhere)
  then show ?thesis unfolding copy_git_metadata_def checked_git_def
    by (auto intro!: keeps_git keeps_init_isolated [OF assms] copy_confinedD [OF assms] split: prod.splits)
qed

lemma keeps_snapshot_id:
  assumes "fingerprint_confined git d"
  shows "keeps (outside_git d) (workspace_snapshot_id git sha d)"
  unfolding workspace_snapshot_id_def
  by (auto intro!: keeps_git fingerprint_confinedD [OF assms] split: prod.splits)

lemma copy_workspace_effect:
  assumes "copy_confined git s d"
    and "copy_workspace_with_independent_git git listing s d fs = (fs', Inr r)"
  shows "fs d = None" "outside_git d (copied_fs skip_ignored fs s d) fs'"
proof -
  let ?rest = "sbind (sget (\<lambda>fs. copy_node fs s [''.git''] \<noteq> None)) (\<lambda>has_git.
     if \<not> has_git then sbind (init_isolated git (abs_str d)) (\<lambda>_. sret d)
     else sbind (git [''-C'', abs_str s, ''rev-parse'', ''HEAD'']) (\<lambda>(code, head, _).
       if code \<noteq> 0 then sbind (init_isolated git (abs_str d)) (\<lambda>_. sret d)
       else sbind (copy_git_metadata git listing s d head) (\<lambda>_. sret d)))"
  have "keeps (outside_git d) ?rest"
    by (auto intro!: keeps_git keeps_init_isolated [OF assms(1)] keeps_copy_git_metadata [OF assms(1)]
        copy_confinedD [OF assms(1)] split: prod.splits)
  moreover have free: "fs d = None" and "?rest (copied_fs skip_ignored fs s d) = (fs', Inr r)"
    using assms(2)
    by (auto simp: copy_workspace_with_independent_git_def sbind_Inr_iff path_exists_def copytree_def split: if_splits)
  ultimately show "fs d = None" "outside_git d (copied_fs skip_ignored fs s d) fs'"
    by (auto dest: keepsD)
qed

lemma save_batch_snapshot_effect:
  assumes "copy_confined git s d" and "save_batch_snapshot git sha listing s d fs = (fs', Inr i)"
    and "wf_fs fs" and "plain_tree fs s" and "\<not> prefix s d" and "\<not> prefix d s" and "\<not> prefix [''.git''] q"
    and "fingerprint_confined git d"
  shows "q \<noteq> [] \<Longrightarrow> fs' (d @ q) = (if skip_ignored q then None else fs (s @ q))"
    and "fs' (s @ q') = fs (s @ q')"
proof -
  define fs0 where "fs0 = (if path_exists fs d then rmtree d fs else fs)"
  obtain fs1 fs2 r where mk: "mkdir_parents fs0 d = Inr fs1"
    and cp: "copy_workspace_with_independent_git git listing s d fs1 = (fs2, Inr r)"
    and sid: "workspace_snapshot_id git sha d fs2 = (fs', Inr i)"
    using assms(2) by (auto simp: save_batch_snapshot_def sbind_Inr_iff fs0_def split: sum.splits)
  have fs1: "fs1 = (\<lambda>p. if fs0 p = None \<and> prefix p (butlast d) then Some Dir else fs0 p)"
    using mk by (auto simp: mkdir_parents_def split: if_splits)
  note c = copy_workspace_effect [OF assms(1) cp]
  have out: "outside_git d (copied_fs skip_ignored fs1 s d) fs'"
    using outside_git_trans [OF c(2) keepsD [OF keeps_snapshot_id [OF assms(8)] sid]] .
  have free: "fs1 (d @ q) = None" for q
  proof -
    have "d \<noteq> []" using assms(6) by auto
    then have "\<not> prefix (d @ q) (butlast d)"
      by (metis append_butlast_last_id append_eq_conv_conj length_append_singleton not_less_eq_eq order_refl
          prefix_length_le take_is_prefix prefix_order.trans prefix_def)
    moreover have "fs0 (d @ q) = None"
      using wf_fs_no_children [OF assms(3), of d "d @ q"]
      by (cases "q = []") (auto simp: fs0_def rmtree_def path_exists_def strict_prefix_def)
    ultimately show ?thesis by (simp add: fs1)
  qed
  have src: "fs1 (s @ q) = fs (s @ q)" for q
  proof -
    have "\<not> prefix (s @ q) (butlast d)" using assms(5)
      by (meson append_prefixD prefix_order.trans prefixeq_butlast)
    moreover have "\<not> prefix d (s @ q)" using incomparable_prefix [OF assms(6,5)] .
    ultimately show ?thesis by (simp add: fs1 fs0_def rmtree_def)
  qed
  have "link_at fs1 p = None" if "link_at fs p = None" for p
    using that by (auto simp: link_at_def fs1 fs0_def rmtree_def split: option.splits node.splits)
  then have plain: "plain_tree fs1 s" using assms(4) src by (auto simp: plain_tree_def)
  show "fs' (d @ q) = (if skip_ignored q then None else fs (s @ q))" if "q \<noteq> []"
  proof -
    have "\<not> prefix (d @ [''.git'']) (d @ q)" using assms(7) by simp
    then have "fs' (d @ q) = copied_fs skip_ignored fs1 s d (d @ q)" using out by (simp add: outside_git_def)
    also have "\<dots> = (if skip_ignored q then None else fs1 (s @ q))"
      using copied_plain [OF plain free, of skip_ignored q] copied_elsewhere [of d "d @ q" skip_ignored] free by auto
    finally show ?thesis by (simp add: src)
  qed
  have "\<not> prefix (d @ [''.git'']) (s @ q')" "\<not> prefix d (s @ q')"
    using incomparable_prefix [OF assms(6,5), of q'] by (auto dest: append_prefixD)
  then show "fs' (s @ q') = fs (s @ q')" using out src copied_elsewhere [of d "s @ q'"] by (simp add: outside_git_def)
qed


text \<open>A Git that answers every command with success and writes nothing.\<close>

definition demo_git :: git_cmd where
  "demo_git args = sret (0, ''abc'', [])"

definition demo_ws :: fs where
  "demo_ws = [[] \<mapsto> Dir, [''w''] \<mapsto> Dir, [''w'', ''a.py''] \<mapsto> Reg ''old'' 420, [''w'', ''a.pyc''] \<mapsto> Reg ''c'' 420]"

lemma demo_git_confined: "copy_confined demo_git s d" "fingerprint_confined demo_git d"
  by (simp_all add: copy_confined_def fingerprint_confined_def demo_git_def keeps_pure outside_git_refl)

lemma no_link_iff: "link_at fs p = None \<longleftrightarrow> (\<forall>t. fs p \<noteq> Some (Link t))"
  by (auto simp: link_at_def split: option.splits node.splits)

lemma copied_no_links:
  assumes "\<And>p. link_at fs p = None"
  shows "link_at (copied_fs skip fs s d) p = None"
  using assms
  by (auto simp: no_link_iff copied_fs_def copy_node_def Let_def split: option.splits sum.splits node.splits if_splits)

lemma demo_ws_links: "link_at demo_ws p = None"
  by (auto simp: link_at_def demo_ws_def)

lemma demo_save:
  "save_batch_snapshot demo_git id (\<lambda>_ _. []) [''w''] [''d''] demo_ws =
     (copied_fs skip_ignored demo_ws [''w''] [''d''], Inr (''abc:'' @ take 16 (''abc'' @ newline @ ''abcabc'')))"
proof -
  let ?fs1 = "copied_fs skip_ignored demo_ws [''w''] [''d'']"
  have mk: "mkdir_parents demo_ws [''d''] = Inr demo_ws"
    by (auto simp: mkdir_parents_def fun_eq_iff demo_ws_def is_file_def)
  have free: "demo_ws [''d''] = None" "copy_node ?fs1 [''w''] [''.git''] = None" by code_simp+
  have "copy_workspace_with_independent_git demo_git (\<lambda>_ _. []) [''w''] [''d''] demo_ws = (?fs1, Inr [''d''])"
    using free by (simp add: copy_workspace_with_independent_git_def copytree_def dangling_def path_exists_def
        init_isolated_def commit_isolated_baseline_def demo_git_def sbind_def)
  moreover have "snd (workspace_snapshot_id demo_git id [''d''] ?fs1) = Inr (''abc:'' @ take 16 (''abc'' @ newline @ ''abcabc''))"
    by code_simp
  then have "workspace_snapshot_id demo_git id [''d''] ?fs1 = (?fs1, Inr (''abc:'' @ take 16 (''abc'' @ newline @ ''abcabc'')))"
    by (simp add: workspace_snapshot_id_def demo_git_def)
  ultimately show ?thesis using free(1) mk by (simp add: save_batch_snapshot_def path_exists_def sbind_def)
qed


text \<open>
  The round trip is not the identity on links and nested repositories: after a save and a rollback
  of an untouched workspace, a symbolic link has become a copy of its target and the \<^verbatim>\<open>.git\<close> file of a
  submodule is gone.
\<close>

theorem rollback_rewrites_links_and_submodules:
  "let fs = [[] \<mapsto> Dir, [''w''] \<mapsto> Dir, [''w'', ''a.py''] \<mapsto> Reg ''x'' 420, [''w'', ''l.py''] \<mapsto> Link [''w'', ''a.py''],
             [''w'', ''sub''] \<mapsto> Dir, [''w'', ''sub'', ''.git''] \<mapsto> Reg ''gitdir'' 420];
       fs1 = fst (save_batch_snapshot demo_git id (\<lambda>_ _. []) [''w''] [''d''] fs);
       fs2 = fst (restore_batch_snapshot (\<lambda>_ _. []) [''d''] [''w''] fs1)
   in fs2 [''w'', ''a.py''] = fs [''w'', ''a.py''] \<and> fs2 [''w'', ''sub''] = Some Dir \<and>
      fs2 [''w'', ''l.py''] = Some (Reg ''x'' 420) \<and> fs2 [''w'', ''sub'', ''.git''] = None"
  by code_simp

text \<open>
  The name of a task becomes part of a path unchecked: a task called by an absolute path has its
  patch artifact written there, outside the state directory.
\<close>

theorem artifact_path_escapes:
  "artifact_path [''/'', ''state''] ''r'' 1 ''/etc/cron.d'' = [''/'', ''etc'', ''cron.d'']"
  by code_simp

section \<open>Scope and approval\<close>

lemma check_scope_Inr: "check_scope allowed es = Inr u \<Longrightarrow> allowed \<noteq> [] \<Longrightarrow> e \<in> set es \<Longrightarrow>
   \<exists>q. normalize_write_path (fe_path e) = Inr q \<and> q \<in> set allowed"
  by (induction allowed es rule: check_scope.induct)
    (auto simp: rbind_Inr_iff assert_write_path_allowed_def split: if_splits)

text \<open>
  Edits that pass the scope check of a repair task stay in its declared files: each edit's path is,
  up to normalisation, one of the task's write paths, and it is a relative path without \<open>..\<close>.
\<close>

theorem scoped_edits_stay_in_scope:
  assumes "validate_edits_against_scope edits scope = Inr ()" and "scope \<noteq> []" and "e \<in> set edits"
  shows "\<exists>q p. normalize_write_path (fe_path e) = Inr q \<and> p \<in> set scope \<and> normalize_write_path p = Inr q \<and>
     \<not> is_abs_path q \<and> ''..'' \<notin> set (path_components q) \<and> path_components q \<noteq> []"
proof -
  obtain allowed where a: "mapM normalize_write_path scope = Inr allowed" "check_scope allowed edits = Inr ()"
    using assms(1) by (auto simp: validate_edits_against_scope_def rbind_Inr_iff)
  have "allowed \<noteq> []" using mapM_length [OF a(1)] assms(2) by auto
  then obtain q where q: "normalize_write_path (fe_path e) = Inr q" "q \<in> set allowed"
    using check_scope_Inr [OF a(2) _ assms(3)] by blast
  then show ?thesis using mapM_set [OF a(1) q(2)] normalize_write_path_components [OF q(1)] by blast
qed

theorem scoped_edits_stay_in_scope_witness:
  "\<exists>q p. normalize_write_path (fe_path (demo_edit ''src/a.py'' ''x'' None)) = Inr q \<and>
     p \<in> set [''./src/a.py''] \<and> normalize_write_path p = Inr q \<and>
     \<not> is_abs_path q \<and> ''..'' \<notin> set (path_components q) \<and> path_components q \<noteq> []"
  by (rule scoped_edits_stay_in_scope [of "[demo_edit ''src/a.py'' ''x'' None]"]) (code_simp, simp_all)

text \<open>
  The scope is checked for the normalised path and the edit is applied to the path as written: an
  edit of \<^verbatim>\<open>"a.py "\<close> (with a blank) passes the check of a task that may write \<^verbatim>\<open>a.py\<close> only, and creates
  another file.
\<close>

theorem scope_check_ignores_blanks:
  "let edit = demo_edit ''a.py '' ''x'' None; fs' = fst (projr (apply_edit id demo_fs [''w''] edit True))
   in validate_edits_against_scope [edit] [''a.py''] = Inr () \<and>
      fs' [''w'', ''a.py ''] = Some (Reg ''x'' 384) \<and> fs' [''w'', ''a.py''] = demo_fs [''w'', ''a.py'']"
  by code_simp

text \<open>
  C10: A patch the graph builds from a worker's edits is applied without a human's approval only if it
  deletes nothing, touches at most four files, none of them a workflow, and was not announced as
  more than low risk.
\<close>

theorem unapproved_patch_is_harmless:
  assumes "fixer_output_from_edits summary edits commands plan risk = Inr out" and "\<not> requires_approval out"
  shows "fo_edits out = edits \<and> (\<forall>e \<in> set edits. \<not> fe_delete e \<and>
       \<not> starts_with ''.github/workflows/'' (path_str (path_parts (fe_path e)))) \<and>
     card (path_parts ` fe_path ` set edits) \<le> 4 \<and> or_else risk ''low'' = ''low''"
proof -
  obtain pl where "parse_verification_plan (Some plan) = Inr pl" and out: "fo_edits out = edits"
    "pp_changed_files (fo_proposal out) = map fe_path edits"
    "pp_risk (fo_proposal out) = (let r = or_else risk (if length edits \<le> 4 then ''low'' else ''medium'') in
       if r = ''low'' then Low else if r = ''high'' then High else Medium)"
    using assms(1)
    by (auto simp: fixer_output_from_edits_def Let_def rbind_Inr_iff edits_match_changed_files_def split: if_splits)
  have na: "pp_risk (fo_proposal out) = Low" "\<not> list_ex fe_delete edits"
    "\<not> list_ex (\<lambda>p. starts_with ''.github/workflows/'' (path_str p)) (remdups (map path_parts (map fe_path edits)))"
    "length (remdups (map path_parts (map fe_path edits))) \<le> 4"
    using assms(2) out(1,2) by (auto simp: requires_approval_def Let_def intro: risk_level.exhaust)
  have "card (path_parts ` fe_path ` set edits) \<le> 4"
    using na(4) by (simp add: length_remdups_card_conv image_image)
  moreover have "or_else risk ''low'' = ''low''"
    using na(1) out(3) by (auto simp: or_else_def Let_def split: option.splits if_splits)
  ultimately show ?thesis using na(2,3) out(1) by (auto simp: list_ex_iff)
qed

theorem unapproved_patch_is_harmless_witness:
  "card (path_parts ` fe_path ` set [demo_edit ''a.py'' ''x'' None]) \<le> 4"
proof -
  let ?o = "projr (fixer_output_from_edits ''s'' [demo_edit ''a.py'' ''x'' None] [] [] None)"
  have "fixer_output_from_edits ''s'' [demo_edit ''a.py'' ''x'' None] [] [] None = Inr ?o" "\<not> requires_approval ?o"
    by code_simp+
  from unapproved_patch_is_harmless [OF this] show ?thesis by simp
qed

end
