(* ===== verification/Events.thy ===== *)
theory Events
  imports Domain
begin

text \<open>
  Event recording: \<^verbatim>\<open>runtime/events.py\<close>, \<^verbatim>\<open>runtime/event_store.py\<close>, \<^verbatim>\<open>runtime/run_store.py\<close>,
  \<^verbatim>\<open>runtime/usage.py\<close> and the recorder of \<^verbatim>\<open>runtime/trajectory.py\<close>.

  A SQLite table is the list of its rows in insertion order; a commit is the new list. A JSON column
  holds the payload itself: \<open>json.loads(json.dumps(x, sort_keys=True))\<close> is \<open>x\<close> up to the order of keys,
  which no reader observes. The clock (\<open>now\<close>) and \<open>uuid4()\<close> (\<open>uuid\<close>) are arguments.
\<close>

section \<open>Event types and events\<close>

datatype event_type =
    RUN_STARTED | AGENT_STARTED | AGENT_COMPLETED | MODEL_CALL | MODEL_USAGE | TOOL_CALL
  | TOOL_RESULT | EVIDENCE_CREATED | ATTEMPT_FAILED | DIAGNOSIS_CREATED | PATCH_CREATED
  | VERIFICATION_STARTED | VERIFICATION_COMPLETED | INTERRUPT_CREATED | INTERRUPT_RESOLVED
  | MEMORY_RETRIEVED | MEMORY_SELECTED | MEMORY_USED | MEMORY_CREATED | SKILL_RETRIEVED
  | SKILL_SELECTED | SKILL_INVOCATION_REJECTED | SKILL_USED | SKILL_CANDIDATE_CREATED
  | SKILL_UPDATED | LEARNING_ERROR | RUN_COMPLETED | RUN_FAILED

fun event_type_value :: "event_type \<Rightarrow> string" where
  "event_type_value RUN_STARTED = ''RunStarted''"
| "event_type_value AGENT_STARTED = ''AgentStarted''"
| "event_type_value AGENT_COMPLETED = ''AgentCompleted''"
| "event_type_value MODEL_CALL = ''ModelCall''"
| "event_type_value MODEL_USAGE = ''ModelUsage''"
| "event_type_value TOOL_CALL = ''ToolCall''"
| "event_type_value TOOL_RESULT = ''ToolResult''"
| "event_type_value EVIDENCE_CREATED = ''EvidenceCreated''"
| "event_type_value ATTEMPT_FAILED = ''AttemptFailed''"
| "event_type_value DIAGNOSIS_CREATED = ''DiagnosisCreated''"
| "event_type_value PATCH_CREATED = ''PatchCreated''"
| "event_type_value VERIFICATION_STARTED = ''VerificationStarted''"
| "event_type_value VERIFICATION_COMPLETED = ''VerificationCompleted''"
| "event_type_value INTERRUPT_CREATED = ''InterruptCreated''"
| "event_type_value INTERRUPT_RESOLVED = ''InterruptResolved''"
| "event_type_value MEMORY_RETRIEVED = ''MemoryRetrieved''"
| "event_type_value MEMORY_SELECTED = ''MemorySelected''"
| "event_type_value MEMORY_USED = ''MemoryUsed''"
| "event_type_value MEMORY_CREATED = ''MemoryCreated''"
| "event_type_value SKILL_RETRIEVED = ''SkillRetrieved''"
| "event_type_value SKILL_SELECTED = ''SkillSelected''"
| "event_type_value SKILL_INVOCATION_REJECTED = ''SkillInvocationRejected''"
| "event_type_value SKILL_USED = ''SkillUsed''"
| "event_type_value SKILL_CANDIDATE_CREATED = ''SkillCandidateCreated''"
| "event_type_value SKILL_UPDATED = ''SkillUpdated''"
| "event_type_value LEARNING_ERROR = ''LearningError''"
| "event_type_value RUN_COMPLETED = ''RunCompleted''"
| "event_type_value RUN_FAILED = ''RunFailed''"

record run_event =
  e_event_id :: string
  e_run_id :: string
  e_timestamp :: int
  e_type :: event_type
  e_agent_id :: "string option"
  e_invocation_id :: "string option"
  e_payload :: payload

section \<open>SQLite event store\<close>

text \<open>
  \<open>append\<close> writes the invocation id into the payload and inserts the row unless its event id is
  taken; \<open>list\<close> reads the invocation id back from the payload.
\<close>

definition stored_event :: "run_event \<Rightarrow> run_event" where
  "stored_event e =
     e\<lparr>e_payload := (case e_invocation_id e of None \<Rightarrow> e_payload e
                      | Some i \<Rightarrow> AList.update ''invocation_id'' (JStr i) (e_payload e))\<rparr>"

definition store_append :: "run_event \<Rightarrow> run_event list \<Rightarrow> run_event list" where
  "store_append e rows = insert_or_ignore e_event_id (stored_event e) rows"

definition loaded_event :: "run_event \<Rightarrow> run_event" where
  "loaded_event row =
     row\<lparr>e_invocation_id := (case jget (e_payload row) ''invocation_id'' of JStr s \<Rightarrow> Some s | _ \<Rightarrow> None)\<rparr>"

definition store_list :: "string \<Rightarrow> run_event list \<Rightarrow> run_event list" where
  "store_list run_id rows =
     map loaded_event
       (sort_key (\<lambda>e. (e_timestamp e, e_event_id e)) (filter (\<lambda>e. e_run_id e = run_id) rows))"

definition store_iter_all :: "run_event list \<Rightarrow> run_event list" where
  "store_iter_all rows = concat (map (\<lambda>r. store_list r rows) (sorted_set (map e_run_id rows)))"

definition store_count ::
  "string \<Rightarrow> string option \<Rightarrow> string option \<Rightarrow> run_event list \<Rightarrow> nat" where
  "store_count run_id ty agent rows =
     length (filter (\<lambda>e. e_run_id e = run_id \<and>
                         (case ty of None \<Rightarrow> True | Some t \<Rightarrow> event_type_value (e_type e) = t) \<and>
                         (case agent of None \<Rightarrow> True | Some a \<Rightarrow> e_agent_id e = Some a)) rows)"

section \<open>Recorder\<close>

record recorder =
  rec_events :: "string \<Rightarrow> run_event list"
  rec_store :: "run_event list option"

definition new_recorder :: "run_event list option \<Rightarrow> recorder" where
  "new_recorder store = \<lparr>rec_events = (\<lambda>_. []), rec_store = store\<rparr>"

definition event_key_id ::
  "string \<Rightarrow> string option \<Rightarrow> string option \<Rightarrow> event_type \<Rightarrow> string \<Rightarrow> string" where
  "event_key_id run_id agent_id invocation_id ty key =
     run_id @ '':'' @ or_else agent_id ''harness'' @ '':'' @ or_else invocation_id ''default'' @ '':'' @
     event_type_value ty @ '':'' @ key"

definition emit ::
  "int \<Rightarrow> string \<Rightarrow> string \<Rightarrow> event_type \<Rightarrow> string option \<Rightarrow> string option \<Rightarrow> payload \<Rightarrow>
   string option \<Rightarrow> recorder \<Rightarrow> run_event \<times> recorder" where
  "emit now uuid run_id ty agent_id invocation_id payload event_key r =
     (let p = (case invocation_id of None \<Rightarrow> payload
               | Some i \<Rightarrow> AList.update ''invocation_id'' (JStr i) payload);
          event = \<lparr>e_event_id = (if truthy event_key
                                then event_key_id run_id agent_id invocation_id ty (the event_key)
                                else uuid),
                   e_run_id = run_id, e_timestamp = now, e_type = ty, e_agent_id = agent_id,
                   e_invocation_id = invocation_id, e_payload = p\<rparr>
      in (event,
          r\<lparr>rec_events := (rec_events r)(run_id := insert_or_ignore e_event_id event (rec_events r run_id)),
            rec_store := map_option (store_append event) (rec_store r)\<rparr>))"

definition rec_list :: "string \<Rightarrow> recorder \<Rightarrow> run_event list" where
  "rec_list run_id r =
     (case rec_store r of Some rows \<Rightarrow> store_list run_id rows | None \<Rightarrow> rec_events r run_id)"

definition rec_count :: "string \<Rightarrow> event_type \<Rightarrow> string option \<Rightarrow> recorder \<Rightarrow> nat" where
  "rec_count run_id ty agent_id r =
     length (filter (\<lambda>e. e_type e = ty \<and> (agent_id = None \<or> e_agent_id e = agent_id)) (rec_list run_id r))"

section \<open>Run store\<close>

datatype run_status = Running | WaitingApproval | Success | Failed

record run_record =
  rr_run_id :: string
  rr_task_id :: string
  rr_status :: run_status
  rr_created_at :: int
  rr_updated_at :: int
  rr_metadata :: payload

definition run_create ::
  "int \<Rightarrow> string \<Rightarrow> string \<Rightarrow> payload option \<Rightarrow> run_record list \<Rightarrow> run_record list" where
  "run_create now run_id task_id metadata rows =
     insert_or_ignore rr_run_id
       \<lparr>rr_run_id = run_id, rr_task_id = task_id, rr_status = Running, rr_created_at = now,
        rr_updated_at = now, rr_metadata = (case metadata of None \<Rightarrow> [] | Some m \<Rightarrow> m)\<rparr> rows"

definition run_update_status :: "int \<Rightarrow> string \<Rightarrow> run_status \<Rightarrow> run_record list \<Rightarrow> run_record list" where
  "run_update_status now run_id st rows =
     map (\<lambda>r. if rr_run_id r = run_id then r\<lparr>rr_status := st, rr_updated_at := now\<rparr> else r) rows"

definition run_get :: "string \<Rightarrow> run_record list \<Rightarrow> run_record option" where
  "run_get run_id rows = find (\<lambda>r. rr_run_id r = run_id) rows"

definition run_list :: "run_record list \<Rightarrow> run_record list" where
  "run_list rows =
     concat (map (\<lambda>i. case run_get i rows of None \<Rightarrow> [] | Some r \<Rightarrow> [r])
       (map rr_run_id (sort_key (\<lambda>r. - rr_created_at r) rows)))"

section \<open>Usage\<close>

record model_usage =
  mu_input_tokens :: int
  mu_output_tokens :: int
  mu_cached_input_tokens :: "int option"
  mu_reasoning_tokens :: "int option"
  mu_model_name :: "string option"
  mu_provider_request_id :: "string option"
  mu_request_kind :: string

definition total_tokens :: "model_usage \<Rightarrow> int" where
  "total_tokens u = mu_input_tokens u + mu_output_tokens u"

definition is_post_run :: "run_event \<Rightarrow> bool" where
  "is_post_run e \<longleftrightarrow> jget (e_payload e) ''budget_scope'' = JStr ''post_run''"

definition usage_complete_from_events :: "run_event list \<Rightarrow> bool" where
  "usage_complete_from_events events =
     (let model_calls = filter (\<lambda>e. e_type e = MODEL_CALL \<and> \<not> is_post_run e) events;
          usage_events = filter (\<lambda>e. e_type e = MODEL_USAGE \<and> \<not> is_post_run e) events
      in if model_calls \<noteq> [] \<and> usage_events = [] then False
         else list_all (\<lambda>e. jget (e_payload e) ''usage_complete'' \<noteq> JBool False \<and>
                            (jtruthy (jget (e_payload e) ''input_tokens'') \<or>
                             jtruthy (jget (e_payload e) ''output_tokens''))) usage_events)"

text \<open>
  One call of the observer \<open>make_usage_observer\<close> returns: the counter of calls is the observer's
  state, \<open>nonce\<close> its \<open>uuid4().hex\<close>; the recorder is \<open>None\<close> when there is none. Recording never raises.
\<close>

definition observe_usage ::
  "int \<Rightarrow> string \<Rightarrow> string \<Rightarrow> string \<Rightarrow> string option \<Rightarrow> string \<Rightarrow> string \<Rightarrow> payload \<Rightarrow> model_usage \<Rightarrow>
   nat \<times> recorder option \<Rightarrow> nat \<times> recorder option" where
  "observe_usage now nonce run_id agent_id invocation_id budget_scope call_key extra u st =
     (let (sequence, r) = st; n = Suc sequence in
      case r of
        None \<Rightarrow> (n, None)
      | Some rc \<Rightarrow>
          (let request_id = strip (or_else (mu_provider_request_id u) []);
               request_key = (if request_id \<noteq> [] then ''request:'' @ request_id
                              else ''observer:'' @ nonce @ '':'' @ show_nat n);
               payload = [(''input_tokens'', JInt (mu_input_tokens u)),
                 (''output_tokens'', JInt (mu_output_tokens u)),
                 (''cached_input_tokens'', jint_opt (mu_cached_input_tokens u)),
                 (''reasoning_tokens'', jint_opt (mu_reasoning_tokens u)),
                 (''model_name'', jopt (mu_model_name u)),
                 (''provider_request_id'', jopt (mu_provider_request_id u)),
                 (''request_kind'', JStr (mu_request_kind u)),
                 (''budget_scope'', JStr budget_scope),
                 (''usage_complete'', JBool (mu_input_tokens u \<noteq> 0 \<or> mu_output_tokens u \<noteq> 0 \<or>
                                            total_tokens u \<noteq> 0))];
               full = fold (\<lambda>(k, v). AList.update k v) extra payload
           in (n, Some (snd (emit now [] run_id MODEL_USAGE (Some agent_id) invocation_id full
                          (Some (''usage:'' @ call_key @ '':'' @ request_key)) rc)))))"

section \<open>The logs as keyed logs\<close>

lemma stored_event_id [simp]: "e_event_id (stored_event e) = e_event_id e"
  "e_run_id (stored_event e) = e_run_id e" "e_type (stored_event e) = e_type e"
  "e_timestamp (stored_event e) = e_timestamp e" "e_agent_id (stored_event e) = e_agent_id e"
  by (simp_all add: stored_event_def)

lemma loaded_event_id [simp]: "e_event_id (loaded_event e) = e_event_id e"
  "e_run_id (loaded_event e) = e_run_id e" "e_type (loaded_event e) = e_type e"
  "e_payload (loaded_event e) = e_payload e" "e_timestamp (loaded_event e) = e_timestamp e"
  by (simp_all add: loaded_event_def)

interpretation event_rows: keyed_log e_event_id stored_event store_append "\<lambda>rows. rows"
  by unfold_locales (auto simp: store_append_def insert_or_ignore_def)

interpretation recorded: keyed_log e_event_id "\<lambda>e. e" "insert_or_ignore e_event_id" "\<lambda>rows. rows"
  by unfold_locales (auto simp: insert_or_ignore_def)

interpretation run_rows: keyed_log rr_run_id "\<lambda>r. r" "insert_or_ignore rr_run_id" "\<lambda>rows. rows"
  by unfold_locales (auto simp: insert_or_ignore_def)

lemma jget_update: "jget (AList.update k v p) k' = (if k' = k then v else jget p k')"
  by (simp add: jget_def update_conv')

lemma set_store_list: "set (store_list run_id rows) = loaded_event ` {e \<in> set rows. e_run_id e = run_id}"
  by (auto simp: store_list_def)

text \<open>Events already on record stay on record, whatever is emitted.\<close>

lemma emit_store: "rec_store (snd (emit now u run_id ty a i p k r)) =
    map_option (store_append (fst (emit now u run_id ty a i p k r))) (rec_store r)"
  by (simp add: emit_def Let_def)

lemma emit_events: "rec_events (snd (emit now u run_id ty a i p k r)) =
    (rec_events r)(run_id := insert_or_ignore e_event_id (fst (emit now u run_id ty a i p k r)) (rec_events r run_id))"
  by (simp add: emit_def Let_def)

lemma fst_emit_id: "k \<noteq> [] \<Longrightarrow>
    e_event_id (fst (emit now u run_id ty a i p (Some k) r)) = event_key_id run_id a i ty k"
  by (simp add: emit_def Let_def)

lemma fst_emit_run: "e_run_id (fst (emit now u run_id ty a i p k r)) = run_id"
  "e_type (fst (emit now u run_id ty a i p k r)) = ty"
  "e_agent_id (fst (emit now u run_id ty a i p k r)) = a"
  by (simp_all add: emit_def Let_def)

lemma stored_emit: "stored_event (fst (emit now u run_id ty a i p k r)) = fst (emit now u run_id ty a i p k r)"
  by (auto simp: emit_def Let_def stored_event_def split: option.splits)

lemma insert_or_ignore_known: "key x \<in> key ` set rows \<Longrightarrow> insert_or_ignore key x rows = rows"
  by (simp add: insert_or_ignore_def)

lemma insert_or_ignore_ids: "key ` set (insert_or_ignore key x rows) = insert (key x) (key ` set rows)"
  by (auto simp: insert_or_ignore_def)

text \<open>The id an emitted event has in the store when its key has been used before.\<close>

lemma emit_known_store:
  assumes "rec_store r = Some rows" and "k \<noteq> []" and "event_key_id run_id a i ty k \<in> e_event_id ` set rows"
  shows "rec_store (snd (emit now u run_id ty a i p (Some k) r)) = Some rows"
  using assms by (simp add: emit_store event_rows.append_known fst_emit_id)

text \<open>
  an event emitted under a key is recorded once: emitting it again, at another time and with
  another payload, changes neither the recorder nor the store, and after a restart (a new recorder
  over the same store) a replayed emission leaves the stored trajectory as it was.
\<close>

theorem emit_replay_idempotent:
  fixes now u run_id ty a i p r
  assumes "k \<noteq> []"
  defines "r1 \<equiv> snd (emit now u run_id ty a i p (Some k) r)"
  shows "snd (emit now' u' run_id ty a i p' (Some k) r1) = r1 \<and>
    rec_store (snd (emit now' u' run_id ty a i p' (Some k) (new_recorder (rec_store r1)))) = rec_store r1"
proof -
  have mem: "event_key_id run_id a i ty k \<in> e_event_id ` set (rec_events r1 run_id)"
    using assms(1) by (simp add: r1_def emit_events insert_or_ignore_ids fst_emit_id)
  have sto: "event_key_id run_id a i ty k \<in> e_event_id ` set rows" if "rec_store r1 = Some rows" for rows
    using that assms(1) by (auto simp: r1_def emit_store event_rows.append_ids fst_emit_id)
  have store: "rec_store (snd (emit now' u' run_id ty a i p' (Some k) r')) = rec_store r'"
    if "rec_store r' = rec_store r1" for r'
    using that assms(1) sto emit_known_store [of r' _ k run_id a i ty now' u' p']
    by (cases "rec_store r1") (auto simp: emit_store)
  have "rec_events (snd (emit now' u' run_id ty a i p' (Some k) r1)) = rec_events r1"
    using mem assms(1) by (auto simp: emit_events insert_or_ignore_known fst_emit_id)
  with store [of r1] have "snd (emit now' u' run_id ty a i p' (Some k) r1) = r1"
    by (metis recorder.surjective unit_eq)
  then show ?thesis using store [of "new_recorder (rec_store r1)"] by (simp add: new_recorder_def)
qed

theorem emit_replay_idempotent_witness:
  "rec_store (snd (emit 9 [] ''r'' TOOL_CALL None None [(''n'', JInt 2)] (Some ''k'')
     (new_recorder (rec_store (snd (emit 1 [] ''r'' TOOL_CALL None None [] (Some ''k'') (new_recorder (Some []))))))))
   = rec_store (snd (emit 1 [] ''r'' TOOL_CALL None None [] (Some ''k'') (new_recorder (Some []))))"
  by (rule emit_replay_idempotent [THEN conjunct2]) simp

text \<open>
  the store keeps what was emitted: the events of a run read back from the store are the rows of
  that run in the order of their time stamps, every row is read back once with its type, payload and
  invocation id, and the event just emitted is among them unless its id had been recorded before.
\<close>

theorem store_roundtrip:
  "mset (map e_event_id (store_list run_id rows)) =
     mset (map e_event_id (filter (\<lambda>e. e_run_id e = run_id) rows)) \<and>
   sorted (map (\<lambda>e. (e_timestamp e, e_event_id e)) (store_list run_id rows)) \<and>
   (\<forall>e. e_event_id e \<notin> e_event_id ` set rows \<longrightarrow> e_run_id e = run_id \<longrightarrow>
      map_of (e_payload e) ''invocation_id'' = None \<longrightarrow>
      (\<exists>e'\<in>set (store_list run_id (store_append e rows)).
         e_event_id e' = e_event_id e \<and> e_type e' = e_type e \<and> e_invocation_id e' = e_invocation_id e \<and>
         (\<forall>k. k \<noteq> ''invocation_id'' \<longrightarrow> jget (e_payload e') k = jget (e_payload e) k)))"
proof (intro conjI allI impI)
  show "mset (map e_event_id (store_list run_id rows)) =
           mset (map e_event_id (filter (\<lambda>e. e_run_id e = run_id) rows))"
    by (simp add: store_list_def comp_def multiset.map_comp)
  show "sorted (map (\<lambda>e. (e_timestamp e, e_event_id e)) (store_list run_id rows))"
    by (simp add: store_list_def comp_def)
  fix e :: run_event assume new: "e_event_id e \<notin> e_event_id ` set rows" and run: "e_run_id e = run_id"
    and noinv: "map_of (e_payload e) ''invocation_id'' = None"
  have "loaded_event (stored_event e) \<in> set (store_list run_id (store_append e rows))"
    using new run by (auto simp: set_store_list event_rows.append_fresh)
  moreover have "e_invocation_id (loaded_event (stored_event e)) = e_invocation_id e"
    using noinv by (auto simp: loaded_event_def stored_event_def jget_def update_conv' split: option.splits)
  moreover have "jget (e_payload (loaded_event (stored_event e))) k = jget (e_payload e) k"
    if "k \<noteq> ''invocation_id''" for k
    using that by (simp add: stored_event_def jget_update split: option.splits)
  ultimately show "\<exists>e'\<in>set (store_list run_id (store_append e rows)).
           e_event_id e' = e_event_id e \<and> e_type e' = e_type e \<and> e_invocation_id e' = e_invocation_id e \<and>
           (\<forall>k. k \<noteq> ''invocation_id'' \<longrightarrow> jget (e_payload e') k = jget (e_payload e) k)"
    by (intro bexI [of _ "loaded_event (stored_event e)"]) auto
qed

definition demo_event :: run_event where
  "demo_event = \<lparr>e_event_id = ''r:harness:i1:ToolCall:k'', e_run_id = ''r'', e_timestamp = 1,
     e_type = TOOL_CALL, e_agent_id = None, e_invocation_id = Some ''i1'',
     e_payload = [(''tool_name'', JStr ''read_file'')]\<rparr>"

theorem store_roundtrip_witness:
  "\<exists>e'\<in>set (store_list ''r'' (store_append demo_event [])).
     e_event_id e' = e_event_id demo_event \<and> e_type e' = e_type demo_event \<and>
     e_invocation_id e' = e_invocation_id demo_event \<and>
     (\<forall>k. k \<noteq> ''invocation_id'' \<longrightarrow> jget (e_payload e') k = jget (e_payload demo_event) k)"
  by (rule store_roundtrip [THEN conjunct2, THEN conjunct2, rule_format]) (simp_all add: demo_event_def)

end
