(* ===== verification/Budget.thy ===== *)
theory Budget
  imports Events
begin

text \<open>
  Run-level and task-level call budgets: \<^verbatim>\<open>runtime/budget.py\<close>. A budget is its two limits, its two
  counters and the messages of its exceptions; every method runs under the budget's lock, so a method
  is one atomic step on this record. \<open>RunBudgetManager.for_run\<close> rebuilds a budget from the recorded
  events, which is how a resumed run keeps what it has already spent.
\<close>

definition FINALIZATION_MODEL_CALLS :: int where
  "FINALIZATION_MODEL_CALLS = 1"

definition action_call_capacity :: "int \<Rightarrow> int \<Rightarrow> int option \<Rightarrow> int" where
  "action_call_capacity max_actions remaining_model_calls task_model_calls =
     (if remaining_model_calls < 1 + FINALIZATION_MODEL_CALLS then 0
      else
        let capacity = min max_actions (remaining_model_calls - FINALIZATION_MODEL_CALLS);
            capacity' = (case task_model_calls of None \<Rightarrow> capacity
                         | Some t \<Rightarrow> min capacity (max 0 (t - FINALIZATION_MODEL_CALLS)))
        in max 0 capacity')"

record run_repair_budget =
  rb_max_model_calls :: int
  rb_max_tool_calls :: int
  rb_model_calls :: int
  rb_tool_calls :: int
  rb_model_message :: string
  rb_tool_message :: string

definition default_exhausted_message :: string where
  "default_exhausted_message = ''run-level model-call budget exhausted''"

definition new_budget :: "int \<Rightarrow> int \<Rightarrow> int \<Rightarrow> int \<Rightarrow> string \<Rightarrow> run_repair_budget" where
  "new_budget max_model max_tool model_calls tool_calls message =
     \<lparr>rb_max_model_calls = max_model, rb_max_tool_calls = max_tool,
      rb_model_calls = model_calls, rb_tool_calls = tool_calls,
      rb_model_message = message,
      rb_tool_message = replace_all ''model-call'' ''tool-call'' message\<rparr>"

definition consume_model_call :: "run_repair_budget \<Rightarrow> run_repair_budget res" where
  "consume_model_call b =
     (if rb_max_model_calls b \<le> rb_model_calls b
      then Inl (RepairBudgetExhausted (rb_model_message b))
      else Inr (b\<lparr>rb_model_calls := rb_model_calls b + 1\<rparr>))"

definition consume_tool_call :: "run_repair_budget \<Rightarrow> run_repair_budget res" where
  "consume_tool_call b =
     (if rb_max_tool_calls b \<le> rb_tool_calls b
      then Inl (RepairBudgetExhausted (rb_tool_message b))
      else Inr (b\<lparr>rb_tool_calls := rb_tool_calls b + 1\<rparr>))"

definition remaining_model_calls :: "run_repair_budget \<Rightarrow> int" where
  "remaining_model_calls b = max 0 (rb_max_model_calls b - rb_model_calls b)"

definition remaining_tool_calls :: "run_repair_budget \<Rightarrow> int" where
  "remaining_tool_calls b = max 0 (rb_max_tool_calls b - rb_tool_calls b)"

definition ensure_tool_calls :: "int \<Rightarrow> run_repair_budget \<Rightarrow> unit res" where
  "ensure_tool_calls n b =
     (if n \<le> 0 then Inr ()
      else if rb_max_tool_calls b < rb_tool_calls b + n
      then Inl (RepairBudgetExhausted (rb_tool_message b))
      else Inr ())"

record budget_snapshot =
  bs_model_calls :: int
  bs_tool_calls :: int
  bs_max_model_calls :: int
  bs_max_tool_calls :: int

definition budget_snapshot_of :: "run_repair_budget \<Rightarrow> budget_snapshot" where
  "budget_snapshot_of b = \<lparr>bs_model_calls = rb_model_calls b, bs_tool_calls = rb_tool_calls b,
     bs_max_model_calls = rb_max_model_calls b, bs_max_tool_calls = rb_max_tool_calls b\<rparr>"

text \<open>
  \<open>CombinedBudget\<close>: the budgets are charged one after the other, so those charged before the one
  that raises stay charged: the result is the exception, if any, and all the budgets.
\<close>

fun combined_consume ::
  "(run_repair_budget \<Rightarrow> run_repair_budget res) \<Rightarrow> run_repair_budget list \<Rightarrow>
   pyexc option \<times> run_repair_budget list" where
  "combined_consume consume [] = (None, [])"
| "combined_consume consume (b # bs) =
     (case consume b of
        Inl e \<Rightarrow> (Some e, b # bs)
      | Inr b' \<Rightarrow> (case combined_consume consume bs of (e, bs') \<Rightarrow> (e, b' # bs')))"

definition combined_consume_model_call ::
  "run_repair_budget list \<Rightarrow> pyexc option \<times> run_repair_budget list" where
  "combined_consume_model_call = combined_consume consume_model_call"

definition combined_consume_tool_call ::
  "run_repair_budget list \<Rightarrow> pyexc option \<times> run_repair_budget list" where
  "combined_consume_tool_call = combined_consume consume_tool_call"

record budget_manager =
  bm_max_model_calls :: int
  bm_max_tool_calls :: int
  bm_budgets :: "string \<rightharpoonup> run_repair_budget"

definition counted_model_call :: "run_event \<Rightarrow> bool" where
  "counted_model_call e \<longleftrightarrow> e_type e = MODEL_CALL \<and> jget (e_payload e) ''budget_scope'' \<noteq> JStr ''post_run''"

definition counted_tool_call :: "run_event \<Rightarrow> bool" where
  "counted_tool_call e \<longleftrightarrow> e_type e = TOOL_CALL \<and>
     jget (e_payload e) ''budget_scope'' \<notin> {JStr ''post_run'', JStr ''cleanup''}"

definition for_run ::
  "recorder option \<Rightarrow> string \<Rightarrow> budget_manager \<Rightarrow> run_repair_budget \<times> budget_manager" where
  "for_run rc run_id m =
     (case bm_budgets m run_id of
        Some existing \<Rightarrow> (existing, m)
      | None \<Rightarrow>
          (let events = (case rc of None \<Rightarrow> [] | Some r \<Rightarrow> rec_list run_id r);
               budget = new_budget (bm_max_model_calls m) (bm_max_tool_calls m)
                          (int (length (filter counted_model_call events)))
                          (int (length (filter counted_tool_call events)))
                          default_exhausted_message
           in (budget, m\<lparr>bm_budgets := (bm_budgets m)(run_id \<mapsto> budget)\<rparr>)))"

section \<open>The budget interface\<close>

text \<open>
  What the tool loop, the verification service and the apply step rely on: a counter with a limit, a
  charge that raises exactly when the counter has reached the limit and adds one otherwise, so that
  the number of successful charges is bounded by what was left. Both kinds of call are instances.
\<close>

fun charge :: "('b \<Rightarrow> 'b res) \<Rightarrow> nat \<Rightarrow> 'b \<Rightarrow> 'b res" where
  "charge consume 0 b = Inr b"
| "charge consume (Suc n) b = rbind (consume b) (charge consume n)"

locale call_counter =
  fixes consume :: "'b \<Rightarrow> 'b res"
    and used :: "'b \<Rightarrow> int"
    and limit :: "'b \<Rightarrow> int"
  assumes consume_ok: "used b < limit b \<Longrightarrow> \<exists>b'. consume b = Inr b' \<and> used b' = used b + 1 \<and> limit b' = limit b"
    and consume_exhausted: "limit b \<le> used b \<Longrightarrow> \<exists>m. consume b = Inl (RepairBudgetExhausted m)"
begin

lemma consume_Inr: "consume b = Inr b' \<Longrightarrow> used b < limit b \<and> used b' = used b + 1 \<and> limit b' = limit b"
  using consume_ok [of b] consume_exhausted [of b] by (cases "used b < limit b") auto

lemma consume_within: "used b \<le> limit b \<Longrightarrow> consume b = Inr b' \<Longrightarrow> used b' \<le> limit b'"
  using consume_Inr by fastforce

lemma consume_error: "consume b = Inl e \<Longrightarrow> \<exists>m. e = RepairBudgetExhausted m"
  using consume_ok [of b] consume_exhausted [of b] by (cases "used b < limit b") auto

lemma charge_Inr: "charge consume n b = Inr b' \<Longrightarrow> used b' = used b + int n \<and> limit b' = limit b"
  by (induction n arbitrary: b) (auto simp: rbind_Inr_iff dest!: consume_Inr)

lemma charge_bound: "used b \<le> limit b \<Longrightarrow> charge consume n b = Inr b' \<Longrightarrow> int n \<le> limit b - used b"
proof (induction n arbitrary: b)
  case (Suc n)
  then obtain b1 where b1: "consume b = Inr b1" "charge consume n b1 = Inr b'" by (auto simp: rbind_Inr_iff)
  with Suc.IH [of b1] Suc.prems(1) consume_Inr [OF b1(1)] show ?case by auto
qed simp

lemma charge_enough: "int n \<le> limit b - used b \<Longrightarrow> \<exists>b'. charge consume n b = Inr b'"
proof (induction n arbitrary: b)
  case (Suc n)
  then obtain b1 where b1: "consume b = Inr b1" "used b1 = used b + 1" "limit b1 = limit b"
    using consume_ok [of b] by auto
  with Suc.IH [of b1] Suc.prems show ?case by auto
qed simp

end

interpretation model_calls: call_counter consume_model_call rb_model_calls rb_max_model_calls
  by unfold_locales (auto simp: consume_model_call_def)

interpretation tool_calls: call_counter consume_tool_call rb_tool_calls rb_max_tool_calls
  by unfold_locales (auto simp: consume_tool_call_def)

lemma consume_model_frame: "consume_model_call b = Inr b' \<Longrightarrow>
    rb_tool_calls b' = rb_tool_calls b \<and> rb_max_tool_calls b' = rb_max_tool_calls b"
  by (auto simp: consume_model_call_def split: if_splits)

lemma consume_tool_frame: "consume_tool_call b = Inr b' \<Longrightarrow>
    rb_model_calls b' = rb_model_calls b \<and> rb_max_model_calls b' = rb_max_model_calls b"
  by (auto simp: consume_tool_call_def split: if_splits)

section \<open>Properties\<close>

text \<open>
  From a budget within its limits exactly the remaining number of tool calls can be consumed:
  \<open>n\<close> consecutive calls succeed if and only if \<open>n\<close> is at most what \<open>remaining_tool_calls\<close> reports, and
  then the counter has grown by \<open>n\<close> and nothing else has changed.
\<close>

theorem tool_budget_exact:
  assumes "rb_tool_calls b \<le> rb_max_tool_calls b"
  shows "((\<exists>b'. charge consume_tool_call n b = Inr b') \<longleftrightarrow> int n \<le> remaining_tool_calls b) \<and>
    (\<forall>b'. charge consume_tool_call n b = Inr b' \<longrightarrow>
         rb_tool_calls b' = rb_tool_calls b + int n \<and> rb_max_tool_calls b' = rb_max_tool_calls b)"
  using assms tool_calls.charge_bound [of b n] tool_calls.charge_enough [of n b]
    tool_calls.charge_Inr [of n b]
  by (auto simp: remaining_tool_calls_def)

theorem tool_budget_exact_witness:
  "\<exists>b'. charge consume_tool_call 2 (new_budget 5 3 0 1 default_exhausted_message) = Inr b'"
  using tool_budget_exact [of "new_budget 5 3 0 1 default_exhausted_message" 2]
  by (simp add: new_budget_def remaining_tool_calls_def)

text \<open>
  After reserving the finalisation call, the planned number of action turns together with that
  call never exceeds the run's remaining model calls nor, if the task has a budget of at least one
  call, the task's budget; and the capacity is never negative.
\<close>

theorem action_call_capacity_bounds:
  fixes max_actions remaining :: int and task :: "int option"
  defines "c \<equiv> action_call_capacity max_actions remaining task"
  shows "0 \<le> c \<and> (0 < c \<longrightarrow> c + FINALIZATION_MODEL_CALLS \<le> remaining \<and> c \<le> max_actions) \<and>
    (\<forall>t. 0 < c \<longrightarrow> task = Some t \<longrightarrow> c + FINALIZATION_MODEL_CALLS \<le> t) \<and>
    (c = 0 \<longleftrightarrow> max_actions \<le> 0 \<or> remaining \<le> 1 \<or> (\<exists>t. task = Some t \<and> t \<le> 1))"
  by (auto simp: c_def action_call_capacity_def FINALIZATION_MODEL_CALLS_def Let_def split: option.splits)

theorem action_call_capacity_bounds_witness:
  "action_call_capacity 8 5 (Some 3) + FINALIZATION_MODEL_CALLS \<le> 5"
  using action_call_capacity_bounds [of 8 5 "Some 3"]
  by (simp add: action_call_capacity_def FINALIZATION_MODEL_CALLS_def)

text \<open>
  a combined charge is all or nothing only when it succeeds: a failing task budget behind a run
  budget with calls left leaves the run budget charged for a call that is never made.
\<close>

theorem combined_budget_charges_before_failure:
  assumes "rb_model_calls run_b < rb_max_model_calls run_b"
    and "rb_max_model_calls task_b \<le> rb_model_calls task_b"
  shows "combined_consume_model_call [run_b, task_b] =
           (Some (RepairBudgetExhausted (rb_model_message task_b)),
            [run_b\<lparr>rb_model_calls := rb_model_calls run_b + 1\<rparr>, task_b])"
  using assms by (simp add: combined_consume_model_call_def consume_model_call_def)

theorem combined_budget_charges_before_failure_witness:
  "combined_consume_model_call [new_budget 4 4 0 0 ''run'', new_budget 1 1 1 0 ''task''] =
     (Some (RepairBudgetExhausted ''task''), [new_budget 4 4 1 0 ''run'', new_budget 1 1 1 0 ''task''])"
  using combined_budget_charges_before_failure
    [of "new_budget 4 4 0 0 ''run''" "new_budget 1 1 1 0 ''task''"]
  by (simp add: new_budget_def)

text \<open>The rows counted for a run do not depend on the order the store returns them in.\<close>

lemma length_filter_sort_key: "length (filter P (sort_key f xs)) = length (filter P xs)"
  by (metis mset_filter mset_sort size_mset)

lemma counted_loaded [simp]: "counted_tool_call (loaded_event e) = counted_tool_call e"
  "counted_model_call (loaded_event e) = counted_model_call e"
  by (simp_all add: counted_tool_call_def counted_model_call_def)

lemma count_store_list:
  assumes "\<And>e. P (loaded_event e) = P e"
  shows "length (filter P (store_list run_id rows)) =
         length (filter P (filter (\<lambda>e. e_run_id e = run_id) rows))"
  by (simp add: store_list_def filter_map comp_def assms length_filter_sort_key del: filter_filter)

lemma count_store_append:
  assumes "\<And>e. P (loaded_event e) = P e" and "e_event_id e \<notin> e_event_id ` set rows"
    and "e_run_id e = run_id"
  shows "length (filter P (store_list run_id (store_append e rows))) =
         length (filter P (store_list run_id rows)) + (if P (stored_event e) then 1 else 0)"
  using assms by (simp add: count_store_list event_rows.append_fresh)

text \<open>The budget a fresh process rebuilds from the store.\<close>

lemma for_run_fresh:
  assumes "bm_budgets m run_id = None"
  shows "rb_model_calls (fst (for_run (Some r) run_id m)) = int (length (filter counted_model_call (rec_list run_id r)))"
    "rb_tool_calls (fst (for_run (Some r) run_id m)) = int (length (filter counted_tool_call (rec_list run_id r)))"
  using assms by (simp_all add: for_run_def new_budget_def Let_def)

text \<open>
  The history of a run's spending: the budget a process holds and the rows of the event store beside it.
  A repair call is charged and then recorded under a new key; calls of the post-run learning and the tool
  call of a rollback (scope \<^verbatim>\<open>cleanup\<close>) are recorded and not charged; other events, events of other runs and
  replayed emissions under a known key are recorded as they come.
\<close>

definition record_event ::
  "int \<Rightarrow> string \<Rightarrow> string \<Rightarrow> event_type \<Rightarrow> string option \<Rightarrow> string option \<Rightarrow> payload \<Rightarrow> string \<Rightarrow> run_event list \<Rightarrow> run_event list" where
  "record_event now u run_id ty a i p k rows =
     (case rec_store (snd (emit now u run_id ty a i p (Some k) (new_recorder (Some rows)))) of Some rows' \<Rightarrow> rows' | None \<Rightarrow> rows)"

inductive ledger :: "string \<Rightarrow> int \<Rightarrow> int \<Rightarrow> run_repair_budget \<Rightarrow> run_event list \<Rightarrow> bool"
  for run_id :: string and max_model max_tool :: int where
  start: "ledger run_id max_model max_tool (new_budget max_model max_tool 0 0 default_exhausted_message) []"
| model_call: "\<lbrakk>ledger run_id max_model max_tool b rows; consume_model_call b = Inr b'; k \<noteq> [];
    event_key_id run_id a i MODEL_CALL k \<notin> e_event_id ` set rows; jget p ''budget_scope'' \<noteq> JStr ''post_run''\<rbrakk>
    \<Longrightarrow> ledger run_id max_model max_tool b' (record_event now u run_id MODEL_CALL a i p k rows)"
| tool_call: "\<lbrakk>ledger run_id max_model max_tool b rows; consume_tool_call b = Inr b'; k \<noteq> [];
    event_key_id run_id a i TOOL_CALL k \<notin> e_event_id ` set rows;
    jget p ''budget_scope'' \<noteq> JStr ''post_run''; jget p ''budget_scope'' \<noteq> JStr ''cleanup''\<rbrakk>
    \<Longrightarrow> ledger run_id max_model max_tool b' (record_event now u run_id TOOL_CALL a i p k rows)"
| post_run_model_call: "\<lbrakk>ledger run_id max_model max_tool b rows; jget p ''budget_scope'' = JStr ''post_run''\<rbrakk>
    \<Longrightarrow> ledger run_id max_model max_tool b (record_event now u run_id MODEL_CALL a i p k rows)"
| uncharged_tool_call: "\<lbrakk>ledger run_id max_model max_tool b rows;
    jget p ''budget_scope'' = JStr ''post_run'' \<or> jget p ''budget_scope'' = JStr ''cleanup''\<rbrakk>
    \<Longrightarrow> ledger run_id max_model max_tool b (record_event now u run_id TOOL_CALL a i p k rows)"
| other_event: "\<lbrakk>ledger run_id max_model max_tool b rows; ty \<noteq> MODEL_CALL; ty \<noteq> TOOL_CALL\<rbrakk>
    \<Longrightarrow> ledger run_id max_model max_tool b (record_event now u run_id ty a i p k rows)"
| other_run: "\<lbrakk>ledger run_id max_model max_tool b rows; run' \<noteq> run_id\<rbrakk>
    \<Longrightarrow> ledger run_id max_model max_tool b (record_event now u run' ty a i p k rows)"
| replay: "\<lbrakk>ledger run_id max_model max_tool b rows; k \<noteq> []; event_key_id run_id a i ty k \<in> e_event_id ` set rows\<rbrakk>
    \<Longrightarrow> ledger run_id max_model max_tool b (record_event now u run_id ty a i p k rows)"

definition spent_calls :: "(run_event \<Rightarrow> bool) \<Rightarrow> string \<Rightarrow> run_event list \<Rightarrow> int" where
  "spent_calls P run_id rows = int (length (filter P (store_list run_id rows)))"

lemma record_event_eq: "record_event now u run_id ty a i p k rows =
    store_append (fst (emit now u run_id ty a i p (Some k) (new_recorder (Some rows)))) rows"
  by (simp add: record_event_def emit_store new_recorder_def)

text \<open>An event that is not counted, or is recorded already, leaves the count.\<close>

lemma spent_append:
  assumes "\<And>e. P (loaded_event e) = P e" and "\<not> P (stored_event e) \<or> e_run_id e \<noteq> run_id \<or> e_event_id e \<in> e_event_id ` set rows"
  shows "spent_calls P run_id (store_append e rows) = spent_calls P run_id rows"
  using assms
  by (cases "e_event_id e \<in> e_event_id ` set rows")
    (auto simp: spent_calls_def count_store_list event_rows.append_fresh event_rows.append_known)

lemma counted_emit:
  "counted_model_call (fst (emit now u run_id ty a i p k r)) \<longleftrightarrow> ty = MODEL_CALL \<and> jget p ''budget_scope'' \<noteq> JStr ''post_run''"
  "counted_tool_call (fst (emit now u run_id ty a i p k r)) \<longleftrightarrow>
     ty = TOOL_CALL \<and> jget p ''budget_scope'' \<noteq> JStr ''post_run'' \<and> jget p ''budget_scope'' \<noteq> JStr ''cleanup''"
  by (auto simp: counted_tool_call_def counted_model_call_def emit_def Let_def jget_update split: option.splits)

lemma spent_record:
  assumes "\<not> P (fst (emit now u run' ty a i p (Some k) (new_recorder (Some rows)))) \<or> run' \<noteq> run_id \<or>
      k \<noteq> [] \<and> event_key_id run' a i ty k \<in> e_event_id ` set rows"
    and "\<And>e. P (loaded_event e) = P e"
  shows "spent_calls P run_id (record_event now u run' ty a i p k rows) = spent_calls P run_id rows"
  unfolding record_event_eq using assms by (intro spent_append) (auto simp: stored_emit fst_emit_run fst_emit_id)

lemma spent_fresh:
  assumes "P (fst (emit now u run_id ty a i p (Some k) (new_recorder (Some rows))))"
    and "k \<noteq> []" and "event_key_id run_id a i ty k \<notin> e_event_id ` set rows" and "\<And>e. P (loaded_event e) = P e"
  shows "spent_calls P run_id (record_event now u run_id ty a i p k rows) = spent_calls P run_id rows + 1"
  unfolding record_event_eq spent_calls_def using assms
  by (subst count_store_append) (auto simp: stored_emit fst_emit_run fst_emit_id)

lemma ledger_counts:
  "ledger run_id max_model max_tool b rows \<Longrightarrow>
     b = new_budget max_model max_tool (spent_calls counted_model_call run_id rows) (spent_calls counted_tool_call run_id rows)
           default_exhausted_message"
proof (induction rule: ledger.induct)
  case start
  show ?case by (simp add: spent_calls_def store_list_def)
next
  case (model_call b rows b' k a i p now u)
  have "spent_calls counted_model_call run_id (record_event now u run_id MODEL_CALL a i p k rows) =
      spent_calls counted_model_call run_id rows + 1"
    using model_call by (intro spent_fresh) (simp_all add: counted_emit)
  moreover have "spent_calls counted_tool_call run_id (record_event now u run_id MODEL_CALL a i p k rows) =
      spent_calls counted_tool_call run_id rows"
    by (intro spent_record) (simp_all add: counted_emit)
  ultimately show ?case
    using model_call.IH model_call.hyps(2) by (auto simp: consume_model_call_def new_budget_def Let_def split: if_splits)
next
  case (tool_call b rows b' k a i p now u)
  have "spent_calls counted_tool_call run_id (record_event now u run_id TOOL_CALL a i p k rows) =
      spent_calls counted_tool_call run_id rows + 1"
    using tool_call by (intro spent_fresh) (simp_all add: counted_emit)
  moreover have "spent_calls counted_model_call run_id (record_event now u run_id TOOL_CALL a i p k rows) =
      spent_calls counted_model_call run_id rows"
    by (intro spent_record) (simp_all add: counted_emit)
  ultimately show ?case
    using tool_call.IH tool_call.hyps(2) by (auto simp: consume_tool_call_def new_budget_def Let_def split: if_splits)
qed (subst spent_record spent_record; auto simp: counted_emit)+

text \<open>
  C16: spending survives a restart. After any history of a run that began with an empty store and the full
  budget (repair calls charged and recorded, calls of the post-run learning and of rollbacks recorded without
  being charged, other events, other runs and replays in between), a new process over the same event store
  rebuilds exactly the budget of the process that was lost: both counters, both limits and the messages.
\<close>

theorem restart_keeps_spent_budget:
  assumes "ledger run_id (bm_max_model_calls m) (bm_max_tool_calls m) b rows" and "bm_budgets m run_id = None"
  shows "fst (for_run (Some (new_recorder (Some rows))) run_id m) = b"
  using ledger_counts [OF assms(1)] assms(2)
  by (simp add: for_run_def spent_calls_def rec_list_def new_recorder_def Let_def)

text \<open>A model call, a rollback and a tool call.\<close>

definition demo_rows :: "run_event list" where
  "demo_rows = record_event 3 [] ''r'' TOOL_CALL None None [] ''t''
     (record_event 2 [] ''r'' TOOL_CALL None None [(''budget_scope'', JStr ''cleanup'')] ''rollback''
       (record_event 1 [] ''r'' MODEL_CALL None None [] ''m'' []))"

theorem restart_keeps_spent_budget_witness:
  "fst (for_run (Some (new_recorder (Some demo_rows))) ''r''
     \<lparr>bm_max_model_calls = 4, bm_max_tool_calls = 4, bm_budgets = Map.empty\<rparr>) = new_budget 4 4 1 1 default_exhausted_message"
proof -
  let ?b = "\<lambda>m t. new_budget 4 4 m t default_exhausted_message"
  have charged: "consume_model_call (?b 0 0) = Inr (?b 1 0)" "consume_tool_call (?b 1 0) = Inr (?b 1 1)"
    by (simp_all add: consume_model_call_def consume_tool_call_def new_budget_def Let_def)
  have fresh: "event_key_id ''r'' None None MODEL_CALL ''m'' \<notin> e_event_id ` set []"
    "event_key_id ''r'' None None TOOL_CALL ''t'' \<notin> e_event_id ` set
       (record_event 2 [] ''r'' TOOL_CALL None None [(''budget_scope'', JStr ''cleanup'')] ''rollback''
         (record_event 1 [] ''r'' MODEL_CALL None None [] ''m'' []))"
    by code_simp+
  have "ledger ''r'' 4 4 (?b 1 1) demo_rows"
    unfolding demo_rows_def
    by (rule ledger.tool_call [OF ledger.uncharged_tool_call [OF ledger.model_call [OF ledger.start charged(1) _ fresh(1)]] charged(2)
          _ fresh(2)]) (simp_all add: jget_def)
  then show ?thesis by (intro restart_keeps_spent_budget) simp_all
qed

end
