(* ===== verification/Shell.thy ===== *)
theory Shell
  imports Policy
begin

text \<open>
  Command execution: \<^verbatim>\<open>tools/shell.py\<close> and \<^verbatim>\<open>tools/git.py\<close>.

  What the operating system does is a parameter: \<open>popen\<close> is what \<open>run_grouped_subprocess\<close> observes of
  a started process, the sequence of things its loop meets (\<open>proc_event\<close>) and the return code once the
  process group has been killed and reaped; a start that fails is an exception. The loop over that
  sequence, the bounded tails and the result are modelled. Cancellation of the surrounding task and
  the container executor of the benchmark are not.
\<close>

record command_result =
  cr_argv :: "string list"
  cr_cwd :: path
  cr_exit_code :: int
  cr_stdout :: string
  cr_stderr :: string
  cr_timed_out :: bool
  cr_truncated :: bool

text \<open>
  One round of the loop: a chunk read from a pipe (\<open>False\<close> is stdout), the end of a pipe, a select
  that returned nothing, the deadline. The loop ends when both pipes are at their end and the process
  has exited; a sequence without a deadline ends there.
\<close>

datatype proc_event = Chunk bool string | Eof bool | Idle | Deadline

record drain_state =
  ds_out :: string
  ds_err :: string
  ds_truncated :: bool
  ds_timed_out :: bool

definition extend_tail :: "nat \<Rightarrow> string \<Rightarrow> string \<Rightarrow> string" where
  "extend_tail max_chars tail chunk =
     (let t = tail @ chunk in if max_chars < length t then drop (length t - max_chars) t else t)"

definition read_chunk :: "nat \<Rightarrow> bool \<Rightarrow> string \<Rightarrow> drain_state \<Rightarrow> drain_state" where
  "read_chunk max_chars is_err chunk d =
     (let tail = (if is_err then ds_err d else ds_out d);
          tail' = extend_tail max_chars tail chunk;
          d' = (if is_err then d\<lparr>ds_err := tail'\<rparr> else d\<lparr>ds_out := tail'\<rparr>)
      in d'\<lparr>ds_truncated := ds_truncated d \<or> max_chars < length tail + length chunk\<rparr>)"

fun drain :: "nat \<Rightarrow> proc_event list \<Rightarrow> drain_state \<Rightarrow> drain_state" where
  "drain max_chars [] d = d"
| "drain max_chars (Deadline # es) d = d\<lparr>ds_timed_out := True\<rparr>"
| "drain max_chars (Chunk i c # es) d = drain max_chars es (read_chunk max_chars i c d)"
| "drain max_chars (Eof i # es) d = drain max_chars es d"
| "drain max_chars (Idle # es) d = drain max_chars es d"

definition drain_init :: drain_state where
  "drain_init = \<lparr>ds_out = [], ds_err = [], ds_truncated = False, ds_timed_out = False\<rparr>"

text \<open>\<open>decode\<close> is \<open>bytes.decode(errors="replace")\<close>; the timeout is given in milliseconds.\<close>

definition run_grouped_subprocess ::
  "(string list \<Rightarrow> path \<Rightarrow> (string \<times> string) list \<Rightarrow> (proc_event list \<times> int) res) \<Rightarrow> (string \<Rightarrow> string) \<Rightarrow>
   string list \<Rightarrow> path \<Rightarrow> (string \<times> string) list \<Rightarrow> int \<Rightarrow> int \<Rightarrow> command_result res" where
  "run_grouped_subprocess popen decode argv cwd env timeout max_chars =
     (if max_chars < 1 \<or> timeout \<le> 0 then Inl (ValueError ''timeout and max_chars must be positive'')
      else rbind (popen argv cwd env) (\<lambda>(events, returncode).
        let d = drain (nat max_chars) events drain_init in
        Inr \<lparr>cr_argv = argv, cr_cwd = cwd, cr_exit_code = returncode, cr_stdout = decode (ds_out d),
             cr_stderr = decode (ds_err d), cr_timed_out = ds_timed_out d, cr_truncated = ds_truncated d\<rparr>))"

definition allowed_env_keys :: "string list" where
  "allowed_env_keys = [''PATH'', ''LANG'', ''LC_ALL'', ''TMPDIR'', ''PYTHONPATH'', ''VIRTUAL_ENV'']"

definition extra_env_keys :: "string list" where
  "extra_env_keys = [''CI'', ''PYTHONPATH'', ''PYTHONWARNINGS'']"

definition command_environment ::
  "(string \<times> string) list \<Rightarrow> (string \<times> string) list \<Rightarrow> string \<Rightarrow> (string \<times> string) list res" where
  "command_environment os_environ extra_env pycache =
     (let environment = filter (\<lambda>(k, v). k \<in> set allowed_env_keys) os_environ;
          invalid = filter (\<lambda>(k, v). k \<notin> set extra_env_keys) extra_env
      in if invalid \<noteq> []
         then Inl (ValueError (''environment keys are not allowlisted: ['' @
                join '', '' (map py_repr (sorted_set (map fst invalid))) @ '']''))
         else Inr (AList.update ''PYTHONPYCACHEPREFIX'' pycache
                    (fold (\<lambda>(k, v). AList.update k v) extra_env environment)))"

record runner =
  rn_root :: path
  rn_timeout :: int
  rn_max_chars :: int

definition run_sync ::
  "(string list \<Rightarrow> path \<Rightarrow> (string \<times> string) list \<Rightarrow> (proc_event list \<times> int) res) \<Rightarrow> (string \<Rightarrow> string) \<Rightarrow>
   (string \<times> string) list \<Rightarrow> string \<Rightarrow> fs \<Rightarrow> runner \<Rightarrow> string list \<Rightarrow> string \<Rightarrow> bool \<Rightarrow> (string \<times> string) list \<Rightarrow>
   command_result res" where
  "run_sync popen decode os_environ pycache fs rn argv cwd net extra_env =
     rbind (validate_command argv net) (\<lambda>_.
     rbind (boundary_resolve fs (rn_root rn) cwd True) (\<lambda>resolved_cwd.
     rbind (command_environment os_environ extra_env pycache) (\<lambda>env.
       run_grouped_subprocess popen decode argv resolved_cwd env (rn_timeout rn) (rn_max_chars rn))))"

section \<open>Git helpers\<close>

definition git_status_argv :: "string list" where
  "git_status_argv = [''git'', ''status'', ''--short'', ''--branch'']"

definition git_log_argv :: "int \<Rightarrow> string list" where
  "git_log_argv limit =
     [''git'', ''log'', ''-'' @ show_int (min (max limit 1) 100), ''--oneline'', ''--decorate'']"

definition git_show_argv :: "string \<Rightarrow> string list res" where
  "git_show_argv revision =
     (if starts_with ''-'' revision \<or> list_ex is_space revision then Inl (ValueError ''invalid revision'')
      else if CHR '':'' \<in> set revision then Inr [''git'', ''show'', revision]
      else Inr [''git'', ''show'', ''--stat'', ''--oneline'', revision])"

definition git_diff_argv :: "string list" where
  "git_diff_argv = [''git'', ''diff'', ''--no-ext-diff'', ''--'']"

section \<open>Bounded output\<close>

lemma extend_tail_last:
  "extend_tail n (drop (length o' - n) o') chunk = drop (length (o' @ chunk) - n) (o' @ chunk)"
proof (cases "length o' \<le> n")
  case True
  then show ?thesis by (auto simp: extend_tail_def Let_def)
next
  case False
  then have "drop (length o' - n) o' @ chunk = drop (length o' - n) (o' @ chunk)" by simp
  then show ?thesis using False by (auto simp: extend_tail_def Let_def add.commute simp del: drop_append)
qed

text \<open>What a pipe wrote before the deadline.\<close>

fun written_to :: "bool \<Rightarrow> proc_event list \<Rightarrow> string" where
  "written_to i [] = []"
| "written_to i (Deadline # es) = []"
| "written_to i (Chunk j c # es) = (if i = j then c else []) @ written_to i es"
| "written_to i (Eof j # es) = written_to i es"
| "written_to i (Idle # es) = written_to i es"

definition last_chars :: "nat \<Rightarrow> string \<Rightarrow> string" where
  "last_chars n s = drop (length s - n) s"

lemma read_chunk_last:
  assumes "ds_out d = last_chars n a" and "ds_err d = last_chars n b"
    and "ds_truncated d \<longleftrightarrow> n < length a \<or> n < length b"
  shows "ds_out (read_chunk n i c d) = last_chars n (a @ (if i then [] else c))"
    and "ds_err (read_chunk n i c d) = last_chars n (b @ (if i then c else []))"
    and "ds_timed_out (read_chunk n i c d) = ds_timed_out d"
    and "ds_truncated (read_chunk n i c d) \<longleftrightarrow>
           n < length (a @ (if i then [] else c)) \<or> n < length (b @ (if i then c else []))"
  using assms extend_tail_last [of n a c] extend_tail_last [of n b c]
  by (auto simp: read_chunk_def Let_def last_chars_def)

lemma drain_last:
  assumes "ds_out d = last_chars n a" and "ds_err d = last_chars n b"
    and "ds_truncated d \<longleftrightarrow> n < length a \<or> n < length b"
  shows "ds_out (drain n es d) = last_chars n (a @ written_to False es) \<and>
         ds_err (drain n es d) = last_chars n (b @ written_to True es) \<and>
         (ds_truncated (drain n es d) \<longleftrightarrow>
            n < length (a @ written_to False es) \<or> n < length (b @ written_to True es)) \<and>
         (ds_timed_out (drain n es d) \<longleftrightarrow> ds_timed_out d \<or> Deadline \<in> set es)"
  using assms
proof (induction n es d arbitrary: a b rule: drain.induct)
  case (3 n i c es d)
  note r = read_chunk_last [OF "3.prems", of i c]
  show ?case using "3.IH" [OF r(1,2,4)] r(3) by (auto split: if_splits)
qed auto

text \<open>
  C11: A command that is run is one the allow-list accepts, in an existing directory inside the
  workspace and with an environment of allow-listed keys only; its output is the last
  \<open>max_chars\<close> bytes of what each pipe wrote before the deadline, reported as truncated exactly when
  something was dropped and as timed out exactly when the deadline was met.
\<close>

theorem run_sync_contract:
  assumes "run_sync popen decode os_environ pycache fs rn argv cwd net extra_env = Inr r"
  shows "\<exists>d env events. validate_command argv net = Inr () \<and>
     boundary_resolve fs (rn_root rn) cwd True = Inr d \<and> path_exists fs d \<and>
     fst ` set env \<subseteq> {''PYTHONPYCACHEPREFIX''} \<union> set allowed_env_keys \<union> set extra_env_keys \<and>
     popen argv d env = Inr (events, cr_exit_code r) \<and>
     cr_stdout r = decode (last_chars (nat (rn_max_chars rn)) (written_to False events)) \<and>
     cr_stderr r = decode (last_chars (nat (rn_max_chars rn)) (written_to True events)) \<and>
     (cr_truncated r \<longleftrightarrow> nat (rn_max_chars rn) < length (written_to False events) \<or>
                         nat (rn_max_chars rn) < length (written_to True events)) \<and>
     (cr_timed_out r \<longleftrightarrow> Deadline \<in> set events)"
proof -
  from assms obtain d env events code where v: "validate_command argv net = Inr ()"
    and d: "boundary_resolve fs (rn_root rn) cwd True = Inr d"
    and env: "command_environment os_environ extra_env pycache = Inr env"
    and p: "popen argv d env = Inr (events, code)"
    and r: "r = (let s = drain (nat (rn_max_chars rn)) events drain_init in
        \<lparr>cr_argv = argv, cr_cwd = d, cr_exit_code = code, cr_stdout = decode (ds_out s),
         cr_stderr = decode (ds_err s), cr_timed_out = ds_timed_out s, cr_truncated = ds_truncated s\<rparr>)"
    by (auto simp: run_sync_def run_grouped_subprocess_def rbind_Inr_iff Let_def split: if_splits)
  have "path_exists fs d" using d by (auto simp: boundary_resolve_def rbind_Inr_iff split: if_splits)
  moreover have "fst ` set (fold (\<lambda>(k, v). AList.update k v) ex e) = fst ` set e \<union> fst ` set ex"
    for ex e :: "(string \<times> string) list"
    by (induction ex arbitrary: e) (simp_all add: case_prod_beta dom_update)
  then have "fst ` set env \<subseteq> {''PYTHONPYCACHEPREFIX''} \<union> set allowed_env_keys \<union> set extra_env_keys"
  proof -
    have "env = AList.update ''PYTHONPYCACHEPREFIX'' pycache (fold (\<lambda>(k, v). AList.update k v) extra_env
        (filter (\<lambda>(k, v). k \<in> set allowed_env_keys) os_environ))" "fst ` set extra_env \<subseteq> set extra_env_keys"
      using env by (auto simp: command_environment_def Let_def filter_empty_conv split: if_splits)
    then show ?thesis
      using \<open>\<And>ex e. fst ` set (fold (\<lambda>(k, v). AList.update k v) ex e) = fst ` set e \<union> fst ` set ex\<close>
      by (simp only: dom_update) auto
  qed
  ultimately show ?thesis
    using v d p drain_last [of drain_init "nat (rn_max_chars rn)" "[]" "[]" events]
    by (auto simp: r Let_def drain_init_def last_chars_def)
qed

theorem run_sync_contract_witness:
  "\<exists>d env events. validate_command [''pytest'', ''-q''] False = Inr () \<and>
     boundary_resolve [[''w''] \<mapsto> Dir] [''w''] ''.'' True = Inr d \<and> path_exists [[''w''] \<mapsto> Dir] d \<and>
     fst ` set (env :: (string \<times> string) list) \<subseteq>
       {''PYTHONPYCACHEPREFIX''} \<union> set allowed_env_keys \<union> set extra_env_keys \<and>
     (\<lambda>argv cwd env. Inr ([Chunk False ''ab'', Chunk False ''cd'', Deadline], 1)) [''pytest'', ''-q''] d env =
       (Inr (events, 1) :: (proc_event list \<times> int) res) \<and>
     ''bcd'' = id (last_chars (nat 3) (written_to False events)) \<and>
     [] = id (last_chars (nat 3) (written_to True events)) \<and>
     (True \<longleftrightarrow> nat 3 < length (written_to False events) \<or> nat 3 < length (written_to True events)) \<and>
     (True \<longleftrightarrow> Deadline \<in> set events)"
proof -
  let ?popen = "\<lambda>argv cwd env. Inr ([Chunk False ''ab'', Chunk False ''cd'', Deadline], 1)"
  let ?r = "\<lparr>cr_argv = [''pytest'', ''-q''], cr_cwd = [''w''], cr_exit_code = 1, cr_stdout = ''bcd'', cr_stderr = [],
        cr_timed_out = True, cr_truncated = True\<rparr>"
  have "run_sync ?popen id [(''HOME'', ''/h''), (''PATH'', ''/bin'')] ''/tmp/pc'' [[''w''] \<mapsto> Dir]
      \<lparr>rn_root = [''w''], rn_timeout = 1000, rn_max_chars = 3\<rparr> [''pytest'', ''-q''] ''.'' False [(''CI'', ''1'')] =
      Inr ?r" by code_simp
  from run_sync_contract [OF this] show ?thesis by (simp add: last_chars_def)
qed

end
