(* ===== verification/Verification.thy ===== *)
theory Verification
  imports Budget Shell
begin

text \<open>
  The verification service: \<^verbatim>\<open>verification/service.py\<close>. The plan of checks, the classification of
  results and the loop that runs the plan.

  The service acts on a world \<open>'s\<close> through the operations of \<open>verify_env\<close>: the files it sees, the
  making of the disposable copy (\<open>isolated_workspace\<close>), \<open>CommandRunner.run\<close> and the two callbacks. Each
  returns the new world with the result or the exception it raised.
\<close>

section \<open>Plan\<close>

record planned_command =
  pc_command :: "string list"
  pc_source :: command_source
  pc_cwd :: string

fun plan_from ::
  "command_source \<Rightarrow> raw_command list \<Rightarrow> planned_command list \<Rightarrow> (string list \<times> string) set \<Rightarrow>
   (planned_command list \<times> (string list \<times> string) set) res" where
  "plan_from src [] planned seen = Inr (planned, seen)"
| "plan_from src (c # cs) planned seen =
     rbind (parse_verification_command c) (\<lambda>spec.
       let key = (vs_argv spec, vs_cwd spec) in
       if key \<in> seen then plan_from src cs planned seen
       else plan_from src cs
              (planned @ [\<lparr>pc_command = vs_argv spec, pc_source = src, pc_cwd = vs_cwd spec\<rparr>])
              (insert key seen))"

definition build_verification_plan :: "raw_command list \<Rightarrow> raw_command list \<Rightarrow> planned_command list res" where
  "build_verification_plan mandatory supplementary =
     rbind (plan_from Mandatory mandatory [] {}) (\<lambda>(planned, seen).
     rbind (plan_from Supplementary supplementary planned seen) (\<lambda>(planned', seen'). Inr planned'))"

section \<open>Evaluation\<close>

definition ENVIRONMENT_MARKERS :: "string list" where
  "ENVIRONMENT_MARKERS = [''ERROR collecting'', ''ModuleNotFoundError'', ''ImportError'', ''InvalidVersion'',
     ''fixture not found'', ''recursive fixture'', ''INTERNALERROR'', ''no tests ran'']"

definition command_output :: "verification_command_result \<Rightarrow> string" where
  "command_output r = vc_stdout r @ newline @ vc_stderr r"

definition environment_failure_reason :: "verification_command_result \<Rightarrow> string option" where
  "environment_failure_reason r =
     (if \<not> vc_executed r then None
      else if vc_timed_out r then Some ''timeout''
      else find (\<lambda>marker. contains marker (command_output r)) ENVIRONMENT_MARKERS)"

definition check_failed :: "verification_command_result \<Rightarrow> bool" where
  "check_failed r \<longleftrightarrow> vc_exit_code r \<noteq> 0 \<or> vc_timed_out r"

definition evaluate_verification ::
  "verification_command_result list \<Rightarrow> nat \<Rightarrow> bool \<Rightarrow> string option \<Rightarrow> incomplete_cause option \<Rightarrow> string option \<Rightarrow>
   verification_result res" where
  "evaluate_verification commands expected_count has_harness_oracle incomplete_reason incomplete_cause
      baseline_environment_reason =
     (let executed = filter vc_executed commands;
          failed = filter check_failed executed;
          base = \<lparr>vr_passed = False, vr_status = VFailed, vr_level = Targeted, vr_commands = commands,
                  vr_expected_count = expected_count, vr_executed_count = length executed,
                  vr_incomplete_reason = None, vr_incomplete_cause = None, vr_oracle_source = OracleHarness\<rparr>
      in if \<not> has_harness_oracle then
           mk_verification_result (base\<lparr>vr_status := VUnavailable,
             vr_incomplete_reason := Some (or_else incomplete_reason
               ''no reliable original verification; agent checks cannot substitute''),
             vr_oracle_source := OracleNone\<rparr>)
         else if failed \<noteq> [] then
           (case find (\<lambda>r. truthy r) (map environment_failure_reason failed) of
              Some (Some env_reason) \<Rightarrow>
                (let marked_baseline = list_ex (\<lambda>r. contains ''BASELINE_ENVIRONMENT_ERROR='' (command_output r)) failed;
                     same_as_baseline = (marked_baseline \<or> baseline_environment_reason = Some env_reason)
                 in mk_verification_result (base\<lparr>vr_status := (if same_as_baseline then VInconclusive else VInfraError),
                      vr_incomplete_reason := Some env_reason\<rparr>))
            | _ \<Rightarrow> mk_verification_result base)
         else if truthy incomplete_reason \<or> length executed < expected_count then
           mk_verification_result (base\<lparr>vr_status := VIncomplete,
             vr_incomplete_reason := Some (or_else incomplete_reason
               (''executed '' @ show_nat (length executed) @ '' of '' @ show_nat expected_count @ '' required checks'')),
             vr_incomplete_cause := incomplete_cause\<rparr>)
         else mk_verification_result (base\<lparr>vr_passed := True, vr_status := VPassed\<rparr>))"

section \<open>Service\<close>

record 's verify_env =
  ve_fs :: "'s \<Rightarrow> fs"
  ve_isolated_workspace :: "'s \<Rightarrow> path res \<times> 's"
  ve_run :: "path \<Rightarrow> string list \<Rightarrow> string \<Rightarrow> 's \<Rightarrow> command_result res \<times> 's"
  ve_on_start :: "nat \<Rightarrow> string list \<Rightarrow> command_source \<Rightarrow> 's \<Rightarrow> pyexc option \<times> 's"
  ve_on_done :: "nat \<Rightarrow> verification_command_result \<Rightarrow> 's \<Rightarrow> pyexc option \<times> 's"

record 's verify_state =
  vst_results :: "verification_command_result list"
  vst_incomplete_reason :: "string option"
  vst_incomplete_cause :: "incomplete_cause option"
  vst_budget :: "run_repair_budget option"
  vst_world :: 's

definition skipped :: "string \<Rightarrow> string \<Rightarrow> planned_command \<Rightarrow> verification_command_result" where
  "skipped stderr reason item =
     \<lparr>vc_command = pc_command item, vc_exit_code = - 1, vc_stdout = [], vc_stderr = stderr, vc_timed_out = False,
      vc_source = pc_source item, vc_executed = False, vc_skip_reason = Some reason, vc_cwd = pc_cwd item\<rparr>"

definition exc_text :: "pyexc \<Rightarrow> string" where
  "exc_text e = exc_name e @ '': '' @ exc_str e"

definition command_error_caught :: "pyexc \<Rightarrow> bool" where
  "command_error_caught e \<longleftrightarrow> is_os_error e \<or> is_value_error e \<or> (case e of TypeError m \<Rightarrow> True | _ \<Rightarrow> False)"

definition completed_result :: "planned_command \<Rightarrow> command_result \<Rightarrow> verification_command_result" where
  "completed_result item c =
     \<lparr>vc_command = pc_command item, vc_exit_code = cr_exit_code c, vc_stdout = cr_stdout c,
      vc_stderr = cr_stderr c, vc_timed_out = cr_timed_out c, vc_source = pc_source item, vc_executed = True,
      vc_skip_reason = None, vc_cwd = pc_cwd item\<rparr>"

text \<open>\<open>budget.consume_tool_call()\<close> where there is a budget\<close>

definition consume_optional :: "run_repair_budget option \<Rightarrow> run_repair_budget option res" where
  "consume_optional b =
     (case b of None \<Rightarrow> Inr None | Some bb \<Rightarrow> rbind (consume_tool_call bb) (\<lambda>b'. Inr (Some b')))"

fun execute ::
  "'s verify_env \<Rightarrow> path \<Rightarrow> nat \<Rightarrow> planned_command list \<Rightarrow> 's verify_state \<Rightarrow> 's verify_state \<times> pyexc option" where
  "execute env wroot n [] st = (st, None)"
| "execute env wroot n (item # rest) st =
     (case boundary_resolve (ve_fs env (vst_world st)) wroot (pc_cwd item) True of
        Inl e \<Rightarrow> (st, Some e)
      | Inr _ \<Rightarrow>
     (case consume_optional (vst_budget st) of
        Inl e \<Rightarrow> (st\<lparr>vst_incomplete_reason := Some (exc_str e), vst_incomplete_cause := Some CauseBudget,
                     vst_results := vst_results st @ map (skipped [] (exc_str e)) (item # rest)\<rparr>, None)
      | Inr b' \<Rightarrow>
     (let st1 = st\<lparr>vst_budget := b'\<rparr> in
      case ve_on_start env n (pc_command item) (pc_source item) (vst_world st1) of
        (Some e, w) \<Rightarrow> (st1\<lparr>vst_world := w\<rparr>, Some e)
      | (None, w) \<Rightarrow>
     (case ve_run env wroot (pc_command item) (pc_cwd item) w of
        (Inl e, w1) \<Rightarrow>
          (if command_error_caught e then
             (let reason = exc_text e; result = skipped reason reason item;
                  st2 = st1\<lparr>vst_incomplete_reason := Some reason, vst_incomplete_cause := Some CauseExecution,
                            vst_results := vst_results st1 @ [result]\<rparr>
              in case ve_on_done env n result w1 of
                   (Some e', w2) \<Rightarrow> (st2\<lparr>vst_world := w2\<rparr>, Some e')
                 | (None, w2) \<Rightarrow>
                     (st2\<lparr>vst_world := w2, vst_results := vst_results st2 @ map (skipped [] reason) rest\<rparr>, None))
           else (st1\<lparr>vst_world := w1\<rparr>, Some e))
      | (Inr completed, w1) \<Rightarrow>
          (let result = completed_result item completed;
               st2 = st1\<lparr>vst_results := vst_results st1 @ [result]\<rparr>
           in case ve_on_done env n result w1 of
                (Some e', w2) \<Rightarrow> (st2\<lparr>vst_world := w2\<rparr>, Some e')
              | (None, w2) \<Rightarrow>
                  if check_failed result
                  then (st2\<lparr>vst_world := w2,
                            vst_results := vst_results st2 @ map (skipped [] ''earlier check failed'') rest\<rparr>, None)
                  else execute env wroot (Suc n) rest (st2\<lparr>vst_world := w2\<rparr>))))))"

text \<open>
  \<open>run\<close>: the result (an exception only when a command of the plan does not parse), the budget and the
  world it leaves.
\<close>

definition enter_workspace :: "'s verify_env \<Rightarrow> path \<Rightarrow> bool \<Rightarrow> 's \<Rightarrow> path res \<times> 's" where
  "enter_workspace env workspace isolate w =
     (if isolate then ve_isolated_workspace env w else (Inr workspace, w))"

definition absorb_exception :: "planned_command list \<Rightarrow> 's verify_state \<times> pyexc option \<Rightarrow> 's verify_state" where
  "absorb_exception planned r =
     (case r of
        (st, None) \<Rightarrow> st
      | (st, Some e) \<Rightarrow>
          st\<lparr>vst_incomplete_reason := Some (exc_text e),
             vst_incomplete_cause := (if vst_incomplete_cause st = None then Some CauseExecution
                                      else vst_incomplete_cause st),
             vst_results := (if vst_results st = [] then map (skipped (exc_text e) (exc_text e)) planned
                             else vst_results st)\<rparr>)"

definition run_planned ::
  "'s verify_env \<Rightarrow> path \<Rightarrow> planned_command list \<Rightarrow> run_repair_budget option \<Rightarrow> bool \<Rightarrow> 's \<Rightarrow>
   's verify_state \<times> pyexc option" where
  "run_planned env workspace planned budget isolate w =
     (case enter_workspace env workspace isolate w of
        (r, w') \<Rightarrow>
          (let st0 = \<lparr>vst_results = [], vst_incomplete_reason = None, vst_incomplete_cause = None,
                      vst_budget = budget, vst_world = w'\<rparr>
           in case r of Inl e \<Rightarrow> (st0, Some e) | Inr wroot \<Rightarrow> execute env wroot 0 planned st0))"

definition final_state ::
  "'s verify_env \<Rightarrow> path \<Rightarrow> planned_command list \<Rightarrow> run_repair_budget option \<Rightarrow> bool \<Rightarrow> 's \<Rightarrow> 's verify_state" where
  "final_state env workspace planned budget isolate w =
     absorb_exception planned (run_planned env workspace planned budget isolate w)"

definition verification_run ::
  "'s verify_env \<Rightarrow> path \<Rightarrow> raw_command list \<Rightarrow> raw_command list \<Rightarrow> run_repair_budget option \<Rightarrow> bool \<Rightarrow> 's \<Rightarrow>
   verification_result res \<times> run_repair_budget option \<times> 's" where
  "verification_run env workspace mandatory supplementary budget isolate w =
     (case build_verification_plan mandatory supplementary of
        Inl e \<Rightarrow> (Inl e, budget, w)
      | Inr planned \<Rightarrow>
          if \<not> list_ex (\<lambda>p. pc_source p = Mandatory) planned
          then (evaluate_verification (map (skipped [] ''no harness oracle'') planned) 0 False None None None, budget, w)
          else
            (let st = final_state env workspace planned budget isolate w
             in (evaluate_verification (vst_results st) (length planned) True (vst_incomplete_reason st)
                   (vst_incomplete_cause st) None, vst_budget st, vst_world st)))"

section \<open>The plan\<close>

definition plan_key :: "planned_command \<Rightarrow> string list \<times> string" where
  "plan_key p = (pc_command p, pc_cwd p)"

lemma plan_from_Inr:
  assumes "plan_from src cs planned seen = Inr (planned', seen')" and "seen = plan_key ` set planned"
    and "distinct (map plan_key planned)"
  shows "\<exists>new. planned' = planned @ new \<and> seen' = plan_key ` set planned' \<and> distinct (map plan_key planned') \<and>
     (\<forall>p \<in> set new. pc_source p = src) \<and>
     (\<forall>c \<in> set cs. \<exists>spec. parse_verification_command c = Inr spec \<and> (vs_argv spec, vs_cwd spec) \<in> seen') \<and>
     (planned = [] \<and> cs \<noteq> [] \<longrightarrow> new \<noteq> [])"
  using assms
proof (induction src cs planned seen rule: plan_from.induct)
  case (2 src c cs planned seen)
  then obtain spec where spec: "parse_verification_command c = Inr spec" by (auto simp: rbind_Inr_iff)
  let ?key = "(vs_argv spec, vs_cwd spec)"
  let ?p = "\<lparr>pc_command = vs_argv spec, pc_source = src, pc_cwd = vs_cwd spec\<rparr>"
  have k [simp]: "plan_key ?p = ?key" by (simp add: plan_key_def)
  show ?case
  proof (cases "?key \<in> seen")
    case True
    with "2.prems" spec have "plan_from src cs planned seen = Inr (planned', seen')" by simp
    from "2.IH"(1) [OF refl True this "2.prems"(2,3)] show ?thesis using spec True "2.prems"(2) by auto
  next
    case False
    with "2.prems" spec have "plan_from src cs (planned @ [?p]) (insert ?key seen) = Inr (planned', seen')"
      by (simp add: Let_def)
    from "2.IH"(2) [OF refl False this] obtain new where "planned' = (planned @ [?p]) @ new"
      "seen' = plan_key ` set planned'" "distinct (map plan_key planned')" "\<forall>p \<in> set new. pc_source p = src"
      "\<forall>c \<in> set cs. \<exists>spec. parse_verification_command c = Inr spec \<and> (vs_argv spec, vs_cwd spec) \<in> seen'"
      using "2.prems"(2,3) False by auto
    then show ?thesis using spec by (intro exI [of _ "?p # new"]) auto
  qed
qed auto

lemma plan_mandatory_iff:
  assumes "build_verification_plan mandatory supplementary = Inr planned"
  shows "(\<exists>p \<in> set planned. pc_source p = Mandatory) \<longleftrightarrow> mandatory \<noteq> []"
proof -
  from assms obtain ms seen seen' where m: "plan_from Mandatory mandatory [] {} = Inr (ms, seen)"
    and s: "plan_from Supplementary supplementary ms seen = Inr (planned, seen')"
    by (auto simp: build_verification_plan_def rbind_Inr_iff split: prod.splits)
  have ms: "seen = plan_key ` set ms" "distinct (map plan_key ms)" "\<forall>p \<in> set ms. pc_source p = Mandatory"
    "mandatory \<noteq> [] \<longrightarrow> ms \<noteq> []"
    using plan_from_Inr [OF m] by auto
  from plan_from_Inr [OF s ms(1,2)] obtain ss where ss: "planned = ms @ ss" "\<forall>p \<in> set ss. pc_source p = Supplementary"
    by auto
  have "mandatory = [] \<Longrightarrow> ms = []" using m by simp
  then show ?thesis using ms(3,4) ss by (cases ms) auto
qed

text \<open>
  Agent checks never replace the harness's own. The plan is the mandatory commands, then the
  supplementary ones; every mandatory command is in it as a mandatory check (once, whatever the
  agent proposed), every supplementary command is in it in one of the two roles, and no check
  occurs twice.
\<close>

theorem plan_keeps_mandatory_first:
  assumes "build_verification_plan mandatory supplementary = Inr planned"
  shows "\<exists>ms ss. planned = ms @ ss \<and> (\<forall>p \<in> set ms. pc_source p = Mandatory) \<and>
     (\<forall>p \<in> set ss. pc_source p = Supplementary) \<and> distinct (map plan_key planned) \<and>
     (\<forall>c \<in> set mandatory. \<exists>spec. parse_verification_command c = Inr spec \<and>
        (vs_argv spec, vs_cwd spec) \<in> plan_key ` set ms) \<and>
     (\<forall>c \<in> set supplementary. \<exists>spec. parse_verification_command c = Inr spec \<and>
        (vs_argv spec, vs_cwd spec) \<in> plan_key ` set planned) \<and>
     ((\<exists>p \<in> set planned. pc_source p = Mandatory) \<longleftrightarrow> mandatory \<noteq> [])"
proof -
  from assms obtain ms seen seen' where m: "plan_from Mandatory mandatory [] {} = Inr (ms, seen)"
    and s: "plan_from Supplementary supplementary ms seen = Inr (planned, seen')"
    by (auto simp: build_verification_plan_def rbind_Inr_iff split: prod.splits)
  have ms: "seen = plan_key ` set ms" "distinct (map plan_key ms)" "\<forall>p \<in> set ms. pc_source p = Mandatory"
    "\<forall>c \<in> set mandatory. \<exists>spec. parse_verification_command c = Inr spec \<and> (vs_argv spec, vs_cwd spec) \<in> seen"
    using plan_from_Inr [OF m] by auto
  from plan_from_Inr [OF s ms(1,2)] obtain ss where ss: "planned = ms @ ss" "distinct (map plan_key planned)"
    "\<forall>p \<in> set ss. pc_source p = Supplementary"
    "\<forall>c \<in> set supplementary. \<exists>spec. parse_verification_command c = Inr spec \<and>
        (vs_argv spec, vs_cwd spec) \<in> plan_key ` set planned" by auto
  then show ?thesis using ms ss plan_mandatory_iff [OF assms] by (intro exI [of _ ms] exI [of _ ss]) auto
qed

theorem plan_keeps_mandatory_first_witness:
  "\<exists>ms ss. [\<lparr>pc_command = [''pytest''], pc_source = Mandatory, pc_cwd = ''.''\<rparr>,
            \<lparr>pc_command = [''ruff'', ''check''], pc_source = Supplementary, pc_cwd = ''.''\<rparr>] = ms @ ss \<and>
     (\<forall>p \<in> set ms. pc_source p = Mandatory) \<and> (\<forall>p \<in> set ss. pc_source p = Supplementary)"
  using plan_keeps_mandatory_first
    [of "[RawList [''pytest'']]" "[RawList [''ruff'', ''check''], RawList [''pytest'']]"
      "[\<lparr>pc_command = [''pytest''], pc_source = Mandatory, pc_cwd = ''.''\<rparr>,
        \<lparr>pc_command = [''ruff'', ''check''], pc_source = Supplementary, pc_cwd = ''.''\<rparr>]"]
proof -
  have "build_verification_plan [RawList [''pytest'']] [RawList [''ruff'', ''check''], RawList [''pytest'']] =
     Inr [\<lparr>pc_command = [''pytest''], pc_source = Mandatory, pc_cwd = ''.''\<rparr>,
          \<lparr>pc_command = [''ruff'', ''check''], pc_source = Supplementary, pc_cwd = ''.''\<rparr>]" by code_simp
  from plan_keeps_mandatory_first [OF this] show ?thesis by blast
qed

section \<open>Evaluation and execution\<close>

lemma mk_result_commands:
  "mk_verification_result v = Inr r \<Longrightarrow> vr_commands r = vr_commands v \<and> vr_passed r = vr_passed v"
  using mk_verification_result_shape by blast

lemma evaluate_passed_iff:
  "evaluate_verification cs n oracle reason cause baseline = Inr r \<Longrightarrow>
   vr_commands r = cs \<and> (vr_passed r \<longleftrightarrow> oracle \<and> filter check_failed (filter vc_executed cs) = [] \<and>
     \<not> truthy reason \<and> n \<le> length (filter vc_executed cs))"
  by (auto simp: evaluate_verification_def Let_def dest!: mk_result_commands
      split: if_splits option.splits)

lemma evaluate_total: "\<exists>r. evaluate_verification cs n oracle reason cause baseline = Inr r"
  by (auto simp: evaluate_verification_def Let_def mk_verification_result_def verify_success_contract_def
      normalize_completeness_def split: option.splits)

definition result_sig :: "verification_command_result \<Rightarrow> string list \<times> string \<times> command_source" where
  "result_sig c = (vc_command c, vc_cwd c, vc_source c)"

definition plan_sig :: "planned_command \<Rightarrow> string list \<times> string \<times> command_source" where
  "plan_sig p = (pc_command p, pc_cwd p, pc_source p)"

lemma sig_simps [simp]: "result_sig (skipped a b p) = plan_sig p" "result_sig (completed_result p c) = plan_sig p"
  "result_sig \<circ> skipped a b = plan_sig"
  by (auto simp: result_sig_def plan_sig_def skipped_def completed_result_def)

lemma executed_simps [simp]: "\<not> vc_executed (skipped a b p)" "vc_executed (completed_result p c)"
  by (simp_all add: skipped_def completed_result_def)

lemma execute_sig:
  "execute env wroot n items st = (st', None) \<Longrightarrow>
   map result_sig (vst_results st') = map result_sig (vst_results st) @ map plan_sig items"
proof (induction items arbitrary: n st)
  case (Cons item rest)
  then show ?case
    by (auto simp: Let_def split: sum.splits prod.splits option.splits if_splits dest!: Cons.IH)
qed simp

text \<open>Every executed check has been paid for, and no more than one call is spent on a check.\<close>

definition paid :: "run_repair_budget \<Rightarrow> nat \<Rightarrow> run_repair_budget \<Rightarrow> nat \<Rightarrow> nat \<Rightarrow> bool" where
  "paid b k0 b' k1 k \<longleftrightarrow>
     rb_max_tool_calls b' = rb_max_tool_calls b \<and> rb_tool_calls b' \<le> rb_max_tool_calls b \<and>
     int k1 - int k0 \<le> rb_tool_calls b' - rb_tool_calls b \<and>
     rb_tool_calls b \<le> rb_tool_calls b' \<and> rb_tool_calls b' \<le> rb_tool_calls b + int k"

definition n_executed :: "'s verify_state \<Rightarrow> nat" where
  "n_executed st = length (filter vc_executed (vst_results st))"

lemma filter_executed_skipped [simp]: "filter vc_executed (map (skipped a b) ps) = []"
  by (simp add: filter_empty_conv)

lemma execute_step:
  assumes "execute env wroot n (item # rest) st = (st', ex)"
  shows "(vst_budget st' = vst_budget st \<and> n_executed st' = n_executed st) \<or>
    (\<exists>b1. consume_optional (vst_budget st) = Inr b1 \<and>
      (vst_budget st' = b1 \<and> (n_executed st' = n_executed st \<or> n_executed st' = Suc (n_executed st)) \<or>
       (\<exists>st2. vst_budget st2 = b1 \<and> n_executed st2 = Suc (n_executed st) \<and>
              execute env wroot (Suc n) rest st2 = (st', ex))))"
proof (cases "consume_optional (vst_budget st)")
  case (Inl e)
  with assms show ?thesis by (auto simp: n_executed_def split: sum.splits)
next
  case (Inr b1)
  with assms show ?thesis
    by (auto simp: n_executed_def Let_def split: sum.splits prod.splits option.splits if_splits
        intro!: exI [of _ "st\<lparr>vst_budget := b1, vst_results := vst_results st @ [_], vst_world := _\<rparr>"])
qed

lemma paid_step:
  assumes "consume_optional (Some b) = Inr b1" and "rb_tool_calls b \<le> rb_max_tool_calls b"
  shows "\<exists>c. b1 = Some c \<and> rb_tool_calls c = rb_tool_calls b + 1 \<and> rb_max_tool_calls c = rb_max_tool_calls b \<and>
     rb_tool_calls c \<le> rb_max_tool_calls c"
  using assms by (auto simp: consume_optional_def consume_tool_call_def rbind_Inr_iff split: if_splits)

lemma execute_paid:
  "execute env wroot n items st = (st', ex) \<Longrightarrow> vst_budget st = Some b \<Longrightarrow>
   rb_tool_calls b \<le> rb_max_tool_calls b \<Longrightarrow>
   \<exists>b'. vst_budget st' = Some b' \<and> paid b (n_executed st) b' (n_executed st') (length items)"
proof (induction items arbitrary: n st b)
  case (Cons item rest)
  from execute_step [OF Cons.prems(1)] show ?case
  proof (elim disjE exE conjE)
    fix b1 st2 assume c: "consume_optional (vst_budget st) = Inr b1"
      and st2: "vst_budget st2 = b1" "n_executed st2 = Suc (n_executed st)"
        "execute env wroot (Suc n) rest st2 = (st', ex)"
    obtain c where c: "b1 = Some c" "rb_tool_calls c = rb_tool_calls b + 1"
      "rb_max_tool_calls c = rb_max_tool_calls b" "rb_tool_calls c \<le> rb_max_tool_calls c"
      using paid_step [of b b1] c Cons.prems(2,3) by auto
    then show ?thesis using Cons.IH [OF st2(3), of c] st2(1,2) by (auto simp: paid_def)
  qed (use Cons.prems paid_step [of b] in \<open>force simp: paid_def\<close>)+
qed (auto simp: paid_def)

lemma verification_run_cases:
  assumes "build_verification_plan mandatory supplementary = Inr planned"
    and "\<exists>p \<in> set planned. pc_source p = Mandatory"
  shows "verification_run env ws mandatory supplementary b isol w =
    (let st = final_state env ws planned b isol w in
     (evaluate_verification (vst_results st) (length planned) True (vst_incomplete_reason st)
        (vst_incomplete_cause st) None, vst_budget st, vst_world st))"
  using assms by (simp add: verification_run_def Let_def list_ex_iff)

lemma exc_text_nonempty [simp]: "exc_text e \<noteq> []"
  by (simp add: exc_text_def)

lemma run_planned_sig:
  "run_planned env ws planned b isol w = (st, None) \<Longrightarrow> map result_sig (vst_results st) = map plan_sig planned"
  by (auto simp: run_planned_def Let_def split: prod.splits sum.splits dest!: execute_sig)

lemma final_state_sig:
  assumes "\<not> truthy (vst_incomplete_reason (final_state env ws planned b isol w))"
  shows "map result_sig (vst_results (final_state env ws planned b isol w)) = map plan_sig planned"
proof (cases "run_planned env ws planned b isol w")
  case (Pair st e)
  then show ?thesis using assms run_planned_sig by (cases e) (auto simp: final_state_def absorb_exception_def)
qed

lemma absorb_budget [simp]: "vst_budget (absorb_exception planned r) = vst_budget (fst r)"
  "n_executed (absorb_exception planned r) = n_executed (fst r)"
  by (auto simp: absorb_exception_def n_executed_def split: prod.splits option.splits)

lemma final_state_paid:
  assumes "rb_tool_calls b \<le> rb_max_tool_calls b"
  shows "\<exists>b'. vst_budget (final_state env ws planned (Some b) isol w) = Some b' \<and>
     paid b 0 b' (n_executed (final_state env ws planned (Some b) isol w)) (length planned)"
proof (cases "enter_workspace env ws isol w")
  case (Pair r w')
  let ?st = "\<lparr>vst_results = [], vst_incomplete_reason = None, vst_incomplete_cause = None,
                 vst_budget = Some b, vst_world = w'\<rparr> :: 'a verify_state"
  have 0: "n_executed ?st = 0" by (simp add: n_executed_def)
  show ?thesis
  proof (cases r)
    case (Inl e)
    then show ?thesis using Pair 0 assms by (simp add: final_state_def run_planned_def paid_def)
  next
    case (Inr wroot)
    then show ?thesis using Pair 0 execute_paid [of env wroot 0 planned ?st _ _ b] assms
      by (cases "execute env wroot 0 planned ?st") (simp add: final_state_def run_planned_def)
  qed
qed

lemma passed_result_iff:
  assumes "build_verification_plan mandatory supplementary = Inr planned"
    and "verification_run env ws mandatory supplementary b isol w = (Inr r, b', w')"
  shows "vr_passed r \<longleftrightarrow>
    mandatory \<noteq> [] \<and> map result_sig (vr_commands r) = map plan_sig planned \<and>
    (\<forall>c \<in> set (vr_commands r). vc_executed c \<and> vc_exit_code c = 0 \<and> \<not> vc_timed_out c) \<and>
    \<not> truthy (vst_incomplete_reason (final_state env ws planned b isol w))"
proof (cases "\<exists>p \<in> set planned. pc_source p = Mandatory")
  case True
  let ?st = "final_state env ws planned b isol w"
  have ev: "evaluate_verification (vst_results ?st) (length planned) True (vst_incomplete_reason ?st)
      (vst_incomplete_cause ?st) None = Inr r"
    using assms(2) by (simp add: verification_run_cases [OF assms(1) True] Let_def)
  note e = evaluate_passed_iff [OF ev]
  have m: "mandatory \<noteq> []" using plan_mandatory_iff [OF assms(1)] True by blast
  have all: "length (filter vc_executed (vr_commands r)) = length (vr_commands r) \<longleftrightarrow>
      (\<forall>c \<in> set (vr_commands r). vc_executed c)"
    by (metis filter_id_conv length_filter_less less_irrefl_nat)
  have len: "length (filter vc_executed (vr_commands r)) \<le> length (vr_commands r)" by simp
  show ?thesis
  proof (cases "truthy (vst_incomplete_reason ?st)")
    case False
    then have sig: "map result_sig (vr_commands r) = map plan_sig planned" using final_state_sig e by metis
    then have "length (vr_commands r) = length planned" by (metis length_map)
    then show ?thesis using e all len m sig False
      by (auto simp: filter_empty_conv check_failed_def)
  qed (use e in simp)
next
  case False
  then have "evaluate_verification (map (skipped [] ''no harness oracle'') planned) 0 False None None None = Inr r"
    using assms by (auto simp: verification_run_def list_ex_iff)
  moreover have "mandatory = []" using plan_mandatory_iff [OF assms(1)] False by blast
  ultimately show ?thesis using evaluate_passed_iff by fastforce
qed

text \<open>
  C7: A passed verification means what it says. If the service reports success, there was a mandatory
  check, the results are one for each check of the plan, in its order, and every one of them was
  executed, ended with exit code 0 and did not time out. Conversely a run in which all this holds and
  nothing went wrong on the way is reported as passed.
\<close>

theorem verification_passed_iff:
  assumes "build_verification_plan mandatory supplementary = Inr planned"
    and "verification_run env ws mandatory supplementary b isol w = (Inr r, b', w')"
  shows "vr_passed r \<longleftrightarrow>
    mandatory \<noteq> [] \<and> map result_sig (vr_commands r) = map plan_sig planned \<and>
    (\<forall>c \<in> set (vr_commands r). vc_executed c \<and> vc_exit_code c = 0 \<and> \<not> vc_timed_out c) \<and>
    \<not> truthy (vst_incomplete_reason (final_state env ws planned b isol w))"
  by (rule passed_result_iff [OF assms])

text \<open>
  C8: The tool budget pays for verification. Every executed check has consumed one tool call, a check
  never consumes two, the budget's limit is never exceeded; so a plan longer than the calls that are
  left cannot be reported as passed.
\<close>

theorem verification_within_budget:
  assumes "build_verification_plan mandatory supplementary = Inr planned" and "mandatory \<noteq> []"
    and "rb_tool_calls b \<le> rb_max_tool_calls b"
    and "verification_run env ws mandatory supplementary (Some b) isol w = (Inr r, b', w')"
  shows "\<exists>c. b' = Some c \<and> rb_tool_calls c \<le> rb_max_tool_calls b \<and> rb_max_tool_calls c = rb_max_tool_calls b \<and>
     int (length (filter vc_executed (vr_commands r))) \<le> rb_tool_calls c - rb_tool_calls b \<and>
     rb_tool_calls c - rb_tool_calls b \<le> int (length planned) \<and>
     (vr_passed r \<longrightarrow> int (length planned) \<le> remaining_tool_calls b)"
proof -
  have m: "\<exists>p \<in> set planned. pc_source p = Mandatory" using assms(2) plan_mandatory_iff [OF assms(1)] by blast
  let ?st = "final_state env ws planned (Some b) isol w"
  have ev: "evaluate_verification (vst_results ?st) (length planned) True (vst_incomplete_reason ?st)
      (vst_incomplete_cause ?st) None = Inr r" and b': "b' = vst_budget ?st"
    using assms(4) by (simp_all add: verification_run_cases [OF assms(1) m] Let_def)
  obtain c where c: "vst_budget ?st = Some c" "paid b 0 c (n_executed ?st) (length planned)"
    using final_state_paid [OF assms(3), of env ws planned isol w] by blast
  note e = evaluate_passed_iff [OF ev]
  have n: "n_executed ?st = length (filter vc_executed (vr_commands r))" using e by (simp add: n_executed_def)
  show ?thesis using c b' n e by (auto simp: paid_def remaining_tool_calls_def)
qed

definition demo_env :: "unit verify_env" where
  "demo_env = \<lparr>ve_fs = (\<lambda>_. [[''w''] \<mapsto> Dir]), ve_isolated_workspace = (\<lambda>w. (Inr [''w''], w)),
     ve_run = (\<lambda>root argv cwd w. (Inr \<lparr>cr_argv = argv, cr_cwd = root, cr_exit_code = 0, cr_stdout = [], cr_stderr = [],
       cr_timed_out = False, cr_truncated = False\<rparr>, w)),
     ve_on_start = (\<lambda>n argv src w. (None, w)), ve_on_done = (\<lambda>n r w. (None, w))\<rparr>"

definition demo_planned :: "planned_command list" where
  "demo_planned = [\<lparr>pc_command = [''pytest''], pc_source = Mandatory, pc_cwd = ''.''\<rparr>]"

definition demo_passed :: verification_result where
  "demo_passed = \<lparr>vr_passed = True, vr_status = VPassed, vr_level = Targeted,
     vr_commands = [completed_result (hd demo_planned) \<lparr>cr_argv = [''pytest''], cr_cwd = [''w''], cr_exit_code = 0,
       cr_stdout = [], cr_stderr = [], cr_timed_out = False, cr_truncated = False\<rparr>],
     vr_expected_count = 1, vr_executed_count = 1, vr_incomplete_reason = None, vr_incomplete_cause = None,
     vr_oracle_source = OracleHarness\<rparr>"

lemma demo_run:
  "build_verification_plan [RawList [''pytest'']] [] = Inr demo_planned"
  "verification_run demo_env [''w''] [RawList [''pytest'']] [] (Some (new_budget 5 3 0 1 [])) True () =
     (Inr demo_passed, Some ((new_budget 5 3 0 1 [])\<lparr>rb_tool_calls := 2\<rparr>), ())"
  by code_simp+

theorem verification_passed_iff_witness:
  "map result_sig (vr_commands demo_passed) = map plan_sig demo_planned"
  using verification_passed_iff [OF demo_run] by (simp add: demo_passed_def)

theorem verification_within_budget_witness:
  "\<exists>c. Some ((new_budget 5 3 0 1 [])\<lparr>rb_tool_calls := 2\<rparr>) = Some c \<and> rb_tool_calls c \<le> 3 \<and>
     int (length demo_planned) \<le> remaining_tool_calls (new_budget 5 3 0 1 [])"
  using verification_within_budget [OF demo_run(1) _ _ demo_run(2)]
  by (simp add: new_budget_def demo_passed_def)

end
