(* ===== verification/GraphState.thy ===== *)
theory GraphState
  imports Integration Verification
begin

text \<open>
  The state of the orchestration graph (\<^verbatim>\<open>graph/state.py\<close>), the world its nodes act on, what they call
  the agents with (\<^verbatim>\<open>agents/base.py\<close>), and the classification of failures of \<^verbatim>\<open>graph/outcome.py\<close>.

  A field of \<open>EvoCIState\<close> that may be absent is \<open>None\<close> (or the default every reader uses). The fields
  that no node reads or that only ever hold the empty list (\<open>pending_tasks\<close>, \<open>current_wave\<close>,
  \<open>remaining_waves\<close>, \<open>retrieved_skills\<close>, \<open>selected_skill_refs\<close>, \<open>used_skills\<close>, \<open>attempt_targets\<close>) are left out.
\<close>

section \<open>State\<close>

record evo_state =
  es_schema_version :: "int option"
  es_investigation :: bool
  es_run_id :: string
  es_task_id :: string
  es_repo :: repo_spec
  es_ci_failure :: ci_failure
  es_workspace :: path
  es_campaign_provenance :: json
  es_phase :: "string option"
  es_supervisor_batch :: int
  es_decision :: "supervisor_decision option"
  es_decision_history :: "string list"
  es_worker_task :: "worker_task option"
  es_completed_task_ids :: "string list"
  es_worker_results :: "worker_execution_result list"
  es_evidence :: "evidence_item list"
  es_budget_failures :: "string list"
  es_batch_snapshot_path :: "path option"
  es_batch_snapshot_id :: "string option"
  es_integrated_snapshot_id :: "string option"
  es_verification_snapshot_id :: "string option"
  es_worker_baseline_id :: "string option"
  es_worker_memories :: "memory_hit list"
  es_recommended_skills :: "skill_catalog_entry list"
  es_resume_artifact_ref :: "string option"
  es_previous_attempt_summary :: "string option"
  es_fixer_output :: "fixer_output option"
  es_verification :: "verification_result option"
  es_verification_history :: "verification_result list"
  es_review :: "review_result option"
  es_approved :: "bool option"
  es_attempt_baseline :: "(string \<times> raw_baseline) list"
  es_attempt_written :: "(string \<times> string option) list option"
  es_failed_candidates :: "failed_candidate_ref list"
  es_batch_conflict :: "string option"
  es_retrieved_memories :: "memory_hit list"
  es_skill_catalog :: "skill_catalog_entry list"
  es_selected_memory_ids :: "string list"
  es_used_memory_ids :: "string list"
  es_used_skill_refs :: "skill_ref list"
  es_recommended_skill_ids :: "string list"
  es_events :: "run_event list"
  es_learning_deferred :: bool
  es_status :: "run_status option"
  es_failure_reason :: "string option"
  es_failure_class :: "failure_class option"
  es_failure_classes :: "failure_class list"
  es_failure_stage :: "string option"

text \<open>
  What the nodes act on: the file system, the JSON files of the state directory, the recorder, the
  run store (if there is one), the budgets, and the number of clock readings so far.
\<close>

record world =
  w_fs :: fs
  w_files :: state_files
  w_recorder :: recorder
  w_runs :: "run_record list option"
  w_budgets :: budget_manager
  w_tick :: nat

definition on_fs :: "(fs, 'a) io \<Rightarrow> (world, 'a) io" where
  "on_fs = sfocus w_fs (\<lambda>c w. w\<lparr>w_fs := c\<rparr>)"

definition on_files :: "(state_files, 'a) io \<Rightarrow> (world, 'a) io" where
  "on_files = sfocus w_files (\<lambda>c w. w\<lparr>w_files := c\<rparr>)"

section \<open>Agents\<close>

record supervisor_context =
  sx_run_id :: string
  sx_repo :: repo_spec
  sx_failure :: ci_failure
  sx_workspace :: path
  sx_invocation_id :: string
  sx_memories :: "memory_hit list"
  sx_skills :: "skill_catalog_entry list"
  sx_previous_decisions :: "string list"
  sx_worker_result_summaries :: "payload list"
  sx_last_verification :: "verification_result option"
  sx_verification_snapshot_id :: "string option"
  sx_remaining_batches :: int
  sx_remaining_model_calls :: int
  sx_remaining_tool_calls :: int
  sx_failed_candidates :: "failed_candidate_ref list"
  sx_usage_complete :: bool

record worker_context =
  wx_run_id :: string
  wx_repo :: repo_spec
  wx_failure :: ci_failure
  wx_workspace :: path
  wx_invocation_id :: string
  wx_task :: worker_task
  wx_memories :: "memory_hit list"
  wx_recommended_skills :: "skill_catalog_entry list"
  wx_baseline_snapshot_id :: string
  wx_previous_attempt_summary :: "string option"
  wx_resume_artifact_ref :: "string option"

record worker_run =
  run_result :: worker_execution_result
  run_edits :: "file_edit list"
  run_commands_run :: "string list"
  run_verification_plan :: "verification_command_spec list"
  run_risk :: string

record memory_retrieval =
  mr_hits :: "memory_hit list"
  mr_query :: string
  mr_retrieved_ids :: "string list"
  mr_selected_ids :: "string list"
  mr_context_chars :: nat

text \<open>
  The runtime: the configuration and the parts a node calls. Agents, retrievers, the human's answer to
  an interrupt, the command runner and the official verifier of a benchmark are functions of the world;
  \<open>rt_learn\<close> is the learning part of \<open>persist_run_outcome\<close> (what follows the terminal event and the
  status update). \<open>rt_clock n\<close> is the \<open>n\<close>-th reading of the clock.
\<close>

record runtime =
  rt_max_supervisor_batches :: int
  rt_patch_hash_strict :: bool
  rt_state_dir :: "string list"
  rt_git :: git_cmd
  rt_sha :: "string \<Rightarrow> string"
  rt_listing :: "fs \<Rightarrow> path \<Rightarrow> path list"
  rt_decode :: "string \<Rightarrow> string"
  rt_clock :: "nat \<Rightarrow> int"
  rt_supervisor :: "supervisor_context \<Rightarrow> (world, supervisor_decision) io"
  rt_worker :: "worker_context \<Rightarrow> worker_capabilities \<Rightarrow> (world, worker_run) io"
  rt_interrupt :: "payload \<Rightarrow> (world, bool) io"
  rt_memory_retriever :: "(repo_spec \<Rightarrow> ci_failure \<Rightarrow> (world, memory_retrieval) io) option"
  rt_capability_retriever :: "(repo_spec \<Rightarrow> ci_failure \<Rightarrow> string \<Rightarrow> (world, skill_catalog) io) option"
  rt_isolated_workspace :: "path \<Rightarrow> (world, path) io"
  rt_run_command :: "path \<Rightarrow> string list \<Rightarrow> string \<Rightarrow> (world, command_result) io"
  rt_official :: "(json \<times> (path \<Rightarrow> (world, verification_result) io)) option"
  rt_defer_success_learning :: bool
  rt_learn :: "bool \<Rightarrow> string option \<Rightarrow> failure_class option \<Rightarrow> evo_state \<Rightarrow> (world, run_event list) io"

section \<open>JSON forms\<close>

definition json_skill_ref :: "skill_ref \<Rightarrow> json" where
  "json_skill_ref r = JObj [(''skill_id'', JStr (sr_skill_id r))]"

definition json_catalog_entry :: "skill_catalog_entry \<Rightarrow> json" where
  "json_catalog_entry e = JObj [(''skill_id'', JStr (sce_skill_id e)), (''name'', JStr (sce_name e)),
     (''description'', JStr (sce_description e))]"

definition json_task_budget :: "task_budget option \<Rightarrow> json" where
  "json_task_budget b = (case b of None \<Rightarrow> JNull
     | Some b \<Rightarrow> JObj [(''max_model_calls'', JInt (tb_max_model_calls b)), (''max_tool_calls'', JInt (tb_max_tool_calls b))])"

definition json_task :: "worker_task \<Rightarrow> json" where
  "json_task t = JObj
     [(''task_id'', JStr (wt_task_id t)), (''kind'', JStr (worker_kind_str (wt_kind t))),
      (''objective'', JStr (wt_objective t)), (''acceptance_criteria'', jstrs (wt_acceptance_criteria t)),
      (''evidence_refs'', jstrs (wt_evidence_refs t)), (''hypothesis'', jopt (wt_hypothesis t)),
      (''read_scope'', jstrs (wt_read_scope t)), (''write_scope'', jstrs (wt_write_scope t)),
      (''depends_on'', jstrs (wt_depends_on t)), (''fact_refs'', jstrs (wt_fact_refs t)),
      (''recommended_skill_refs'', JList (map json_skill_ref (wt_recommended_skill_refs t))),
      (''budget'', json_task_budget (wt_budget t)), (''resume_candidate_id'', jopt (wt_resume_candidate_id t))]"

fun evidence_kind_str :: "evidence_kind \<Rightarrow> string" where
  "evidence_kind_str CiLog = ''ci_log''"
| "evidence_kind_str SourceCode = ''source_code''"
| "evidence_kind_str GitHistory = ''git_history''"
| "evidence_kind_str GitDiff = ''git_diff''"
| "evidence_kind_str EWorkflow = ''workflow''"
| "evidence_kind_str EDependency = ''dependency''"
| "evidence_kind_str TestResult = ''test_result''"
| "evidence_kind_str ERuntime = ''runtime''"

definition json_evidence :: "evidence_item \<Rightarrow> json" where
  "json_evidence e = JObj
     [(''id'', JStr (ev_id e)), (''source_agent'', JStr (ev_source_agent e)),
      (''kind'', JStr (evidence_kind_str (ev_kind e))), (''claim'', JStr (ev_claim e)),
      (''file_path'', jopt (ev_file_path e)), (''line_start'', jint_opt (ev_line_start e)),
      (''line_end'', jint_opt (ev_line_end e)), (''command'', jopt (ev_command e)),
      (''excerpt'', jopt (ev_excerpt e)), (''confidence'', JFloat (ev_confidence e)),
      (''artifact_ref'', jopt (ev_artifact_ref e))]"

definition json_command_result :: "verification_command_result \<Rightarrow> json" where
  "json_command_result c = JObj
     [(''command'', jstrs (vc_command c)), (''exit_code'', JInt (vc_exit_code c)), (''stdout'', JStr (vc_stdout c)),
      (''stderr'', JStr (vc_stderr c)), (''timed_out'', JBool (vc_timed_out c)),
      (''source'', JStr (command_source_str (vc_source c))), (''executed'', JBool (vc_executed c)),
      (''skip_reason'', jopt (vc_skip_reason c)), (''cwd'', JStr (vc_cwd c))]"

definition json_verification :: "verification_result \<Rightarrow> json" where
  "json_verification v = JObj
     [(''passed'', JBool (vr_passed v)), (''status'', JStr (verification_status_str (vr_status v))),
      (''level'', JStr (case vr_level v of Targeted \<Rightarrow> ''targeted'' | Repository \<Rightarrow> ''repository'' | FullCi \<Rightarrow> ''full_ci'')),
      (''commands'', JList (map json_command_result (vr_commands v))),
      (''expected_count'', JInt (int (vr_expected_count v))), (''executed_count'', JInt (int (vr_executed_count v))),
      (''incomplete_reason'', jopt (vr_incomplete_reason v)),
      (''incomplete_cause'', (case vr_incomplete_cause v of None \<Rightarrow> JNull | Some CauseBudget \<Rightarrow> JStr ''budget''
         | Some CauseExecution \<Rightarrow> JStr ''execution'')),
      (''oracle_source'', JStr (case vr_oracle_source v of OracleHarness \<Rightarrow> ''harness'' | OracleNone \<Rightarrow> ''none''))]"

definition json_repo :: "repo_spec \<Rightarrow> json" where
  "json_repo r = JObj [(''owner'', JStr (owner r)), (''name'', JStr (repo_name r)), (''base_commit'', JStr (base_commit r))]"

definition json_failure :: "ci_failure \<Rightarrow> json" where
  "json_failure f = JObj [(''summary'', JStr (cf_summary f)), (''log_excerpt'', JStr (cf_log_excerpt f)),
     (''failed_commands'', JList (map jstrs (failed_commands f))), (''workflow_yaml'', JStr (workflow_yaml f)),
     (''workflow_path'', jopt (workflow_path f)), (''task_family'', JStr (task_family f))]"

section \<open>Events, budgets and run status of a run\<close>

definition emit_event ::
  "runtime \<Rightarrow> evo_state \<Rightarrow> event_type \<Rightarrow> string option \<Rightarrow> string option \<Rightarrow> string \<Rightarrow> payload \<Rightarrow> (world, run_event) io" where
  "emit_event rt st ty agent_id invocation_id discriminator payload =
     (\<lambda>w. case emit (rt_clock rt (w_tick w)) [] (es_run_id st) ty agent_id invocation_id payload
                  (Some (or_else (Some discriminator) ''0'')) (w_recorder w) of
            (e, r) \<Rightarrow> (w\<lparr>w_recorder := r, w_tick := Suc (w_tick w)\<rparr>, Inr e))"

definition run_budget :: "evo_state \<Rightarrow> (world, run_repair_budget) io" where
  "run_budget st =
     (\<lambda>w. case for_run (Some (w_recorder w)) (es_run_id st) (w_budgets w) of
            (b, m) \<Rightarrow> (w\<lparr>w_budgets := m\<rparr>, Inr b))"

definition store_budget :: "evo_state \<Rightarrow> run_repair_budget \<Rightarrow> (world, unit) io" where
  "store_budget st b =
     smodify (\<lambda>w. w\<lparr>w_budgets := (w_budgets w)\<lparr>bm_budgets := (bm_budgets (w_budgets w))(es_run_id st \<mapsto> b)\<rparr>\<rparr>)"

definition consume_tool :: "evo_state \<Rightarrow> (world, unit) io" where
  "consume_tool st =
     sbind (run_budget st) (\<lambda>b. sbind (slift (consume_tool_call b)) (\<lambda>b'. store_budget st b'))"

definition update_run_status :: "runtime \<Rightarrow> evo_state \<Rightarrow> run_status \<Rightarrow> (world, unit) io" where
  "update_run_status rt st status =
     smodify (\<lambda>w. w\<lparr>w_runs := map_option (run_update_status (rt_clock rt (w_tick w)) (es_run_id st) status) (w_runs w),
                    w_tick := Suc (w_tick w)\<rparr>)"

definition snapshot_id :: "runtime \<Rightarrow> path \<Rightarrow> (world, string) io" where
  "snapshot_id rt p = on_fs (workspace_snapshot_id (rt_git rt) (rt_sha rt) p)"

section \<open>Failure classification\<close>

definition classified_failure :: "pyexc \<Rightarrow> string \<Rightarrow> int \<Rightarrow> evo_state \<Rightarrow> (world, evo_state) io" where
  "classified_failure e phase batch st =
     (let failed = (\<lambda>fc. sret (st\<lparr>es_phase := Some phase, es_status := Some Failed, es_failure_class := Some fc,
                      es_failure_reason := Some (exc_str e), es_supervisor_batch := batch,
                      es_failure_stage := Some phase\<rparr>))
      in case e of RepairBudgetExhausted m \<Rightarrow> failed FCBudget
         | ModelGatewayError m t \<Rightarrow> failed FCModel
         | _ \<Rightarrow> sraise e)"

definition has_changed_files :: "evo_state \<Rightarrow> bool" where
  "has_changed_files st = list_ex (\<lambda>r. wr_changed_files r \<noteq> []) (es_worker_results st)"

definition has_domain_attempt :: "evo_state \<Rightarrow> bool" where
  "has_domain_attempt st \<longleftrightarrow>
     es_fixer_output st \<noteq> None \<or> es_verification st \<noteq> None \<or> es_verification_history st \<noteq> [] \<or>
     es_worker_results st \<noteq> [] \<or> es_evidence st \<noteq> [] \<or> es_decision st \<noteq> None"

definition should_persist_episode :: "bool \<Rightarrow> failure_class option \<Rightarrow> evo_state \<Rightarrow> bool" where
  "should_persist_episode success fc st =
     (if success then True
      else let has_patch = (es_fixer_output st \<noteq> None \<or> has_changed_files st);
               has_verification = (es_verification st \<noteq> None \<or> es_verification_history st \<noteq> [])
           in case fc of
                Some FCModel \<Rightarrow> has_patch \<and> has_verification
              | Some FCInfrastructure \<Rightarrow> False
              | Some FCBudget \<Rightarrow> has_domain_attempt st
              | Some FCPolicy \<Rightarrow> has_patch
              | _ \<Rightarrow> True)"

definition verification_failure_class :: "verification_result option \<Rightarrow> failure_class option" where
  "verification_failure_class v =
     (case v of
        None \<Rightarrow> None
      | Some r \<Rightarrow>
          if vr_status r = VIncomplete
          then (case vr_incomplete_cause r of Some CauseBudget \<Rightarrow> Some FCBudget
                | Some CauseExecution \<Rightarrow> Some FCInfrastructure | None \<Rightarrow> None)
          else None)"

definition resolve_failure_class :: "evo_state \<Rightarrow> bool \<Rightarrow> failure_class option" where
  "resolve_failure_class st success =
     (if success then None
      else case es_failure_class st of
        Some c \<Rightarrow> Some c
      | None \<Rightarrow>
          (case verification_failure_class (es_verification st) of
             Some c \<Rightarrow> Some c
           | None \<Rightarrow>
               if es_failure_classes st \<noteq> [] then Some (last (es_failure_classes st))
               else if es_fixer_output st \<noteq> None \<or> has_changed_files st then Some FCRepair
               else let reason = lower (or_else (es_failure_reason st) []) in
                    if contains ''exhausted'' reason \<or> contains ''budget'' reason then Some FCBudget
                    else Some FCRepair))"

definition json_failure_class :: "failure_class option \<Rightarrow> json" where
  "json_failure_class c = (case c of None \<Rightarrow> JNull | Some f \<Rightarrow> JStr (failure_class_str f))"

definition persist_run_outcome ::
  "runtime \<Rightarrow> evo_state \<Rightarrow> bool \<Rightarrow> string option \<Rightarrow> failure_class option \<Rightarrow> (world, evo_state) io" where
  "persist_run_outcome rt st success failure_reason failure_class =
     (let resolved_class = (case failure_class of Some c \<Rightarrow> Some c | None \<Rightarrow> resolve_failure_class st success)
      in sbind (emit_event rt st (if success then RUN_COMPLETED else RUN_FAILED) None None ''terminal''
           [(''status'', JStr (if success then ''success'' else ''failed'')), (''reason'', jopt failure_reason),
            (''failure_class'', json_failure_class resolved_class)]) (\<lambda>terminal.
         sbind (update_run_status rt st (if success then Success else Failed)) (\<lambda>_.
         sbind (rt_learn rt success failure_reason resolved_class st) (\<lambda>learned.
         sret (st\<lparr>es_phase := Some (if success then ''finalize'' else ''failed''),
                  es_status := Some (if success then Success else Failed),
                  es_failure_reason := failure_reason, es_failure_class := resolved_class,
                  es_failure_stage := (if success then None else or_opt (es_failure_stage st) (es_phase st)),
                  es_learning_deferred := False, es_events := es_events st @ [terminal] @ learned\<rparr>)))))"

end
