(* ===== verification/Graph.thy ===== *)
theory Graph
  imports GraphState
begin

text \<open>
  The nodes and the conditional edges of the orchestration graph: \<^verbatim>\<open>build_graph\<close> of
  \<^verbatim>\<open>graph/builder.py\<close>. A node takes the state and returns the updated state (the reducers of the
  appended fields applied) or raises; a router returns the next node.
\<close>

text \<open>\<open>str.splitlines()\<close>\<close>

definition is_line_end :: "char \<Rightarrow> bool" where
  "is_line_end c \<longleftrightarrow> of_char c \<in> {10::nat, 11, 12, 13, 28, 29, 30}"

fun splitlines_from :: "string \<Rightarrow> string \<Rightarrow> string list" where
  "splitlines_from acc [] = (if acc = [] then [] else [rev acc])"
| "splitlines_from acc (c # cs) =
     (if of_char c = (13::nat) \<and> (case cs of [] \<Rightarrow> False | d # _ \<Rightarrow> of_char d = (10::nat))
      then rev acc # splitlines_from [] (tl cs)
      else if is_line_end c then rev acc # splitlines_from [] cs
      else splitlines_from (c # acc) cs)"

definition splitlines :: "string \<Rightarrow> string list" where
  "splitlines s = splitlines_from [] s"

section \<open>Helpers\<close>

definition operation_key :: "evo_state \<Rightarrow> string \<Rightarrow> string list \<Rightarrow> string" where
  "operation_key st key_type components =
     (let pre = key_type @ '':'' @ es_run_id st; suffix = join '':'' components
      in if suffix \<noteq> [] then pre @ '':'' @ suffix else pre)"

definition slice_memories :: "evo_state \<Rightarrow> worker_task \<Rightarrow> memory_hit list" where
  "slice_memories st task = filter (\<lambda>m. mh_memory_id m \<in> set (wt_fact_refs task)) (es_retrieved_memories st)"

definition slice_skills :: "evo_state \<Rightarrow> worker_task \<Rightarrow> skill_catalog_entry list" where
  "slice_skills st task =
     filter (\<lambda>s. sce_skill_id s \<in> sr_skill_id ` set (wt_recommended_skill_refs task)) (es_skill_catalog st)"

fun payload_skill_ids :: "json \<Rightarrow> string list" where
  "payload_skill_ids (JList xs) =
     concat (map (\<lambda>x. case x of JObj o' \<Rightarrow> (case jget o' ''skill_id'' of JStr s \<Rightarrow> if s = [] then [] else [s] | _ \<Rightarrow> []) | _ \<Rightarrow> []) xs)"
| "payload_skill_ids _ = []"

definition already_used_skills :: "string \<Rightarrow> string \<Rightarrow> recorder \<Rightarrow> string list" where
  "already_used_skills run_id invocation_id r =
     concat (map (\<lambda>e.
       if e_type e \<noteq> SKILL_USED \<or> e_invocation_id e \<noteq> Some invocation_id then []
       else (case jget (e_payload e) ''skill_id'' of JStr s \<Rightarrow> if s = [] then [] else [s] | _ \<Rightarrow> []) @
            payload_skill_ids (jget (e_payload e) ''skills'')) (rec_list run_id r))"

definition attribution ::
  "runtime \<Rightarrow> string \<Rightarrow> string \<Rightarrow> string list \<Rightarrow> skill_ref list \<Rightarrow> string list \<Rightarrow> string list \<Rightarrow> string \<Rightarrow> evo_state \<Rightarrow>
   (world, run_event list \<times> string list \<times> skill_ref list) io" where
  "attribution rt agent_id invocation_id memory_ids skill_refs available_memories available_skills discriminator st =
     (let used_memories = sorted_set (filter (\<lambda>m. m \<in> set memory_ids) available_memories);
          used_skills = filter (\<lambda>r. sr_skill_id r \<in> set available_skills) skill_refs
      in sbind (sget (\<lambda>w. already_used_skills (es_run_id st) invocation_id (w_recorder w))) (\<lambda>already_used.
         let missing_skills = filter (\<lambda>r. sr_skill_id r \<notin> set already_used) used_skills in
         sbind (if used_memories = [] then sret []
                else sbind (emit_event rt st MEMORY_USED (Some agent_id) (Some invocation_id) discriminator
                       [(''memory_ids'', jstrs used_memories)]) (\<lambda>e. sret [e])) (\<lambda>ev1.
         sbind (if missing_skills = [] then sret []
                else sbind (emit_event rt st SKILL_USED (Some agent_id) (Some invocation_id) discriminator
                       [(''skills'', JList (map json_skill_ref missing_skills))]) (\<lambda>e. sret [e])) (\<lambda>ev2.
         sret (ev1 @ ev2, used_memories, used_skills)))))"

definition worker_summaries :: "evo_state \<Rightarrow> payload list" where
  "worker_summaries st =
     map (\<lambda>r. [(''task_id'', JStr (wr_task_id r)), (''status'', JStr (worker_task_status_str (wr_status r))),
               (''summary'', JStr (wr_summary r)), (''changed_files'', jstrs (wr_changed_files r)),
               (''unresolved_questions'', jstrs (wr_unresolved_questions r)),
               (''patch_artifact_ref'', jopt (wr_patch_artifact_ref r))]) (es_worker_results st)"

definition formal_success :: "runtime \<Rightarrow> evo_state \<Rightarrow> (world, bool) io" where
  "formal_success rt st =
     sbind (snapshot_id rt (es_workspace st)) (\<lambda>snapshot.
       sret (case es_verification st of
               None \<Rightarrow> False
             | Some v \<Rightarrow> vr_passed v \<and> vr_status v = VPassed \<and> es_verification_snapshot_id st = Some snapshot))"

definition latest_result :: "evo_state \<Rightarrow> worker_execution_result option" where
  "latest_result st = (case es_worker_results st of [] \<Rightarrow> None | rs \<Rightarrow> Some (last rs))"

definition graph_file_text :: "fs \<Rightarrow> path \<Rightarrow> string \<Rightarrow> string option res" where
  "graph_file_text fs wroot relative =
     (case resolve_path fs (join_root wroot relative) of
        Inl e \<Rightarrow> Inr None
      | Inr t \<Rightarrow> if is_file fs t then rbind (file_text fs t) (\<lambda>s. Inr (Some s)) else Inr None)"

definition baseline_content :: "(string \<times> raw_baseline) list \<Rightarrow> string \<Rightarrow> string option" where
  "baseline_content baseline p =
     (case map_of baseline p of
        Some (BEntry (JStr s) m) \<Rightarrow> Some s
      | Some (BText t) \<Rightarrow> t
      | _ \<Rightarrow> None)"

definition review_bypass :: "runtime \<Rightarrow> path \<Rightarrow> (world, string list) io" where
  "review_bypass rt workspace = on_fs (
     sbind (rt_git rt [''-C'', abs_str workspace, ''diff'', ''--unified=0'', ''HEAD'', ''--'']) (\<lambda>(code, out, _).
     sbind (rt_git rt [''-C'', abs_str workspace, ''status'', ''--porcelain=v1'', ''--untracked-files=all'']) (\<lambda>(code', rows, _).
     sget (\<lambda>fs. contains_workspace_review_bypass (rt_decode rt)
                  (if code = 0 then Some (splitlines out) else None)
                  (if code' = 0 then Some (splitlines rows) else None) fs workspace))))"

section \<open>Nodes\<close>

datatype graph_node = Bootstrap | RetrieveContext | Supervise | PrepareTask | WorkerNode | Approval
  | ApplyCandidate | Verify | Rollback | Finalize | FailedNode | End

definition bootstrap :: "runtime \<Rightarrow> evo_state \<Rightarrow> (world, evo_state) io" where
  "bootstrap rt st =
     (if es_schema_version st \<notin> {None, Some ORCHESTRATION_SCHEMA_VERSION} \<or> es_investigation st
      then sraise (LegacyOrchestrationError ''Old graph checkpoint detected. Start a new run or campaign; supervisor-worker orchestration does not migrate previous checkpoints.'')
      else
        sbind (smodify (\<lambda>w. w\<lparr>w_runs := map_option (run_create (rt_clock rt (w_tick w)) (es_run_id st) (es_task_id st)
            (Some [(''repo'', json_repo (es_repo st)), (''ci_failure'', json_failure (es_ci_failure st)),
                   (''workspace_path'', JStr (abs_str (es_workspace st))),
                   (''schema_version'', JInt ORCHESTRATION_SCHEMA_VERSION)])) (w_runs w),
          w_tick := Suc (w_tick w)\<rparr>)) (\<lambda>_.
        sbind (emit_event rt st RUN_STARTED None None []
          [(''task'', JStr (es_task_id st)), (''campaign_provenance'', es_campaign_provenance st),
           (''schema_version'', JInt ORCHESTRATION_SCHEMA_VERSION)]) (\<lambda>e.
        sret (st\<lparr>es_schema_version := Some ORCHESTRATION_SCHEMA_VERSION, es_phase := Some ''bootstrap'',
                 es_status := Some Running, es_events := es_events st @ [e]\<rparr>))))"

definition retrieve_context :: "runtime \<Rightarrow> evo_state \<Rightarrow> (world, evo_state) io" where
  "retrieve_context rt st =
     sbind (case rt_memory_retriever rt of
              None \<Rightarrow> sret (es_retrieved_memories st, map mh_memory_id (es_retrieved_memories st), [])
            | Some retrieve \<Rightarrow>
                sbind (retrieve (es_repo st) (es_ci_failure st)) (\<lambda>r.
                sbind (emit_event rt st MEMORY_RETRIEVED None None []
                  [(''query'', JStr (mr_query r)), (''retrieved_ids'', jstrs (mr_retrieved_ids r)),
                   (''selected_ids'', jstrs (mr_selected_ids r)), (''used_ids'', JList []),
                   (''context_chars'', JInt (int (mr_context_chars r))),
                   (''memory_ids'', jstrs (mr_retrieved_ids r))]) (\<lambda>e1.
                sbind (emit_event rt st MEMORY_SELECTED None None []
                  [(''memory_ids'', jstrs (mr_selected_ids r)), (''audience'', JStr ''supervisor'')]) (\<lambda>e2.
                sret (mr_hits r, mr_selected_ids r, [e1, e2]))))) (\<lambda>(memories, selected, ev1).
     sbind (case rt_capability_retriever rt of
              None \<Rightarrow> sret (es_skill_catalog st, [])
            | Some retrieve \<Rightarrow>
                sbind (retrieve (es_repo st) (es_ci_failure st) (operation_key st ''skill-retrieval'' [])) (\<lambda>c.
                sbind (emit_event rt st SKILL_RETRIEVED None None []
                  [(''skills'', JList (map json_catalog_entry (sc_entries c))),
                   (''omitted_count'', JInt (int (sc_omitted_count c))),
                   (''context_chars'', JInt (int (sc_context_chars c))), (''audience'', JStr ''supervisor'')]) (\<lambda>e.
                sret (sc_entries c, [e])))) (\<lambda>(catalog, ev2).
     sret (st\<lparr>es_phase := Some ''retrieve_context'', es_retrieved_memories := memories, es_skill_catalog := catalog,
              es_selected_memory_ids := es_selected_memory_ids st @ selected,
              es_events := es_events st @ ev1 @ ev2\<rparr>)))"

definition supervise_done ::
  "runtime \<Rightarrow> evo_state \<Rightarrow> int \<Rightarrow> string \<Rightarrow> supervisor_decision \<Rightarrow> (world, evo_state) io" where
  "supervise_done rt st batch completed_invocation_id decision =
     sbind (emit_event rt st AGENT_COMPLETED (Some ''supervisor'') (Some completed_invocation_id) (show_int batch)
       [(''action'', JStr (supervisor_action_str (sd_action decision))),
        (''tasks'', JList (map json_task (sd_tasks decision))), (''stop_reason'', jopt (sd_stop_reason decision)),
        (''reasoning_summary'', JStr (sd_reasoning_summary decision))]) (\<lambda>e.
     sret (st\<lparr>es_phase := Some ''supervise'', es_supervisor_batch := batch, es_decision := Some decision,
              es_decision_history := es_decision_history st @
                [supervisor_action_str (sd_action decision) @ '': '' @ sd_reasoning_summary decision],
              es_recommended_skill_ids := es_recommended_skill_ids st @
                concat (map (\<lambda>t. map sr_skill_id (wt_recommended_skill_refs t)) (sd_tasks decision)),
              es_batch_conflict := None, es_events := es_events st @ [e]\<rparr>))"

definition supervisor_context_of :: "runtime \<Rightarrow> evo_state \<Rightarrow> int \<Rightarrow> budget_snapshot \<Rightarrow> bool \<Rightarrow> supervisor_context" where
  "supervisor_context_of rt st batch snapshot usage_complete =
     \<lparr>sx_run_id = es_run_id st, sx_repo = es_repo st, sx_failure = es_ci_failure st, sx_workspace = es_workspace st,
      sx_invocation_id = ''supervise:'' @ show_int batch, sx_memories = es_retrieved_memories st,
      sx_skills = es_skill_catalog st, sx_previous_decisions = es_decision_history st,
      sx_worker_result_summaries = worker_summaries st, sx_last_verification = es_verification st,
      sx_verification_snapshot_id = es_verification_snapshot_id st,
      sx_remaining_batches = rt_max_supervisor_batches rt - batch + 1,
      sx_remaining_model_calls = bs_max_model_calls snapshot - bs_model_calls snapshot,
      sx_remaining_tool_calls = bs_max_tool_calls snapshot - bs_tool_calls snapshot,
      sx_failed_candidates = es_failed_candidates st, sx_usage_complete = usage_complete\<rparr>"

definition supervise :: "runtime \<Rightarrow> evo_state \<Rightarrow> (world, evo_state) io" where
  "supervise rt st =
     (if es_status st = Some Failed then sret (st\<lparr>es_phase := Some ''supervise''\<rparr>)
      else let batch = es_supervisor_batch st + 1 in
      if rt_max_supervisor_batches rt < batch
      then sret (st\<lparr>es_phase := Some ''supervise'', es_status := Some Failed, es_failure_class := Some FCBudget,
                    es_failure_stage := Some ''supervise'',
                    es_failure_reason := Some ''supervisor batch budget exhausted''\<rparr>)
      else
        sbind (run_budget st) (\<lambda>budget.
        sbind (sget (\<lambda>w. usage_complete_from_events (rec_list (es_run_id st) (w_recorder w)))) (\<lambda>usage_complete.
        let context = supervisor_context_of rt st batch (budget_snapshot_of budget) usage_complete in
        sbind (stry (rt_supervisor rt context)) (\<lambda>r.
        case r of
          Inr decision \<Rightarrow> supervise_done rt st batch (sx_invocation_id context) decision
        | Inl (ModelGatewayError m timeout) \<Rightarrow>
            if \<not> timeout then classified_failure (ModelGatewayError m timeout) ''supervise'' batch st
            else
              let retry_id = sx_invocation_id context @ '':timeout-retry'' in
              sbind (stry (rt_supervisor rt (context\<lparr>sx_invocation_id := retry_id\<rparr>))) (\<lambda>r2.
              case r2 of
                Inr decision \<Rightarrow> supervise_done rt st batch retry_id decision
              | Inl e \<Rightarrow> classified_failure e ''supervise'' batch st)
        | Inl e \<Rightarrow> classified_failure e ''supervise'' batch st))))"

definition after_supervise :: "runtime \<Rightarrow> evo_state \<Rightarrow> (world, graph_node) io" where
  "after_supervise rt st =
     (if es_status st = Some Failed then sret FailedNode
      else case es_decision st of
        None \<Rightarrow> sret FailedNode
      | Some d \<Rightarrow>
          if sd_action d = Stop
          then sbind (formal_success rt st) (\<lambda>ok. sret (if ok then Finalize else FailedNode))
          else sret PrepareTask)"

definition batch_snapshot_path :: "evo_state \<Rightarrow> path" where
  "batch_snapshot_path st =
     (let ws = es_workspace st; name = (if ws = [] then [] else last ws) in
      butlast ws @ path_components (''.evoci-snapshots-'' @ name @ ''-'' @ es_run_id st) @
      [''batch-'' @ show_int (es_supervisor_batch st)])"

definition prepare_failed :: "failure_class \<Rightarrow> string \<Rightarrow> string \<Rightarrow> evo_state \<Rightarrow> evo_state" where
  "prepare_failed fc stage reason st =
     st\<lparr>es_status := Some Failed, es_failure_class := Some fc, es_failure_stage := Some stage,
        es_failure_reason := Some reason\<rparr>"

definition prepare_dispatch :: "runtime \<Rightarrow> evo_state \<Rightarrow> worker_task \<Rightarrow> (world, evo_state) io" where
  "prepare_dispatch rt st task =
     (let snapshot_path = batch_snapshot_path st in
      sbind (sget (\<lambda>w. path_exists (w_fs w) snapshot_path)) (\<lambda>there.
      sbind (if there
             then (if truthy (es_batch_snapshot_id st) then sret (Inr (the (es_batch_snapshot_id st)))
                   else sbind (snapshot_id rt snapshot_path) (\<lambda>i. sret (Inr i)))
             else stry (on_fs (save_batch_snapshot (rt_git rt) (rt_sha rt) (rt_listing rt) (es_workspace st) snapshot_path))) (\<lambda>r.
      case r of
        Inl e \<Rightarrow> sret (prepare_failed FCInfrastructure ''prepare_task'' (''parent snapshot failed: '' @ exc_str e) st)
      | Inr i \<Rightarrow>
          let resume_ref = (if truthy (wt_resume_candidate_id task)
                then map_option fc_artifact_ref (find (\<lambda>c. Some (fc_candidate_id c) = wt_resume_candidate_id task) (es_failed_candidates st))
                else None)
          in sret (st\<lparr>es_phase := Some ''prepare_task'', es_worker_task := Some task,
               es_worker_memories := slice_memories st task, es_recommended_skills := slice_skills st task,
               es_worker_baseline_id := Some i, es_batch_snapshot_path := Some snapshot_path,
               es_batch_snapshot_id := Some i, es_resume_artifact_ref := resume_ref, es_batch_conflict := None,
               es_approved := None\<rparr>))))"

definition prepare_task :: "runtime \<Rightarrow> evo_state \<Rightarrow> (world, evo_state) io" where
  "prepare_task rt st =
     (case es_decision st of
        None \<Rightarrow> sret (prepare_failed FCRepair ''prepare_task'' ''supervisor did not dispatch a task'' st)
      | Some decision \<Rightarrow>
        if sd_action decision \<noteq> Dispatch
        then sret (prepare_failed FCRepair ''prepare_task'' ''supervisor did not dispatch a task'' st)
        else
        sbind (run_budget st) (\<lambda>b.
        let remaining_model = rb_max_model_calls b - rb_model_calls b;
            remaining_tool = rb_max_tool_calls b - rb_tool_calls b
        in if remaining_model < 2
           then sret ((prepare_failed FCBudget ''worker'' ''run-level model-call budget exhausted'' st)
                  \<lparr>es_failure_classes := es_failure_classes st @ [FCBudget],
                   es_budget_failures := es_budget_failures st @ [''run-level model-call budget exhausted'']\<rparr>)
           else
           case validate_single_task (sd_tasks decision) (set (es_completed_task_ids st)) remaining_model remaining_tool of
             Inr task \<Rightarrow> prepare_dispatch rt st task
           | Inl (TaskScheduleError m) \<Rightarrow>
               if 0 < rt_max_supervisor_batches rt - es_supervisor_batch st
               then sret (st\<lparr>es_phase := Some ''prepare_task'',
                      es_decision_history := es_decision_history st @ [''harness rejected dispatch: '' @ m],
                      es_batch_conflict := Some m, es_worker_task := None\<rparr>)
               else sret (prepare_failed FCRepair ''prepare_task'' m st)
           | Inl e \<Rightarrow> sraise e))"

definition after_prepare :: "runtime \<Rightarrow> evo_state \<Rightarrow> graph_node" where
  "after_prepare rt st =
     (if es_status st = Some Failed then FailedNode
      else if truthy (es_batch_conflict st)
      then (if es_supervisor_batch st < rt_max_supervisor_batches rt then Supervise else FailedNode)
      else if es_worker_task st = None then FailedNode else WorkerNode)"

definition empty_worker_result :: "string \<Rightarrow> worker_task_status \<Rightarrow> string \<Rightarrow> worker_execution_result" where
  "empty_worker_result task_id status summary =
     \<lparr>wr_task_id = task_id, wr_status = status, wr_summary = summary, wr_evidence = [], wr_unresolved_questions = [],
      wr_base_revision = None, wr_snapshot_id = None, wr_patch_artifact_ref = None, wr_changed_files = [],
      wr_command_result_refs = [], wr_used_memory_ids = [], wr_used_skill_refs = []\<rparr>"

definition worker_context_of :: "evo_state \<Rightarrow> worker_task \<Rightarrow> worker_context" where
  "worker_context_of st task =
     \<lparr>wx_run_id = es_run_id st, wx_repo = es_repo st, wx_failure = es_ci_failure st, wx_workspace = es_workspace st,
      wx_invocation_id = ''worker:'' @ show_int (es_supervisor_batch st) @ '':'' @ wt_task_id task, wx_task = task,
      wx_memories = es_worker_memories st, wx_recommended_skills = es_recommended_skills st,
      wx_baseline_snapshot_id = or_else (es_worker_baseline_id st) [],
      wx_previous_attempt_summary = es_previous_attempt_summary st,
      wx_resume_artifact_ref = es_resume_artifact_ref st\<rparr>"

definition worker_done :: "runtime \<Rightarrow> evo_state \<Rightarrow> worker_task \<Rightarrow> worker_context \<Rightarrow> worker_run \<Rightarrow> (world, evo_state) io" where
  "worker_done rt st task context run =
     (let agent_id = ''worker:'' @ wt_task_id task; invocation_id = wx_invocation_id context;
          edits = run_edits run; res = run_result run; plan = map RawSpec (run_verification_plan run)
      in sbind (if edits = [] then sret (None, None)
                else
                  sbind (on_files (artifact_dir (rt_state_dir rt) (es_run_id st) (es_supervisor_batch st) (wt_task_id task))) (\<lambda>directory.
                  sbind (on_files (save_patch_artifact directory task edits (wx_baseline_snapshot_id context)
                           (wr_summary res) (run_commands_run run) plan)) (\<lambda>artifact_ref.
                  sbind (slift (fixer_output_from_edits (wr_summary res) edits (run_commands_run run) plan (Some (run_risk run)))) (\<lambda>out.
                  sret (Some artifact_ref, Some out))))) (\<lambda>(artifact_ref, fixer_output).
         let result = res\<lparr>wr_patch_artifact_ref := artifact_ref,
               wr_changed_files := (if edits = [] then wr_changed_files res else map fe_path edits),
               wr_base_revision := Some (or_else (wr_base_revision res) (wx_baseline_snapshot_id context)),
               wr_snapshot_id := Some (or_else (wr_snapshot_id res) (wx_baseline_snapshot_id context))\<rparr>;
             exhausted = (wr_status result = BudgetExhausted \<and> edits = [])
         in sbind (attribution rt agent_id invocation_id (wr_used_memory_ids result) (wr_used_skill_refs result)
                (map mh_memory_id (wx_memories context)) (map sce_skill_id (wx_recommended_skills context))
                (wt_task_id task) st) (\<lambda>(usage_events, used_memories, used_skills).
         sbind (smap (\<lambda>item. emit_event rt st EVIDENCE_CREATED (Some agent_id) (Some invocation_id) (ev_id item)
                [(''evidence'', json_evidence item)]) (wr_evidence result)) (\<lambda>evidence_events.
         sbind (emit_event rt st AGENT_COMPLETED (Some agent_id) (Some invocation_id) (wt_task_id task)
                [(''status'', JStr (worker_task_status_str (wr_status result))),
                 (''kind'', JStr (worker_kind_str (wt_kind task))),
                 (''evidence_count'', JInt (int (length (wr_evidence result)))),
                 (''changed_files'', jstrs (wr_changed_files result))]) (\<lambda>completed.
         let st' = st\<lparr>es_evidence := es_evidence st @ wr_evidence result,
               es_completed_task_ids := es_completed_task_ids st @ [wt_task_id task],
               es_worker_results := es_worker_results st @ [result],
               es_fixer_output := (case fixer_output of None \<Rightarrow> es_fixer_output st | Some o' \<Rightarrow> Some o'),
               es_used_memory_ids := es_used_memory_ids st @ used_memories,
               es_used_skill_refs := es_used_skill_refs st @ used_skills,
               es_events := es_events st @ evidence_events @ usage_events @ [completed]\<rparr>
         in sret (if exhausted
              then (prepare_failed FCBudget ''worker'' (wr_summary result) st')
                     \<lparr>es_failure_classes := es_failure_classes st @ [FCBudget],
                      es_budget_failures := es_budget_failures st @ [wr_summary result]\<rparr>
              else st'))))))"

definition worker :: "runtime \<Rightarrow> evo_state \<Rightarrow> (world, evo_state) io" where
  "worker rt st =
     (case es_worker_task st of
        None \<Rightarrow> sraise (TypeError ''worker_task is required'')
      | Some task \<Rightarrow>
        let context = worker_context_of st task;
            capabilities = (if wt_kind task = Repair then WORKER_REPAIR_CAPABILITIES else WORKER_INVESTIGATE_CAPABILITIES)
        in sbind (stry (rt_worker rt context capabilities)) (\<lambda>r.
           case r of
             Inr run \<Rightarrow> worker_done rt st task context run
           | Inl (RepairBudgetExhausted m) \<Rightarrow>
               sret (st\<lparr>es_completed_task_ids := es_completed_task_ids st @ [wt_task_id task],
                  es_worker_results := es_worker_results st @ [empty_worker_result (wt_task_id task) BudgetExhausted m],
                  es_budget_failures := es_budget_failures st @ [m],
                  es_failure_classes := es_failure_classes st @ [FCBudget]\<rparr>)
           | Inl (ModelGatewayError m t) \<Rightarrow>
               sret (prepare_failed FCModel ''worker'' m
                 (st\<lparr>es_completed_task_ids := es_completed_task_ids st @ [wt_task_id task],
                  es_worker_results := es_worker_results st @ [empty_worker_result (wt_task_id task) Blocked m],
                  es_budget_failures := es_budget_failures st @ [m],
                  es_failure_classes := es_failure_classes st @ [FCModel]\<rparr>))
           | Inl e \<Rightarrow> sraise e))"

definition after_worker :: "evo_state \<Rightarrow> graph_node" where
  "after_worker st =
     (if es_status st = Some Failed then FailedNode
      else if es_failure_classes st \<noteq> [] \<and> last (es_failure_classes st) \<in> {FCModel, FCInfrastructure} then FailedNode
      else case latest_result st of
        None \<Rightarrow> FailedNode
      | Some result \<Rightarrow>
          if wr_status result = BudgetExhausted \<or> es_budget_failures st \<noteq> [] then FailedNode
          else if wr_status result = Blocked then Supervise
          else (case es_worker_task st of
                  None \<Rightarrow> Supervise
                | Some task \<Rightarrow> if wt_kind task = Repair then Approval else Supervise))"

definition approval :: "runtime \<Rightarrow> evo_state \<Rightarrow> (world, evo_state) io" where
  "approval rt st =
     (case es_fixer_output st of
        None \<Rightarrow> sret (st\<lparr>es_phase := Some ''approval'', es_approved := Some True\<rparr>)
      | Some output \<Rightarrow>
          if fo_edits output = [] \<or> \<not> requires_approval output
          then sret (st\<lparr>es_phase := Some ''approval'', es_approved := Some True\<rparr>)
          else
            sbind (update_run_status rt st WaitingApproval) (\<lambda>_.
            sbind (rt_interrupt rt
              [(''kind'', JStr ''patch_approval''), (''summary'', JStr (pp_summary (fo_proposal output))),
               (''risk'', JStr (risk_str (pp_risk (fo_proposal output)))),
               (''files'', jstrs (pp_changed_files (fo_proposal output)))]) (\<lambda>approved.
            sbind (emit_event rt st INTERRUPT_RESOLVED None None (show_int (es_supervisor_batch st))
              [(''approved'', JBool approved)]) (\<lambda>e.
            sret (st\<lparr>es_phase := Some ''approval'', es_approved := Some approved,
              es_status := Some (if approved then Running else Failed),
              es_failure_class := (if approved then None else Some FCPolicy),
              es_failure_stage := (if approved then None else Some ''approval''),
              es_failure_reason := (if approved then None else Some ''patch rejected by human''),
              es_events := es_events st @ [e]\<rparr>)))))"

definition after_approval :: "evo_state \<Rightarrow> graph_node" where
  "after_approval st = (if es_status st = Some Failed \<or> es_approved st = Some False then FailedNode else ApplyCandidate)"

text \<open>
  The loop of \<open>apply_candidate\<close>: the writes recorded and the events emitted up to the point it reached,
  and the exception that stopped it, if any.
\<close>

fun apply_loop ::
  "runtime \<Rightarrow> evo_state \<Rightarrow> string \<Rightarrow> string \<Rightarrow> (string \<times> raw_baseline) list \<Rightarrow> file_edit list \<Rightarrow>
   (string \<times> string option) list \<Rightarrow> run_event list \<Rightarrow> world \<Rightarrow>
   world \<times> (string \<times> string option) list \<times> run_event list \<times> pyexc option" where
  "apply_loop rt st agent_id operation_id baseline [] written events w = (w, written, events, None)"
| "apply_loop rt st agent_id operation_id baseline (e # es) written events w =
     (let intended = intended_content e; call_id = ''apply:'' @ operation_id @ '':'' @ fe_path e;
          written' = AList.update (fe_path e) intended written
      in case graph_file_text (w_fs w) (es_workspace st) (fe_path e) of
           Inl x \<Rightarrow> (w, written, events, Some x)
         | Inr current_text \<Rightarrow>
             if current_text = intended then apply_loop rt st agent_id operation_id baseline es written' events w
             else if current_text \<noteq> baseline_content baseline (fe_path e)
             then (w, written, events, Some (PatchConflict (''file changed since proposal: '' @ fe_path e)))
             else
               (case consume_tool st w of
                  (w1, Inl x) \<Rightarrow> (w1, written, events, Some x)
                | (w1, Inr _) \<Rightarrow>
                    (case emit_event rt st TOOL_CALL (Some agent_id) None call_id
                            [(''call_id'', JStr call_id), (''tool_name'', JStr ''apply_edit''),
                             (''arguments'', JObj [(''path'', JStr (fe_path e))])] w1 of
                       (w2, Inl x) \<Rightarrow> (w2, written, events, Some x)
                     | (w2, Inr ev) \<Rightarrow>
                         (case apply_edit (rt_sha rt) (w_fs w2) (es_workspace st) e (rt_patch_hash_strict rt) of
                            Inl x \<Rightarrow> (w2, written', events @ [ev], Some x)
                          | Inr (fs', _) \<Rightarrow>
                              apply_loop rt st agent_id operation_id baseline es written' (events @ [ev])
                                (w2\<lparr>w_fs := fs'\<rparr>)))))"

definition apply_error_caught :: "pyexc \<Rightarrow> bool" where
  "apply_error_caught e \<longleftrightarrow> is_patch_error e \<or> is_budget_error e \<or> is_os_error e \<or>
     (case e of IntegrationError m \<Rightarrow> True | _ \<Rightarrow> False)"

definition apply_conflict :: "string \<Rightarrow> string \<Rightarrow> evo_state \<Rightarrow> evo_state" where
  "apply_conflict conflict reason st =
     st\<lparr>es_phase := Some ''apply_candidate'', es_batch_conflict := Some conflict,
        es_failure_classes := es_failure_classes st @ [FCRepair], es_failure_reason := Some reason,
        es_failure_stage := Some ''apply_candidate''\<rparr>"

definition restore_writes ::
  "path \<Rightarrow> (string \<times> raw_baseline) list \<Rightarrow> (string \<times> string option) list \<Rightarrow> (world, string list \<times> string list) io" where
  "restore_writes wroot baseline written = on_fs (\<lambda>fs. restore_attempt_writes fs wroot baseline written)"

definition apply_edits_of_plan ::
  "runtime \<Rightarrow> evo_state \<Rightarrow> fixer_output \<Rightarrow> string \<Rightarrow> string \<Rightarrow> (string \<times> raw_baseline) list \<Rightarrow> (world, evo_state) io" where
  "apply_edits_of_plan rt st output agent_id operation_id baseline =
     (\<lambda>w. case apply_loop rt st agent_id operation_id baseline (fo_edits output) [] [] w of
        (w1, written, events, None) \<Rightarrow>
          sbind (emit_event rt st PATCH_CREATED (Some agent_id) None operation_id
            [(''changed_files'', jstrs (map fe_path (fo_edits output))),
             (''artifact_ref'', (case latest_result st of None \<Rightarrow> JNull | Some r \<Rightarrow> jopt (wr_patch_artifact_ref r)))]) (\<lambda>ev.
          sbind (snapshot_id rt (es_workspace st)) (\<lambda>i.
          sret (st\<lparr>es_phase := Some ''apply_candidate'', es_attempt_baseline := baseline,
                   es_attempt_written := Some written, es_integrated_snapshot_id := Some i,
                   es_events := es_events st @ events @ [ev]\<rparr>))) w1
      | (w1, written, events, Some x) \<Rightarrow>
          sbind (restore_writes (es_workspace st) baseline written) (\<lambda>_.
          if apply_error_caught x
          then sret ((apply_conflict (exc_str x) (exc_str x) st)
                 \<lparr>es_attempt_baseline := baseline, es_attempt_written := Some written,
                  es_failure_classes := es_failure_classes st @ [if is_budget_error x then FCBudget else FCRepair],
                  es_events := es_events st @ events\<rparr>)
          else sraise x) w1)"

text \<open>
  The first part of the node finds or makes the apply plan; its result is the stored plan, or the
  state with the conflict that was found.
\<close>

definition make_apply_plan ::
  "runtime \<Rightarrow> evo_state \<Rightarrow> fixer_output \<Rightarrow> string list \<Rightarrow> (world, evo_state + stored_json option) io" where
  "make_apply_plan rt st output plan_file =
     (let expected = es_worker_baseline_id st in
      sbind (sget (\<lambda>w. case es_batch_snapshot_path st of
                         None \<Rightarrow> None
                       | Some p \<Rightarrow> if path_exists (w_fs w) p then Some p else None)) (\<lambda>snapshot_root.
      sbind (case snapshot_root of
               Some p \<Rightarrow>
                 (if truthy (es_batch_snapshot_id st) then sret (Inr (p, the (es_batch_snapshot_id st)))
                  else sbind (snapshot_id rt p) (\<lambda>i. sret (Inr (p, i))))
             | None \<Rightarrow>
                 sbind (snapshot_id rt (es_workspace st)) (\<lambda>current.
                 if truthy expected \<and> Some current \<noteq> expected
                 then sret (Inl (apply_conflict (''workspace snapshot '' @ current @ '' does not match baseline '' @ the expected)
                        ''workspace changed before apply'' st))
                 else sret (Inr (es_workspace st, or_else expected current)))) (\<lambda>r.
      case r of
        Inl st' \<Rightarrow> sret (Inl st')
      | Inr (baseline_root, parent_id) \<Rightarrow>
          sbind (sget (\<lambda>w. snapshot_edit_baseline (w_fs w) baseline_root (fo_edits output))) (\<lambda>bl.
          sbind (slift bl) (\<lambda>baseline.
          sbind (on_files (save_apply_plan plan_file parent_id
                   (case latest_result st of None \<Rightarrow> None | Some l \<Rightarrow> wr_patch_artifact_ref l) (fo_edits output) baseline)) (\<lambda>_.
          sbind (on_files (\<lambda>files. (files, load_apply_plan plan_file files))) (\<lambda>plan. sret (Inr plan))))))))"

fun plan_baseline :: "stored_json \<Rightarrow> (string \<times> raw_baseline) list" where
  "plan_baseline (SPlan p) = ap_baseline p"
| "plan_baseline _ = []"

definition apply_candidate :: "runtime \<Rightarrow> evo_state \<Rightarrow> (world, evo_state) io" where
  "apply_candidate rt st =
     (case es_fixer_output st of
        None \<Rightarrow> sbind (snapshot_id rt (es_workspace st)) (\<lambda>i.
          sret (st\<lparr>es_phase := Some ''apply_candidate'', es_integrated_snapshot_id := Some i\<rparr>))
      | Some output \<Rightarrow>
        if fo_edits output = []
        then sbind (snapshot_id rt (es_workspace st)) (\<lambda>i.
          sret (st\<lparr>es_phase := Some ''apply_candidate'', es_integrated_snapshot_id := Some i\<rparr>))
        else
        case (case es_worker_task st of
                None \<Rightarrow> Inr ()
              | Some task \<Rightarrow> validate_edits_against_scope (fo_edits output) (wt_write_scope task)) of
          Inl (PolicyViolation m) \<Rightarrow> sret (apply_conflict m m st)
        | Inl e \<Rightarrow> sraise e
        | Inr _ \<Rightarrow>
            let task_name = (case es_worker_task st of None \<Rightarrow> ''repair'' | Some t \<Rightarrow> wt_task_id t);
                operation_id = show_int (es_supervisor_batch st) @ '':'' @ task_name
            in sbind (on_files (apply_plan_path (rt_state_dir rt) (es_run_id st) operation_id)) (\<lambda>plan_file.
               sbind (on_files (\<lambda>files. (files, load_apply_plan plan_file files))) (\<lambda>loaded.
               sbind (case loaded of
                        None \<Rightarrow> make_apply_plan rt st output plan_file
                      | Some p \<Rightarrow> sret (Inr (Some p))) (\<lambda>r.
               case r of
                 Inl st' \<Rightarrow> sret st'
               | Inr None \<Rightarrow> sraise AssertionError
               | Inr (Some plan) \<Rightarrow>
                   apply_edits_of_plan rt st output (''worker:'' @ task_name) operation_id (plan_baseline plan)))))"

definition after_apply :: "evo_state \<Rightarrow> graph_node" where
  "after_apply st =
     (if es_status st = Some Failed then FailedNode
      else if truthy (es_batch_conflict st) then Rollback else Verify)"

definition json_planned :: "planned_command list \<Rightarrow> json" where
  "json_planned planned =
     JList (map (\<lambda>p. JObj [(''argv'', jstrs (pc_command p)), (''cwd'', JStr (pc_cwd p))]) planned)"

definition verify_start_event ::
  "runtime \<Rightarrow> evo_state \<Rightarrow> planned_command list \<Rightarrow> nat \<Rightarrow> string list \<Rightarrow> (world, run_event) io" where
  "verify_start_event rt st planned index command =
     (let call_id = ''verify:'' @ show_int (es_supervisor_batch st) @ '':'' @ show_nat index;
          cwd = (if index < length planned then pc_cwd (planned ! index) else ''.'')
      in emit_event rt st TOOL_CALL (Some ''harness'') None call_id
           [(''call_id'', JStr call_id), (''tool_name'', JStr ''run_test''),
            (''arguments'', JObj [(''argv'', jstrs command), (''cwd'', JStr cwd), (''network'', JBool False)])])"

definition verify_done_event ::
  "runtime \<Rightarrow> evo_state \<Rightarrow> int \<Rightarrow> nat \<Rightarrow> verification_command_result \<Rightarrow> (world, run_event) io" where
  "verify_done_event rt st started_at index result =
     (let call_id = ''verify:'' @ show_int (es_supervisor_batch st) @ '':'' @ show_nat index;
          passed = (vc_executed result \<and> vc_exit_code result = 0 \<and> \<not> vc_timed_out result)
      in sbind (sget (\<lambda>w. rt_clock rt (w_tick w))) (\<lambda>now.
         emit_event rt st TOOL_RESULT (Some ''harness'') None call_id
           [(''call_id'', JStr call_id), (''tool_name'', JStr ''run_test''), (''success'', JBool passed),
            (''exit_code'', JInt (vc_exit_code result)),
            (''error'', if passed then JNull else JStr (vc_stderr result)),
            (''duration_seconds'', JFloat (real_of_int (now - started_at))),
            (''source'', JStr (command_source_str (vc_source result))), (''executed'', JBool (vc_executed result))]))"

text \<open>
  The service runs on the world and the list of events of the node; the callbacks emit and append.
\<close>

definition collect :: "(world, run_event) io \<Rightarrow> world \<times> run_event list \<Rightarrow> pyexc option \<times> world \<times> run_event list" where
  "collect m s = (case m (fst s) of (w, Inl e) \<Rightarrow> (Some e, w, snd s) | (w, Inr ev) \<Rightarrow> (None, w, snd s @ [ev]))"

definition with_events :: "(world, 'a) io \<Rightarrow> world \<times> run_event list \<Rightarrow> 'a res \<times> world \<times> run_event list" where
  "with_events m s = (case m (fst s) of (w, r) \<Rightarrow> (r, w, snd s))"

definition verify_env_of ::
  "runtime \<Rightarrow> evo_state \<Rightarrow> planned_command list \<Rightarrow> int \<Rightarrow> (world \<times> run_event list) verify_env" where
  "verify_env_of rt st planned started_at =
     \<lparr>ve_fs = (\<lambda>s. w_fs (fst s)),
      ve_isolated_workspace = with_events (rt_isolated_workspace rt (es_workspace st)),
      ve_run = (\<lambda>wroot argv cwd. with_events (rt_run_command rt wroot argv cwd)),
      ve_on_start = (\<lambda>index command source. collect (verify_start_event rt st planned index command)),
      ve_on_done = (\<lambda>index result. collect (verify_done_event rt st started_at index result))\<rparr>"

definition failed_command_reason :: "verification_result \<Rightarrow> string" where
  "failed_command_reason v =
     (case find (\<lambda>c. vc_executed c \<and> check_failed c) (vr_commands v) of
        None \<Rightarrow> ''verification did not produce a verified success''
      | Some c \<Rightarrow> or_else (Some (vc_stderr c)) (''exit code '' @ show_int (vc_exit_code c)))"

definition not_passed_reason :: "verification_result \<Rightarrow> string" where
  "not_passed_reason v = or_else (vr_incomplete_reason v) (failed_command_reason v)"

definition raw_failed_commands :: "evo_state \<Rightarrow> raw_command list" where
  "raw_failed_commands st = map RawList (failed_commands (es_ci_failure st))"

definition supplementary_of :: "evo_state \<Rightarrow> raw_command list" where
  "supplementary_of st =
     (case es_fixer_output st of None \<Rightarrow> [] | Some o' \<Rightarrow> map RawSpec (pp_verification_plan (fo_proposal o')))"

text \<open>The clean-up of \<open>except BaseException\<close> in \<open>verify\<close>, and the one of \<open>rollback\<close>.\<close>

definition undo_candidate :: "runtime \<Rightarrow> evo_state \<Rightarrow> (world, unit) io" where
  "undo_candidate rt st =
     (case es_batch_snapshot_path st of
        Some p \<Rightarrow> on_fs (restore_batch_snapshot (rt_listing rt) p (es_workspace st))
      | None \<Rightarrow>
          (case es_attempt_written st of
             None \<Rightarrow> sret ()
           | Some written \<Rightarrow> sbind (restore_writes (es_workspace st) (es_attempt_baseline st) written) (\<lambda>_. sret ())))"

definition run_verification ::
  "runtime \<Rightarrow> evo_state \<Rightarrow> planned_command list \<Rightarrow> int \<Rightarrow> run_event list \<Rightarrow>
   (world, verification_result \<times> run_event list) io" where
  "run_verification rt st planned started_at events =
     (case rt_official rt of
        Some (commands, verify_candidate) \<Rightarrow>
          sbind (stry (consume_tool st)) (\<lambda>c.
          case c of
            Inl (RepairBudgetExhausted m) \<Rightarrow>
              sbind (slift (mk_verification_result
                \<lparr>vr_passed = False, vr_status = VIncomplete, vr_level = Targeted, vr_commands = [],
                 vr_expected_count = 1, vr_executed_count = 0, vr_incomplete_reason = Some m,
                 vr_incomplete_cause = Some CauseBudget, vr_oracle_source = OracleHarness\<rparr>)) (\<lambda>v. sret (v, events))
          | Inl e \<Rightarrow> sraise e
          | Inr _ \<Rightarrow>
              let call_id = ''verify:'' @ show_int (es_supervisor_batch st) @ '':official'' in
              sbind (emit_event rt st TOOL_CALL (Some ''harness'') None call_id
                [(''call_id'', JStr call_id), (''tool_name'', JStr ''verify_official_candidate''),
                 (''arguments'', JObj [(''commands'', commands)])]) (\<lambda>e1.
              sbind (verify_candidate (es_workspace st)) (\<lambda>v.
              sbind (sget (\<lambda>w. rt_clock rt (w_tick w))) (\<lambda>now.
              sbind (emit_event rt st TOOL_RESULT (Some ''harness'') None call_id
                [(''call_id'', JStr call_id), (''tool_name'', JStr ''verify_official_candidate''),
                 (''source'', JStr ''official_image''), (''success'', JBool (vr_passed v)),
                 (''error'', jopt (vr_incomplete_reason v)),
                 (''duration_seconds'', JFloat (real_of_int (now - started_at)))]) (\<lambda>e2.
              sret (v, events @ [e1, e2]))))))
      | None \<Rightarrow>
          sbind (run_budget st) (\<lambda>b.
          (\<lambda>w. case verification_run (verify_env_of rt st planned started_at) (es_workspace st) (raw_failed_commands st)
                        (supplementary_of st) (Some b) True (w, events) of
                 (r, b', w', events') \<Rightarrow>
                   sbind (case b' of None \<Rightarrow> sret () | Some bb \<Rightarrow> store_budget st bb) (\<lambda>_.
                   sbind (slift r) (\<lambda>v. sret (v, events'))) w')))"

definition harness_review :: "bool \<Rightarrow> string list \<Rightarrow> review_result res" where
  "harness_review accepted blockers = mk_review_result
     \<lparr>rv_accepted = accepted, rv_performed = True, rv_status = RevFailed, rv_blockers = blockers, rv_warnings = [],
      rv_confidence = 1, rv_used_memory_ids = [], rv_used_skill_refs = []\<rparr>"

definition verify_rejected ::
  "runtime \<Rightarrow> evo_state \<Rightarrow> verification_result \<Rightarrow> string \<Rightarrow> run_event list \<Rightarrow> string list \<Rightarrow> (world, evo_state) io" where
  "verify_rejected rt st v snap events blockers =
     (let reason = join ''; '' blockers; batch = show_int (es_supervisor_batch st) in
      sbind (emit_event rt st ATTEMPT_FAILED None None (''governance:'' @ batch)
        [(''kind'', JStr ''review_rejected''), (''reason'', JStr reason), (''iteration'', JInt (es_supervisor_batch st))]) (\<lambda>e.
      sbind (slift (harness_review False blockers)) (\<lambda>review.
      sret (st\<lparr>es_phase := Some ''verify'', es_verification := Some v,
               es_verification_history := es_verification_history st @ [v],
               es_verification_snapshot_id := Some snap, es_review := Some review,
               es_batch_conflict := Some reason, es_previous_attempt_summary := Some reason,
               es_failure_reason := Some reason, es_failure_stage := Some ''verify'',
               es_events := es_events st @ events @ [e]\<rparr>))))"

text \<open>The part of the update that depends on the status of the verification.\<close>

definition verify_status_update :: "verification_result \<Rightarrow> evo_state \<Rightarrow> evo_state" where
  "verify_status_update v st =
     (if vr_status v = VIncomplete \<and> vr_incomplete_cause v = Some CauseBudget then
        let reason = or_else (vr_incomplete_reason v) ''run-level tool-call budget exhausted'' in
        st\<lparr>es_status := Some Failed, es_failure_class := Some FCBudget, es_failure_stage := Some ''verify'',
           es_failure_classes := es_failure_classes st @ [FCBudget],
           es_budget_failures := es_budget_failures st @ [reason], es_failure_reason := Some reason\<rparr>
      else if vr_status v = VIncomplete \<and> vr_incomplete_cause v = Some CauseExecution then
        st\<lparr>es_status := Some Failed, es_failure_class := Some FCInfrastructure, es_failure_stage := Some ''verify'',
           es_failure_reason := Some (or_else (vr_incomplete_reason v) ''verification command could not start'')\<rparr>
      else if vr_status v \<in> {VInfraError, VInconclusive} then
        st\<lparr>es_status := Some Failed, es_failure_class := Some FCInfrastructure, es_failure_stage := Some ''verify'',
           es_failure_reason := Some (or_else (vr_incomplete_reason v) (verification_status_str (vr_status v)))\<rparr>
      else if vr_status v = VUnavailable then
        st\<lparr>es_status := Some Failed, es_failure_class := Some FCRepair, es_failure_stage := Some ''verify'',
           es_failure_reason := vr_incomplete_reason v\<rparr>
      else if \<not> vr_passed v then
        st\<lparr>es_failure_stage := Some ''verify'',
           es_failure_reason := Some (or_else (vr_incomplete_reason v) ''verification failed'')\<rparr>
      else st\<lparr>es_failure_reason := None\<rparr>)"

definition verify_accepted ::
  "runtime \<Rightarrow> evo_state \<Rightarrow> verification_result \<Rightarrow> string \<Rightarrow> run_event list \<Rightarrow> (world, evo_state) io" where
  "verify_accepted rt st v snap events =
     (let batch = show_int (es_supervisor_batch st) in
      sbind (if vr_passed v then sbind (slift (harness_review True [])) (\<lambda>r. sret (Some r)) else sret None) (\<lambda>review.
      sbind (if \<not> vr_passed v \<and> vr_status v \<notin> {VInfraError, VInconclusive}
             then sbind (emit_event rt st ATTEMPT_FAILED None None (''verification:'' @ batch)
                    [(''kind'', JStr ''verification_failure''), (''reason'', JStr (not_passed_reason v)),
                     (''iteration'', JInt (es_supervisor_batch st)),
                     (''status'', JStr (verification_status_str (vr_status v)))]) (\<lambda>e. sret [e])
             else sret []) (\<lambda>ev1.
      sbind (emit_event rt st VERIFICATION_COMPLETED None None batch
             [(''verification'', json_verification v), (''snapshot_id'', JStr snap)]) (\<lambda>ev2.
      sret (verify_status_update v
        (st\<lparr>es_phase := Some ''verify'', es_verification := Some v,
            es_verification_history := es_verification_history st @ [v],
            es_verification_snapshot_id := Some snap, es_review := review,
            es_previous_attempt_summary := (if vr_passed v then es_previous_attempt_summary st else Some (not_passed_reason v)),
            es_events := es_events st @ events @ ev1 @ [ev2]\<rparr>))))))"

definition verify :: "runtime \<Rightarrow> evo_state \<Rightarrow> (world, evo_state) io" where
  "verify rt st =
     sbind (slift (case rt_official rt of
              Some (commands, _) \<Rightarrow> Inr ([], commands, ''official_image'')
            | None \<Rightarrow> rbind (build_verification_plan (raw_failed_commands st) (supplementary_of st)) (\<lambda>planned.
                Inr (planned, json_planned planned,
                     if list_ex (\<lambda>p. pc_source p = Mandatory) planned then ''harness'' else ''none'')))) (\<lambda>(planned, commands, oracle).
     sbind (snapshot_id rt (es_workspace st)) (\<lambda>snap0.
     sbind (emit_event rt st VERIFICATION_STARTED None None (show_int (es_supervisor_batch st))
       [(''commands'', commands), (''oracle_source'', JStr oracle), (''snapshot_id'', JStr snap0)]) (\<lambda>started.
     sbind (sget (\<lambda>w. rt_clock rt (w_tick w))) (\<lambda>started_at.
     sbind (snapshot_id rt (es_workspace st)) (\<lambda>snap.
     sbind (stry (run_verification rt st planned started_at [started])) (\<lambda>r.
     case r of
       Inl e \<Rightarrow> sbind (undo_candidate rt st) (\<lambda>_. sraise e)
     | Inr (v, events) \<Rightarrow>
         sbind (if vr_passed v then review_bypass rt (es_workspace st) else sret []) (\<lambda>blockers.
         if blockers \<noteq> [] then verify_rejected rt st v snap events blockers
         else verify_accepted rt st v snap events)))))))"

definition after_verify :: "evo_state \<Rightarrow> graph_node" where
  "after_verify st =
     (let v = es_verification st in
      if (case v of None \<Rightarrow> False | Some r \<Rightarrow> vr_status r \<in> {VInfraError, VInconclusive}) then FailedNode
      else if truthy (es_batch_conflict st) then Rollback
      else if (case v of None \<Rightarrow> False | Some r \<Rightarrow> vr_passed r) then Finalize
      else Rollback)"

definition add_failed_candidate :: "evo_state \<Rightarrow> failed_candidate_ref list" where
  "add_failed_candidate st =
     (case latest_result st of
        None \<Rightarrow> es_failed_candidates st
      | Some r \<Rightarrow>
          if truthy (wr_patch_artifact_ref r)
          then (let candidate_id = es_run_id st @ '':'' @ wr_task_id r @ '':'' @ show_int (es_supervisor_batch st)
                in if list_all (\<lambda>c. fc_candidate_id c \<noteq> candidate_id) (es_failed_candidates st)
                   then es_failed_candidates st @
                     [\<lparr>fc_candidate_id = candidate_id, fc_task_id = wr_task_id r, fc_batch = es_supervisor_batch st,
                       fc_baseline_snapshot_id = or_else (wr_base_revision r) [],
                       fc_artifact_ref = the (wr_patch_artifact_ref r), fc_changed_files = wr_changed_files r\<rparr>]
                   else es_failed_candidates st)
          else es_failed_candidates st)"

definition rollback_files :: "runtime \<Rightarrow> evo_state \<Rightarrow> (world, unit) io" where
  "rollback_files rt st =
     (if es_phase st = Some ''apply_candidate'' \<and> es_verification st = None \<and> es_attempt_written st \<noteq> None
      then sbind (restore_writes (es_workspace st) (es_attempt_baseline st) (the (es_attempt_written st))) (\<lambda>_. sret ())
      else undo_candidate rt st)"

definition rollback :: "runtime \<Rightarrow> evo_state \<Rightarrow> (world, evo_state) io" where
  "rollback rt st =
     (let call_id = ''rollback:'' @ show_int (es_supervisor_batch st) in
      sbind (emit_event rt st TOOL_CALL (Some ''harness'') None call_id
        [(''call_id'', JStr call_id), (''tool_name'', JStr ''rollback''), (''budget_scope'', JStr ''cleanup'')]) (\<lambda>e1.
      sbind (stry (rollback_files rt st)) (\<lambda>r.
      case r of
        Inl e \<Rightarrow>
          sbind (emit_event rt st TOOL_RESULT (Some ''harness'') None call_id
            [(''call_id'', JStr call_id), (''tool_name'', JStr ''rollback''), (''success'', JBool False),
             (''error'', JStr (exc_text e))]) (\<lambda>e2.
          sret (st\<lparr>es_phase := Some ''rollback'', es_status := Some Failed, es_failure_class := Some FCInfrastructure,
                   es_failure_stage := Some ''rollback'',
                   es_failure_reason := Some (''rollback failed: '' @ exc_str e),
                   es_events := es_events st @ [e1, e2]\<rparr>))
      | Inr _ \<Rightarrow>
          sbind (emit_event rt st TOOL_RESULT (Some ''harness'') None call_id
            [(''call_id'', JStr call_id), (''tool_name'', JStr ''rollback''), (''success'', JBool True)]) (\<lambda>e2.
          sbind (snapshot_id rt (es_workspace st)) (\<lambda>i.
          let st1 = (if truthy (es_batch_conflict st)
                     then st\<lparr>es_verification := None, es_verification_snapshot_id := None, es_review := None\<rparr> else st)
          in sret (st1\<lparr>es_phase := Some ''rollback'', es_failed_candidates := add_failed_candidate st,
                es_integrated_snapshot_id := Some i,
                es_failure_reason := or_opt (es_failure_reason st) (es_batch_conflict st),
                es_failure_stage := Some (or_else (es_failure_stage st) (or_else (es_phase st) ''verify'')),
                es_batch_conflict := None, es_events := es_events st @ [e1, e2]\<rparr>))))))"

definition after_rollback :: "runtime \<Rightarrow> evo_state \<Rightarrow> graph_node" where
  "after_rollback rt st =
     (if es_status st = Some Failed then FailedNode
      else if es_failure_classes st \<noteq> [] \<and> last (es_failure_classes st) \<in> {FCModel, FCInfrastructure} then FailedNode
      else if es_supervisor_batch st < rt_max_supervisor_batches rt then Supervise
      else FailedNode)"

definition finalize :: "runtime \<Rightarrow> evo_state \<Rightarrow> (world, evo_state) io" where
  "finalize rt st =
     sbind (case es_decision st of
              None \<Rightarrow> sret True
            | Some d \<Rightarrow> if sd_action d = Stop then formal_success rt st else sret True) (\<lambda>ok.
     if \<not> ok
     then persist_run_outcome rt st False
            (Some (or_else (sd_stop_reason (the (es_decision st))) ''supervisor stopped without verified success'')) (Some FCRepair)
     else if rt_defer_success_learning rt
     then sret (st\<lparr>es_phase := Some ''finalize'', es_status := Some Success, es_failure_reason := None,
                   es_learning_deferred := True\<rparr>)
     else persist_run_outcome rt st True None None)"

definition failed_node :: "runtime \<Rightarrow> evo_state \<Rightarrow> (world, evo_state) io" where
  "failed_node rt st =
     (let reason0 = or_else (es_failure_reason st) (or_else (es_batch_conflict st) ''orchestration budget exhausted'');
          reason = (case es_decision st of
                      None \<Rightarrow> reason0
                    | Some d \<Rightarrow> if sd_action d = Stop then or_else (sd_stop_reason d) reason0 else reason0);
          fc = resolve_failure_class st False
      in if rt_defer_success_learning rt \<and> fc = Some FCInfrastructure
         then sret (st\<lparr>es_phase := Some ''failed'', es_status := Some Failed, es_failure_reason := Some reason,
                       es_failure_class := fc, es_failure_stage := or_opt (es_failure_stage st) (es_phase st),
                       es_learning_deferred := True\<rparr>)
         else persist_run_outcome rt st False (Some reason) fc)"

section \<open>The graph\<close>

text \<open>One super-step: the node runs, then its outgoing edge is chosen.\<close>

definition run_node :: "runtime \<Rightarrow> graph_node \<Rightarrow> evo_state \<Rightarrow> (world, evo_state) io" where
  "run_node rt n st =
     (case n of
        Bootstrap \<Rightarrow> bootstrap rt st | RetrieveContext \<Rightarrow> retrieve_context rt st | Supervise \<Rightarrow> supervise rt st
      | PrepareTask \<Rightarrow> prepare_task rt st | WorkerNode \<Rightarrow> worker rt st | Approval \<Rightarrow> approval rt st
      | ApplyCandidate \<Rightarrow> apply_candidate rt st | Verify \<Rightarrow> verify rt st | Rollback \<Rightarrow> rollback rt st
      | Finalize \<Rightarrow> finalize rt st | FailedNode \<Rightarrow> failed_node rt st | End \<Rightarrow> sret st)"

definition next_node :: "runtime \<Rightarrow> graph_node \<Rightarrow> evo_state \<Rightarrow> (world, graph_node) io" where
  "next_node rt n st =
     (case n of
        Bootstrap \<Rightarrow> sret RetrieveContext | RetrieveContext \<Rightarrow> sret Supervise | Supervise \<Rightarrow> after_supervise rt st
      | PrepareTask \<Rightarrow> sret (after_prepare rt st) | WorkerNode \<Rightarrow> sret (after_worker st)
      | Approval \<Rightarrow> sret (after_approval st) | ApplyCandidate \<Rightarrow> sret (after_apply st)
      | Verify \<Rightarrow> sret (after_verify st) | Rollback \<Rightarrow> sret (after_rollback rt st)
      | Finalize \<Rightarrow> sret End | FailedNode \<Rightarrow> sret End | End \<Rightarrow> sret End)"

definition super_step :: "runtime \<Rightarrow> graph_node \<Rightarrow> evo_state \<Rightarrow> (world, graph_node \<times> evo_state) io" where
  "super_step rt n st = sbind (run_node rt n st) (\<lambda>st'. sbind (next_node rt n st') (\<lambda>n'. sret (n', st')))"

text \<open>
  The configurations of a run. A step is a super-step that returned; one that raised ends the run (the
  checkpoint keeps the configuration before it).
\<close>

inductive step :: "runtime \<Rightarrow> graph_node \<times> evo_state \<times> world \<Rightarrow> graph_node \<times> evo_state \<times> world \<Rightarrow> bool" for rt where
  step: "n \<noteq> End \<Longrightarrow> super_step rt n st w = (w', Inr (n', st')) \<Longrightarrow> step rt (n, st, w) (n', st', w')"

inductive_cases stepE: "step rt (n, st, w) c"

inductive reachable :: "runtime \<Rightarrow> evo_state \<times> world \<Rightarrow> graph_node \<times> evo_state \<times> world \<Rightarrow> bool" for rt init where
  r_start: "reachable rt init (Bootstrap, init)"
| r_step: "reachable rt init c \<Longrightarrow> step rt c c' \<Longrightarrow> reachable rt init c'"

text \<open>\<open>graph.ainvoke\<close> with a bound on the number of super-steps: the outcome, or \<open>None\<close> when the bound is met.\<close>

fun run_graph :: "nat \<Rightarrow> runtime \<Rightarrow> graph_node \<Rightarrow> evo_state \<Rightarrow> world \<Rightarrow> (world \<times> evo_state res) option" where
  "run_graph 0 rt n st w = (if n = End then Some (w, Inr st) else None)"
| "run_graph (Suc k) rt n st w =
     (if n = End then Some (w, Inr st)
      else case super_step rt n st w of
             (w', Inl e) \<Rightarrow> Some (w', Inl e)
           | (w', Inr (n', st')) \<Rightarrow> run_graph k rt n' st' w')"

end
