(* ===== verification/GraphProps.thy ===== *)
theory GraphProps
  imports Graph
begin

text \<open>
  Properties of the orchestration graph: what each node does to the fields the routers read, the
  invariant of the reachable configurations, termination, and what a successful run has behind it.
\<close>

section \<open>What the nodes keep\<close>

text \<open>The fields that decide how a run goes on and that most nodes leave alone.\<close>

definition same_run :: "evo_state \<Rightarrow> evo_state \<Rightarrow> bool" where
  "same_run st st' \<longleftrightarrow> es_supervisor_batch st' = es_supervisor_batch st \<and> es_verification st' = es_verification st \<and>
     es_ci_failure st' = es_ci_failure st \<and> es_workspace st' = es_workspace st \<and> es_run_id st' = es_run_id st \<and>
     es_decision st' = es_decision st"

lemma bootstrap_same: "returns (same_run st) (bootstrap rt st)"
  unfolding bootstrap_def by (intro returns_rules) (simp add: same_run_def)

lemma retrieve_context_same: "returns (same_run st) (retrieve_context rt st)"
  unfolding retrieve_context_def by (intro returns_rules) (simp add: same_run_def)

lemma prepare_dispatch_same: "returns (same_run st) (prepare_dispatch rt st task)"
  unfolding prepare_dispatch_def Let_def
  by (intro returns_rules) (simp_all add: same_run_def prepare_failed_def)

lemma prepare_task_same: "returns (same_run st) (prepare_task rt st)"
  unfolding prepare_task_def Let_def
  by (intro returns_rules prepare_dispatch_same) (simp_all add: same_run_def prepare_failed_def)

lemma worker_done_same: "returns (same_run st) (worker_done rt st task context run)"
  unfolding worker_done_def Let_def
  by (intro returns_rules) (simp add: same_run_def prepare_failed_def)

lemma worker_same: "returns (same_run st) (worker rt st)"
  unfolding worker_def Let_def
  by (intro returns_rules worker_done_same) (simp_all add: same_run_def prepare_failed_def)

lemma approval_same: "returns (same_run st) (approval rt st)"
  unfolding approval_def by (intro returns_rules) (simp_all add: same_run_def)

lemma make_apply_plan_same:
  "returns (\<lambda>r. case r of Inl st' \<Rightarrow> same_run st st' | Inr p \<Rightarrow> True) (make_apply_plan rt st output plan_file)"
  unfolding make_apply_plan_def Let_def
  by (intro returns_bind returns_bind_strong
      [where Q = "\<lambda>r. case r of Inl st' \<Rightarrow> same_run st st' | Inr p \<Rightarrow> True"] returns_rules)
    (simp_all add: same_run_def apply_conflict_def)

lemma apply_edits_of_plan_same: "returns (same_run st) (apply_edits_of_plan rt st output agent_id operation_id baseline)"
  by (auto simp: returns_def apply_edits_of_plan_def sbind_Inr_iff same_run_def apply_conflict_def
      split: prod.splits option.splits if_splits)


lemma apply_candidate_same: "returns (same_run st) (apply_candidate rt st)"
proof -
  let ?Q = "\<lambda>r. case r of Inl st' \<Rightarrow> same_run st st' | Inr p \<Rightarrow> True"
  have plan: "returns ?Q (case loaded of None \<Rightarrow> make_apply_plan rt st out f | Some p \<Rightarrow> sret (Inr (Some p)))"
    for loaded out f
    by (intro returns_rules make_apply_plan_same) simp_all
  show ?thesis unfolding apply_candidate_def Let_def
    by (intro returns_bind_strong [OF plan] returns_rules apply_edits_of_plan_same)
      (simp_all add: same_run_def apply_conflict_def)
qed

section \<open>The supervisor's batches\<close>

lemma classified_failure_failed: "returns (\<lambda>st'. es_status st' = Some Failed) (classified_failure e ph b st)"
  unfolding classified_failure_def Let_def by (intro returns_rules) simp_all

definition next_batch :: "runtime \<Rightarrow> evo_state \<Rightarrow> evo_state \<Rightarrow> bool" where
  "next_batch rt st st' \<longleftrightarrow> es_status st' = Some Failed \<or>
     es_supervisor_batch st' = es_supervisor_batch st + 1 \<and> es_supervisor_batch st' \<le> rt_max_supervisor_batches rt \<and>
     es_verification st' = es_verification st"

lemma classified_failure_next: "returns (next_batch rt st) (classified_failure e ph b st)"
  using classified_failure_failed unfolding returns_def next_batch_def by fast

lemma supervise_next: "returns (next_batch rt st) (supervise rt st)"
  unfolding supervise_def supervise_done_def Let_def
  by (intro returns_rules classified_failure_next) (simp_all add: next_batch_def)

section \<open>Verification, rollback and the terminal nodes\<close>

text \<open>
  What stands behind a passed verification of the service: there was a failing command to check, and
  every check of the plan was executed and ended with exit code 0 before its timeout.
\<close>

definition checked :: "evo_state \<Rightarrow> verification_result \<Rightarrow> bool" where
  "checked st v \<longleftrightarrow> failed_commands (es_ci_failure st) \<noteq> [] \<and>
     (\<exists>planned. build_verification_plan (raw_failed_commands st) (supplementary_of st) = Inr planned \<and>
        map result_sig (vr_commands v) = map plan_sig planned) \<and>
     (\<forall>c \<in> set (vr_commands v). vc_executed c \<and> vc_exit_code c = 0 \<and> \<not> vc_timed_out c)"

lemma run_verification_checked:
  assumes "run_verification rt st planned t evs w = (w', Inr (v, events))" and "rt_official rt = None"
    and "build_verification_plan (raw_failed_commands st) (supplementary_of st) = Inr planned" and "vr_passed v"
  shows "checked st v"
proof -
  obtain b w0 where rest: "(case verification_run (verify_env_of rt st planned t) (es_workspace st)
        (raw_failed_commands st) (supplementary_of st) (Some b) True (w0, evs) of
       (r, b', w1, events') \<Rightarrow> sbind (case b' of None \<Rightarrow> sret () | Some bb \<Rightarrow> store_budget st bb) (\<lambda>_.
          sbind (slift r) (\<lambda>v. sret (v, events'))) w1) = (w', Inr (v, events))"
    using assms(1,2) by (simp add: run_verification_def sbind_Inr_iff [of "run_budget st"]) blast
  obtain r b' w1 events' where run: "verification_run (verify_env_of rt st planned t) (es_workspace st)
        (raw_failed_commands st) (supplementary_of st) (Some b) True (w0, evs) = (r, b', w1, events')"
    by (metis prod_cases3)
  with rest have "r = Inr v" by (auto simp: sbind_Inr_iff)
  note run = run [unfolded this]
  show ?thesis
    using passed_result_iff [OF assms(3) run] assms(3,4) by (auto simp: checked_def raw_failed_commands_def)
qed

definition accepted :: "runtime \<Rightarrow> evo_state \<Rightarrow> bool" where
  "accepted rt st \<longleftrightarrow> (\<exists>v r. es_verification st = Some v \<and> vr_passed v \<and> es_review st = Some r \<and> rv_accepted r \<and>
     (rt_official rt = None \<longrightarrow> checked st v))"

definition passing :: "evo_state \<Rightarrow> bool" where
  "passing st \<longleftrightarrow> (case es_verification st of None \<Rightarrow> False | Some v \<Rightarrow> vr_passed v)"

lemma passing_same: "same_run st st' \<Longrightarrow> passing st' = passing st"
  by (simp add: same_run_def passing_def)

lemma join_nonempty: "xs \<noteq> [] \<Longrightarrow> [] \<notin> set xs \<Longrightarrow> join sep xs \<noteq> []"
  by (induction sep xs rule: join.induct) auto

lemma harness_review_simps: "harness_review b bl = Inr r \<Longrightarrow> rv_accepted r = b"
  by (auto simp: harness_review_def mk_review_result_def normalize_review_status_def
      unperformed_review_is_not_accepted_def split: if_splits)

lemma status_update_fields [simp]:
  "es_supervisor_batch (verify_status_update v st) = es_supervisor_batch st"
  "es_verification (verify_status_update v st) = es_verification st"
  "es_review (verify_status_update v st) = es_review st"
  "es_batch_conflict (verify_status_update v st) = es_batch_conflict st"
  "es_ci_failure (verify_status_update v st) = es_ci_failure st"
  "es_fixer_output (verify_status_update v st) = es_fixer_output st"
  "es_decision (verify_status_update v st) = es_decision st"
  by (simp_all add: verify_status_update_def Let_def)

lemma bypass_messages_nonempty: "[] \<notin> set (contains_workspace_review_bypass decode d u fs ws)"
proof -
  have "[] \<notin> set (diff_blockers lines)" for lines by (auto simp: diff_blockers_def)
  moreover have "[] \<notin> set (untracked_blockers decode fs ws rows)" for rows
    by (auto simp: untracked_blockers_def Let_def split: if_splits sum.splits option.splits node.splits)
  ultimately show ?thesis by (simp add: contains_workspace_review_bypass_def split: option.splits)
qed

text \<open>After \<open>verify\<close> a passed verification is accepted or has a conflict that leads to the rollback.\<close>

definition verify_outcome :: "runtime \<Rightarrow> evo_state \<Rightarrow> evo_state \<Rightarrow> bool" where
  "verify_outcome rt st st' \<longleftrightarrow> es_supervisor_batch st' = es_supervisor_batch st \<and> es_decision st' = es_decision st \<and>
     (passing st' \<longrightarrow> truthy (es_batch_conflict st') \<or> accepted rt st')"

lemma review_bypass_messages: "returns (\<lambda>bl. [] \<notin> set bl) (review_bypass rt ws)"
  by (auto simp: returns_def review_bypass_def on_fs_def sfocus_def sbind_Inr_iff bypass_messages_nonempty
      split: prod.splits)

lemma verify_rejected_outcome:
  assumes "blockers \<noteq> []" and "[] \<notin> set blockers"
  shows "returns (verify_outcome rt st) (verify_rejected rt st v snap events blockers)"
  unfolding verify_rejected_def Let_def
  by (intro returns_rules) (simp add: verify_outcome_def join_nonempty [OF assms] truthy_def)

lemma verify_accepted_outcome:
  assumes "rt_official rt = None \<Longrightarrow> vr_passed v \<Longrightarrow> checked st v"
  shows "returns (verify_outcome rt st) (verify_accepted rt st v snap events)"
proof -
  have review: "returns (\<lambda>r. vr_passed v \<longrightarrow> (\<exists>x. r = Some x \<and> rv_accepted x))
      (if vr_passed v then sbind (slift (harness_review True [])) (\<lambda>r. sret (Some r)) else sret None)"
    by (auto simp: returns_def sbind_Inr_iff harness_review_simps)
  show ?thesis unfolding verify_accepted_def Let_def
    by (intro returns_bind_strong [OF review] returns_rules)
      (use assms in \<open>auto simp: verify_outcome_def passing_def accepted_def checked_def raw_failed_commands_def supplementary_of_def\<close>)
qed

lemma verify_outcome: "returns (verify_outcome rt st) (verify rt st)"
proof (rule returnsI)
  fix w w' st' assume "verify rt st w = (w', Inr st')"
  then obtain planned commands ora w1 r w2 t started snap where
    plan: "(case rt_official rt of Some (c, _) \<Rightarrow> Inr ([], c, ''official_image'')
            | None \<Rightarrow> rbind (build_verification_plan (raw_failed_commands st) (supplementary_of st)) (\<lambda>planned.
                Inr (planned, json_planned planned,
                     if list_ex (\<lambda>p. pc_source p = Mandatory) planned then ''harness'' else ''none''))) = Inr (planned, commands, ora)"
    and run: "run_verification rt st planned t [started] w1 = (w2, r)"
    and rest: "(case r of Inl e \<Rightarrow> sbind (undo_candidate rt st) (\<lambda>_. sraise e)
       | Inr (v, events) \<Rightarrow>
           sbind (if vr_passed v then review_bypass rt (es_workspace st) else sret []) (\<lambda>blockers.
           if blockers \<noteq> [] then verify_rejected rt st v snap events blockers
           else verify_accepted rt st v snap events)) w2 = (w', Inr st')"
    unfolding verify_def by (auto simp: sbind_Inr_iff split: prod.splits)
  obtain v events where r: "r = Inr (v, events)" using rest by (cases r) (auto simp: sbind_Inr_iff)
  have "checked st v" if "rt_official rt = None" "vr_passed v"
    using run_verification_checked [OF run [unfolded r] that(1) _ that(2)] plan that by (auto simp: rbind_Inr_iff)
  note ok = verify_accepted_outcome [OF this]
  have "returns (verify_outcome rt st) (sbind (if vr_passed v then review_bypass rt (es_workspace st) else sret []) (\<lambda>blockers.
           if blockers \<noteq> [] then verify_rejected rt st v snap events blockers
           else verify_accepted rt st v snap events))"
    by (rule returns_bind_strong [where Q = "\<lambda>bl. [] \<notin> set bl"])
      (auto intro!: returns_rules review_bypass_messages verify_rejected_outcome ok)
  then show "verify_outcome rt st st'" using rest unfolding r by (simp add: returns_def)
qed

lemma rollback_outcome:
  "returns (\<lambda>st'. es_supervisor_batch st' = es_supervisor_batch st \<and>
     (es_status st' = Some Failed \<or>
      es_verification st' = (if truthy (es_batch_conflict st) then None else es_verification st))) (rollback rt st)"
  unfolding rollback_def Let_def by (intro returns_rules) simp_all

lemma persist_outcome:
  "returns (\<lambda>st'. es_status st' = Some (if ok then Success else Failed) \<and> same_run st st' \<and>
     es_review st' = es_review st \<and> es_fixer_output st' = es_fixer_output st) (persist_run_outcome rt st ok reason fc)"
  unfolding persist_run_outcome_def Let_def by (intro returns_rules) (simp add: same_run_def)

lemma failed_node_outcome: "returns (\<lambda>st'. es_status st' = Some Failed \<and> same_run st st') (failed_node rt st)"
  unfolding failed_node_def Let_def
  using persist_outcome [where ok = False] by (intro returns_rules) (auto simp: returns_def same_run_def)

definition stopping :: "evo_state \<Rightarrow> bool" where
  "stopping st \<longleftrightarrow> (case es_decision st of None \<Rightarrow> False | Some d \<Rightarrow> sd_action d = Stop)"

lemma finalize_outcome:
  "returns (\<lambda>st'. same_run st st' \<and> es_review st' = es_review st \<and> es_fixer_output st' = es_fixer_output st \<and>
      es_status st' \<in> {Some Success, Some Failed} \<and> (\<not> stopping st \<longrightarrow> es_status st' = Some Success)) (finalize rt st)"
proof -
  have stop: "returns (\<lambda>ok. \<not> stopping st \<longrightarrow> ok) (case es_decision st of None \<Rightarrow> sret True
      | Some d \<Rightarrow> if sd_action d = Stop then formal_success rt st else sret True)"
    by (auto simp: stopping_def returns_def split: option.splits)
  show ?thesis unfolding finalize_def
    by (intro returns_bind_strong [OF stop] returns_rules)
      (use persist_outcome [where ok = True] persist_outcome [where ok = False] in \<open>auto simp: returns_def same_run_def\<close>)
qed

section \<open>Steps\<close>

text \<open>What a super-step leads to, node by node.\<close>

lemma super_step_iff:
  "super_step rt n st w = (w', Inr (n', st')) \<longleftrightarrow>
     (\<exists>w1. run_node rt n st w = (w1, Inr st') \<and> next_node rt n st' w1 = (w', Inr n'))"
  by (auto simp: super_step_def sbind_Inr_iff)

lemma formal_success_false: "\<not> passing st \<Longrightarrow> returns (\<lambda>ok. \<not> ok) (formal_success rt st)"
  unfolding formal_success_def by (intro returns_rules) (auto simp: passing_def split: option.splits)

lemma after_supervise_cases:
  assumes "after_supervise rt st w = (w', Inr n)"
  shows "n = FailedNode \<or>
    es_status st \<noteq> Some Failed \<and> (n = Finalize \<and> passing st \<or> n = PrepareTask)"
proof (cases "passing st")
  case False
  note no = returnsD [OF formal_success_false [OF this]]
  show ?thesis using assms
    by (auto simp: after_supervise_def sbind_Inr_iff split: if_splits option.splits dest: no)
qed (use assms in \<open>auto simp: after_supervise_def sbind_Inr_iff split: if_splits option.splits\<close>)

text \<open>The measure that every super-step decreases.\<close>

fun rank :: "runtime \<Rightarrow> graph_node \<Rightarrow> evo_state \<Rightarrow> nat" where
  "rank rt n st = (let k = nat (rt_max_supervisor_batches rt - es_supervisor_batch st) in
     case n of End \<Rightarrow> 0 | Finalize \<Rightarrow> 1 | FailedNode \<Rightarrow> 1 | Supervise \<Rightarrow> 8 * k + 2 | RetrieveContext \<Rightarrow> 8 * k + 3
     | Bootstrap \<Rightarrow> 8 * k + 4 | Rollback \<Rightarrow> 8 * k + 4 | Verify \<Rightarrow> 8 * k + 5 | ApplyCandidate \<Rightarrow> 8 * k + 6
     | Approval \<Rightarrow> 8 * k + 7 | WorkerNode \<Rightarrow> 8 * k + 8 | PrepareTask \<Rightarrow> 8 * k + 9)"

lemmas node_facts = bootstrap_same retrieve_context_same prepare_task_same worker_same approval_same
  apply_candidate_same supervise_next verify_outcome rollback_outcome finalize_outcome failed_node_outcome

lemmas node_factsD = node_facts [THEN returnsD]

lemma step_rank:
  assumes "step rt (n, st, w) (n', st', w')"
  shows "rank rt n' st' < rank rt n st"
proof -
  obtain w1 where run: "n \<noteq> End" "run_node rt n st w = (w1, Inr st')" "next_node rt n st' w1 = (w', Inr n')"
    using assms by (auto elim!: stepE simp: super_step_iff)
  show ?thesis
  proof (cases n)
    case Supervise
    then have batch: "next_batch rt st st'" and "after_supervise rt st' w1 = (w', Inr n')"
      using run node_factsD(7) by (auto simp: run_node_def next_node_def)
    with after_supervise_cases [OF this(2)] Supervise show ?thesis
      by (auto simp: next_batch_def Let_def)
  qed (use run in \<open>auto simp: run_node_def next_node_def same_run_def verify_outcome_def Let_def
     after_prepare_def after_worker_def after_approval_def after_apply_def after_verify_def after_rollback_def
     dest!: node_factsD split: if_splits option.splits\<close>)
qed

section \<open>Termination\<close>

text \<open>Systems whose every step decreases a number.\<close>

locale ranked_steps =
  fixes step :: "'c \<Rightarrow> 'c \<Rightarrow> bool" and rank :: "'c \<Rightarrow> nat"
  assumes decreases: "step c c' \<Longrightarrow> rank c' < rank c"
begin

lemma steps_bounded: "(step ^^ n) c c' \<Longrightarrow> n + rank c' \<le> rank c"
proof (induction n arbitrary: c')
  case (Suc n)
  then obtain d where "(step ^^ n) c d" "step d c'" by auto
  with Suc.IH [of d] decreases [of d c'] show ?case by simp
qed simp

lemma no_infinite_run: "\<not> (\<forall>i. step (f i) (f (Suc i)))"
proof
  assume all: "\<forall>i. step (f i) (f (Suc i))"
  have "(step ^^ n) (f 0) (f n)" for n by (induction n) (use all in auto)
  from steps_bounded [OF this [of "Suc (rank (f 0))"]] show False by simp
qed

end

interpretation graph_rank: ranked_steps "step rt" "\<lambda>(n, st, w). rank rt n st" for rt
proof
  fix c c' assume "step rt c c'"
  then show "(case c' of (n, st, w) \<Rightarrow> rank rt n st) < (case c of (n, st, w) \<Rightarrow> rank rt n st)"
    by (cases c, cases c') (simp add: step_rank del: rank.simps)
qed

lemma run_graph_enough: "rank rt n st \<le> k \<Longrightarrow> run_graph k rt n st w \<noteq> None"
proof (induction k arbitrary: n st w)
  case 0
  then show ?case by (auto simp: Let_def split: graph_node.splits)
next
  case (Suc k)
  show ?case
  proof (cases "n = End")
    case False
    obtain w' r where s: "super_step rt n st w = (w', r)" by (cases "super_step rt n st w")
    show ?thesis
    proof (cases r)
      case (Inr c)
      then obtain n' st' where c: "r = Inr (n', st')" by (cases c) auto
      have "step rt (n, st, w) (n', st', w')" using False s c by (auto intro: step)
      with Suc.prems have "rank rt n' st' \<le> k" using step_rank by fastforce
      from Suc.IH [OF this] show ?thesis using False s c by simp
    qed (use s False in simp)
  qed simp
qed

section \<open>The invariant\<close>

definition attempting :: "graph_node \<Rightarrow> bool" where
  "attempting n \<longleftrightarrow> n \<in> {PrepareTask, WorkerNode, Approval, ApplyCandidate, Verify}"

definition graph_inv :: "runtime \<Rightarrow> graph_node \<times> evo_state \<times> world \<Rightarrow> bool" where
  "graph_inv rt c = (case c of (n, st, w) \<Rightarrow>
     (case n of
        Finalize \<Rightarrow> accepted rt st \<and> \<not> stopping st
      | Rollback \<Rightarrow> passing st \<longrightarrow> truthy (es_batch_conflict st)
      | FailedNode \<Rightarrow> True
      | End \<Rightarrow> es_status st \<in> {Some Success, Some Failed} \<and> (es_status st = Some Success \<longrightarrow> accepted rt st)
      | _ \<Rightarrow> \<not> passing st \<and> (attempting n \<longrightarrow> \<not> stopping st)))"

lemma after_supervise_stopping:
  "after_supervise rt st w = (w', Inr PrepareTask) \<Longrightarrow> \<not> stopping st"
  by (auto simp: after_supervise_def sbind_Inr_iff stopping_def split: if_splits option.splits)

lemma accepted_kept:
  assumes "same_run st st'" "es_review st' = es_review st" "es_fixer_output st' = es_fixer_output st" "accepted rt st"
  shows "accepted rt st'"
  using assms by (auto simp: accepted_def same_run_def checked_def raw_failed_commands_def supplementary_of_def)

lemma graph_inv_step:
  assumes "graph_inv rt c" and "step rt c c'"
  shows "graph_inv rt c'"
proof -
  obtain n st w n' st' w' where c: "c = (n, st, w)" "c' = (n', st', w')" by (cases c, cases c') auto
  obtain w1 where run: "n \<noteq> End" "run_node rt n st w = (w1, Inr st')" "next_node rt n st' w1 = (w', Inr n')"
    using assms(2) c by (auto elim!: stepE simp: super_step_iff)
  note inv = assms(1) [unfolded graph_inv_def c]
  show ?thesis
  proof (cases n)
    case Supervise
    then have batch: "next_batch rt st st'" and "after_supervise rt st' w1 = (w', Inr n')"
      using run node_factsD(7) by (auto simp: run_node_def next_node_def)
    with after_supervise_cases [OF this(2)] after_supervise_stopping [of rt st' w1 w'] Supervise inv c show ?thesis
      by (auto simp: next_batch_def graph_inv_def attempting_def passing_def)
  next
    case Finalize
    then show ?thesis using run inv c accepted_kept [of st st' rt]
      by (auto simp: run_node_def next_node_def graph_inv_def dest!: node_factsD(10))
  qed (use run inv c in \<open>auto simp: run_node_def next_node_def same_run_def verify_outcome_def graph_inv_def
     after_prepare_def after_worker_def after_approval_def after_apply_def after_verify_def after_rollback_def
     passing_def stopping_def attempting_def dest!: node_factsD split: if_splits option.splits\<close>)
qed

lemma reachable_iff: "reachable rt (st, w) c \<longleftrightarrow> (step rt)\<^sup>*\<^sup>* (Bootstrap, st, w) c"
proof
  assume "reachable rt (st, w) c"
  then show "(step rt)\<^sup>*\<^sup>* (Bootstrap, st, w) c"
    by (induction rule: reachable.induct) (auto intro: rtranclp.rtrancl_into_rtrancl)
next
  assume "(step rt)\<^sup>*\<^sup>* (Bootstrap, st, w) c"
  then show "reachable rt (st, w) c"
    by (induction rule: rtranclp_induct) (auto intro: reachable.intros)
qed

lemma run_graph_steps:
  "run_graph k rt n st w = Some (w', Inr st') \<Longrightarrow> (step rt)\<^sup>*\<^sup>* (n, st, w) (End, st', w')"
proof (induction k arbitrary: n st w)
  case (Suc k)
  show ?case
  proof (cases "n = End")
    case False
    with Suc.prems obtain n1 st1 w1 where s: "super_step rt n st w = (w1, Inr (n1, st1))"
      "run_graph k rt n1 st1 w1 = Some (w', Inr st')"
      by (auto split: prod.splits sum.splits)
    have "step rt (n, st, w) (n1, st1, w1)" using False s(1) by (rule step)
    then show ?thesis using Suc.IH [OF s(2)] by (rule converse_rtranclp_into_rtranclp)
  qed (use Suc.prems in simp)
qed (auto split: if_splits)

section \<open>Refinement of the protocol\<close>

text \<open>
  Simulation with stuttering: a system whose steps, in the states of an invariant, are steps of a
  specification or change nothing the specification sees.
\<close>

locale stuttering_simulation =
  fixes cstep :: "'c \<Rightarrow> 'c \<Rightarrow> bool" and astep :: "'a \<Rightarrow> 'a \<Rightarrow> bool" and abs :: "'c \<Rightarrow> 'a" and inv :: "'c \<Rightarrow> bool"
  assumes inv_step: "inv c \<Longrightarrow> cstep c c' \<Longrightarrow> inv c'"
    and simulates: "inv c \<Longrightarrow> cstep c c' \<Longrightarrow> abs c' = abs c \<or> astep (abs c) (abs c')"
begin

lemma inv_steps: "cstep\<^sup>*\<^sup>* c c' \<Longrightarrow> inv c \<Longrightarrow> inv c'"
  by (induction rule: rtranclp_induct) (auto intro: inv_step)

lemma simulates_steps: "cstep\<^sup>*\<^sup>* c c' \<Longrightarrow> inv c \<Longrightarrow> astep\<^sup>*\<^sup>* (abs c) (abs c')"
proof (induction rule: rtranclp_induct)
  case (step d e)
  with simulates [OF inv_steps [OF step.hyps(1) step.prems] step.hyps(2)] show ?case
    by (auto intro: rtranclp.rtrancl_into_rtrancl)
qed simp

end

text \<open>
  The protocol a run follows, as the specification sees it: with \<open>k\<close> batches left the supervisor plans;
  a plan takes one batch and opens an attempt; an attempt goes back to planning, is undone or closes
  the run; what is undone goes back to planning or closes the run without success. The result is
  the one the run was closed with.
\<close>

datatype protocol = Planning nat | Attempting nat | Undoing nat | Closing bool | Closed bool

inductive protocol_step :: "protocol \<Rightarrow> protocol \<Rightarrow> bool" where
  p_dispatch: "protocol_step (Planning (Suc k)) (Attempting k)"
| p_give_up: "protocol_step (Planning k) (Closing False)"
| p_replan: "protocol_step (Attempting k) (Planning k)"
| p_undo: "protocol_step (Attempting k) (Undoing k)"
| p_accept: "protocol_step (Attempting k) (Closing True)"
| p_reject: "protocol_step (Attempting k) (Closing False)"
| p_undone: "protocol_step (Undoing k) (Planning k)"
| p_abort: "protocol_step (Undoing k) (Closing False)"
| p_close: "protocol_step (Closing b) (Closed b)"

code_pred protocol_step .

inductive_simps protocol_step_simps [simp]:
  "protocol_step (Planning k) p" "protocol_step (Attempting k) p" "protocol_step (Undoing k) p"
  "protocol_step (Closing b) p" "protocol_step (Closed b) p"

definition protocol_of :: "runtime \<Rightarrow> graph_node \<times> evo_state \<times> world \<Rightarrow> protocol" where
  "protocol_of rt c = (case c of (n, st, w) \<Rightarrow>
     let k = nat (rt_max_supervisor_batches rt - es_supervisor_batch st) in
     (case n of Finalize \<Rightarrow> Closing True | FailedNode \<Rightarrow> Closing False | End \<Rightarrow> Closed (es_status st = Some Success)
      | Rollback \<Rightarrow> Undoing k | _ \<Rightarrow> if attempting n then Attempting k else Planning k))"

lemma graph_simulates:
  assumes "graph_inv rt c" and "step rt c c'"
  shows "protocol_of rt c' = protocol_of rt c \<or> protocol_step (protocol_of rt c) (protocol_of rt c')"
proof -
  obtain n st w n' st' w' where c: "c = (n, st, w)" "c' = (n', st', w')" by (cases c, cases c') auto
  obtain w1 where run: "n \<noteq> End" "run_node rt n st w = (w1, Inr st')" "next_node rt n st' w1 = (w', Inr n')"
    using assms(2) c by (auto elim!: stepE simp: super_step_iff)
  note inv = assms(1) [unfolded graph_inv_def c]
  show ?thesis
  proof (cases n)
    case Supervise
    then have batch: "next_batch rt st st'" and succ: "after_supervise rt st' w1 = (w', Inr n')"
      using run node_factsD(7) by (auto simp: run_node_def next_node_def)
    have "n' = FailedNode \<or> es_status st' \<noteq> Some Failed \<and> n' = PrepareTask"
      using after_supervise_cases [OF succ] batch inv Supervise by (auto simp: next_batch_def passing_def)
    moreover have "nat (rt_max_supervisor_batches rt - es_supervisor_batch st) =
        Suc (nat (rt_max_supervisor_batches rt - es_supervisor_batch st'))" if "es_status st' \<noteq> Some Failed"
      using batch that by (auto simp: next_batch_def)
    ultimately show ?thesis using Supervise c by (auto simp: protocol_of_def attempting_def Let_def)
  qed (use run inv c in \<open>auto simp: run_node_def next_node_def same_run_def verify_outcome_def protocol_of_def Let_def
     after_prepare_def after_worker_def after_approval_def after_apply_def after_verify_def after_rollback_def
     attempting_def dest!: node_factsD split: if_splits option.splits\<close>)
qed

interpretation graph: stuttering_simulation "step rt" protocol_step "protocol_of rt" "graph_inv rt" for rt
  by unfold_locales (fact graph_inv_step graph_simulates)+

lemma graph_inv_start: "es_verification st = None \<Longrightarrow> graph_inv rt (Bootstrap, st, w)"
  by (simp add: graph_inv_def passing_def attempting_def)

end
