(* ===== verification/GraphLive.thy ===== *)
theory GraphLive
  imports GraphProps
begin

text \<open>
  A run that succeeds: the computations of the graph carried through symbolically, from the first
  node to the last, for a runtime whose agents and commands do what they are asked to.
\<close>

section \<open>A cooperative runtime\<close>

definition green_task :: worker_task where
  "green_task = \<lparr>wt_task_id = ''t1'', wt_kind = Repair, wt_objective = ''fix'', wt_acceptance_criteria = [''green''],
     wt_evidence_refs = [], wt_hypothesis = None, wt_read_scope = [], wt_write_scope = [''a.py''], wt_depends_on = [],
     wt_fact_refs = [], wt_recommended_skill_refs = [], wt_budget = None, wt_resume_candidate_id = None\<rparr>"

definition green_decision :: supervisor_decision where
  "green_decision = \<lparr>sd_action = Dispatch, sd_reasoning_summary = ''go'', sd_tasks = [green_task], sd_stop_reason = None\<rparr>"

definition green_worker_run :: worker_run where
  "green_worker_run = \<lparr>run_result = empty_worker_result ''t1'' Completed ''nothing to change'', run_edits = [],
     run_commands_run = [], run_verification_plan = [], run_risk = ''low''\<rparr>"

definition green_rt :: runtime where
  "green_rt = \<lparr>rt_max_supervisor_batches = 1, rt_patch_hash_strict = False, rt_state_dir = [''state''],
     rt_git = demo_git, rt_sha = (\<lambda>s. ''h''), rt_listing = (\<lambda>_ _. []), rt_decode = (\<lambda>s. s), rt_clock = int,
     rt_supervisor = (\<lambda>_. sret green_decision), rt_worker = (\<lambda>_ _. sret green_worker_run),
     rt_interrupt = (\<lambda>_. sret True), rt_memory_retriever = None,
     rt_capability_retriever = None, rt_isolated_workspace = sret,
     rt_run_command = (\<lambda>p argv cwd. sret \<lparr>cr_argv = argv, cr_cwd = p, cr_exit_code = 0, cr_stdout = [], cr_stderr = [],
       cr_timed_out = False, cr_truncated = False\<rparr>),
     rt_official = None, rt_defer_success_learning = False, rt_learn = (\<lambda>_ _ _ _. sret [])\<rparr>"

definition green_failure :: ci_failure where
  "green_failure = \<lparr>cf_summary = ''red'', cf_log_excerpt = [], failed_commands = [[''pytest'']], workflow_yaml = [],
     workflow_path = None, task_family = ''python''\<rparr>"

definition green_state :: evo_state where
  "green_state = \<lparr>es_schema_version = None, es_investigation = False, es_run_id = ''r'', es_task_id = ''task'',
     es_repo = \<lparr>owner = ''o'', repo_name = ''n'', base_commit = ''abc''\<rparr>, es_ci_failure = green_failure,
     es_workspace = [''w''], es_campaign_provenance = JNull, es_phase = None, es_supervisor_batch = 0, es_decision = None,
     es_decision_history = [], es_worker_task = None, es_completed_task_ids = [], es_worker_results = [], es_evidence = [],
     es_budget_failures = [], es_batch_snapshot_path = None, es_batch_snapshot_id = None, es_integrated_snapshot_id = None,
     es_verification_snapshot_id = None, es_worker_baseline_id = None, es_worker_memories = [], es_recommended_skills = [],
     es_resume_artifact_ref = None, es_previous_attempt_summary = None, es_fixer_output = None, es_verification = None,
     es_verification_history = [], es_review = None, es_approved = None, es_attempt_baseline = [], es_attempt_written = None,
     es_failed_candidates = [], es_batch_conflict = None, es_retrieved_memories = [], es_skill_catalog = [],
     es_selected_memory_ids = [], es_used_memory_ids = [], es_used_skill_refs = [], es_recommended_skill_ids = [],
     es_events = [], es_learning_deferred = False, es_status = None, es_failure_reason = None, es_failure_class = None,
     es_failure_classes = [], es_failure_stage = None\<rparr>"

definition green_fs :: fs where
  "green_fs = [[] \<mapsto> Dir, [''w''] \<mapsto> Dir, [''.evoci-snapshots-w-r''] \<mapsto> Dir, [''.evoci-snapshots-w-r'', ''batch-1''] \<mapsto> Dir]"

definition green_world :: world where
  "green_world = \<lparr>w_fs = green_fs, w_files = Map.empty, w_recorder = new_recorder None, w_runs = None,
     w_budgets = \<lparr>bm_max_model_calls = 10, bm_max_tool_calls = 10,
       bm_budgets = [''r'' \<mapsto> new_budget 10 10 0 0 default_exhausted_message]\<rparr>, w_tick = 0\<rparr>"

definition green_ok :: "world \<Rightarrow> bool" where
  "green_ok w \<longleftrightarrow> w_fs w = green_fs \<and> (\<exists>b. bm_budgets (w_budgets w) ''r'' = Some b \<and>
     rb_model_calls b + 2 \<le> rb_max_model_calls b \<and> rb_tool_calls b + 1 \<le> rb_max_tool_calls b)"

definition green_at :: "int \<Rightarrow> supervisor_decision option \<Rightarrow> worker_task option \<Rightarrow> evo_state \<Rightarrow> bool" where
  "green_at b d t st \<longleftrightarrow> es_run_id st = ''r'' \<and> es_workspace st = [''w''] \<and> es_ci_failure st = green_failure \<and>
     es_supervisor_batch st = b \<and> es_decision st = d \<and> es_worker_task st = t \<and> es_verification st = None \<and>
     es_fixer_output st = None \<and> es_status st \<noteq> Some Failed \<and> es_failure_classes st = [] \<and> es_budget_failures st = [] \<and>
     (t = None \<longrightarrow> es_completed_task_ids st = [] \<and> es_batch_snapshot_id st = None) \<and> es_batch_conflict st = None"

lemma emit_ok: "achieves green_ok (emit_event rt st ty a i d p) (\<lambda>_. green_ok)"
  by (auto simp: achieves_def emit_event_def green_ok_def split: prod.splits)

lemma budget_ok: "es_run_id st = ''r'' \<Longrightarrow> achieves green_ok (run_budget st)
    (\<lambda>b w. green_ok w \<and> rb_model_calls b + 2 \<le> rb_max_model_calls b \<and> rb_tool_calls b + 1 \<le> rb_max_tool_calls b)"
  by (auto simp: achieves_def run_budget_def for_run_def green_ok_def)

lemma snapshot_ok: "achieves green_ok (snapshot_id green_rt p) (\<lambda>_. green_ok)"
  by (auto simp: achieves_def snapshot_id_def on_fs_def sfocus_def workspace_snapshot_id_def green_rt_def demo_git_def
      sbind_def green_ok_def Let_def)

lemma bootstrap_ok: "achieves green_ok (bootstrap rt green_state) (\<lambda>st w. green_ok w \<and> green_at 0 None None st)"
  unfolding bootstrap_def
  by (auto intro!: achieves_bind [where R = "\<lambda>_. green_ok"] achieves_modify achieves_ret emit_ok
     simp: green_state_def green_at_def) (auto simp: green_ok_def)

lemma retrieve_ok:
  assumes "green_at 0 None None st" and "rt_memory_retriever rt = None" and "rt_capability_retriever rt = None"
  shows "achieves green_ok (retrieve_context rt st) (\<lambda>st w. green_ok w \<and> green_at 0 None None st)"
  unfolding retrieve_context_def using assms by (auto simp: green_at_def achieves_def)

lemma supervise_ok:
  assumes "green_at 0 None None st" and agent: "rt_supervisor rt = (\<lambda>_. sret d)" "rt_max_supervisor_batches rt = 1"
  shows "achieves green_ok (supervise rt st) (\<lambda>st w. green_ok w \<and> green_at 1 (Some d) None st)"
proof -
  have st: "es_status st \<noteq> Some Failed" "es_supervisor_batch st = 0" "es_run_id st = ''r''"
    using assms(1) by (auto simp: green_at_def)
  have finish: "achieves green_ok (supervise_done rt st 1 i d)
      (\<lambda>st w. green_ok w \<and> green_at 1 (Some d) None st)" for i
    unfolding supervise_done_def using assms(1)
    by (intro achieves_bind [OF emit_ok] achieves_ret) (auto simp: green_at_def)
  show ?thesis using st
    by (simp add: supervise_def Let_def agent)
      (intro achieves_bind [OF achieves_weaken [OF budget_ok [of st] _ conjunct1]]
        achieves_bind [OF achieves_get [where Q = "\<lambda>_. green_ok"]] finish; simp)
qed

lemma prepare_ok:
  assumes "green_at 1 (Some green_decision) None st"
  shows "achieves green_ok (prepare_task green_rt st) (\<lambda>st w. green_ok w \<and> green_at 1 (Some green_decision) (Some green_task) st)"
proof -
  let ?p = "[''.evoci-snapshots-w-r'', ''batch-1'']"
  have eval: "path_components ''.evoci-snapshots-w-r'' = [''.evoci-snapshots-w-r'']" "show_nat (Suc 0) = ''1''"
    "path_exists green_fs ?p" by code_simp+
  have path: "batch_snapshot_path st = ?p"
    using assms by (simp add: batch_snapshot_path_def green_at_def show_int_def eval)
  have there: "achieves green_ok (sget (\<lambda>w. path_exists (w_fs w) ?p)) (\<lambda>b w. b \<and> green_ok w)"
    by (intro achieves_get) (simp add: green_ok_def eval)
  have dispatch: "achieves green_ok (prepare_dispatch green_rt st green_task)
      (\<lambda>st w. green_ok w \<and> green_at 1 (Some green_decision) (Some green_task) st)"
  proof -
    have 1: "achieves (\<lambda>w. there \<and> green_ok w)
       (if there
        then (if truthy (es_batch_snapshot_id st) then sret (Inr (the (es_batch_snapshot_id st)))
              else sbind (snapshot_id green_rt ?p) (\<lambda>i. sret (Inr i))) else m) (\<lambda>r w. (\<exists>i. r = Inr i) \<and> green_ok w)" for there m
    proof (cases there)
      case True
      have "achieves green_ok (sbind (snapshot_id green_rt ?p) (\<lambda>i. sret (Inr i))) (\<lambda>r w. (\<exists>i. r = Inr i) \<and> green_ok w)"
        by (intro achieves_bind [OF snapshot_ok] achieves_ret) simp
      then show ?thesis using True assms by (simp add: green_at_def truthy_def)
    qed (simp add: achieves_def)
    show ?thesis unfolding prepare_dispatch_def Let_def path
      by (rule achieves_bind [OF there], rule achieves_bind [OF 1])
        (use assms in \<open>auto simp: achieves_def green_at_def split: sum.splits\<close>)
  qed
  have valid: "validate_single_task [green_task] {} m t = Inr green_task" for m t
  proof -
    have "normalize_task green_task = Inr green_task" by code_simp
    then show ?thesis by (simp add: validate_single_task_def green_task_def Let_def)
  qed
  have eq: "prepare_task green_rt st = sbind (run_budget st) (\<lambda>b.
      if rb_max_model_calls b - rb_model_calls b < 2
      then sret ((prepare_failed FCBudget ''worker'' ''run-level model-call budget exhausted'' st)
                  \<lparr>es_failure_classes := es_failure_classes st @ [FCBudget],
                   es_budget_failures := es_budget_failures st @ [''run-level model-call budget exhausted'']\<rparr>)
      else prepare_dispatch green_rt st green_task)"
    using assms by (simp add: prepare_task_def green_at_def green_decision_def Let_def valid cong: if_cong)
  show ?thesis unfolding eq
    by (rule achieves_bind [OF budget_ok])
      (use assms dispatch in \<open>auto simp: green_at_def achieves_def\<close>)
qed

lemma latest_result_last:
  "latest_result st = (if es_worker_results st = [] then None else Some (last (es_worker_results st)))"
  by (simp add: latest_result_def split: list.splits)

lemma worker_ok:
  assumes "green_at 1 (Some green_decision) (Some green_task) st"
  shows "achieves green_ok (worker green_rt st)
    (\<lambda>st w. green_ok w \<and> green_at 1 (Some green_decision) (Some green_task) st \<and>
       (\<exists>r. latest_result st = Some r \<and> wr_status r = Completed))"
proof -
  have attr: "achieves green_ok (attribution green_rt a i [] [] m k d st) (\<lambda>x w. green_ok w)" for a i m k d
    unfolding attribution_def
    by (simp add: Let_def sorted_set_def achieves_def sbind_def)
  have run: "run_edits green_worker_run = []" "wr_status (run_result green_worker_run) = Completed"
    "wr_used_memory_ids (run_result green_worker_run) = []" "wr_used_skill_refs (run_result green_worker_run) = []"
    "wr_evidence (run_result green_worker_run) = []"
    by (simp_all add: green_worker_run_def empty_worker_result_def)
  have "achieves green_ok (worker_done green_rt st green_task c green_worker_run)
    (\<lambda>st w. green_ok w \<and> green_at 1 (Some green_decision) (Some green_task) st \<and>
       (\<exists>r. latest_result st = Some r \<and> wr_status r = Completed))" for c
    unfolding worker_done_def Let_def using assms
    by (simp add: run)
      (intro achieves_bind [OF attr] achieves_prod achieves_bind [OF emit_ok] achieves_ret;
       simp add: green_at_def latest_result_last run)
  moreover have "rt_worker green_rt c k = sret green_worker_run" for c k by (simp add: green_rt_def)
  ultimately show ?thesis using assms by (simp add: worker_def green_at_def Let_def)
qed

lemma apply_ok:
  assumes "green_at 1 (Some green_decision) (Some green_task) st"
  shows "achieves green_ok (apply_candidate green_rt st) (\<lambda>st w. green_ok w \<and> green_at 1 (Some green_decision) (Some green_task) st)"
  using assms
  by (simp add: apply_candidate_def green_at_def)
    (intro achieves_bind [OF snapshot_ok] achieves_ret; simp add: green_at_def)

lemma approval_ok:
  assumes "green_at 1 (Some green_decision) (Some green_task) st"
  shows "achieves green_ok (approval green_rt st)
    (\<lambda>st w. green_ok w \<and> green_at 1 (Some green_decision) (Some green_task) st \<and> es_approved st = Some True)"
  using assms by (simp add: approval_def green_at_def) (intro achieves_ret; simp add: green_at_def)

lemma verify_events_ok:
  "achieves green_ok (verify_start_event rt st planned n argv) (\<lambda>_. green_ok)"
  "achieves green_ok (verify_done_event rt st t n r) (\<lambda>_. green_ok)"
  unfolding verify_start_event_def verify_done_event_def Let_def
  by (rule emit_ok, rule achieves_bind [where R = "\<lambda>_. green_ok", OF achieves_get emit_ok], assumption)

lemma green_execute:
  assumes "green_ok w" and "rb_tool_calls b + 1 \<le> rb_max_tool_calls b" and "es_workspace st = [''w'']"
  shows "\<exists>v b' w' evs'. verification_run (verify_env_of green_rt st demo_planned t) [''w''] [RawList [''pytest'']] [] (Some b) True (w, evs) =
     (Inr v, Some b', w', evs') \<and> vr_passed v \<and> w_fs w' = green_fs"
proof -
  have "case boundary_resolve green_fs [''w''] ''.'' True of Inr p \<Rightarrow> p = [''w''] | _ \<Rightarrow> False" by code_simp
  then have cwd: "boundary_resolve (w_fs w) [''w''] ''.'' True = Inr [''w'']"
    using assms(1) by (auto simp: green_ok_def split: sum.splits)
  obtain b' where b': "consume_optional (Some b) = Inr (Some b')"
    using assms(2) by (auto simp: consume_optional_def consume_tool_call_def)
  obtain w1 e1 where start: "verify_start_event green_rt st demo_planned 0 [''pytest''] w = (w1, Inr e1)" "green_ok w1"
    using achievesD [OF verify_events_ok(1) assms(1)] by blast
  let ?r = "completed_result (hd demo_planned) \<lparr>cr_argv = [''pytest''], cr_cwd = [''w''], cr_exit_code = 0, cr_stdout = [],
      cr_stderr = [], cr_timed_out = False, cr_truncated = False\<rparr>"
  obtain w2 e2 where finish: "verify_done_event green_rt st t 0 ?r w1 = (w2, Inr e2)" "green_ok w2"
    using achievesD [OF verify_events_ok(2) start(2)] by blast
  have rt: "rt_isolated_workspace green_rt = sret" "rt_run_command green_rt p argv cwd =
      sret \<lparr>cr_argv = argv, cr_cwd = p, cr_exit_code = 0, cr_stdout = [], cr_stderr = [], cr_timed_out = False,
        cr_truncated = False\<rparr>" for p argv cwd
    by (simp_all add: green_rt_def)
  have run: "run_planned (verify_env_of green_rt st demo_planned t) [''w''] demo_planned (Some b) True (w, evs) =
     (\<lparr>vst_results = [?r], vst_incomplete_reason = None, vst_incomplete_cause = None, vst_budget = Some b',
       vst_world = (w2, (evs @ [e1]) @ [e2])\<rparr>, None)"
    using assms(3) cwd b' start(1) finish(1)
    by (simp add: run_planned_def enter_workspace_def verify_env_of_def with_events_def collect_def rt Let_def
       check_failed_def completed_result_def demo_planned_def)
  have "case evaluate_verification [?r] 1 True None None None of Inr v \<Rightarrow> vr_passed v | Inl e \<Rightarrow> False" by code_simp
  then obtain v where "evaluate_verification [?r] 1 True None None None = Inr v" "vr_passed v"
    by (auto split: sum.splits)
  moreover have "length demo_planned = 1" "list_ex (\<lambda>p. pc_source p = Mandatory) demo_planned" by (simp_all add: demo_planned_def)
  ultimately show ?thesis using finish(2)
    by (simp add: verification_run_def demo_run(1) final_state_def absorb_exception_def run Let_def green_ok_def)
qed

definition green_verified :: "evo_state \<Rightarrow> bool" where
  "green_verified st \<longleftrightarrow> passing st \<and> after_verify st = Finalize \<and> \<not> stopping st"

lemma after_verify_passed:
  assumes "es_verification st = Some v" "vr_passed v" "vr_status v = VPassed" "es_batch_conflict st = None"
  shows "after_verify st = Finalize"
  using assms by (simp add: after_verify_def truthy_def)

lemma passed_status: "mk_verification_result v = Inr r \<Longrightarrow> vr_passed r \<Longrightarrow> vr_status r = VPassed"
  by (auto simp: mk_verification_result_def verify_success_contract_def split: if_splits)

lemma verification_run_status:
  assumes "verification_run env ws m s b isol w = (Inr v, b', w')" and "vr_passed v"
  shows "vr_status v = VPassed"
proof -
  have "\<exists>x. mk_verification_result x = Inr v"
    using assms(1) by (auto simp: verification_run_def evaluate_verification_def Let_def
      split: sum.split_asm if_split_asm option.split_asm)
  then show ?thesis using passed_status assms(2) by blast
qed

lemma run_verification_ok:
  assumes "green_at 1 (Some green_decision) (Some green_task) st"
  shows "achieves green_ok (run_verification green_rt st demo_planned t evs)
    (\<lambda>(v, ev) w. w_fs w = green_fs \<and> vr_passed v \<and> vr_status v = VPassed)"
proof -
  have st: "raw_failed_commands st = [RawList [''pytest'']]" "supplementary_of st = []" "es_workspace st = [''w'']"
      "es_run_id st = ''r''" and rt: "rt_official green_rt = None"
    using assms by (simp_all add: raw_failed_commands_def supplementary_of_def green_at_def green_failure_def green_rt_def)
  have "\<exists>w' x. (case verification_run (verify_env_of green_rt st demo_planned t) [''w''] [RawList [''pytest'']] [] (Some b) True (w, evs) of
       (r, b', w1, events') \<Rightarrow> sbind (case b' of None \<Rightarrow> sret () | Some bb \<Rightarrow> store_budget st bb) (\<lambda>_.
          sbind (slift r) (\<lambda>v. sret (v, events'))) w1) = (w', Inr x) \<and>
       (case x of (v, ev) \<Rightarrow> w_fs w' = green_fs \<and> vr_passed v \<and> vr_status v = VPassed)"
    if w: "green_ok w" and b: "rb_tool_calls b + 1 \<le> rb_max_tool_calls b" for w b
  proof -
    obtain v b' w' evs' where run: "verification_run (verify_env_of green_rt st demo_planned t) [''w''] [RawList [''pytest'']] []
        (Some b) True (w, evs) = (Inr v, Some b', w', evs')" "vr_passed v" "w_fs w' = green_fs"
      using green_execute [OF w b st(3)] by blast
    then show ?thesis using verification_run_status [OF run(1,2)] by (simp add: store_budget_def sbind_def)
  qed
  then show ?thesis unfolding run_verification_def rt st option.case
    by (intro achieves_bind [OF budget_ok [OF st(4)]]) (auto simp: achieves_def)
qed

lemma verify_ok:
  assumes "green_at 1 (Some green_decision) (Some green_task) st"
  shows "achieves green_ok (verify green_rt st) (\<lambda>st w. green_verified st \<and> es_run_id st = ''r'')"
proof -
  have st: "raw_failed_commands st = [RawList [''pytest'']]" "supplementary_of st = []" "es_workspace st = [''w'']"
      and rt: "rt_official green_rt = None"
    using assms by (simp_all add: raw_failed_commands_def supplementary_of_def green_at_def green_failure_def green_rt_def)
  have "contains_workspace_review_bypass (\<lambda>s. s) (Some (splitlines ''abc'')) (Some (splitlines ''abc'')) green_fs [''w''] = []"
    by code_simp
  then have bypass: "achieves (\<lambda>w. w_fs w = green_fs) (review_bypass green_rt [''w'']) (\<lambda>bl w. bl = [])"
    by (simp add: achieves_def review_bypass_def on_fs_def sfocus_def sbind_def green_rt_def demo_git_def)
  have accept: "achieves (\<lambda>_. True) (verify_accepted green_rt st v snap ev) (\<lambda>st w. green_verified st \<and> es_run_id st = ''r'')"
    if "vr_passed v" "vr_status v = VPassed" for v snap ev
    using that assms
    by (auto simp: achieves_def verify_accepted_def Let_def sbind_def emit_event_def harness_review_def mk_review_result_def
        normalize_review_status_def unperformed_review_is_not_accepted_def verify_status_update_def green_verified_def
        passing_def stopping_def green_at_def green_decision_def after_verify_passed split: prod.splits)
  have rest: "achieves (\<lambda>w. \<exists>x. r = Inr x \<and> (case x of (v, ev) \<Rightarrow> \<lambda>w. w_fs w = green_fs \<and> vr_passed v \<and> vr_status v = VPassed) w)
     (case r of Inl e \<Rightarrow> sbind (undo_candidate green_rt st) (\<lambda>_. sraise e)
      | Inr (v, events) \<Rightarrow>
         sbind (if vr_passed v then review_bypass green_rt [''w''] else sret []) (\<lambda>blockers.
         if blockers \<noteq> [] then verify_rejected green_rt st v snap events blockers
         else verify_accepted green_rt st v snap events)) (\<lambda>st w. green_verified st \<and> es_run_id st = ''r'')" for r snap
  proof (cases "\<exists>v ev. r = Inr (v, ev) \<and> vr_passed v \<and> vr_status v = VPassed")
    case True
    then obtain v ev where r: "r = Inr (v, ev)" "vr_passed v" "vr_status v = VPassed" by blast
    have "achieves (\<lambda>w. bl = []) (if bl \<noteq> [] then verify_rejected green_rt st v snap ev bl
        else verify_accepted green_rt st v snap ev) (\<lambda>st w. green_verified st \<and> es_run_id st = ''r'')" for bl
      using accept [OF r(2,3), of snap ev] by (simp add: achieves_def)
    from achieves_bind [OF bypass this] have "achieves (\<lambda>w. w_fs w = green_fs)
        (sbind (review_bypass green_rt [''w'']) (\<lambda>bl. if bl \<noteq> [] then verify_rejected green_rt st v snap ev bl
           else verify_accepted green_rt st v snap ev)) (\<lambda>st w. green_verified st \<and> es_run_id st = ''r'')" .
    then show ?thesis using r by (simp add: achieves_def)
  qed (auto simp: achieves_def)
  have slift: "sbind (slift (Inr x)) f = f x" for x and f :: "_ \<Rightarrow> (world, evo_state) io"
    by (simp add: sbind_def fun_eq_iff)
  show ?thesis
    unfolding verify_def rt st option.case demo_run(1) rbind_simps slift prod.case
    by (intro achieves_bind [OF snapshot_ok] achieves_bind [OF emit_ok] achieves_bind [OF achieves_get [where Q = "\<lambda>_. green_ok"]]
      achieves_bind [OF achieves_try [OF run_verification_ok [OF assms]]] rest)
qed

lemma finalize_ok:
  assumes "\<not> stopping st"
  shows "\<exists>w' st'. finalize green_rt st w = (w', Inr st') \<and> es_status st' = Some Success"
  using assms
  by (auto simp: finalize_def persist_run_outcome_def stopping_def green_rt_def sbind_def emit_event_def update_run_status_def
      Let_def split: option.splits prod.splits)

section \<open>The run\<close>

definition green_reaches :: "runtime \<Rightarrow> graph_node \<Rightarrow> (evo_state \<Rightarrow> bool) \<Rightarrow> bool" where
  "green_reaches rt n D \<longleftrightarrow> (\<exists>st w. (step rt)\<^sup>*\<^sup>* (Bootstrap, green_state, green_world) (n, st, w) \<and> D st \<and> green_ok w)"

lemma green_step:
  assumes "green_reaches rt n D" and "n \<noteq> End"
    and "\<And>st. D st \<Longrightarrow> achieves green_ok (run_node rt n st) (\<lambda>st w. green_ok w \<and> D' st)"
    and "\<And>st w. D' st \<Longrightarrow> next_node rt n st w = (w, Inr n')"
  shows "green_reaches rt n' D'"
proof -
  obtain st w where st: "(step rt)\<^sup>*\<^sup>* (Bootstrap, green_state, green_world) (n, st, w)" "D st" "green_ok w"
    using assms(1) by (auto simp: green_reaches_def)
  obtain w' st' where run: "run_node rt n st w = (w', Inr st')" "green_ok w'" "D' st'"
    using achievesD [OF assms(3) [OF st(2)] st(3)] by blast
  have "step rt (n, st, w) (n', st', w')"
    using assms(2) run(1) assms(4) [OF run(3)] by (intro step) (auto simp: super_step_iff)
  then show ?thesis using st(1) run(2,3) by (auto simp: green_reaches_def intro: rtranclp.rtrancl_into_rtrancl)
qed

lemma green_reaches_supervise:
  assumes "rt_memory_retriever rt = None" and "rt_capability_retriever rt = None"
  shows "green_reaches rt Supervise (green_at 0 None None)"
proof -
  have start: "green_reaches rt Bootstrap (\<lambda>st. st = green_state)"
    by (auto simp: green_reaches_def green_ok_def green_world_def new_budget_def intro!: exI [of _ green_world])
  have 1: "green_reaches rt RetrieveContext (green_at 0 None None)"
    by (rule green_step [OF start], simp, simp add: run_node_def bootstrap_ok, simp add: next_node_def)
  show ?thesis
    by (rule green_step [OF 1], simp, simp add: run_node_def retrieve_ok assms, simp add: next_node_def)
qed

lemma green_reaches_verify: "green_reaches green_rt Verify (green_at 1 (Some green_decision) (Some green_task))"
proof -
  let ?at = "green_at 1 (Some green_decision) (Some green_task)"
  have agent: "rt_supervisor green_rt = (\<lambda>_. sret green_decision)" "rt_max_supervisor_batches green_rt = 1"
    by (simp_all add: green_rt_def)
  have kind: "wt_kind green_task = Repair" "sd_action green_decision = Dispatch" by (simp_all add: green_task_def green_decision_def)
  have 2: "green_reaches green_rt Supervise (green_at 0 None None)"
    by (rule green_reaches_supervise) (simp_all add: green_rt_def)
  have 3: "green_reaches green_rt PrepareTask (green_at 1 (Some green_decision) None)"
    by (rule green_step [OF 2], simp, simp add: run_node_def supervise_ok agent,
        simp add: next_node_def after_supervise_def green_at_def kind)
  have 4: "green_reaches green_rt WorkerNode ?at"
    by (rule green_step [OF 3], simp, simp add: run_node_def prepare_ok,
        simp add: next_node_def after_prepare_def green_at_def truthy_def)
  have 5: "green_reaches green_rt Approval (\<lambda>st. ?at st \<and> (\<exists>r. latest_result st = Some r \<and> wr_status r = Completed))"
    by (rule green_step [OF 4], simp, simp add: run_node_def worker_ok,
        auto simp: next_node_def after_worker_def green_at_def kind)
  have 6: "green_reaches green_rt ApplyCandidate (\<lambda>st. ?at st \<and> es_approved st = Some True)"
    by (rule green_step [OF 5], simp, simp add: run_node_def approval_ok,
        auto simp: next_node_def after_approval_def green_at_def)
  show ?thesis
    by (rule green_step [OF 6], simp, simp add: run_node_def apply_ok,
        simp add: next_node_def after_apply_def green_at_def truthy_def)
qed

lemma green_run:
  "\<exists>st w. (step green_rt)\<^sup>*\<^sup>* (Bootstrap, green_state, green_world) (End, st, w) \<and> es_status st = Some Success"
proof -
  obtain st w where v: "(step green_rt)\<^sup>*\<^sup>* (Bootstrap, green_state, green_world) (Verify, st, w)"
    "green_at 1 (Some green_decision) (Some green_task) st" "green_ok w"
    using green_reaches_verify by (auto simp: green_reaches_def)
  obtain w1 st1 where verify: "verify green_rt st w = (w1, Inr st1)" "green_verified st1"
    using achievesD [OF verify_ok [OF v(2)] v(3)] by blast
  have s1: "step green_rt (Verify, st, w) (Finalize, st1, w1)"
    using verify by (intro step) (auto simp: super_step_iff run_node_def next_node_def green_verified_def)
  obtain w2 st2 where fin: "finalize green_rt st1 w1 = (w2, Inr st2)" "es_status st2 = Some Success"
    using finalize_ok verify(2) by (metis green_verified_def)
  have "step green_rt (Finalize, st1, w1) (End, st2, w2)"
    using fin(1) by (intro step) (auto simp: super_step_iff run_node_def next_node_def)
  with v(1) s1 fin(2) show ?thesis by (meson rtranclp.rtrancl_into_rtrancl)
qed

end
