(* ===== verification/GraphSpec.thy ===== *)
theory GraphSpec
  imports GraphLive
begin

text \<open>
  What the orchestration graph guarantees: termination, the verdict of a run, what a success has
  behind it, the protocol it refines, the human's gate and the rollback; and what it does not.
\<close>

section \<open>Termination and verdict\<close>

text \<open>
  C2: Every run of the graph ends. Whatever the agents, the commands, the retrievers and the human
  do (as long as each of their calls comes back), a run that starts with \<open>b\<close> batches used takes at
  most \<open>8 * (max_supervisor_batches - b) + 4\<close> super-steps: it reaches the end or an exception.
\<close>

theorem run_graph_terminates:
  "\<exists>w' r. run_graph (8 * nat (rt_max_supervisor_batches rt - es_supervisor_batch st) + 4) rt Bootstrap st w = Some (w', r)"
  using run_graph_enough [of rt Bootstrap st "8 * nat (rt_max_supervisor_batches rt - es_supervisor_batch st) + 4" w]
  by (auto simp: Let_def)

lemma end_status:
  assumes "step rt c (End, st', w')"
  shows "es_status st' \<in> {Some Success, Some Failed}"
proof -
  obtain n st w where c: "c = (n, st, w)" by (cases c)
  obtain w1 where run: "n \<noteq> End" "run_node rt n st w = (w1, Inr st')" "next_node rt n st' w1 = (w', Inr End)"
    using assms c by (auto elim!: stepE simp: super_step_iff)
  show ?thesis
  proof (cases n)
    case Supervise
    then show ?thesis using run after_supervise_cases [of rt st' w1 w' End] by (simp add: next_node_def)
  qed (use run in \<open>auto simp: run_node_def next_node_def after_prepare_def after_worker_def after_approval_def
     after_apply_def after_verify_def after_rollback_def Let_def dest!: node_factsD(10,11) split: if_splits option.splits\<close>)
qed

text \<open>
  C5: A run that comes to its end has a verdict: within the same number of super-steps it has raised an
  exception or returned a state whose status is success or failed, never running, waiting or unset.
\<close>

theorem run_has_verdict:
  "\<exists>w' r. run_graph (8 * nat (rt_max_supervisor_batches rt - es_supervisor_batch st) + 4) rt Bootstrap st w = Some (w', r) \<and>
     (case r of Inl e \<Rightarrow> True | Inr st' \<Rightarrow> es_status st' = Some Success \<or> es_status st' = Some Failed)"
proof -
  obtain w' r where run: "run_graph (8 * nat (rt_max_supervisor_batches rt - es_supervisor_batch st) + 4) rt Bootstrap st w = Some (w', r)"
    using run_graph_enough [of rt Bootstrap st "8 * nat (rt_max_supervisor_batches rt - es_supervisor_batch st) + 4" w]
    by (auto simp: Let_def)
  have "es_status st' = Some Success \<or> es_status st' = Some Failed" if "r = Inr st'" for st'
  proof -
    have "(step rt)\<^sup>*\<^sup>* (Bootstrap, st, w) (End, st', w')" using run_graph_steps run that by blast
    then obtain c where "step rt c (End, st', w')" by (cases rule: rtranclp.cases) auto
    then show ?thesis using end_status by blast
  qed
  with run show ?thesis by (auto split: sum.splits)
qed

section \<open>What success means\<close>

text \<open>
  C1: Success is earned. When a run that starts without a verification ends with status success, its
  state holds a passed verification and an accepted review; and unless a benchmark's official
  verifier decided, there was a failing command to begin with, the results are one for each check of
  the verification plan, in its order, and every check was executed, ended with exit code 0 and did
  not time out. What the agents say about their work is not enough on any path.
\<close>

theorem success_is_verified:
  assumes "reachable rt (st, w) (End, st', w')" and "es_verification st = None" and "es_status st' = Some Success"
  shows "\<exists>v r. es_verification st' = Some v \<and> vr_passed v \<and> es_review st' = Some r \<and> rv_accepted r \<and>
    (rt_official rt = None \<longrightarrow> failed_commands (es_ci_failure st') \<noteq> [] \<and>
       (\<exists>planned. build_verification_plan (raw_failed_commands st') (supplementary_of st') = Inr planned \<and>
          map result_sig (vr_commands v) = map plan_sig planned) \<and>
       (\<forall>c \<in> set (vr_commands v). vc_executed c \<and> vc_exit_code c = 0 \<and> \<not> vc_timed_out c))"
proof -
  have "graph_inv rt (End, st', w')"
    using graph.inv_steps [OF _ graph_inv_start [OF assms(2)]] assms(1) by (simp add: reachable_iff)
  then have "accepted rt st'" using assms(3) by (simp add: graph_inv_def)
  then show ?thesis unfolding accepted_def checked_def .
qed

theorem success_is_verified_witness:
  "\<exists>st' :: evo_state. es_status st' = Some Success \<and>
     (\<exists>v r. es_verification st' = Some v \<and> vr_passed v \<and> es_review st' = Some r \<and> rv_accepted r)"
proof -
  obtain st' w' where run: "reachable green_rt (green_state, green_world) (End, st', w')" "es_status st' = Some Success"
    using green_run by (auto simp: reachable_iff)
  have "es_verification green_state = None" by (simp add: green_state_def)
  from success_is_verified [OF run(1) this run(2)] show ?thesis using run(2) by blast
qed

text \<open>
  C3: The graph refines the protocol it is meant to follow: planning, an attempt that takes one of the
  remaining batches, an undoing of the attempt, and a verdict that is the one the run was closed with.
  Every configuration a run reaches is, seen through \<open>protocol_of\<close>, a state the protocol reaches from
  planning with all its batches; in particular no path opens more attempts than there are batches, and
  only an attempt leads to success.
\<close>

theorem graph_refines_protocol:
  assumes "reachable rt (st, w) c" and "es_verification st = None"
  shows "protocol_step\<^sup>*\<^sup>* (Planning (nat (rt_max_supervisor_batches rt - es_supervisor_batch st))) (protocol_of rt c)"
  using graph.simulates_steps [OF iffD1 [OF reachable_iff assms(1)] graph_inv_start [OF assms(2)]]
  by (simp add: protocol_of_def attempting_def)

theorem graph_refines_protocol_witness: "protocol_step\<^sup>*\<^sup>* (Planning 1) (Closed True)"
proof -
  obtain st' w' where run: "reachable green_rt (green_state, green_world) (End, st', w')" "es_status st' = Some Success"
    using green_run by (auto simp: reachable_iff)
  have "es_verification green_state = None" by (simp add: green_state_def)
  from graph_refines_protocol [OF run(1) this] show ?thesis
    using run(2) by (simp add: protocol_of_def green_rt_def green_state_def)
qed

section \<open>The supervisor's stop\<close>

text \<open>
  A supervisor that stops never ends a run with success: the decision always leads to the failed
  node. A passed verification is finalised as soon as it is made, so the supervisor is only asked
  while there is none, although its instructions tell it to stop when verification has passed.
\<close>

theorem stop_decision_fails:
  assumes "reachable rt (st, w) (Supervise, st1, w1)" and "es_verification st = None"
    and "step rt (Supervise, st1, w1) (n, st2, w2)" and "es_decision st2 = Some d" and "sd_action d = Stop"
  shows "n = FailedNode"
proof -
  have inv: "graph_inv rt (Supervise, st1, w1)"
    using graph.inv_steps [OF iffD1 [OF reachable_iff assms(1)] graph_inv_start [OF assms(2)]] .
  have "graph_inv rt (n, st2, w2)" using graph_inv_step [OF inv assms(3)] .
  moreover obtain w' where "after_supervise rt st2 w' = (w2, Inr n)"
    using assms(3) by (auto elim!: stepE simp: super_step_iff next_node_def)
  moreover have "stopping st2" using assms(4,5) by (simp add: stopping_def)
  ultimately show ?thesis
    using after_supervise_cases by (fastforce simp: graph_inv_def attempting_def)
qed

definition stop_rt :: runtime where
  "stop_rt = green_rt\<lparr>rt_supervisor := (\<lambda>_. sret \<lparr>sd_action = Stop, sd_reasoning_summary = ''verified'', sd_tasks = [],
     sd_stop_reason = Some ''done''\<rparr>)\<rparr>"

theorem stop_decision_fails_witness:
  "\<exists>st1 w1 st2 w2. reachable stop_rt (green_state, green_world) (Supervise, st1, w1) \<and>
     step stop_rt (Supervise, st1, w1) (FailedNode, st2, w2) \<and> es_decision st2 \<noteq> None"
proof -
  let ?d = "\<lparr>sd_action = Stop, sd_reasoning_summary = ''verified'', sd_tasks = [], sd_stop_reason = Some ''done''\<rparr>"
  obtain st1 w1 where sup: "reachable stop_rt (green_state, green_world) (Supervise, st1, w1)"
    "green_at 0 None None st1" "green_ok w1"
    using green_reaches_supervise [of stop_rt] by (auto simp: green_reaches_def reachable_iff stop_rt_def green_rt_def)
  have "achieves green_ok (supervise stop_rt st1) (\<lambda>st w. green_ok w \<and> green_at 1 (Some ?d) None st)"
    using sup(2) by (rule supervise_ok) (simp_all add: stop_rt_def green_rt_def)
  from achievesD [OF this sup(3)] obtain st2 w' where run: "supervise stop_rt st1 w1 = (w', Inr st2)"
    "green_at 1 (Some ?d) None st2" "green_ok w'" by auto
  obtain w2 i where "snapshot_id stop_rt (es_workspace st2) w' = (w2, Inr i)"
    by (simp add: snapshot_id_def on_fs_def sfocus_def workspace_snapshot_id_def stop_rt_def green_rt_def demo_git_def
        sbind_def Let_def)
  then obtain n where "after_supervise stop_rt st2 w' = (w2, Inr n)"
    using run(2) by (simp add: after_supervise_def formal_success_def green_at_def sbind_def)
  then have s: "step stop_rt (Supervise, st1, w1) (n, st2, w2)"
    using run(1) by (intro step) (auto simp: super_step_iff run_node_def next_node_def)
  have init: "es_verification green_state = None" and d: "es_decision st2 = Some ?d"
    using run(2) by (simp_all add: green_state_def green_at_def)
  have "n = FailedNode" using stop_decision_fails [OF sup(1) init s d] by simp
  then show ?thesis using sup(1) s d by auto
qed

section \<open>The human's gate\<close>

text \<open>What the approval node asks, and the world in which the run waits for the answer.\<close>

definition approval_request :: "fixer_output \<Rightarrow> payload" where
  "approval_request out =
     [(''kind'', JStr ''patch_approval''), (''summary'', JStr (pp_summary (fo_proposal out))),
      (''risk'', JStr (risk_str (pp_risk (fo_proposal out)))), (''files'', jstrs (pp_changed_files (fo_proposal out)))]"

definition waiting :: "runtime \<Rightarrow> evo_state \<Rightarrow> world \<Rightarrow> world" where
  "waiting rt st w = fst (update_run_status rt st WaitingApproval w)"

text \<open>
  C6: A risky candidate is applied only with the human's consent. The only way to the node that writes the
  candidate into the workspace is the approval node, which hands the candidate on unchanged; and when the
  candidate has edits and \<open>requires_approval\<close> holds for it, the interrupt of this very step, raised in the
  world in which the run waits and showing this candidate's summary, risk and files, was answered with yes.
\<close>

theorem risky_patch_needs_approval:
  assumes "step rt (n, st, w) (ApplyCandidate, st', w')"
  shows "n = Approval \<and> es_fixer_output st' = es_fixer_output st \<and>
     (\<forall>out. es_fixer_output st = Some out \<and> fo_edits out \<noteq> [] \<and> requires_approval out \<longrightarrow>
        snd (rt_interrupt rt (approval_request out) (waiting rt st w)) = Inr True)"
proof -
  obtain w1 where run: "n \<noteq> End" "run_node rt n st w = (w1, Inr st')" "next_node rt n st' w1 = (w', Inr ApplyCandidate)"
    using assms by (auto elim!: stepE simp: super_step_iff)
  have n: "n = Approval"
  proof (cases n)
    case Supervise
    then show ?thesis using run after_supervise_cases [of rt st' w1 w'] by (simp add: next_node_def)
  qed (use run in \<open>auto simp: next_node_def after_prepare_def after_worker_def after_approval_def
     after_apply_def after_verify_def after_rollback_def Let_def split: if_splits option.splits\<close>)
  then have approval: "approval rt st w = (w1, Inr st')" using run(2) by (simp add: run_node_def)
  then have same: "es_fixer_output st' = es_fixer_output st"
    by (auto simp: approval_def sbind_Inr_iff split: option.splits if_splits)
  have "snd (rt_interrupt rt (approval_request out) (waiting rt st w)) = Inr True"
    if out: "es_fixer_output st = Some out" "fo_edits out \<noteq> []" "requires_approval out" for out
  proof -
    obtain s ok where ask: "rt_interrupt rt (approval_request out) (waiting rt st w) = (s, Inr ok)" and "es_approved st' = Some ok"
      using approval out by (auto simp: approval_def sbind_Inr_iff approval_request_def waiting_def)
    moreover have "es_approved st' \<noteq> Some False"
      using run(3) n by (auto simp: next_node_def after_approval_def split: if_splits)
    ultimately show ?thesis by auto
  qed
  with n same show ?thesis by blast
qed

definition risky_output :: fixer_output where
  "risky_output = \<lparr>fo_proposal = \<lparr>pp_summary = ''s'', pp_changed_files = [''a.py''], pp_commands_run = [], pp_risk = High,
     pp_verification_plan = []\<rparr>,
     fo_edits = [\<lparr>fe_path = ''a.py'', fe_content = Some ''x'', fe_delete = False, fe_expected_sha256 = None\<rparr>],
     fo_used_memory_ids = [], fo_used_skill_refs = []\<rparr>"

theorem risky_patch_needs_approval_witness:
  "let st = green_state\<lparr>es_fixer_output := Some risky_output\<rparr>
   in snd (rt_interrupt green_rt (approval_request risky_output) (waiting green_rt st green_world)) = Inr True \<and>
      jget (approval_request risky_output) ''files'' = jstrs [''a.py'']"
proof -
  let ?st = "green_state\<lparr>es_fixer_output := Some risky_output\<rparr>"
  have risky: "requires_approval risky_output" "fo_edits risky_output \<noteq> []" by (code_simp, simp add: risky_output_def)
  have "\<exists>st' w'. approval green_rt ?st green_world = (w', Inr st') \<and> es_status st' = Some Running \<and> es_approved st' = Some True"
    using risky by (simp add: approval_def sbind_def update_run_status_def emit_event_def green_rt_def split: prod.split)
  then obtain st' w' where "approval green_rt ?st green_world = (w', Inr st')" "es_status st' = Some Running" "es_approved st' = Some True"
    by blast
  then have "step green_rt (Approval, ?st, green_world) (ApplyCandidate, st', w')"
    by (intro step) (auto simp: super_step_iff run_node_def next_node_def after_approval_def)
  from risky_patch_needs_approval [OF this] risky show ?thesis
    by (simp add: approval_request_def jget_def risky_output_def)
qed

section \<open>Rollback\<close>


definition undo_fs :: fs where
  "undo_fs = [[] \<mapsto> Dir, [''w''] \<mapsto> Dir, [''w'', ''a.py''] \<mapsto> Reg ''new'' 420, [''s''] \<mapsto> Dir, [''s'', ''a.py''] \<mapsto> Reg ''old'' 420]"

definition undo_state :: evo_state where
  "undo_state = green_state\<lparr>es_phase := Some ''verify'', es_batch_snapshot_path := Some [''s'']\<rparr>"


section \<open>Dispatch errors and stale candidates\<close>

text \<open>
  A repair worker that comes back without edits leaves the candidate of an earlier attempt in the
  state, from where the following nodes approve, apply and verify it again: the rollback removed its
  effects from the workspace but not the candidate itself.
\<close>

theorem worker_without_edits_keeps_candidate:
  "returns (\<lambda>st'. es_fixer_output st' = es_fixer_output st) (worker_done rt st task context (run\<lparr>run_edits := []\<rparr>))"
  by (simp add: worker_done_def Let_def) (intro returns_rules; simp add: prepare_failed_def)

text \<open>
  A dispatch whose write scope leaves the repository is not sent back to the supervisor as a rejected
  dispatch (the node only expects \<open>TaskScheduleError\<close>): the \<open>PolicyViolation\<close> leaves the node and ends
  the run with an exception.
\<close>

theorem prepare_task_scope_error_escapes:
  "case snd (prepare_task green_rt (green_state\<lparr>es_decision := Some (green_decision\<lparr>sd_tasks :=
     [green_task\<lparr>wt_write_scope := [''../x'']\<rparr>]\<rparr>)\<rparr>) green_world) of Inl (PolicyViolation m) \<Rightarrow> True | _ \<Rightarrow> False"
proof -
  let ?t = "green_task\<lparr>wt_write_scope := [''../x'']\<rparr>"
  have "case normalize_task ?t of Inl (PolicyViolation m) \<Rightarrow> True | _ \<Rightarrow> False" by code_simp
  then obtain m where "normalize_task ?t = Inl (PolicyViolation m)" by (auto split: sum.splits pyexc.splits)
  then have "validate_single_task [?t] {} 10 10 = Inl (PolicyViolation m)" by (simp add: validate_single_task_def)
  then show ?thesis
    by (simp add: prepare_task_def green_decision_def sbind_def run_budget_def for_run_def green_world_def green_state_def
        new_budget_def Let_def)
qed

end
