(* ===== verification/ToolArgs.thy ===== *)
theory ToolArgs
  imports Effects
begin

text \<open>
  The argument models of the tools (\<^verbatim>\<open>tools/registry.py\<close>, \<^verbatim>\<open>agents/tool_loop.py\<close>): which JSON arguments of a
  model's tool call a tool accepts, and the values it is called with.

  The conversion of a JSON value to the type of a field, and the text of a validation error, belong to
  the model library and are a parameter (\<open>coercion\<close>); the fields, their defaults and bounds and the
  ban of further fields are the repository's.
\<close>

record coercion =
  co_str :: "json \<Rightarrow> string option"
  co_int :: "json \<Rightarrow> int option"
  co_bool :: "json \<Rightarrow> bool option"
  co_list :: "json \<Rightarrow> json list option"
  co_dict :: "json \<Rightarrow> payload option"
  co_message :: "string \<Rightarrow> payload \<Rightarrow> string"

text \<open>The conversion that accepts exactly the JSON type of the field.\<close>

definition strict_coercion :: coercion where
  "strict_coercion =
     \<lparr>co_str = (\<lambda>j. case j of JStr s \<Rightarrow> Some s | _ \<Rightarrow> None), co_int = (\<lambda>j. case j of JInt i \<Rightarrow> Some i | _ \<Rightarrow> None),
      co_bool = (\<lambda>j. case j of JBool b \<Rightarrow> Some b | _ \<Rightarrow> None), co_list = (\<lambda>j. case j of JList xs \<Rightarrow> Some xs | _ \<Rightarrow> None),
      co_dict = (\<lambda>j. case j of JObj o' \<Rightarrow> Some o' | _ \<Rightarrow> None), co_message = (\<lambda>name args. name)\<rparr>"

definition arg :: "(json \<Rightarrow> 'a option) \<Rightarrow> string \<Rightarrow> payload \<Rightarrow> 'a option" where
  "arg conv k args = (case map_of args k of None \<Rightarrow> None | Some v \<Rightarrow> conv v)"

definition arg_or :: "'a \<Rightarrow> (json \<Rightarrow> 'a option) \<Rightarrow> string \<Rightarrow> payload \<Rightarrow> 'a option" where
  "arg_or d conv k args = (case map_of args k of None \<Rightarrow> Some d | Some v \<Rightarrow> conv v)"

definition only :: "string list \<Rightarrow> payload \<Rightarrow> bool" where
  "only ks args \<longleftrightarrow> list_all (\<lambda>(k, v). k \<in> set ks) args"

definition at_least :: "int \<Rightarrow> (json \<Rightarrow> int option) \<Rightarrow> json \<Rightarrow> int option" where
  "at_least lo conv j = (case conv j of None \<Rightarrow> None | Some n \<Rightarrow> if lo \<le> n then Some n else None)"

definition bounded :: "int \<Rightarrow> int \<Rightarrow> (json \<Rightarrow> int option) \<Rightarrow> json \<Rightarrow> int option" where
  "bounded lo hi conv j = (case conv j of None \<Rightarrow> None | Some n \<Rightarrow> if lo \<le> n \<and> n \<le> hi then Some n else None)"

definition nullable :: "(json \<Rightarrow> 'a option) \<Rightarrow> json \<Rightarrow> 'a option option" where
  "nullable conv j = (if j = JNull then Some None else map_option Some (conv j))"

fun all_some :: "'a option list \<Rightarrow> 'a list option" where
  "all_some [] = Some []"
| "all_some (x # xs) = (case x of None \<Rightarrow> None | Some y \<Rightarrow> map_option ((#) y) (all_some xs))"

definition strings :: "coercion \<Rightarrow> json \<Rightarrow> string list option" where
  "strings co j = Option.bind (co_list co j) (\<lambda>xs. all_some (map (co_str co) xs))"

definition at_most_items :: "nat \<Rightarrow> nat \<Rightarrow> (json \<Rightarrow> 'a list option) \<Rightarrow> json \<Rightarrow> 'a list option" where
  "at_most_items lo hi conv j =
     (case conv j of None \<Rightarrow> None | Some xs \<Rightarrow> if lo \<le> length xs \<and> length xs \<le> hi then Some xs else None)"

definition string_dict :: "coercion \<Rightarrow> json \<Rightarrow> (string \<times> string) list option" where
  "string_dict co j = Option.bind (co_dict co j)
     (\<lambda>o'. all_some (map (\<lambda>(k, v). map_option (Pair k) (co_str co v)) o'))"

text \<open>\<open>args_model.model_validate\<close>: the validated values, or a \<open>ValidationError\<close>.\<close>

definition validated :: "coercion \<Rightarrow> string \<Rightarrow> payload \<Rightarrow> 'a option \<Rightarrow> 'a res" where
  "validated co name args r = (case r of None \<Rightarrow> Inl (ValidationError (co_message co name args)) | Some x \<Rightarrow> Inr x)"

definition read_file_args :: "coercion \<Rightarrow> payload \<Rightarrow> (string \<times> int \<times> int option) res" where
  "read_file_args co args = validated co ''ReadFileArgs'' args
     (if \<not> only [''path'', ''offset'', ''limit''] args then None
      else Option.bind (arg (co_str co) ''path'' args) (\<lambda>path.
           Option.bind (arg_or 0 (at_least 0 (co_int co)) ''offset'' args) (\<lambda>offset.
           Option.bind (arg_or None (nullable (bounded 1 32000 (co_int co))) ''limit'' args) (\<lambda>limit.
           Some (path, offset, limit)))))"

definition read_memory_args :: "coercion \<Rightarrow> payload \<Rightarrow> (string \<times> int \<times> int) res" where
  "read_memory_args co args = validated co ''ReadMemoryArgs'' args
     (if \<not> only [''memory_id'', ''offset'', ''limit''] args then None
      else Option.bind (arg (co_str co) ''memory_id'' args) (\<lambda>memory_id.
           Option.bind (arg_or 0 (at_least 0 (co_int co)) ''offset'' args) (\<lambda>offset.
           Option.bind (arg_or 8000 (bounded 1 8000 (co_int co)) ''limit'' args) (\<lambda>limit.
           Some (memory_id, offset, limit)))))"

definition list_files_args :: "coercion \<Rightarrow> payload \<Rightarrow> (string \<times> int) res" where
  "list_files_args co args = validated co ''ListFilesArgs'' args
     (if \<not> only [''path'', ''limit''] args then None
      else Option.bind (arg_or ''.'' (co_str co) ''path'' args) (\<lambda>path.
           Option.bind (arg_or 500 (bounded 1 500 (co_int co)) ''limit'' args) (\<lambda>limit. Some (path, limit))))"

definition search_code_args :: "coercion \<Rightarrow> payload \<Rightarrow> (string \<times> string \<times> int) res" where
  "search_code_args co args = validated co ''SearchCodeArgs'' args
     (if \<not> only [''pattern'', ''path'', ''limit''] args then None
      else Option.bind (arg (co_str co) ''pattern'' args) (\<lambda>pattern.
           Option.bind (arg_or ''.'' (co_str co) ''path'' args) (\<lambda>path.
           Option.bind (arg_or 100 (bounded 1 100 (co_int co)) ''limit'' args) (\<lambda>limit. Some (pattern, path, limit)))))"

definition git_log_args :: "coercion \<Rightarrow> payload \<Rightarrow> int res" where
  "git_log_args co args = validated co ''GitLogArgs'' args
     (if \<not> only [''limit''] args then None else arg_or 20 (bounded 1 100 (co_int co)) ''limit'' args)"

definition git_show_args :: "coercion \<Rightarrow> payload \<Rightarrow> string res" where
  "git_show_args co args = validated co ''GitShowArgs'' args
     (if \<not> only [''revision''] args then None else arg_or ''HEAD'' (co_str co) ''revision'' args)"

definition no_args :: "coercion \<Rightarrow> payload \<Rightarrow> unit res" where
  "no_args co args = validated co ''NoArgs'' args (if only [] args then Some () else None)"

definition run_command_args :: "coercion \<Rightarrow> payload \<Rightarrow> (string list \<times> string \<times> bool) res" where
  "run_command_args co args = validated co ''RunCommandArgs'' args
     (if \<not> only [''argv'', ''cwd'', ''network''] args then None
      else Option.bind (arg (at_most_items 1 100 (strings co)) ''argv'' args) (\<lambda>argv.
           Option.bind (arg_or ''.'' (co_str co) ''cwd'' args) (\<lambda>cwd.
           Option.bind (arg_or False (co_bool co) ''network'' args) (\<lambda>net. Some (argv, cwd, net)))))"

definition apply_patch_args :: "coercion \<Rightarrow> payload \<Rightarrow> (string \<times> string) list res" where
  "apply_patch_args co args = validated co ''ApplyPatchArgs'' args
     (if \<not> only [''files''] args then None else arg (string_dict co) ''files'' args)"

definition replace_text_args :: "coercion \<Rightarrow> payload \<Rightarrow> (string \<times> string \<times> string \<times> int) res" where
  "replace_text_args co args = validated co ''ReplaceTextArgs'' args
     (if \<not> only [''path'', ''old_text'', ''new_text'', ''expected_replacements''] args then None
      else Option.bind (arg (co_str co) ''path'' args) (\<lambda>path.
           Option.bind (arg (co_str co) ''old_text'' args) (\<lambda>old_text.
           Option.bind (arg (co_str co) ''new_text'' args) (\<lambda>new_text.
           Option.bind (arg_or 1 (co_int co) ''expected_replacements'' args) (\<lambda>n.
           Some (path, old_text, new_text, n))))))"

definition create_file_args :: "coercion \<Rightarrow> payload \<Rightarrow> (string \<times> string) res" where
  "create_file_args co args = validated co ''CreateFileArgs'' args
     (if \<not> only [''path'', ''content''] args then None
      else Option.bind (arg (co_str co) ''path'' args) (\<lambda>path.
           Option.bind (arg (co_str co) ''content'' args) (\<lambda>content. Some (path, content))))"

definition delete_file_args :: "coercion \<Rightarrow> payload \<Rightarrow> string res" where
  "delete_file_args co args = validated co ''DeleteFileArgs'' args
     (if \<not> only [''path''] args then None else arg (co_str co) ''path'' args)"

definition run_skill_script_args :: "coercion \<Rightarrow> payload \<Rightarrow> (string \<times> string \<times> string list) res" where
  "run_skill_script_args co args = validated co ''RunSkillScriptArgs'' args
     (if \<not> only [''skill_id'', ''script_name'', ''args''] args then None
      else Option.bind (arg (co_str co) ''skill_id'' args) (\<lambda>skill_id.
           Option.bind (arg (co_str co) ''script_name'' args) (\<lambda>script_name.
           Option.bind (arg_or [] (at_most_items 0 100 (strings co)) ''args'' args) (\<lambda>xs.
           Some (skill_id, script_name, xs)))))"

definition read_skill_resource_args :: "coercion \<Rightarrow> payload \<Rightarrow> (string \<times> string \<times> int \<times> int) res" where
  "read_skill_resource_args co args = validated co ''ReadSkillResourceArgs'' args
     (if \<not> only [''skill_id'', ''path'', ''offset'', ''limit''] args then None
      else Option.bind (arg (co_str co) ''skill_id'' args) (\<lambda>skill_id.
           Option.bind (arg (co_str co) ''path'' args) (\<lambda>path.
           Option.bind (arg_or 0 (at_least 0 (co_int co)) ''offset'' args) (\<lambda>offset.
           Option.bind (arg_or 8000 (bounded 1 32000 (co_int co)) ''limit'' args) (\<lambda>limit.
           Some (skill_id, path, offset, limit))))))"

definition load_skill_args :: "coercion \<Rightarrow> payload \<Rightarrow> string res" where
  "load_skill_args co args = validated co ''LoadSkillArgs'' args
     (if \<not> only [''skill_id''] args then None else arg (co_str co) ''skill_id'' args)"

text \<open>\<open>_ReadToolResultArgs\<close> of the tool loop; further fields are ignored.\<close>

definition read_tool_result_args :: "coercion \<Rightarrow> payload \<Rightarrow> (string \<times> int \<times> int) res" where
  "read_tool_result_args co args = validated co ''_ReadToolResultArgs'' args
     (Option.bind (arg (co_str co) ''result_id'' args) (\<lambda>result_id.
      Option.bind (arg_or 0 (at_least 0 (co_int co)) ''offset'' args) (\<lambda>offset.
      Option.bind (arg_or 8000 (bounded 1 32000 (co_int co)) ''limit'' args) (\<lambda>limit.
      Some (result_id, offset, limit)))))"

lemma read_tool_result_args_bounds:
  "read_tool_result_args co args = Inr (i, offset, limit) \<Longrightarrow> 0 \<le> offset \<and> 1 \<le> limit \<and> limit \<le> 32000"
  by (auto simp: read_tool_result_args_def validated_def arg_or_def arg_def at_least_def bounded_def Option.bind_eq_Some_conv
      split: option.splits if_splits)

end
