(* ===== verification/ToolLoop.thy ===== *)
theory ToolLoop
  imports Budget ToolArgs Domain
begin

text \<open>
  The bounded tool loop every model agent runs in: \<^verbatim>\<open>agents/tool_loop.py\<close>, with the messages of
  \<^verbatim>\<open>model/gateway.py\<close>.

  The gateway (the model), the tools of the registry, the clock, fresh identifiers and the \<open>str\<close> of a
  value that is not a string are parameters (\<open>loop_env\<close>). They act on an \<open>agent_world\<close>: the recorder, which
  the gateway's usage observer writes to as well, and whatever else they change. What a tool returns
  is taken in the serialised form of \<open>_serializable\<close>.
\<close>

section \<open>Messages\<close>

record tool_call_request =
  tc_call_id :: string
  tc_name :: string
  tc_arguments :: payload

datatype message_role = RSystem | RUser | RAssistant | RTool

record loop_message =
  lm_role :: message_role
  lm_content :: string
  lm_reasoning_content :: "string option"
  lm_tool_call_id :: "string option"
  lm_tool_calls :: "tool_call_request list"

record model_response =
  rs_content :: string
  rs_reasoning_content :: "string option"
  rs_tool_calls :: "tool_call_request list"
  rs_input_tokens :: "int option"
  rs_output_tokens :: "int option"

definition text_message :: "message_role \<Rightarrow> string \<Rightarrow> loop_message" where
  "text_message r content = \<lparr>lm_role = r, lm_content = content, lm_reasoning_content = None, lm_tool_call_id = None,
     lm_tool_calls = []\<rparr>"

definition tool_message :: "string \<Rightarrow> string \<Rightarrow> loop_message" where
  "tool_message call_id content = (text_message RTool content)\<lparr>lm_tool_call_id := Some call_id\<rparr>"

definition assistant_message :: "model_response \<Rightarrow> loop_message" where
  "assistant_message r = \<lparr>lm_role = RAssistant, lm_content = rs_content r, lm_reasoning_content = rs_reasoning_content r,
     lm_tool_call_id = None, lm_tool_calls = rs_tool_calls r\<rparr>"

section \<open>State\<close>

record 'w agent_world =
  aw_recorder :: recorder
  aw_tick :: nat
  aw_world :: 'w

record ('w, 'o) loop_env =
  le_clock :: "nat \<Rightarrow> int"
  le_uuid :: "nat \<Rightarrow> string"
  le_float :: "real \<Rightarrow> string"
  le_str :: "json \<Rightarrow> string"
  le_coercion :: coercion
  le_next_action :: "string \<Rightarrow> loop_message list \<Rightarrow> ('w agent_world, model_response) io"
  le_finalize :: "string \<Rightarrow> loop_message list \<Rightarrow> ('w agent_world, 'o) io"
  le_read_files :: bool
  le_ainvoke :: "string \<Rightarrow> payload \<Rightarrow> ('w agent_world, json) io"
  le_activated_skill_ids :: "'w \<Rightarrow> string list"
  le_used_skill_refs :: "'o \<Rightarrow> skill_ref list option"
  le_with_skill_refs :: "skill_ref list \<Rightarrow> 'o \<Rightarrow> 'o"

record loop_ids =
  li_run_id :: string
  li_agent_id :: string
  li_invocation_id :: string

record 'w loop_state =
  lp_world :: "'w agent_world"
  lp_budgets :: "run_repair_budget list"
  lp_messages :: "loop_message list"
  lp_tool_count :: nat
  lp_used_skills :: "string list"
  lp_selected_skills :: "string list"
  lp_cached_tool_results :: "(string \<times> string) list"

definition on_world :: "('w agent_world, 'a) io \<Rightarrow> ('w loop_state, 'a) io" where
  "on_world = sfocus lp_world (\<lambda>c s. s\<lparr>lp_world := c\<rparr>)"

definition add_messages :: "loop_message list \<Rightarrow> ('w loop_state, unit) io" where
  "add_messages ms = smodify (\<lambda>s. s\<lparr>lp_messages := lp_messages s @ ms\<rparr>)"

definition loop_emit ::
  "('w, 'o) loop_env \<Rightarrow> loop_ids \<Rightarrow> event_type \<Rightarrow> string \<Rightarrow> payload \<Rightarrow> ('w loop_state, unit) io" where
  "loop_emit env ids ty key payload = on_world
     (\<lambda>w. case emit (le_clock env (aw_tick w)) (le_uuid env (aw_tick w)) (li_run_id ids) ty (Some (li_agent_id ids))
                    (Some (li_invocation_id ids)) payload (Some key) (aw_recorder w) of
            (e, r) \<Rightarrow> (w\<lparr>aw_recorder := r, aw_tick := Suc (aw_tick w)\<rparr>, Inr ()))"

text \<open>\<open>CombinedBudget\<close>; without budgets nothing is charged.\<close>

definition charge_budgets ::
  "(run_repair_budget list \<Rightarrow> pyexc option \<times> run_repair_budget list) \<Rightarrow> ('w loop_state, unit) io" where
  "charge_budgets consume =
     (\<lambda>s. case consume (lp_budgets s) of
            (e, bs) \<Rightarrow> (s\<lparr>lp_budgets := bs\<rparr>, case e of None \<Rightarrow> Inr () | Some x \<Rightarrow> Inl x))"

section \<open>One tool call\<close>

definition TOOL_RESULT_PREVIEW_CHARS :: nat where
  "TOOL_RESULT_PREVIEW_CHARS = 12000"

definition TOOL_ERROR_PREVIEW_CHARS :: nat where
  "TOOL_ERROR_PREVIEW_CHARS = 2000"

text \<open>The ellipsis character, as the bytes of its encoding.\<close>

definition ellipsis :: string where
  "ellipsis = map char_of [226::nat, 128, 166]"

definition skill_ref_from_arguments :: "coercion \<Rightarrow> payload \<Rightarrow> string option" where
  "skill_ref_from_arguments co arguments =
     (case run_skill_script_args co arguments of Inl e \<Rightarrow> None | Inr (skill_id, _, _) \<Rightarrow> Some skill_id)"

definition load_skill_id :: "coercion \<Rightarrow> payload \<Rightarrow> string option" where
  "load_skill_id co arguments = (case load_skill_args co arguments of Inl e \<Rightarrow> None | Inr skill_id \<Rightarrow> Some skill_id)"

text \<open>\<open>exit_code in {None, 0}\<close>; a list or a dictionary is not hashable\<close>

fun in_none_zero :: "json \<Rightarrow> bool res" where
  "in_none_zero JNull = Inr True"
| "in_none_zero (JBool b) = Inr (\<not> b)"
| "in_none_zero (JInt i) = Inr (i = 0)"
| "in_none_zero (JFloat r) = Inr (r = 0)"
| "in_none_zero (JStr s) = Inr False"
| "in_none_zero (JList xs) = Inl (TypeError (''unhashable type: '' @ py_repr ''list''))"
| "in_none_zero (JObj kvs) = Inl (TypeError (''unhashable type: '' @ py_repr ''dict''))"

definition result_success :: "(json \<Rightarrow> string) \<Rightarrow> json \<Rightarrow> (bool \<times> json \<times> string option) res" where
  "result_success str result =
     (case result of
        JObj serialized \<Rightarrow>
          (let exit_code = jget serialized ''exit_code''; timed_out = jtruthy (jget serialized ''timed_out'')
           in rbind (in_none_zero exit_code) (\<lambda>zero.
              let success = (zero \<and> \<not> timed_out); stderr = jget serialized ''stderr''
              in Inr (success, exit_code,
                   if success then None
                   else Some (if jtruthy stderr then (case stderr of JStr t \<Rightarrow> t | j \<Rightarrow> str j)
                              else ''tool returned a non-zero exit status''))))
      | _ \<Rightarrow> Inr (True, JNull, None))"

definition read_tool_result ::
  "('w, 'o) loop_env \<Rightarrow> payload \<Rightarrow> (string \<times> string) list \<Rightarrow> json res" where
  "read_tool_result env arguments cached =
     (if \<not> le_read_files env then Inl (PolicyViolation ''tool read_tool_result requires read_files'')
      else rbind (read_tool_result_args (le_coercion env) arguments) (\<lambda>(result_id, offset, limit).
        case map_of cached result_id of
          None \<Rightarrow> Inl (KeyError (''unknown cached tool result: '' @ result_id))
        | Some raw \<Rightarrow>
            let chunk = take (nat limit) (drop (nat offset) raw); next_offset = offset + int (length chunk);
                complete = int (length raw) \<le> next_offset
            in Inr (JObj [(''result_id'', JStr result_id), (''offset'', JInt offset), (''content'', JStr chunk),
                 (''next_offset'', if complete then JNull else JInt next_offset), (''complete'', JBool complete),
                 (''total_chars'', JInt (int (length raw)))])))"

text \<open>
  \<open>tools.ainvoke(call.name, **call.arguments)\<close>: an argument that is named like a parameter of \<open>ainvoke\<close>
  itself is a \<open>TypeError\<close>.
\<close>

definition ainvoke :: "('w, 'o) loop_env \<Rightarrow> string \<Rightarrow> payload \<Rightarrow> ('w loop_state, json) io" where
  "ainvoke env name arguments =
     (case filter (\<lambda>(k, v). k \<in> {''self'', ''name''}) arguments of
        (k, v) # _ \<Rightarrow> sraise (TypeError (''ToolRegistry.ainvoke() got multiple values for argument '' @ py_repr k))
      | [] \<Rightarrow>
          if name = ''read_tool_result''
          then (\<lambda>s. (s, read_tool_result env arguments (lp_cached_tool_results s)))
          else on_world (le_ainvoke env name arguments))"

text \<open>What the handlers around the call make of an exception: whether the call counts as rejected.\<close>

definition call_rejected :: "string \<Rightarrow> pyexc \<Rightarrow> bool option" where
  "call_rejected name e =
     (case e of
        PolicyViolation m \<Rightarrow> Some True
      | ValidationError m \<Rightarrow> Some True
      | _ \<Rightarrow> if (case e of KeyError m \<Rightarrow> True | TypeError m \<Rightarrow> True | RegexError m \<Rightarrow> True | _ \<Rightarrow> False) \<or>
               is_value_error e \<or> is_runtime_error e \<or> is_os_error e
            then Some (name \<in> {''run_skill_script'', ''read_skill_resource'', ''load_skill''})
            else None)"

record call_outcome =
  oc_result :: "json option"
  oc_success :: bool
  oc_exit_code :: json
  oc_error :: "string option"
  oc_rejected :: bool

definition failed_call :: "string \<Rightarrow> json option \<Rightarrow> pyexc \<Rightarrow> call_outcome res" where
  "failed_call name result e =
     (case call_rejected name e of
        None \<Rightarrow> Inl e
      | Some rejected \<Rightarrow> Inr \<lparr>oc_result = result, oc_success = False, oc_exit_code = JNull,
          oc_error = Some (exc_name e @ '': '' @ exc_str e), oc_rejected = rejected\<rparr>)"

definition call_outcome_of :: "('w, 'o) loop_env \<Rightarrow> string \<Rightarrow> json res \<Rightarrow> call_outcome res" where
  "call_outcome_of env name r =
     (case r of
        Inl e \<Rightarrow> failed_call name None e
      | Inr result \<Rightarrow>
          (case result_success (le_str env) result of
             Inl e \<Rightarrow> failed_call name (Some result) e
           | Inr (success, exit_code, error) \<Rightarrow>
               Inr \<lparr>oc_result = Some result, oc_success = success, oc_exit_code = exit_code, oc_error = error,
                    oc_rejected = False\<rparr>))"

definition serialized_result :: "call_outcome \<Rightarrow> json" where
  "serialized_result oc = (case oc_result oc of None \<Rightarrow> JNull | Some j \<Rightarrow> j)"

text \<open>\<open>serialized.get(key, [])\<close>\<close>

definition files_of :: "string \<Rightarrow> payload \<Rightarrow> json" where
  "files_of key p = (case map_of p key of None \<Rightarrow> JList [] | Some v \<Rightarrow> v)"

definition result_payload :: "tool_call_request \<Rightarrow> nat \<Rightarrow> int \<Rightarrow> call_outcome \<Rightarrow> payload" where
  "result_payload call iteration elapsed oc =
     [(''call_id'', JStr (tc_call_id call)), (''tool_name'', JStr (tc_name call)), (''success'', JBool (oc_success oc)),
      (''exit_code'', oc_exit_code oc), (''error'', jopt (oc_error oc)),
      (''duration_seconds'', JFloat (real_of_int elapsed)), (''iteration'', JInt (int iteration)),
      (''result'', serialized_result oc)] @
     (case serialized_result oc of
        JObj o' \<Rightarrow> [(''created_files'', files_of ''created_files'' o'), (''modified_files'', files_of ''modified_files'' o')]
      | _ \<Rightarrow> [])"

definition record_load_skill ::
  "('w, 'o) loop_env \<Rightarrow> loop_ids \<Rightarrow> tool_call_request \<Rightarrow> call_outcome \<Rightarrow> ('w loop_state, unit) io" where
  "record_load_skill env ids call oc =
     (let skill_id = load_skill_id (le_coercion env) (tc_arguments call) in
      if oc_rejected oc \<or> \<not> oc_success oc
      then loop_emit env ids SKILL_INVOCATION_REJECTED (tc_call_id call)
             [(''skill_id'', jopt skill_id), (''reason'', jopt (oc_error oc))]
      else case skill_id of
        None \<Rightarrow> sret ()
      | Some i \<Rightarrow>
          sbind (sget lp_selected_skills) (\<lambda>selected.
          if i = [] \<or> i \<in> set selected then sret ()
          else sbind (smodify (\<lambda>s. s\<lparr>lp_selected_skills := i # lp_selected_skills s\<rparr>)) (\<lambda>_.
               loop_emit env ids SKILL_SELECTED (''select:'' @ i)
                 [(''skills'', JList [JObj [(''skill_id'', JStr i)]])])))"

definition record_skill_script ::
  "('w, 'o) loop_env \<Rightarrow> loop_ids \<Rightarrow> tool_call_request \<Rightarrow> call_outcome \<Rightarrow> ('w loop_state, unit) io" where
  "record_skill_script env ids call oc =
     (let ref = skill_ref_from_arguments (le_coercion env) (tc_arguments call);
          resource = jget (tc_arguments call) ''script_name''
      in if oc_rejected oc \<or> serialized_result oc = JNull
         then loop_emit env ids SKILL_INVOCATION_REJECTED (tc_call_id call)
                [(''skill_id'', jopt ref), (''resource'', resource), (''reason'', jopt (oc_error oc))]
         else case ref of
           None \<Rightarrow> sret ()
         | Some i \<Rightarrow>
             sbind (smodify (\<lambda>s. s\<lparr>lp_used_skills := i # lp_used_skills s\<rparr>)) (\<lambda>_.
             loop_emit env ids SKILL_USED (tc_call_id call)
               [(''skill_id'', JStr i), (''usage_kind'', JStr ''script''), (''resource'', resource),
                (''success'', JBool (oc_success oc))]))"

text \<open>The message for the model: a large result is cached and projected, a long error is cut.\<close>

definition answer_call :: "('w, 'o) loop_env \<Rightarrow> tool_call_request \<Rightarrow> call_outcome \<Rightarrow> ('w loop_state, unit) io" where
  "answer_call env call oc =
     (let raw = json_dumps (le_float env) (serialized_result oc);
          large = TOOL_RESULT_PREVIEW_CHARS < length raw;
          message_result = (if large
            then JObj [(''projected'', JBool True), (''result_id'', JStr (tc_call_id call)),
                       (''total_chars'', JInt (int (length raw))),
                       (''preview'', JStr (take TOOL_RESULT_PREVIEW_CHARS raw)),
                       (''read_more'', JStr ''Call read_tool_result with this result_id and an offset/limit.'')]
            else serialized_result oc);
          message_error = (case oc_error oc of
              None \<Rightarrow> None
            | Some e \<Rightarrow> Some (if TOOL_ERROR_PREVIEW_CHARS < py_len e
                            then py_take TOOL_ERROR_PREVIEW_CHARS e @ ellipsis else e))
      in sbind (if large
                then smodify (\<lambda>s. s\<lparr>lp_cached_tool_results :=
                       AList.update (tc_call_id call) raw (lp_cached_tool_results s)\<rparr>)
                else sret ()) (\<lambda>_.
         add_messages [tool_message (tc_call_id call)
           (json_dumps (le_float env) (JObj [(''ok'', JBool (oc_success oc)), (''result'', message_result),
              (''error'', jopt message_error)]))]))"

text \<open>A call after its charge.\<close>

definition charged_call ::
  "('w, 'o) loop_env \<Rightarrow> loop_ids \<Rightarrow> nat \<Rightarrow> tool_call_request \<Rightarrow> ('w loop_state, unit) io" where
  "charged_call env ids iteration call =
     sbind (loop_emit env ids TOOL_CALL (tc_call_id call)
       [(''call_id'', JStr (tc_call_id call)), (''tool_name'', JStr (tc_name call)),
        (''arguments'', JObj (tc_arguments call)), (''iteration'', JInt (int iteration))]) (\<lambda>_.
     sbind (sget (\<lambda>s. le_clock env (aw_tick (lp_world s)))) (\<lambda>started.
     sbind (stry (ainvoke env (tc_name call) (tc_arguments call))) (\<lambda>r.
     sbind (slift (call_outcome_of env (tc_name call) r)) (\<lambda>oc.
     sbind (sget (\<lambda>s. le_clock env (aw_tick (lp_world s)))) (\<lambda>now.
     sbind (loop_emit env ids TOOL_RESULT (tc_call_id call) (result_payload call iteration (now - started) oc)) (\<lambda>_.
     sbind (if tc_name call = ''load_skill'' then record_load_skill env ids call oc else sret ()) (\<lambda>_.
     sbind (if tc_name call = ''run_skill_script'' then record_skill_script env ids call oc else sret ()) (\<lambda>_.
     answer_call env call oc))))))))"

definition handle_call ::
  "('w, 'o) loop_env \<Rightarrow> loop_ids \<Rightarrow> nat \<Rightarrow> tool_call_request \<Rightarrow> ('w loop_state, unit) io" where
  "handle_call env ids iteration call =
     sbind (charge_budgets combined_consume_tool_call) (\<lambda>_. charged_call env ids iteration call)"

section \<open>The loop\<close>

definition exhausted_answer :: "('w, 'o) loop_env \<Rightarrow> tool_call_request \<Rightarrow> loop_message" where
  "exhausted_answer env call = tool_message (tc_call_id call)
     (json_dumps (le_float env) (JObj [(''error'', JStr ''leaf tool-call budget exhausted'')]))"

text \<open>The calls of one turn; the result says whether the loop goes to the final answer.\<close>

fun run_calls ::
  "('w, 'o) loop_env \<Rightarrow> loop_ids \<Rightarrow> int \<Rightarrow> nat \<Rightarrow> tool_call_request list \<Rightarrow> ('w loop_state, bool) io" where
  "run_calls env ids max_tools iteration [] = sret False"
| "run_calls env ids max_tools iteration (call # rest) =
     sbind (smodify (\<lambda>s. s\<lparr>lp_tool_count := Suc (lp_tool_count s)\<rparr>)) (\<lambda>_.
     sbind (sget lp_tool_count) (\<lambda>tool_count.
     if max_tools < int tool_count
     then sbind (add_messages (map (exhausted_answer env) (call # rest))) (\<lambda>_.
          sbind (loop_emit env ids ATTEMPT_FAILED (''tool-budget:'' @ show_nat iteration)
            [(''kind'', JStr ''tool_failure''), (''agent_id'', JStr (li_agent_id ids)),
             (''reason'', JStr ''leaf tool-call budget exhausted''), (''iteration'', JInt (int iteration))]) (\<lambda>_.
          sret True))
     else sbind (handle_call env ids iteration call) (\<lambda>_. run_calls env ids max_tools iteration rest)))"

definition model_turn ::
  "('w, 'o) loop_env \<Rightarrow> loop_ids \<Rightarrow> nat \<Rightarrow> ('w loop_state, model_response) io" where
  "model_turn env ids iteration =
     (let key = ''tool-turn:'' @ show_nat iteration in
      sbind (charge_budgets combined_consume_model_call) (\<lambda>_.
      sbind (sget lp_messages) (\<lambda>messages.
      sbind (stry (on_world (le_next_action env key messages))) (\<lambda>r.
      case r of
        Inl e \<Rightarrow>
          sbind (loop_emit env ids MODEL_CALL key
            [(''phase'', JStr ''tool_loop''), (''iteration'', JInt (int iteration)),
             (''error'', JStr (exc_name e @ '': '' @ exc_str e))]) (\<lambda>_. sraise e)
      | Inr response \<Rightarrow>
          sbind (loop_emit env ids MODEL_CALL key
            [(''phase'', JStr ''tool_loop''), (''iteration'', JInt (int iteration)),
             (''input_tokens'', jint_opt (rs_input_tokens response)),
             (''output_tokens'', jint_opt (rs_output_tokens response))]) (\<lambda>_.
          sbind (add_messages [assistant_message response]) (\<lambda>_. sret response))))))"

text \<open>\<open>left\<close> is the number of turns that are left of \<open>range(1, action_limit + 1)\<close>.\<close>

fun turns :: "('w, 'o) loop_env \<Rightarrow> loop_ids \<Rightarrow> int \<Rightarrow> nat \<Rightarrow> nat \<Rightarrow> ('w loop_state, bool) io" where
  "turns env ids max_tools 0 iteration = sret False"
| "turns env ids max_tools (Suc left) iteration =
     sbind (model_turn env ids iteration) (\<lambda>response.
     if rs_tool_calls response = [] then sret True
     else sbind (run_calls env ids max_tools iteration (rs_tool_calls response)) (\<lambda>should_finalize.
          if should_finalize then sret True else turns env ids max_tools left (Suc iteration)))"

definition final_answer :: "('w, 'o) loop_env \<Rightarrow> loop_ids \<Rightarrow> ('w loop_state, 'o) io" where
  "final_answer env ids =
     sbind (sget lp_messages) (\<lambda>messages.
     sbind (stry (sbind (charge_budgets combined_consume_model_call) (\<lambda>_.
                   on_world (le_finalize env ''structured-final'' messages)))) (\<lambda>r.
     case r of
       Inl e \<Rightarrow>
         sbind (loop_emit env ids MODEL_CALL ''structured-final''
           [(''phase'', JStr ''structured_final''), (''error'', JStr (exc_name e @ '': '' @ exc_str e))]) (\<lambda>_. sraise e)
     | Inr result \<Rightarrow>
         sbind (loop_emit env ids MODEL_CALL ''structured-final'' [(''phase'', JStr ''structured_final'')]) (\<lambda>_.
         sret result)))"

fun emit_procedure_uses ::
  "('w, 'o) loop_env \<Rightarrow> loop_ids \<Rightarrow> string list \<Rightarrow> ('w loop_state, unit) io" where
  "emit_procedure_uses env ids [] = sret ()"
| "emit_procedure_uses env ids (i # rest) =
     sbind (loop_emit env ids SKILL_USED (''method-use:'' @ i)
       [(''skill_id'', JStr i), (''usage_kind'', JStr ''procedure''), (''resource'', JNull), (''success'', JNull)]) (\<lambda>_.
     emit_procedure_uses env ids rest)"

definition attribute_skills :: "('w, 'o) loop_env \<Rightarrow> loop_ids \<Rightarrow> 'o \<Rightarrow> ('w loop_state, 'o) io" where
  "attribute_skills env ids result =
     (case le_used_skill_refs env result of
        None \<Rightarrow> sret result
      | Some refs \<Rightarrow>
          sbind (sget (\<lambda>s. (le_activated_skill_ids env (aw_world (lp_world s)) @ lp_selected_skills s, lp_used_skills s)))
            (\<lambda>(activated, used).
          let valid_claimed = filter (\<lambda>i. i \<in> set activated) (map sr_skill_id refs)
          in sbind (emit_procedure_uses env ids (sorted_set (filter (\<lambda>i. i \<notin> set used) valid_claimed))) (\<lambda>_.
             sret (le_with_skill_refs env (map skill_ref.make (sorted_set (valid_claimed @ used))) result))))"

definition agent_loop ::
  "('w, 'o) loop_env \<Rightarrow> loop_ids \<Rightarrow> int \<Rightarrow> nat \<Rightarrow> ('w loop_state, 'o) io" where
  "agent_loop env ids max_tools action_limit =
     sbind (turns env ids max_tools action_limit 1) (\<lambda>should_finalize.
     sbind (if should_finalize then sret ()
            else add_messages [text_message RUser
              ''The leaf iteration budget is exhausted. Synthesize the best supported final output.'']) (\<lambda>_.
     sbind (final_answer env ids) (\<lambda>result. attribute_skills env ids result)))"

section \<open>Limits\<close>

record loop_config =
  lc_max_iterations :: int
  lc_max_tool_calls :: int

definition mk_loop_config :: "int \<Rightarrow> int \<Rightarrow> loop_config res" where
  "mk_loop_config max_iterations max_tool_calls =
     (if max_iterations < 1 \<or> max_tool_calls < 1 then Inl (ValueError ''tool-loop budgets must be positive'')
      else Inr \<lparr>lc_max_iterations = max_iterations, lc_max_tool_calls = max_tool_calls\<rparr>)"

text \<open>The number of turns and of tool calls of a run: \<open>run_budget\<close> is the run's budget, \<open>extra\<close> the task's.\<close>

definition loop_limits ::
  "loop_config \<Rightarrow> run_repair_budget option \<Rightarrow> run_repair_budget option \<Rightarrow> (int \<times> int) res" where
  "loop_limits cfg run_budget extra =
     (let action_limit = (case extra of None \<Rightarrow> lc_max_iterations cfg
            | Some b \<Rightarrow> min (lc_max_iterations cfg) (max 0 (rb_max_model_calls b - FINALIZATION_MODEL_CALLS)));
          max_tools = (case extra of None \<Rightarrow> lc_max_tool_calls cfg
            | Some b \<Rightarrow> min (lc_max_tool_calls cfg) (rb_max_tool_calls b))
      in rbind (case run_budget of
                  None \<Rightarrow> Inr action_limit
                | Some b \<Rightarrow>
                    if remaining_model_calls b < 1 + FINALIZATION_MODEL_CALLS
                    then Inl (RepairBudgetExhausted ''run-level model-call budget exhausted'')
                    else Inr (min action_limit (remaining_model_calls b - FINALIZATION_MODEL_CALLS))) (\<lambda>limit.
         if limit < 1 \<or> max_tools < 1 then Inl (RepairBudgetExhausted ''task-level model-call budget exhausted'')
         else Inr (limit, max_tools)))"

text \<open>
  \<open>BoundedToolAgent.run\<close>. The manager's budget and the extra budget are the objects the loop charges: the
  result has them as the loop left them, also when it raised.
\<close>

definition opt_list :: "'a option \<Rightarrow> 'a list" where
  "opt_list x = (case x of None \<Rightarrow> [] | Some y \<Rightarrow> [y])"

definition loop_start ::
  "string \<Rightarrow> string \<Rightarrow> run_repair_budget list \<Rightarrow> 'w agent_world \<Rightarrow> 'w loop_state" where
  "loop_start system_prompt task_prompt budgets w =
     \<lparr>lp_world = w, lp_budgets = budgets,
      lp_messages = [text_message RSystem system_prompt, text_message RUser task_prompt],
      lp_tool_count = 0, lp_used_skills = [], lp_selected_skills = [], lp_cached_tool_results = []\<rparr>"

definition run_tool_agent ::
  "('w, 'o) loop_env \<Rightarrow> loop_config \<Rightarrow> loop_ids \<Rightarrow> string \<Rightarrow> string \<Rightarrow> run_repair_budget option \<Rightarrow>
   run_repair_budget option \<Rightarrow> 'w agent_world \<Rightarrow>
   ('w agent_world \<times> run_repair_budget list) \<times> 'o res" where
  "run_tool_agent env cfg ids system_prompt task_prompt run_budget extra w =
     (if strip (li_invocation_id ids) = []
      then ((w, opt_list run_budget @ opt_list extra), Inl (ValueError ''invocation_id must be a stable non-empty identifier''))
      else case loop_limits cfg run_budget extra of
        Inl e \<Rightarrow> ((w, opt_list run_budget @ opt_list extra), Inl e)
      | Inr (action_limit, max_tools) \<Rightarrow>
          (case agent_loop env ids max_tools (nat action_limit)
                  (loop_start system_prompt task_prompt (opt_list run_budget @ opt_list extra) w) of
             (s, r) \<Rightarrow> ((lp_world s, lp_budgets s), r)))"

section \<open>Budgets\<close>

text \<open>How far the budgets moved: at most \<open>m\<close> model calls and \<open>t\<close> tool calls, never past a limit.\<close>

definition spent_at_most :: "int \<Rightarrow> int \<Rightarrow> run_repair_budget \<Rightarrow> run_repair_budget \<Rightarrow> bool" where
  "spent_at_most m t b b' \<longleftrightarrow>
     rb_max_model_calls b' = rb_max_model_calls b \<and> rb_max_tool_calls b' = rb_max_tool_calls b \<and>
     rb_model_calls b \<le> rb_model_calls b' \<and> rb_model_calls b' \<le> rb_model_calls b + m \<and>
     rb_tool_calls b \<le> rb_tool_calls b' \<and> rb_tool_calls b' \<le> rb_tool_calls b + t \<and>
     (rb_model_calls b \<le> rb_max_model_calls b \<longrightarrow> rb_model_calls b' \<le> rb_max_model_calls b) \<and>
     (rb_tool_calls b \<le> rb_max_tool_calls b \<longrightarrow> rb_tool_calls b' \<le> rb_max_tool_calls b)"

definition all_spent :: "int \<Rightarrow> int \<Rightarrow> run_repair_budget list \<Rightarrow> run_repair_budget list \<Rightarrow> bool" where
  "all_spent m t = list_all2 (spent_at_most m t)"

lemma all_spent_refl: "all_spent 0 0 bs bs"
  by (simp add: all_spent_def list_all2_refl spent_at_most_def)

lemma all_spent_trans: "all_spent m t as bs \<Longrightarrow> all_spent m' t' bs cs \<Longrightarrow> all_spent (m + m') (t + t') as cs"
  unfolding all_spent_def
  by (rule list_all2_trans [of "spent_at_most m t"]) (auto simp: spent_at_most_def)

lemma all_spent_mono: "all_spent m t as bs \<Longrightarrow> m \<le> m' \<Longrightarrow> t \<le> t' \<Longrightarrow> all_spent m' t' as bs"
  unfolding all_spent_def by (erule list_all2_mono) (auto simp: spent_at_most_def)

lemma combined_spent:
  "combined_consume consume_model_call bs = (e, bs') \<Longrightarrow> all_spent 1 0 bs bs'"
  "combined_consume consume_tool_call bs = (e, bs') \<Longrightarrow> all_spent 0 1 bs bs'"
proof -
  show "combined_consume consume_model_call bs = (e, bs') \<Longrightarrow> all_spent 1 0 bs bs'"
    by (induction bs arbitrary: e bs')
      (auto simp: all_spent_def consume_model_call_def list_all2_refl spent_at_most_def split: sum.splits if_splits prod.splits)
  show "combined_consume consume_tool_call bs = (e, bs') \<Longrightarrow> all_spent 0 1 bs bs'"
    by (induction bs arbitrary: e bs')
      (auto simp: all_spent_def consume_tool_call_def list_all2_refl spent_at_most_def split: sum.splits if_splits prod.splits)
qed

section \<open>What the parts of the loop change\<close>

text \<open>Most of the loop works on the world and the skills: messages, budgets and the counter stay.\<close>

definition same_loop :: "'w loop_state \<Rightarrow> 'w loop_state \<Rightarrow> bool" where
  "same_loop s s' \<longleftrightarrow> lp_messages s' = lp_messages s \<and> lp_budgets s' = lp_budgets s \<and> lp_tool_count s' = lp_tool_count s"

abbreviation quiet :: "('w loop_state, 'a) io \<Rightarrow> bool" where
  "quiet \<equiv> keeps same_loop"

named_theorems quiet_rules \<open>parts of the loop that keep messages, budgets and the counter\<close>

lemma quiet_pure [quiet_rules]: "quiet (sret x)" "quiet (sraise e)" "quiet (sget f)" "quiet (slift r)"
  by (simp_all add: keeps_pure same_loop_def)

lemma quiet_bind [quiet_rules]: "quiet f \<Longrightarrow> (\<And>x. quiet (g x)) \<Longrightarrow> quiet (sbind f g)"
  by (rule keeps_bind) (auto simp: same_loop_def)

lemma quiet_try [quiet_rules]: "quiet f \<Longrightarrow> quiet (stry f)"
  by (simp add: keeps_def stry_def case_prod_beta)

lemma quiet_world [quiet_rules]: "quiet (on_world f)" "quiet (loop_emit env ids ty key p)"
  by (auto simp: keeps_def on_world_def sfocus_def loop_emit_def same_loop_def split: prod.splits)

lemma quiet_skills [quiet_rules]:
  "quiet (smodify (\<lambda>s. s\<lparr>lp_selected_skills := f s\<rparr>))" "quiet (smodify (\<lambda>s. s\<lparr>lp_used_skills := f s\<rparr>))"
  "quiet (smodify (\<lambda>s. s\<lparr>lp_cached_tool_results := g s\<rparr>))"
  by (simp_all add: keeps_def same_loop_def)

lemma quiet_ainvoke [quiet_rules]: "quiet (ainvoke env name arguments)"
  by (auto simp: ainvoke_def intro!: quiet_rules split: list.splits) (simp add: keeps_def same_loop_def)

lemma quiet_record [quiet_rules]: "quiet (record_load_skill env ids call oc)" "quiet (record_skill_script env ids call oc)"
  by (auto simp: record_load_skill_def record_skill_script_def Let_def intro!: quiet_rules split: option.splits)

text \<open>\<open>answers call f\<close>: charges nothing and, if it returns, has added one message, the answer to \<open>call\<close>.\<close>

definition answers :: "tool_call_request \<Rightarrow> ('w loop_state, unit) io \<Rightarrow> bool" where
  "answers call f \<longleftrightarrow> (\<forall>s s' r. f s = (s', r) \<longrightarrow> lp_budgets s' = lp_budgets s \<and> lp_tool_count s' = lp_tool_count s \<and>
     (case r of Inl e \<Rightarrow> lp_messages s' = lp_messages s
      | Inr u \<Rightarrow> \<exists>c. lp_messages s' = lp_messages s @ [tool_message (tc_call_id call) c]))"

lemma answersD:
  assumes "answers call f" "f s = (s', r)"
  shows "lp_budgets s' = lp_budgets s" "lp_tool_count s' = lp_tool_count s"
    "r = Inr u \<Longrightarrow> \<exists>c. lp_messages s' = lp_messages s @ [tool_message (tc_call_id call) c]"
  using assms(1) [unfolded answers_def, rule_format, OF assms(2)] by auto

lemma answers_bind: "quiet f \<Longrightarrow> (\<And>x. answers call (g x)) \<Longrightarrow> answers call (sbind f g)"
  unfolding answers_def sbind_def
  by (auto dest!: keepsD simp: same_loop_def split: prod.splits sum.splits) (fastforce split: sum.splits)+

lemma answers_answer_call: "answers call (answer_call env call oc)"
  by (auto simp: answers_def answer_call_def add_messages_def Let_def sbind_def split: sum.splits if_splits)

lemma answers_charged_call: "answers call (charged_call env ids iteration call)"
  unfolding charged_call_def by (intro answers_bind answers_answer_call) (auto intro!: quiet_rules)

section \<open>Charges\<close>

text \<open>
  \<open>spends M m f\<close>: \<open>f\<close> charges at most \<open>m\<close> model calls, and no more tool calls than the counter advances
  below \<open>M\<close>, whether it returns or raises.
\<close>

definition spends :: "int \<Rightarrow> int \<Rightarrow> ('w loop_state, 'a) io \<Rightarrow> bool" where
  "spends M m f \<longleftrightarrow> (\<forall>s s' r. f s = (s', r) \<longrightarrow> lp_tool_count s \<le> lp_tool_count s' \<and>
     all_spent m (min M (int (lp_tool_count s')) - min M (int (lp_tool_count s))) (lp_budgets s) (lp_budgets s'))"

lemma spendsD:
  "spends M m f \<Longrightarrow> f s = (s', r) \<Longrightarrow>
   all_spent m (min M (int (lp_tool_count s')) - min M (int (lp_tool_count s))) (lp_budgets s) (lp_budgets s')"
  unfolding spends_def by blast

lemma spends_quiet: "quiet f \<Longrightarrow> spends M 0 f"
  by (auto simp: spends_def same_loop_def all_spent_refl dest!: keepsD)

lemma spends_mono: "spends M m f \<Longrightarrow> m \<le> m' \<Longrightarrow> spends M m' f"
  unfolding spends_def by (meson all_spent_mono order_refl)

lemma spends_bind:
  assumes "spends M m f" and "\<And>x. spends M m' (g x)" and "0 \<le> m'"
  shows "spends M (m + m') (sbind f g)"
  unfolding spends_def
proof (intro allI impI)
  fix s s' r assume run: "sbind f g s = (s', r)"
  obtain s1 r1 where f: "f s = (s1, r1)" by (cases "f s")
  with assms(1) have 1: "lp_tool_count s \<le> lp_tool_count s1"
    "all_spent m (min M (int (lp_tool_count s1)) - min M (int (lp_tool_count s))) (lp_budgets s) (lp_budgets s1)"
    by (auto simp: spends_def)
  show "lp_tool_count s \<le> lp_tool_count s' \<and>
     all_spent (m + m') (min M (int (lp_tool_count s')) - min M (int (lp_tool_count s))) (lp_budgets s) (lp_budgets s')"
  proof (cases r1)
    case (Inl e)
    with f run 1 assms(3) show ?thesis by (auto simp: sbind_steps elim: all_spent_mono)
  next
    case (Inr x)
    with f run have "g x s1 = (s', r)" by (simp add: sbind_steps)
    with assms(2) have 2: "lp_tool_count s1 \<le> lp_tool_count s'"
      "all_spent m' (min M (int (lp_tool_count s')) - min M (int (lp_tool_count s1))) (lp_budgets s1) (lp_budgets s')"
      by (auto simp: spends_def)
    with 1 all_spent_trans [OF 1(2) 2(2)] show ?thesis by simp
  qed
qed

lemma spends_bind0: "spends M 0 f \<Longrightarrow> (\<And>x. spends M m (g x)) \<Longrightarrow> 0 \<le> m \<Longrightarrow> spends M m (sbind f g)"
  using spends_bind [of M 0 f m g] by simp

lemma spends_if: "spends M m f \<Longrightarrow> spends M m g \<Longrightarrow> spends M m (if b then f else g)"
  by simp

lemma spends_return: "0 \<le> m \<Longrightarrow> spends M m (sret x)"
  by (rule spends_mono [OF spends_quiet]) (rule quiet_rules)

lemma spends_bind_quiet: "quiet f \<Longrightarrow> (\<And>x. spends M m (g x)) \<Longrightarrow> 0 \<le> m \<Longrightarrow> spends M m (sbind f g)"
  using spends_bind [OF spends_quiet, of f M m g] by simp

lemma spends_bind_then_quiet: "spends M m f \<Longrightarrow> (\<And>x. quiet (g x)) \<Longrightarrow> spends M m (sbind f g)"
  using spends_bind [of M m f 0 g] by (simp add: spends_quiet)

lemma spends_charge_model: "spends M 1 (charge_budgets combined_consume_model_call)"
  by (auto simp: spends_def charge_budgets_def combined_consume_model_call_def dest: combined_spent split: prod.splits)

lemma spends_messages: "spends M 0 (add_messages ms)"
  by (simp add: spends_def add_messages_def all_spent_refl)

lemma handle_call_budgets:
  "handle_call env ids iteration call s = (s', r) \<Longrightarrow>
   all_spent 0 1 (lp_budgets s) (lp_budgets s') \<and> lp_tool_count s' = lp_tool_count s"
  using answers_charged_call [of call env ids iteration]
  by (auto simp: handle_call_def sbind_def charge_budgets_def combined_consume_tool_call_def answers_def
      dest: combined_spent split: prod.splits option.splits)

text \<open>One call: the counter advances first, and only a call below the limit is charged.\<close>

definition counted_call ::
  "('w, 'o) loop_env \<Rightarrow> loop_ids \<Rightarrow> int \<Rightarrow> nat \<Rightarrow> tool_call_request \<Rightarrow> ('w loop_state, bool) io" where
  "counted_call env ids M iteration call =
     sbind (smodify (\<lambda>s. s\<lparr>lp_tool_count := Suc (lp_tool_count s)\<rparr>)) (\<lambda>_.
     sbind (sget lp_tool_count) (\<lambda>n.
     if M < int n then sret False else sbind (handle_call env ids iteration call) (\<lambda>_. sret True)))"

definition exhaust_calls ::
  "('w, 'o) loop_env \<Rightarrow> loop_ids \<Rightarrow> nat \<Rightarrow> tool_call_request list \<Rightarrow> ('w loop_state, bool) io" where
  "exhaust_calls env ids iteration calls =
     sbind (add_messages (map (exhausted_answer env) calls)) (\<lambda>_.
     sbind (loop_emit env ids ATTEMPT_FAILED (''tool-budget:'' @ show_nat iteration)
       [(''kind'', JStr ''tool_failure''), (''agent_id'', JStr (li_agent_id ids)),
        (''reason'', JStr ''leaf tool-call budget exhausted''), (''iteration'', JInt (int iteration))]) (\<lambda>_.
     sret True))"

lemma run_calls_Cons:
  "run_calls env ids M iteration (call # rest) = sbind (counted_call env ids M iteration call) (\<lambda>ran.
     if ran then run_calls env ids M iteration rest else exhaust_calls env ids iteration (call # rest))"
  by (auto simp: counted_call_def exhaust_calls_def sbind_def fun_eq_iff split: prod.splits sum.splits)

lemma spends_counted_call: "spends M 0 (counted_call env ids M iteration call)"
  by (auto simp: counted_call_def spends_def sbind_def min_def split: prod.splits sum.splits
      dest!: handle_call_budgets intro: all_spent_refl all_spent_mono)

lemma spends_exhaust_calls: "spends M 0 (exhaust_calls env ids iteration calls)"
  unfolding exhaust_calls_def by (rule spends_bind_then_quiet [OF spends_messages]) (intro quiet_rules)

lemma spends_run_calls: "spends M 0 (run_calls env ids M iteration calls)"
proof (induction calls)
  case (Cons call rest)
  then show ?case
    unfolding run_calls_Cons by (intro spends_bind0 spends_counted_call spends_if spends_exhaust_calls) simp_all
qed (simp only: run_calls.simps spends_return order_refl)

lemma spends_model_turn: "spends M 1 (model_turn env ids iteration)"
proof -
  have ok: "spends M 0 (sbind (loop_emit env ids ty key p) (\<lambda>_. sbind (add_messages ms) (\<lambda>_. sret x)))" for ty key p ms
    and x :: model_response
    by (intro spends_bind_quiet spends_bind0 spends_messages spends_return quiet_rules) simp_all
  have bad: "spends M 0 (sbind (loop_emit env ids ty key p) (\<lambda>_. sraise e))" for ty key p e
    by (intro spends_quiet quiet_rules)
  have "spends M (1 + 0) (model_turn env ids iteration)"
    unfolding model_turn_def Let_def
    by (intro spends_bind [OF spends_charge_model] spends_bind_quiet quiet_rules)
      (auto intro: ok bad split: sum.splits)
  then show ?thesis by simp
qed

lemma spends_turns: "spends M (int n) (turns env ids M n iteration)"
proof (induction n arbitrary: iteration)
  case (Suc n)
  have "spends M (1 + int n) (turns env ids M (Suc n) iteration)"
    unfolding turns.simps
    by (intro spends_bind [OF spends_model_turn] spends_bind0 spends_run_calls spends_if spends_return Suc.IH) simp_all
  then show ?case by simp
qed (simp add: spends_return)

lemma spends_final_answer: "spends M 1 (final_answer env ids)"
proof -
  have "spends M 1 (stry (sbind (charge_budgets combined_consume_model_call) (\<lambda>_. on_world f)))" for f
    using spends_bind_then_quiet [OF spends_charge_model, of "\<lambda>_. on_world f" M] quiet_world(1) [of f]
    by (auto simp: spends_def stry_def split: prod.splits)
  then show ?thesis
    unfolding final_answer_def
    by (intro spends_bind_quiet spends_bind_then_quiet quiet_rules) (auto intro!: quiet_rules split: sum.splits)
qed

lemma quiet_procedure_uses [quiet_rules]: "quiet (emit_procedure_uses env ids is)"
  by (induction "is") (simp_all only: emit_procedure_uses.simps quiet_rules)

lemma quiet_attribute_skills [quiet_rules]: "quiet (attribute_skills env ids result)"
  by (auto simp: attribute_skills_def Let_def intro!: quiet_rules split: option.splits)

lemma spends_agent_loop: "spends M (int n + 1) (agent_loop env ids M n)"
  unfolding agent_loop_def
  by (intro spends_bind [OF spends_turns] spends_bind0 spends_if spends_return spends_messages
      spends_bind_then_quiet [OF spends_final_answer] quiet_rules) simp_all

lemma loop_limits_Inr:
  assumes "loop_limits cfg run_budget extra = Inr (a, t)"
  shows "1 \<le> a \<and> 1 \<le> t \<and> a \<le> lc_max_iterations cfg \<and> t \<le> lc_max_tool_calls cfg"
    "run_budget = Some b \<Longrightarrow> rb_model_calls b + a + 1 \<le> rb_max_model_calls b"
    "extra = Some x \<Longrightarrow> a + 1 \<le> rb_max_model_calls x \<and> t \<le> rb_max_tool_calls x"
  using assms
  by (auto simp: loop_limits_def Let_def rbind_Inr_iff FINALIZATION_MODEL_CALLS_def remaining_model_calls_def
      split: option.splits if_splits)

lemma run_tool_agent_cases:
  assumes "run_tool_agent env cfg ids system_prompt task_prompt run_budget extra w = ((w', bs), r)"
  obtains (refused) e where "bs = opt_list run_budget @ opt_list extra" "w' = w" "r = Inl e"
    | (ran) a t s' where "loop_limits cfg run_budget extra = Inr (a, t)"
        "agent_loop env ids t (nat a) (loop_start system_prompt task_prompt (opt_list run_budget @ opt_list extra) w) = (s', r)"
        "w' = lp_world s'" "bs = lp_budgets s'"
  using assms
  by (cases "strip (li_invocation_id ids) = []"; cases "loop_limits cfg run_budget extra")
    (auto simp: run_tool_agent_def split: prod.splits)

lemma loop_start_simps [simp]:
  "lp_budgets (loop_start system_prompt task_prompt bs w) = bs" "lp_tool_count (loop_start system_prompt task_prompt bs w) = 0"
  "lp_messages (loop_start system_prompt task_prompt bs w) =
     [text_message RSystem system_prompt, text_message RUser task_prompt]"
  by (simp_all add: loop_start_def)

text \<open>
  C18: however the model and the tools behave and whether the run returns or raises, a run of the tool
  loop charges each of its budgets (the run's and the task's) at most \<open>max_iterations\<close> turns and one
  finalisation call, and at most \<open>max_tool_calls\<close> tool calls, never lowers a counter, and never takes
  one past its limit.
\<close>

theorem tool_agent_spending:
  assumes "mk_loop_config max_iterations max_tool_calls = Inr cfg"
    and "run_tool_agent env cfg ids system_prompt task_prompt run_budget extra w = ((w', bs), r)"
  shows "all_spent (max_iterations + 1) max_tool_calls (opt_list run_budget @ opt_list extra) bs"
  using assms(2)
proof (cases rule: run_tool_agent_cases)
  case (refused e)
  have "0 \<le> max_iterations + 1" "0 \<le> max_tool_calls" using assms(1) by (auto simp: mk_loop_config_def split: if_splits)
  with refused show ?thesis using all_spent_mono [OF all_spent_refl] by blast
next
  case (ran a t s')
  have "1 \<le> a" "1 \<le> t" "a \<le> max_iterations" "t \<le> max_tool_calls"
    using loop_limits_Inr(1) [OF ran(1)] assms(1) by (auto simp: mk_loop_config_def split: if_splits)
  with ran spendsD [OF spends_agent_loop ran(2)] show ?thesis by (auto elim!: all_spent_mono)
qed

text \<open>An environment for examples: the model answers with a fixed list of calls and the tools return null.\<close>

definition script_env :: "tool_call_request list \<Rightarrow> (unit, string) loop_env" where
  "script_env calls = \<lparr>le_clock = int, le_uuid = show_nat, le_float = (\<lambda>_. []), le_str = (\<lambda>_. []),
     le_coercion = strict_coercion,
     le_next_action = (\<lambda>key messages. sret \<lparr>rs_content = [], rs_reasoning_content = None, rs_tool_calls = calls,
        rs_input_tokens = None, rs_output_tokens = None\<rparr>),
     le_finalize = (\<lambda>key messages. sret ''answer''), le_read_files = True,
     le_ainvoke = (\<lambda>name arguments. sret JNull), le_activated_skill_ids = (\<lambda>_. []),
     le_used_skill_refs = (\<lambda>_. None), le_with_skill_refs = (\<lambda>refs result. result)\<rparr>"

definition script_ids :: loop_ids where
  "script_ids = \<lparr>li_run_id = ''r'', li_agent_id = ''a'', li_invocation_id = ''i''\<rparr>"

definition script_world :: "unit agent_world" where
  "script_world = \<lparr>aw_recorder = new_recorder None, aw_tick = 0, aw_world = ()\<rparr>"

theorem tool_agent_spending_witness:
  "\<exists>w' bs r. run_tool_agent (script_env []) \<lparr>lc_max_iterations = 3, lc_max_tool_calls = 2\<rparr> script_ids ''s'' ''t''
       (Some (new_budget 9 9 0 0 ''run'')) None script_world = ((w', bs), r) \<and>
     all_spent (3 + 1) 2 [new_budget 9 9 0 0 ''run''] bs"
proof -
  obtain w' bs r where run: "run_tool_agent (script_env []) \<lparr>lc_max_iterations = 3, lc_max_tool_calls = 2\<rparr> script_ids ''s'' ''t''
       (Some (new_budget 9 9 0 0 ''run'')) None script_world = ((w', bs), r)"
    by (metis prod.exhaust)
  with tool_agent_spending [OF _ run, of 3 2] show ?thesis by (auto simp: mk_loop_config_def opt_list_def)
qed

section \<open>The conversation\<close>

text \<open>
  What the model interface requires of a message list: after an assistant message, one tool message for
  each of its calls, in their order, and a tool message nowhere else. \<open>pending\<close> are the calls without an
  answer.
\<close>

fun pending :: "string list \<Rightarrow> loop_message list \<Rightarrow> string list option" where
  "pending ids [] = Some ids"
| "pending [] (m # ms) = (if lm_role m = RTool then None else pending (map tc_call_id (lm_tool_calls m)) ms)"
| "pending (i # ids) (m # ms) = (if lm_role m = RTool \<and> lm_tool_call_id m = Some i then pending ids ms else None)"

definition conversation :: "loop_message list \<Rightarrow> bool" where
  "conversation messages \<longleftrightarrow> pending [] messages = Some []"

lemma pending_append: "pending ids (ms @ ns) = Option.bind (pending ids ms) (\<lambda>left. pending left ns)"
  by (induction ids ms rule: pending.induct) auto

lemma pending_exhausted: "pending (map tc_call_id calls) (map (exhausted_answer env) calls) = Some []"
  by (induction calls) (simp_all add: exhausted_answer_def tool_message_def text_message_def)

text \<open>A gateway that refuses a malformed message list.\<close>

definition strict_gateway :: "('w, 'o) loop_env \<Rightarrow> ('w, 'o) loop_env" where
  "strict_gateway env = env
     \<lparr>le_next_action := (\<lambda>key ms. if conversation ms then le_next_action env key ms else sraise (ValueError ''messages'')),
      le_finalize := (\<lambda>key ms. if conversation ms then le_finalize env key ms else sraise (ValueError ''messages''))\<rparr>"

lemma strict_gateway_fields [simp]:
  "le_clock (strict_gateway env) = le_clock env" "le_uuid (strict_gateway env) = le_uuid env"
  "le_float (strict_gateway env) = le_float env" "le_str (strict_gateway env) = le_str env"
  "le_coercion (strict_gateway env) = le_coercion env" "le_read_files (strict_gateway env) = le_read_files env"
  "le_ainvoke (strict_gateway env) = le_ainvoke env" "le_activated_skill_ids (strict_gateway env) = le_activated_skill_ids env"
  "le_used_skill_refs (strict_gateway env) = le_used_skill_refs env"
  "le_with_skill_refs (strict_gateway env) = le_with_skill_refs env"
  "conversation ms \<Longrightarrow> le_next_action (strict_gateway env) key ms = le_next_action env key ms"
  "conversation ms \<Longrightarrow> le_finalize (strict_gateway env) key ms = le_finalize env key ms"
  by (simp_all add: strict_gateway_def)

lemma strict_gateway_emit [simp]: "loop_emit (strict_gateway env) = loop_emit env"
  by (simp add: loop_emit_def fun_eq_iff)

lemma strict_gateway_parts [simp]:
  "ainvoke (strict_gateway env) = ainvoke env" "call_outcome_of (strict_gateway env) = call_outcome_of env"
  "answer_call (strict_gateway env) = answer_call env" "record_load_skill (strict_gateway env) = record_load_skill env"
  "record_skill_script (strict_gateway env) = record_skill_script env"
  "exhausted_answer (strict_gateway env) = exhausted_answer env"
  by (simp_all add: fun_eq_iff ainvoke_def read_tool_result_def call_outcome_of_def
      answer_call_def record_load_skill_def record_skill_script_def exhausted_answer_def
      cong: sum.case_cong option.case_cong list.case_cong if_cong)

lemma strict_gateway_call [simp]: "handle_call (strict_gateway env) = handle_call env"
  by (simp add: fun_eq_iff handle_call_def charged_call_def cong: if_cong)

lemma strict_gateway_calls [simp]: "run_calls (strict_gateway env) ids M iteration calls = run_calls env ids M iteration calls"
  by (induction calls) (simp_all cong: if_cong)

lemma strict_gateway_uses [simp]: "emit_procedure_uses (strict_gateway env) ids is = emit_procedure_uses env ids is"
  by (induction "is") simp_all

lemma strict_gateway_attribute [simp]: "attribute_skills (strict_gateway env) = attribute_skills env"
  by (simp add: fun_eq_iff attribute_skills_def cong: option.case_cong)

lemma strict_model_turn:
  "conversation (lp_messages s) \<Longrightarrow> model_turn (strict_gateway env) ids iteration s = model_turn env ids iteration s"
  by (simp add: model_turn_def Let_def sbind_def charge_budgets_def split: prod.splits option.splits cong: sum.case_cong)

lemma strict_final_answer:
  "conversation (lp_messages s) \<Longrightarrow> final_answer (strict_gateway env) ids s = final_answer env ids s"
  by (simp add: final_answer_def sbind_def cong: sum.case_cong)

text \<open>What a turn and the calls of a turn add to the conversation.\<close>

lemma model_turn_pending:
  assumes "model_turn env ids iteration s = (s', Inr response)" and "conversation (lp_messages s)"
  shows "pending [] (lp_messages s') = Some (map tc_call_id (rs_tool_calls response))"
  using assms
  by (auto simp: model_turn_def Let_def sbind_Inr_iff charge_budgets_def on_world_def sfocus_def loop_emit_def
      add_messages_def assistant_message_def pending_append conversation_def stry_def
      split: prod.splits option.splits sum.splits)

lemma handle_call_pending:
  assumes "handle_call env ids iteration call s = (s', Inr u)" and "pending [] (lp_messages s) = Some (tc_call_id call # left)"
  shows "pending [] (lp_messages s') = Some left"
proof -
  obtain bs where "charged_call env ids iteration call (s\<lparr>lp_budgets := bs\<rparr>) = (s', Inr u)"
    using assms(1) by (auto simp: handle_call_def sbind_Inr_iff charge_budgets_def split: prod.splits option.splits)
  with answersD(3) [OF answers_charged_call this] assms(2) show ?thesis
    by (auto simp: pending_append tool_message_def text_message_def)
qed

lemma run_calls_pending:
  assumes "run_calls env ids M iteration calls s = (s', Inr b)" and "pending [] (lp_messages s) = Some (map tc_call_id calls)"
  shows "conversation (lp_messages s')"
  using assms
proof (induction calls arbitrary: s)
  case (Cons call rest)
  then obtain s1 ran where 1: "counted_call env ids M iteration call s = (s1, Inr ran)"
    "(if ran then run_calls env ids M iteration rest else exhaust_calls env ids iteration (call # rest)) s1 = (s', Inr b)"
    unfolding run_calls_Cons sbind_Inr_iff by blast
  show ?case
  proof (cases ran)
    case True
    with 1(1) obtain s0 where "handle_call env ids iteration call s0 = (s1, Inr ())" "lp_messages s0 = lp_messages s"
      by (auto simp: counted_call_def sbind_Inr_iff split: if_splits)
    with handle_call_pending Cons.prems(2) have "pending [] (lp_messages s1) = Some (map tc_call_id rest)" by fastforce
    with Cons.IH 1(2) True show ?thesis by simp
  next
    case False
    with 1(1) have "lp_messages s1 = lp_messages s" by (auto simp: counted_call_def sbind_Inr_iff split: if_splits)
    with 1(2) False Cons.prems(2) pending_exhausted [of "call # rest" env] show ?thesis
      by (auto simp: exhaust_calls_def sbind_Inr_iff add_messages_def loop_emit_def on_world_def sfocus_def
          conversation_def pending_append split: prod.splits)
  qed
qed (simp add: conversation_def)

lemma strict_turns:
  assumes "conversation (lp_messages s)"
  shows "turns (strict_gateway env) ids M n iteration s = turns env ids M n iteration s \<and>
    (\<forall>s' b. turns env ids M n iteration s = (s', Inr b) \<longrightarrow> conversation (lp_messages s'))"
  using assms
proof (induction n arbitrary: s iteration)
  case (Suc n)
  obtain s1 r where turn: "model_turn env ids iteration s = (s1, r)" by (cases "model_turn env ids iteration s")
  show ?case
  proof (cases r)
    case (Inl e)
    with turn Suc.prems show ?thesis by (simp add: sbind_def strict_model_turn)
  next
    case (Inr response)
    with turn model_turn_pending Suc.prems
    have open_calls: "pending [] (lp_messages s1) = Some (map tc_call_id (rs_tool_calls response))" by blast
    obtain s2 r2 where calls: "run_calls env ids M iteration (rs_tool_calls response) s1 = (s2, r2)"
      by (cases "run_calls env ids M iteration (rs_tool_calls response) s1")
    with run_calls_pending open_calls have "r2 = Inr b \<Longrightarrow> conversation (lp_messages s2)" for b by blast
    with turn Inr calls Suc.prems Suc.IH [of s2 "Suc iteration"] open_calls show ?thesis
      by (cases r2) (auto simp: sbind_def strict_model_turn conversation_def)
  qed
qed simp

lemma strict_agent_loop:
  assumes "conversation (lp_messages s)"
  shows "agent_loop (strict_gateway env) ids M n s = agent_loop env ids M n s"
proof -
  obtain s1 r where t: "turns env ids M n 1 s = (s1, r)" by (cases "turns env ids M n 1 s")
  show ?thesis
  proof (cases r)
    case (Inr b)
    with t strict_turns [OF assms, of env ids M n 1] have "conversation (lp_messages s1)" by simp
    moreover from this have "conversation (lp_messages s1 @ [text_message RUser c])" for c
      by (simp add: conversation_def pending_append text_message_def)
    ultimately show ?thesis
      using t Inr strict_turns [OF assms, of env ids M n 1]
      by (auto simp: agent_loop_def sbind_def add_messages_def strict_final_answer)
  qed (use t strict_turns [OF assms, of env ids M n 1] in \<open>simp add: agent_loop_def sbind_def\<close>)
qed

text \<open>
  C19: the loop only ever shows the model well-formed conversations, in which every tool call of an
  assistant message is answered exactly once, in order, before the next turn and before the final
  answer, also when a call fails or the tool budget runs out in the middle of a turn: with a gateway
  that refuses every other message list, each run has the same result, events and charges.
\<close>

theorem tool_agent_conversation:
  "run_tool_agent (strict_gateway env) cfg ids system_prompt task_prompt run_budget extra w =
   run_tool_agent env cfg ids system_prompt task_prompt run_budget extra w"
proof -
  have "conversation (lp_messages (loop_start system_prompt task_prompt bs w))" for bs
    by (simp add: conversation_def text_message_def)
  then show ?thesis by (simp add: run_tool_agent_def strict_agent_loop cong: sum.case_cong)
qed

section \<open>The run returns\<close>

text \<open>\<open>affordable m t bs\<close>: each budget has \<open>m\<close> model calls and \<open>t\<close> tool calls left.\<close>

definition affordable :: "int \<Rightarrow> int \<Rightarrow> run_repair_budget list \<Rightarrow> bool" where
  "affordable m t bs \<longleftrightarrow> (\<forall>b \<in> set bs. rb_model_calls b + m \<le> rb_max_model_calls b \<and> rb_tool_calls b + t \<le> rb_max_tool_calls b)"

lemma affordable_consume:
  "affordable m t bs \<Longrightarrow> 1 \<le> m \<Longrightarrow> \<exists>bs'. combined_consume_model_call bs = (None, bs') \<and> affordable (m - 1) t bs'"
  "affordable m t bs \<Longrightarrow> 1 \<le> t \<Longrightarrow> \<exists>bs'. combined_consume_tool_call bs = (None, bs') \<and> affordable m (t - 1) bs'"
proof -
  show "affordable m t bs \<Longrightarrow> 1 \<le> m \<Longrightarrow> \<exists>bs'. combined_consume_model_call bs = (None, bs') \<and> affordable (m - 1) t bs'"
    unfolding combined_consume_model_call_def
    by (induction bs) (auto simp: affordable_def consume_model_call_def split: prod.splits)
  show "affordable m t bs \<Longrightarrow> 1 \<le> t \<Longrightarrow> \<exists>bs'. combined_consume_tool_call bs = (None, bs') \<and> affordable m (t - 1) bs'"
    unfolding combined_consume_tool_call_def
    by (induction bs) (auto simp: affordable_def consume_tool_call_def split: prod.splits)
qed

text \<open>The model answers every request, and a tool raises only what the loop handles.\<close>

definition responsive :: "('w, 'o) loop_env \<Rightarrow> bool" where
  "responsive env \<longleftrightarrow>
     (\<forall>key ms. achieves (\<lambda>_. True) (le_next_action env key ms) (\<lambda>_ _. True)) \<and>
     (\<forall>key ms. achieves (\<lambda>_. True) (le_finalize env key ms) (\<lambda>_ _. True)) \<and>
     (\<forall>name arguments w w' e. le_ainvoke env name arguments w = (w', Inl e) \<longrightarrow> call_rejected name e \<noteq> None)"

definition afford :: "int \<Rightarrow> int \<Rightarrow> 'w loop_state \<Rightarrow> bool" where
  "afford M m s \<longleftrightarrow> affordable m (M - min M (int (lp_tool_count s))) (lp_budgets s)"

lemma afford_same: "same_loop s s' \<Longrightarrow> afford M m s' = afford M m s"
  by (simp add: same_loop_def afford_def)

lemma achieves_quiet:
  fixes f :: "('w loop_state, 'a) io"
  assumes "quiet f" and "achieves (\<lambda>_. True) f (\<lambda>x _. Q x)"
  shows "achieves (afford M m) f (\<lambda>x s. Q x \<and> afford M m s)"
  unfolding achieves_def
proof (intro allI impI)
  fix s :: "'w loop_state" assume "afford M m s"
  obtain s' x where "f s = (s', Inr x)" "Q x" using achievesD [OF assms(2)] by blast
  with keepsD [OF assms(1), of s s' "Inr x"] \<open>afford M m s\<close> show "\<exists>s' x. f s = (s', Inr x) \<and> Q x \<and> afford M m s'"
    by (auto simp: afford_same)
qed

lemma achieves_charge_model:
  "0 \<le> m \<Longrightarrow> achieves (afford M (m + 1)) (charge_budgets combined_consume_model_call) (\<lambda>_. afford M m)"
  unfolding achieves_def
proof (intro allI impI)
  fix s :: "'w loop_state"
  assume "0 \<le> m" "afford M (m + 1) s"
  then obtain bs where "combined_consume_model_call (lp_budgets s) = (None, bs)"
    "affordable m (M - min M (int (lp_tool_count s))) bs"
    using affordable_consume(1) [of "m + 1" _ "lp_budgets s"] by (auto simp: afford_def)
  then show "\<exists>s' x. charge_budgets combined_consume_model_call s = (s', Inr x) \<and> afford M m s'"
    by (simp add: charge_budgets_def afford_def)
qed

text \<open>Parts that always return.\<close>

abbreviation total_io :: "('s, 'a) io \<Rightarrow> bool" where
  "total_io f \<equiv> achieves (\<lambda>_. True) f (\<lambda>_ _. True)"

named_theorems total_rules \<open>parts of the loop that always return\<close>

lemma total_pure [total_rules]: "total_io (sret x)" "total_io (sget f)" "total_io (smodify g)" "total_io (stry h)"
  by (auto simp: achieves_def stry_def split: prod.splits)

lemma total_bind [total_rules]: "total_io f \<Longrightarrow> (\<And>x. total_io (g x)) \<Longrightarrow> total_io (sbind f g)"
  by (rule achieves_bind)

lemma total_emit [total_rules]: "total_io (loop_emit env ids ty key p)" "total_io (add_messages ms)"
  by (auto simp: achieves_def loop_emit_def add_messages_def on_world_def sfocus_def split: prod.splits)

lemma total_world [total_rules]:
  fixes f :: "('w agent_world, 'a) io"
  assumes "total_io f"
  shows "total_io (on_world f)"
  unfolding achieves_def
proof (intro allI impI)
  fix s :: "'w loop_state"
  obtain w x where "f (lp_world s) = (w, Inr x)" using achievesD [OF assms] by blast
  then show "\<exists>s' x. on_world f s = (s', Inr x) \<and> True" by (simp add: on_world_def sfocus_def)
qed

lemma total_skills [total_rules]: "total_io (record_load_skill env ids call oc)" "total_io (record_skill_script env ids call oc)"
  "total_io (answer_call env call oc)"
  by (auto simp: record_load_skill_def record_skill_script_def answer_call_def Let_def intro!: total_rules split: option.splits)

lemma total_uses [total_rules]: "total_io (emit_procedure_uses env ids is)"
  by (induction "is") (simp_all only: emit_procedure_uses.simps total_rules)

lemma total_attribute [total_rules]: "total_io (attribute_skills env ids result)"
  by (auto simp: attribute_skills_def Let_def intro!: total_rules split: option.splits)

text \<open>Whatever a tool returns, and whatever it raises of what the loop handles, is an outcome.\<close>

lemma handled_errors [simp]: "call_rejected name (ValidationError m) = Some True" "call_rejected name (PolicyViolation m) = Some True"
  "call_rejected name (KeyError m) = Some (name \<in> {''run_skill_script'', ''read_skill_resource'', ''load_skill''})"
  "call_rejected name (TypeError m) = Some (name \<in> {''run_skill_script'', ''read_skill_resource'', ''load_skill''})"
  by (simp_all add: call_rejected_def)

lemma result_success_handled: "result_success str j = Inl e \<Longrightarrow> call_rejected name e \<noteq> None"
  by (auto simp: result_success_def rbind_def Let_def split: json.splits sum.splits
      elim!: in_none_zero.elims)

lemma read_tool_result_handled: "read_tool_result env arguments cached = Inl e \<Longrightarrow> call_rejected name e \<noteq> None"
  by (auto simp: read_tool_result_def read_tool_result_args_def validated_def rbind_Inl_iff Let_def
      split: option.splits if_splits prod.splits)

lemma total_charged_call:
  assumes "responsive env"
  shows "total_io (charged_call env ids iteration call)"
proof -
  have outcome: "call_outcome_of env name r \<noteq> Inl e" if "\<And>x. r = Inl x \<Longrightarrow> call_rejected name x \<noteq> None" for name r e
    using that
    by (auto simp: call_outcome_of_def failed_call_def split: sum.splits option.splits
        dest: result_success_handled [where name = name])
  have raised: "call_rejected name x \<noteq> None" if "ainvoke env name arguments s = (s', Inl x)" for name arguments x s s'
    using that assms read_tool_result_handled [of env arguments _ x name]
    by (auto simp: ainvoke_def on_world_def sfocus_def responsive_def split: if_splits prod.splits list.splits)
  have tried: "achieves (\<lambda>_. True) (stry (ainvoke env name arguments)) (\<lambda>r _. \<exists>oc. call_outcome_of env name r = Inr oc)"
    for name arguments
    unfolding achieves_def
  proof (intro allI impI)
    fix s :: "'a loop_state"
    obtain s' r where r: "ainvoke env name arguments s = (s', r)" by (cases "ainvoke env name arguments s")
    have "call_outcome_of env name r \<noteq> Inl e" for e by (rule outcome) (use raised r in blast)
    then obtain oc where "call_outcome_of env name r = Inr oc" by (cases "call_outcome_of env name r") auto
    with r show "\<exists>s' x. stry (ainvoke env name arguments) s = (s', Inr x) \<and> (\<exists>oc. call_outcome_of env name x = Inr oc)"
      by auto
  qed
  have outcome_bind: "achieves (\<lambda>s. \<exists>oc. call_outcome_of env name r = Inr oc) (sbind (slift (call_outcome_of env name r)) g) (\<lambda>_ _. True)"
    if "\<And>oc. total_io (g oc)" for name r and g :: "call_outcome \<Rightarrow> ('a loop_state, unit) io"
    using that by (auto simp: achieves_def sbind_def)
  show ?thesis
    unfolding charged_call_def
    by (intro achieves_bind [OF total_emit(1)] achieves_bind [OF total_pure(2)] achieves_bind [OF tried] outcome_bind)
      (auto intro!: total_rules)
qed

lemma achieves_counted_call:
  assumes "responsive env"
  shows "achieves (afford M m) (counted_call env ids M iteration call) (\<lambda>_. afford M m)"
  unfolding achieves_def
proof (intro allI impI)
  fix s :: "'a loop_state" assume s: "afford M m s"
  let ?s = "s\<lparr>lp_tool_count := Suc (lp_tool_count s)\<rparr>"
  show "\<exists>s' x. counted_call env ids M iteration call s = (s', Inr x) \<and> afford M m s'"
  proof (cases "M < int (Suc (lp_tool_count s))")
    case True
    then have "counted_call env ids M iteration call s = (?s, Inr False)" by (simp add: counted_call_def sbind_def)
    moreover from True s have "afford M m ?s" by (simp add: afford_def min_def split: if_splits)
    ultimately show ?thesis by blast
  next
    case False
    with s obtain bs where bs: "combined_consume_tool_call (lp_budgets s) = (None, bs)"
      "affordable m (M - int (Suc (lp_tool_count s))) bs"
      using affordable_consume(2) [of m "M - int (lp_tool_count s)" "lp_budgets s"] by (auto simp: afford_def algebra_simps)
    obtain s' where s': "charged_call env ids iteration call (?s\<lparr>lp_budgets := bs\<rparr>) = (s', Inr ())"
      using achievesD [OF total_charged_call [OF assms]] by (metis old.unit.exhaust)
    with bs False have "counted_call env ids M iteration call s = (s', Inr True)"
      by (simp add: counted_call_def handle_call_def sbind_def charge_budgets_def)
    moreover from bs False answersD(1,2) [OF answers_charged_call s'] have "afford M m s'" by (simp add: afford_def)
    ultimately show ?thesis by blast
  qed
qed

lemma achieves_if: "achieves P f Q \<Longrightarrow> achieves P g Q \<Longrightarrow> achieves P (if b then f else g) Q"
  by simp

lemma achieves_case_Inr:
  "(\<And>x. achieves P (g x) Q) \<Longrightarrow> achieves (\<lambda>s. (\<exists>x. r = Inr x) \<and> P s) (case r of Inl e \<Rightarrow> f e | Inr x \<Rightarrow> g x) Q"
  by (auto simp: achieves_def)

lemma achieves_messages: "achieves (afford M m) (add_messages ms) (\<lambda>_. afford M m)"
  by (simp add: achieves_def add_messages_def afford_def)

lemma achieves_silent: "quiet f \<Longrightarrow> total_io f \<Longrightarrow> achieves (afford M m) f (\<lambda>_. afford M m)"
  using achieves_quiet [of f "\<lambda>_. True"] by simp

lemma achieves_run_calls:
  assumes "responsive env"
  shows "achieves (afford M m) (run_calls env ids M iteration calls) (\<lambda>_. afford M m)"
proof (induction calls)
  case (Cons call rest)
  have "achieves (afford M m) (exhaust_calls env ids iteration (call # rest)) (\<lambda>_. afford M m)"
    unfolding exhaust_calls_def
    by (intro achieves_bind [OF achieves_messages] achieves_silent quiet_rules total_rules)
  with Cons.IH show ?case
    unfolding run_calls_Cons by (intro achieves_bind [OF achieves_counted_call [OF assms]] achieves_if)
qed (simp only: run_calls.simps achieves_ret)

lemma achieves_model_turn:
  assumes "responsive env" and "0 \<le> m"
  shows "achieves (afford M (m + 1)) (model_turn env ids iteration) (\<lambda>_. afford M m)"
proof -
  have answered: "achieves (afford M m) (stry (on_world (le_next_action env key ms))) (\<lambda>r s. (\<exists>x. r = Inr x) \<and> afford M m s)"
    for key ms
    using assms(1) achieves_try [OF total_world [of "le_next_action env key ms"]]
    by (intro achieves_quiet quiet_rules) (auto simp: responsive_def)
  show ?thesis
    unfolding model_turn_def Let_def
    by (intro achieves_bind [OF achieves_charge_model [OF assms(2)]] achieves_bind [OF achieves_silent [OF quiet_pure(3) total_pure(2)]]
        achieves_bind [OF answered] achieves_case_Inr achieves_bind [OF achieves_silent] achieves_bind [OF achieves_messages]
        achieves_silent quiet_rules total_rules)
qed

lemma achieves_turns:
  assumes "responsive env" and "0 \<le> m"
  shows "achieves (afford M (m + int n)) (turns env ids M n iteration) (\<lambda>_. afford M m)"
proof (induction n arbitrary: iteration)
  case 0
  show ?case by (simp only: turns.simps of_nat_0 add_0_right achieves_ret)
next
  case (Suc n)
  have stop: "achieves (afford M (m + int n)) (sret True) (\<lambda>_. afford M m)"
    by (rule achieves_ret) (auto simp: afford_def affordable_def)
  have "m + int (Suc n) = (m + int n) + 1" by simp
  then show ?case
    using achieves_model_turn [OF assms(1), of "m + int n"] assms(2)
    by (auto simp only: turns.simps intro!: achieves_bind achieves_if stop achieves_run_calls [OF assms(1)] Suc.IH)
qed

lemma achieves_final_answer:
  assumes "responsive env" and "0 \<le> m"
  shows "achieves (afford M (m + 1)) (final_answer env ids) (\<lambda>_. afford M m)"
proof -
  have asked: "achieves (afford M m) (on_world (le_finalize env key ms)) (\<lambda>_. afford M m)" for key ms
    using assms(1) by (intro achieves_silent quiet_rules total_world) (simp add: responsive_def)
  have answered: "achieves (afford M (m + 1)) (stry (sbind (charge_budgets combined_consume_model_call) (\<lambda>_.
      on_world (le_finalize env key ms)))) (\<lambda>r s. (\<exists>x. r = Inr x) \<and> afford M m s)" for key ms
    by (rule achieves_weaken [OF achieves_try [OF achieves_bind [OF achieves_charge_model [OF assms(2)] asked]]]) auto
  show ?thesis
    unfolding final_answer_def
    by (intro achieves_bind [OF achieves_silent [OF quiet_pure(3) total_pure(2)]] achieves_bind [OF answered]
        achieves_case_Inr achieves_silent quiet_rules total_rules)
qed

lemma achieves_agent_loop:
  assumes "responsive env"
  shows "achieves (afford M (1 + int n)) (agent_loop env ids M n) (\<lambda>_. afford M 0)"
proof -
  have closing: "achieves (afford M 1) (if b then sret () else add_messages ms) (\<lambda>_. afford M 1)" for b ms
    by (intro achieves_if achieves_messages achieves_silent quiet_rules total_rules)
  have final: "achieves (afford M 1) (final_answer env ids) (\<lambda>_. afford M 0)"
    using achieves_final_answer [OF assms, of 0] by simp
  show ?thesis
    unfolding agent_loop_def
    by (rule achieves_bind [OF achieves_turns [OF assms]], simp)
      (rule achieves_bind [OF closing], rule achieves_bind [OF final], intro achieves_silent quiet_rules total_rules)
qed

text \<open>
  C20: the tool loop always comes to an answer. If the model answers every request and the tools raise
  only exceptions the loop handles, the run's budget has \<open>max_tool_calls\<close> tool calls left and the task's
  budget is fresh, then every run that is not refused at the start returns a final output: whatever
  calls the model asks for, however many turns it takes and whichever calls fail, the reserved call for
  the structured answer is always still affordable.
\<close>

theorem tool_agent_returns:
  assumes "responsive env" and "strip (li_invocation_id ids) \<noteq> []"
    and "loop_limits cfg run_budget extra = Inr (a, t)"
    and "\<And>b. run_budget = Some b \<Longrightarrow> lc_max_tool_calls cfg \<le> remaining_tool_calls b"
    and "\<And>b. extra = Some b \<Longrightarrow> rb_model_calls b = 0 \<and> rb_tool_calls b = 0"
  shows "\<exists>w' bs result. run_tool_agent env cfg ids system_prompt task_prompt run_budget extra w = ((w', bs), Inr result)"
proof -
  let ?s = "loop_start system_prompt task_prompt (opt_list run_budget @ opt_list extra) w"
  have lims: "1 \<le> a" "1 \<le> t" "t \<le> lc_max_tool_calls cfg" using loop_limits_Inr(1) [OF assms(3)] by auto
  have "affordable (1 + a) t (opt_list run_budget @ opt_list extra)"
    using loop_limits_Inr(2,3) [OF assms(3)] assms(4,5) lims
    by (fastforce simp: affordable_def opt_list_def remaining_tool_calls_def split: option.splits)
  then have "afford t (1 + int (nat a)) ?s" using lims by (simp add: afford_def)
  with achieves_agent_loop [OF assms(1)] obtain s' result where "agent_loop env ids t (nat a) ?s = (s', Inr result)"
    by (blast dest: achievesD)
  with assms(2,3) show ?thesis by (simp add: run_tool_agent_def)
qed

theorem tool_agent_returns_witness:
  "\<exists>w' bs result. run_tool_agent (script_env [\<lparr>tc_call_id = ''c'', tc_name = ''list_files'', tc_arguments = []\<rparr>])
     \<lparr>lc_max_iterations = 3, lc_max_tool_calls = 2\<rparr> script_ids ''s'' ''t''
     (Some (new_budget 9 9 0 0 ''run'')) (Some (new_budget 3 2 0 0 ''task'')) script_world = ((w', bs), Inr result)"
  by (rule tool_agent_returns [where a = 2 and t = 2])
    (auto simp: responsive_def script_env_def script_ids_def loop_limits_def new_budget_def remaining_model_calls_def
      remaining_tool_calls_def FINALIZATION_MODEL_CALLS_def strip_def lstrip_def rstrip_def is_space_def achieves_def)

end
