(* ===== verification/DateTime.thy ===== *)
theory DateTime
  imports Prelude
begin

text \<open>
  The parts of \<^verbatim>\<open>datetime\<close> that \<^verbatim>\<open>capability/skill_memory.py\<close> uses: the fields of a point in time, the conversion
  to UTC, \<open>strftime("%Y-%m-%dT%H:%M:%SZ")\<close> and \<open>fromisoformat\<close>. The offset is in seconds and less than a day;
  \<open>None\<close> is a time without a time zone. A day before the year 1 or after the year 9999, where Python raises
  an \<open>OverflowError\<close>, is outside the model.
\<close>

record datetime =
  dt_year :: nat
  dt_month :: nat
  dt_day :: nat
  dt_hour :: nat
  dt_minute :: nat
  dt_second :: nat
  dt_microsecond :: nat
  dt_offset :: "int option"

definition leap_year :: "nat \<Rightarrow> bool" where
  "leap_year y \<longleftrightarrow> 4 dvd y \<and> (\<not> 100 dvd y \<or> 400 dvd y)"

definition month_days :: "nat \<Rightarrow> nat \<Rightarrow> nat" where
  "month_days y m = (if m = 2 then (if leap_year y then 29 else 28) else if m \<in> {4, 6, 9, 11} then 30 else 31)"

definition valid_datetime :: "datetime \<Rightarrow> bool" where
  "valid_datetime d \<longleftrightarrow> 1 \<le> dt_year d \<and> dt_year d \<le> 9999 \<and> 1 \<le> dt_month d \<and> dt_month d \<le> 12 \<and> 1 \<le> dt_day d \<and>
     dt_day d \<le> month_days (dt_year d) (dt_month d) \<and> dt_hour d < 24 \<and> dt_minute d < 60 \<and> dt_second d < 60 \<and>
     dt_microsecond d < 1000000 \<and> (case dt_offset d of None \<Rightarrow> True | Some z \<Rightarrow> \<bar>z\<bar> < 86400)"

definition next_day :: "datetime \<Rightarrow> datetime" where
  "next_day d =
     (if dt_day d < month_days (dt_year d) (dt_month d) then d\<lparr>dt_day := dt_day d + 1\<rparr>
      else if dt_month d < 12 then d\<lparr>dt_month := dt_month d + 1, dt_day := 1\<rparr>
      else d\<lparr>dt_year := dt_year d + 1, dt_month := 1, dt_day := 1\<rparr>)"

definition previous_day :: "datetime \<Rightarrow> datetime" where
  "previous_day d =
     (if 1 < dt_day d then d\<lparr>dt_day := dt_day d - 1\<rparr>
      else if 1 < dt_month d then d\<lparr>dt_month := dt_month d - 1, dt_day := month_days (dt_year d) (dt_month d - 1)\<rparr>
      else d\<lparr>dt_year := dt_year d - 1, dt_month := 12, dt_day := 31\<rparr>)"

text \<open>\<open>replace(tzinfo=UTC)\<close> for a time without a zone, then \<open>astimezone(UTC)\<close>\<close>

definition at_time :: "nat \<Rightarrow> datetime \<Rightarrow> datetime" where
  "at_time s d = d\<lparr>dt_hour := s div 3600, dt_minute := s div 60 mod 60, dt_second := s mod 60, dt_offset := Some 0\<rparr>"

definition to_utc :: "datetime \<Rightarrow> datetime" where
  "to_utc d =
     (case dt_offset d of
        None \<Rightarrow> d\<lparr>dt_offset := Some 0\<rparr>
      | Some z \<Rightarrow>
          let s = int (dt_hour d * 3600 + dt_minute d * 60 + dt_second d) - z
          in if s < 0 then at_time (nat (s + 86400)) (previous_day d)
             else if 86400 \<le> s then at_time (nat (s - 86400)) (next_day d)
             else at_time (nat s) d)"

definition two_digits :: "nat \<Rightarrow> string" where
  "two_digits n = [char_of (48 + n div 10), char_of (48 + n mod 10)]"

text \<open>The time stamp; \<open>%Y\<close> is not padded on the supported hosts.\<close>

definition time_stamp :: "datetime \<Rightarrow> string" where
  "time_stamp d =
     (let u = to_utc d in
      show_nat (dt_year u) @ ''-'' @ two_digits (dt_month u) @ ''-'' @ two_digits (dt_day u) @ ''T'' @
      two_digits (dt_hour u) @ '':'' @ two_digits (dt_minute u) @ '':'' @ two_digits (dt_second u) @ ''Z'')"

text \<open>
  \<open>fromisoformat\<close>, exact on texts of the form \<^verbatim>\<open>YYYY-MM-DDTHH:MM:SS+HH:MM\<close>. What it makes of the other forms it
  accepts is the argument \<open>other\<close>; \<open>None\<close> is a \<open>ValueError\<close>.
\<close>

definition iso_form :: "string \<Rightarrow> bool" where
  "iso_form s \<longleftrightarrow> length s = 25 \<and>
     list_all (\<lambda>i. is_digit (s ! i)) [0, 1, 2, 3, 5, 6, 8, 9, 11, 12, 14, 15, 17, 18, 20, 21, 23, 24] \<and>
     s ! 4 = CHR ''-'' \<and> s ! 7 = CHR ''-'' \<and> s ! 10 = CHR ''T'' \<and> s ! 13 = CHR '':'' \<and> s ! 16 = CHR '':'' \<and>
     s ! 19 \<in> {CHR ''+'', CHR ''-''} \<and> s ! 22 = CHR '':''"

definition field_at :: "string \<Rightarrow> nat \<Rightarrow> nat \<Rightarrow> nat" where
  "field_at s i n = digits_value (take n (drop i s))"

definition iso_datetime :: "(string \<Rightarrow> datetime option) \<Rightarrow> string \<Rightarrow> datetime option" where
  "iso_datetime other s =
     (if \<not> iso_form s then other s
      else let z = int (field_at s 20 2 * 3600 + field_at s 23 2 * 60);
               d = \<lparr>dt_year = field_at s 0 4, dt_month = field_at s 5 2, dt_day = field_at s 8 2, dt_hour = field_at s 11 2,
                    dt_minute = field_at s 14 2, dt_second = field_at s 17 2, dt_microsecond = 0,
                    dt_offset = Some (if s ! 19 = CHR ''-'' then - z else z)\<rparr>
           in if valid_datetime d \<and> field_at s 23 2 < 60 then Some d else None)"

section \<open>A time stamp is read back\<close>

text \<open>What is left of a time in its time stamp: the same second, in UTC.\<close>

definition whole_second :: "datetime \<Rightarrow> datetime" where
  "whole_second d = (to_utc d)\<lparr>dt_microsecond := 0\<rparr>"

definition digit :: "nat \<Rightarrow> char" where
  "digit n = char_of (48 + n)"

lemma digit_facts:
  assumes "n < 10"
  shows "is_digit (digit n)" "of_char (digit n) - 48 = n" "digit n \<noteq> CHR ''Z''" "digit n \<noteq> CHR ''<''" "\<not> is_space (digit n)"
proof -
  have code: "of_char (digit n) = 48 + n" using assms by (simp add: digit_def)
  then show "is_digit (digit n)" "of_char (digit n) - 48 = n" "\<not> is_space (digit n)"
    using assms by (auto simp: is_digit_def in_range_def is_space_def)
  have "digit n \<noteq> c" if "of_char c < (48 :: nat) \<or> 57 < (of_char c :: nat)" for c using code assms that by auto
  then show "digit n \<noteq> CHR ''Z''" "digit n \<noteq> CHR ''<''" by simp_all
qed

lemma two_digits_eq: "two_digits n = [digit (n div 10), digit (n mod 10)]"
  by (simp add: two_digits_def digit_def)

lemma four_digits:
  assumes "1000 \<le> y" and "y \<le> 9999"
  shows "show_nat y = [digit (y div 1000), digit (y div 100 mod 10), digit (y div 10 mod 10), digit (y mod 10)]"
proof -
  have div: "y div 100 = y div 10 div 10" "y div 1000 = y div 10 div 10 div 10" by (simp_all flip: div_mult2_eq)
  have "10 \<le> y" "10 \<le> y div 10" "10 \<le> y div 10 div 10" "y div 10 div 10 div 10 < 10"
    using assms by (simp_all flip: div_mult2_eq)
  then show ?thesis unfolding div by (simp add: show_nat.simps [of y] show_nat.simps [of "y div 10"]
        show_nat.simps [of "y div 10 div 10"] show_nat.simps [of "y div 10 div 10 div 10"] digit_def)
qed

lemma replace_last:
  assumes "c \<notin> set a"
  shows "replace_all [c] r (a @ [c]) = a @ r"
proof -
  have "py_count [c] (a @ [c]) = 1" using assms by (induction a) (auto simp: starts_with_def)
  moreover have "py_replace [c] r 1 (a @ [c]) = a @ r" using assms by (induction a) (auto simp: starts_with_def)
  ultimately show ?thesis by (simp add: replace_all_def)
qed

lemma to_utc_offset [simp]: "dt_offset (to_utc d) = Some 0"
  by (simp add: to_utc_def at_time_def Let_def split: option.split)

text \<open>A time in UTC is its own UTC time, so that only the part below a second is lost.\<close>

lemma to_utc_id:
  assumes "valid_datetime d" and "dt_offset d = Some 0"
  shows "to_utc d = d"
proof -
  define s where "s = dt_hour d * 3600 + dt_minute d * 60 + dt_second d"
  have lt: "dt_hour d < 24" "dt_minute d < 60" "dt_second d < 60" using assms(1) by (simp_all add: valid_datetime_def)
  have shape: "s = (dt_hour d * 60 + dt_minute d) * 60 + dt_second d" by (simp add: s_def algebra_simps)
  have small: "s < 86400" using lt by (simp add: s_def)
  have "s div 60 = dt_hour d * 60 + dt_minute d" "s mod 60 = dt_second d"
    unfolding shape using lt(3) by (simp_all only: div_mult_self3 mod_mult_self3 div_less mod_less add_0_right add_0)
  moreover have "s div 3600 = s div 60 div 60" by (simp flip: div_mult2_eq)
  ultimately have "at_time s d = d" using lt assms(2) by (simp add: at_time_def)
  moreover have "to_utc d = at_time s d"
    using assms(2) small by (simp add: to_utc_def flip: s_def)
  ultimately show ?thesis by simp
qed

text \<open>The characters of a time stamp without its last one\<close>

definition stamp_digits :: "datetime \<Rightarrow> string" where
  "stamp_digits u =
     [digit (dt_year u div 1000), digit (dt_year u div 100 mod 10), digit (dt_year u div 10 mod 10), digit (dt_year u mod 10),
      CHR ''-'', digit (dt_month u div 10), digit (dt_month u mod 10), CHR ''-'', digit (dt_day u div 10), digit (dt_day u mod 10),
      CHR ''T'', digit (dt_hour u div 10), digit (dt_hour u mod 10), CHR '':'', digit (dt_minute u div 10), digit (dt_minute u mod 10),
      CHR '':'', digit (dt_second u div 10), digit (dt_second u mod 10)]"

lemma small_fields:
  assumes "valid_datetime u"
  shows "dt_year u div 1000 < 10" "dt_month u div 10 < 10" "dt_day u div 10 < 10" "dt_hour u div 10 < 10"
    "dt_minute u div 10 < 10" "dt_second u div 10 < 10"
proof -
  have "dt_day u \<le> 31" using assms by (auto simp: valid_datetime_def month_days_def split: if_splits)
  with assms show "dt_year u div 1000 < 10" "dt_month u div 10 < 10" "dt_day u div 10 < 10" "dt_hour u div 10 < 10"
    "dt_minute u div 10 < 10" "dt_second u div 10 < 10" by (simp_all add: valid_datetime_def less_mult_imp_div_less)
qed

lemma time_stamp_digits:
  assumes "valid_datetime (to_utc d)" and "1000 \<le> dt_year (to_utc d)"
  shows "time_stamp d = stamp_digits (to_utc d) @ ''Z''"
proof -
  have "dt_year (to_utc d) \<le> 9999" using assms(1) by (simp add: valid_datetime_def)
  from four_digits [OF assms(2) this] show ?thesis unfolding time_stamp_def Let_def two_digits_eq stamp_digits_def by simp
qed

lemma stamp_chars:
  assumes "valid_datetime u" and "c \<in> set (stamp_digits u)"
  shows "\<not> is_space c \<and> c \<noteq> CHR ''<'' \<and> c \<noteq> CHR ''Z''"
proof -
  have "c \<in> {CHR ''-'', CHR ''T'', CHR '':''} \<or> (\<exists>n < 10. c = digit n)"
    using assms(2) small_fields [OF assms(1)] unfolding stamp_digits_def list.set by (metis insert_iff empty_iff mod_less_divisor zero_less_numeral)
  moreover have "\<not> is_space (CHR ''-'')" "\<not> is_space (CHR ''T'')" "\<not> is_space (CHR '':'')" by code_simp+
  ultimately show ?thesis using digit_facts by auto
qed

lemma time_stamp_chars:
  assumes "valid_datetime (to_utc d)" and "1000 \<le> dt_year (to_utc d)" and "c \<in> set (time_stamp d)"
  shows "\<not> is_space c" "c \<noteq> CHR ''<''"
proof -
  have "\<not> is_space (CHR ''Z'')" by code_simp
  then show "\<not> is_space c" "c \<noteq> CHR ''<''"
    using assms(3) stamp_chars [OF assms(1), of c] unfolding time_stamp_digits [OF assms(1,2)] by auto
qed

lemma read_time_stamp:
  assumes "valid_datetime (to_utc d)" and "1000 \<le> dt_year (to_utc d)"
  shows "iso_datetime other (replace_all ''Z'' ''+00:00'' (time_stamp d)) = Some (whole_second d)"
proof -
  define u where "u = to_utc d"
  let ?s = "stamp_digits u @ ''+00:00''"
  have valid: "valid_datetime u" using assms(1) by (simp add: u_def)
  note lt = small_fields [OF valid]
  have mod: "x mod 10 < 10" for x :: nat by simp
  note facts = digit_facts [OF lt(1)] digit_facts [OF lt(2)] digit_facts [OF lt(3)] digit_facts [OF lt(4)] digit_facts [OF lt(5)]
    digit_facts [OF lt(6)] digit_facts [OF mod]
  have "CHR ''Z'' \<notin> set (stamp_digits u)" using stamp_chars [OF valid] by blast
  then have read: "replace_all ''Z'' ''+00:00'' (time_stamp d) = ?s"
    unfolding time_stamp_digits [OF assms] u_def [symmetric] by (rule replace_last)
  have form: "iso_form ?s"
    using facts(1,6,11,16,21,26,31) by (simp add: iso_form_def stamp_digits_def is_digit_def in_range_def)
  have "dt_year u div 100 = dt_year u div 10 div 10" "dt_year u div 1000 = dt_year u div 10 div 10 div 10" by (simp_all flip: div_mult2_eq)
  then have "((dt_year u div 1000 * 10 + dt_year u div 100 mod 10) * 10 + dt_year u div 10 mod 10) * 10 + dt_year u mod 10 = dt_year u"
    by (simp only: div_mult_mod_eq)
  then have year: "field_at ?s 0 4 = dt_year u" using facts(2,32) by (simp add: field_at_def digits_value_def stamp_digits_def)
  have fields: "field_at ?s 5 2 = dt_month u" "field_at ?s 8 2 = dt_day u" "field_at ?s 11 2 = dt_hour u" "field_at ?s 14 2 = dt_minute u"
    "field_at ?s 17 2 = dt_second u" "field_at ?s 20 2 = 0" "field_at ?s 23 2 = 0" "?s ! 19 = CHR ''+''"
    using facts(7,12,17,22,27,32) by (simp_all add: field_at_def digits_value_def stamp_digits_def)
  have "dt_offset u = Some 0" by (simp add: u_def)
  then have "valid_datetime (u\<lparr>dt_microsecond := 0\<rparr>)" using valid by (simp add: valid_datetime_def)
  moreover have "\<lparr>dt_year = dt_year u, dt_month = dt_month u, dt_day = dt_day u, dt_hour = dt_hour u, dt_minute = dt_minute u,
      dt_second = dt_second u, dt_microsecond = 0, dt_offset = Some 0\<rparr> = u\<lparr>dt_microsecond := 0\<rparr>"
    by (simp add: u_def)
  ultimately show ?thesis
    unfolding read iso_datetime_def whole_second_def u_def [symmetric] by (simp add: form year fields Let_def)
qed

end
