(* ===== verification/Tools.thy ===== *)
theory Tools
  imports Integration Shell ToolArgs DateTime
begin

text \<open>
  The tools of an agent: \<^verbatim>\<open>tools/registry.py\<close> (the registry with its permission checks, and the tools
  \<open>create_worker_registry\<close> registers), \<^verbatim>\<open>capability/execution.py\<close> (skill scripts), and the walking tools of
  \<^verbatim>\<open>tools/filesystem.py\<close>.

  A tool acts on the file system, on the stores of skills and memories (\<open>'x\<close>, reached through the
  operations of the environment) and on the registry's own state. What a started process does to the
  files is \<open>te_effect\<close>; directory walks, the compilation of a pattern, the names of temporary
  directories and SHA-256 are parameters as well. The workspace is given by its resolved path. Results
  are in the serialised form the tool loop works with.
\<close>

section \<open>Skills as the tools see them\<close>

record skill_permissions =
  sp_read_workspace :: bool
  sp_write_workspace :: bool
  sp_execute :: bool
  sp_network :: bool

record skill_file =
  sf_path :: string
  sf_sha256 :: string
  sf_executable :: bool

record skill_manifest =
  sm_skill_id :: string
  sm_name :: string
  sm_description :: string
  sm_triggers :: "string list"
  sm_task_families :: "string list"
  sm_permissions :: skill_permissions
  sm_source_run_ids :: "string list"
  sm_enabled :: bool
  sm_files :: "skill_file list"
  sm_created_at :: int
  sm_updated_at :: int

record registered_skill =
  rs_manifest :: skill_manifest
  rs_package_path :: path

datatype skill_outcome = SkillSuccess | SkillFailure

record skill_memory_entry =
  se_run_id :: string
  se_repository :: string
  se_task_summary :: string
  se_outcome :: skill_outcome
  se_lesson :: string
  se_created_at :: datetime

fun skill_outcome_str :: "skill_outcome \<Rightarrow> string" where
  "skill_outcome_str SkillSuccess = ''success''"
| "skill_outcome_str SkillFailure = ''failure''"

definition upper_char :: "char \<Rightarrow> char" where
  "upper_char c = (let n = of_char c :: nat in if 97 \<le> n \<and> n \<le> 122 then char_of (n - 32) else c)"

definition format_skill_memory_lines :: "skill_memory_entry list \<Rightarrow> string list" where
  "format_skill_memory_lines entries =
     map (\<lambda>e. ''- '' @ map upper_char (skill_outcome_str (se_outcome e)) @ '': '' @ se_lesson e) entries"

text \<open>The operations of the skill registry a tool calls.\<close>

record 'x skill_ops =
  so_get :: "string \<Rightarrow> 'x \<Rightarrow> registered_skill option"
  so_list_enabled :: "'x \<Rightarrow> string list"
  so_read_skill_memory :: "fs \<Rightarrow> string \<Rightarrow> 'x \<Rightarrow> skill_memory_entry list res"
  so_record_selected :: "string \<Rightarrow> ('x, unit) io"

section \<open>Environment, configuration and state\<close>

record 'x tool_env =
  te_popen :: "fs \<Rightarrow> string list \<Rightarrow> path \<Rightarrow> (string \<times> string) list \<Rightarrow> (proc_event list \<times> int) res"
  te_effect :: "string list \<Rightarrow> path \<Rightarrow> fs \<Rightarrow> fs"
  te_decode :: "string \<Rightarrow> string"
  te_environ :: "(string \<times> string) list"
  te_pycache :: string
  te_executable :: string
  te_git :: git_cmd
  te_listing :: "fs \<Rightarrow> path \<Rightarrow> path list"
  te_rglob :: "fs \<Rightarrow> path \<Rightarrow> path list"
  te_compile :: "string \<Rightarrow> (string \<Rightarrow> bool) res"
  te_sha :: "string \<Rightarrow> string"
  te_mkdtemp :: "string \<Rightarrow> path \<Rightarrow> fs \<Rightarrow> string"
  te_coercion :: coercion
  te_skills :: "'x skill_ops option"
  te_memory_hit :: "(string \<Rightarrow> string \<Rightarrow> 'x \<Rightarrow> memory_hit option) option"

record tool_config =
  tk_capabilities :: worker_capabilities
  tk_workspace :: path
  tk_timeout :: int
  tk_max_chars :: int
  tk_allowed_skill_refs :: "string list option"
  tk_memory_refs :: "(string \<times> string) list"
  tk_memory_repository :: string
  tk_allowlist :: "string list option"
  tk_write_scope :: "string list option"

text \<open>\<open>allowed_writes\<close> and \<open>command_workspace\<close> are what \<open>create_worker_registry\<close> computes once.\<close>

record tool_registry =
  tr_config :: tool_config
  tr_allowed_writes :: "string list"
  tr_command_workspace :: path

record 'x tool_state =
  ts_fs :: fs
  ts_store :: 'x
  ts_changed_paths :: "string list"
  ts_temporary :: "path list"
  ts_execution_workspace :: "path option"
  ts_disposable :: "path option"
  ts_revision :: int
  ts_available_skill_ids :: "string list"
  ts_activated_skill_ids :: "string list"

definition on_tool_fs :: "(fs, 'a) io \<Rightarrow> ('x tool_state, 'a) io" where
  "on_tool_fs = sfocus ts_fs (\<lambda>c s. s\<lparr>ts_fs := c\<rparr>)"

definition on_store :: "('x, 'a) io \<Rightarrow> ('x tool_state, 'a) io" where
  "on_store = sfocus ts_store (\<lambda>c s. s\<lparr>ts_store := c\<rparr>)"

section \<open>Walking tools\<close>

text \<open>
  \<open>str.splitlines()\<close> on encoded text: the number of bytes of a line boundary at the start (line feed,
  carriage return with or without line feed, vertical tab, form feed, the separators 28 to 30, next line,
  line separator, paragraph separator).
\<close>

fun line_break :: "string \<Rightarrow> nat" where
  "line_break [] = 0"
| "line_break (c # cs) =
     (let n = of_char c :: nat; after = map of_char cs :: nat list in
      if n \<in> {10, 11, 12, 28, 29, 30} then 1
      else if n = 13 then (if take 1 after = [10] then 2 else 1)
      else if n = 194 \<and> take 1 after = [133] then 2
      else if n = 226 \<and> take 2 after \<in> {[128, 168], [128, 169]} then 3
      else 0)"

function (sequential) splitlines_from :: "string \<Rightarrow> string \<Rightarrow> string list" where
  "splitlines_from line [] = (if line = [] then [] else [rev line])"
| "splitlines_from line (c # cs) =
     (if line_break (c # cs) = 0 then splitlines_from (c # line) cs
      else rev line # splitlines_from [] (drop (line_break (c # cs)) (c # cs)))"
  by pat_completeness auto
termination
  by (relation "measure (\<lambda>(line, s). length s)") auto

definition splitlines :: "string \<Rightarrow> string list" where
  "splitlines s = splitlines_from [] s"

definition is_file_at :: "fs \<Rightarrow> path \<Rightarrow> bool" where
  "is_file_at fs p \<longleftrightarrow> (case resolve_path fs p of Inl e \<Rightarrow> False | Inr t \<Rightarrow> is_file fs t)"

definition list_files :: "(fs \<Rightarrow> path \<Rightarrow> path list) \<Rightarrow> fs \<Rightarrow> path \<Rightarrow> string \<Rightarrow> int \<Rightarrow> string list res" where
  "list_files rglob fs wroot p limit =
     rbind (boundary_resolve fs wroot p True) (\<lambda>target.
       let files = (if fs target = Some Dir then rglob fs target else [target]);
           found = filter (\<lambda>item. is_file_at fs item \<and> ''.git'' \<notin> set item) files
       in Inr (sort (map (\<lambda>item. path_str (drop (length wroot) item)) (take (max 1 (nat limit)) found))))"

definition line_matches :: "(string \<Rightarrow> bool) \<Rightarrow> string \<Rightarrow> string list \<Rightarrow> string list" where
  "line_matches expression relative lines =
     map (\<lambda>(n, line). relative @ '':'' @ show_nat n @ '':'' @ py_take 300 line)
       (filter (\<lambda>(n, line). expression line) (zip [1..<Suc (length lines)] lines))"

text \<open>The lines of a file that is not readable as UTF-8 are skipped; a listed file outside the workspace raises.\<close>

fun search_files ::
  "(string \<Rightarrow> bool) \<Rightarrow> fs \<Rightarrow> path \<Rightarrow> nat \<Rightarrow> string list \<Rightarrow> string list \<Rightarrow> string list res" where
  "search_files expression fs wroot limit [] hits = Inr hits"
| "search_files expression fs wroot limit (relative # rest) hits =
     rbind (boundary_resolve fs wroot relative True) (\<lambda>target.
       let found = (case file_text fs target of Inl e \<Rightarrow> [] | Inr text \<Rightarrow> line_matches expression relative (splitlines text))
       in if found \<noteq> [] \<and> limit \<le> length (hits @ found) then Inr (take (max limit (Suc (length hits))) (hits @ found))
          else search_files expression fs wroot limit rest (hits @ found))"

definition search_code ::
  "(string \<Rightarrow> (string \<Rightarrow> bool) res) \<Rightarrow> (fs \<Rightarrow> path \<Rightarrow> path list) \<Rightarrow> fs \<Rightarrow> path \<Rightarrow>
   string \<Rightarrow> string \<Rightarrow> int \<Rightarrow> string list res" where
  "search_code compile rglob fs wroot pattern p limit =
     rbind (compile pattern) (\<lambda>expression.
     rbind (list_files rglob fs wroot p 500) (\<lambda>files.
       search_files expression fs wroot (nat limit) files []))"

section \<open>Commands\<close>

definition json_run :: "command_result \<Rightarrow> json" where
  "json_run r = JObj [(''argv'', jstrs (cr_argv r)), (''cwd'', JStr (abs_str (cr_cwd r))),
     (''exit_code'', JInt (cr_exit_code r)), (''stdout'', JStr (cr_stdout r)), (''stderr'', JStr (cr_stderr r)),
     (''timed_out'', JBool (cr_timed_out r)), (''truncated'', JBool (cr_truncated r))]"

text \<open>\<open>CommandRunner.run\<close>, with what the process did to the files.\<close>

definition run_in ::
  "'x tool_env \<Rightarrow> tool_config \<Rightarrow> path \<Rightarrow> string list \<Rightarrow> string \<Rightarrow> bool \<Rightarrow> (fs, command_result) io" where
  "run_in env cfg wroot argv cwd net =
     (\<lambda>fs. case run_sync (te_popen env fs) (te_decode env) (te_environ env) (te_pycache env) fs
                  \<lparr>rn_root = wroot, rn_timeout = tk_timeout cfg, rn_max_chars = tk_max_chars cfg\<rparr> argv cwd net [] of
             Inl e \<Rightarrow> (fs, Inl e)
           | Inr r \<Rightarrow> (te_effect env (cr_argv r) (cr_cwd r) fs, Inr r))"

section \<open>Disposable workspaces\<close>

text \<open>\<open>te_mkdtemp\<close> is the last name \<open>tempfile\<close> tries; when it exists as well, no directory is made.\<close>

definition mkdtemp :: "'x tool_env \<Rightarrow> string \<Rightarrow> path \<Rightarrow> ('x tool_state, path) io" where
  "mkdtemp env name dir = (\<lambda>s.
     let p = dir @ [te_mkdtemp env name dir (ts_fs s)] in
     if path_exists (ts_fs s) p then (s, Inl (OSError (abs_str p)))
     else (s\<lparr>ts_fs := (ts_fs s)(p \<mapsto> Dir)\<rparr>, Inr p))"

definition cleanup :: "path \<Rightarrow> ('x tool_state, unit) io" where
  "cleanup p = smodify (\<lambda>s. s\<lparr>ts_fs := rmtree p (ts_fs s)\<rparr>)"

text \<open>\<open>ToolRegistry.close\<close>\<close>

definition close_temporaries :: "('x tool_state, unit) io" where
  "close_temporaries = smodify (\<lambda>s. s\<lparr>ts_fs := fold rmtree (rev (ts_temporary s)) (ts_fs s), ts_temporary := []\<rparr>)"

definition invalidate_snapshots :: "('x tool_state, unit) io" where
  "invalidate_snapshots =
     sbind (smodify (\<lambda>s. s\<lparr>ts_revision := ts_revision s + 1\<rparr>)) (\<lambda>_.
     sbind close_temporaries (\<lambda>_.
     smodify (\<lambda>s. s\<lparr>ts_disposable := None, ts_execution_workspace := None\<rparr>)))"

text \<open>
  A copy that fails leaves the name of the disposable workspace set; its temporary directory, which the
  registry does not own yet, is removed when the object is finalised.
\<close>

definition disposable_workspace :: "'x tool_env \<Rightarrow> tool_config \<Rightarrow> ('x tool_state, path) io" where
  "disposable_workspace env cfg =
     sbind (sget ts_disposable) (\<lambda>d.
     case d of
       Some p \<Rightarrow> sret p
     | None \<Rightarrow>
         sbind (mkdtemp env ''.evoci-exec-'' (butlast (tk_workspace cfg))) (\<lambda>temporary.
         let p = temporary @ [''workspace''] in
         sbind (smodify (\<lambda>s. s\<lparr>ts_disposable := Some p\<rparr>)) (\<lambda>_.
         sbind (stry (on_tool_fs (copy_workspace_with_independent_git (te_git env) (te_listing env) (tk_workspace cfg) p))) (\<lambda>r.
         case r of
           Inl e \<Rightarrow> sbind (cleanup temporary) (\<lambda>_. sraise e)
         | Inr _ \<Rightarrow>
             sbind (smodify (\<lambda>s. s\<lparr>ts_temporary := ts_temporary s @ [temporary], ts_execution_workspace := Some p\<rparr>)) (\<lambda>_.
             sret p)))))"

section \<open>The tools\<close>

definition json_patch :: "patch_application_result \<Rightarrow> json" where
  "json_patch r = JObj [(''created_files'', jstrs (pa_created_files r)), (''modified_files'', jstrs (pa_modified_files r)),
     (''deleted_files'', jstrs (pa_deleted_files r))]"

definition require_write_path :: "tool_registry \<Rightarrow> string \<Rightarrow> ('x tool_state, string) io" where
  "require_write_path reg p = (\<lambda>s. (s,
     if \<not> write_files (tk_capabilities (tr_config reg)) then Inl (PolicyViolation ''worker does not have write permission'')
     else assert_write_path_allowed p (tr_allowed_writes reg) (Some (ts_fs s, tk_workspace (tr_config reg)))))"

definition run_bounded_command ::
  "'x tool_env \<Rightarrow> tool_registry \<Rightarrow> string list \<Rightarrow> string \<Rightarrow> bool \<Rightarrow> ('x tool_state, json) io" where
  "run_bounded_command env reg argv cwd net =
     (let caps = tk_capabilities (tr_config reg) in
      if net \<and> \<not> network caps then sraise (PolicyViolation ''worker does not have network permission'')
      else sbind (on_tool_fs (run_in env (tr_config reg) (tr_command_workspace reg) argv cwd net)) (\<lambda>result.
           sbind (if write_files caps then invalidate_snapshots else sret ()) (\<lambda>_. sret (json_run result))))"

definition read_memory :: "'x tool_env \<Rightarrow> tool_config \<Rightarrow> string \<Rightarrow> int \<Rightarrow> int \<Rightarrow> ('x tool_state, json) io" where
  "read_memory env cfg memory_id offset limit = (\<lambda>s. (s,
     case map_of (tk_memory_refs cfg) memory_id of
       None \<Rightarrow> Inl (PolicyViolation ''memory is not available to this agent invocation'')
     | Some namespace \<Rightarrow>
         if tk_memory_repository cfg = [] then Inl (PolicyViolation ''memory repository is missing'')
         else case Option.bind (te_memory_hit env) (\<lambda>get. get memory_id (tk_memory_repository cfg) (ts_store s)) of
           None \<Rightarrow> Inl (PolicyViolation ''memory is unavailable or has changed since retrieval'')
         | Some hit \<Rightarrow>
             if mh_namespace hit \<noteq> namespace
             then Inl (PolicyViolation ''memory is unavailable or has changed since retrieval'')
             else
               let total = int (py_len (mh_content hit)); ending = min (offset + limit) total in
               Inr (JObj [(''memory_id'', JStr memory_id), (''namespace'', JStr (mh_namespace hit)),
                 (''content'', JStr (py_take (nat (ending - offset)) (py_drop (nat offset) (mh_content hit)))),
                 (''total_chars'', JInt total), (''next_offset'', if ending < total then JInt ending else JNull)])))"

text \<open>\<open>guarded\<close> keeps the place of the first of two paths with the same normal form and the content of the last.\<close>

fun guard_files ::
  "tool_registry \<Rightarrow> (string \<times> string) list \<Rightarrow> (string \<times> string) list \<Rightarrow> ('x tool_state, (string \<times> string) list) io" where
  "guard_files reg [] guarded = sret guarded"
| "guard_files reg ((p, content) # rest) guarded =
     sbind (require_write_path reg p) (\<lambda>normalized. guard_files reg rest (AList.update normalized content guarded))"

definition tool_apply_patch :: "tool_registry \<Rightarrow> (string \<times> string) list \<Rightarrow> ('x tool_state, json) io" where
  "tool_apply_patch reg files =
     sbind (guard_files reg files []) (\<lambda>guarded.
     sbind (on_tool_fs (\<lambda>fs. apply_patch fs (tk_workspace (tr_config reg)) (write_files (tk_capabilities (tr_config reg))) guarded)) (\<lambda>result.
     sbind invalidate_snapshots (\<lambda>_. sret (json_patch result))))"

text \<open>A file tool that changes nothing when it raises.\<close>

definition edit_with :: "(fs \<Rightarrow> (fs \<times> patch_application_result) res) \<Rightarrow> (fs, patch_application_result) io" where
  "edit_with f = (\<lambda>fs. case f fs of Inl e \<Rightarrow> (fs, Inl e) | Inr (fs', r) \<Rightarrow> (fs', Inr r))"

definition edit_file ::
  "tool_registry \<Rightarrow> string \<Rightarrow> (fs \<Rightarrow> path \<Rightarrow> bool \<Rightarrow> (fs \<times> patch_application_result) res) \<Rightarrow> ('x tool_state, json) io" where
  "edit_file reg p f =
     sbind (require_write_path reg p) (\<lambda>_.
     sbind (on_tool_fs (edit_with (\<lambda>fs. f fs (tk_workspace (tr_config reg)) (write_files (tk_capabilities (tr_config reg)))))) (\<lambda>result.
     sbind invalidate_snapshots (\<lambda>_. sret (json_patch result))))"

definition tool_replace_text :: "tool_registry \<Rightarrow> string \<Rightarrow> string \<Rightarrow> string \<Rightarrow> int \<Rightarrow> ('x tool_state, json) io" where
  "tool_replace_text reg p old_text new_text n =
     edit_file reg p (\<lambda>fs wroot writable. replace_text fs wroot writable p old_text new_text n)"

definition tool_create_file :: "tool_registry \<Rightarrow> string \<Rightarrow> string \<Rightarrow> ('x tool_state, json) io" where
  "tool_create_file reg p content = edit_file reg p (\<lambda>fs wroot writable. create_file fs wroot writable p content)"

definition tool_delete_file :: "tool_registry \<Rightarrow> string \<Rightarrow> ('x tool_state, json) io" where
  "tool_delete_file reg p = edit_file reg p (\<lambda>fs wroot writable. delete_file fs wroot writable p)"

section \<open>Skill tools\<close>

definition resolve_skill_package_file :: "fs \<Rightarrow> path \<Rightarrow> string \<Rightarrow> path res" where
  "resolve_skill_package_file fs package relative =
     (if is_abs_path relative \<or> ''..'' \<in> set (path_parts relative) \<or> path_parts relative = []
      then Inl (PolicyViolation (''unsafe skill resource path: '' @ relative))
      else if list_ex (\<lambda>n. is_symlink fs (package @ take n (path_parts relative))) [1..<Suc (length (path_parts relative))]
      then Inl (PolicyViolation ''skill resource must not be a symlink'')
      else rbind (resolve_path fs (package @ path_parts relative)) (\<lambda>resolved.
        if \<not> strict_prefix package resolved \<or> \<not> is_file_at fs (package @ path_parts relative)
        then Inl (PolicyViolation ''skill resource is missing or escaped the package'')
        else Inr resolved))"

definition require_available :: "string \<Rightarrow> ('x tool_state, unit) io" where
  "require_available skill_id = (\<lambda>s. (s,
     if skill_id \<notin> set (ts_available_skill_ids s)
     then Inl (PolicyViolation (''skill '' @ skill_id @ '' is not in the current catalog'')) else Inr ()))"

definition require_activated :: "string \<Rightarrow> ('x tool_state, unit) io" where
  "require_activated skill_id =
     sbind (require_available skill_id) (\<lambda>_ s. (s,
       if skill_id \<notin> set (ts_activated_skill_ids s)
       then Inl (PolicyViolation (''Skill '' @ skill_id @
              '' must be loaded with load_skill before accessing its resources or scripts.'')) else Inr ()))"

text \<open>The record of an enabled skill and the resolved path of its package.\<close>

definition enabled_skill :: "'x skill_ops \<Rightarrow> string \<Rightarrow> string \<Rightarrow> ('x tool_state, registered_skill) io" where
  "enabled_skill ops message skill_id = (\<lambda>s. (s,
     case so_get ops skill_id (ts_store s) of
       None \<Rightarrow> Inl (KeyError (''unknown skill: '' @ skill_id))
     | Some record \<Rightarrow> if \<not> sm_enabled (rs_manifest record) then Inl (PolicyViolation message) else Inr record))"

text \<open>The declared file of a package with its digest: it is read only if it is what the manifest declares.\<close>

definition declared_bytes ::
  "'x tool_env \<Rightarrow> string \<Rightarrow> registered_skill \<Rightarrow> string \<Rightarrow> ('x tool_state, string \<times> string) io" where
  "declared_bytes env undeclared record p = (\<lambda>s. (s,
     rbind (resolve_path (ts_fs s) (rs_package_path record)) (\<lambda>package.
     case map_of (rev (map (\<lambda>f. (sf_path f, sf_sha256 f)) (sm_files (rs_manifest record)))) p of
       None \<Rightarrow> Inl (PolicyViolation undeclared)
     | Some declared \<Rightarrow>
         rbind (resolve_skill_package_file (ts_fs s) package p) (\<lambda>target.
         rbind (file_bytes (ts_fs s) target) (\<lambda>payload.
           if te_sha env payload \<noteq> declared then Inl (PolicyViolation (''skill resource hash mismatch: '' @ p))
           else Inr (payload, te_sha env payload))))))"

definition procedure_limit :: nat where
  "procedure_limit = 16000"

definition load_skill :: "'x tool_env \<Rightarrow> 'x skill_ops \<Rightarrow> string \<Rightarrow> ('x tool_state, json) io" where
  "load_skill env ops skill_id =
     sbind (require_available skill_id) (\<lambda>_.
     sbind (sget ts_activated_skill_ids) (\<lambda>activated.
     if skill_id \<in> set activated
     then sret (JObj [(''skill_id'', JStr skill_id), (''already_loaded'', JBool True)])
     else
     sbind (enabled_skill ops ''only enabled skills may be loaded'' skill_id) (\<lambda>record.
     sbind (declared_bytes env ''SKILL.md is not declared in the skill manifest'' record ''SKILL.md'') (\<lambda>(payload, _).
     let text = te_decode env payload;
         procedure = (if procedure_limit < py_len text then py_take procedure_limit text @ newline @ ''...[truncated]'' else text)
     in
     sbind (\<lambda>s. (s, so_read_skill_memory ops (ts_fs s) skill_id (ts_store s))) (\<lambda>memory_entries.
     sbind (smodify (\<lambda>s. s\<lparr>ts_activated_skill_ids := skill_id # ts_activated_skill_ids s\<rparr>)) (\<lambda>_.
     sbind (on_store (so_record_selected ops skill_id)) (\<lambda>_.
     let m = rs_manifest record in
     sret (JObj [(''skill_id'', JStr (sm_skill_id m)), (''name'', JStr (sm_name m)), (''description'', JStr (sm_description m)),
       (''procedure'', JStr procedure), (''usage_memory'', jstrs (format_skill_memory_lines memory_entries)),
       (''resources'', jstrs (filter (\<lambda>p. p \<noteq> ''SKILL.md'') (map sf_path (sm_files m))))]))))))))"

definition script_env_keys :: "string list" where
  "script_env_keys = [''PATH'', ''LANG'', ''LC_ALL'', ''TMPDIR'']"

text \<open>\<open>run_skill_script\<close> of \<^verbatim>\<open>capability/execution.py\<close>; the script's effect on the files included.\<close>

definition run_skill_script ::
  "'x tool_env \<Rightarrow> 'x skill_ops \<Rightarrow> tool_config \<Rightarrow> string \<Rightarrow> string \<Rightarrow> string list \<Rightarrow> path \<Rightarrow> int \<Rightarrow> ('x tool_state, json) io" where
  "run_skill_script env ops cfg skill_id script_name args wroot observed_revision =
     sbind (enabled_skill ops ''only enabled skill scripts may execute'' skill_id) (\<lambda>record s.
       let fs = ts_fs s; m = rs_manifest record in
       if \<not> sp_execute (sm_permissions m) then (s, Inl (PolicyViolation ''skill does not declare execute permission''))
       else
       case rbind (resolve_path fs (rs_package_path record)) (\<lambda>package.
            rbind (resolve_path fs (join_root (package @ [''scripts'']) script_name)) (\<lambda>script.
              if \<not> strict_prefix package script \<or> \<not> is_file fs script
              then Inl (PolicyViolation ''script is not part of this skill package'')
              else if path_str (drop (length package) script) \<notin> set (map sf_path (sm_files m))
              then Inl (PolicyViolation ''script is not declared in manifest'')
              else if \<not> ends_with ''.py'' (last script) \<or> last script = ''.py''
              then Inl (PolicyViolation (''unsupported_runner: '' @ last script))
              else
                let argv = te_executable env # abs_str script # args in
                rbind (boundary_resolve fs wroot ''.'' True) (\<lambda>resolved_workspace.
                  run_grouped_subprocess (te_popen env fs) (te_decode env) argv resolved_workspace
                    (filter (\<lambda>(k, v). k \<in> set script_env_keys) (te_environ env)) (tk_timeout cfg) (tk_max_chars cfg)))) of
         Inl e \<Rightarrow> (s, Inl e)
       | Inr r \<Rightarrow>
           (s\<lparr>ts_fs := te_effect env (cr_argv r) (cr_cwd r) fs\<rparr>,
            Inr (JObj [(''exit_code'', JInt (cr_exit_code r)), (''stdout'', JStr (cr_stdout r)), (''stderr'', JStr (cr_stderr r)),
              (''timed_out'', JBool (cr_timed_out r)), (''observed_revision'', JInt observed_revision)])))"

text \<open>The paths a write-permitted script reported, checked against the scope.\<close>

definition write_path_keys :: "string list" where
  "write_path_keys = [''created_files'', ''modified_files'', ''deleted_files'']"

fun json_items :: "json \<Rightarrow> json list" where
  "json_items (JList xs) = xs"
| "json_items j = []"

fun path_items :: "json list \<Rightarrow> string list" where
  "path_items [] = []"
| "path_items (JStr p # xs) = (if p = [] then path_items xs else p # path_items xs)"
| "path_items (_ # xs) = path_items xs"

definition reported_paths :: "json \<Rightarrow> string list" where
  "reported_paths result =
     (case result of
        JObj payload \<Rightarrow> concat (map (\<lambda>key. path_items (json_items (jget payload key))) write_path_keys)
      | _ \<Rightarrow> [])"

fun require_write_paths :: "tool_registry \<Rightarrow> string list \<Rightarrow> ('x tool_state, unit) io" where
  "require_write_paths reg [] = sret ()"
| "require_write_paths reg (p # ps) = sbind (require_write_path reg p) (\<lambda>_. require_write_paths reg ps)"

definition execute_skill ::
  "'x tool_env \<Rightarrow> 'x skill_ops \<Rightarrow> tool_registry \<Rightarrow> string \<Rightarrow> string \<Rightarrow> string list \<Rightarrow> ('x tool_state, json) io" where
  "execute_skill env ops reg skill_id script_name args =
     (let cfg = tr_config reg; writable = write_files (tk_capabilities cfg) in
      sbind (require_activated skill_id) (\<lambda>_.
      sbind (enabled_skill ops ''only enabled skill scripts may execute'' skill_id) (\<lambda>record.
      let asks = sp_write_workspace (sm_permissions (rs_manifest record)) in
      if asks \<and> \<not> writable
      then sraise (PolicyViolation ''skill requests workspace writes that this worker role does not permit'')
      else
      let may_write = (writable \<and> asks) in
      sbind (if may_write then sret (tk_workspace cfg) else disposable_workspace env cfg) (\<lambda>script_workspace.
      sbind (sget ts_revision) (\<lambda>revision.
      sbind (stry (run_skill_script env ops cfg skill_id script_name args script_workspace revision)) (\<lambda>r.
      sbind (if may_write then invalidate_snapshots else sret ()) (\<lambda>_.
      sbind (slift r) (\<lambda>result.
      sbind (if may_write then require_write_paths reg (reported_paths result) else sret ()) (\<lambda>_.
      sret result)))))))))"

definition read_skill_resource ::
  "'x tool_env \<Rightarrow> 'x skill_ops \<Rightarrow> string \<Rightarrow> string \<Rightarrow> int \<Rightarrow> int \<Rightarrow> ('x tool_state, json) io" where
  "read_skill_resource env ops skill_id p offset limit =
     sbind (require_activated skill_id) (\<lambda>_.
     sbind (enabled_skill ops ''only enabled skill resources may be read'' skill_id) (\<lambda>record.
     sbind (declared_bytes env ''resource is not declared in the skill manifest'' record p) (\<lambda>(payload, digest).
     let text = te_decode env payload; total = int (py_len text) in
     sret (JObj [(''skill_id'', JStr skill_id), (''path'', JStr p), (''offset'', JInt offset), (''limit'', JInt limit),
       (''length'', JInt total), (''truncated'', JBool (offset + limit < total \<or> 0 < offset)), (''sha256'', JStr digest),
       (''content'', JStr (py_take (nat limit) (py_drop (nat offset) text)))]))))"

section \<open>The registry\<close>

text \<open>The capability a registered tool asks for; skill and memory tools exist only with their stores.\<close>

definition tool_capability :: "'x tool_env \<Rightarrow> string \<Rightarrow> string option" where
  "tool_capability env name =
     (if name = ''read_memory'' then (if te_memory_hit env = None then None else Some ''read_files'')
      else if name \<in> {''load_skill'', ''read_skill_resource''} then (if te_skills env = None then None else Some ''read_files'')
      else if name = ''run_skill_script'' then (if te_skills env = None then None else Some ''execute_tests'')
      else if name \<in> {''read_file'', ''list_files''} then Some ''read_files''
      else if name = ''search_code'' then Some ''search_code''
      else if name \<in> {''git_status'', ''git_log'', ''git_show'', ''git_diff''} then Some ''git_read''
      else if name \<in> {''run_command'', ''run_test''} then Some ''execute_tests''
      else if name \<in> {''apply_patch'', ''replace_text'', ''create_file'', ''delete_file''} then Some ''write_files''
      else None)"

definition tool_names :: "string list" where
  "tool_names = [''read_memory'', ''read_file'', ''list_files'', ''search_code'', ''git_status'', ''git_log'', ''git_show'',
     ''git_diff'', ''run_command'', ''run_test'', ''apply_patch'', ''replace_text'', ''create_file'', ''delete_file'',
     ''load_skill'', ''run_skill_script'', ''read_skill_resource'']"

text \<open>\<open>getattr(self.capabilities, spec.capability, False)\<close>\<close>

definition has_capability :: "worker_capabilities \<Rightarrow> string \<Rightarrow> bool" where
  "has_capability caps c =
     (if c = ''read_files'' then read_files caps else if c = ''search_code'' then search_code_cap caps
      else if c = ''git_read'' then git_read caps else if c = ''execute_tests'' then execute_tests caps
      else if c = ''write_files'' then write_files caps else if c = ''network'' then network caps else False)"

definition resolve_tool :: "'x tool_env \<Rightarrow> tool_config \<Rightarrow> string \<Rightarrow> unit res" where
  "resolve_tool env cfg name =
     (case tool_capability env name of
        None \<Rightarrow> Inl (KeyError (''unknown tool: '' @ name))
      | Some c \<Rightarrow>
          if (case tk_allowlist cfg of None \<Rightarrow> False | Some allowed \<Rightarrow> name \<notin> set allowed)
          then Inl (PolicyViolation (''tool '' @ name @ '' is not available to this agent role''))
          else if \<not> has_capability (tk_capabilities cfg) c
          then Inl (PolicyViolation (''tool '' @ name @ '' requires '' @ c))
          else Inr ())"

definition available :: "'x tool_env \<Rightarrow> tool_config \<Rightarrow> string list" where
  "available env cfg = sort (filter (\<lambda>name. resolve_tool env cfg name = Inr ()) tool_names)"

definition on_read :: "(fs \<Rightarrow> json res) \<Rightarrow> ('x tool_state, json) io" where
  "on_read f = (\<lambda>s. (s, f (ts_fs s)))"

definition git_tool :: "'x tool_env \<Rightarrow> tool_config \<Rightarrow> string list res \<Rightarrow> ('x tool_state, json) io" where
  "git_tool env cfg argv =
     sbind (slift argv) (\<lambda>a. sbind (on_tool_fs (run_in env cfg (tk_workspace cfg) a ''.'' False)) (\<lambda>r. sret (json_run r)))"

text \<open>The validated call of a tool's function.\<close>

definition with_args :: "'a res \<Rightarrow> ('a \<Rightarrow> ('x tool_state, json) io) \<Rightarrow> ('x tool_state, json) io" where
  "with_args r f = sbind (slift r) f"

definition call_tool :: "'x tool_env \<Rightarrow> tool_registry \<Rightarrow> string \<Rightarrow> payload \<Rightarrow> ('x tool_state, json) io" where
  "call_tool env reg name args =
     (let co = te_coercion env; cfg = tr_config reg; wroot = tk_workspace cfg in
      if name = ''read_memory'' then with_args (read_memory_args co args) (\<lambda>(i, offset, limit). read_memory env cfg i offset limit)
      else if name = ''read_file''
      then with_args (read_file_args co args) (\<lambda>(p, offset, limit). on_read (\<lambda>fs.
             rbind (read_file (te_decode env) (nat (tk_max_chars cfg)) fs wroot p offset limit) (\<lambda>c. Inr (JStr c))))
      else if name = ''list_files''
      then with_args (list_files_args co args) (\<lambda>(p, limit). on_read (\<lambda>fs.
             rbind (list_files (te_rglob env) fs wroot p limit) (\<lambda>xs. Inr (jstrs xs))))
      else if name = ''search_code''
      then with_args (search_code_args co args) (\<lambda>(pattern, p, limit). on_read (\<lambda>fs.
             rbind (search_code (te_compile env) (te_rglob env) fs wroot pattern p limit) (\<lambda>xs. Inr (jstrs xs))))
      else if name = ''git_status'' then with_args (no_args co args) (\<lambda>_. git_tool env cfg (Inr git_status_argv))
      else if name = ''git_log'' then with_args (git_log_args co args) (\<lambda>limit. git_tool env cfg (Inr (git_log_argv limit)))
      else if name = ''git_show'' then with_args (git_show_args co args) (\<lambda>revision. git_tool env cfg (git_show_argv revision))
      else if name = ''git_diff'' then with_args (no_args co args) (\<lambda>_. git_tool env cfg (Inr git_diff_argv))
      else if name \<in> {''run_command'', ''run_test''}
      then with_args (run_command_args co args) (\<lambda>(argv, cwd, net). run_bounded_command env reg argv cwd net)
      else if name = ''apply_patch'' then with_args (apply_patch_args co args) (tool_apply_patch reg)
      else if name = ''replace_text''
      then with_args (replace_text_args co args) (\<lambda>(p, old_text, new_text, n). tool_replace_text reg p old_text new_text n)
      else if name = ''create_file'' then with_args (create_file_args co args) (\<lambda>(p, content). tool_create_file reg p content)
      else if name = ''delete_file'' then with_args (delete_file_args co args) (tool_delete_file reg)
      else case te_skills env of
        None \<Rightarrow> sraise (KeyError (''unknown tool: '' @ name))
      | Some ops \<Rightarrow>
          if name = ''load_skill'' then with_args (load_skill_args co args) (load_skill env ops)
          else if name = ''run_skill_script''
          then with_args (run_skill_script_args co args) (\<lambda>(i, script_name, xs). execute_skill env ops reg i script_name xs)
          else if name = ''read_skill_resource''
          then with_args (read_skill_resource_args co args) (\<lambda>(i, p, offset, limit). read_skill_resource env ops i p offset limit)
          else sraise (KeyError (''unknown tool: '' @ name)))"

definition write_path_tools :: "string list" where
  "write_path_tools = [''apply_patch'', ''replace_text'', ''create_file'', ''delete_file'', ''run_skill_script'']"

definition record_changed_paths :: "tool_config \<Rightarrow> string \<Rightarrow> json \<Rightarrow> ('x tool_state, unit) io" where
  "record_changed_paths cfg name result =
     (if name \<notin> set write_path_tools then sret ()
      else case result of
        JObj payload \<Rightarrow>
          if name = ''run_skill_script'' \<and>
             (\<not> write_files (tk_capabilities cfg) \<or> jget payload ''exit_code'' \<notin> {JNull, JInt 0} \<or>
              jtruthy (jget payload ''timed_out'') \<or> \<not> list_ex (\<lambda>key. map_of payload key \<noteq> None) write_path_keys)
          then sret ()
          else smodify (\<lambda>s. s\<lparr>ts_changed_paths := ts_changed_paths s @ reported_paths result\<rparr>)
      | _ \<Rightarrow> sret ())"

definition changed_paths :: "'x tool_state \<Rightarrow> string list" where
  "changed_paths s = sorted_set (ts_changed_paths s)"

definition ainvoke_tool :: "'x tool_env \<Rightarrow> tool_registry \<Rightarrow> string \<Rightarrow> payload \<Rightarrow> ('x tool_state, json) io" where
  "ainvoke_tool env reg name args =
     sbind (slift (resolve_tool env (tr_config reg) name)) (\<lambda>_.
     sbind (call_tool env reg name args) (\<lambda>result.
     sbind (record_changed_paths (tr_config reg) name result) (\<lambda>_. sret result)))"

text \<open>\<open>create_worker_registry\<close>: the checked scope, the place commands run in and the skills of the catalogue.\<close>

definition new_tool_state :: "fs \<Rightarrow> 'x \<Rightarrow> 'x tool_state" where
  "new_tool_state fs x = \<lparr>ts_fs = fs, ts_store = x, ts_changed_paths = [], ts_temporary = [], ts_execution_workspace = None,
     ts_disposable = None, ts_revision = 0, ts_available_skill_ids = [], ts_activated_skill_ids = []\<rparr>"

definition opt_scope :: "string list option \<Rightarrow> string list" where
  "opt_scope x = (case x of None \<Rightarrow> [] | Some ys \<Rightarrow> ys)"

definition create_worker_registry :: "'x tool_env \<Rightarrow> tool_config \<Rightarrow> ('x tool_state, tool_registry) io" where
  "create_worker_registry env cfg =
     sbind (slift (normalize_write_scope (opt_scope (tk_write_scope cfg)))) (\<lambda>allowed_writes.
     if write_files (tk_capabilities cfg) \<and> tk_write_scope cfg \<noteq> None \<and> allowed_writes = []
     then sraise (PolicyViolation ''repair workers require a non-empty write_scope'')
     else
     sbind (if write_files (tk_capabilities cfg) then sret (tk_workspace cfg) else disposable_workspace env cfg) (\<lambda>command_workspace.
     sbind (smodify (\<lambda>s. case te_skills env of
         None \<Rightarrow> s
       | Some ops \<Rightarrow> s\<lparr>ts_available_skill_ids := (case tk_allowed_skill_refs cfg of
             None \<Rightarrow> so_list_enabled ops (ts_store s) | Some refs \<Rightarrow> refs)\<rparr>)) (\<lambda>_.
     sret \<lparr>tr_config = cfg, tr_allowed_writes = allowed_writes, tr_command_workspace = command_workspace\<rparr>)))"

end
