(* ===== verification/Agents.thy ===== *)
theory Agents
  imports GraphState ToolLoop Tools
begin

text \<open>
  The model-backed supervisor and worker: \<^verbatim>\<open>agents/model_agents.py\<close>, over the tool loop (\<^verbatim>\<open>ToolLoop\<close>) and the
  tool registry (\<^verbatim>\<open>Tools\<close>).

  The state of an agent's invocation holds the files and the registry's state, the recorder, the clock
  readings, the run's budgets, the state directory and the local variables of \<open>execute\<close> that its handlers
  and its \<open>finally\<close> read. The gateway sees the messages and writes usage events to the recorder; the
  texts of the prompts are a parameter.
\<close>

section \<open>State\<close>

record 'x agent_state =
  ag_tools :: "'x tool_state"
  ag_recorder :: recorder
  ag_tick :: nat
  ag_budgets :: "budget_manager option"
  ag_files :: state_files
  ag_temporary :: "path option"
  ag_staging :: path
  ag_registry :: "tool_registry option"
  ag_restored :: "string list"

record worker_report =
  wp_status :: worker_task_status
  wp_summary :: string
  wp_evidence :: "evidence_item list"
  wp_unresolved_questions :: "string list"
  wp_used_memory_ids :: "string list"
  wp_used_skill_refs :: "skill_ref list"
  wp_risk :: risk_level

record 'o gateway =
  gw_next_action :: "string \<Rightarrow> string \<Rightarrow> loop_message list \<Rightarrow> (recorder, model_response) io"
  gw_finalize :: "string \<Rightarrow> string \<Rightarrow> loop_message list \<Rightarrow> (recorder, 'o) io"

record 'x agent_env =
  ae_tools :: "'x tool_env"
  ae_supervisor :: "supervisor_decision gateway"
  ae_worker :: "worker_report gateway"
  ae_clock :: "nat \<Rightarrow> int"
  ae_uuid :: "nat \<Rightarrow> string"
  ae_float :: "real \<Rightarrow> string"
  ae_str :: "json \<Rightarrow> string"
  ae_supervisor_prompt :: "supervisor_context \<Rightarrow> string \<times> string"
  ae_worker_prompt :: "worker_context \<Rightarrow> worker_capabilities \<Rightarrow> payload option \<Rightarrow> string \<times> string"
  ae_max_iterations :: int
  ae_max_tool_calls :: int
  ae_timeout :: int
  ae_max_chars :: int

definition on_tools :: "('x tool_state, 'a) io \<Rightarrow> ('x agent_state, 'a) io" where
  "on_tools = sfocus ag_tools (\<lambda>c s. s\<lparr>ag_tools := c\<rparr>)"

section \<open>The loop over a registry\<close>

definition gateway_call :: "(recorder, 'a) io \<Rightarrow> ('x tool_state agent_world, 'a) io" where
  "gateway_call = sfocus aw_recorder (\<lambda>c w. w\<lparr>aw_recorder := c\<rparr>)"

definition loop_env_of ::
  "'x agent_env \<Rightarrow> 'o gateway \<Rightarrow> string \<Rightarrow> ('o \<Rightarrow> skill_ref list option) \<Rightarrow> (skill_ref list \<Rightarrow> 'o \<Rightarrow> 'o) \<Rightarrow>
   tool_registry \<Rightarrow> ('x tool_state, 'o) loop_env" where
  "loop_env_of env gw agent_id refs with_refs reg =
     \<lparr>le_clock = ae_clock env, le_uuid = ae_uuid env, le_float = ae_float env, le_str = ae_str env,
      le_coercion = te_coercion (ae_tools env),
      le_next_action = (\<lambda>key ms. gateway_call (gw_next_action gw agent_id key ms)),
      le_finalize = (\<lambda>key ms. gateway_call (gw_finalize gw agent_id key ms)),
      le_read_files = read_files (tk_capabilities (tr_config reg)),
      le_ainvoke = (\<lambda>name arguments. sfocus aw_world (\<lambda>c w. w\<lparr>aw_world := c\<rparr>) (ainvoke_tool (ae_tools env) reg name arguments)),
      le_activated_skill_ids = ts_activated_skill_ids, le_used_skill_refs = refs, le_with_skill_refs = with_refs\<rparr>"

text \<open>\<open>budget_manager.for_run(run_id)\<close> and the budget as the loop left it\<close>

definition agent_budget :: "string \<Rightarrow> ('x agent_state, run_repair_budget option) io" where
  "agent_budget run_id = (\<lambda>s.
     case ag_budgets s of
       None \<Rightarrow> (s, Inr None)
     | Some m \<Rightarrow> (case for_run (Some (ag_recorder s)) run_id m of (b, m') \<Rightarrow> (s\<lparr>ag_budgets := Some m'\<rparr>, Inr (Some b))))"

definition put_budget :: "string \<Rightarrow> run_repair_budget list \<Rightarrow> budget_manager option \<Rightarrow> budget_manager option" where
  "put_budget run_id bs m =
     (case (m, bs) of (Some m', b # _) \<Rightarrow> Some (m'\<lparr>bm_budgets := (bm_budgets m')(run_id \<mapsto> b)\<rparr>) | _ \<Rightarrow> m)"

definition run_loop ::
  "'x agent_env \<Rightarrow> 'o gateway \<Rightarrow> ('o \<Rightarrow> skill_ref list option) \<Rightarrow> (skill_ref list \<Rightarrow> 'o \<Rightarrow> 'o) \<Rightarrow> tool_registry \<Rightarrow>
   loop_ids \<Rightarrow> string \<times> string \<Rightarrow> run_repair_budget option \<Rightarrow> ('x agent_state, 'o) io" where
  "run_loop env gw refs with_refs reg ids prompts extra =
     sbind (agent_budget (li_run_id ids)) (\<lambda>run_budget s.
       case run_tool_agent (loop_env_of env gw (li_agent_id ids) refs with_refs reg)
              \<lparr>lc_max_iterations = ae_max_iterations env, lc_max_tool_calls = ae_max_tool_calls env\<rparr> ids (fst prompts) (snd prompts)
              run_budget extra \<lparr>aw_recorder = ag_recorder s, aw_tick = ag_tick s, aw_world = ag_tools s\<rparr> of
         ((w, bs), r) \<Rightarrow>
           (s\<lparr>ag_recorder := aw_recorder w, ag_tick := aw_tick w, ag_tools := aw_world w,
              ag_budgets := put_budget (li_run_id ids) bs (ag_budgets s)\<rparr>, r))"

section \<open>Supervisor\<close>

definition supervisor_tools :: "string list" where
  "supervisor_tools = [''read_file'', ''read_memory'', ''list_files'', ''search_code'', ''git_status'', ''git_log'', ''git_show'',
     ''git_diff'', ''load_skill'', ''read_skill_resource'']"

definition supervisor_config :: "'x agent_env \<Rightarrow> supervisor_context \<Rightarrow> tool_config" where
  "supervisor_config env ctx =
     \<lparr>tk_capabilities = SUPERVISOR_CAPABILITIES, tk_workspace = sx_workspace ctx, tk_timeout = ae_timeout env,
      tk_max_chars = ae_max_chars env, tk_allowed_skill_refs = Some (map sce_skill_id (sx_skills ctx)),
      tk_memory_refs = rev (map (\<lambda>m. (mh_memory_id m, mh_namespace m)) (sx_memories ctx)),
      tk_memory_repository = full_name (sx_repo ctx), tk_allowlist = Some supervisor_tools, tk_write_scope = None\<rparr>"

text \<open>\<open>finally: registry.close()\<close>\<close>

definition sfinally :: "('s, 'a) io \<Rightarrow> ('s, unit) io \<Rightarrow> ('s, 'a) io" where
  "sfinally m f = sbind (stry m) (\<lambda>r. sbind f (\<lambda>_. slift r))"

definition decide :: "'x agent_env \<Rightarrow> supervisor_context \<Rightarrow> ('x agent_state, supervisor_decision) io" where
  "decide env ctx =
     sbind (on_tools (create_worker_registry (ae_tools env) (supervisor_config env ctx))) (\<lambda>reg.
     sfinally
       (run_loop env (ae_supervisor env) (\<lambda>_. None) (\<lambda>_ d. d) reg
          \<lparr>li_run_id = sx_run_id ctx, li_agent_id = ''supervisor'', li_invocation_id = sx_invocation_id ctx\<rparr>
          (ae_supervisor_prompt env ctx) None)
       (on_tools close_temporaries))"

section \<open>Facts from the events of an invocation\<close>

text \<open>\<open>shlex.join\<close>\<close>

definition shell_safe :: "char \<Rightarrow> bool" where
  "shell_safe c \<longleftrightarrow> (let n = of_char c :: nat in
     48 \<le> n \<and> n \<le> 57 \<or> 65 \<le> n \<and> n \<le> 90 \<or> 97 \<le> n \<and> n \<le> 122 \<or> c \<in> set ''_@%+=:,./-'')"

definition quote_char :: char where
  "quote_char = char_of (39::nat)"

definition shlex_quote :: "string \<Rightarrow> string" where
  "shlex_quote s =
     (if s = [] then [quote_char, quote_char]
      else if list_all shell_safe s then s
      else quote_char # concat (map (\<lambda>c. if c = quote_char
             then [quote_char, char_of (34::nat), quote_char, char_of (34::nat), quote_char] else [c]) s) @ [quote_char])"

definition shlex_join :: "string list \<Rightarrow> string" where
  "shlex_join argv = join '' '' (map shlex_quote argv)"

text \<open>\<open>str(value)\<close> of a JSON value, and \<open>str(value or default)\<close>\<close>

definition py_str :: "(json \<Rightarrow> string) \<Rightarrow> json \<Rightarrow> string" where
  "py_str str j = (case j of JStr s \<Rightarrow> s | JNull \<Rightarrow> ''None'' | JBool b \<Rightarrow> (if b then ''True'' else ''False'') | JInt i \<Rightarrow> show_int i | _ \<Rightarrow> str j)"

definition str_or :: "(json \<Rightarrow> string) \<Rightarrow> string \<Rightarrow> json \<Rightarrow> string" where
  "str_or str d j = (if jtruthy j then py_str str j else d)"

record pending_command =
  pc_spec :: verification_command_spec
  pc_network :: bool

record trace =
  tr_commands :: "string list"
  tr_evidence :: "evidence_item list"
  tr_skills :: "string list"
  tr_plan :: "verification_command_spec list"
  tr_pending :: "(string \<times> pending_command) list"

definition empty_trace :: trace where
  "empty_trace = \<lparr>tr_commands = [], tr_evidence = [], tr_skills = [], tr_plan = [], tr_pending = []\<rparr>"

definition trace_call :: "(json \<Rightarrow> string) \<Rightarrow> payload \<Rightarrow> trace \<Rightarrow> trace" where
  "trace_call str payload t =
     (let name = str_or str [] (jget payload ''tool_name'') in
      case jget payload ''arguments'' of
        JObj arguments \<Rightarrow>
          (case jget arguments ''argv'' of
             JList argv \<Rightarrow>
               if name \<notin> {''run_test'', ''run_command''} then t
               else (case mk_command_spec (map (py_str str) argv) (str_or str ''.'' (jget arguments ''cwd'')) of
                       Inl e \<Rightarrow> t
                     | Inr spec \<Rightarrow>
                         let rendered = shlex_join (vs_argv spec);
                             shown = (if vs_cwd spec \<noteq> ''.'' then rendered @ '' (cwd='' @ vs_cwd spec @ '')'' else rendered)
                         in t\<lparr>tr_commands := tr_commands t @ [shown],
                              tr_pending := AList.update (str_or str [] (jget payload ''call_id''))
                                \<lparr>pc_spec = spec, pc_network = jtruthy (jget arguments ''network'')\<rparr> (tr_pending t)\<rparr>)
           | _ \<Rightarrow> t)
      | _ \<Rightarrow> t)"

definition trace_result :: "(json \<Rightarrow> string) \<Rightarrow> (nat \<Rightarrow> string) \<Rightarrow> string \<Rightarrow> payload \<Rightarrow> trace \<Rightarrow> trace" where
  "trace_result str uuid agent_id payload t =
     (let name = str_or str [] (jget payload ''tool_name'') in
      if name \<notin> {''run_test'', ''run_command''} then t
      else
        let info = map_of (tr_pending t) (str_or str [] (jget payload ''call_id''));
            success = jtruthy (jget payload ''success'');
            command = (case info of None \<Rightarrow> name | Some p \<Rightarrow> shlex_join (vs_argv (pc_spec p)));
            item = \<lparr>ev_id = uuid (length (tr_evidence t)), ev_source_agent = agent_id, ev_kind = TestResult,
              ev_claim = name @ '' '' @ (if success then ''passed'' else ''failed'') @ '' with exit code '' @
                py_str str (jget payload ''exit_code''),
              ev_file_path = None, ev_line_start = None, ev_line_end = None, ev_command = Some command, ev_excerpt = None,
              ev_confidence = (if success then 1 else 4/10), ev_artifact_ref = None\<rparr>;
            t' = t\<lparr>tr_evidence := tr_evidence t @ [item]\<rparr>
        in case info of
             Some p \<Rightarrow>
               if success \<and> name = ''run_test'' \<and> \<not> pc_network p \<and> pc_spec p \<notin> set (tr_plan t)
               then t'\<lparr>tr_plan := tr_plan t @ [pc_spec p]\<rparr> else t'
           | None \<Rightarrow> t')"

fun first_skill :: "json list \<Rightarrow> json" where
  "first_skill [] = JNull"
| "first_skill (JObj raw # rest) = (if jtruthy (jget raw ''skill_id'') then jget raw ''skill_id'' else first_skill rest)"
| "first_skill (_ # rest) = first_skill rest"

definition trace_skill :: "payload \<Rightarrow> trace \<Rightarrow> trace" where
  "trace_skill payload t =
     (let direct = jget payload ''skill_id'';
          skill_id = (if jtruthy direct then direct else first_skill (json_items (jget payload ''skills'')))
      in case skill_id of
           JStr i \<Rightarrow> if i \<noteq> [] \<and> i \<notin> set (tr_skills t) then t\<lparr>tr_skills := tr_skills t @ [i]\<rparr> else t
         | _ \<Rightarrow> t)"

definition trace_event :: "(json \<Rightarrow> string) \<Rightarrow> (nat \<Rightarrow> string) \<Rightarrow> string \<Rightarrow> run_event \<Rightarrow> trace \<Rightarrow> trace" where
  "trace_event str uuid agent_id e t =
     (case e_type e of
        TOOL_CALL \<Rightarrow> trace_call str (e_payload e) t
      | TOOL_RESULT \<Rightarrow> trace_result str uuid agent_id (e_payload e) t
      | SKILL_USED \<Rightarrow> trace_skill (e_payload e) t
      | _ \<Rightarrow> t)"

definition trace_from_events ::
  "(json \<Rightarrow> string) \<Rightarrow> (nat \<Rightarrow> string) \<Rightarrow> string \<Rightarrow> string \<Rightarrow> string \<Rightarrow> recorder \<Rightarrow> trace" where
  "trace_from_events str uuid run_id agent_id invocation_id rec =
     fold (trace_event str uuid agent_id)
       (filter (\<lambda>e. e_agent_id e = Some agent_id \<and> e_invocation_id e = Some invocation_id) (rec_list run_id rec)) empty_trace"

definition harness_facts ::
  "(json \<Rightarrow> string) \<Rightarrow> (nat \<Rightarrow> string) \<Rightarrow> string \<Rightarrow> string \<Rightarrow> string \<Rightarrow> string list \<Rightarrow> recorder \<Rightarrow> trace" where
  "harness_facts str uuid run_id agent_id invocation_id available_skills rec =
     (let t = trace_from_events str uuid run_id agent_id invocation_id rec
      in t\<lparr>tr_skills := filter (\<lambda>i. i \<in> set available_skills) (tr_skills t)\<rparr>)"

section \<open>Worker\<close>

text \<open>\<open>_validated_usage\<close>: only memories and skills the worker was given count as used.\<close>

definition validated_usage :: "worker_report \<Rightarrow> string list \<Rightarrow> string list \<Rightarrow> worker_report" where
  "validated_usage report memory_ids skill_ids = report
     \<lparr>wp_used_memory_ids := sorted_set (filter (\<lambda>i. i \<in> set memory_ids) (wp_used_memory_ids report)),
      wp_used_skill_refs := map skill_ref.make
        (sorted_set (filter (\<lambda>i. i \<in> set skill_ids) (map sr_skill_id (wp_used_skill_refs report))))\<rparr>"

definition task_budget :: "'x agent_env \<Rightarrow> worker_context \<Rightarrow> ('x agent_state, run_repair_budget) io" where
  "task_budget env ctx =
     sbind (agent_budget (wx_run_id ctx)) (\<lambda>run_budget.
     let remaining_run_model = (case run_budget of None \<Rightarrow> ae_max_iterations env + FINALIZATION_MODEL_CALLS
           | Some b \<Rightarrow> rb_max_model_calls b - rb_model_calls b);
         remaining_tool = (case run_budget of None \<Rightarrow> ae_max_tool_calls env
           | Some b \<Rightarrow> min (ae_max_tool_calls env) (rb_max_tool_calls b - rb_tool_calls b));
         budget = wt_budget (wx_task ctx);
         remaining_tool' = (case budget of None \<Rightarrow> remaining_tool | Some b \<Rightarrow> min remaining_tool (tb_max_tool_calls b));
         actions = action_call_capacity (ae_max_iterations env) remaining_run_model (map_option tb_max_model_calls budget);
         total_calls = (if actions \<noteq> 0 then actions + FINALIZATION_MODEL_CALLS else 0)
     in sret (new_budget total_calls (max 0 remaining_tool') 0 0 ''task-level model-call budget exhausted''))"

definition base_result :: "worker_context \<Rightarrow> worker_task_status \<Rightarrow> string \<Rightarrow> string \<Rightarrow> worker_execution_result" where
  "base_result ctx status summary snapshot =
     \<lparr>wr_task_id = wt_task_id (wx_task ctx), wr_status = status, wr_summary = summary, wr_evidence = [],
      wr_unresolved_questions = [], wr_base_revision = Some snapshot, wr_snapshot_id = Some snapshot,
      wr_patch_artifact_ref = None, wr_changed_files = [], wr_command_result_refs = [], wr_used_memory_ids = [],
      wr_used_skill_refs = []\<rparr>"

definition bare_run :: "worker_execution_result \<Rightarrow> worker_run" where
  "bare_run result = \<lparr>run_result = result, run_edits = [], run_commands_run = [], run_verification_plan = [], run_risk = ''low''\<rparr>"

definition blocked :: "worker_context \<Rightarrow> string \<Rightarrow> worker_run" where
  "blocked ctx summary = bare_run ((base_result ctx Blocked summary (wx_baseline_snapshot_id ctx))
     \<lparr>wr_unresolved_questions := [summary]\<rparr>)"

definition exhausted :: "worker_context \<Rightarrow> string \<Rightarrow> worker_run" where
  "exhausted ctx summary = bare_run (base_result ctx BudgetExhausted summary (wx_baseline_snapshot_id ctx))"

definition worker_scope :: "worker_task \<Rightarrow> string list option" where
  "worker_scope task = (if wt_kind task = Repair \<and> wt_write_scope task \<noteq> [] then Some (wt_write_scope task) else None)"

definition check_opt_scope :: "string list option \<Rightarrow> file_edit list \<Rightarrow> unit res" where
  "check_opt_scope scope edits = (case scope of None \<Rightarrow> Inr () | Some allowed \<Rightarrow> check_scope allowed edits)"

definition collect_repair_edits :: "'x agent_env \<Rightarrow> path \<Rightarrow> string list option \<Rightarrow> ('x agent_state, file_edit list) io" where
  "collect_repair_edits env source scope = (\<lambda>s. (s,
     rbind (collect_staged_edits (te_sha (ae_tools env)) (ts_fs (ag_tools s)) source (ag_staging s)
              (sorted_set (changed_paths (ag_tools s) @ ag_restored s)) 20 4194304) (\<lambda>edits.
     rbind (check_opt_scope scope edits) (\<lambda>_. Inr edits))))"

definition worker_agent_id :: "worker_context \<Rightarrow> string" where
  "worker_agent_id ctx = ''worker:'' @ wt_task_id (wx_task ctx)"

definition worker_facts :: "'x agent_env \<Rightarrow> worker_context \<Rightarrow> recorder \<Rightarrow> trace" where
  "worker_facts env ctx rec = harness_facts (ae_str env) (ae_uuid env) (wx_run_id ctx) (worker_agent_id ctx) (wx_invocation_id ctx)
     (map sce_skill_id (wx_recommended_skills ctx)) rec"

text \<open>\<open>context.baseline_snapshot_id or workspace_snapshot_id(source)\<close>\<close>

definition worker_snapshot :: "'x agent_env \<Rightarrow> worker_context \<Rightarrow> ('x agent_state, string) io" where
  "worker_snapshot env ctx =
     (if wx_baseline_snapshot_id ctx \<noteq> [] then sret (wx_baseline_snapshot_id ctx)
      else on_tools (on_tool_fs (workspace_snapshot_id (te_git (ae_tools env)) (te_sha (ae_tools env)) (wx_workspace ctx))))"

definition collect_error_caught :: "pyexc \<Rightarrow> bool" where
  "collect_error_caught e \<longleftrightarrow>
     (case e of PolicyViolation m \<Rightarrow> True | IntegrationError m \<Rightarrow> True | _ \<Rightarrow> is_patch_error e \<or> is_value_error e)"

definition recover_repair :: "'x agent_env \<Rightarrow> worker_context \<Rightarrow> string \<Rightarrow> ('x agent_state, worker_run option) io" where
  "recover_repair env ctx reason =
     sbind (worker_snapshot env ctx) (\<lambda>snapshot.
     sbind (sget (\<lambda>s. worker_facts env ctx (ag_recorder s))) (\<lambda>facts.
     sbind (stry (collect_repair_edits env (wx_workspace ctx) (worker_scope (wx_task ctx)))) (\<lambda>r.
     case r of
       Inl e \<Rightarrow> if collect_error_caught e then sret (Some (blocked ctx (exc_str e))) else sraise e
     | Inr edits \<Rightarrow>
         if edits = [] then sret None
         else
           let low = lower reason;
               summary = (if contains ''exhausted'' low \<or> contains ''budget'' low
                 then ''Worker modified files but structured finalization exhausted its budget.''
                 else ''Worker modified files but structured finalization failed.'')
           in sret (Some \<lparr>run_result = (base_result ctx Completed summary snapshot)
                  \<lparr>wr_evidence := tr_evidence facts, wr_unresolved_questions := [reason], wr_changed_files := map fe_path edits,
                   wr_used_skill_refs := map skill_ref.make (tr_skills facts)\<rparr>,
                run_edits = edits, run_commands_run = tr_commands facts, run_verification_plan = tr_plan facts,
                run_risk = (if length edits \<le> 4 then ''low'' else ''medium'')\<rparr>))))"

text \<open>The staging copy, and the candidate a repair resumes; a result ends the worker.\<close>

definition resume_candidate :: "'x agent_env \<Rightarrow> worker_context \<Rightarrow> ('x agent_state, payload option + worker_run) io" where
  "resume_candidate env ctx =
     (if \<not> truthy (wt_resume_candidate_id (wx_task ctx)) then sret (Inl None)
      else if \<not> truthy (wx_resume_artifact_ref ctx)
      then sret (Inr (blocked ctx (''unknown failed candidate: '' @ or_else (wt_resume_candidate_id (wx_task ctx)) [])))
      else
      sbind (\<lambda>s. (s, load_patch_artifact (or_else (wx_resume_artifact_ref ctx) []) (ag_files s))) (\<lambda>candidate.
      if (case candidate of SArtifact a \<Rightarrow> pt_baseline_snapshot_id a \<noteq> wx_baseline_snapshot_id ctx | _ \<Rightarrow> True)
      then sret (Inr (blocked ctx ''failed candidate baseline does not match current snapshot''))
      else
      sbind (slift (edits_from_artifact candidate)) (\<lambda>restored.
      sbind (slift (check_opt_scope (worker_scope (wx_task ctx)) restored)) (\<lambda>_.
      sbind (sget ag_staging) (\<lambda>staging.
      sbind (on_tools (on_tool_fs (integrate_edits (te_git (ae_tools env)) (te_sha (ae_tools env)) staging restored None True))) (\<lambda>_.
      sbind (smodify (\<lambda>s. s\<lparr>ag_restored := map fe_path restored\<rparr>)) (\<lambda>_.
      sret (Inl (Some (candidate_prompt_summary candidate))))))))))"

definition prepare_staging :: "'x agent_env \<Rightarrow> worker_context \<Rightarrow> ('x agent_state, payload option + worker_run) io" where
  "prepare_staging env ctx =
     (if wt_kind (wx_task ctx) \<noteq> Repair then sret (Inl None)
      else
      sbind (on_tools (mkdtemp (ae_tools env) ''.evoci-worker-'' (butlast (wx_workspace ctx)))) (\<lambda>temporary.
      let staging = temporary @ [''workspace''] in
      sbind (smodify (\<lambda>s. s\<lparr>ag_temporary := Some temporary, ag_staging := staging\<rparr>)) (\<lambda>_.
      sbind (on_tools (on_tool_fs (copy_workspace_with_independent_git (te_git (ae_tools env)) (te_listing (ae_tools env))
              (wx_workspace ctx) staging))) (\<lambda>_.
      resume_candidate env ctx))))"

definition worker_config :: "'x agent_env \<Rightarrow> worker_context \<Rightarrow> worker_capabilities \<Rightarrow> path \<Rightarrow> tool_config" where
  "worker_config env ctx caps staging =
     \<lparr>tk_capabilities = caps, tk_workspace = staging, tk_timeout = ae_timeout env, tk_max_chars = ae_max_chars env,
      tk_allowed_skill_refs = Some (map sce_skill_id (wx_recommended_skills ctx)),
      tk_memory_refs = rev (map (\<lambda>m. (mh_memory_id m, mh_namespace m)) (wx_memories ctx)),
      tk_memory_repository = full_name (wx_repo ctx), tk_allowlist = None, tk_write_scope = worker_scope (wx_task ctx)\<rparr>"

definition worker_answer :: "'x agent_env \<Rightarrow> worker_context \<Rightarrow> worker_report \<Rightarrow> ('x agent_state, worker_run) io" where
  "worker_answer env ctx report0 =
     (let report = validated_usage report0 (map mh_memory_id (wx_memories ctx)) (map sce_skill_id (wx_recommended_skills ctx)) in
      sbind (sget (\<lambda>s. worker_facts env ctx (ag_recorder s))) (\<lambda>facts.
      sbind (if wt_kind (wx_task ctx) = Repair
             then collect_repair_edits env (wx_workspace ctx) (worker_scope (wx_task ctx)) else sret []) (\<lambda>edits.
      sbind (worker_snapshot env ctx) (\<lambda>snapshot.
      sret \<lparr>run_result = (base_result ctx (wp_status report) (wp_summary report) snapshot)
              \<lparr>wr_evidence := filter (\<lambda>i. ev_kind i \<noteq> TestResult) (wp_evidence report) @ tr_evidence facts,
               wr_unresolved_questions := wp_unresolved_questions report, wr_changed_files := map fe_path edits,
               wr_used_memory_ids := wp_used_memory_ids report, wr_used_skill_refs := map skill_ref.make (tr_skills facts)\<rparr>,
            run_edits = edits, run_commands_run = tr_commands facts, run_verification_plan = tr_plan facts,
            run_risk = risk_str (wp_risk report)\<rparr>))))"

definition worker_body ::
  "'x agent_env \<Rightarrow> worker_context \<Rightarrow> worker_capabilities \<Rightarrow> run_repair_budget \<Rightarrow> ('x agent_state, worker_run) io" where
  "worker_body env ctx caps extra =
     sbind (prepare_staging env ctx) (\<lambda>prepared.
     case prepared of
       Inr early \<Rightarrow> sret early
     | Inl resumed \<Rightarrow>
         sbind (sget ag_staging) (\<lambda>staging.
         sbind (on_tools (create_worker_registry (ae_tools env) (worker_config env ctx caps staging))) (\<lambda>reg.
         sbind (smodify (\<lambda>s. s\<lparr>ag_registry := Some reg\<rparr>)) (\<lambda>_.
         sbind (run_loop env (ae_worker env) (\<lambda>r. Some (wp_used_skill_refs r)) (\<lambda>refs r. r\<lparr>wp_used_skill_refs := refs\<rparr>) reg
                  \<lparr>li_run_id = wx_run_id ctx, li_agent_id = worker_agent_id ctx, li_invocation_id = wx_invocation_id ctx\<rparr>
                  (ae_worker_prompt env ctx caps resumed) (Some extra)) (\<lambda>report.
         worker_answer env ctx report)))))"

definition try_recover :: "'x agent_env \<Rightarrow> worker_context \<Rightarrow> string \<Rightarrow> ('x agent_state, worker_run option) io" where
  "try_recover env ctx reason =
     sbind (sget (\<lambda>s. wt_kind (wx_task ctx) = Repair \<and> ag_registry s \<noteq> None \<and> ag_temporary s \<noteq> None)) (\<lambda>possible.
     if possible then recover_repair env ctx reason else sret None)"

definition worker_error_blocks :: "pyexc \<Rightarrow> bool" where
  "worker_error_blocks e \<longleftrightarrow>
     (case e of PolicyViolation m \<Rightarrow> True | FileNotFoundError m \<Rightarrow> True | IntegrationError m \<Rightarrow> True
      | _ \<Rightarrow> is_patch_error e \<or> is_value_error e)"

definition worker_handlers :: "'x agent_env \<Rightarrow> worker_context \<Rightarrow> pyexc \<Rightarrow> ('x agent_state, worker_run) io" where
  "worker_handlers env ctx e =
     (case e of
        RepairBudgetExhausted m \<Rightarrow>
          sbind (try_recover env ctx (exc_str e)) (\<lambda>recovered.
          sret (case recovered of None \<Rightarrow> exhausted ctx (exc_str e) | Some run \<Rightarrow> run))
      | ModelGatewayError m t \<Rightarrow>
          sbind (try_recover env ctx (exc_str e)) (\<lambda>recovered.
          case recovered of None \<Rightarrow> sraise e | Some run \<Rightarrow> sret run)
      | _ \<Rightarrow> if worker_error_blocks e then sret (blocked ctx (exc_str e)) else sraise e)"

text \<open>\<open>finally\<close>: the registry is closed and the staging copy removed.\<close>

definition worker_cleanup :: "('x agent_state, unit) io" where
  "worker_cleanup =
     sbind (sget ag_registry) (\<lambda>reg.
     sbind (case reg of None \<Rightarrow> sret () | Some _ \<Rightarrow> on_tools close_temporaries) (\<lambda>_.
     sbind (sget ag_temporary) (\<lambda>temporary.
     case temporary of None \<Rightarrow> sret () | Some t \<Rightarrow> on_tools (cleanup t))))"

definition worker_execute ::
  "'x agent_env \<Rightarrow> worker_context \<Rightarrow> worker_capabilities \<Rightarrow> ('x agent_state, worker_run) io" where
  "worker_execute env ctx caps =
     (if write_files caps \<noteq> (wt_kind (wx_task ctx) = Repair)
      then sret (blocked ctx ''worker capabilities do not match task kind'')
      else
      sbind (smodify (\<lambda>s. s\<lparr>ag_temporary := None, ag_staging := wx_workspace ctx, ag_registry := None, ag_restored := []\<rparr>)) (\<lambda>_.
      sbind (task_budget env ctx) (\<lambda>extra.
      if rb_max_model_calls extra < 1 + FINALIZATION_MODEL_CALLS
      then sret (exhausted ctx ''run-level model-call budget exhausted'')
      else
      sfinally
        (sbind (stry (worker_body env ctx caps extra)) (\<lambda>r.
         case r of Inr run \<Rightarrow> sret run | Inl e \<Rightarrow> worker_handlers env ctx e))
        worker_cleanup)))"

end
