(* ===== verification/ToolScope.thy ===== *)
theory ToolScope
  imports Tools
begin

text \<open>
  What the file tools of an agent can change: only what the task's write scope authorises.
\<close>

section \<open>Effects of the file tools\<close>

lemma boundary_weaken: "boundary_resolve fs wroot p True = Inr t \<Longrightarrow> boundary_resolve fs wroot p False = Inr t"
  by (auto simp: boundary_resolve_def rbind_Inr_iff split: if_splits)

lemma regular_target:
  "resolve_regular_file fs wroot p e = Inr t \<Longrightarrow> boundary_resolve fs wroot p False = Inr t"
  "resolve_regular_file fs wroot p True = Inr t \<Longrightarrow> is_file fs t"
  by (auto simp: resolve_regular_file_def boundary_resolve_def rbind_Inr_iff split: if_splits)

text \<open>\<open>writes_only fs wroot p fs'\<close>: the file a path names is the only file that differs.\<close>

definition writes_only :: "fs \<Rightarrow> path \<Rightarrow> string \<Rightarrow> fs \<Rightarrow> bool" where
  "writes_only fs wroot p fs' \<longleftrightarrow> frame {t. boundary_resolve fs wroot p False = Inr t} fs fs'"

named_theorems writes_only_rules \<open>what the file tools write\<close>

lemma write_file_writes: "wf_fs fs \<Longrightarrow> write_file fs wroot w p content mode = Inr fs' \<Longrightarrow> writes_only fs wroot p fs'"
  using write_file_effect(1) [of fs wroot p content mode fs']
  by (cases w; cases "boundary_resolve fs wroot p False") (auto simp: writes_only_def write_file_def)

lemma replace_text_writes [writes_only_rules]:
  "wf_fs fs \<Longrightarrow> replace_text fs wroot w p old new n = Inr (fs', r) \<Longrightarrow> writes_only fs wroot p fs'"
  by (auto simp: replace_text_def rbind_Inr_iff Let_def split: if_splits intro: write_file_writes)

lemma create_file_writes [writes_only_rules]:
  "wf_fs fs \<Longrightarrow> create_file fs wroot w p content = Inr (fs', r) \<Longrightarrow> writes_only fs wroot p fs'"
  by (auto simp: create_file_def rbind_Inr_iff split: if_splits intro: write_file_writes)

lemma delete_file_writes [writes_only_rules]:
  assumes "wf_fs fs" "delete_file fs wroot w p = Inr (fs', r)"
  shows "writes_only fs wroot p fs'"
proof -
  obtain t where t: "resolve_regular_file fs wroot p True = Inr t" "fs' = fs(t := None)"
    using assms(2) by (auto simp: delete_file_def rbind_Inr_iff)
  have "frame {t} fs fs'" using unlink_effect [OF assms(1) regular_target(1) regular_target(2)] t by blast
  with regular_target(1) [OF t(1)] show ?thesis by (auto simp: writes_only_def)
qed

lemma apply_patch_loop_writes:
  assumes "wf_fs fs" and "apply_patch_loop fs wroot files created modified = (fs', r)"
  shows "frame {t. \<exists>p \<in> fst ` set files. boundary_resolve fs wroot p False = Inr t} fs fs'"
  using assms
proof (induction fs wroot files created modified rule: apply_patch_loop.induct)
  case (2 fs wroot p content rest created modified)
  show ?case
  proof (cases "\<exists>t fs1. boundary_resolve fs wroot p False = Inr t \<and> write_file fs wroot True p content None = Inr fs1")
    case True
    then obtain t fs1 where 1: "boundary_resolve fs wroot p False = Inr t" "write_file fs wroot True p content None = Inr fs1"
      by blast
    have f1: "frame {t} fs fs1" using write_file_effect(1) [OF 1(2) 2(3) 1(1)] .
    then have "frame {t. \<exists>p \<in> fst ` set rest. boundary_resolve fs1 wroot p False = Inr t} fs1 fs'"
      using 2 1 frameD(1) by (auto split: if_splits)
    from frame_trans [OF f1 this] show ?thesis
      using boundary_resolve_cong [OF frameD(2) [OF f1]] 1(1) by (elim frame_mono) auto
  next
    case False
    with 2(3,4) show ?thesis by (auto intro: frame_refl split: sum.splits)
  qed
qed (simp add: frame_refl)

section \<open>Write authorisation\<close>

text \<open>
  The paths that get past the check of the write tools: those whose normal form the scope lists (every path
  when the scope is empty), and these normal forms themselves. What they name is a file of the scope, unless
  the path has blanks around it, which the check ignores and the tools do not.
\<close>

definition authorised :: "tool_registry \<Rightarrow> string \<Rightarrow> bool" where
  "authorised reg p \<longleftrightarrow> write_files (tk_capabilities (tr_config reg)) \<and>
     (\<exists>q n. normalize_write_path q = Inr n \<and> (tr_allowed_writes reg = [] \<or> n \<in> set (tr_allowed_writes reg)) \<and> p \<in> {q, n})"

definition scope_targets :: "tool_registry \<Rightarrow> fs \<Rightarrow> path set" where
  "scope_targets reg fs = {t. \<exists>p. authorised reg p \<and> boundary_resolve fs (tk_workspace (tr_config reg)) p False = Inr t}"

definition permitted_targets :: "tool_registry \<Rightarrow> fs \<Rightarrow> path set" where
  "permitted_targets reg fs =
     {t. write_files (tk_capabilities (tr_config reg)) \<and>
         (\<exists>p. boundary_resolve fs (tk_workspace (tr_config reg)) p False = Inr t \<and>
            (tr_allowed_writes reg = [] \<or> p \<in> set (tr_allowed_writes reg) \<or>
             strip p \<noteq> p \<and> normalize_write_path p \<in> Inr ` set (tr_allowed_writes reg)))}"

lemma normal_form_target:
  assumes "normalize_write_path p = Inr n" and "strip p = p" and "boundary_resolve fs wroot p False = Inr t"
  shows "boundary_resolve fs wroot n False = Inr t"
proof (rule normalize_write_pathE [OF assms(1)])
  fix ps assume "ps \<noteq> []" "\<And>x. x \<in> set ps \<Longrightarrow> clean_part x" "n = join ''/'' ps" "ps = path_components (strip p)"
  with path_components_join [of ps] assms(2) have "path_components n = path_components p" by simp
  moreover have "\<not> is_abs_path p" "\<not> is_abs_path n"
    using assms(1,2) normalize_write_path_components [OF assms(1)] by (auto simp: normalize_write_path_def Let_def split: if_splits)
  ultimately have "join_root wroot n = join_root wroot p" by (simp add: join_root_def)
  with assms(3) show ?thesis by (auto simp: boundary_resolve_def rbind_Inr_iff split: if_splits)
qed

lemma scope_targets_permitted: "scope_targets reg fs \<subseteq> permitted_targets reg fs"
proof
  fix t assume "t \<in> scope_targets reg fs"
  then obtain p q n where p: "boundary_resolve fs (tk_workspace (tr_config reg)) p False = Inr t" "p \<in> {q, n}"
    and q: "write_files (tk_capabilities (tr_config reg))" "normalize_write_path q = Inr n"
      "tr_allowed_writes reg = [] \<or> n \<in> set (tr_allowed_writes reg)"
    by (auto simp: scope_targets_def authorised_def)
  show "t \<in> permitted_targets reg fs"
  proof (cases "tr_allowed_writes reg = [] \<or> p = n")
    case True
    with p q show ?thesis by (auto simp: permitted_targets_def)
  next
    case False
    then have "p = q" using p(2) by simp
    show ?thesis
    proof (cases "strip q = q")
      case True
      from normal_form_target [OF q(2) True] p \<open>p = q\<close> q False show ?thesis by (auto simp: permitted_targets_def)
    qed (use p q False \<open>p = q\<close> in \<open>auto simp: permitted_targets_def\<close>)
  qed
qed

lemma require_write_path_Inr:
  assumes "require_write_path reg p s = (s', Inr n)"
  shows "s' = s" "authorised reg p" "authorised reg n"
  using assms
  by (auto simp: require_write_path_def assert_write_path_allowed_def authorised_def rbind_Inr_iff split: if_splits)

lemma guard_files_Inr:
  "guard_files reg files guarded s = (s', Inr r) \<Longrightarrow> (\<forall>p \<in> fst ` set guarded. authorised reg p) \<Longrightarrow>
   s' = s \<and> (\<forall>p \<in> fst ` set r. authorised reg p)"
proof (induction reg files guarded arbitrary: s rule: guard_files.induct)
  case (2 reg p content rest guarded)
  then obtain n where n: "require_write_path reg p s = (s, Inr n)" "guard_files reg rest (AList.update n content guarded) s = (s', Inr r)"
    using require_write_path_Inr(1) by (fastforce simp: sbind_Inr_iff)
  with 2(1) 2(3) require_write_path_Inr(3) [OF n(1)] show ?case by (auto simp: dom_update update_keys)
qed simp

section \<open>Calls that start no process\<close>

text \<open>
  \<open>scoped reg f\<close>: of the files, \<open>f\<close> changes only targets of authorised paths, and it may remove the
  temporary directories of the registry.
\<close>

definition scoped :: "tool_registry \<Rightarrow> ('x tool_state, 'a) io \<Rightarrow> bool" where
  "scoped reg f \<longleftrightarrow> (\<forall>s s' r. wf_fs (ts_fs s) \<longrightarrow> f s = (s', r) \<longrightarrow>
     (\<exists>fs1. frame (scope_targets reg (ts_fs s)) (ts_fs s) fs1 \<and> ts_fs s' \<in> {fs1, fold rmtree (rev (ts_temporary s)) fs1}))"

text \<open>\<open>reading f\<close>: files and temporary directories stay.\<close>

definition same_files :: "'x tool_state \<Rightarrow> 'x tool_state \<Rightarrow> bool" where
  "same_files s s' \<longleftrightarrow> ts_fs s' = ts_fs s \<and> ts_temporary s' = ts_temporary s"

abbreviation reading :: "('x tool_state, 'a) io \<Rightarrow> bool" where
  "reading \<equiv> keeps same_files"

named_theorems reading_rules \<open>parts of the tools that change no file\<close>

lemma reading_pure [reading_rules]: "reading (sret x)" "reading (sraise e)" "reading (sget f)" "reading (slift r)"
  "reading (\<lambda>s. (s, g s))" "reading (on_read h)"
  by (simp_all add: keeps_def same_files_def on_read_def)

lemma reading_bind [reading_rules]: "reading f \<Longrightarrow> (\<And>x. reading (g x)) \<Longrightarrow> reading (sbind f g)"
  by (rule keeps_bind) (auto simp: same_files_def)

lemma reading_store [reading_rules]: "reading (on_store f)" "reading (smodify (\<lambda>s. s\<lparr>ts_activated_skill_ids := h s\<rparr>))"
  "reading (smodify (\<lambda>s. s\<lparr>ts_changed_paths := k s\<rparr>))"
  by (auto simp: keeps_def on_store_def sfocus_def same_files_def split: prod.splits)

lemma reading_prod [reading_rules]: "(\<And>a b. reading (f a b)) \<Longrightarrow> reading (case x of (a, b) \<Rightarrow> f a b)"
  by (cases x) simp

lemma reading_parts [reading_rules]:
  "reading (require_available i)" "reading (require_write_path reg p)" "reading (enabled_skill ops m i)"
  "reading (declared_bytes env m record p)" "reading (read_memory env cfg i offset limit)"
  by (simp_all add: require_available_def require_write_path_def enabled_skill_def declared_bytes_def read_memory_def
      keeps_def same_files_def)

lemma reading_activated [reading_rules]: "reading (require_activated i)"
  unfolding require_activated_def by (intro reading_rules)

lemma reading_load_skill [reading_rules]: "reading (load_skill env ops i)"
  by (auto simp: load_skill_def Let_def intro!: reading_rules)

lemma reading_skill_resource [reading_rules]: "reading (read_skill_resource env ops i p offset limit)"
  by (auto simp: read_skill_resource_def Let_def intro!: reading_rules)

lemma reading_guard [reading_rules]: "reading (guard_files reg files guarded)"
  by (induction reg files guarded rule: guard_files.induct) (auto simp only: guard_files.simps intro!: reading_rules)

lemma reading_record [reading_rules]: "reading (record_changed_paths cfg name result)"
  by (auto simp: record_changed_paths_def intro!: reading_rules split: json.splits)

lemma reading_with_args [reading_rules]: "(\<And>x. reading (f x)) \<Longrightarrow> reading (with_args r f)"
  unfolding with_args_def by (intro reading_rules)

lemma reading_scoped: "reading f \<Longrightarrow> scoped reg f"
  unfolding scoped_def by (metis frame_refl insertI1 keepsD same_files_def)

lemma scoped_bind_reading:
  assumes "scoped reg f" and "\<And>x. reading (g x)"
  shows "scoped reg (sbind f g)"
  unfolding scoped_def
proof (intro allI impI)
  fix s s' r assume wf: "wf_fs (ts_fs s)" and run: "sbind f g s = (s', r)"
  obtain s1 r1 where f: "f s = (s1, r1)" by (cases "f s")
  have "ts_fs s' = ts_fs s1"
    using run f keepsD [OF assms(2)] by (cases r1) (auto simp: sbind_def same_files_def)
  with assms(1) wf f show "\<exists>fs1. frame (scope_targets reg (ts_fs s)) (ts_fs s) fs1 \<and>
      ts_fs s' \<in> {fs1, fold rmtree (rev (ts_temporary s)) fs1}"
    by (auto simp: scoped_def)
qed

lemma scoped_reading_bind:
  assumes "reading f" and "\<And>x. scoped reg (g x)"
  shows "scoped reg (sbind f g)"
  unfolding scoped_def
proof (intro allI impI)
  fix s s' r assume wf: "wf_fs (ts_fs s)" and run: "sbind f g s = (s', r)"
  obtain s1 r1 where f: "f s = (s1, r1)" by (cases "f s")
  with keepsD [OF assms(1)] have same: "ts_fs s1 = ts_fs s" "ts_temporary s1 = ts_temporary s"
    by (auto simp: same_files_def)
  show "\<exists>fs1. frame (scope_targets reg (ts_fs s)) (ts_fs s) fs1 \<and> ts_fs s' \<in> {fs1, fold rmtree (rev (ts_temporary s)) fs1}"
  proof (cases r1)
    case (Inl e)
    with run f same wf show ?thesis by (auto simp: sbind_def intro: frame_refl)
  next
    case (Inr x)
    with run f have "g x s1 = (s', r)" by (simp add: sbind_def)
    with assms(2) [of x] wf same show ?thesis unfolding scoped_def by metis
  qed
qed

lemma invalidate_fs:
  "invalidate_snapshots s = (s', r) \<Longrightarrow> ts_fs s' = fold rmtree (rev (ts_temporary s)) (ts_fs s)"
  by (auto simp: invalidate_snapshots_def close_temporaries_def sbind_def)

text \<open>An edit of the files that is confined to the scope, and the removal of outdated copies.\<close>

lemma scoped_edit:
  assumes "\<And>fs fs' r. wf_fs fs \<Longrightarrow> edit fs = (fs', r) \<Longrightarrow> frame (scope_targets reg fs) fs fs'"
  shows "scoped reg (sbind (on_tool_fs edit) (\<lambda>x. sbind invalidate_snapshots (\<lambda>_. sret (h x))))"
  unfolding scoped_def
proof (intro allI impI)
  fix s :: "'x tool_state" and s' r
  assume wf: "wf_fs (ts_fs s)" and run: "sbind (on_tool_fs edit) (\<lambda>x. sbind invalidate_snapshots (\<lambda>_. sret (h x))) s = (s', r)"
  obtain fs1 r1 where e: "edit (ts_fs s) = (fs1, r1)" by (cases "edit (ts_fs s)")
  have "frame (scope_targets reg (ts_fs s)) (ts_fs s) fs1" using assms wf e by blast
  moreover have "ts_fs s' \<in> {fs1, fold rmtree (rev (ts_temporary s)) fs1}"
    using run e by (cases r1)
      (auto simp: sbind_def on_tool_fs_def sfocus_def invalidate_snapshots_def close_temporaries_def)
  ultimately show "\<exists>fs1. frame (scope_targets reg (ts_fs s)) (ts_fs s) fs1 \<and>
      ts_fs s' \<in> {fs1, fold rmtree (rev (ts_temporary s)) fs1}" by blast
qed

lemma scope_target: "authorised reg p \<Longrightarrow> {t. boundary_resolve fs (tk_workspace (tr_config reg)) p False = Inr t} \<subseteq> scope_targets reg fs"
  by (auto simp: scope_targets_def)

text \<open>Continue with the state a check has kept, and with what it has shown.\<close>

lemma scoped_checked_bind:
  assumes "\<And>s s' x. f s = (s', Inr x) \<Longrightarrow> s' = s \<and> P x" and "reading f" and "\<And>x. P x \<Longrightarrow> scoped reg (g x)"
  shows "scoped reg (sbind f g)"
proof -
  have "sbind f g s = sbind f (\<lambda>x. if P x then g x else sraise AssertionError) s" for s
    using assms(1) by (auto simp: sbind_def split: prod.splits sum.splits)
  then have "sbind f g = sbind f (\<lambda>x. if P x then g x else sraise AssertionError)" by (rule ext)
  then show ?thesis
    using scoped_reading_bind [OF assms(2), of reg "\<lambda>x. if P x then g x else sraise AssertionError"] assms(3)
    by (simp add: reading_scoped reading_pure)
qed

lemma scoped_edit_file:
  assumes "\<And>fs fs' r w. wf_fs fs \<Longrightarrow> f fs (tk_workspace (tr_config reg)) w = Inr (fs', r) \<Longrightarrow>
      writes_only fs (tk_workspace (tr_config reg)) p fs'"
  shows "scoped reg (edit_file reg p f)"
  unfolding edit_file_def
proof (rule scoped_checked_bind [where P = "\<lambda>_. authorised reg p"])
  assume auth: "authorised reg p"
  show "scoped reg (sbind (on_tool_fs (edit_with (\<lambda>fs. f fs (tk_workspace (tr_config reg)) (write_files (tk_capabilities (tr_config reg))))))
      (\<lambda>result. sbind invalidate_snapshots (\<lambda>_. sret (json_patch result))))"
  proof (rule scoped_edit)
    fix fs fs' and r :: "patch_application_result res"
    assume "wf_fs fs" "edit_with (\<lambda>fs. f fs (tk_workspace (tr_config reg)) (write_files (tk_capabilities (tr_config reg)))) fs = (fs', r)"
    with assms [of fs] show "frame (scope_targets reg fs) fs fs'"
      using frame_mono [OF _ scope_target [OF auth]]
      by (auto simp: edit_with_def writes_only_def frame_refl split: sum.splits)
  qed
qed (auto dest: require_write_path_Inr intro: reading_rules)

lemma scoped_apply_patch: "scoped reg (tool_apply_patch reg files)"
  unfolding tool_apply_patch_def
proof (rule scoped_checked_bind [where P = "\<lambda>g. \<forall>p \<in> fst ` set g. authorised reg p"])
  fix guarded assume auth: "\<forall>p \<in> fst ` set (guarded :: (string \<times> string) list). authorised reg p"
  let ?ws = "tk_workspace (tr_config reg)"
  show "scoped reg (sbind (on_tool_fs (\<lambda>fs. apply_patch fs ?ws (write_files (tk_capabilities (tr_config reg))) guarded))
      (\<lambda>result. sbind invalidate_snapshots (\<lambda>_. sret (json_patch result))))"
  proof (rule scoped_edit)
    fix fs fs' and r :: "patch_application_result res"
    assume wf: "wf_fs fs" and run: "apply_patch fs ?ws (write_files (tk_capabilities (tr_config reg))) guarded = (fs', r)"
    have "frame {t. \<exists>p \<in> fst ` set guarded. boundary_resolve fs ?ws p False = Inr t} fs fs'"
      using run wf apply_patch_loop_writes [OF wf]
      by (auto simp: apply_patch_def frame_refl split: sum.splits if_splits)
    with auth show "frame (scope_targets reg fs) fs fs'" by (elim frame_mono) (auto simp: scope_targets_def)
  qed
qed (use guard_files_Inr [of reg files "[]"] in \<open>fastforce intro: reading_rules\<close>)+

text \<open>The tools that start processes.\<close>

definition process_tools :: "string list" where
  "process_tools = [''git_status'', ''git_log'', ''git_show'', ''git_diff'', ''run_command'', ''run_test'', ''run_skill_script'']"

lemma scoped_with_args: "(\<And>x. scoped reg (f x)) \<Longrightarrow> scoped reg (with_args r f)"
  unfolding with_args_def by (intro scoped_reading_bind reading_rules)

lemma scoped_if: "(b \<Longrightarrow> scoped reg f) \<Longrightarrow> (\<not> b \<Longrightarrow> scoped reg g) \<Longrightarrow> scoped reg (if b then f else g)"
  by simp

lemma scoped_case:
  "scoped reg f \<Longrightarrow> (\<And>y. scoped reg (g y)) \<Longrightarrow> scoped reg (case x of None \<Rightarrow> f | Some y \<Rightarrow> g y)"
  "(\<And>a b. scoped reg (h a b)) \<Longrightarrow> scoped reg (case z of (a, b) \<Rightarrow> h a b)"
  by (auto split: option.splits prod.splits)

lemma scoped_file_tools:
  "scoped reg (tool_replace_text reg p old new n)" "scoped reg (tool_create_file reg p c)" "scoped reg (tool_delete_file reg p)"
  unfolding tool_replace_text_def tool_create_file_def tool_delete_file_def
  by (rule scoped_edit_file; erule (1) writes_only_rules)+

lemma scoped_call_tool:
  assumes "name \<notin> set process_tools"
  shows "scoped reg (call_tool env reg name args)"
  unfolding call_tool_def Let_def
  by (intro scoped_if scoped_with_args scoped_case scoped_apply_patch scoped_file_tools reading_scoped [OF reading_pure(6)]
      reading_scoped [OF reading_load_skill] reading_scoped [OF reading_skill_resource] reading_scoped [OF reading_pure(2)]
      reading_scoped [OF reading_parts(5)])
    (use assms in \<open>simp_all add: process_tools_def\<close>)

text \<open>
  C21: a tool call that starts no process changes only files the task's write scope permits. Whatever the
  tool and its arguments, and whether the call returns or raises: every file other than the targets of the
  listed paths is as before, links and directories are kept, and what else goes are the registry's own
  temporary directories. The targets of paths that differ from a listed path by blanks around them are
  permitted too, since the check strips a path that the tools then use as written
  (\<open>blank_path_escapes_scope\<close>); an empty scope permits every path below the workspace, and without write
  permission nothing is permitted.
\<close>

theorem tool_calls_stay_in_scope:
  assumes "wf_fs (ts_fs s)" and "name \<notin> set process_tools" and "ainvoke_tool env reg name args s = (s', r)"
  shows "\<exists>fs1. frame (permitted_targets reg (ts_fs s)) (ts_fs s) fs1 \<and> ts_fs s' \<in> {fs1, fold rmtree (rev (ts_temporary s)) fs1}"
proof -
  have "scoped reg (ainvoke_tool env reg name args)"
    unfolding ainvoke_tool_def
    by (intro scoped_reading_bind scoped_bind_reading scoped_call_tool assms(2) reading_rules)
  with assms(1,3) obtain fs1 where "frame (scope_targets reg (ts_fs s)) (ts_fs s) fs1"
    "ts_fs s' \<in> {fs1, fold rmtree (rev (ts_temporary s)) fs1}"
    unfolding scoped_def by blast
  with frame_mono [OF _ scope_targets_permitted] show ?thesis by blast
qed

section \<open>Examples\<close>

text \<open>An environment whose processes do nothing.\<close>

definition idle_tools :: "unit tool_env" where
  "idle_tools = \<lparr>te_popen = (\<lambda>_ _ _ _. Inr ([], 0)), te_effect = (\<lambda>_ _ fs. fs), te_decode = (\<lambda>b. b), te_environ = [],
     te_pycache = ''cache'', te_executable = ''python3'', te_git = demo_git, te_listing = (\<lambda>_ _. []), te_rglob = (\<lambda>_ _. []),
     te_compile = (\<lambda>pattern. Inr (contains pattern)), te_sha = (\<lambda>b. b), te_mkdtemp = (\<lambda>name _ _. name @ ''x''),
     te_coercion = strict_coercion, te_skills = None, te_memory_hit = None\<rparr>"

definition demo_config :: "worker_capabilities \<Rightarrow> tool_config" where
  "demo_config caps = \<lparr>tk_capabilities = caps, tk_workspace = [''w''], tk_timeout = 1000, tk_max_chars = 100,
     tk_allowed_skill_refs = None, tk_memory_refs = [], tk_memory_repository = ''o/r'', tk_allowlist = None,
     tk_write_scope = Some [''a.py'']\<rparr>"

definition demo_registry :: tool_registry where
  "demo_registry = \<lparr>tr_config = demo_config WORKER_REPAIR_CAPABILITIES, tr_allowed_writes = [''a.py''], tr_command_workspace = [''w'']\<rparr>"

lemma demo_ws_wf: "wf_fs demo_ws"
  by (auto simp: wf_fs_def demo_ws_def append_eq_Cons_conv split: if_splits)

theorem tool_calls_stay_in_scope_witness:
  "\<exists>s' r fs1. ainvoke_tool idle_tools demo_registry ''delete_file'' [(''path'', JStr ''a.py'')] (new_tool_state demo_ws ()) = (s', r) \<and>
     frame (permitted_targets demo_registry demo_ws) demo_ws fs1 \<and> ts_fs s' \<in> {fs1, fold rmtree (rev []) fs1}"
proof -
  let ?s = "new_tool_state demo_ws ()"
  obtain s' r where run: "ainvoke_tool idle_tools demo_registry ''delete_file'' [(''path'', JStr ''a.py'')] ?s = (s', r)"
    by (metis prod.exhaust)
  have "ts_fs ?s = demo_ws" "ts_temporary ?s = []" by (simp_all add: new_tool_state_def)
  with tool_calls_stay_in_scope [OF _ _ run] demo_ws_wf run show ?thesis by (auto simp: process_tools_def)
qed

text \<open>
  the write tools check the normal form of a path and then use the path as given. A path with a blank
  in front of a name of the scope passes the check of \<open>create_file\<close> and makes another file, which the scope
  does not list; \<open>apply_patch\<close> uses the normal form and is not affected.
\<close>

theorem blank_path_escapes_scope:
  "\<exists>s'. ainvoke_tool idle_tools demo_registry ''create_file'' [(''path'', JStr '' a.py''), (''content'', JStr ''x'')]
       (new_tool_state demo_ws ()) = (s', Inr (json_patch \<lparr>pa_created_files = ['' a.py''], pa_modified_files = [], pa_deleted_files = []\<rparr>)) \<and>
     '' a.py'' \<notin> set (tr_allowed_writes demo_registry) \<and>
     ts_fs s' [''w'', '' a.py''] = Some (Reg ''x'' 384) \<and> ts_fs s' [''w'', ''a.py''] = demo_ws [''w'', ''a.py'']"
proof -
  let ?run = "ainvoke_tool idle_tools demo_registry ''create_file'' [(''path'', JStr '' a.py''), (''content'', JStr ''x'')]
       (new_tool_state demo_ws ())"
  have "snd ?run = Inr (json_patch \<lparr>pa_created_files = ['' a.py''], pa_modified_files = [], pa_deleted_files = []\<rparr>)" by code_simp
  moreover have "ts_fs (fst ?run) [''w'', '' a.py''] = Some (Reg ''x'' 384)" by code_simp
  moreover have "ts_fs (fst ?run) [''w'', ''a.py''] = demo_ws [''w'', ''a.py'']" by code_simp
  moreover have "'' a.py'' \<notin> set (tr_allowed_writes demo_registry)" by (simp add: demo_registry_def)
  ultimately show ?thesis by (metis prod.collapse)
qed

end
