(* ===== verification/Harmless.thy ===== *)
theory Harmless
  imports ToolScope
begin

text \<open>
  What an agent does not change itself: the workspace, as long as its write tools are given a place off the
  workspace or no write permission at all. Places off the workspace are the directories the tools make
  beside it (disposable copies and, in \<^verbatim>\<open>AgentScope\<close>, the staging copy of a repair).

  Nothing is assumed of the programs an agent starts: there is no sandbox, and a process can write where it
  wants. The lemmas say that only such programs change the workspace, which ones, and where they are started.
\<close>

section \<open>Places beside the workspace\<close>

text \<open>Copies of the workspace are made in new directories beside it.\<close>

definition beside :: "path \<Rightarrow> path \<Rightarrow> bool" where
  "beside ws t \<longleftrightarrow> (\<exists>n. t = butlast ws @ [n]) \<and> t \<noteq> ws"

lemma beside_apart:
  assumes "beside ws t" and "ws \<noteq> []"
  shows "prefix ws p \<Longrightarrow> \<not> prefix (t @ q) p" "\<not> prefix ws (t @ q)"
proof -
  have len: "length t = length ws" and ne: "t \<noteq> ws" using assms by (auto simp: beside_def)
  have "t = ws" if "prefix (t @ q) p" "prefix ws p" for p q
  proof -
    have "prefix t p" using that(1) by (rule append_prefixD)
    with that(2) len show ?thesis by (metis append_eq_append_conv prefix_def)
  qed
  with ne show "prefix ws p \<Longrightarrow> \<not> prefix (t @ q) p" by blast
  show "\<not> prefix ws (t @ q)"
    using len ne by (metis append_eq_append_conv prefix_def)
qed

text \<open>\<open>off ws t\<close>: \<open>t\<close> lies in a directory beside the workspace.\<close>

definition off :: "path \<Rightarrow> path \<Rightarrow> bool" where
  "off ws t \<longleftrightarrow> (\<exists>b. beside ws b \<and> prefix b t)"

lemma off_apart:
  assumes "off ws t" and "ws \<noteq> []" and "prefix ws p"
  shows "\<not> prefix t p" "\<not> prefix p t"
proof -
  obtain b q where b: "beside ws b" "t = b @ q" using assms(1) by (auto simp: off_def prefix_def)
  with beside_apart [OF b(1) assms(2)] assms(3) show "\<not> prefix t p" "\<not> prefix p t"
    using prefix_order.trans by blast+
qed

lemma off_below: "off ws t \<Longrightarrow> prefix t u \<Longrightarrow> off ws u"
  unfolding off_def using prefix_order.trans by blast

lemma beside_off: "beside ws t \<Longrightarrow> off ws t"
  by (auto simp: off_def)

text \<open>A place an agent works in: the workspace or a place off it.\<close>

definition place :: "path \<Rightarrow> path \<Rightarrow> bool" where
  "place ws w \<longleftrightarrow> w = ws \<or> off ws w"

lemma fresh_sibling_off:
  assumes "place ws w" and fresh: "butlast w @ [n] \<noteq> ws"
  shows "off ws (butlast w @ [n])"
proof -
  show ?thesis
  proof (cases "beside ws w \<or> w = ws")
    case True
    then have "butlast w = butlast ws" by (auto simp: beside_def)
    with fresh have "beside ws (butlast w @ [n])" by (auto simp: beside_def)
    then show ?thesis by (rule beside_off)
  next
    case False
    with assms(1) obtain b where b: "beside ws b" "strict_prefix b w" by (auto simp: place_def off_def strict_prefix_def)
    then have "prefix b (butlast w @ [n])" by (simp add: strict_prefix_butlast prefix_prefix)
    with b(1) show ?thesis by (auto simp: off_def)
  qed
qed

lemma boundary_prefix: "boundary_resolve fs wroot p e = Inr c \<Longrightarrow> prefix wroot c"
  by (auto simp: boundary_resolve_def rbind_Inr_iff strict_prefix_def split: if_splits)

text \<open>Writing below a place off the workspace touches that place and, for missing parents, what is above it.\<close>

definition near :: "path \<Rightarrow> fs \<Rightarrow> fs \<Rightarrow> bool" where
  "near w fs fs' \<longleftrightarrow> (\<forall>q. \<not> prefix q w \<and> \<not> prefix w q \<longrightarrow> fs' q = fs q)"

lemma near_refl: "near w fs fs"
  by (simp add: near_def)

lemma near_trans: "near w a b \<Longrightarrow> near w b c \<Longrightarrow> near w a c"
  by (simp add: near_def)

lemma near_off: "near w fs fs' \<Longrightarrow> off ws w \<Longrightarrow> ws \<noteq> [] \<Longrightarrow> prefix ws p \<Longrightarrow> fs' p = fs p"
  by (simp add: near_def off_apart)

lemma near_write_file:
  assumes "write_file fs w writable p content mode = Inr fs'"
  shows "near w fs fs'"
proof -
  obtain t fs1 where t12: "boundary_resolve fs w p False = Inr t" "mkdir_parents fs t = Inr fs1"
    using assms by (auto simp: write_file_def rbind_Inr_iff split: if_splits)
  moreover have "\<exists>c. fs' = fs1(t \<mapsto> c)"
    using assms t12 by (cases "fs1 t") (auto simp: write_file_def Let_def split: if_splits option.splits node.splits)
  ultimately have t: "boundary_resolve fs w p False = Inr t" "mkdir_parents fs t = Inr fs1" "\<exists>c. fs' = fs1(t \<mapsto> c)" .
  have w: "prefix w t" using boundary_prefix [OF t(1)] .
  have "fs1 q = fs q" if "\<not> prefix q w" "\<not> prefix w q" for q
  proof -
    have "\<not> prefix q t" using that w prefix_same_cases by blast
    then have "\<not> prefix q (butlast t)" using prefixeq_butlast prefix_order.trans by blast
    with t(2) show ?thesis by (auto simp: mkdir_parents_def split: if_splits)
  qed
  with t(3) w show ?thesis by (auto simp: near_def)
qed

lemma near_unlink: "boundary_resolve fs w p e = Inr t \<Longrightarrow> near w fs (fs(t := None))"
  using boundary_prefix by (fastforce simp: near_def)

lemma near_apply_patch_loop: "apply_patch_loop fs w files created modified = (fs', r) \<Longrightarrow> near w fs fs'"
proof (induction fs w files created modified rule: apply_patch_loop.induct)
  case (2 fs w p content rest created modified)
  then show ?case
    by (auto simp: near_refl split: sum.splits if_splits intro: near_trans [OF near_write_file])
qed (simp add: near_refl)

lemma near_file_tools:
  "replace_text fs w writable p old new n = Inr (fs', r) \<Longrightarrow> near w fs fs'"
  "create_file fs w writable p content = Inr (fs', r) \<Longrightarrow> near w fs fs'"
  "delete_file fs w writable p = Inr (fs', r) \<Longrightarrow> near w fs fs'"
  by (auto simp: replace_text_def create_file_def delete_file_def rbind_Inr_iff Let_def split: if_splits
      intro: near_write_file dest!: regular_target(1) near_unlink)

lemma near_apply_edit: "apply_edit sha fs w e strict = Inr (fs', r) \<Longrightarrow> near w fs fs'"
  by (auto simp: apply_edit_def rbind_Inr_iff near_refl split: if_splits option.splits intro: near_write_file near_unlink)

section \<open>Programs an agent starts\<close>

text \<open>The Git commands of the reading tools.\<close>

definition inspecting :: "string list \<Rightarrow> bool" where
  "inspecting argv \<longleftrightarrow> argv = git_status_argv \<or> (\<exists>n. argv = git_log_argv n) \<or> (\<exists>v. git_show_argv v = Inr argv) \<or>
     argv = git_diff_argv"

text \<open>
  \<open>external env ws a b\<close>: one started program takes the files from \<open>a\<close> to \<open>b\<close>. It is a command, a test or a
  script started in a directory off the workspace, an inspecting Git command of a tool, or a Git command
  that makes a copy off the workspace.
\<close>

definition external :: "'x tool_env \<Rightarrow> path \<Rightarrow> fs \<Rightarrow> fs \<Rightarrow> bool" where
  "external env ws a b \<longleftrightarrow>
     (\<exists>argv cwd. off ws cwd \<and> b = te_effect env argv cwd a) \<or>
     (\<exists>argv cwd. inspecting argv \<and> b = te_effect env argv cwd a) \<or>
     (\<exists>s d head. \<exists>args \<in> set (copy_commands s d head). place ws s \<and> off ws d \<and> b = fst (te_git env args a))"

definition untouched :: "path \<Rightarrow> fs \<Rightarrow> fs \<Rightarrow> bool" where
  "untouched ws a b \<longleftrightarrow> (\<forall>p. prefix ws p \<longrightarrow> b p = a p)"

text \<open>
  \<open>changed_by_programs env ws a b\<close>: from \<open>a\<close> to \<open>b\<close> in steps each of which leaves everything below the
  workspace as it is or is a started program.
\<close>

definition changed_by_programs :: "'x tool_env \<Rightarrow> path \<Rightarrow> fs \<Rightarrow> fs \<Rightarrow> bool" where
  "changed_by_programs env ws = (\<lambda>a b. untouched ws a b \<or> external env ws a b)\<^sup>*\<^sup>*"

lemma programs_refl [simp]: "changed_by_programs env ws a a"
  by (simp add: changed_by_programs_def)

lemma programs_trans: "changed_by_programs env ws a b \<Longrightarrow> changed_by_programs env ws b c \<Longrightarrow> changed_by_programs env ws a c"
  unfolding changed_by_programs_def by (rule rtranclp_trans)

lemma programs_step: "untouched ws a b \<Longrightarrow> changed_by_programs env ws a b" "external env ws a b \<Longrightarrow> changed_by_programs env ws a b"
  by (simp_all add: changed_by_programs_def r_into_rtranclp)

text \<open>In particular, when the started programs leave the workspace alone, it is as before.\<close>

lemma programs_untouched:
  assumes "changed_by_programs env ws a b" and "\<And>a b. external env ws a b \<Longrightarrow> untouched ws a b"
  shows "untouched ws a b"
  using assms(1) unfolding changed_by_programs_def
proof (induction rule: rtranclp_induct)
  case (step y z)
  with assms(2) have "untouched ws y z" by blast
  with step.IH show ?case by (simp add: untouched_def)
qed (simp add: untouched_def)

text \<open>
  The names \<open>tempfile\<close> makes begin with the prefix it is given; the name of the workspace is not of that
  kind.
\<close>

definition usual_names :: "'x tool_env \<Rightarrow> path \<Rightarrow> bool" where
  "usual_names env ws \<longleftrightarrow>
     (\<forall>name dir fs. starts_with name (te_mkdtemp env name dir fs)) \<and> \<not> starts_with ''.evoci-'' (last ws)"

lemma usual_namesD:
  assumes "usual_names env ws" and "starts_with ''.evoci-'' name"
  shows "dir @ [te_mkdtemp env name dir fs] \<noteq> ws"
proof
  assume "dir @ [te_mkdtemp env name dir fs] = ws"
  then have "last ws = te_mkdtemp env name dir fs" by auto
  moreover have "starts_with ''.evoci-'' (te_mkdtemp env name dir fs)"
    using assms by (auto simp: usual_names_def starts_with_prefix intro: prefix_order.trans)
  ultimately show False using assms(1) by (simp add: usual_names_def)
qed

definition copies_off :: "path \<Rightarrow> 'x tool_state \<Rightarrow> bool" where
  "copies_off ws s \<longleftrightarrow> (\<forall>t \<in> set (ts_temporary s). off ws t) \<and> (\<forall>d. ts_disposable s = Some d \<longrightarrow> off ws d)"

definition keeps_tree :: "'x tool_env \<Rightarrow> path \<Rightarrow> 'x tool_state \<Rightarrow> 'x tool_state \<Rightarrow> bool" where
  "keeps_tree env ws s s' \<longleftrightarrow>
     (copies_off ws s \<longrightarrow> copies_off ws s' \<and> changed_by_programs env ws (ts_fs s) (ts_fs s'))"

lemma keeps_tree_refl: "ts_fs s' = ts_fs s \<Longrightarrow> ts_temporary s' = ts_temporary s \<Longrightarrow> ts_disposable s' = ts_disposable s \<Longrightarrow> keeps_tree env ws s s'"
  by (simp add: keeps_tree_def copies_off_def programs_refl)

abbreviation harmless :: "'x tool_env \<Rightarrow> path \<Rightarrow> ('x tool_state, 'a) io \<Rightarrow> bool" where
  "harmless env ws \<equiv> keeps (keeps_tree env ws)"

named_theorems harmless_rules \<open>parts of the tools that leave the workspace alone\<close>

lemma harmless_bind [harmless_rules]: "harmless env ws f \<Longrightarrow> (\<And>x. harmless env ws (g x)) \<Longrightarrow> harmless env ws (sbind f g)"
  by (rule keeps_bind) (auto simp: keeps_tree_def intro: programs_trans)

lemma harmless_try [harmless_rules]: "harmless env ws f \<Longrightarrow> harmless env ws (stry f)"
  by (simp add: keeps_def stry_def case_prod_beta)

lemma harmless_pure [harmless_rules]: "harmless env ws (sret x)" "harmless env ws (sraise e)" "harmless env ws (sget f)" "harmless env ws (slift r)"
  "harmless env ws (\<lambda>s. (s, g s))" "harmless env ws (on_read h)"
  by (simp_all add: keeps_def keeps_tree_def on_read_def)

lemma harmless_fields [harmless_rules]:
  "harmless env ws (smodify (\<lambda>s. s\<lparr>ts_activated_skill_ids := a s\<rparr>))" "harmless env ws (smodify (\<lambda>s. s\<lparr>ts_changed_paths := b s\<rparr>))"
  "harmless env ws (smodify (\<lambda>s. s\<lparr>ts_available_skill_ids := a s\<rparr>))" "harmless env ws (smodify (\<lambda>s. s\<lparr>ts_revision := c s\<rparr>))"
  by (simp_all add: keeps_def keeps_tree_def copies_off_def)

lemma harmless_store [harmless_rules]: "harmless env ws (on_store f)"
  by (auto simp: keeps_def on_store_def sfocus_def keeps_tree_def copies_off_def split: prod.splits)

text \<open>A change of the files only.\<close>

lemma harmless_fs:
  assumes "\<And>fs fs' r. f fs = (fs', r) \<Longrightarrow> changed_by_programs env ws fs fs'"
  shows "harmless env ws (on_tool_fs f)"
  using assms by (auto simp: keeps_def on_tool_fs_def sfocus_def keeps_tree_def copies_off_def split: prod.splits)

lemma rmtree_off: "off ws t \<Longrightarrow> ws \<noteq> [] \<Longrightarrow> prefix ws p \<Longrightarrow> rmtree t fs p = fs p"
  by (simp add: rmtree_def off_apart)

lemma fold_rmtree_off:
  "\<forall>t \<in> set ts. off ws t \<Longrightarrow> ws \<noteq> [] \<Longrightarrow> prefix ws p \<Longrightarrow> fold rmtree ts fs p = fs p"
  by (induction ts arbitrary: fs) (auto simp: rmtree_off)

lemma untouched_off:
  "off ws t \<Longrightarrow> ws \<noteq> [] \<Longrightarrow> untouched ws fs (rmtree t fs)" "off ws t \<Longrightarrow> ws \<noteq> [] \<Longrightarrow> untouched ws fs (fs(t := n))"
  "\<forall>t \<in> set ts. off ws t \<Longrightarrow> ws \<noteq> [] \<Longrightarrow> untouched ws fs (fold rmtree ts fs)"
  using off_apart(1) [of ws t] by (auto simp: untouched_def rmtree_off fold_rmtree_off)

lemma harmless_close [harmless_rules]: "ws \<noteq> [] \<Longrightarrow> harmless env ws close_temporaries"
  by (auto simp: keeps_def close_temporaries_def keeps_tree_def copies_off_def intro!: programs_step(1) untouched_off)

lemma harmless_invalidate [harmless_rules]: "ws \<noteq> [] \<Longrightarrow> harmless env ws invalidate_snapshots"
proof -
  assume ws: "ws \<noteq> []"
  have "harmless env ws (smodify (\<lambda>s. s\<lparr>ts_disposable := None, ts_execution_workspace := None\<rparr>))"
    by (simp add: keeps_def keeps_tree_def copies_off_def)
  with ws show ?thesis unfolding invalidate_snapshots_def by (intro harmless_rules)
qed

text \<open>A copy off the workspace: the harness writes below the copy, the rest is Git's.\<close>

lemmas keeps_programs = keeps_bind [where R = "changed_by_programs env ws" for env ws, OF programs_trans]
  keeps_pure [where R = "changed_by_programs env ws" for env ws, OF programs_refl]

lemma copy_programs:
  assumes "place ws s" and "off ws d"
  shows "args \<in> set (copy_commands s d head) \<Longrightarrow> keeps (changed_by_programs env ws) (te_git env args)"
  using assms by (intro keepsI programs_step(2)) (unfold external_def, blast)

lemma copy_changes:
  assumes "place ws s" and "off ws d" and "ws \<noteq> []"
  shows "keeps (changed_by_programs env ws) (copy_workspace_with_independent_git (te_git env) listing s d)"
proof -
  have tree: "keeps (changed_by_programs env ws) (copytree skip listing (s @ q) (d @ q))" for skip q
    using off_apart(1) [OF off_below [OF assms(2), of "d @ q"] assms(3)]
    by (intro keepsI programs_step(1)) (auto simp: untouched_def copytree_def copied_fs_def)
  note git = copy_programs [OF assms(1,2), where head = h for h, unfolded copy_commands_def, simplified]
  have init: "keeps (changed_by_programs env ws) (init_isolated (te_git env) (abs_str d))"
    unfolding init_isolated_def commit_isolated_baseline_def by (auto intro!: keeps_programs git split: prod.splits)
  have meta: "keeps (changed_by_programs env ws) (copy_git_metadata (te_git env) listing s d head)" for head
    unfolding copy_git_metadata_def checked_git_def
    by (auto intro!: keeps_programs git init tree split: prod.splits)
  show ?thesis
    unfolding copy_workspace_with_independent_git_def
    by (auto intro!: keeps_programs git init meta tree [of skip_ignored "[]", simplified] split: prod.splits)
qed

lemma harmless_disposable [harmless_rules]:
  fixes env :: "'x tool_env"
  assumes "usual_names env ws" and "ws \<noteq> []" and "place ws (tk_workspace cfg)"
  shows "harmless env ws (disposable_workspace env cfg)"
proof (rule keepsI)
  fix s :: "'x tool_state"
  let ?w = "tk_workspace cfg"
  show "keeps_tree env ws s (fst (disposable_workspace env cfg s))"
  proof (cases "copies_off ws s \<and> ts_disposable s = None \<and>
      \<not> path_exists (ts_fs s) (butlast ?w @ [te_mkdtemp env ''.evoci-exec-'' (butlast ?w) (ts_fs s)])")
    case False
    then show ?thesis
      by (auto simp: keeps_tree_def disposable_workspace_def sbind_def mkdtemp_def Let_def split: option.splits)
  next
    case True
    define t where "t = butlast ?w @ [te_mkdtemp env ''.evoci-exec-'' (butlast ?w) (ts_fs s)]"
    define s1 where "s1 = s\<lparr>ts_fs := (ts_fs s)(t \<mapsto> Dir), ts_disposable := Some (t @ [''workspace''])\<rparr>"
    have "starts_with ''.evoci-'' ''.evoci-exec-''" by code_simp
    then have t: "off ws t"
      unfolding t_def by (intro fresh_sibling_off [OF assms(3)] usual_namesD [OF assms(1)])
    have copy: "off ws (t @ [''workspace''])" using off_below [OF t] by simp
    obtain fs2 r where cp: "copy_workspace_with_independent_git (te_git env) (te_listing env) ?w (t @ [''workspace'']) (ts_fs s1) = (fs2, r)"
      by (cases "copy_workspace_with_independent_git (te_git env) (te_listing env) ?w (t @ [''workspace'']) (ts_fs s1)")
    have "changed_by_programs env ws (ts_fs s) (ts_fs s1)"
      unfolding s1_def using untouched_off(2) [OF t assms(2)] by (intro programs_step(1)) simp
    from programs_trans [OF this keepsD [OF copy_changes [OF assms(3) copy assms(2)] cp]]
    have same: "changed_by_programs env ws (ts_fs s) fs2" .
    from programs_trans [OF this programs_step(1) [OF untouched_off(1) [OF t assms(2)]]]
    have removed: "changed_by_programs env ws (ts_fs s) (rmtree t fs2)" .
    have "disposable_workspace env cfg s = (case r of
        Inl e \<Rightarrow> (s1\<lparr>ts_fs := rmtree t fs2\<rparr>, Inl e)
      | Inr x \<Rightarrow> (s1\<lparr>ts_fs := fs2, ts_temporary := ts_temporary s1 @ [t], ts_execution_workspace := Some (t @ [''workspace''])\<rparr>,
          Inr (t @ [''workspace''])))"
      using True cp
      by (auto simp: disposable_workspace_def sbind_def mkdtemp_def Let_def t_def s1_def stry_def on_tool_fs_def
          sfocus_def cleanup_def split: sum.splits)
    with True t copy same removed show ?thesis
      by (auto simp: keeps_tree_def copies_off_def s1_def split: sum.splits)
  qed
qed

text \<open>A disposable workspace is off the workspace.\<close>

lemma disposable_off:
  assumes "harmless env ws (disposable_workspace env cfg)" and "copies_off ws s"
    and "disposable_workspace env cfg s = (s', Inr d)"
  shows "off ws d"
proof -
  have "copies_off ws s'" using keepsD [OF assms(1,3)] assms(2) by (simp add: keeps_tree_def)
  moreover have "ts_disposable s' = Some d"
    using assms(3)
    by (auto simp: disposable_workspace_def sbind_Inr_iff mkdtemp_def Let_def stry_def on_tool_fs_def sfocus_def cleanup_def
        split: option.splits sum.splits prod.splits if_splits) (metis sum.exhaust)
  ultimately show ?thesis by (auto simp: copies_off_def)
qed

lemma copy_effect:
  assumes "off ws d" and "prefix d cwd"
  shows "changed_by_programs env ws fs (te_effect env argv cwd fs)"
  using off_below [OF assms] by (intro programs_step(2)) (auto simp: external_def)

lemma run_in_cases:
  assumes "run_in env cfg wroot argv cwd net fs = (fs', r)"
  shows "fs' = fs \<or> (\<exists>c. prefix wroot c \<and> fs' = te_effect env argv c fs)"
proof (cases r)
  case (Inr x)
  then have run: "run_sync (te_popen env fs) (te_decode env) (te_environ env) (te_pycache env) fs
      \<lparr>rn_root = wroot, rn_timeout = tk_timeout cfg, rn_max_chars = tk_max_chars cfg\<rparr> argv cwd net [] = Inr x"
    and fs': "fs' = te_effect env (cr_argv x) (cr_cwd x) fs"
    using assms by (auto simp: run_in_def split: sum.splits)
  from run have "cr_argv x = argv" "prefix wroot (cr_cwd x)"
    by (auto simp: run_sync_def run_grouped_subprocess_def rbind_Inr_iff Let_def boundary_prefix split: if_splits prod.splits)
  with fs' show ?thesis by auto
qed (use assms in \<open>auto simp: run_in_def split: sum.splits\<close>)

lemma harmless_run_in:
  assumes "off ws d"
  shows "harmless env ws (on_tool_fs (run_in env cfg d argv cwd net))"
  using assms by (auto intro!: harmless_fs dest!: run_in_cases simp: copy_effect)

lemma harmless_git_tool:
  assumes "\<And>a. argv = Inr a \<Longrightarrow> inspecting a"
  shows "harmless env ws (git_tool env cfg argv)"
proof (cases argv)
  case (Inr a)
  then have "external env ws fs (te_effect env a cwd fs)" for cwd fs
    using assms by (auto simp: external_def)
  then have "harmless env ws (on_tool_fs (run_in env cfg (tk_workspace cfg) a ''.'' False))"
    by (auto intro!: harmless_fs dest!: run_in_cases intro: programs_step(2))
  moreover have "git_tool env cfg argv = sbind (on_tool_fs (run_in env cfg (tk_workspace cfg) a ''.'' False)) (\<lambda>r. sret (json_run r))"
    by (simp add: git_tool_def Inr sbind_def fun_eq_iff)
  ultimately show ?thesis by (auto intro!: harmless_rules)
qed (simp add: git_tool_def sbind_def keeps_def keeps_tree_def)

lemma harmless_git_tools:
  "harmless env ws (git_tool env cfg (Inr git_status_argv))" "harmless env ws (git_tool env cfg (Inr (git_log_argv n)))"
  "harmless env ws (git_tool env cfg (git_show_argv v))" "harmless env ws (git_tool env cfg (Inr git_diff_argv))"
  by (auto intro!: harmless_git_tool simp: inspecting_def)

lemma harmless_checks [harmless_rules]:
  "harmless env ws (require_available i)" "harmless env ws (require_write_path reg p)" "harmless env ws (enabled_skill ops m i)"
  "harmless env ws (declared_bytes env m record p)" "harmless env ws (read_memory env cfg i offset limit)"
  by (simp_all add: require_available_def require_write_path_def enabled_skill_def declared_bytes_def read_memory_def
      keeps_def keeps_tree_def)

lemma harmless_prod [harmless_rules]: "(\<And>a b. harmless env ws (f a b)) \<Longrightarrow> harmless env ws (case x of (a, b) \<Rightarrow> f a b)"
  by (cases x) simp

lemma harmless_activated [harmless_rules]: "harmless env ws (require_activated i)"
  unfolding require_activated_def by (intro harmless_rules)

lemma harmless_load_skill [harmless_rules]: "harmless env ws (load_skill env ops i)"
  by (auto simp: load_skill_def Let_def intro!: harmless_rules)

lemma harmless_skill_resource [harmless_rules]: "harmless env ws (read_skill_resource env ops i p offset limit)"
  by (auto simp: read_skill_resource_def Let_def intro!: harmless_rules)

lemma harmless_record [harmless_rules]: "harmless env ws (record_changed_paths cfg name result)"
  by (auto simp: record_changed_paths_def intro!: harmless_rules split: json.splits)

lemma harmless_write_paths [harmless_rules]: "harmless env ws (require_write_paths reg ps)"
  by (induction reg ps rule: require_write_paths.induct) (auto simp only: require_write_paths.simps intro!: harmless_rules)

text \<open>A script in a copy.\<close>

lemma run_skill_script_cases:
  assumes "run_skill_script env ops cfg i name args wroot n s = (s', r)"
  shows "s' = s \<or> (\<exists>argv c. prefix wroot c \<and> s' = s\<lparr>ts_fs := te_effect env argv c (ts_fs s)\<rparr>)"
  using assms
  by (auto simp: run_skill_script_def sbind_def enabled_skill_def Let_def run_grouped_subprocess_def rbind_Inr_iff
      dest!: boundary_prefix split: option.splits if_splits sum.splits prod.splits) blast

lemma harmless_skill_script:
  assumes "off ws d"
  shows "harmless env ws (run_skill_script env ops cfg i name args d n)"
proof (rule keepsI)
  fix s :: "'a tool_state"
  obtain s' r where run: "run_skill_script env ops cfg i name args d n s = (s', r)"
    by (cases "run_skill_script env ops cfg i name args d n s")
  from run_skill_script_cases [OF run] show "keeps_tree env ws s (fst (run_skill_script env ops cfg i name args d n s))"
  proof
    assume "\<exists>argv c. prefix d c \<and> s' = s\<lparr>ts_fs := te_effect env argv c (ts_fs s)\<rparr>"
    then obtain argv c where c: "prefix d c" "s' = s\<lparr>ts_fs := te_effect env argv c (ts_fs s)\<rparr>" by blast
    with copy_effect [OF assms c(1)] run show ?thesis by (auto simp: keeps_tree_def copies_off_def)
  qed (simp add: run keeps_tree_def)
qed

text \<open>After a part that returns a copy, only copies have to be considered.\<close>

lemma harmless_copy_bind:
  assumes "harmless env ws (disposable_workspace env cfg)" and "\<And>d. off ws d \<Longrightarrow> harmless env ws (g d)"
  shows "harmless env ws (sbind (disposable_workspace env cfg) g)"
proof (rule keepsI)
  fix s :: "'a tool_state"
  obtain s1 r where d: "disposable_workspace env cfg s = (s1, r)" by (cases "disposable_workspace env cfg s")
  note k1 = keepsD [OF assms(1) d]
  show "keeps_tree env ws s (fst (sbind (disposable_workspace env cfg) g s))"
  proof (cases "copies_off ws s")
    case True
    show ?thesis
    proof (cases r)
      case (Inr p)
      with assms(2) disposable_off [OF assms(1) True] d have "keeps_tree env ws s1 (fst (g p s1))" by (simp add: keeps_def)
      with k1 d Inr show ?thesis by (auto simp: sbind_def keeps_tree_def intro: programs_trans)
    qed (use k1 d in \<open>simp add: sbind_def\<close>)
  qed (simp add: keeps_tree_def)
qed

lemma harmless_execute_skill:
  assumes "usual_names env ws" and "ws \<noteq> []" and "place ws (tk_workspace (tr_config reg))"
    and "write_files (tk_capabilities (tr_config reg)) \<Longrightarrow> off ws (tk_workspace (tr_config reg))"
  shows "harmless env ws (execute_skill env ops reg i name args)"
  using assms harmless_disposable [OF assms(1,2,3)]
  by (auto simp: execute_skill_def Let_def intro!: harmless_rules harmless_copy_bind harmless_skill_script)

text \<open>Without write permission the file tools do not get past the registry's checks.\<close>

lemma harmless_if [harmless_rules]: "(b \<Longrightarrow> harmless env ws f) \<Longrightarrow> (\<not> b \<Longrightarrow> harmless env ws g) \<Longrightarrow> harmless env ws (if b then f else g)"
  by simp

lemma harmless_option [harmless_rules]:
  "harmless env ws f \<Longrightarrow> (\<And>y. harmless env ws (g y)) \<Longrightarrow> harmless env ws (case x of None \<Rightarrow> f | Some y \<Rightarrow> g y)"
  by (cases x) simp_all

lemma harmless_with_args: "(\<And>x. r = Inr x \<Longrightarrow> harmless env ws (f x)) \<Longrightarrow> harmless env ws (with_args r f)"
  by (cases r) (auto simp: with_args_def sbind_def keeps_def keeps_tree_def)

lemma write_tools_refused:
  assumes "name \<in> {''apply_patch'', ''replace_text'', ''create_file'', ''delete_file''}" and "\<not> write_files (tk_capabilities cfg)"
  shows "\<exists>m. resolve_tool env cfg name = Inl (PolicyViolation m)"
proof -
  have "tool_capability env name = Some ''write_files''" using assms(1) by (elim insertE) (simp_all add: tool_capability_def)
  with assms(2) show ?thesis by (simp add: resolve_tool_def has_capability_def)
qed

lemma harmless_edit:
  assumes "ws \<noteq> []" and "off ws (tk_workspace (tr_config reg))"
    and "\<And>fs fs' r. edit fs = (fs', r) \<Longrightarrow> near (tk_workspace (tr_config reg)) fs fs'"
  shows "harmless env ws (on_tool_fs edit)"
  by (intro harmless_fs programs_step(1)) (use near_off [OF assms(3) assms(2,1)] in \<open>simp add: untouched_def\<close>)

lemma harmless_edit_file:
  assumes "ws \<noteq> []" and "off ws (tk_workspace (tr_config reg))"
    and "\<And>fs fs' r w. f fs (tk_workspace (tr_config reg)) w = Inr (fs', r) \<Longrightarrow> near (tk_workspace (tr_config reg)) fs fs'"
  shows "harmless env ws (edit_file reg p f)"
  unfolding edit_file_def
  by (intro harmless_bind harmless_checks harmless_edit [OF assms(1,2)] harmless_invalidate assms(1) harmless_pure)
    (auto simp: edit_with_def near_refl split: sum.splits dest: assms(3))

lemma harmless_guard [harmless_rules]: "harmless env ws (guard_files reg files guarded)"
  by (induction reg files guarded rule: guard_files.induct) (auto simp only: guard_files.simps intro!: harmless_rules)

lemma harmless_write_tools:
  assumes "ws \<noteq> []" and "off ws (tk_workspace (tr_config reg))"
  shows "harmless env ws (tool_apply_patch reg files)" "harmless env ws (tool_replace_text reg p old new n)"
    "harmless env ws (tool_create_file reg p c)" "harmless env ws (tool_delete_file reg p)"
proof -
  show "harmless env ws (tool_apply_patch reg files)"
    unfolding tool_apply_patch_def
    by (intro harmless_bind harmless_guard harmless_edit [OF assms] harmless_invalidate assms(1) harmless_pure)
      (auto simp: apply_patch_def near_refl split: sum.splits if_splits dest: near_apply_patch_loop)
qed (auto simp: tool_replace_text_def tool_create_file_def tool_delete_file_def
    intro!: harmless_edit_file [OF assms] dest: near_file_tools)

text \<open>A registry that works off the workspace, or reads it.\<close>

definition calm :: "path \<Rightarrow> tool_registry \<Rightarrow> bool" where
  "calm ws reg \<longleftrightarrow> place ws (tk_workspace (tr_config reg)) \<and> off ws (tr_command_workspace reg) \<and>
     (write_files (tk_capabilities (tr_config reg)) \<longrightarrow> off ws (tk_workspace (tr_config reg)))"

lemma harmless_ainvoke:
  assumes "usual_names env ws" and "ws \<noteq> []" and "calm ws reg"
  shows "harmless env ws (ainvoke_tool env reg name args)"
proof (cases "resolve_tool env (tr_config reg) name")
  case (Inl e)
  then show ?thesis by (simp add: ainvoke_tool_def sbind_def keeps_def keeps_tree_def)
next
  case (Inr u)
  let ?writes = "{''apply_patch'', ''replace_text'', ''create_file'', ''delete_file''}"
  have writes: "off ws (tk_workspace (tr_config reg))" if "name \<in> ?writes"
    using write_tools_refused [OF that, of "tr_config reg" env] Inr assms(3) by (auto simp: calm_def)
  have place: "place ws (tk_workspace (tr_config reg))" using assms(3) by (simp add: calm_def)
  have command: "harmless env ws (run_bounded_command env reg argv cwd net)" for argv cwd net
    using assms
    by (auto simp: run_bounded_command_def Let_def calm_def intro!: harmless_rules harmless_run_in)
  have skill: "harmless env ws (execute_skill env ops reg i n xs)" for ops i n xs
    using assms by (intro harmless_execute_skill) (auto simp: calm_def)
  have "harmless env ws (call_tool env reg name args)"
    unfolding call_tool_def Let_def
    by (intro harmless_if harmless_with_args harmless_option harmless_prod harmless_git_tools command
        skill harmless_pure(2,6) harmless_load_skill harmless_skill_resource harmless_checks(5)
        harmless_write_tools [OF assms(2) writes])
      simp_all
  then show ?thesis unfolding ainvoke_tool_def by (intro harmless_rules)
qed

text \<open>The registry that is made for an agent is such a registry.\<close>

lemma harmless_registry_bind:
  assumes "usual_names env ws" and "ws \<noteq> []" and "place ws (tk_workspace cfg)"
    and "write_files (tk_capabilities cfg) \<Longrightarrow> off ws (tk_workspace cfg)"
    and "\<And>reg. calm ws reg \<Longrightarrow> harmless env ws (h reg)"
  shows "harmless env ws (sbind (create_worker_registry env cfg) h)"
proof -
  have ids: "harmless env ws (smodify (\<lambda>s. case te_skills env of None \<Rightarrow> s | Some ops \<Rightarrow> s\<lparr>ts_available_skill_ids := f ops s\<rparr>))"
    for f by (auto simp: keeps_def keeps_tree_def copies_off_def split: option.splits)
  have made: "harmless env ws (h \<lparr>tr_config = cfg, tr_allowed_writes = a, tr_command_workspace = d\<rparr>)" if "off ws d" for a d
    using assms that by (auto simp: calm_def)
  have eq: "sbind (create_worker_registry env cfg) h =
      sbind (slift (normalize_write_scope (opt_scope (tk_write_scope cfg)))) (\<lambda>allowed.
        if write_files (tk_capabilities cfg) \<and> tk_write_scope cfg \<noteq> None \<and> allowed = []
        then sraise (PolicyViolation ''repair workers require a non-empty write_scope'')
        else sbind (if write_files (tk_capabilities cfg) then sret (tk_workspace cfg) else disposable_workspace env cfg) (\<lambda>d.
        sbind (smodify (\<lambda>s. case te_skills env of None \<Rightarrow> s
          | Some ops \<Rightarrow> s\<lparr>ts_available_skill_ids := (case tk_allowed_skill_refs cfg of
              None \<Rightarrow> so_list_enabled ops (ts_store s) | Some refs \<Rightarrow> refs)\<rparr>)) (\<lambda>_.
        h \<lparr>tr_config = cfg, tr_allowed_writes = allowed, tr_command_workspace = d\<rparr>)))"
    unfolding create_worker_registry_def by (auto simp: sbind_def fun_eq_iff split: prod.splits sum.splits)
  have copy: "harmless env ws (sbind (if write_files (tk_capabilities cfg) then sret (tk_workspace cfg) else disposable_workspace env cfg) g)"
    if "\<And>d. off ws d \<Longrightarrow> harmless env ws (g d)" for g
    using assms(4) that harmless_copy_bind [OF harmless_disposable [OF assms(1-3)] that] by simp
  show ?thesis
    unfolding eq
    by (rule harmless_bind [OF harmless_pure(4)], rule harmless_if [OF harmless_pure(2)], rule copy,
        rule harmless_bind [OF ids], erule made)
qed

text \<open>An agent's session: the registry, any calls, with what they raised given back to the model, and the end.\<close>

fun tool_calls :: "'x tool_env \<Rightarrow> tool_registry \<Rightarrow> (string \<times> payload) list \<Rightarrow> ('x tool_state, unit) io" where
  "tool_calls env reg [] = sret ()"
| "tool_calls env reg ((name, args) # rest) =
     sbind (stry (ainvoke_tool env reg name args)) (\<lambda>_. tool_calls env reg rest)"

definition tool_session :: "'x tool_env \<Rightarrow> tool_config \<Rightarrow> (string \<times> payload) list \<Rightarrow> ('x tool_state, unit) io" where
  "tool_session env cfg calls =
     sbind (create_worker_registry env cfg) (\<lambda>reg. sbind (tool_calls env reg calls) (\<lambda>_. close_temporaries))"

lemma harmless_tool_calls:
  assumes "\<And>name args. harmless env ws (ainvoke_tool env reg name args)"
  shows "harmless env ws (tool_calls env reg calls)"
proof (induction calls)
  case (Cons c rest)
  then show ?case by (cases c) (simp only: tool_calls.simps assms harmless_rules)
qed (simp only: tool_calls.simps harmless_rules)

lemma harmless_session:
  assumes "usual_names env ws" and "ws \<noteq> []" and "tk_workspace cfg = ws" and "\<not> write_files (tk_capabilities cfg)"
  shows "harmless env ws (tool_session env cfg calls)"
  unfolding tool_session_def
  by (intro harmless_registry_bind harmless_bind harmless_tool_calls harmless_ainvoke harmless_close)
    (use assms in \<open>simp_all add: place_def\<close>)

text \<open>
  C24: an agent without write permission never changes the workspace itself. Whatever registry is asked for,
  whatever tools are called with whatever arguments, and whether the session ends regularly or with an
  exception: the harness writes, makes and removes nothing below the workspace, so that every change there is
  the work of a program the agent started, namely a command, test or script that was started in a
  disposable copy beside the workspace, one of the four inspecting Git commands, or one of the commands with
  which Git makes the copy. Nothing is assumed of what these programs do, as they are not confined.
\<close>

theorem read_only_agent_keeps_workspace:
  assumes "usual_names env ws" and "ws \<noteq> []" and "tk_workspace cfg = ws" and "\<not> write_files (tk_capabilities cfg)"
    and "tool_session env cfg calls (new_tool_state fs x) = (s', r)"
  shows "changed_by_programs env ws fs (ts_fs s')"
  using keepsD [OF harmless_session [OF assms(1-4)] assms(5)]
  by (simp add: keeps_tree_def copies_off_def new_tool_state_def)

text \<open>An environment whose processes leave a file where they are started.\<close>

definition busy_tools :: "unit tool_env" where
  "busy_tools = idle_tools\<lparr>te_effect := (\<lambda>argv cwd fs. if inspecting argv then fs else fs(cwd @ [''out''] \<mapsto> Reg ''x'' 420)),
     te_mkdtemp := (\<lambda>name _ _. name @ ''x'')\<rparr>"

lemma busy_external:
  assumes "external busy_tools [''w''] a b"
  shows "untouched [''w''] a b"
proof -
  have "untouched [''w''] a (a(cwd @ [''out''] \<mapsto> n))" if "off [''w''] cwd" for cwd n
    using off_below [OF that, of "cwd @ [''out'']"] by (intro untouched_off) simp_all
  then show ?thesis
    using assms by (auto simp: external_def busy_tools_def idle_tools_def demo_git_def untouched_def)
qed

lemma busy_names: "usual_names busy_tools [''w'']"
proof -
  have "starts_with name (name @ x)" for name x by (simp add: starts_with_def)
  moreover have "\<not> starts_with ''.evoci-'' ''w''" by code_simp
  ultimately show ?thesis by (simp add: usual_names_def busy_tools_def)
qed

theorem read_only_agent_keeps_workspace_witness:
  "\<exists>s' r. tool_session busy_tools (demo_config WORKER_INVESTIGATE_CAPABILITIES)
       [(''run_command'', [(''command'', jstrs [''pytest''])]), (''create_file'', [(''path'', JStr ''a.py''), (''content'', JStr ''x'')])]
       (new_tool_state demo_ws ()) = (s', r) \<and> untouched [''w''] demo_ws (ts_fs s')"
proof -
  let ?run = "tool_session busy_tools (demo_config WORKER_INVESTIGATE_CAPABILITIES)
       [(''run_command'', [(''command'', jstrs [''pytest''])]), (''create_file'', [(''path'', JStr ''a.py''), (''content'', JStr ''x'')])]
       (new_tool_state demo_ws ())"
  obtain s' r where run: "?run = (s', r)" by (metis prod.exhaust)
  have "changed_by_programs busy_tools [''w''] demo_ws (ts_fs s')"
    using read_only_agent_keeps_workspace [OF busy_names _ _ _ run]
    by (simp add: demo_config_def WORKER_INVESTIGATE_CAPABILITIES_def)
  with programs_untouched [OF this busy_external] run show ?thesis by blast
qed

end
