(* ===== verification/AgentScope.thy ===== *)
theory AgentScope
  imports Agents Harmless
begin

text \<open>
  What an agent's invocation as a whole does: a worker's edits stay in the scope of its task, and neither a
  worker nor the supervisor changes the workspace other than by the programs it starts (the graph applies
  the candidate later).
\<close>

section \<open>The world of the tool loop\<close>

text \<open>
  A reflexive, transitive relation on the world that the gateway and the tools respect is respected by
  the loop.
\<close>

locale respectful_world =
  fixes env :: "('w, 'o) loop_env" and R :: "'w \<Rightarrow> 'w \<Rightarrow> bool"
  assumes related_refl: "R w w"
    and related_trans: "R a b \<Longrightarrow> R b c \<Longrightarrow> R a c"
    and next_action: "keeps (\<lambda>a b. R (aw_world a) (aw_world b)) (le_next_action env key ms)"
    and finalize_call: "keeps (\<lambda>a b. R (aw_world a) (aw_world b)) (le_finalize env key ms)"
    and tool: "keeps (\<lambda>a b. R (aw_world a) (aw_world b)) (le_ainvoke env name arguments)"
begin

definition related :: "'w loop_state \<Rightarrow> 'w loop_state \<Rightarrow> bool" where
  "related s s' \<longleftrightarrow> R (aw_world (lp_world s)) (aw_world (lp_world s'))"

lemma respect_pure: "keeps related (sret x)" "keeps related (sraise e)" "keeps related (sget f)" "keeps related (slift r)"
  "keeps related (\<lambda>s. (s, g s))"
  by (simp_all add: keeps_def related_def related_refl)

lemma respect_bind: "keeps related f \<Longrightarrow> (\<And>x. keeps related (g x)) \<Longrightarrow> keeps related (sbind f g)"
  by (rule keeps_bind) (auto simp: related_def intro: related_trans)

lemma respect_try: "keeps related f \<Longrightarrow> keeps related (stry f)"
  by (simp add: keeps_def stry_def case_prod_beta)

lemma respect_if: "keeps related f \<Longrightarrow> keeps related g \<Longrightarrow> keeps related (if b then f else g)"
  by simp

lemma respect_parts: "keeps related (loop_emit env ids ty key p)" "keeps related (charge_budgets f)"
  "keeps related (add_messages ms)" "keeps related (smodify (\<lambda>s. s\<lparr>lp_tool_count := c s\<rparr>))"
  "keeps related (smodify (\<lambda>s. s\<lparr>lp_selected_skills := a s\<rparr>))" "keeps related (smodify (\<lambda>s. s\<lparr>lp_used_skills := a s\<rparr>))"
  "keeps related (smodify (\<lambda>s. s\<lparr>lp_cached_tool_results := b s\<rparr>))"
  by (auto simp: keeps_def related_def related_refl on_world_def sfocus_def loop_emit_def add_messages_def
      charge_budgets_def split: prod.splits option.splits)

lemma respect_world: "keeps related (on_world (le_next_action env key ms))" "keeps related (on_world (le_finalize env key ms))"
  using next_action finalize_call
  by (auto simp: keeps_def related_def on_world_def sfocus_def split: prod.splits) (metis fst_conv)+

lemma respect_ainvoke: "keeps related (ainvoke env name arguments)"
  using tool [of name arguments]
  by (auto simp: ainvoke_def keeps_def related_def related_refl on_world_def sfocus_def split: prod.splits list.splits)
    (metis fst_conv)

lemmas respect = respect_pure respect_bind respect_try respect_if respect_parts respect_world respect_ainvoke

lemma respect_records: "keeps related (record_load_skill env ids call oc)" "keeps related (record_skill_script env ids call oc)"
  "keeps related (answer_call env call oc)"
  by (auto simp: record_load_skill_def record_skill_script_def answer_call_def Let_def intro!: respect split: option.splits)

lemma respect_handle_call: "keeps related (handle_call env ids iteration call)"
  unfolding handle_call_def charged_call_def by (intro respect respect_records)

lemma respect_run_calls: "keeps related (run_calls env ids M iteration calls)"
  by (induction calls) (simp_all only: run_calls.simps respect respect_handle_call)

lemma respect_model_turn: "keeps related (model_turn env ids iteration)"
  unfolding model_turn_def Let_def by (intro respect) (auto intro!: respect split: sum.splits)

lemma respect_turns: "keeps related (turns env ids M n iteration)"
  by (induction n arbitrary: iteration)
    (simp_all only: turns.simps respect respect_model_turn respect_run_calls)

lemma respect_final_answer: "keeps related (final_answer env ids)"
  unfolding final_answer_def by (intro respect) (auto intro!: respect split: sum.splits)

lemma respect_uses: "keeps related (emit_procedure_uses env ids is)"
  by (induction "is") (simp_all only: emit_procedure_uses.simps respect)

lemma respect_attribute: "keeps related (attribute_skills env ids result)"
  by (auto simp: attribute_skills_def Let_def intro!: respect respect_uses split: option.splits)

lemma respect_agent_loop: "keeps related (agent_loop env ids M n)"
  unfolding agent_loop_def by (intro respect respect_turns respect_final_answer respect_attribute)

lemma run_related:
  assumes "run_tool_agent env cfg ids system_prompt task_prompt own extra w = ((w', bs), r)"
  shows "R (aw_world w) (aw_world w')"
  using assms
proof (cases rule: run_tool_agent_cases)
  case (ran a t s')
  from keepsD [OF respect_agent_loop ran(2)] ran(3) show ?thesis by (simp add: related_def loop_start_def)
qed (simp add: related_refl)

end

text \<open>
  The registry of an agent and its gateway: the gateway only writes events, and the tools of a calm
  registry leave the workspace to the programs they start.
\<close>

definition safe_tools :: "'x agent_env \<Rightarrow> path \<Rightarrow> tool_registry \<Rightarrow> 'x tool_state \<Rightarrow> 'x tool_state \<Rightarrow> bool" where
  "safe_tools env ws reg s s' \<longleftrightarrow>
     (usual_names (ae_tools env) ws \<and> ws \<noteq> [] \<and> calm ws reg \<longrightarrow> keeps_tree (ae_tools env) ws s s')"

interpretation agent_loop: respectful_world "loop_env_of env gw agent_id refs with_refs reg" "safe_tools env ws reg"
  for env :: "'x agent_env" and gw :: "'o gateway" and agent_id refs with_refs reg ws
proof
  show "safe_tools env ws reg w w" for w by (simp add: safe_tools_def keeps_tree_def)
  show "safe_tools env ws reg a b \<Longrightarrow> safe_tools env ws reg b c \<Longrightarrow> safe_tools env ws reg a c" for a b c
    by (auto simp: safe_tools_def keeps_tree_def intro: programs_trans)
  let ?loop = "loop_env_of env gw agent_id refs with_refs reg"
  show "keeps (\<lambda>a b. safe_tools env ws reg (aw_world a) (aw_world b)) (le_next_action ?loop key ms)" for key ms
    by (auto simp: keeps_def loop_env_of_def gateway_call_def sfocus_def safe_tools_def keeps_tree_def split: prod.splits)
  show "keeps (\<lambda>a b. safe_tools env ws reg (aw_world a) (aw_world b)) (le_finalize ?loop key ms)" for key ms
    by (auto simp: keeps_def loop_env_of_def gateway_call_def sfocus_def safe_tools_def keeps_tree_def split: prod.splits)
  show "keeps (\<lambda>a b. safe_tools env ws reg (aw_world a) (aw_world b)) (le_ainvoke ?loop name arguments)" for name arguments
  proof (rule keepsI)
    fix w :: "'x tool_state agent_world"
    show "safe_tools env ws reg (aw_world w) (aw_world (fst (le_ainvoke ?loop name arguments w)))"
      using harmless_ainvoke [of "ae_tools env" ws reg name arguments]
      by (auto simp: loop_env_of_def sfocus_def safe_tools_def split: prod.splits dest: keepsD)
  qed
qed

section \<open>The agents leave the workspace alone\<close>

definition calm_agent :: "path \<Rightarrow> 'x agent_state \<Rightarrow> bool" where
  "calm_agent ws s \<longleftrightarrow> copies_off ws (ag_tools s) \<and> place ws (ag_staging s) \<and> (\<forall>t. ag_temporary s = Some t \<longrightarrow> off ws t)"

definition agent_keeps :: "'x tool_env \<Rightarrow> path \<Rightarrow> 'x agent_state \<Rightarrow> 'x agent_state \<Rightarrow> bool" where
  "agent_keeps te ws s s' \<longleftrightarrow>
     (calm_agent ws s \<longrightarrow> calm_agent ws s' \<and> changed_by_programs te ws (ts_fs (ag_tools s)) (ts_fs (ag_tools s')))"

abbreviation peaceful :: "'x tool_env \<Rightarrow> path \<Rightarrow> ('x agent_state, 'a) io \<Rightarrow> bool" where
  "peaceful te ws \<equiv> keeps (agent_keeps te ws)"

named_theorems peaceful_rules \<open>parts of an agent that leave the workspace alone\<close>

lemma peaceful_bind [peaceful_rules]: "peaceful te ws f \<Longrightarrow> (\<And>x. peaceful te ws (g x)) \<Longrightarrow> peaceful te ws (sbind f g)"
  by (rule keeps_bind) (auto simp: agent_keeps_def intro: programs_trans)

lemma peaceful_pure [peaceful_rules]: "peaceful te ws (sret x)" "peaceful te ws (sraise e)" "peaceful te ws (sget f)" "peaceful te ws (slift r)"
  "peaceful te ws (\<lambda>s. (s, g s))"
  by (simp_all add: keeps_def agent_keeps_def)

lemma peaceful_try [peaceful_rules]: "peaceful te ws f \<Longrightarrow> peaceful te ws (stry f)"
  by (simp add: keeps_def stry_def case_prod_beta)

lemma peaceful_fields [peaceful_rules]:
  "off ws t \<Longrightarrow> off ws b \<Longrightarrow> peaceful te ws (smodify (\<lambda>s. s\<lparr>ag_temporary := Some t, ag_staging := b\<rparr>))"
  "peaceful te ws (smodify (\<lambda>s. s\<lparr>ag_registry := r s\<rparr>))" "peaceful te ws (smodify (\<lambda>s. s\<lparr>ag_restored := c s\<rparr>))"
  "place ws b \<Longrightarrow> peaceful te ws (smodify (\<lambda>s. s\<lparr>ag_temporary := None, ag_staging := b, ag_registry := r s, ag_restored := c s\<rparr>))"
  by (simp_all add: keeps_def agent_keeps_def calm_agent_def place_def)

lemma peaceful_tools [peaceful_rules]: "harmless te ws f \<Longrightarrow> peaceful te ws (on_tools f)"
  by (auto simp: keeps_def on_tools_def sfocus_def agent_keeps_def calm_agent_def keeps_tree_def split: prod.splits)

lemma peaceful_if [peaceful_rules]: "(b \<Longrightarrow> peaceful te ws f) \<Longrightarrow> (\<not> b \<Longrightarrow> peaceful te ws g) \<Longrightarrow> peaceful te ws (if b then f else g)"
  by simp

lemma peaceful_cases [peaceful_rules]:
  "peaceful te ws f \<Longrightarrow> (\<And>y. peaceful te ws (g y)) \<Longrightarrow> peaceful te ws (case x of None \<Rightarrow> f | Some y \<Rightarrow> g y)"
  "(\<And>e. peaceful te ws (h e)) \<Longrightarrow> (\<And>y. peaceful te ws (k y)) \<Longrightarrow> peaceful te ws (case z of Inl e \<Rightarrow> h e | Inr y \<Rightarrow> k y)"
  by (auto split: option.splits sum.splits)

lemma peaceful_finally [peaceful_rules]: "peaceful te ws m \<Longrightarrow> peaceful te ws f \<Longrightarrow> peaceful te ws (sfinally m f)"
  unfolding sfinally_def by (intro peaceful_rules)

lemma peaceful_agent_budget [peaceful_rules]: "peaceful te ws (agent_budget i)"
  by (auto simp: keeps_def agent_budget_def agent_keeps_def calm_agent_def split: option.splits prod.splits)

lemma peaceful_budget [peaceful_rules]: "peaceful te ws (task_budget env ctx)"
  unfolding task_budget_def Let_def by (intro peaceful_rules)

lemma peaceful_loop:
  assumes "usual_names (ae_tools env) ws" and "ws \<noteq> []" and "calm ws reg"
  shows "peaceful (ae_tools env) ws (run_loop env gw refs with_refs reg ids prompts extra)"
  unfolding run_loop_def
proof (rule peaceful_bind [OF peaceful_agent_budget], rule keepsI)
  fix b and s :: "'a agent_state"
  let ?run = "run_tool_agent (loop_env_of env gw (li_agent_id ids) refs with_refs reg)
      \<lparr>lc_max_iterations = ae_max_iterations env, lc_max_tool_calls = ae_max_tool_calls env\<rparr> ids (fst prompts) (snd prompts)
      b extra \<lparr>aw_recorder = ag_recorder s, aw_tick = ag_tick s, aw_world = ag_tools s\<rparr>"
  obtain w bs r where run: "?run = ((w, bs), r)" by (metis prod.exhaust)
  have "keeps_tree (ae_tools env) ws (ag_tools s) (aw_world w)"
    using agent_loop.run_related [OF run, of ws] assms by (simp add: safe_tools_def)
  with run show "agent_keeps (ae_tools env) ws s (fst (case ?run of ((w, bs), r) \<Rightarrow>
      (s\<lparr>ag_recorder := aw_recorder w, ag_tick := aw_tick w, ag_tools := aw_world w,
         ag_budgets := put_budget (li_run_id ids) bs (ag_budgets s)\<rparr>, r)))"
    by (simp add: agent_keeps_def keeps_tree_def calm_agent_def)
qed

text \<open>A part whose result, in the state it leaves, lets the rest be peaceful.\<close>

lemma peaceful_bind_state:
  assumes "peaceful te ws f" and "\<And>s s' x. calm_agent ws s \<Longrightarrow> f s = (s', Inr x) \<Longrightarrow> agent_keeps te ws s' (fst (g x s'))"
  shows "peaceful te ws (sbind f g)"
proof (rule keepsI)
  fix s :: "'a agent_state"
  obtain s1 r where f: "f s = (s1, r)" by (cases "f s")
  note k = keepsD [OF assms(1) f]
  show "agent_keeps te ws s (fst (sbind f g s))"
  proof (cases "calm_agent ws s")
    case True
    show ?thesis
    proof (cases r)
      case (Inr x)
      with assms(2) [OF True] f have "agent_keeps te ws s1 (fst (g x s1))" by simp
      with k f Inr True show ?thesis by (auto simp: sbind_def agent_keeps_def intro: programs_trans)
    qed (use k f in \<open>simp add: sbind_def\<close>)
  qed (simp add: agent_keeps_def)
qed

lemma registry_calm:
  assumes "harmless env ws (disposable_workspace env cfg)" and "place ws (tk_workspace cfg)"
    and "write_files (tk_capabilities cfg) \<Longrightarrow> off ws (tk_workspace cfg)"
    and "copies_off ws s" and "create_worker_registry env cfg s = (s', Inr reg)"
  shows "calm ws reg"
  using assms disposable_off [OF assms(1,4)]
  by (auto simp: create_worker_registry_def sbind_Inr_iff calm_def split: if_splits)

lemma harmless_registry:
  assumes "usual_names env ws" and "ws \<noteq> []" and "place ws (tk_workspace cfg)"
    and "write_files (tk_capabilities cfg) \<Longrightarrow> off ws (tk_workspace cfg)"
  shows "harmless env ws (create_worker_registry env cfg)"
proof -
  have "harmless env ws (sbind (create_worker_registry env cfg) sret)"
    by (intro harmless_registry_bind assms harmless_pure)
  moreover have "sbind f sret = f" for f :: "('a tool_state, tool_registry) io"
    by (auto simp: sbind_def fun_eq_iff split: prod.splits sum.splits)
  ultimately show ?thesis by simp
qed

lemma near_integrate_loop: "integrate_loop sha w strict es written fs = (fs', r) \<Longrightarrow> near w fs fs'"
proof (induction es arbitrary: written fs)
  case (Cons e es)
  then show ?case
    by (cases "apply_edit sha fs w e strict")
      (auto simp: sbind_def near_refl intro: near_trans [OF near_apply_edit])
qed (simp add: near_refl)

lemma near_integrate: "integrate_edits git sha w edits None strict fs = (fs', r) \<Longrightarrow> near w fs fs'"
  by (cases "precheck_edits sha fs w edits strict")
    (auto simp: integrate_edits_def sbind_def near_refl dest: near_integrate_loop split: if_splits)

lemma harmless_staging:
  assumes "ws \<noteq> []" and "off ws staging"
  shows "harmless env ws (on_tool_fs (integrate_edits git sha staging edits None strict))"
    "harmless env ws (on_tool_fs (copy_workspace_with_independent_git (te_git env) listing ws staging))"
proof -
  show "harmless env ws (on_tool_fs (integrate_edits git sha staging edits None strict))"
    by (intro harmless_fs programs_step(1)) (use near_off [OF near_integrate assms(2,1)] in \<open>simp add: untouched_def\<close>)
  show "harmless env ws (on_tool_fs (copy_workspace_with_independent_git (te_git env) listing ws staging))"
    by (intro harmless_fs) (rule keepsD [OF copy_changes [OF _ assms(2,1)]], simp_all add: place_def)
qed

lemma sbind_at:
  "sbind (slift r) g s = (case r of Inl e \<Rightarrow> (s, Inl e) | Inr x \<Rightarrow> g x s)" "sbind (sget f) g s = g (f s) s"
  "sbind (\<lambda>s. (s, h s)) g s = (case h s of Inl e \<Rightarrow> (s, Inl e) | Inr x \<Rightarrow> g x s)"
  by (simp_all add: sbind_def)

lemma agent_keeps_refl: "agent_keeps te ws s s"
  by (simp add: agent_keeps_def)

lemma resume_peaceful:
  assumes "ws \<noteq> []" and "off ws (ag_staging s)"
  shows "agent_keeps (ae_tools env) ws s (fst (resume_candidate env ctx s))"
proof -
  have "peaceful (ae_tools env) ws (sbind (on_tools (on_tool_fs (integrate_edits git sha (ag_staging s) restored None True))) (\<lambda>_.
      sbind (smodify (\<lambda>s :: 'a agent_state. s\<lparr>ag_restored := map fe_path restored\<rparr>)) (\<lambda>_. sret v)))"
    for git sha restored and v :: "payload option + worker_run"
    by (intro peaceful_rules harmless_staging [OF assms])
  then have rest: "agent_keeps (ae_tools env) ws s (fst (sbind (on_tools (on_tool_fs (integrate_edits git sha (ag_staging s) restored None True))) (\<lambda>_.
      sbind (smodify (\<lambda>s. s\<lparr>ag_restored := map fe_path restored\<rparr>)) (\<lambda>_. sret v)) s))"
    for git sha restored and v :: "payload option + worker_run"
    by (simp add: keeps_def)
  show ?thesis
    unfolding resume_candidate_def
    by (simp add: sbind_at agent_keeps_refl rest split: sum.split cong: if_cong)
qed

lemma mkdtemp_off:
  assumes "usual_names env ws" and "starts_with ''.evoci-'' name" and "mkdtemp env name (butlast ws) s = (s', Inr t)"
  shows "off ws t"
proof -
  have "t = butlast ws @ [te_mkdtemp env name (butlast ws) (ts_fs s)]"
    using assms(3) by (auto simp: mkdtemp_def Let_def split: if_splits)
  with fresh_sibling_off [of ws ws] usual_namesD [OF assms(1,2)] show ?thesis by (simp add: place_def)
qed

lemma harmless_mkdtemp:
  assumes "usual_names env ws" and "starts_with ''.evoci-'' name" and "ws \<noteq> []"
  shows "harmless env ws (mkdtemp env name (butlast ws))"
proof (rule keepsI)
  fix s :: "'a tool_state"
  obtain s' r where m: "mkdtemp env name (butlast ws) s = (s', r)" by (cases "mkdtemp env name (butlast ws) s")
  show "keeps_tree env ws s (fst (mkdtemp env name (butlast ws) s))"
  proof (cases r)
    case (Inl e)
    with m show ?thesis by (auto simp: mkdtemp_def Let_def keeps_tree_def split: if_splits)
  next
    case (Inr t)
    from untouched_off(2) [OF mkdtemp_off [OF assms(1,2) m [unfolded Inr]] assms(3)]
    have "changed_by_programs env ws (ts_fs s) ((ts_fs s)(t \<mapsto> Dir))" by (rule programs_step(1))
    moreover have "s' = s\<lparr>ts_fs := (ts_fs s)(t \<mapsto> Dir)\<rparr>"
      using m Inr by (auto simp: mkdtemp_def Let_def split: if_splits)
    ultimately show ?thesis using m by (auto simp: keeps_tree_def copies_off_def)
  qed
qed

lemma worker_prefix: "starts_with ''.evoci-'' ''.evoci-worker-''"
  by code_simp

text \<open>A repair works in a staging copy off the workspace, everything else in the workspace.\<close>

lemma staging_peaceful:
  assumes "usual_names (ae_tools env) ws" and "ws \<noteq> []" and "wx_workspace ctx = ws"
  shows "peaceful (ae_tools env) ws (prepare_staging env ctx)"
proof (cases "wt_kind (wx_task ctx) = Repair")
  case True
  have "agent_keeps (ae_tools env) ws s1 (fst (sbind (smodify (\<lambda>s. s\<lparr>ag_temporary := Some t, ag_staging := t @ [''workspace'']\<rparr>)) (\<lambda>_.
      sbind (on_tools (on_tool_fs (copy_workspace_with_independent_git (te_git (ae_tools env)) (te_listing (ae_tools env)) ws (t @ [''workspace''])))) (\<lambda>_.
      resume_candidate env ctx)) s1))"
    if t: "off ws t" for t s1
  proof -
    have staging: "off ws (t @ [''workspace''])" using off_below [OF t] by simp
    obtain s2 r where copy: "sbind (smodify (\<lambda>s. s\<lparr>ag_temporary := Some t, ag_staging := t @ [''workspace'']\<rparr>)) (\<lambda>_.
      on_tools (on_tool_fs (copy_workspace_with_independent_git (te_git (ae_tools env)) (te_listing (ae_tools env)) ws (t @ [''workspace''])))) s1 = (s2, r)"
      by (metis prod.exhaust)
    have "peaceful (ae_tools env) ws (sbind (smodify (\<lambda>s :: 'a agent_state. s\<lparr>ag_temporary := Some t, ag_staging := t @ [''workspace'']\<rparr>)) (\<lambda>_.
      on_tools (on_tool_fs (copy_workspace_with_independent_git (te_git (ae_tools env)) (te_listing (ae_tools env)) ws (t @ [''workspace''])))))"
      by (intro peaceful_bind peaceful_fields(1) [OF t staging] peaceful_tools harmless_staging(2) assms(2) staging)
    from keepsD [OF this copy] have k: "agent_keeps (ae_tools env) ws s1 s2" .
    have "ag_staging s2 = t @ [''workspace'']"
      using copy by (auto simp: sbind_def on_tools_def sfocus_def split: prod.splits)
    with staging resume_peaceful [OF assms(2), of s2 env ctx] have "agent_keeps (ae_tools env) ws s2 (fst (resume_candidate env ctx s2))" by simp
    with k copy show ?thesis by (cases r) (auto simp: sbind_def agent_keeps_def intro: programs_trans split: prod.splits)
  qed
  note rest = this
  have off: "off ws t" if "calm_agent ws s" "on_tools (mkdtemp (ae_tools env) ''.evoci-worker-'' (butlast ws)) s = (s', Inr t)"
    for s s' t
    using that mkdtemp_off [OF assms(1) worker_prefix]
    by (auto simp: on_tools_def sfocus_def split: prod.splits)
  have eq: "prepare_staging env ctx = sbind (on_tools (mkdtemp (ae_tools env) ''.evoci-worker-'' (butlast ws))) (\<lambda>t.
      sbind (smodify (\<lambda>s. s\<lparr>ag_temporary := Some t, ag_staging := t @ [''workspace'']\<rparr>)) (\<lambda>_.
      sbind (on_tools (on_tool_fs (copy_workspace_with_independent_git (te_git (ae_tools env)) (te_listing (ae_tools env)) ws (t @ [''workspace''])))) (\<lambda>_.
      resume_candidate env ctx)))"
    using True assms(3) by (simp add: prepare_staging_def Let_def)
  show ?thesis
    unfolding eq
    by (rule peaceful_bind_state [OF peaceful_tools [OF harmless_mkdtemp [OF assms(1) worker_prefix assms(2)]]]) (rule rest, erule (1) off)
qed (simp add: prepare_staging_def peaceful_pure)

lemma resume_staging: "keeps (\<lambda>s s'. ag_staging s' = ag_staging s) (resume_candidate env ctx)"
proof (rule keepsI)
  fix s :: "'a agent_state"
  show "ag_staging (fst (resume_candidate env ctx s)) = ag_staging s"
    unfolding resume_candidate_def
    by (auto simp: sbind_at sbind_def on_tools_def sfocus_def split: sum.splits prod.splits)
qed

lemma repair_staging_off:
  assumes "usual_names (ae_tools env) ws" and "wx_workspace ctx = ws" and "wt_kind (wx_task ctx) = Repair"
    and "prepare_staging env ctx s = (s', Inr x)"
  shows "off ws (ag_staging s')"
proof -
  obtain s1 s2 t y where t: "on_tools (mkdtemp (ae_tools env) ''.evoci-worker-'' (butlast ws)) s = (s1, Inr t)"
    and copy: "on_tools (on_tool_fs (copy_workspace_with_independent_git (te_git (ae_tools env)) (te_listing (ae_tools env)) ws
      (t @ [''workspace'']))) (s1\<lparr>ag_temporary := Some t, ag_staging := t @ [''workspace'']\<rparr>) = (s2, Inr y)"
    and resume: "resume_candidate env ctx s2 = (s', Inr x)"
    using assms(2-4) by (auto simp: prepare_staging_def Let_def sbind_Inr_iff)
  have s2: "ag_staging s2 = t @ [''workspace'']"
    using copy by (auto simp: on_tools_def sfocus_def split: prod.splits)
  have "off ws t"
    using t mkdtemp_off [OF assms(1) worker_prefix] by (auto simp: on_tools_def sfocus_def split: prod.splits)
  with keepsD [OF resume_staging resume] s2 off_below [of ws t] show ?thesis by simp
qed

lemma peaceful_collect [peaceful_rules]: "peaceful te ws (collect_repair_edits env source scope)"
  unfolding collect_repair_edits_def by (rule peaceful_pure)

lemma peaceful_answer:
  assumes "wx_baseline_snapshot_id ctx \<noteq> []"
  shows "peaceful te ws (worker_answer env ctx report)"
  unfolding worker_answer_def worker_snapshot_def Let_def if_P [OF assms] by (intro peaceful_rules)

lemma peaceful_recover [peaceful_rules]:
  assumes "wx_baseline_snapshot_id ctx \<noteq> []"
  shows "peaceful te ws (try_recover env ctx reason)"
  unfolding try_recover_def recover_repair_def worker_snapshot_def Let_def if_P [OF assms] by (intro peaceful_rules)

lemma peaceful_handlers [peaceful_rules]:
  assumes "wx_baseline_snapshot_id ctx \<noteq> []"
  shows "peaceful te ws (worker_handlers env ctx e)"
  by (cases e) (simp_all add: worker_handlers_def peaceful_rules assms)

lemma peaceful_cleanup:
  assumes "ws \<noteq> []"
  shows "peaceful te ws (worker_cleanup :: ('x agent_state, unit) io)"
proof -
  have "agent_keeps te ws s (fst ((case ag_temporary s of None \<Rightarrow> sret () | Some t \<Rightarrow> on_tools (cleanup t)) s))"
    if "calm_agent ws s" for s :: "'x agent_state"
    using that untouched_off(1) [OF _ assms]
    by (auto simp: agent_keeps_def calm_agent_def copies_off_def on_tools_def sfocus_def cleanup_def split: option.splits
        intro!: programs_step(1))
  then have last: "peaceful te ws (sbind (sget ag_temporary) (\<lambda>t. case t of None \<Rightarrow> sret () | Some t \<Rightarrow> on_tools (cleanup t)) ::
      ('x agent_state, unit) io)"
    by (intro peaceful_bind_state peaceful_pure) simp
  show ?thesis
    unfolding worker_cleanup_def by (intro peaceful_bind peaceful_cases peaceful_pure peaceful_tools harmless_close assms last)
qed

lemma peaceful_body:
  fixes env :: "'x agent_env"
  assumes "usual_names (ae_tools env) ws" and "ws \<noteq> []" and "wx_workspace ctx = ws" and "wx_baseline_snapshot_id ctx \<noteq> []"
    and "write_files caps \<longleftrightarrow> wt_kind (wx_task ctx) = Repair"
  shows "peaceful (ae_tools env) ws (worker_body env ctx caps extra)"
  unfolding worker_body_def
proof (rule peaceful_bind_state [OF staging_peaceful [OF assms(1-3)]])
  fix s s' :: "'x agent_state" and x
  assume calm: "calm_agent ws s" and prep: "prepare_staging env ctx s = (s', Inr x)"
  have "agent_keeps (ae_tools env) ws s s'" by (rule keepsD [OF staging_peaceful [OF assms(1-3)] prep])
  then have "calm_agent ws s'" using calm unfolding agent_keeps_def by blast
  then have staged: "place ws (ag_staging s')" by (simp add: calm_agent_def)
  let ?cfg = "worker_config env ctx caps (ag_staging s')"
  have place: "place ws (tk_workspace ?cfg)" using staged by (simp add: worker_config_def)
  have off: "off ws (tk_workspace ?cfg)" if "write_files (tk_capabilities ?cfg)"
  proof -
    have "wt_kind (wx_task ctx) = Repair" using that assms(5) by (simp add: worker_config_def)
    from repair_staging_off [OF assms(1,3) this prep] show ?thesis by (simp add: worker_config_def)
  qed
  let ?rest = "\<lambda>resumed reg. sbind (smodify (\<lambda>s. s\<lparr>ag_registry := Some reg\<rparr>)) (\<lambda>_.
         sbind (run_loop env (ae_worker env) (\<lambda>r. Some (wp_used_skill_refs r)) (\<lambda>refs r. r\<lparr>wp_used_skill_refs := refs\<rparr>) reg
                  \<lparr>li_run_id = wx_run_id ctx, li_agent_id = worker_agent_id ctx, li_invocation_id = wx_invocation_id ctx\<rparr>
                  (ae_worker_prompt env ctx caps resumed) (Some extra)) (\<lambda>report.
         worker_answer env ctx report))"
  have "peaceful (ae_tools env) ws (sbind (on_tools (create_worker_registry (ae_tools env) ?cfg)) (?rest resumed))" for resumed
  proof (rule peaceful_bind_state [OF peaceful_tools [OF harmless_registry [OF assms(1,2) place off]]])
    fix s s' :: "'x agent_state" and reg
    assume "calm_agent ws s" "on_tools (create_worker_registry (ae_tools env) ?cfg) s = (s', Inr reg)"
    then have "calm ws reg"
      using registry_calm [OF harmless_disposable [OF assms(1,2) place] place off, of "ag_tools s"]
      by (auto simp: on_tools_def sfocus_def calm_agent_def split: prod.splits)
    then have "peaceful (ae_tools env) ws (?rest resumed reg)"
      by (intro peaceful_bind peaceful_fields peaceful_loop assms(1,2) peaceful_answer assms(4))
    then show "agent_keeps (ae_tools env) ws s' (fst (?rest resumed reg s'))" by (simp add: keeps_def)
  qed
  then show "agent_keeps (ae_tools env) ws s' (fst ((case x of Inr early \<Rightarrow> sret early | Inl resumed \<Rightarrow>
      sbind (sget ag_staging) (\<lambda>staging.
         sbind (on_tools (create_worker_registry (ae_tools env) (worker_config env ctx caps staging))) (?rest resumed))) s'))"
    by (auto simp: sbind_at keeps_def agent_keeps_refl split: sum.splits)
qed

lemma peaceful_worker:
  assumes "usual_names (ae_tools env) ws" and "ws \<noteq> []" and "wx_workspace ctx = ws" and "wx_baseline_snapshot_id ctx \<noteq> []"
  shows "peaceful (ae_tools env) ws (worker_execute env ctx caps)"
  unfolding worker_execute_def
  by (intro peaceful_rules peaceful_cleanup peaceful_body) (use assms in \<open>auto simp: place_def\<close>)

text \<open>The supervisor only reads.\<close>

lemma peaceful_decide:
  assumes "usual_names (ae_tools env) ws" and "ws \<noteq> []" and "sx_workspace ctx = ws"
  shows "peaceful (ae_tools env) ws (decide env ctx)"
proof -
  let ?cfg = "supervisor_config env ctx"
  have place: "place ws (tk_workspace ?cfg)" and ro: "write_files (tk_capabilities ?cfg) \<Longrightarrow> off ws (tk_workspace ?cfg)"
    using assms(3) by (simp_all add: supervisor_config_def place_def SUPERVISOR_CAPABILITIES_def)
  have "peaceful (ae_tools env) ws (sfinally (run_loop env gw a b reg ids prompts e) (on_tools close_temporaries))" if "calm ws reg"
    for gw :: "supervisor_decision gateway" and a b reg ids prompts e
    by (intro peaceful_rules peaceful_loop assms that harmless_close)
  then show ?thesis
    unfolding decide_def
    using registry_calm [OF harmless_disposable [OF assms(1,2) place] place ro]
    by (intro peaceful_bind_state peaceful_tools harmless_registry [OF assms(1,2) place ro])
      (auto simp: on_tools_def sfocus_def calm_agent_def keeps_def split: prod.splits)
qed

section \<open>The edits of a worker\<close>

definition scoped_run :: "worker_task \<Rightarrow> worker_run \<Rightarrow> bool" where
  "scoped_run task run \<longleftrightarrow>
     wr_changed_files (run_result run) = map fe_path (run_edits run) \<and>
     (wt_kind task \<noteq> Repair \<longrightarrow> run_edits run = []) \<and>
     (wt_write_scope task \<noteq> [] \<longrightarrow>
        (\<forall>e \<in> set (run_edits run). \<exists>q. normalize_write_path (fe_path e) = Inr q \<and> q \<in> set (wt_write_scope task)))"

lemma returns_collect:
  assumes "wt_kind task = Repair"
  shows "returns (\<lambda>es. wt_write_scope task \<noteq> [] \<longrightarrow>
      (\<forall>e \<in> set es. \<exists>q. normalize_write_path (fe_path e) = Inr q \<and> q \<in> set (wt_write_scope task)))
    (collect_repair_edits env source (worker_scope task))"
  using assms
  by (auto simp: returns_def collect_repair_edits_def rbind_Inr_iff check_opt_scope_def worker_scope_def intro: check_scope_Inr)

lemma scoped_bare: "scoped_run task (blocked ctx m)" "scoped_run task (exhausted ctx m)"
  by (simp_all add: scoped_run_def blocked_def exhausted_def bare_run_def base_result_def)

lemma returns_answer: "returns (scoped_run (wx_task ctx)) (worker_answer env ctx report)"
proof (cases "wt_kind (wx_task ctx) = Repair")
  case True
  show ?thesis
    unfolding worker_answer_def Let_def if_P [OF True]
    by (rule returns_bind, rule returns_bind_strong [OF returns_collect [OF True]], rule returns_bind, rule returns_ret)
      (use True in \<open>simp add: scoped_run_def\<close>)
next
  case False
  then show ?thesis
    unfolding worker_answer_def Let_def
    by (auto simp: returns_def sbind_Inr_iff scoped_run_def)
qed

lemma returns_recover:
  assumes "wt_kind (wx_task ctx) = Repair"
  shows "returns (\<lambda>run. \<forall>x. run = Some x \<longrightarrow> scoped_run (wx_task ctx) x) (recover_repair env ctx reason)"
proof -
  have collected: "returns (\<lambda>r. \<forall>es. r = Inr es \<longrightarrow> wt_write_scope (wx_task ctx) \<noteq> [] \<longrightarrow>
      (\<forall>e \<in> set es. \<exists>q. normalize_write_path (fe_path e) = Inr q \<and> q \<in> set (wt_write_scope (wx_task ctx))))
    (stry (collect_repair_edits env source (worker_scope (wx_task ctx))))" for source
    using returns_collect [OF assms, of env source] by (auto simp: returns_def)
  show ?thesis
    unfolding recover_repair_def
    by (rule returns_bind, rule returns_bind, rule returns_bind_strong [OF collected])
      (auto simp: Let_def assms scoped_run_def blocked_def bare_run_def base_result_def intro!: returns_rules)
qed

lemma returns_worker: "returns (scoped_run (wx_task ctx)) (worker_execute env ctx caps)"
proof -
  have early: "returns (\<lambda>p. \<forall>x. p = Inr x \<longrightarrow> scoped_run (wx_task ctx) x) (prepare_staging env ctx)"
    unfolding prepare_staging_def resume_candidate_def Let_def by (intro returns_rules) (simp_all add: scoped_bare)
  have body: "returns (scoped_run (wx_task ctx)) (worker_body env ctx caps extra)" for extra
    unfolding worker_body_def
    by (rule returns_bind_strong [OF early]) (auto intro!: returns_ret returns_bind returns_answer split: sum.splits)
  have recover: "returns (\<lambda>run. \<forall>x. run = Some x \<longrightarrow> scoped_run (wx_task ctx) x) (try_recover env ctx reason)" for reason
    unfolding try_recover_def
    by (rule returns_bind_strong [where Q = "\<lambda>p. p \<longrightarrow> wt_kind (wx_task ctx) = Repair"])
      (auto simp: returns_def intro: returns_recover [unfolded returns_def, rule_format])
  have handlers: "returns (scoped_run (wx_task ctx)) (worker_handlers env ctx e)" for e
    unfolding worker_handlers_def
    by (intro returns_pyexc returns_if returns_raise returns_ret scoped_bare; rule returns_bind_strong [OF recover];
        auto intro!: returns_rules scoped_bare split: option.splits)
  have cleaned: "returns P m \<Longrightarrow> returns P (sfinally m f)" for P and m f :: "('a agent_state, _) io"
    by (auto simp: returns_def sfinally_def sbind_Inr_iff)
  have tried: "returns (\<lambda>r. \<forall>x. r = Inr x \<longrightarrow> scoped_run (wx_task ctx) x) (stry (worker_body env ctx caps extra))" for extra
    using body [of extra] by (auto simp: returns_def)
  have handled: "returns (scoped_run (wx_task ctx)) (sbind (stry (worker_body env ctx caps extra)) (\<lambda>r.
      case r of Inr run \<Rightarrow> sret run | Inl e \<Rightarrow> worker_handlers env ctx e))" for extra
    by (rule returns_bind_strong [OF tried]) (auto intro!: returns_ret handlers split: sum.splits)
  show ?thesis
    unfolding worker_execute_def
    by (rule returns_if, rule returns_ret, rule scoped_bare, rule returns_bind, rule returns_bind, rule returns_if,
        rule returns_ret, rule scoped_bare, rule cleaned, rule handled)
qed

text \<open>
  C23: what a worker hands over lies in its task's scope. Whatever the model did, whether the worker
  answered, was recovered after an exhausted budget or a failed gateway, or was blocked: a task that is
  not a repair returns no edit; every edit of a repair with a write scope is, up to normalisation, one of
  the scope's paths; and the report names exactly the files that are edited.
\<close>

theorem worker_edits_in_scope:
  "case snd (worker_execute env ctx caps s) of
     Inl e \<Rightarrow> True
   | Inr run \<Rightarrow>
       wr_changed_files (run_result run) = map fe_path (run_edits run) \<and>
       (if wt_kind (wx_task ctx) \<noteq> Repair then run_edits run = []
        else wt_write_scope (wx_task ctx) = [] \<or>
          list_all (\<lambda>e. case normalize_write_path (fe_path e) of Inl x \<Rightarrow> False | Inr q \<Rightarrow> q \<in> set (wt_write_scope (wx_task ctx)))
            (run_edits run))"
proof (cases "snd (worker_execute env ctx caps s)")
  case (Inr run)
  then have "scoped_run (wx_task ctx) run"
    using returnsD [OF returns_worker, of env ctx caps s "fst (worker_execute env ctx caps s)" run] by (metis prod.collapse)
  with Inr show ?thesis by (fastforce simp: scoped_run_def list_all_iff split: sum.split)
qed simp

text \<open>
  C22: a worker never changes the workspace itself. Whether it returns or raises, whatever the model asks
  for and whatever the task: nothing below the workspace is written, made or removed by the harness, and a
  change there is the work of a program the worker started, namely a command, test or script that was
  started in a copy off the workspace, one of the inspecting Git commands, or one of the commands with which
  Git makes the copies. A repair works on the staging copy only, and its candidate reaches the workspace
  through the graph alone. Nothing is assumed of the programs; of the context it is asked that it names the
  snapshot of the workspace, as the graph's does.
\<close>

theorem worker_keeps_workspace:
  assumes "usual_names (ae_tools env) (wx_workspace ctx)" and "wx_workspace ctx \<noteq> []"
    and "wx_baseline_snapshot_id ctx \<noteq> []" and "calm_agent (wx_workspace ctx) s"
    and "worker_execute env ctx caps s = (s', r)"
  shows "changed_by_programs (ae_tools env) (wx_workspace ctx) (ts_fs (ag_tools s)) (ts_fs (ag_tools s'))"
  using keepsD [OF peaceful_worker [OF assms(1,2) refl assms(3)] assms(5)] assms(4) unfolding agent_keeps_def by blast

text \<open>Neither does the supervisor.\<close>

theorem supervisor_keeps_workspace:
  assumes "usual_names (ae_tools env) (sx_workspace ctx)" and "sx_workspace ctx \<noteq> []"
    and "calm_agent (sx_workspace ctx) s" and "decide env ctx s = (s', r)"
  shows "changed_by_programs (ae_tools env) (sx_workspace ctx) (ts_fs (ag_tools s)) (ts_fs (ag_tools s'))"
  using keepsD [OF peaceful_decide [OF assms(1,2) refl] assms(4)] assms(3) unfolding agent_keeps_def by blast

section \<open>Examples\<close>

text \<open>A worker whose model makes one call and then answers.\<close>

definition scripted_gateway :: "tool_call_request list \<Rightarrow> 'o \<Rightarrow> 'o gateway" where
  "scripted_gateway calls answer = \<lparr>
     gw_next_action = (\<lambda>agent_id key messages. sret \<lparr>rs_content = [], rs_reasoning_content = None,
        rs_tool_calls = (if length messages \<le> 2 then calls else []), rs_input_tokens = None, rs_output_tokens = None\<rparr>),
     gw_finalize = (\<lambda>agent_id key messages. sret answer)\<rparr>"

definition demo_report :: worker_report where
  "demo_report = \<lparr>wp_status = Completed, wp_summary = ''done'', wp_evidence = [], wp_unresolved_questions = [],
     wp_used_memory_ids = [], wp_used_skill_refs = [], wp_risk = Low\<rparr>"

definition demo_call :: "string \<Rightarrow> tool_call_request" where
  "demo_call new_text = \<lparr>tc_call_id = ''c1'', tc_name = ''replace_text'', tc_arguments =
     [(''path'', JStr ''a.py''), (''old_text'', JStr ''old''), (''new_text'', JStr new_text)]\<rparr>"

definition demo_agent :: "unit agent_env" where
  "demo_agent = \<lparr>ae_tools = busy_tools,
     ae_supervisor = scripted_gateway [] \<lparr>sd_action = Stop, sd_reasoning_summary = ''stop'', sd_tasks = [], sd_stop_reason = None\<rparr>,
     ae_worker = scripted_gateway [demo_call ''new''] demo_report, ae_clock = int, ae_uuid = show_nat, ae_float = (\<lambda>_. []),
     ae_str = (\<lambda>_. []), ae_supervisor_prompt = (\<lambda>_. (''s'', ''t'')), ae_worker_prompt = (\<lambda>_ _ _. (''s'', ''t'')),
     ae_max_iterations = 3, ae_max_tool_calls = 3, ae_timeout = 1000, ae_max_chars = 100\<rparr>"

definition demo_repair :: worker_context where
  "demo_repair = \<lparr>wx_run_id = ''r'', wx_repo = \<lparr>owner = ''o'', repo_name = ''r'', base_commit = ''c''\<rparr>,
     wx_failure = \<lparr>cf_summary = [], cf_log_excerpt = [], failed_commands = [], workflow_yaml = [], workflow_path = None, task_family = []\<rparr>,
     wx_workspace = [''w''], wx_invocation_id = ''i'', wx_task = demo_task\<lparr>wt_write_scope := [''a.py''], wt_budget := None\<rparr>,
     wx_memories = [], wx_recommended_skills = [], wx_baseline_snapshot_id = ''snapshot'', wx_previous_attempt_summary = None,
     wx_resume_artifact_ref = None\<rparr>"

definition demo_agent_state :: "unit agent_state" where
  "demo_agent_state = \<lparr>ag_tools = new_tool_state demo_ws (), ag_recorder = new_recorder None, ag_tick = 0, ag_budgets = None,
     ag_files = (\<lambda>_. None), ag_temporary = None, ag_staging = [''w''], ag_registry = None, ag_restored = []\<rparr>"

theorem worker_keeps_workspace_witness:
  "\<exists>s' r. worker_execute demo_agent demo_repair WORKER_REPAIR_CAPABILITIES demo_agent_state = (s', r) \<and>
     ts_fs (ag_tools s') [''w'', ''a.py''] = Some (Reg ''old'' 420)"
proof -
  obtain s' r where run: "worker_execute demo_agent demo_repair WORKER_REPAIR_CAPABILITIES demo_agent_state = (s', r)"
    by (metis prod.exhaust)
  have "usual_names (ae_tools demo_agent) (wx_workspace demo_repair)" using busy_names by (simp add: demo_agent_def demo_repair_def)
  moreover have "calm_agent (wx_workspace demo_repair) demo_agent_state"
    by (simp add: calm_agent_def copies_off_def place_def demo_agent_state_def demo_repair_def new_tool_state_def)
  ultimately have "changed_by_programs busy_tools [''w''] demo_ws (ts_fs (ag_tools s'))"
    using worker_keeps_workspace [OF _ _ _ _ run] by (simp add: demo_repair_def demo_agent_def demo_agent_state_def new_tool_state_def)
  then have "untouched [''w''] demo_ws (ts_fs (ag_tools s'))" by (rule programs_untouched) (rule busy_external)
  with run show ?thesis by (auto simp: untouched_def demo_ws_def)
qed

end
