(* ===== verification/Memory.thy ===== *)
theory Memory
  imports GraphState
begin

text \<open>
  Long-term memory: \<^verbatim>\<open>memory/models.py\<close>, \<^verbatim>\<open>memory/store.py\<close> and \<^verbatim>\<open>memory/consolidation.py\<close>.

  The state is the content of the SQLite tables: rows in the order they were inserted. The columns that
  hold JSON lists hold the lists, a time is an integer, and the matching and ranking of the full-text
  index is a parameter: \<open>rank expression rows row\<close> is \<open>bm25\<close> of a row that matches. Rows that an
  \<open>ORDER BY\<close> leaves equal keep the order of the tables. Lower-casing and white space are those of ASCII,
  and \<open>uuid5\<close> is a parameter. The schema migration of the constructor is left out.
\<close>

section \<open>Text\<close>

text \<open>The longest runs of elements with a property, as \<open>re.findall("[...]+", ...)\<close> finds them.\<close>

function (sequential) runs :: "('a \<Rightarrow> bool) \<Rightarrow> 'a list \<Rightarrow> 'a list list" where
  "runs P [] = []"
| "runs P (x # xs) = (if P x then (x # takeWhile P xs) # runs P (dropWhile P xs) else runs P xs)"
  by pat_completeness auto
termination
  by (relation "measure (\<lambda>(P, xs). length xs)") (auto simp: le_imp_less_Suc length_dropWhile_le)

text \<open>\<open>text.split()\<close> and \<open>" ".join(text.split())\<close>\<close>

definition words :: "string \<Rightarrow> string list" where
  "words s = runs (\<lambda>c. \<not> is_space c) s"

definition is_ascii_alnum :: "string \<Rightarrow> bool" where
  "is_ascii_alnum c \<longleftrightarrow> (case c of
     [b] \<Rightarrow> in_range 48 57 b \<or> in_range 65 90 b \<or> in_range 97 122 b | _ \<Rightarrow> False)"

text \<open>A code point of \<open>[\u0080-\uffff]\<close> is encoded in two or three bytes.\<close>

definition is_bmp :: "string \<Rightarrow> bool" where
  "is_bmp c \<longleftrightarrow> (case c of b # _ \<Rightarrow> in_range 194 239 b | [] \<Rightarrow> False)"

definition fts_tokens :: "string \<Rightarrow> string list" where
  "fts_tokens text =
     (let low = code_points (lower text);
          long = (\<lambda>P s. map concat (filter (\<lambda>r. 2 \<le> length r) (runs P s)));
          tokens = take 24 (dedup (long (\<lambda>c. is_ascii_alnum c \<or> c = ''_'') low @ long is_bmp (code_points text)))
      in if tokens = [] then take 24 (filter (\<lambda>c. is_ascii_alnum c \<or> is_bmp c) low) else tokens)"

definition quoted :: "string \<Rightarrow> string" where
  "quoted token = [CHR 0x22] @ token @ [CHR 0x22]"

definition fts_query :: "string \<Rightarrow> string" where
  "fts_query text = join '' OR '' (map quoted (fts_tokens text))"

section \<open>Episodes and facts\<close>

record episode =
  ep_id :: string
  ep_run_id :: string
  ep_repo :: string
  ep_task_family :: string
  ep_failure_summary :: string
  ep_root_cause :: "string option"
  ep_important_evidence :: "string list"
  ep_attempts :: int
  ep_successful_fix_summary :: "string option"
  ep_tools_used :: "string list"
  ep_hypotheses_attempted :: "string list"
  ep_verification_failures :: "string list"
  ep_failure_reason :: "string option"
  ep_success :: bool
  ep_failure_fingerprint :: string
  ep_repo_revision :: "string option"
  ep_failure_class :: failure_class
  ep_failure_stage :: "string option"
  ep_attempted_fix_summaries :: "string list"
  ep_attempted_files :: "string list"
  ep_external_failure_details :: "string list"
  ep_created_at :: int

record long_term_memory =
  lt_id :: string
  lt_repository :: string
  lt_content :: string
  lt_confidence :: real
  lt_source_run_ids :: "string list"
  lt_created_at :: int
  lt_updated_at :: int
  lt_last_accessed_at :: "int option"

datatype fact_type = CFact | CNone

record fact_candidate =
  cn_type :: fact_type
  cn_content :: "string option"
  cn_confidence :: real
  cn_evidence_event_ids :: "string list"

definition fact_fields_are_complete :: "fact_candidate \<Rightarrow> fact_candidate res" where
  "fact_fields_are_complete c =
     (if cn_type c = CFact \<and> \<not> truthy (cn_content c) then Inl (ValueError ''fact candidate requires content'') else Inr c)"

definition join_items :: "string list \<Rightarrow> string" where
  "join_items items = join ''; '' (filter (\<lambda>i. i \<noteq> []) items)"

definition optional_part :: "string \<Rightarrow> string option \<Rightarrow> string list" where
  "optional_part label x = (if truthy x then [label @ the x] else [])"

definition list_part :: "string \<Rightarrow> string list \<Rightarrow> string list" where
  "list_part label items = (if items = [] then [] else [label @ join_items items])"

definition marked_fix :: "string \<Rightarrow> string" where
  "marked_fix item =
     (if contains ''failed'' (lower item) \<or> contains ''unconfirmed'' (lower item) then item
      else item @ '' (failed/unconfirmed)'')"

text \<open>\<open>format_episode_content\<close> on the fields of an episode (\<open>_episode_content\<close>)\<close>

definition episode_content :: "episode \<Rightarrow> string" where
  "episode_content e =
     join newline (filter (\<lambda>p. p \<noteq> [])
       (if ep_success e then
          [''OUTCOME=success'', ep_failure_summary e] @ optional_part ''ROOT_CAUSE='' (ep_root_cause e) @
          optional_part ''SUCCESSFUL_FIX='' (ep_successful_fix_summary e)
        else
          [''OUTCOME=failed'', ''FAILURE_CLASS='' @ failure_class_str (ep_failure_class e), ep_failure_summary e] @
          optional_part ''FAILURE_STAGE='' (ep_failure_stage e) @ optional_part ''FAILURE_REASON='' (ep_failure_reason e) @
          list_part ''ATTEMPTED_FIXES='' (map marked_fix (ep_attempted_fix_summaries e)) @
          list_part ''ATTEMPTED_FILES='' (ep_attempted_files e) @
          list_part ''VERIFICATION_FAILURES='' (ep_verification_failures e) @
          list_part ''EXTERNAL_FAILURE_DETAILS='' (ep_external_failure_details e) @
          optional_part ''HYPOTHESIS (unverified): '' (ep_root_cause e) @
          list_part ''HYPOTHESES_ATTEMPTED (unverified): '' (ep_hypotheses_attempted e)))"

section \<open>Tables\<close>

record fact_row =
  fr_memory :: long_term_memory
  fr_archived :: bool

record memory_tables =
  mt_episodes :: "episode list"
  mt_episodes_fts :: "(string \<times> string) list"
  mt_facts :: "fact_row list"
  mt_facts_fts :: "(string \<times> string) list"
  mt_operations :: "(string \<times> payload) list"

definition empty_memory :: memory_tables where
  "empty_memory = \<lparr>mt_episodes = [], mt_episodes_fts = [], mt_facts = [], mt_facts_fts = [], mt_operations = []\<rparr>"

abbreviation fr_id :: "fact_row \<Rightarrow> string" where
  "fr_id r \<equiv> lt_id (fr_memory r)"

type_synonym fts_rank = "string \<Rightarrow> (string \<times> string) list \<Rightarrow> string \<times> string \<Rightarrow> real option"

section \<open>Operations of the store\<close>

definition add_episode :: "episode \<Rightarrow> (memory_tables, unit) io" where
  "add_episode e = smodify (\<lambda>m.
     if list_ex (\<lambda>x. ep_id x = ep_id e \<or> ep_run_id x = ep_run_id e) (mt_episodes m) then m
     else m\<lparr>mt_episodes := mt_episodes m @ [e], mt_episodes_fts := mt_episodes_fts m @ [(ep_id e, episode_content e)]\<rparr>)"

definition get_episode :: "string \<Rightarrow> memory_tables \<Rightarrow> episode option" where
  "get_episode run_id m = find (\<lambda>e. ep_run_id e = run_id) (mt_episodes m)"

definition episode_hit :: "real option \<Rightarrow> episode \<Rightarrow> memory_hit" where
  "episode_hit rank e = \<lparr>mh_memory_id = ep_id e, mh_namespace = ''episode:'' @ ep_repo e, mh_content = episode_content e,
     mh_score = (case rank of None \<Rightarrow> 1 | Some r \<Rightarrow> 1 / (1 + \<bar>r\<bar>))\<rparr>"

definition fact_hit :: "real \<Rightarrow> fact_row \<Rightarrow> memory_hit" where
  "fact_hit score r = \<lparr>mh_memory_id = fr_id r, mh_namespace = ''repo:'' @ lt_repository (fr_memory r),
     mh_content = lt_content (fr_memory r), mh_score = score\<rparr>"

definition get_memory_hit :: "string \<Rightarrow> string \<Rightarrow> memory_tables \<Rightarrow> memory_hit option" where
  "get_memory_hit memory_id repository m =
     (if repository = [] then None
      else if starts_with ''episode:'' memory_id
      then map_option (episode_hit None) (find (\<lambda>e. ep_id e = memory_id) (mt_episodes m))
      else map_option (fact_hit 1)
        (find (\<lambda>r. fr_id r = memory_id \<and> lt_repository (fr_memory r) = repository \<and> \<not> fr_archived r) (mt_facts m)))"

definition operation_result :: "string \<Rightarrow> memory_tables \<Rightarrow> payload option" where
  "operation_result key m = map_of (mt_operations m) key"

definition record_operation :: "string \<Rightarrow> payload \<Rightarrow> (memory_tables, bool) io" where
  "record_operation key result =
     (\<lambda>m. (m\<lparr>mt_operations := insert_or_ignore fst (key, result) (mt_operations m)\<rparr>,
           Inr (map_of (mt_operations m) key = None)))"

definition list_long_term :: "string \<Rightarrow> int \<Rightarrow> memory_tables \<Rightarrow> long_term_memory list" where
  "list_long_term repository limit m =
     (if repository = [] \<or> limit \<le> 0 then []
      else take (nat limit) (sort_key (\<lambda>f. - lt_updated_at f)
        (map fr_memory (filter (\<lambda>r. lt_repository (fr_memory r) = repository \<and> \<not> fr_archived r) (mt_facts m)))))"

definition merge_fact :: "int \<Rightarrow> long_term_memory \<Rightarrow> fact_row \<Rightarrow> fact_row" where
  "merge_fact now memory r =
     \<lparr>fr_memory = (fr_memory r)
        \<lparr>lt_source_run_ids := dedup (lt_source_run_ids (fr_memory r) @ lt_source_run_ids memory),
         lt_confidence := max (lt_confidence (fr_memory r)) (lt_confidence memory), lt_updated_at := now\<rparr>,
      fr_archived = False\<rparr>"

definition add_long_term :: "int \<Rightarrow> long_term_memory \<Rightarrow> string option \<Rightarrow> (memory_tables, bool) io" where
  "add_long_term now memory operation_key =
     (\<lambda>m. if truthy operation_key \<and> operation_result (the operation_key) m \<noteq> None then (m, Inr False)
       else
         let created = (\<not> list_ex (\<lambda>r. fr_id r = lt_id memory) (mt_facts m));
             m1 = (if created
               then m\<lparr>mt_facts := mt_facts m @ [\<lparr>fr_memory = memory, fr_archived = False\<rparr>],
                      mt_facts_fts := mt_facts_fts m @ [(lt_id memory, lt_content memory)]\<rparr>
               else m\<lparr>mt_facts := map (\<lambda>r. if fr_id r = lt_id memory then merge_fact now memory r else r) (mt_facts m)\<rparr>);
             m2 = (if truthy operation_key
               then m1\<lparr>mt_operations := mt_operations m1 @
                      [(the operation_key, [(''memory_id'', JStr (lt_id memory)), (''created'', JBool created)])]\<rparr>
               else m1)
         in (m2, Inr created))"

text \<open>The join of an index with its table: the rows that match, with their rank.\<close>

definition matching ::
  "fts_rank \<Rightarrow> string \<Rightarrow> (string \<times> string) list \<Rightarrow> ('r \<Rightarrow> string) \<Rightarrow> 'r list \<Rightarrow> (real \<times> 'r) list" where
  "matching rank expression fts key rows =
     concat (map (\<lambda>f. case rank expression fts f of
         None \<Rightarrow> []
       | Some r \<Rightarrow> map (Pair r) (filter (\<lambda>x. key x = fst f) rows)) fts)"

definition search_long_term ::
  "fts_rank \<Rightarrow> int \<Rightarrow> string \<Rightarrow> string \<Rightarrow> int \<Rightarrow> (memory_tables, memory_hit list) io" where
  "search_long_term rank now query repository limit =
     (\<lambda>m. let expression = fts_query query in
       if expression = [] \<or> repository = [] \<or> limit \<le> 0 then (m, Inr [])
       else
         let found = filter (\<lambda>(r, x). lt_repository (fr_memory x) = repository \<and> \<not> fr_archived x)
               (matching rank expression (mt_facts_fts m) fr_id (mt_facts m));
             rows = take (nat limit) (sort_key fst (sort_key (\<lambda>(r, x). - lt_confidence (fr_memory x)) found));
             ids = map (fr_id \<circ> snd) rows
         in (m\<lparr>mt_facts := map (\<lambda>x. if fr_id x \<in> set ids
                  then x\<lparr>fr_memory := (fr_memory x)\<lparr>lt_last_accessed_at := Some now\<rparr>\<rparr> else x) (mt_facts m)\<rparr>,
             Inr (map (\<lambda>(r, x). fact_hit (1 / (1 + \<bar>r\<bar>)) x) rows)))"

text \<open>The orders of \<open>ORDER BY\<close>, the last one first: later sorts are stable.\<close>

definition search_episodes :: "fts_rank \<Rightarrow> string \<Rightarrow> string \<Rightarrow> int \<Rightarrow> memory_tables \<Rightarrow> memory_hit list" where
  "search_episodes rank query repo limit m =
     (let expression = fts_query query in
      if expression = [] \<or> limit \<le> 0 then []
      else
        let found = matching rank expression (mt_episodes_fts m) ep_id (mt_episodes m);
            rows = sort_key (\<lambda>(r, e). ep_repo e \<noteq> repo) (sort_key (\<lambda>(r, e). \<not> ep_success e) (sort_key fst
              (sort_key (\<lambda>(r, e). - ep_created_at e) found)))
        in map (\<lambda>(r, e). episode_hit (Some r) e) (take (nat limit) rows))"

definition search_episodes_by_fingerprint :: "string \<Rightarrow> string \<Rightarrow> int \<Rightarrow> memory_tables \<Rightarrow> memory_hit list" where
  "search_episodes_by_fingerprint repo fingerprint limit m =
     (if fingerprint = [] \<or> limit \<le> 0 then []
      else
        let rows = sort_key (\<lambda>e. - ep_created_at e)
              (filter (\<lambda>e. ep_repo e = repo \<and> ep_failure_fingerprint e = fingerprint) (mt_episodes m));
            first = (\<lambda>P. case find P rows of None \<Rightarrow> [] | Some e \<Rightarrow> [e])
        in map (episode_hit None) (take (nat limit) (first (\<lambda>e. \<not> ep_success e) @ first ep_success)))"

definition archive :: "string \<Rightarrow> (memory_tables, unit) io" where
  "archive memory_id = smodify (\<lambda>m.
     m\<lparr>mt_facts := map (\<lambda>r. if fr_id r = memory_id then r\<lparr>fr_archived := True\<rparr> else r) (mt_facts m)\<rparr>)"

section \<open>Consolidation\<close>

text \<open>\<open>re.sub(r"\s+", " ", s)\<close> on a stripped text\<close>

definition collapse_spaces :: "string \<Rightarrow> string" where
  "collapse_spaces s = join '' '' (words s)"

definition fact_punctuation :: "string list" where
  "fact_punctuation = [''.'', ''!'', ''?'', '';'', '','', '':''] @ map (map char_of)
     [[227::nat, 128, 130], [239, 188, 129], [239, 188, 159], [239, 188, 155], [239, 188, 140], [239, 188, 154]]"

definition normalize_fact_content :: "string \<Rightarrow> string" where
  "normalize_fact_content content =
     concat (rev (dropWhile (\<lambda>c. c \<in> set fact_punctuation)
       (rev (code_points (collapse_spaces (lower (strip content)))))))"

definition fact_memory_id :: "(string \<Rightarrow> string) \<Rightarrow> string \<Rightarrow> string \<Rightarrow> string" where
  "fact_memory_id uuid5 repository content = uuid5 (''evoci:'' @ repository @ '':'' @ normalize_fact_content content)"

definition commit_nothing :: "string option \<Rightarrow> (memory_tables, string option) io" where
  "commit_nothing operation_key =
     (if truthy operation_key
      then sbind (record_operation (the operation_key) [(''memory_id'', JNull), (''created'', JBool False)]) (\<lambda>_. sret None)
      else sret None)"

definition commit_candidate ::
  "(string \<Rightarrow> string) \<Rightarrow> int \<Rightarrow> fact_candidate \<Rightarrow> string \<Rightarrow> string \<Rightarrow> string option \<Rightarrow> (memory_tables, string option) io" where
  "commit_candidate uuid5 now candidate run_id repository operation_key =
     sbind (sget (\<lambda>m. if truthy operation_key then operation_result (the operation_key) m else None)) (\<lambda>existing.
     case existing of
       Some r \<Rightarrow> sret (if jtruthy (jget r ''created'')
         then (case jget r ''memory_id'' of JStr i \<Rightarrow> if i = [] then None else Some i | _ \<Rightarrow> None) else None)
     | None \<Rightarrow>
         if cn_type candidate \<noteq> CFact \<or> \<not> truthy (cn_content candidate) then commit_nothing operation_key
         else if normalize_fact_content (the (cn_content candidate)) = [] then commit_nothing operation_key
         else
           let content = the (cn_content candidate);
               memory = \<lparr>lt_id = fact_memory_id uuid5 repository content, lt_repository = repository, lt_content = strip content,
                 lt_confidence = cn_confidence candidate, lt_source_run_ids = [run_id], lt_created_at = now, lt_updated_at = now,
                 lt_last_accessed_at = None\<rparr>
           in sbind (add_long_term now memory operation_key) (\<lambda>created.
              sret (if created then Some (lt_id memory) else None)))"

section \<open>The tables stay consistent\<close>

text \<open>The calls that change the tables.\<close>

datatype memory_call =
    AddEpisode episode
  | RecordOperation string payload
  | AddLongTerm int long_term_memory "string option"
  | SearchLongTerm fts_rank int string string int
  | Archive string
  | CommitCandidate "string \<Rightarrow> string" int fact_candidate string string "string option"

fun memory_step :: "memory_call \<Rightarrow> memory_tables \<Rightarrow> memory_tables" where
  "memory_step (AddEpisode e) m = fst (add_episode e m)"
| "memory_step (RecordOperation key result) m = fst (record_operation key result m)"
| "memory_step (AddLongTerm now memory key) m = fst (add_long_term now memory key m)"
| "memory_step (SearchLongTerm rank now query repository limit) m = fst (search_long_term rank now query repository limit m)"
| "memory_step (Archive i) m = fst (archive i m)"
| "memory_step (CommitCandidate uuid5 now candidate run_id repository key) m =
     fst (commit_candidate uuid5 now candidate run_id repository key m)"

text \<open>
  Keys are unique, and each index holds, row for row, the identifiers and the texts of its table, though
  it is written only when a row is new.
\<close>

definition memory_wf :: "memory_tables \<Rightarrow> bool" where
  "memory_wf m \<longleftrightarrow>
     distinct (map ep_id (mt_episodes m)) \<and> distinct (map ep_run_id (mt_episodes m)) \<and>
     mt_episodes_fts m = map (\<lambda>e. (ep_id e, episode_content e)) (mt_episodes m) \<and>
     distinct (map fr_id (mt_facts m)) \<and>
     mt_facts_fts m = map (\<lambda>r. (fr_id r, lt_content (fr_memory r))) (mt_facts m) \<and>
     distinct (map fst (mt_operations m))"

text \<open>What a table keeps of a fact.\<close>

definition fact_kept :: "fact_row \<Rightarrow> fact_row \<Rightarrow> bool" where
  "fact_kept r r' \<longleftrightarrow> fr_id r' = fr_id r \<and> lt_repository (fr_memory r') = lt_repository (fr_memory r) \<and>
     lt_content (fr_memory r') = lt_content (fr_memory r) \<and> lt_created_at (fr_memory r') = lt_created_at (fr_memory r) \<and>
     lt_confidence (fr_memory r) \<le> lt_confidence (fr_memory r') \<and>
     set (lt_source_run_ids (fr_memory r)) \<subseteq> set (lt_source_run_ids (fr_memory r'))"

definition memory_kept :: "memory_tables \<Rightarrow> memory_tables \<Rightarrow> bool" where
  "memory_kept m m' \<longleftrightarrow> prefix (mt_episodes m) (mt_episodes m') \<and> prefix (mt_operations m) (mt_operations m') \<and>
     length (mt_facts m) \<le> length (mt_facts m') \<and>
     (\<forall>i < length (mt_facts m). fact_kept (mt_facts m ! i) (mt_facts m' ! i))"

definition memory_ok :: "memory_tables \<Rightarrow> memory_tables \<Rightarrow> bool" where
  "memory_ok m m' \<longleftrightarrow> (memory_wf m \<longrightarrow> memory_wf m') \<and> memory_kept m m'"

lemma fact_kept_refl: "fact_kept r r"
  by (simp add: fact_kept_def)

lemma fact_kept_trans: "fact_kept a b \<Longrightarrow> fact_kept b c \<Longrightarrow> fact_kept a c"
  by (auto simp: fact_kept_def)

lemma memory_kept_refl: "memory_kept m m"
  by (auto simp: memory_kept_def fact_kept_refl)

lemma memory_kept_trans: "memory_kept a b \<Longrightarrow> memory_kept b c \<Longrightarrow> memory_kept a c"
  unfolding memory_kept_def by (auto intro: prefix_order.trans fact_kept_trans order.strict_trans2)

lemma memory_ok_refl: "memory_ok m m"
  by (simp add: memory_ok_def memory_kept_refl)

lemma memory_ok_trans: "memory_ok a b \<Longrightarrow> memory_ok b c \<Longrightarrow> memory_ok a c"
  by (auto simp: memory_ok_def intro: memory_kept_trans)

text \<open>A change of the facts that keeps their texts.\<close>

lemma memory_kept_map: "(\<And>r. fact_kept r (f r)) \<Longrightarrow> memory_kept m (m\<lparr>mt_facts := map f (mt_facts m)\<rparr>)"
  by (simp add: memory_kept_def)

lemma memory_wf_map:
  assumes "\<And>r. fact_kept r (f r)" and "memory_wf m"
  shows "memory_wf (m\<lparr>mt_facts := map f (mt_facts m)\<rparr>)"
proof -
  have "fr_id \<circ> f = fr_id" "(\<lambda>r. (fr_id r, lt_content (fr_memory r))) \<circ> f = (\<lambda>r. (fr_id r, lt_content (fr_memory r)))"
    using assms(1) by (simp_all add: fact_kept_def fun_eq_iff)
  with assms(2) show ?thesis by (simp add: memory_wf_def)
qed

lemma memory_ok_map: "(\<And>r. fact_kept r (f r)) \<Longrightarrow> memory_ok m (m\<lparr>mt_facts := map f (mt_facts m)\<rparr>)"
  by (simp add: memory_ok_def memory_kept_map memory_wf_map)

lemma merge_fact_kept: "fact_kept r (merge_fact now memory r)"
  by (auto simp: fact_kept_def merge_fact_def)

lemma add_episode_ok: "keeps memory_ok (add_episode e)"
  by (rule keepsI) (auto simp: add_episode_def memory_ok_def memory_kept_refl memory_wf_def memory_kept_def list_ex_iff
      fact_kept_refl)

lemma record_operation_ok: "keeps memory_ok (record_operation key result)"
  by (rule keepsI) (auto simp: record_operation_def memory_ok_def memory_wf_def memory_kept_def insert_or_ignore_def
      fact_kept_refl)

lemma add_operation_ok: "operation_result key m = None \<Longrightarrow> memory_ok m (m\<lparr>mt_operations := mt_operations m @ [(key, p)]\<rparr>)"
  by (auto simp: operation_result_def memory_ok_def memory_wf_def memory_kept_def map_of_eq_None_iff fact_kept_refl)

lemma add_fact_ok:
  "\<not> list_ex (\<lambda>r. fr_id r = lt_id memory) (mt_facts m) \<Longrightarrow>
   memory_ok m (m\<lparr>mt_facts := mt_facts m @ [\<lparr>fr_memory = memory, fr_archived = False\<rparr>],
     mt_facts_fts := mt_facts_fts m @ [(lt_id memory, lt_content memory)]\<rparr>)"
  by (auto simp: memory_ok_def memory_wf_def memory_kept_def list_ex_iff nth_append fact_kept_refl)

lemma add_long_term_ok: "keeps memory_ok (add_long_term now memory key)"
proof (rule keepsI)
  fix m
  show "memory_ok m (fst (add_long_term now memory key m))"
  proof (cases "truthy key \<and> operation_result (the key) m \<noteq> None")
    case False
    define created where "created = (\<not> list_ex (\<lambda>r. fr_id r = lt_id memory) (mt_facts m))"
    define m1 where "m1 = (if created
       then m\<lparr>mt_facts := mt_facts m @ [\<lparr>fr_memory = memory, fr_archived = False\<rparr>],
              mt_facts_fts := mt_facts_fts m @ [(lt_id memory, lt_content memory)]\<rparr>
       else m\<lparr>mt_facts := map (\<lambda>r. if fr_id r = lt_id memory then merge_fact now memory r else r) (mt_facts m)\<rparr>)"
    have 1: "memory_ok m m1"
      unfolding m1_def using add_fact_ok memory_ok_map by (auto simp: created_def merge_fact_kept fact_kept_refl)
    have "operation_result k m1 = operation_result k m" for k by (simp add: m1_def operation_result_def)
    with False have 2: "truthy key \<Longrightarrow> memory_ok m1 (m1\<lparr>mt_operations := mt_operations m1 @ [(the key, p)]\<rparr>)" for p
      by (intro add_operation_ok) simp
    have "fst (add_long_term now memory key m) = (if truthy key
        then m1\<lparr>mt_operations := mt_operations m1 @ [(the key, [(''memory_id'', JStr (lt_id memory)), (''created'', JBool created)])]\<rparr>
        else m1)"
      using False unfolding add_long_term_def m1_def created_def Let_def by (auto simp only: if_False fst_conv)
    with memory_ok_trans [OF 1 2] 1 show ?thesis by simp
  qed (simp add: add_long_term_def memory_ok_refl)
qed

lemma search_long_term_ok: "keeps memory_ok (search_long_term rank now query repository limit)"
  by (rule keepsI) (auto simp: search_long_term_def Let_def memory_ok_refl fact_kept_def intro!: memory_ok_map)

lemma archive_ok: "keeps memory_ok (archive i)"
  by (rule keepsI) (auto simp: archive_def fact_kept_def intro!: memory_ok_map)

lemma memory_ok_bind: "keeps memory_ok f \<Longrightarrow> (\<And>x. keeps memory_ok (g x)) \<Longrightarrow> keeps memory_ok (sbind f g)"
  by (rule keeps_bind) (auto intro: memory_ok_trans)

lemmas memory_ok_rules = memory_ok_bind keeps_pure [where R = memory_ok, OF memory_ok_refl]

lemma commit_candidate_ok: "keeps memory_ok (commit_candidate uuid5 now candidate run_id repository key)"
proof -
  have none: "keeps memory_ok (commit_nothing key)"
    unfolding commit_nothing_def by (auto intro!: memory_ok_rules record_operation_ok)
  show ?thesis
    unfolding commit_candidate_def Let_def
    by (intro memory_ok_rules) (simp split: option.split, intro conjI allI impI memory_ok_rules none add_long_term_ok)
qed

lemma memory_step_ok: "memory_ok m (memory_step call m)"
  using add_episode_ok record_operation_ok add_long_term_ok search_long_term_ok archive_ok commit_candidate_ok
  by (cases call) (simp_all add: keeps_def)

lemma memory_steps_ok: "memory_ok m (fold memory_step calls m)"
  by (induction calls arbitrary: m) (auto intro: memory_ok_refl memory_ok_trans memory_step_ok)

text \<open>
  C25: the tables of the memory store are consistent whatever calls are made, in whatever order: episodes
  have unique identifiers and unique runs, facts and operations unique keys, and the full-text indexes,
  which only insertions write, hold exactly the identifiers and current texts of the rows.
\<close>

theorem memory_tables_consistent: "memory_wf (fold memory_step calls empty_memory)"
  using memory_steps_ok [of empty_memory calls] by (simp add: memory_ok_def memory_wf_def empty_memory_def)

text \<open>
  C26: memory is never lost. Whatever calls are made, the episodes and the results of operations stay as
  they were, and every fact keeps its place, its repository, its text and the time it was made, while its
  confidence does not fall and its source runs only grow.
\<close>

theorem memory_only_grows: "memory_kept m (fold memory_step calls m)"
  using memory_steps_ok [of m calls] by (simp add: memory_ok_def)

section \<open>Facts are committed once\<close>

definition committed :: "payload \<Rightarrow> string option" where
  "committed r =
     (if jtruthy (jget r ''created'')
      then (case jget r ''memory_id'' of JStr i \<Rightarrow> if i = [] then None else Some i | _ \<Rightarrow> None) else None)"

lemma commit_recorded:
  "operation_result k m = Some r \<Longrightarrow> k \<noteq> [] \<Longrightarrow>
   commit_candidate uuid5 now c run_id repository (Some k) m = (m, Inr (committed r))"
  by (simp add: commit_candidate_def sbind_def truthy_def committed_def)

text \<open>A first commit under a key records the result it returns.\<close>

lemma commit_records:
  assumes "k \<noteq> []" and "operation_result k m = None" and "\<forall>s. uuid5 s \<noteq> []"
    and "commit_candidate uuid5 now c run_id repository (Some k) m = (m1, Inr x)"
  shows "\<exists>r. operation_result k m1 = Some r \<and> committed r = x"
proof -
  have none: "map_of (mt_operations m) k = None" using assms(2) by (simp add: operation_result_def)
  have tk: "truthy (Some k)" using assms(1) by (simp add: truthy_def)
  show ?thesis
  proof (cases "cn_type c \<noteq> CFact \<or> \<not> truthy (cn_content c) \<or> normalize_fact_content (the (cn_content c)) = []")
    case True
    then have "(m1, Inr x) = commit_nothing (Some k) m"
      using assms(2,4) tk by (auto simp: commit_candidate_def sbind_def split: if_splits)
    then show ?thesis
      using assms(1) none
      by (auto simp: commit_nothing_def record_operation_def sbind_def truthy_def operation_result_def insert_or_ignore_def
          committed_def jget_def map_of_eq_None_iff map_add_Some_iff)
  next
    case False
    let ?mem = "\<lparr>lt_id = fact_memory_id uuid5 repository (the (cn_content c)), lt_repository = repository,
        lt_content = strip (the (cn_content c)), lt_confidence = cn_confidence c, lt_source_run_ids = [run_id], lt_created_at = now,
        lt_updated_at = now, lt_last_accessed_at = None\<rparr>"
    obtain created where add: "add_long_term now ?mem (Some k) m = (m1, Inr created)"
      and x: "x = (if created then Some (lt_id ?mem) else None)"
      using False assms(2,4) tk by (auto simp: commit_candidate_def sbind_Inr_iff Let_def)
    have "operation_result k m1 = Some [(''memory_id'', JStr (lt_id ?mem)), (''created'', JBool created)]"
      using add none tk by (auto simp: add_long_term_def operation_result_def Let_def map_add_def)
    moreover have "lt_id ?mem \<noteq> []" using assms(3) by (simp add: fact_memory_id_def)
    ultimately show ?thesis using x by (auto simp: committed_def jget_def)
  qed
qed

text \<open>
  a fact is committed once for a run. When a commit under an operation key has returned, another
  commit under the same key, at any later time and with whatever candidate a repeated model call has
  proposed meanwhile, changes nothing and returns the same result.
\<close>

theorem commit_candidate_replay:
  assumes "truthy key" and "\<And>s. uuid5 s \<noteq> []"
    and "commit_candidate uuid5 now c run_id repository key m = (m1, Inr x)"
  shows "commit_candidate uuid5 now' c' run_id' repository' key m1 = (m1, Inr x)"
proof -
  obtain k where k: "key = Some k" "k \<noteq> []" using assms(1) by (auto simp: truthy_def split: option.splits)
  show ?thesis
  proof (cases "operation_result k m")
    case None
    obtain r where "operation_result k m1 = Some r" "committed r = x"
      using commit_records [OF k(2) None _ assms(3) [unfolded k(1)]] assms(2) by blast
    with commit_recorded [OF _ k(2)] k(1) show ?thesis by simp
  next
    case (Some r)
    with commit_recorded [OF Some k(2)] assms(3) k(1) show ?thesis by simp
  qed
qed

definition demo_candidate :: "string \<Rightarrow> fact_candidate" where
  "demo_candidate text = \<lparr>cn_type = CFact, cn_content = Some text, cn_confidence = 1/2, cn_evidence_event_ids = []\<rparr>"

theorem commit_candidate_replay_witness:
  "\<exists>m1. commit_candidate (\<lambda>s. ''id'') 1 (demo_candidate ''Uses tox.'') ''r1'' ''o/r'' (Some ''k'') empty_memory = (m1, Inr (Some ''id'')) \<and>
     map (lt_content \<circ> fr_memory) (mt_facts m1) = [''Uses tox.''] \<and>
     commit_candidate (\<lambda>s. ''id'') 2 (demo_candidate ''Uses nox.'') ''r1'' ''o/r'' (Some ''k'') m1 = (m1, Inr (Some ''id''))"
proof -
  let ?first = "commit_candidate (\<lambda>s. ''id'') 1 (demo_candidate ''Uses tox.'') ''r1'' ''o/r'' (Some ''k'') empty_memory"
  have run: "?first = (fst ?first, Inr (Some ''id''))" "map (lt_content \<circ> fr_memory) (mt_facts (fst ?first)) = [''Uses tox.'']"
    by code_simp+
  from commit_candidate_replay [OF _ _ run(1), of 2 "demo_candidate ''Uses nox.''" "''r1''" "''o/r''"] run show ?thesis
    by (auto simp: truthy_def)
qed

section \<open>Facts stay in their repository\<close>

lemma sort_take_subset: "x \<in> set (take n (sort_key f xs)) \<Longrightarrow> x \<in> set xs"
  by (metis in_set_takeD set_sort)

lemma matching_rows: "(r, x) \<in> set (matching rank expression fts key rows) \<Longrightarrow> x \<in> set rows"
  by (auto simp: matching_def split: option.splits)

definition usable_fact :: "memory_tables \<Rightarrow> string \<Rightarrow> string \<Rightarrow> bool" where
  "usable_fact m repository content \<longleftrightarrow>
     list_ex (\<lambda>r. lt_repository (fr_memory r) = repository \<and> \<not> fr_archived r \<and> lt_content (fr_memory r) = content) (mt_facts m)"

lemma searched_facts:
  assumes "search_long_term rank now query repository limit m = (m', Inr hits)" and "h \<in> set hits"
  shows "mh_namespace h = ''repo:'' @ repository \<and> usable_fact m repository (mh_content h)"
proof -
  let ?found = "filter (\<lambda>(r, x). lt_repository (fr_memory x) = repository \<and> \<not> fr_archived x)
      (matching rank (fts_query query) (mt_facts_fts m) fr_id (mt_facts m))"
  have "hits = [] \<or> hits = map (\<lambda>(r, x). fact_hit (1 / (1 + \<bar>r\<bar>)) x)
      (take (nat limit) (sort_key fst (sort_key (\<lambda>(r, x). - lt_confidence (fr_memory x)) ?found)))"
    using assms(1) by (auto simp: search_long_term_def Let_def split: if_splits)
  with assms(2) obtain r x where x: "(r, x) \<in> set ?found" "h = fact_hit (1 / (1 + \<bar>r\<bar>)) x"
    by (auto dest!: sort_take_subset)
  with matching_rows [of r x] show ?thesis by (fastforce simp: fact_hit_def usable_fact_def list_ex_iff)
qed

lemma hit_of_fact:
  "case get_memory_hit memory_id repository m of
     None \<Rightarrow> True
   | Some h \<Rightarrow> starts_with ''episode:'' memory_id \<or>
       mh_memory_id h = memory_id \<and> mh_namespace h = ''repo:'' @ repository \<and> usable_fact m repository (mh_content h)"
  by (auto simp: get_memory_hit_def fact_hit_def usable_fact_def list_ex_iff find_Some_iff split: option.splits)

lemma listed_facts:
  "list_all (\<lambda>f. lt_repository f = repository \<and> usable_fact m repository (lt_content f)) (list_long_term repository limit m)"
  by (auto simp: list_long_term_def list_all_iff usable_fact_def list_ex_iff dest!: sort_take_subset)

text \<open>
  facts stay in their repository. Searching, listing and fetching by identifier give facts of the
  asked repository only, none that is archived, with the text the store has.
\<close>

theorem facts_stay_in_repository:
  "list_all (\<lambda>h. mh_namespace h = ''repo:'' @ repository \<and> usable_fact m repository (mh_content h))
     (projr (snd (search_long_term rank now query repository limit m))) \<and>
   list_all (\<lambda>f. lt_repository f = repository \<and> usable_fact m repository (lt_content f)) (list_long_term repository limit m) \<and>
   (case get_memory_hit memory_id repository m of
      None \<Rightarrow> True
    | Some h \<Rightarrow> starts_with ''episode:'' memory_id \<or>
        mh_memory_id h = memory_id \<and> mh_namespace h = ''repo:'' @ repository \<and> usable_fact m repository (mh_content h))"
proof -
  obtain hits where "snd (search_long_term rank now query repository limit m) = Inr hits"
    by (cases "fts_query query = [] \<or> repository = [] \<or> limit \<le> 0") (auto simp: search_long_term_def Let_def)
  moreover from this have "search_long_term rank now query repository limit m =
      (fst (search_long_term rank now query repository limit m), Inr hits)" by (simp add: prod_eq_iff)
  from searched_facts [OF this] have "list_all (\<lambda>h. mh_namespace h = ''repo:'' @ repository \<and> usable_fact m repository (mh_content h)) hits"
    by (auto simp: list_all_iff)
  ultimately have "list_all (\<lambda>h. mh_namespace h = ''repo:'' @ repository \<and> usable_fact m repository (mh_content h))
     (projr (snd (search_long_term rank now query repository limit m)))" by simp
  with listed_facts hit_of_fact show ?thesis by blast
qed

end
