(* ===== verification/SkillMemory.thy ===== *)
theory SkillMemory
  imports Memory Tools DateTime
begin

text \<open>
  The usage memory beside a skill's package: \<^verbatim>\<open>capability/skill_memory.py\<close>, with the text part of
  \<open>append_skill_memory\<close> of \<^verbatim>\<open>capability/registry.py\<close>.

  The regular expressions are written out: a lazy group followed by a literal takes the first place from
  which the rest matches. All readings of the clock within one call are the same; \<open>other\<close> is what \<open>fromisoformat\<close>
  makes of a time in another form than the one written here (theory \<open>DateTime\<close>).
\<close>

section \<open>Format\<close>

definition marker_start :: string where
  "marker_start = ''<!-- evoci-skill-memory:''"

definition memory_marker :: "string \<Rightarrow> string \<Rightarrow> string" where
  "memory_marker run_id skill_id = marker_start @ run_id @ '':'' @ skill_id @ '' -->''"

definition format_skill_memory_block :: "string \<Rightarrow> skill_memory_entry \<Rightarrow> string" where
  "format_skill_memory_block skill_id e =
     memory_marker (se_run_id e) skill_id @ newline @ newline @
     ''## '' @ time_stamp (se_created_at e) @ newline @ newline @
     ''- Run: '' @ se_run_id e @ newline @
     ''- Repository: '' @ se_repository e @ newline @
     ''- Outcome: '' @ skill_outcome_str (se_outcome e) @ newline @
     ''- Task: '' @ se_task_summary e @ newline @
     ''- Lesson: '' @ se_lesson e @ newline"

section \<open>Parsing\<close>

text \<open>\<open>re.split\<close> before each occurrence of a literal\<close>

fun segments :: "string \<Rightarrow> string \<Rightarrow> string list" where
  "segments lit [] = [[]]"
| "segments lit (c # cs) =
     (let rest = segments lit cs; joined = (c # hd rest) # tl rest
      in if starts_with lit (c # cs) then [] # joined else joined)"

definition split_memory_blocks :: "string \<Rightarrow> string list" where
  "split_memory_blocks text = filter (starts_with marker_start) (map strip (segments marker_start text))"

text \<open>\<open>(.*?)\<close>, a literal, and the rest of the expression\<close>

fun lazy_group :: "string \<Rightarrow> (string \<Rightarrow> 'a option) \<Rightarrow> string \<Rightarrow> (string \<times> 'a) option" where
  "lazy_group lit k [] = None"
| "lazy_group lit k (c # cs) =
     (case (if starts_with lit (c # cs) then k (drop (length lit) (c # cs)) else None) of
        Some r \<Rightarrow> Some ([], r)
      | None \<Rightarrow> map_option (\<lambda>(f, r). (c # f, r)) (lazy_group lit k cs))"

definition literal :: "string \<Rightarrow> string \<Rightarrow> string option" where
  "literal lit s = (if starts_with lit s then Some (drop (length lit) s) else None)"

definition parse_outcome :: "string \<Rightarrow> (skill_outcome \<times> string) option" where
  "parse_outcome s =
     (case literal ''success'' s of
        Some rest \<Rightarrow> Some (SkillSuccess, rest)
      | None \<Rightarrow> map_option (Pair SkillFailure) (literal ''failure'' s))"

definition parse_fields :: "string \<Rightarrow> (string \<times> string \<times> skill_outcome \<times> string \<times> string) option" where
  "parse_fields s =
     lazy_group (newline @ ''- Repository: '')
       (lazy_group (newline @ ''- Outcome: '') (\<lambda>s1.
          Option.bind (parse_outcome s1) (\<lambda>(outcome, s2).
          Option.bind (literal (newline @ ''- Task: '') s2) (\<lambda>s3.
          map_option (\<lambda>(task, lesson). (outcome, task, lesson)) (lazy_group (newline @ ''- Lesson: '') Some s3))))) s"

text \<open>The time stamp is the longest run of other characters from which the rest matches.\<close>

definition created_upto :: "string \<Rightarrow> nat \<Rightarrow> (string \<times> string \<times> string \<times> skill_outcome \<times> string \<times> string) option" where
  "created_upto s n =
     Option.bind (literal ''- Run: '' (lstrip (drop n s))) (\<lambda>rest. map_option (Pair (take n s)) (parse_fields rest))"

definition parse_created :: "string \<Rightarrow> (string \<times> string \<times> string \<times> skill_outcome \<times> string \<times> string) option" where
  "parse_created s =
     (let w = takeWhile (\<lambda>c. \<not> is_space c) s
      in case filter (\<lambda>n. created_upto s n \<noteq> None) (rev [1..<Suc (length w)]) of
           [] \<Rightarrow> None | n # _ \<Rightarrow> created_upto s n)"

definition parse_block_at ::
  "string \<Rightarrow> (string \<times> string \<times> string \<times> string \<times> skill_outcome \<times> string \<times> string) option" where
  "parse_block_at s =
     Option.bind (literal marker_start s) (\<lambda>s1.
     let run_id = takeWhile (\<lambda>c. c \<noteq> CHR '':'') s1 in
     if run_id = [] then None
     else Option.bind (literal '':'' (drop (length run_id) s1)) (\<lambda>s2.
     let skill = takeWhile (\<lambda>c. \<not> is_space c) s2 in
     if skill = [] then None
     else Option.bind (literal '' -->'' (drop (length skill) s2)) (\<lambda>s3.
     Option.bind (literal ''## '' (lstrip s3)) (\<lambda>s4.
     map_option (Pair run_id) (parse_created s4)))))"

fun first_match :: "(string \<Rightarrow> 'a option) \<Rightarrow> string \<Rightarrow> 'a option" where
  "first_match m [] = m []"
| "first_match m (c # cs) = (case m (c # cs) of Some r \<Rightarrow> Some r | None \<Rightarrow> first_match m cs)"

definition entry_of ::
  "(string \<Rightarrow> datetime option) \<Rightarrow> datetime \<Rightarrow> string \<times> string \<times> string \<times> string \<times> skill_outcome \<times> string \<times> string \<Rightarrow> skill_memory_entry" where
  "entry_of other now groups =
     (case groups of (run_id, created_raw, run, repository, outcome, task, lesson) \<Rightarrow>
        let created_at = (case iso_datetime other (replace_all ''Z'' ''+00:00'' created_raw) of None \<Rightarrow> now | Some t \<Rightarrow> t)
        in \<lparr>se_run_id = strip run_id, se_repository = strip repository, se_task_summary = strip task, se_outcome = outcome,
            se_lesson = strip lesson,
            se_created_at = (if dt_offset created_at = None then created_at\<lparr>dt_offset := Some 0\<rparr> else created_at)\<rparr>)"

definition parse_skill_memory_entries :: "(string \<Rightarrow> datetime option) \<Rightarrow> datetime \<Rightarrow> string \<Rightarrow> skill_memory_entry list" where
  "parse_skill_memory_entries other now text =
     concat (map (\<lambda>b. case first_match parse_block_at b of None \<Rightarrow> [] | Some m \<Rightarrow> [entry_of other now m])
       (split_memory_blocks text))"

section \<open>Merging and appending\<close>

text \<open>\<open>MEMORY_MARKER_RE.search(block)\<close>, the matched text\<close>

definition marker_at :: "string \<Rightarrow> string option" where
  "marker_at s =
     Option.bind (literal marker_start s) (\<lambda>s1.
     let run_id = takeWhile (\<lambda>c. c \<noteq> CHR '':'') s1 in
     if run_id = [] then None
     else Option.bind (literal '':'' (drop (length run_id) s1)) (\<lambda>s2.
     let skill = takeWhile (\<lambda>c. \<not> is_space c) s2 in
     if skill = [] then None
     else map_option (\<lambda>_. memory_marker run_id skill) (literal '' -->'' (drop (length skill) s2))))"

fun merge_blocks :: "string list \<Rightarrow> string list \<Rightarrow> string list" where
  "merge_blocks seen [] = []"
| "merge_blocks seen (b # bs) =
     (let marker = (case first_match marker_at b of None \<Rightarrow> b | Some m \<Rightarrow> m) in
      if marker \<in> set seen then merge_blocks seen bs else strip b # merge_blocks (marker # seen) bs)"

definition merge_memory_texts :: "string list \<Rightarrow> string" where
  "merge_memory_texts texts =
     (let blocks = merge_blocks [] (concat (map split_memory_blocks texts)) in
      if blocks = [] then [] else join (newline @ newline) blocks @ newline)"

text \<open>What \<open>append_skill_memory\<close> writes after the text it read; nothing when the run has its entry.\<close>

definition memory_addition :: "string \<Rightarrow> string \<Rightarrow> skill_memory_entry \<Rightarrow> string option" where
  "memory_addition skill_id existing e =
     (if contains (memory_marker (se_run_id e) skill_id) existing then None
      else Some ((if existing \<noteq> [] \<and> \<not> ends_with newline existing then newline else []) @
        (if strip existing \<noteq> [] then newline else []) @ format_skill_memory_block skill_id e))"

section \<open>Round trip\<close>

lemma contains_iff: "contains p s \<longleftrightarrow> (\<exists>a b. s = a @ p @ b)"
proof (induction s)
  case (Cons c s)
  have "starts_with p (c # s) \<longleftrightarrow> (\<exists>b. c # s = p @ b)"
    by (metis append_take_drop_id starts_with_def append_eq_conv_conj)
  with Cons show ?case by (auto simp: Cons_eq_append_conv)
qed auto

text \<open>
  Entries that can be told apart from the syntax around them: identifiers without the characters of the
  syntax, stripped one-line texts without a marker, and a lesson that is not empty.
\<close>

definition plain_word :: "string \<Rightarrow> bool" where
  "plain_word s \<longleftrightarrow> s \<noteq> [] \<and> list_all (\<lambda>c. \<not> is_space c \<and> c \<notin> {CHR ''<'', CHR '':''}) s"

definition plain_line :: "string \<Rightarrow> bool" where
  "plain_line s \<longleftrightarrow> CHR 0x0A \<notin> set s \<and> strip s = s \<and> \<not> contains marker_start s"

definition printable :: "string \<Rightarrow> skill_memory_entry \<Rightarrow> bool" where
  "printable skill_id e \<longleftrightarrow>
     plain_word (se_run_id e) \<and> plain_word skill_id \<and> plain_line (se_repository e) \<and> plain_line (se_task_summary e) \<and>
     strip (se_lesson e) = se_lesson e \<and> se_lesson e \<noteq> [] \<and> \<not> contains marker_start (se_lesson e) \<and>
     valid_datetime (to_utc (se_created_at e)) \<and> 1000 \<le> dt_year (to_utc (se_created_at e))"

lemma printable_time:
  assumes "printable skill_id e"
  shows "time_stamp (se_created_at e) \<noteq> []" "list_all (\<lambda>c. \<not> is_space c) (time_stamp (se_created_at e))"
    "CHR ''<'' \<notin> set (time_stamp (se_created_at e))"
    "iso_datetime other (replace_all ''Z'' ''+00:00'' (time_stamp (se_created_at e))) = Some (whole_second (se_created_at e))"
proof -
  have t: "valid_datetime (to_utc (se_created_at e))" "1000 \<le> dt_year (to_utc (se_created_at e))"
    using assms by (simp_all add: printable_def)
  show "time_stamp (se_created_at e) \<noteq> []" by (simp add: time_stamp_digits [OF t])
  show "list_all (\<lambda>c. \<not> is_space c) (time_stamp (se_created_at e))" "CHR ''<'' \<notin> set (time_stamp (se_created_at e))"
    using time_stamp_chars [OF t] by (auto simp: list_all_iff)
  show "iso_datetime other (replace_all ''Z'' ''+00:00'' (time_stamp (se_created_at e))) = Some (whole_second (se_created_at e))"
    by (rule read_time_stamp [OF t])
qed

subsection \<open>One block\<close>

lemma newline_char: "newline = [CHR 0x0A]"
  by code_simp

lemma space_chars [simp]: "is_space (CHR 0x0A)" "is_space (CHR '' '')" "\<not> is_space (CHR ''-'')" "\<not> is_space (CHR ''#'')"
  "\<not> is_space (CHR ''<'')"
  by code_simp+

lemma starts_with_self [simp]: "starts_with p (p @ s)"
  by (simp add: starts_with_def)

lemma literal_append [simp]: "literal p (p @ s) = Some s"
  by (simp add: literal_def)

lemma lazy_group_line:
  assumes "CHR 0x0A \<notin> set f" and "k rest = Some r"
  shows "lazy_group (newline @ lit) k (f @ newline @ lit @ rest) = Some (f, r)"
  using assms(1)
proof (induction f)
  case Nil
  have "starts_with (newline @ lit) (newline @ lit @ rest)" using starts_with_self [of "newline @ lit" rest] by simp
  then show ?case using assms(2) by (simp add: newline_char)
next
  case (Cons c f)
  then have "\<not> starts_with (newline @ lit) ((c # f) @ newline @ lit @ rest)" by (auto simp: starts_with_def newline_char)
  with Cons show ?case by (auto split: option.split)
qed

definition fields_text :: "skill_memory_entry \<Rightarrow> string" where
  "fields_text e = se_run_id e @ newline @ ''- Repository: '' @ se_repository e @ newline @ ''- Outcome: '' @
     skill_outcome_str (se_outcome e) @ newline @ ''- Task: '' @ se_task_summary e @ newline @ ''- Lesson: '' @ se_lesson e"

lemma parse_outcome_str: "parse_outcome (skill_outcome_str x @ s) = Some (x, s)"
  by (cases x) (simp_all add: parse_outcome_def literal_def starts_with_def)

lemma parse_fields_text:
  assumes "CHR 0x0A \<notin> set (se_run_id e)" and "CHR 0x0A \<notin> set (se_repository e)" and "CHR 0x0A \<notin> set (se_task_summary e)"
  shows "parse_fields (fields_text e) = Some (se_run_id e, se_repository e, se_outcome e, se_task_summary e, se_lesson e)"
proof -
  have lesson: "lazy_group (newline @ ''- Lesson: '') Some (se_task_summary e @ newline @ ''- Lesson: '' @ se_lesson e) =
      Some (se_task_summary e, se_lesson e)" by (rule lazy_group_line [OF assms(3)]) simp
  have task: "literal (newline @ ''- Task: '') (newline @ ''- Task: '' @ s) = Some s" for s
    using literal_append [of "newline @ ''- Task: ''" s] by simp
  show ?thesis
    unfolding parse_fields_def fields_text_def
    by (rule lazy_group_line [OF assms(1)], rule lazy_group_line [OF assms(2)])
      (simp only: parse_outcome_str Option.bind.bind_lunit prod.case task lesson option.map)
qed

lemma takeWhile_word: "list_all P w \<Longrightarrow> \<not> P c \<Longrightarrow> takeWhile P (w @ c # s) = w"
  by (induction w) auto

lemma lstrip_newlines: "\<not> is_space c \<Longrightarrow> lstrip (newline @ newline @ c # s) = c # s"
  by (simp add: lstrip_def newline_char)

lemma parse_created_text:
  assumes "list_all (\<lambda>c. \<not> is_space c) t" and "t \<noteq> []" and "parse_fields s = Some r"
  shows "parse_created (t @ newline @ newline @ ''- Run: '' @ s) = Some (t, r)"
proof -
  have run: "lstrip (newline @ newline @ ''- Run: '' @ s) = ''- Run: '' @ s"
    using lstrip_newlines [of "CHR ''-''" "'' Run: '' @ s"] by simp
  have "literal ''- Run: '' (''- Run: '' @ s) = Some s" by (rule literal_append)
  then have upto: "created_upto (t @ newline @ newline @ ''- Run: '' @ s) (length t) = Some (t, r)"
    unfolding created_upto_def using assms(3) by (simp only: drop_append drop_all diff_self_eq_0 drop0 order_refl append_Nil
        run Option.bind.bind_lunit take_append take_all take0 append_Nil2 option.map)
  have w: "takeWhile (\<lambda>c. \<not> is_space c) (t @ newline @ newline @ ''- Run: '' @ s) = t"
    using takeWhile_word [OF assms(1), of "CHR 0x0A"] by (simp add: newline_char)
  have ups: "rev [1..<Suc (length t)] = length t # rev [1..<length t]" using assms(2) by (cases t) auto
  show ?thesis
    unfolding parse_created_def Let_def w ups by (simp only: filter.simps upto option.distinct simp_thms if_True list.case)
qed

definition block_text :: "string \<Rightarrow> skill_memory_entry \<Rightarrow> string" where
  "block_text skill_id e =
     memory_marker (se_run_id e) skill_id @ newline @ newline @ ''## '' @ time_stamp (se_created_at e) @ newline @ newline @
     ''- Run: '' @ fields_text e"

lemma format_block: "format_skill_memory_block skill_id e = block_text skill_id e @ newline"
  by (simp add: format_skill_memory_block_def block_text_def fields_text_def)

lemma plain_wordD:
  assumes "plain_word s"
  shows "s \<noteq> [] \<and> list_all (\<lambda>c. \<not> is_space c) s \<and> list_all (\<lambda>c. c \<noteq> CHR '':'') s \<and> CHR 0x0A \<notin> set s \<and> CHR ''<'' \<notin> set s"
proof -
  have "s \<noteq> []" and all: "\<forall>c \<in> set s. \<not> is_space c \<and> c \<noteq> CHR ''<'' \<and> c \<noteq> CHR '':''"
    using assms by (simp_all add: plain_word_def list_all_iff)
  moreover have "CHR 0x0A \<notin> set s" using all space_chars(1) by blast
  ultimately show ?thesis unfolding list_all_iff by blast
qed

lemma parse_block_text:
  assumes "printable skill_id e"
  shows "parse_block_at (block_text skill_id e) =
    Some (se_run_id e, time_stamp (se_created_at e), se_run_id e, se_repository e, se_outcome e, se_task_summary e, se_lesson e)"
proof -
  let ?t = "time_stamp (se_created_at e)"
  let ?rest = "newline @ newline @ ''## '' @ ?t @ newline @ newline @ ''- Run: '' @ fields_text e"
  note word = plain_wordD [of "se_run_id e"] plain_wordD [of skill_id]
  have t: "list_all (\<lambda>c. \<not> is_space c) ?t" "?t \<noteq> []"
    using printable_time [OF assms] by simp_all
  have parsed: "parse_created (?t @ newline @ newline @ ''- Run: '' @ fields_text e) =
      Some (?t, se_run_id e, se_repository e, se_outcome e, se_task_summary e, se_lesson e)"
    using assms word by (intro parse_created_text t parse_fields_text) (auto simp: printable_def plain_line_def)
  have run: "takeWhile (\<lambda>c. c \<noteq> CHR '':'') (se_run_id e @ '':'' @ s) = se_run_id e" for s
    using takeWhile_word [of "\<lambda>c. c \<noteq> CHR '':''" "se_run_id e" "CHR '':''"] assms word by (simp add: printable_def)
  have skill: "takeWhile (\<lambda>c. \<not> is_space c) (skill_id @ '' -->'' @ s) = skill_id" for s
    using takeWhile_word [of "\<lambda>c. \<not> is_space c" skill_id "CHR '' ''"] assms word by (simp add: printable_def)
  have strip: "lstrip ?rest = ''## '' @ ?t @ newline @ newline @ ''- Run: '' @ fields_text e"
    using lstrip_newlines [of "CHR ''#''"] by simp
  have shape: "block_text skill_id e = marker_start @ se_run_id e @ '':'' @ skill_id @ '' -->'' @ ?rest"
    by (simp add: block_text_def memory_marker_def)
  have ne: "se_run_id e \<noteq> []" "skill_id \<noteq> []" using assms word by (auto simp: printable_def)
  have drop: "drop (length a) (a @ b) = b" for a b :: string by simp
  have time: "literal ''## '' (''## '' @ ?t @ newline @ newline @ ''- Run: '' @ fields_text e) =
      Some (?t @ newline @ newline @ ''- Run: '' @ fields_text e)" by (rule literal_append)
  show ?thesis
    unfolding parse_block_at_def Let_def shape literal_append Option.bind.bind_lunit run drop skill strip time parsed option.map
      if_not_P [OF ne(1)] if_not_P [OF ne(2)] by (rule refl)
qed

subsection \<open>The blocks of a text\<close>

lemma starts_with_stop:
  assumes "x \<notin> set (tl lit)" and "a \<noteq> []"
  shows "starts_with lit (a @ x # b) \<longleftrightarrow> starts_with lit a"
proof -
  have "lit \<noteq> a @ zs" if "prefix zs (x # b)" "zs \<noteq> []" for zs
    using that assms by (cases zs; cases a) auto
  then show ?thesis unfolding starts_with_prefix prefix_append by (metis append_Nil2 prefix_order.refl)
qed

lemma contains_skip:
  assumes "h \<notin> set a"
  shows "contains (h # lit) (a @ b) \<longleftrightarrow> contains (h # lit) b"
  using assms by (induction a) (auto simp: starts_with_def)

lemma contains_line:
  assumes "CHR 0x0A \<notin> set lit" and "lit \<noteq> []"
  shows "contains lit (a @ newline @ b) \<longleftrightarrow> contains lit a \<or> contains lit b"
proof (induction a)
  case Nil
  have "\<not> starts_with lit (CHR 0x0A # b)" using assms by (cases lit) (auto simp: starts_with_def)
  with assms(2) show ?case by (simp add: newline_char)
next
  case (Cons c a)
  have "CHR 0x0A \<notin> set (tl lit)" using assms(1) by (cases lit) simp_all
  from starts_with_stop [OF this, of "c # a" b] have "starts_with lit (c # a @ newline @ b) = starts_with lit (c # a)"
    by (simp add: newline_char)
  with Cons show ?case by simp
qed

lemma segments_nonempty: "segments lit s \<noteq> []"
  by (cases s) (auto simp: Let_def)

lemma segments_free: "\<not> contains lit s \<Longrightarrow> segments lit s = [s]"
  by (induction s) (auto simp: Let_def)

lemma segments_append:
  assumes "x \<notin> set (tl lit)"
  shows "segments lit (a @ x # b) =
    butlast (segments lit a) @ (last (segments lit a) @ hd (segments lit (x # b))) # tl (segments lit (x # b))"
proof (induction a)
  case Nil
  show ?case using segments_nonempty [of lit "x # b"] by (simp del: segments.simps(2))
next
  case (Cons c a)
  have stop: "starts_with lit (c # a @ x # b) = starts_with lit (c # a)"
    using starts_with_stop [OF assms, of "c # a" b] by simp
  obtain y ys where y: "segments lit a = y # ys" using segments_nonempty [of lit a] by (meson list.exhaust)
  show ?case
    using Cons stop y by (cases ys) (auto simp: Let_def simp del: segments.simps(2) simp: segments.simps(2) [of lit c])
qed

definition syntax_free :: "string \<Rightarrow> bool" where
  "syntax_free s \<longleftrightarrow> \<not> contains marker_start s"

lemma marker_chars: "marker_start = CHR ''<'' # tl marker_start" "CHR 0x0A \<notin> set marker_start" "CHR ''<'' \<notin> set (tl marker_start)"
  "marker_start \<noteq> []"
  by code_simp+

lemma syntax_skip: "CHR ''<'' \<notin> set a \<Longrightarrow> syntax_free (a @ b) = syntax_free b"
  unfolding syntax_free_def using contains_skip [of "CHR ''<''" a "tl marker_start" b] marker_chars(1) by simp

lemma syntax_line: "syntax_free (a @ newline @ b) \<longleftrightarrow> syntax_free a \<and> syntax_free b"
  unfolding syntax_free_def by (simp only: contains_line [OF marker_chars(2,4)] de_Morgan_disj)

lemma syntax_lines: "syntax_free (newline @ b) = syntax_free b"
  using syntax_line [of "[]" b] by (simp add: syntax_free_def marker_chars(4))

lemma syntax_plain: "CHR ''<'' \<notin> set a \<Longrightarrow> syntax_free a"
  using syntax_skip [of a "[]"] by (simp add: syntax_free_def marker_chars(4))

lemma block_segments:
  assumes "printable skill_id e"
  shows "segments marker_start (block_text skill_id e @ newline) = [[], block_text skill_id e @ newline]"
proof -
  let ?t = "time_stamp (se_created_at e)"
  let ?tail = "tl marker_start @ se_run_id e @ '':'' @ skill_id @ '' -->'' @ newline @ newline @ ''## '' @ ?t @ newline @ newline @
      ''- Run: '' @ fields_text e @ newline"
  have word: "CHR ''<'' \<notin> set (se_run_id e)" "CHR ''<'' \<notin> set skill_id" "CHR ''<'' \<notin> set ?t"
    using assms plain_wordD [of "se_run_id e"] plain_wordD [of skill_id] printable_time(3) [OF assms] by (auto simp: printable_def)
  have outcome: "CHR ''<'' \<notin> set (skill_outcome_str x)" for x by (cases x) auto
  have free: "syntax_free (se_repository e)" "syntax_free (se_task_summary e)" "syntax_free (se_lesson e)"
    using assms by (simp_all add: printable_def plain_line_def syntax_free_def)
  have lit: "CHR ''<'' \<notin> set ''- Repository: ''" "CHR ''<'' \<notin> set ''- Outcome: ''" "CHR ''<'' \<notin> set ''- Task: ''"
    "CHR ''<'' \<notin> set ''- Lesson: ''" "CHR ''<'' \<notin> set ''- Run: ''" "CHR ''<'' \<notin> set ''## ''" "CHR ''<'' \<notin> set '' -->''"
    "CHR ''<'' \<notin> set '':''" by simp_all
  have nil: "syntax_free []" by (rule syntax_plain) simp
  have "syntax_free (fields_text e @ newline)"
    unfolding fields_text_def append_assoc
    using syntax_line [of "se_lesson e" "[]"] free word outcome nil
    by (simp only: syntax_line syntax_skip [OF word(1)] syntax_skip [OF lit(1)] syntax_skip [OF lit(2)] syntax_skip [OF lit(3)]
        syntax_skip [OF lit(4)] syntax_plain append_Nil2 simp_thms)
  then have "syntax_free ?tail"
    using syntax_plain [of "[]"] word
    by (simp only: syntax_skip [OF marker_chars(3)] syntax_skip [OF word(1)] syntax_skip [OF word(2)] syntax_skip [OF lit(5)]
        syntax_skip [OF lit(6)] syntax_skip [OF lit(7)] syntax_skip [OF lit(8)] syntax_lines syntax_line syntax_plain [OF lit(7)]
        syntax_plain [OF word(3)] syntax_plain append_Nil simp_thms list.set empty_iff)
  then have tail: "segments marker_start ?tail = [?tail]" unfolding syntax_free_def by (rule segments_free)
  have "block_text skill_id e @ newline = CHR ''<'' # ?tail"
    using marker_chars(1) by (simp add: block_text_def memory_marker_def)
  moreover have "starts_with marker_start (block_text skill_id e @ newline)"
    by (simp add: block_text_def memory_marker_def)
  ultimately show ?thesis by (simp only: segments.simps Let_def tail list.sel if_True)
qed

subsection \<open>Appending\<close>

lemma strip_blank: "list_all is_space p \<Longrightarrow> strip (s @ p) = strip s"
proof (induction p rule: rev_induct)
  case (snoc c p)
  have "strip (t @ [c]) = strip t" if "is_space c" for t
  proof (cases "\<forall>x \<in> set t. is_space x")
    case True
    then have "dropWhile is_space t = []" by simp
    with that True show ?thesis by (auto simp: strip_def lstrip_def rstrip_def dropWhile_append dest: set_dropWhileD)
  next
    case False
    with that show ?thesis by (auto simp: strip_def lstrip_def rstrip_def dropWhile_append)
  qed
  with snoc show ?case by simp (metis append_assoc)
qed simp

lemma lesson_end:
  assumes "strip s = s" and "s \<noteq> []"
  shows "\<not> is_space (last s)"
proof
  assume sp: "is_space (last s)"
  have "strip s = strip (butlast s)" using strip_blank [of "[last s]" "butlast s"] sp assms(2) by simp
  moreover have "length (strip (butlast s)) \<le> length (butlast s)"
    unfolding strip_def lstrip_def rstrip_def length_rev by (metis length_dropWhile_le length_rev order_trans)
  ultimately have "length s \<le> length (butlast s)" using assms(1) by metis
  moreover have "length (butlast s) < length s" using assms(2) by simp
  ultimately show False by linarith
qed

lemma block_head: "\<exists>bs. block_text skill_id e = CHR ''<'' # bs"
proof -
  obtain m where m: "marker_start = CHR ''<'' # m" using marker_chars(1) by blast
  show ?thesis unfolding block_text_def memory_marker_def m append_Cons by blast
qed

lemma strip_block:
  assumes "printable skill_id e"
  shows "strip (block_text skill_id e @ newline) = block_text skill_id e"
proof -
  let ?b = "block_text skill_id e"
  obtain bs where first: "?b = CHR ''<'' # bs" using block_head by blast
  have "last ?b = last (se_lesson e)" "\<not> is_space (last (se_lesson e))"
    using assms lesson_end [of "se_lesson e"] by (simp_all add: printable_def block_text_def fields_text_def)
  then have "\<not> is_space (last ?b)" by simp
  moreover have "rev ?b = last ?b # tl (rev ?b)" using first by (metis hd_rev list.collapse list.distinct(1) rev_is_Nil_conv)
  ultimately have "rstrip ?b = ?b" unfolding rstrip_def by (metis dropWhile.simps(2) rev_rev_ident)
  moreover have "lstrip ?b = ?b" unfolding first by (simp add: lstrip_def)
  moreover have "strip (?b @ newline) = strip ?b" by (rule strip_blank) (simp add: newline_char)
  ultimately show ?thesis by (simp add: strip_def)
qed

lemma strip_plain: "list_all (\<lambda>c. \<not> is_space c) s \<Longrightarrow> strip s = s"
proof -
  have "list_all (\<lambda>c. \<not> is_space c) xs \<Longrightarrow> dropWhile is_space xs = xs" for xs by (cases xs) simp_all
  then show "list_all (\<lambda>c. \<not> is_space c) s \<Longrightarrow> strip s = s" by (simp add: strip_def lstrip_def rstrip_def)
qed

lemma first_match_head: "m s = Some r \<Longrightarrow> first_match m s = Some r"
  by (cases s) simp_all

lemma split_append:
  assumes "printable skill_id e" and "list_all (\<lambda>c. c = CHR 0x0A) p"
  shows "split_memory_blocks (existing @ p @ block_text skill_id e @ newline) =
    split_memory_blocks existing @ [block_text skill_id e]"
proof -
  let ?b = "block_text skill_id e @ newline"
  obtain bs0 where "block_text skill_id e = CHR ''<'' # bs0" using block_head by blast
  then obtain bs where b: "?b = CHR ''<'' # bs" by simp
  have tl: "CHR ''<'' \<notin> set (tl marker_start)" "CHR 0x0A \<notin> set (tl marker_start)" by code_simp+
  have segs: "segments marker_start (x @ ?b) = segments marker_start x @ [?b]" for x
    using segments_append [OF tl(1), of x bs] block_segments [OF assms(1)] segments_nonempty [of marker_start x] b
    by simp
  have blank: "map strip (segments marker_start (x @ p)) = map strip (segments marker_start x)" for x
    using assms(2)
  proof (induction p arbitrary: x)
    case (Cons c p)
    then have c: "c = CHR 0x0A" by simp
    have "\<not> contains marker_start [CHR 0x0A]" by code_simp
    then have "segments marker_start [CHR 0x0A] = [[CHR 0x0A]]" by (rule segments_free)
    then have "segments marker_start (x @ [c]) = butlast (segments marker_start x) @ [last (segments marker_start x) @ [c]]"
      using segments_append [OF tl(2), of x "[]"] c by simp
    moreover have "strip (last (segments marker_start x) @ [c]) = strip (last (segments marker_start x))"
      by (rule strip_blank) (simp add: c)
    ultimately have "map strip (segments marker_start (x @ [c])) =
        map strip (butlast (segments marker_start x) @ [last (segments marker_start x)])" by simp
    also have "\<dots> = map strip (segments marker_start x)" using segments_nonempty [of marker_start x] by simp
    finally have "map strip (segments marker_start (x @ [c])) = map strip (segments marker_start x)" .
    with Cons(1) [of "x @ [c]"] Cons(2) show ?case by simp
  qed simp
  have "starts_with marker_start (block_text skill_id e)" by (simp add: block_text_def memory_marker_def)
  then show ?thesis
    using segs [of "existing @ p"] blank strip_block [OF assms(1)] by (simp add: split_memory_blocks_def)
qed

text \<open>
  C28: the memory of a skill keeps what is appended to it. Appending an entry that can be told apart from
  the syntax to any text makes the parser give the entries of that text followed by the entry, with its time
  in UTC and cut to the second, which is all the time stamp holds. A second append for the same run
  adds nothing, whatever its lesson. An entry can be told apart when its run id has no blank, \<open><\<close> or colon, its
  repository and task are stripped lines, its lesson is stripped and not empty, no text holds the marker, and
  its UTC time lies in the years 1000 to 9999.
\<close>

theorem skill_memory_roundtrip:
  assumes "printable skill_id e" and "memory_addition skill_id existing e = Some added"
  shows "parse_skill_memory_entries other now (existing @ added) =
      parse_skill_memory_entries other now existing @ [e\<lparr>se_created_at := whole_second (se_created_at e)\<rparr>] \<and>
    memory_addition skill_id (existing @ added) (e\<lparr>se_lesson := lesson\<rparr>) = None"
proof -
  obtain p where p: "added = p @ block_text skill_id e @ newline" "list_all (\<lambda>c. c = CHR 0x0A) p"
    using assms(2) by (auto simp: memory_addition_def format_block newline_char split: if_splits)
  have "entry_of other now (se_run_id e, time_stamp (se_created_at e), se_run_id e, se_repository e, se_outcome e,
      se_task_summary e, se_lesson e) = e\<lparr>se_created_at := whole_second (se_created_at e)\<rparr>"
    using assms(1) plain_wordD [of "se_run_id e"] printable_time(4) [OF assms(1), of other]
    by (simp add: entry_of_def printable_def plain_line_def strip_plain whole_second_def)
  then have "parse_skill_memory_entries other now (existing @ added) =
      parse_skill_memory_entries other now existing @ [e\<lparr>se_created_at := whole_second (se_created_at e)\<rparr>]"
    using p split_append [OF assms(1) p(2)] first_match_head [of parse_block_at, OF parse_block_text [OF assms(1)]]
    by (simp add: parse_skill_memory_entries_def)
  moreover have "contains (memory_marker (se_run_id e) skill_id) (existing @ added)"
    unfolding p(1) block_text_def append_assoc by (metis contains_self append_assoc)
  ultimately show ?thesis by (simp add: memory_addition_def)
qed

definition demo_now :: datetime where
  "demo_now = \<lparr>dt_year = 1, dt_month = 1, dt_day = 1, dt_hour = 0, dt_minute = 0, dt_second = 0, dt_microsecond = 0,
     dt_offset = Some 0\<rparr>"

text \<open>A run that ended on new year's eve in New York, with microseconds\<close>

definition demo_time :: datetime where
  "demo_time = \<lparr>dt_year = 2025, dt_month = 12, dt_day = 31, dt_hour = 21, dt_minute = 30, dt_second = 15,
     dt_microsecond = 123456, dt_offset = Some (- 18000)\<rparr>"

definition demo_entry :: skill_memory_entry where
  "demo_entry = \<lparr>se_run_id = ''r1'', se_repository = ''o/r'', se_task_summary = ''fix'', se_outcome = SkillSuccess,
     se_lesson = ''run tox'', se_created_at = demo_time\<rparr>"

lemma demo_utc:
  "to_utc demo_time = \<lparr>dt_year = 2026, dt_month = 1, dt_day = 1, dt_hour = 2, dt_minute = 30, dt_second = 15,
     dt_microsecond = 123456, dt_offset = Some 0\<rparr>"
  by (simp add: to_utc_def demo_time_def at_time_def next_day_def month_days_def)

theorem skill_memory_roundtrip_witness:
  "\<exists>added. memory_addition ''s1'' ''notes'' demo_entry = Some added \<and>
     parse_skill_memory_entries (\<lambda>_. None) demo_time (''notes'' @ added) =
       parse_skill_memory_entries (\<lambda>_. None) demo_time ''notes'' @
       [demo_entry\<lparr>se_created_at := \<lparr>dt_year = 2026, dt_month = 1, dt_day = 1, dt_hour = 2, dt_minute = 30, dt_second = 15,
          dt_microsecond = 0, dt_offset = Some 0\<rparr>\<rparr>]"
proof -
  have "\<not> contains (memory_marker ''r1'' ''s1'') ''notes''" by code_simp
  then have "memory_addition ''s1'' ''notes'' demo_entry \<noteq> None" by (simp add: memory_addition_def demo_entry_def)
  then obtain added where a: "memory_addition ''s1'' ''notes'' demo_entry = Some added" by blast
  have "plain_word ''r1''" "plain_word ''s1''" "plain_line ''o/r''" "plain_line ''fix''" "strip ''run tox'' = ''run tox''"
    "\<not> contains marker_start ''run tox''" by code_simp+
  then have "printable ''s1'' demo_entry" by (simp add: printable_def demo_entry_def demo_utc valid_datetime_def month_days_def)
  moreover have "whole_second (se_created_at demo_entry) = \<lparr>dt_year = 2026, dt_month = 1, dt_day = 1, dt_hour = 2, dt_minute = 30,
      dt_second = 15, dt_microsecond = 0, dt_offset = Some 0\<rparr>" by (simp add: demo_entry_def whole_second_def demo_utc)
  ultimately show ?thesis using skill_memory_roundtrip [OF _ a, of "\<lambda>_. None" demo_time] a by auto
qed

text \<open>
  An entry without a lesson is written and never read back: the block is stripped before it is matched,
  and the blank after the last label goes with it.
\<close>

theorem empty_lesson_is_lost:
  "\<exists>added. memory_addition ''s1'' [] (demo_entry\<lparr>se_lesson := []\<rparr>) = Some added \<and>
     parse_skill_memory_entries (\<lambda>_. None) demo_time added = []"
proof -
  have stamp: "time_stamp demo_time = ''2026-01-01T02:30:15Z''"
    by (simp add: time_stamp_def demo_utc two_digits_def show_nat.simps) code_simp
  let ?block = "format_skill_memory_block ''s1'' (demo_entry\<lparr>se_lesson := []\<rparr>)"
  have "\<not> contains (memory_marker ''r1'' ''s1'') []" "strip [] = []" by code_simp+
  then have "memory_addition ''s1'' [] (demo_entry\<lparr>se_lesson := []\<rparr>) = Some ?block"
    by (simp add: memory_addition_def demo_entry_def)
  moreover have "parse_skill_memory_entries (\<lambda>_. None) demo_time ?block = []"
  proof -
    have "format_skill_memory_block ''s1'' (demo_entry\<lparr>se_lesson := []\<rparr>) =
        memory_marker ''r1'' ''s1'' @ newline @ newline @ ''## '' @ ''2026-01-01T02:30:15Z'' @ newline @ newline @ ''- Run: '' @ ''r1'' @
        newline @ ''- Repository: '' @ ''o/r'' @ newline @ ''- Outcome: '' @ ''success'' @ newline @ ''- Task: '' @ ''fix'' @ newline @
        ''- Lesson: '' @ [] @ newline" (is "_ = ?text")
      by (simp add: format_skill_memory_block_def demo_entry_def stamp)
    moreover have "list_all (\<lambda>b. first_match parse_block_at b = None) (split_memory_blocks ?text)" by code_simp
    ultimately show ?thesis by (simp add: parse_skill_memory_entries_def list_all_iff)
  qed
  ultimately show ?thesis by blast
qed

end
