(* ===== verification/Skills.thy ===== *)
theory Skills
  imports SkillMemory
begin

unbundle bit_operations_syntax

text \<open>
  The skill registry: \<^verbatim>\<open>capability/models.py\<close>, \<^verbatim>\<open>capability/render.py\<close>, \<^verbatim>\<open>capability/validator.py\<close> and
  \<^verbatim>\<open>capability/registry.py\<close>.

  The state is the tree of files and the content of the SQLite tables. A transaction either commits all
  of its statements or, when \<open>ge_commit_error\<close> says so, raises and leaves the tables as they are. The
  directories of the registry hold no symbolic links (it makes none), so that \<open>exists\<close>, \<open>is_dir\<close> and
  \<open>rename\<close> look at the name itself; \<open>ge_rename_error\<close> tells which renames the operating system refuses.
  A removal of a tree, which the code makes writable first, takes place. Parameters are the clock (\<open>ge_now\<close> in the rows
  of the tables, \<open>ge_utc_now\<close> as a \<open>datetime\<close>), the random parts of names, SHA-256, the JSON text of a manifest, the patterns of secrets, Python's parser
  and what pytest reports of a copy of the package; a test run does not touch the registry. The lock of
  \<open>append_skill_memory\<close> and the schema check of the constructor are left out.
\<close>

section \<open>Candidates\<close>

record generated_file =
  gf_path :: string
  gf_content :: string
  gf_executable :: bool

record skill_spec =
  sx_name :: string
  sx_description :: string
  sx_purpose :: string
  sx_when_to_use :: string
  sx_procedure :: string
  sx_pitfalls :: string
  sx_verification :: string
  sx_bundled_resources :: string

record skill_candidate =
  sc_name :: string
  sc_description :: string
  sc_triggers :: "string list"
  sc_task_families :: "string list"
  sc_skill_md :: string
  sc_spec :: "skill_spec option"
  sc_scripts :: "generated_file list"
  sc_references :: "generated_file list"
  sc_templates :: "generated_file list"
  sc_tests :: "generated_file list"
  sc_source_run_ids :: "string list"
  sc_confidence :: real
  sc_permissions :: skill_permissions

definition REQUIRED_SKILL_SECTIONS :: "string list" where
  "REQUIRED_SKILL_SECTIONS =
     [''# Purpose'', ''# When to Use'', ''# Procedure'', ''# Pitfalls'', ''# Verification'', ''# Bundled Resources'']"

definition render_skill_markdown :: "skill_spec \<Rightarrow> string" where
  "render_skill_markdown spec =
     ''---'' @ newline @ ''name: '' @ sx_name spec @ newline @ ''description: '' @ sx_description spec @ newline @
     ''---'' @ newline @ newline @
     ''# Purpose'' @ newline @ strip (sx_purpose spec) @ newline @ newline @
     ''# When to Use'' @ newline @ strip (sx_when_to_use spec) @ newline @ newline @
     ''# Procedure'' @ newline @ strip (sx_procedure spec) @ newline @ newline @
     ''# Pitfalls'' @ newline @ strip (sx_pitfalls spec) @ newline @ newline @
     ''# Verification'' @ newline @ strip (sx_verification spec) @ newline @ newline @
     ''# Bundled Resources'' @ newline @ strip (sx_bundled_resources spec) @ newline"

text \<open>The validator that runs before the fields are checked.\<close>

definition render_structured_spec :: "skill_candidate \<Rightarrow> skill_candidate" where
  "render_structured_spec c =
     (case sc_spec c of
        None \<Rightarrow> c
      | Some spec \<Rightarrow> c\<lparr>sc_skill_md := render_skill_markdown spec,
          sc_name := or_else (Some (sc_name c)) (sx_name spec),
          sc_description := or_else (Some (sc_description c)) (sx_description spec)\<rparr>)"

definition required_skill_sections :: "skill_candidate \<Rightarrow> skill_candidate res" where
  "required_skill_sections c =
     (if \<not> starts_with (''---'' @ newline) (sc_skill_md c) \<or>
         list_ex (\<lambda>section. \<not> contains section (sc_skill_md c)) REQUIRED_SKILL_SECTIONS
      then Inl (ValueError ''SKILL.md is missing frontmatter or required sections'')
      else Inr c)"

definition mk_skill_candidate :: "skill_candidate \<Rightarrow> skill_candidate res" where
  "mk_skill_candidate c =
     (if \<not> (0 \<le> sc_confidence c \<and> sc_confidence c \<le> 1) then Inl (ValueError ''confidence'')
      else required_skill_sections (render_structured_spec c))"

section \<open>Tables and environment\<close>

record skill_row =
  kr_skill_id :: string
  kr_enabled :: bool
  kr_manifest :: skill_manifest
  kr_package_path :: path

record skill_stats =
  ss_skill_id :: string
  ss_retrieval_count :: int
  ss_selected_count :: int
  ss_use_count :: int
  ss_success_count :: int
  ss_failure_count :: int
  ss_patch_count :: int
  ss_created_at :: int
  ss_updated_at :: int
  ss_last_used_at :: "int option"

record skill_tables =
  kt_skills :: "skill_row list"
  kt_fts :: "(string \<times> string) list"
  kt_stats :: "skill_stats list"
  kt_operations :: "(string \<times> payload) list"

definition empty_skills :: skill_tables where
  "empty_skills = \<lparr>kt_skills = [], kt_fts = [], kt_stats = [], kt_operations = []\<rparr>"

record skill_world =
  kw_fs :: fs
  kw_tables :: skill_tables

datatype py_callee = CalleeName string | CalleeAttribute string string | CalleeOther

datatype py_node = ImportNode "string list" | ImportFromNode "string option" | CallNode py_callee | OtherNode

record pytest_counts =
  pc_collected :: int
  pc_passed :: int
  pc_failed :: int
  pc_errors :: int

record registry_env =
  ge_root :: path
  ge_now :: int
  ge_staging_uuid :: string
  ge_previous_uuid :: string
  ge_sha :: "string \<Rightarrow> string"
  ge_decode :: "string \<Rightarrow> string"
  ge_file_mode :: int
  ge_manifest_json :: "skill_manifest \<Rightarrow> string"
  ge_rename_error :: "path \<Rightarrow> path \<Rightarrow> pyexc option"
  ge_commit_error :: "pyexc option"
  ge_secret :: "string \<Rightarrow> bool"
  ge_parse :: "string \<Rightarrow> string + py_node list"
  ge_test_files :: "fs \<Rightarrow> path \<Rightarrow> path list"
  ge_pytest :: "fs \<Rightarrow> path \<Rightarrow> command_result \<times> pytest_counts option"
  ge_utc_now :: datetime
  ge_iso_other :: "string \<Rightarrow> datetime option"

section \<open>Names\<close>

text \<open>\<open>re.sub(r"[^a-z0-9]+", "-", value.lower()).strip("-")\<close> keeps the runs of the class, joined by hyphens.\<close>

definition slug_char :: "char \<Rightarrow> bool" where
  "slug_char c \<longleftrightarrow> in_range 97 122 c \<or> in_range 48 57 c"

definition slug :: "string \<Rightarrow> string res" where
  "slug v =
     (let s = join ''-'' (runs slug_char (lower v)) in
      if s = [] then Inl (CapabilityRegistryError ''skill name cannot produce an empty ID'') else Inr (take 80 s))"

definition safe_relative :: "string \<Rightarrow> string option \<Rightarrow> path res" where
  "safe_relative p expected_prefix =
     (if is_abs_path p \<or> ''..'' \<in> set (path_parts p) \<or> path_parts p = []
      then Inl (PolicyViolation (''unsafe skill path: '' @ p))
      else if truthy expected_prefix \<and> hd (path_parts p) \<noteq> the expected_prefix
      then Inl (PolicyViolation (p @ '' must be under '' @ the expected_prefix @ ''/''))
      else Inr (path_parts p))"

definition categorized :: "generated_file list \<Rightarrow> string \<Rightarrow> generated_file list res" where
  "categorized files category = rbind (mapM (\<lambda>g. safe_relative (gf_path g) (Some category)) files) (\<lambda>_. Inr files)"

section \<open>Files of the registry\<close>

definition on_fs :: "(fs, 'a) io \<Rightarrow> (skill_world, 'a) io" where
  "on_fs = sfocus kw_fs (\<lambda>fs w. w\<lparr>kw_fs := fs\<rparr>)"

definition on_tables :: "(skill_tables, 'a) io \<Rightarrow> (skill_world, 'a) io" where
  "on_tables = sfocus kw_tables (\<lambda>t w. w\<lparr>kw_tables := t\<rparr>)"

text \<open>\<open>_writable_rmtree\<close>\<close>

definition remove_tree :: "path \<Rightarrow> (fs, unit) io" where
  "remove_tree d = smodify (rmtree d)"

definition make_package_readonly :: "path \<Rightarrow> (fs, unit) io" where
  "make_package_readonly d = smodify (\<lambda>fs p. case fs p of
     Some (Reg b m) \<Rightarrow> if strict_prefix d p then Some (Reg b (m AND NOT 146)) else Some (Reg b m)
   | other \<Rightarrow> other)"

text \<open>\<open>Path.rename\<close> of a directory\<close>

definition move_tree :: "path \<Rightarrow> path \<Rightarrow> fs \<Rightarrow> fs" where
  "move_tree p q fs = (\<lambda>x. if prefix q x then fs (p @ drop (length q) x) else if prefix p x then None else fs x)"

definition rename :: "registry_env \<Rightarrow> path \<Rightarrow> path \<Rightarrow> (fs, unit) io" where
  "rename env p q = (\<lambda>fs.
     case ge_rename_error env p q of
       Some e \<Rightarrow> (fs, Inl e)
     | None \<Rightarrow>
         if \<not> path_exists fs p \<or> \<not> path_exists fs (butlast q) then (fs, Inl (FileNotFoundError (abs_str p)))
         else if path_exists fs q then (fs, Inl (OSError (''Directory not empty: '' @ abs_str q)))
         else (move_tree p q fs, Inr ()))"

definition make_directory :: "path \<Rightarrow> (fs, unit) io" where
  "make_directory d = (\<lambda>fs.
     if list_ex (is_file fs) (prefixes d) then (fs, Inl (OSError ''Not a directory''))
     else ((\<lambda>p. if fs p = None \<and> prefix p d then Some Dir else fs p), Inr ()))"

definition write_text :: "registry_env \<Rightarrow> path \<Rightarrow> string \<Rightarrow> bool \<Rightarrow> (fs, unit) io" where
  "write_text env target content executable = (\<lambda>fs.
     if fs target = Some Dir then (fs, Inl (IsADirectoryError (abs_str target)))
     else
       let m = (case fs target of Some (Reg b m) \<Rightarrow> m | _ \<Rightarrow> ge_file_mode env)
       in (fs(target \<mapsto> Reg content (if executable then m OR 64 else m)), Inr ()))"

section \<open>Staging\<close>

definition candidate_files :: "skill_candidate \<Rightarrow> generated_file list res" where
  "candidate_files c =
     rbind (categorized (sc_scripts c) ''scripts'') (\<lambda>scripts.
     rbind (categorized (sc_references c) ''references'') (\<lambda>references.
     rbind (categorized (sc_templates c) ''templates'') (\<lambda>templates.
     rbind (categorized (sc_tests c) ''tests'') (\<lambda>tests.
     Inr ([\<lparr>gf_path = ''SKILL.md'', gf_content = sc_skill_md c, gf_executable = False\<rparr>] @
       scripts @ references @ templates @ tests)))))"

definition stage_file :: "registry_env \<Rightarrow> path \<Rightarrow> generated_file \<Rightarrow> (fs, skill_file) io" where
  "stage_file env temporary g =
     sbind (slift (safe_relative (gf_path g) None)) (\<lambda>relative.
     sbind (\<lambda>fs. (fs, resolve_path fs (temporary @ relative))) (\<lambda>destination.
     if \<not> strict_prefix temporary destination
     then sraise (PolicyViolation (''skill path escapes package: '' @ gf_path g))
     else
       sbind (make_directory (butlast destination)) (\<lambda>_.
       sbind (write_text env destination (gf_content g) (gf_executable g)) (\<lambda>_.
       sret \<lparr>sf_path = gf_path g, sf_sha256 = ge_sha env (gf_content g), sf_executable = gf_executable g\<rparr>))))"

definition new_manifest ::
  "registry_env \<Rightarrow> skill_candidate \<Rightarrow> string \<Rightarrow> int option \<Rightarrow> string list \<Rightarrow> bool \<Rightarrow> skill_file list \<Rightarrow> skill_manifest" where
  "new_manifest env c skill_id created_at source_run_ids enabled files =
     \<lparr>sm_skill_id = skill_id, sm_name = sc_name c, sm_description = sc_description c, sm_triggers = sc_triggers c,
      sm_task_families = sc_task_families c, sm_permissions = sc_permissions c,
      sm_source_run_ids = (if source_run_ids = [] then sc_source_run_ids c else source_run_ids), sm_enabled = enabled,
      sm_files = files, sm_created_at = (case created_at of None \<Rightarrow> ge_now env | Some t \<Rightarrow> t), sm_updated_at = ge_now env\<rparr>"

definition fill_staging ::
  "registry_env \<Rightarrow> skill_candidate \<Rightarrow> string \<Rightarrow> int option \<Rightarrow> string list \<Rightarrow> bool \<Rightarrow> path \<Rightarrow> generated_file list \<Rightarrow>
   (fs, path \<times> skill_manifest) io" where
  "fill_staging env c skill_id created_at source_run_ids enabled temporary files =
     sbind (smap (stage_file env temporary) files) (\<lambda>skill_files.
     let manifest = new_manifest env c skill_id created_at source_run_ids enabled skill_files in
     sbind (write_text env (temporary @ [''manifest.json'']) (ge_manifest_json env manifest) False) (\<lambda>_.
     sret (temporary, manifest)))"

definition staging_name :: "registry_env \<Rightarrow> string \<Rightarrow> string" where
  "staging_name env skill_id = ''.staging-'' @ skill_id @ ''-'' @ ge_staging_uuid env"

text \<open>The files are put into categories after the directory is made and before the \<open>try\<close> that removes it.\<close>

definition write_staging ::
  "registry_env \<Rightarrow> skill_candidate \<Rightarrow> string \<Rightarrow> int option \<Rightarrow> string list \<Rightarrow> bool \<Rightarrow> (fs, path \<times> skill_manifest) io" where
  "write_staging env c skill_id created_at source_run_ids enabled =
     sbind (\<lambda>fs. (fs, boundary_resolve fs (ge_root env) (staging_name env skill_id) False)) (\<lambda>temporary.
     sbind (\<lambda>fs. if path_exists fs temporary then (fs, Inl (OSError ''File exists'')) else make_directory temporary fs) (\<lambda>_.
     sbind (slift (candidate_files c)) (\<lambda>files.
     scatch (fill_staging env c skill_id created_at source_run_ids enabled temporary files)
       (\<lambda>e. Some (sbind (remove_tree temporary) (\<lambda>_. sraise e))))))"

section \<open>Validation\<close>

definition FORBIDDEN_TEXT :: "string list" where
  "FORBIDDEN_TEXT = [''rm -rf /'', ''sudo '', ''curl | sh'', ''../'', ''/etc/'', ''~/.ssh'',
     [CHR 0x22] @ ''.env'' @ [CHR 0x22], [CHR 0x27] @ ''.env'' @ [CHR 0x27]]"

definition FORBIDDEN_IMPORTS :: "string list" where
  "FORBIDDEN_IMPORTS = [''subprocess'', ''socket'', ''requests'', ''httpx'', ''urllib'', ''ftplib'']"

definition FORBIDDEN_CALLS :: "string list" where
  "FORBIDDEN_CALLS = [''eval'', ''exec'', ''compile'', ''__import__'', ''os.system'', ''os.popen'']"

definition forbidden_module :: "string \<Rightarrow> bool" where
  "forbidden_module name \<longleftrightarrow> hd (split_on (CHR ''.'') name) \<in> set FORBIDDEN_IMPORTS"

definition callee_name :: "py_callee \<Rightarrow> string" where
  "callee_name f = (case f of CalleeName n \<Rightarrow> n | CalleeAttribute v a \<Rightarrow> v @ ''.'' @ a | CalleeOther \<Rightarrow> [])"

fun node_errors :: "string \<Rightarrow> py_node \<Rightarrow> string list" where
  "node_errors p (ImportNode names) =
     map (\<lambda>n. p @ '': forbidden import '' @ n) (filter forbidden_module names)"
| "node_errors p (ImportFromNode name) =
     (if truthy name \<and> forbidden_module (the name) then [p @ '': forbidden import '' @ the name] else [])"
| "node_errors p (CallNode f) =
     (if callee_name f \<in> set FORBIDDEN_CALLS then [p @ '': forbidden call '' @ callee_name f] else [])"
| "node_errors p OtherNode = []"

definition python_policy :: "registry_env \<Rightarrow> string \<Rightarrow> string \<Rightarrow> string list" where
  "python_policy env source p =
     (case ge_parse env source of
        Inl exc \<Rightarrow> [p @ '': syntax error: '' @ exc]
      | Inr nodes \<Rightarrow> concat (map (node_errors p) nodes))"

definition content_errors :: "registry_env \<Rightarrow> skill_file \<Rightarrow> string \<Rightarrow> string list" where
  "content_errors env f content =
     (if ge_sha env content \<noteq> sf_sha256 f then [''immutable hash mismatch: '' @ sf_path f] else []) @
     (if ge_secret env content then [''possible secret in '' @ sf_path f] else []) @
     (if list_ex (\<lambda>token. contains token content) FORBIDDEN_TEXT then [''unsafe path or command in '' @ sf_path f] else []) @
     (if ends_with ''.py'' (sf_path f) then python_policy env content (sf_path f) else []) @
     (if starts_with ''scripts/'' (sf_path f) \<and> \<not> ends_with ''.py'' (sf_path f) then [''unsupported_runner: '' @ sf_path f] else []) @
     (if ends_with ''.sh'' (sf_path f) then [''unsupported_runner: '' @ sf_path f] else [])"

definition file_errors :: "registry_env \<Rightarrow> fs \<Rightarrow> path \<Rightarrow> skill_file \<Rightarrow> string list res" where
  "file_errors env fs package f =
     rbind (resolve_path fs (join_root package (sf_path f))) (\<lambda>target.
     if \<not> strict_prefix package target \<or> \<not> is_file fs target then Inr [''unsafe or missing file: '' @ sf_path f]
     else rbind (file_bytes fs target) (\<lambda>b. Inr (content_errors env f (universal_newlines (ge_decode env b)))))"

definition package_errors :: "registry_env \<Rightarrow> fs \<Rightarrow> path \<Rightarrow> skill_manifest \<Rightarrow> string list res" where
  "package_errors env fs package manifest =
     rbind (mapM (file_errors env fs package) (sm_files manifest)) (\<lambda>errors.
     Inr ((if is_file fs (package @ [''SKILL.md'']) \<and> is_file fs (package @ [''manifest.json'']) then []
           else [''package is missing SKILL.md or manifest.json'']) @ concat errors))"

definition py_last :: "nat \<Rightarrow> string \<Rightarrow> string" where
  "py_last n s = py_drop (py_len s - n) s"

definition test_error :: "command_result \<Rightarrow> pytest_counts \<Rightarrow> string option" where
  "test_error completed counts =
     (let executed = pc_passed counts + pc_failed counts + pc_errors counts;
          output = py_last 4000 (cr_stdout completed @ cr_stderr completed) in
      if cr_timed_out completed then Some ''skill tests timed out''
      else if pc_collected counts \<le> 0 \<and> cr_exit_code completed \<noteq> 0 then Some (''test collection failed: '' @ output)
      else if pc_collected counts \<le> 0 then Some ''no tests collected''
      else if cr_exit_code completed \<noteq> 0 \<or> pc_failed counts \<noteq> 0 \<or> pc_errors counts \<noteq> 0
      then Some (''skill tests failed: '' @ output)
      else if executed \<le> 0 then Some ''zero tests executed''
      else None)"

definition run_behavior :: "registry_env \<Rightarrow> fs \<Rightarrow> path \<Rightarrow> string option" where
  "run_behavior env fs package =
     (if fs (package @ [''tests'']) \<noteq> Some Dir \<or> ge_test_files env fs (package @ [''tests'']) = [] then None
      else case ge_pytest env fs package of
        (completed, counts) \<Rightarrow> test_error completed
          (case counts of None \<Rightarrow> \<lparr>pc_collected = 0, pc_passed = 0, pc_failed = 0, pc_errors = 0\<rparr> | Some c \<Rightarrow> c))"

text \<open>The errors of \<open>validate_package\<close>; the package passes when there are none.\<close>

definition validate_package :: "registry_env \<Rightarrow> fs \<Rightarrow> path \<Rightarrow> skill_manifest \<Rightarrow> string list res" where
  "validate_package env fs package manifest =
     rbind (package_errors env fs package manifest) (\<lambda>errors.
     Inr (if errors = [] then (case run_behavior env fs package of None \<Rightarrow> [] | Some e \<Rightarrow> [e]) else errors))"

section \<open>Rows\<close>

definition get_skill :: "string \<Rightarrow> skill_tables \<Rightarrow> registered_skill option" where
  "get_skill skill_id t =
     map_option (\<lambda>r. \<lparr>rs_manifest = (kr_manifest r)\<lparr>sm_enabled := kr_enabled r\<rparr>, rs_package_path = kr_package_path r\<rparr>)
       (find (\<lambda>r. kr_skill_id r = skill_id) (kt_skills t))"

definition list_skills :: "bool \<Rightarrow> skill_tables \<Rightarrow> registered_skill list" where
  "list_skills enabled_only t =
     List.map_filter (\<lambda>i. get_skill i t)
       (sort (map kr_skill_id (filter (\<lambda>r. enabled_only \<longrightarrow> kr_enabled r) (kt_skills t))))"

definition skill_operation_result :: "string \<Rightarrow> skill_tables \<Rightarrow> payload option" where
  "skill_operation_result key t = map_of (kt_operations t) key"

definition record_skill_operation :: "string \<Rightarrow> payload \<Rightarrow> (skill_tables, bool) io" where
  "record_skill_operation key result =
     (\<lambda>t. (t\<lparr>kt_operations := insert_or_ignore fst (key, result) (kt_operations t)\<rparr>,
           Inr (map_of (kt_operations t) key = None)))"

text \<open>\<open>INSERT ... ON CONFLICT(skill_id) DO UPDATE\<close>\<close>

definition upsert :: "('r \<Rightarrow> string) \<Rightarrow> ('r \<Rightarrow> 'r) \<Rightarrow> 'r \<Rightarrow> 'r list \<Rightarrow> 'r list" where
  "upsert key change r rows =
     (if list_ex (\<lambda>x. key x = key r) rows then map (\<lambda>x. if key x = key r then change x else x) rows else rows @ [r])"

definition fts_content :: "skill_candidate \<Rightarrow> string" where
  "fts_content c = join '' '' ([sc_name c, sc_description c] @ sc_triggers c @ sc_task_families c)"

definition fresh_stats :: "string \<Rightarrow> int \<Rightarrow> skill_stats" where
  "fresh_stats skill_id now = \<lparr>ss_skill_id = skill_id, ss_retrieval_count = 0, ss_selected_count = 0, ss_use_count = 0,
     ss_success_count = 0, ss_failure_count = 0, ss_patch_count = 0, ss_created_at = now, ss_updated_at = now,
     ss_last_used_at = None\<rparr>"

definition upserted_rows ::
  "int \<Rightarrow> skill_manifest \<Rightarrow> path \<Rightarrow> skill_candidate \<Rightarrow> string option \<Rightarrow> skill_tables \<Rightarrow> skill_tables" where
  "upserted_rows now manifest package c operation_key t =
     (let i = sm_skill_id manifest;
          row = \<lparr>kr_skill_id = i, kr_enabled = sm_enabled manifest, kr_manifest = manifest, kr_package_path = package\<rparr>
      in \<lparr>kt_skills = upsert kr_skill_id (\<lambda>_. row) row (kt_skills t),
          kt_fts = filter (\<lambda>f. fst f \<noteq> i) (kt_fts t) @ [(i, fts_content c)],
          kt_stats = upsert ss_skill_id (\<lambda>x. x\<lparr>ss_updated_at := now\<rparr>) (fresh_stats i now) (kt_stats t),
          kt_operations = (if truthy operation_key
            then insert_or_ignore fst (the operation_key, [(''skill_id'', JStr i)]) (kt_operations t) else kt_operations t)\<rparr>)"

definition upsert_rows ::
  "registry_env \<Rightarrow> skill_manifest \<Rightarrow> path \<Rightarrow> skill_candidate \<Rightarrow> string option \<Rightarrow> (skill_tables, unit) io" where
  "upsert_rows env manifest package c operation_key = (\<lambda>t.
     case ge_commit_error env of
       Some e \<Rightarrow> (t, Inl e)
     | None \<Rightarrow> (upserted_rows (ge_now env) manifest package c operation_key t, Inr ()))"

section \<open>Installation\<close>

definition whenever :: "bool \<Rightarrow> ('s, unit) io \<Rightarrow> ('s, unit) io" where
  "whenever b m = (if b then m else sret ())"

definition install_new ::
  "registry_env \<Rightarrow> string \<Rightarrow> path \<Rightarrow> skill_manifest \<Rightarrow> skill_candidate \<Rightarrow> string option \<Rightarrow> (skill_world, registered_skill) io" where
  "install_new env skill_id staging manifest c operation_key =
     sbind (on_fs (\<lambda>fs. (fs, boundary_resolve fs (ge_root env) skill_id False))) (\<lambda>skill_root.
     let package = skill_root @ [''package'']; memory_path = skill_root @ [''memory.md''] in
     sbind (sget (\<lambda>w. path_exists (kw_fs w) package)) (\<lambda>package_existed.
     if package_existed then sraise (CapabilityRegistryError (''skill package already exists: '' @ abs_str package))
     else
       sbind (sget (\<lambda>w. path_exists (kw_fs w) skill_root)) (\<lambda>skill_root_existed.
       sbind (on_fs (make_directory skill_root)) (\<lambda>_.
       sbind (sget (\<lambda>w. path_exists (kw_fs w) memory_path)) (\<lambda>memory_existed.
       sbind (on_fs (whenever (\<not> memory_existed) (write_text env memory_path [] False))) (\<lambda>_.
       sbind (on_fs (make_package_readonly staging)) (\<lambda>_.
       sbind (scatch
         (sbind (on_fs (rename env staging package)) (\<lambda>_.
          on_tables (upsert_rows env manifest package c operation_key)))
         (\<lambda>e. Some (
            sbind (on_fs (remove_tree package)) (\<lambda>_.
            sbind (on_fs (whenever (\<not> memory_existed) (smodify (\<lambda>fs. fs(memory_path := None))))) (\<lambda>_.
            sbind (on_fs (whenever (\<not> skill_root_existed) (remove_tree skill_root))) (\<lambda>_.
            sbind (on_fs (remove_tree staging)) (\<lambda>_.
            sraise e)))))) ) (\<lambda>_.
       sret \<lparr>rs_manifest = manifest, rs_package_path = package\<rparr>))))))))"

definition old_previous_name :: "registry_env \<Rightarrow> string" where
  "old_previous_name env = ''.old-previous-'' @ ge_previous_uuid env"

text \<open>The handler of \<open>_install_update\<close>.\<close>

definition restore_package :: "registry_env \<Rightarrow> path \<Rightarrow> path \<Rightarrow> path \<Rightarrow> path \<Rightarrow> bool \<Rightarrow> (fs, unit) io" where
  "restore_package env current previous old_previous staging moved_current =
     sbind (sget (\<lambda>fs. moved_current \<and> path_exists fs current)) (\<lambda>b1.
     sbind (whenever b1 (remove_tree current)) (\<lambda>_.
     sbind (sget (\<lambda>fs. \<not> path_exists fs current \<and> path_exists fs previous)) (\<lambda>b2.
     sbind (whenever b2 (rename env previous current)) (\<lambda>_.
     sbind (sget (\<lambda>fs. path_exists fs old_previous \<and> \<not> path_exists fs previous)) (\<lambda>b3.
     sbind (whenever b3 (rename env old_previous previous)) (\<lambda>_.
     remove_tree staging))))))"

definition swap_package ::
  "registry_env \<Rightarrow> path \<Rightarrow> path \<Rightarrow> path \<Rightarrow> path \<Rightarrow> skill_manifest \<Rightarrow> skill_candidate \<Rightarrow> string option \<Rightarrow> (skill_world, unit) io" where
  "swap_package env current previous old_previous staging manifest c operation_key =
     (let restore = (\<lambda>moved e. sbind (on_fs (restore_package env current previous old_previous staging moved)) (\<lambda>_. sraise e)) in
      sbind (scatch
        (sbind (sget (\<lambda>w. path_exists (kw_fs w) previous)) (\<lambda>previous_existed.
         sbind (on_fs (whenever previous_existed (rename env previous old_previous))) (\<lambda>_.
         on_fs (rename env current previous))))
        (\<lambda>e. Some (restore False e))) (\<lambda>_.
      scatch
        (sbind (on_fs (rename env staging current)) (\<lambda>_.
         on_tables (upsert_rows env manifest current c operation_key)))
        (\<lambda>e. Some (restore True e))))"

definition install_update ::
  "registry_env \<Rightarrow> string \<Rightarrow> path \<Rightarrow> skill_manifest \<Rightarrow> skill_candidate \<Rightarrow> string option \<Rightarrow> (skill_world, registered_skill) io" where
  "install_update env skill_id staging manifest c operation_key =
     sbind (on_fs (\<lambda>fs. (fs, boundary_resolve fs (ge_root env) skill_id False))) (\<lambda>skill_root.
     let current = skill_root @ [''package'']; previous = skill_root @ [''previous''];
         old_previous = skill_root @ [old_previous_name env] in
     sbind (sget (\<lambda>w. kw_fs w current = Some Dir)) (\<lambda>installed.
     if \<not> installed
     then sbind (on_fs (remove_tree staging)) (\<lambda>_. sraise (CapabilityRegistryError (''current package missing for '' @ skill_id)))
     else
       sbind (on_fs (make_package_readonly staging)) (\<lambda>_.
       sbind (swap_package env current previous old_previous staging manifest c operation_key) (\<lambda>_.
       sbind (on_fs (remove_tree old_previous)) (\<lambda>_.
       sret \<lparr>rs_manifest = manifest, rs_package_path = current\<rparr>)))))"

section \<open>Creating and updating\<close>

text \<open>The result of an operation that was applied before: the skill it names.\<close>

definition replayed_skill :: "string option \<Rightarrow> (skill_tables, registered_skill option) io" where
  "replayed_skill operation_key =
     sbind (sget (\<lambda>t. if truthy operation_key then skill_operation_result (the operation_key) t else None)) (\<lambda>prior.
     case prior of
       None \<Rightarrow> sret None
     | Some r \<Rightarrow>
         (case jget r ''skill_id'' of
            JStr i \<Rightarrow>
              sbind (sget (get_skill i)) (\<lambda>existing.
              if existing = None
              then sraise (CapabilityRegistryError (''operation '' @ the operation_key @ '' references a missing skill''))
              else sret existing)
          | _ \<Rightarrow> sraise (CapabilityRegistryError (''operation '' @ the operation_key @ '' has an invalid stored result''))))"

definition check_and_install ::
  "registry_env \<Rightarrow> path \<Rightarrow> skill_manifest \<Rightarrow> (skill_world, registered_skill) io \<Rightarrow> (skill_world, registered_skill) io" where
  "check_and_install env staging manifest install =
     scatch
       (sbind (on_fs (\<lambda>fs. (fs, validate_package env fs staging manifest))) (\<lambda>errors.
        if errors \<noteq> [] then sraise (CapabilityRegistryError (''skill validation failed: '' @ join ''; '' errors)) else install))
       (\<lambda>e. Some (sbind (on_fs (remove_tree staging)) (\<lambda>_. sraise e)))"

definition create_skill ::
  "registry_env \<Rightarrow> skill_candidate \<Rightarrow> string option \<Rightarrow> string option \<Rightarrow> (skill_world, registered_skill) io" where
  "create_skill env c skill_id operation_key =
     sbind (on_tables (replayed_skill operation_key)) (\<lambda>replayed.
     case replayed of
       Some r \<Rightarrow> sret r
     | None \<Rightarrow>
         sbind (slift (slug (or_else skill_id (sc_name c)))) (\<lambda>resolved_id.
         sbind (sget (\<lambda>w. get_skill resolved_id (kw_tables w))) (\<lambda>existing.
         if existing \<noteq> None then sraise (CapabilityRegistryError (''skill already exists: '' @ resolved_id))
         else
           sbind (on_fs (write_staging env c resolved_id None [] True)) (\<lambda>(staging, manifest).
           check_and_install env staging manifest (install_new env resolved_id staging manifest c operation_key)))))"

definition update_skill ::
  "registry_env \<Rightarrow> string \<Rightarrow> skill_candidate \<Rightarrow> string option \<Rightarrow> (skill_world, registered_skill) io" where
  "update_skill env skill_id c operation_key =
     sbind (on_tables (replayed_skill operation_key)) (\<lambda>replayed.
     case replayed of
       Some r \<Rightarrow> sret r
     | None \<Rightarrow>
         sbind (sget (\<lambda>w. get_skill skill_id (kw_tables w))) (\<lambda>existing.
         case existing of
           None \<Rightarrow> sraise (CapabilityRegistryError (''unknown skill: '' @ skill_id))
         | Some r \<Rightarrow>
             let current = rs_manifest r in
             sbind (on_fs (write_staging env c skill_id (Some (sm_created_at current))
               (dedup (sm_source_run_ids current @ sc_source_run_ids c)) (sm_enabled current))) (\<lambda>(staging, manifest).
             check_and_install env staging manifest (install_update env skill_id staging manifest c operation_key))))"

section \<open>Other operations\<close>

text \<open>The transaction of an operation: it commits or raises.\<close>

definition set_enabled :: "registry_env \<Rightarrow> string \<Rightarrow> bool \<Rightarrow> (skill_tables, unit) io" where
  "set_enabled env skill_id enabled = (\<lambda>t.
     case get_skill skill_id t of
       None \<Rightarrow> (t, Inl (KeyError (''unknown skill: '' @ skill_id)))
     | Some r \<Rightarrow>
         (case ge_commit_error env of
            Some e \<Rightarrow> (t, Inl e)
          | None \<Rightarrow> (t\<lparr>kt_skills := map (\<lambda>x. if kr_skill_id x = skill_id
                 then x\<lparr>kr_enabled := enabled, kr_manifest := (rs_manifest r)\<lparr>sm_enabled := enabled\<rparr>\<rparr> else x) (kt_skills t)\<rparr>,
               Inr ())))"

definition skill_stats_of :: "string \<Rightarrow> skill_tables \<Rightarrow> skill_stats res" where
  "skill_stats_of skill_id t =
     (case find (\<lambda>x. ss_skill_id x = skill_id) (kt_stats t) of
        None \<Rightarrow> Inl (KeyError (''unknown skill stats: '' @ skill_id)) | Some x \<Rightarrow> Inr x)"

definition skill_root :: "fs \<Rightarrow> string \<Rightarrow> skill_tables \<Rightarrow> path res" where
  "skill_root fs skill_id t =
     (case get_skill skill_id t of
        None \<Rightarrow> Inl (KeyError (''unknown skill: '' @ skill_id))
      | Some r \<Rightarrow> rbind (resolve_path fs (rs_package_path r)) (\<lambda>p. Inr (butlast p)))"

definition applied :: "string option \<Rightarrow> skill_tables \<Rightarrow> bool" where
  "applied operation_key t \<longleftrightarrow> truthy operation_key \<and> skill_operation_result (the operation_key) t \<noteq> None"

definition with_operation :: "string option \<Rightarrow> payload \<Rightarrow> skill_tables \<Rightarrow> skill_tables" where
  "with_operation operation_key result t =
     (if truthy operation_key then t\<lparr>kt_operations := kt_operations t @ [(the operation_key, result)]\<rparr> else t)"

definition count_retrieval :: "bool \<Rightarrow> int \<Rightarrow> string \<Rightarrow> skill_stats list \<Rightarrow> skill_stats list" where
  "count_retrieval selected now skill_id = map (\<lambda>x.
     if ss_skill_id x \<noteq> skill_id then x
     else if selected then x\<lparr>ss_selected_count := ss_selected_count x + 1, ss_updated_at := now\<rparr>
     else x\<lparr>ss_retrieval_count := ss_retrieval_count x + 1, ss_updated_at := now\<rparr>)"

definition record_retrieval ::
  "registry_env \<Rightarrow> string list \<Rightarrow> bool \<Rightarrow> string option \<Rightarrow> (skill_tables, bool) io" where
  "record_retrieval env skill_ids selected operation_key = (\<lambda>t.
     case ge_commit_error env of
       Some e \<Rightarrow> (t, Inl (RuntimeError (''Failed to record retrieval for '' @ show_nat (length skill_ids) @ '' skills: '' @ exc_str e)))
     | None \<Rightarrow>
         if applied operation_key t then (t, Inr False)
         else (with_operation operation_key [(''count'', JInt (int (length skill_ids))), (''selected'', JBool selected)]
                 (t\<lparr>kt_stats := fold (count_retrieval selected (ge_now env)) skill_ids (kt_stats t)\<rparr>), Inr True))"

definition count_use :: "bool \<Rightarrow> bool \<Rightarrow> int \<Rightarrow> skill_stats \<Rightarrow> skill_stats" where
  "count_use success patched now x =
     x\<lparr>ss_use_count := ss_use_count x + 1, ss_success_count := ss_success_count x + of_bool success,
       ss_failure_count := ss_failure_count x + of_bool (\<not> success), ss_patch_count := ss_patch_count x + of_bool patched,
       ss_last_used_at := Some now, ss_updated_at := now\<rparr>"

definition record_use ::
  "registry_env \<Rightarrow> string \<Rightarrow> bool \<Rightarrow> bool \<Rightarrow> string option \<Rightarrow> (skill_tables, bool) io" where
  "record_use env skill_id success patched operation_key = (\<lambda>t.
     case ge_commit_error env of
       Some e \<Rightarrow> (t, Inl e)
     | None \<Rightarrow>
         if applied operation_key t then (t, Inr False)
         else (with_operation operation_key [(''recorded'', JBool True)]
                 (t\<lparr>kt_stats := map (\<lambda>x. if ss_skill_id x = skill_id then count_use success patched (ge_now env) x else x)
                    (kt_stats t)\<rparr>), Inr True))"

text \<open>Opening the lock file and the memory file to append creates them. The text is read with its line ends translated.\<close>

definition append_skill_memory :: "registry_env \<Rightarrow> string \<Rightarrow> skill_memory_entry \<Rightarrow> (fs, bool) io" where
  "append_skill_memory env skill_id e =
     (let dir = join_root (ge_root env) skill_id; memory_path = dir @ [''memory.md''] in
      sbind (sget (\<lambda>fs. fs (dir @ [''package'']) = Some Dir)) (\<lambda>installed.
      if \<not> installed then sret False
      else
        sbind (smodify (\<lambda>fs. if path_exists fs (dir @ [''.memory.lock'']) then fs
          else fs(dir @ [''.memory.lock''] \<mapsto> Reg [] (ge_file_mode env)))) (\<lambda>_.
        sbind (smodify (\<lambda>fs. if path_exists fs memory_path then fs else fs(memory_path \<mapsto> Reg [] (ge_file_mode env)))) (\<lambda>_.
        sbind (\<lambda>fs. (fs, file_text fs memory_path)) (\<lambda>existing.
        case memory_addition skill_id existing e of
          None \<Rightarrow> sret False
        | Some added \<Rightarrow>
            sbind (smodify (\<lambda>fs. case fs memory_path of
                Some (Reg b m) \<Rightarrow> fs(memory_path \<mapsto> Reg (b @ added) m) | _ \<Rightarrow> fs)) (\<lambda>_. sret True))))))"

text \<open>The newest entries, whose sizes fit; the newest one always does.\<close>

definition entry_size :: "skill_memory_entry \<Rightarrow> int" where
  "entry_size e = int (py_len (se_lesson e) + py_len (se_task_summary e) + 32)"

fun recent_fitting :: "int \<Rightarrow> bool \<Rightarrow> int \<Rightarrow> skill_memory_entry list \<Rightarrow> skill_memory_entry list" where
  "recent_fitting max_chars nonempty used [] = []"
| "recent_fitting max_chars nonempty used (e # es) =
     (if nonempty \<and> max_chars < used + entry_size e then []
      else e # recent_fitting max_chars True (used + entry_size e) es)"

text \<open>\<open>entries[-limit:] if limit >= 0 else entries\<close>\<close>

definition last_entries :: "int \<Rightarrow> 'a list \<Rightarrow> 'a list" where
  "last_entries limit xs = (if limit \<le> 0 then xs else drop (length xs - nat limit) xs)"

definition read_skill_memory ::
  "registry_env \<Rightarrow> string \<Rightarrow> int \<Rightarrow> int \<Rightarrow> fs \<Rightarrow> skill_tables \<Rightarrow> skill_memory_entry list res" where
  "read_skill_memory env skill_id limit max_chars fs t =
     (case skill_root fs skill_id t of
        Inl (KeyError m) \<Rightarrow> Inr []
      | Inl e \<Rightarrow> Inl e
      | Inr dir \<Rightarrow>
          if \<not> is_file fs (dir @ [''memory.md'']) then Inr []
          else rbind (file_text fs (dir @ [''memory.md''])) (\<lambda>content.
            let recent = last_entries limit (parse_skill_memory_entries (ge_iso_other env) (ge_utc_now env) content)
            in Inr (rev (recent_fitting max_chars False 0 (rev recent)))))"

end
