(* ===== verification/SkillAtomic.thy ===== *)
theory SkillAtomic
  imports Skills
begin

text \<open>
  Creating and updating a skill is atomic: what \<^verbatim>\<open>capability/registry.py\<close> leaves of the files and of the
  tables when an installation fails anywhere, and what a registered package is.
\<close>

section \<open>Trees beside each other\<close>

definition apart :: "path \<Rightarrow> path \<Rightarrow> bool" where
  "apart p q \<longleftrightarrow> \<not> prefix p q \<and> \<not> prefix q p"

lemma apart_sym: "apart p q \<Longrightarrow> apart q p"
  by (simp add: apart_def)

lemma apart_siblings [simp]: "apart (d @ [x]) (d @ [y]) \<longleftrightarrow> x \<noteq> y"
  by (auto simp: apart_def)

lemma apart_cousins: "x \<noteq> y \<Longrightarrow> apart (d @ [x]) (d @ y # p)" "x \<noteq> y \<Longrightarrow> apart (d @ y # p) (d @ [x])"
  by (auto simp: apart_def)

lemma apart_below: "apart p q \<Longrightarrow> prefix p x \<Longrightarrow> \<not> prefix q x"
  by (metis apart_def prefix_same_cases)

text \<open>Two trees of files that differ at most below a place.\<close>

definition same_off :: "path \<Rightarrow> fs \<Rightarrow> fs \<Rightarrow> bool" where
  "same_off s F G \<longleftrightarrow> (\<forall>x. \<not> prefix s x \<longrightarrow> F x = G x)"

lemma same_offD: "same_off s F G \<Longrightarrow> \<not> prefix s x \<Longrightarrow> F x = G x"
  by (simp add: same_off_def)

lemma same_off_refl [simp]: "same_off s F F"
  by (simp add: same_off_def)

lemma same_off_trans: "same_off s F G \<Longrightarrow> same_off s G H \<Longrightarrow> same_off s F H"
  by (simp add: same_off_def)

lemma same_off_sym: "same_off s F G \<Longrightarrow> same_off s G F"
  by (simp add: same_off_def)

lemma rmtree_same_off: "same_off s F G \<Longrightarrow> rmtree s F = rmtree s G"
  by (rule ext) (simp add: rmtree_def same_off_def)

lemma rmtree_id: "(\<And>x. prefix s x \<Longrightarrow> F x = None) \<Longrightarrow> rmtree s F = F"
  by (rule ext) (simp add: rmtree_def)

lemma same_off_rmtree: "same_off s (rmtree s F) F"
  by (simp add: same_off_def rmtree_def)

lemma move_back:
  assumes "\<And>x. prefix q x \<Longrightarrow> F x = None" and "apart p q"
  shows "move_tree q p (move_tree p q F) = F"
proof (rule ext)
  fix x
  show "move_tree q p (move_tree p q F) x = F x"
  proof (cases "prefix p x")
    case True
    then obtain r where "x = p @ r" by (auto simp: prefix_def)
    then show ?thesis by (simp add: move_tree_def)
  next
    case False
    then show ?thesis using assms(1) [of x] by (auto simp: move_tree_def)
  qed
qed

lemma move_tree_at:
  "apart p q \<Longrightarrow> move_tree p q F p = None" "move_tree p q F q = F p"
  "\<not> prefix p x \<Longrightarrow> \<not> prefix q x \<Longrightarrow> move_tree p q F x = F x"
  by (auto simp: move_tree_def apart_def)

lemma move_tree_empties: "apart p q \<Longrightarrow> prefix p x \<Longrightarrow> move_tree p q F x = None"
  using apart_below [of p q x] by (simp add: move_tree_def)

lemma same_off_move:
  assumes "same_off s F G" and "apart s p" and "apart s q"
  shows "same_off s (move_tree p q F) (move_tree p q G)"
proof -
  have "\<not> prefix s (p @ r)" for r using apart_below [OF apart_sym [OF assms(2)], of "p @ r"] by simp
  then show ?thesis using assms(1) by (auto simp: same_off_def move_tree_def)
qed

lemma rename_Inr:
  "rename env p q F = (F', Inr u) \<longleftrightarrow> ge_rename_error env p q = None \<and> F p \<noteq> None \<and> F (butlast q) \<noteq> None \<and> F q = None \<and>
     F' = move_tree p q F"
  by (auto simp: rename_def path_exists_def split: option.splits)

lemma rename_Inl: "rename env p q F = (F', Inl e) \<Longrightarrow> F' = F"
  by (auto simp: rename_def split: option.splits if_splits)

section \<open>The handler of an update undoes it\<close>

abbreviation package_of :: "path \<Rightarrow> path" where
  "package_of d \<equiv> d @ [''package'']"

abbreviation previous_of :: "path \<Rightarrow> path" where
  "previous_of d \<equiv> d @ [''previous'']"

abbreviation old_previous_of :: "registry_env \<Rightarrow> path \<Rightarrow> path" where
  "old_previous_of env d \<equiv> d @ [old_previous_name env]"

text \<open>
  The directory \<open>d\<close> of an installed skill before anything moves, beside the staging directory \<open>s\<close>: the
  renames of the handler do not fail, and the name for the package before the previous one is fresh.
\<close>

definition update_layout :: "registry_env \<Rightarrow> path \<Rightarrow> path \<Rightarrow> fs \<Rightarrow> bool" where
  "update_layout env d s F \<longleftrightarrow> apart s d \<and> F d \<noteq> None \<and> F (package_of d) \<noteq> None \<and>
     (\<forall>x. prefix (old_previous_of env d) x \<longrightarrow> F x = None) \<and>
     (F (previous_of d) = None \<longrightarrow> (\<forall>x. prefix (previous_of d) x \<longrightarrow> F x = None)) \<and>
     ge_rename_error env (previous_of d) (package_of d) = None \<and>
     ge_rename_error env (old_previous_of env d) (previous_of d) = None"

definition previous_moved :: "registry_env \<Rightarrow> path \<Rightarrow> fs \<Rightarrow> fs" where
  "previous_moved env d F = (if F (previous_of d) = None then F else move_tree (previous_of d) (old_previous_of env d) F)"

definition package_moved :: "registry_env \<Rightarrow> path \<Rightarrow> fs \<Rightarrow> fs" where
  "package_moved env d F = move_tree (package_of d) (previous_of d) (previous_moved env d F)"

lemma apart_child: "apart s d \<Longrightarrow> apart s (d @ x)"
  unfolding apart_def by (metis append_prefixD prefix_same_cases prefixI)

lemma apart_not_prefix: "apart s d \<Longrightarrow> \<not> prefix s d" "apart s d \<Longrightarrow> \<not> prefix s (d @ x)"
  using apart_child [of s d x] by (simp_all add: apart_def)

lemma old_previous_name [simp]: "old_previous_name env \<noteq> ''package''" "old_previous_name env \<noteq> ''previous''"
    "''package'' \<noteq> old_previous_name env" "''previous'' \<noteq> old_previous_name env"
  by (simp_all add: old_previous_name_def)

lemma moved_states:
  assumes "update_layout env d s F"
  shows "previous_moved env d F d = F d" "previous_moved env d F (package_of d) = F (package_of d)"
    "\<And>x. prefix (previous_of d) x \<Longrightarrow> previous_moved env d F x = None"
    "previous_moved env d F (old_previous_of env d) = F (previous_of d)"
    "package_moved env d F d = F d" "package_moved env d F (previous_of d) = F (package_of d)"
    "package_moved env d F (package_of d) = None"
    "package_moved env d F (old_previous_of env d) = F (previous_of d)"
  using assms by (auto simp: previous_moved_def package_moved_def update_layout_def move_tree_at move_tree_empties)

lemma restore_untouched:
  assumes "update_layout env d s F" and "same_off s G F"
  shows "restore_package env (package_of d) (previous_of d) (old_previous_of env d) s False G = (rmtree s F, Inr ())"
proof -
  note off = same_offD [OF assms(2) apart_not_prefix(2)]
  have "G (package_of d) \<noteq> None" "G (old_previous_of env d) = None"
    using assms(1) by (auto simp: off update_layout_def)
  then show ?thesis using rmtree_same_off [OF assms(2)]
    by (auto simp add: restore_package_def sbind_def whenever_def path_exists_def remove_tree_def)
qed

lemma restore_previous_moved:
  assumes "update_layout env d s F" and "same_off s G (previous_moved env d F)"
  shows "restore_package env (package_of d) (previous_of d) (old_previous_of env d) s False G = (rmtree s F, Inr ())"
proof (cases "F (previous_of d) = None")
  case True
  then show ?thesis using restore_untouched [OF assms(1), of G] assms(2) by (simp add: previous_moved_def)
next
  case False
  have s: "apart s d" using assms(1) by (simp add: update_layout_def)
  note off = same_offD [OF assms(2) apart_not_prefix(2) [OF s]] same_offD [OF assms(2) apart_not_prefix(1) [OF s]]
  have G: "G (package_of d) \<noteq> None" "G (previous_of d) = None" "G (old_previous_of env d) \<noteq> None" "G d \<noteq> None"
    using assms(1) False by (auto simp: off moved_states [OF assms(1)] update_layout_def)
  have "same_off s (move_tree (old_previous_of env d) (previous_of d) G)
      (move_tree (old_previous_of env d) (previous_of d) (previous_moved env d F))"
    by (rule same_off_move [OF assms(2) apart_child apart_child]) (rule s)+
  also have "move_tree (old_previous_of env d) (previous_of d) (previous_moved env d F) = F"
    using assms(1) False move_back [of "old_previous_of env d" F "previous_of d"]
    by (auto simp: previous_moved_def update_layout_def)
  finally have "rmtree s (move_tree (old_previous_of env d) (previous_of d) G) = rmtree s F" by (rule rmtree_same_off)
  moreover have "rename env (old_previous_of env d) (previous_of d) G =
      (move_tree (old_previous_of env d) (previous_of d) G, Inr ())"
    using G assms(1) by (simp add: rename_def path_exists_def update_layout_def)
  ultimately show ?thesis using G
    by (auto simp: restore_package_def sbind_def whenever_def path_exists_def remove_tree_def)
qed

text \<open>After the current package has moved, whatever has taken its place is removed and it moves back.\<close>

lemma restore_unmoved:
  "G a \<noteq> None \<Longrightarrow> restore_package env a b o' s True G = restore_package env a b o' s True (rmtree a G)"
  by (auto simp: restore_package_def sbind_def whenever_def path_exists_def remove_tree_def rmtree_def)

lemma restore_moves_package:
  assumes "G a = None" and "G b \<noteq> None" and "G (butlast a) \<noteq> None" and "ge_rename_error env b a = None" and "apart a b"
  shows "restore_package env a b o' s True G = restore_package env a b o' s False (move_tree b a G)"
proof -
  have "rename env b a G = (move_tree b a G, Inr ())" using assms by (simp add: rename_def path_exists_def)
  moreover have "move_tree b a G a = G b" by (rule move_tree_at)
  ultimately show ?thesis using assms
    by (auto simp: restore_package_def sbind_def whenever_def path_exists_def remove_tree_def)
qed

lemma restore_package_moved:
  assumes "update_layout env d s F"
    and G: "\<And>x. \<not> prefix s x \<Longrightarrow> \<not> prefix (package_of d) x \<Longrightarrow> G x = package_moved env d F x"
    and none: "G (package_of d) = None \<Longrightarrow> (\<And>x. prefix (package_of d) x \<Longrightarrow> G x = None)"
  shows "restore_package env (package_of d) (previous_of d) (old_previous_of env d) s True G = (rmtree s F, Inr ())"
proof -
  let ?a = "package_of d" and ?b = "previous_of d" and ?o = "old_previous_of env d"
  define G1 where "G1 = (if G ?a = None then G else rmtree ?a G)"
  have s: "apart s d" using assms(1) by (simp add: update_layout_def)
  have "G1 x = package_moved env d F x" if "\<not> prefix s x" for x
  proof (cases "prefix ?a x")
    case True
    then have "G1 x = None" using none [OF _ True] by (auto simp: G1_def rmtree_def)
    then show ?thesis using True by (simp add: package_moved_def move_tree_empties)
  qed (use G that in \<open>simp add: G1_def rmtree_def\<close>)
  then have off: "same_off s G1 (package_moved env d F)" by (simp add: same_off_def)
  note at = same_offD [OF off apart_not_prefix(2) [OF s]] same_offD [OF off apart_not_prefix(1) [OF s]]
  have G1: "G1 ?a = None" "G1 ?b \<noteq> None" "G1 (butlast ?a) \<noteq> None"
    using assms(1) by (auto simp: at moved_states [OF assms(1)] update_layout_def)
  have "same_off s (move_tree ?b ?a G1) (move_tree ?b ?a (package_moved env d F))"
    by (rule same_off_move [OF off apart_child apart_child]) (rule s)+
  also have "move_tree ?b ?a (package_moved env d F) = previous_moved env d F"
    unfolding package_moved_def by (rule move_back) (simp_all add: moved_states(3) [OF assms(1)])
  finally have moved_back: "same_off s (move_tree ?b ?a G1) (previous_moved env d F)" .
  have "restore_package env ?a ?b ?o s True G = restore_package env ?a ?b ?o s True G1"
    by (simp add: G1_def restore_unmoved)
  also have "\<dots> = restore_package env ?a ?b ?o s False (move_tree ?b ?a G1)"
    using assms(1) by (intro restore_moves_package G1) (simp_all add: update_layout_def)
  also have "\<dots> = (rmtree s F, Inr ())" by (rule restore_previous_moved [OF assms(1) moved_back])
  finally show ?thesis .
qed

text \<open>The two halves of the \<open>try\<close> block.\<close>

lemma previous_step:
  assumes "update_layout env d s F" and "same_off s G F"
    and "whenever (path_exists G (previous_of d)) (rename env (previous_of d) (old_previous_of env d)) G = (G', r)"
  shows "case r of Inl e \<Rightarrow> same_off s G' F | Inr u \<Rightarrow> same_off s G' (previous_moved env d F)"
proof -
  have s: "apart s d" using assms(1) by (simp add: update_layout_def)
  have "G (previous_of d) = F (previous_of d)" by (rule same_offD [OF assms(2) apart_not_prefix(2) [OF s]])
  then show ?thesis
    using assms(2,3) same_off_move [OF assms(2) apart_child [OF s] apart_child [OF s]]
    by (auto simp: whenever_def path_exists_def previous_moved_def rename_Inr dest!: rename_Inl split: sum.splits if_splits)
qed

lemma package_step:
  assumes "update_layout env d s F" and "same_off s G (previous_moved env d F)"
    and "rename env (package_of d) (previous_of d) G = (G', r)"
  shows "case r of Inl e \<Rightarrow> same_off s G' (previous_moved env d F) | Inr u \<Rightarrow> same_off s G' (package_moved env d F)"
proof -
  have s: "apart s d" using assms(1) by (simp add: update_layout_def)
  show ?thesis
    using assms(2,3) same_off_move [OF assms(2) apart_child [OF s] apart_child [OF s]]
    by (cases r) (auto simp: package_moved_def rename_Inr dest!: rename_Inl)
qed

lemma swap_fails:
  assumes lay: "update_layout env d s F" and off: "same_off s (kw_fs w) F"
    and swap: "swap_package env (package_of d) (previous_of d) (old_previous_of env d) s manifest c key w = (w', Inl e)"
  shows "w' = w\<lparr>kw_fs := rmtree s F\<rparr>"
proof -
  let ?a = "package_of d" and ?b = "previous_of d" and ?o = "old_previous_of env d"
  note defs = swap_package_def sbind_def scatch_def on_fs_def on_tables_def sfocus_def
  have s: "apart s d" using lay by (simp add: update_layout_def)
  obtain G1 r1 where 1: "whenever (path_exists (kw_fs w) ?b) (rename env ?b ?o) (kw_fs w) = (G1, r1)" by fastforce
  obtain G2 r2 where 2: "rename env ?a ?b G1 = (G2, r2)" by fastforce
  obtain G3 r3 where 3: "rename env s ?a G2 = (G3, r3)" by fastforce
  note step1 = previous_step [OF lay off 1]
  show ?thesis
  proof (cases r1)
    case (Inl e1)
    with step1 have "same_off s G1 F" by simp
    from restore_untouched [OF lay this] show ?thesis using swap 1 Inl by (simp add: defs)
  next
    case r1: (Inr u1)
    with step1 have G1: "same_off s G1 (previous_moved env d F)" by simp
    note step2 = package_step [OF lay G1 2]
    show ?thesis
    proof (cases r2)
      case (Inl e2)
      with step2 have "same_off s G2 (previous_moved env d F)" by simp
      from restore_previous_moved [OF lay this] show ?thesis using swap 1 2 r1 Inl by (simp add: defs)
    next
      case r2: (Inr u2)
      with step2 have G2: "same_off s G2 (package_moved env d F)" by simp
      have none: "G2 x = None" if "prefix ?a x" for x
        using that same_offD [OF G2, of x] apart_below [OF apart_sym [OF apart_child [OF s]] that]
        by (simp add: package_moved_def move_tree_empties)
      have restored: "restore_package env ?a ?b ?o s True G3 = (rmtree s F, Inr ())"
      proof (rule restore_package_moved [OF lay])
        show "G3 x = package_moved env d F x" if "\<not> prefix s x" "\<not> prefix ?a x" for x
          using that 3 same_offD [OF G2, of x] rename_Inl [of env s ?a G2 G3]
          by (cases r3) (auto simp: rename_Inr move_tree_at)
        show "G3 x = None" if "G3 ?a = None" "prefix ?a x" for x
          using that 3 none [OF that(2)] rename_Inl [of env s ?a G2 G3]
          by (cases r3) (auto simp: rename_Inr move_tree_at)
      qed
      show ?thesis
      proof (cases r3)
        case (Inl e3)
        then show ?thesis using restored swap 1 2 3 r1 r2 by (simp add: defs)
      next
        case (Inr u3)
        then show ?thesis using restored swap 1 2 3 r1 r2 by (auto simp: defs upsert_rows_def split: option.splits)
      qed
    qed
  qed
qed

section \<open>Names and staging\<close>

text \<open>The registry's root is a directory of a tree of files, with no symbolic link below it.\<close>

definition plain_registry :: "registry_env \<Rightarrow> fs \<Rightarrow> bool" where
  "plain_registry env F \<longleftrightarrow> wf_fs F \<and> F (ge_root env) = Some Dir \<and> ''..'' \<notin> set (ge_root env) \<and>
     (\<forall>p. prefix (ge_root env) p \<longrightarrow> link_at F p = None)"

definition slug_name :: "string \<Rightarrow> bool" where
  "slug_name i \<longleftrightarrow> i \<noteq> [] \<and> list_all (\<lambda>c. slug_char c \<or> c = CHR ''-'') i"

lemma slug_chars: "\<not> slug_char (CHR ''/'')" "\<not> slug_char (CHR ''.'')"
  by (simp_all add: slug_char_def in_range_def)

lemma slug_name_clean: "slug_name i \<Longrightarrow> clean_part i \<and> i \<noteq> ''..'' \<and> hd i \<noteq> CHR ''.''"
  using slug_chars by (cases i) (auto simp: slug_name_def clean_part_def list_all_iff)

lemma staging_name_clean:
  "slug_name i \<Longrightarrow> CHR ''/'' \<notin> set (ge_staging_uuid env) \<Longrightarrow>
   clean_part (staging_name env i) \<and> staging_name env i \<noteq> ''..'' \<and> staging_name env i \<noteq> i"
  using slug_name_clean [of i] by (auto simp: staging_name_def clean_part_def)

lemma plain_root_link: "plain_registry env F \<Longrightarrow> prefix q (ge_root env @ [n]) \<Longrightarrow> link_at F q = None"
  using wf_fs_parents [of F "ge_root env" q]
  by (cases "q = ge_root env") (auto simp: plain_registry_def prefix_snoc strict_prefix_def link_at_def)

lemma boundary_name:
  assumes "clean_part n \<and> n \<noteq> ''..''" and "''..'' \<notin> set (ge_root env)"
    and "\<And>q. prefix q (ge_root env @ [n]) \<Longrightarrow> link_at F q = None"
  shows "boundary_resolve F (ge_root env) n False = Inr (ge_root env @ [n])"
proof -
  have "join_root (ge_root env) n = ge_root env @ [n]"
    using path_components_join [of "[n]"] clean_join_not_abs [of "[n]"] assms(1) by (simp add: join_root_def)
  moreover have "resolve_path F (ge_root env @ [n]) = Inr (ge_root env @ [n])"
    using assms by (intro resolve_path_lexical) auto
  ultimately show ?thesis by (simp add: boundary_resolve_def strict_prefix_def)
qed

text \<open>Writing the package changes nothing but the staging directory and makes no links.\<close>

definition staged :: "path \<Rightarrow> fs \<Rightarrow> fs \<Rightarrow> bool" where
  "staged s F F' \<longleftrightarrow> ((\<forall>q. prefix q s \<longrightarrow> F q = Some Dir) \<longrightarrow>
     same_off s F' F \<and> (\<forall>q. prefix q s \<longrightarrow> F' q = Some Dir) \<and>
     ((\<forall>p. prefix s p \<longrightarrow> link_at F p = None) \<longrightarrow> (\<forall>p. prefix s p \<longrightarrow> link_at F' p = None)))"

lemma stagedD:
  assumes "staged s F F'" and "\<And>q. prefix q s \<Longrightarrow> F q = Some Dir" and "\<And>p. prefix s p \<Longrightarrow> link_at F p = None"
  shows "same_off s F' F \<and> F' s = Some Dir \<and> (\<forall>p. prefix s p \<longrightarrow> link_at F' p = None)"
  using assms unfolding staged_def by auto

lemma staged_refl: "staged s F F"
  by (simp add: staged_def)

lemma staged_trans: "staged s F G \<Longrightarrow> staged s G H \<Longrightarrow> staged s F H"
  unfolding staged_def by (meson same_off_trans)

lemmas staged_bind = keeps_bind [of "staged s" for s, OF staged_trans]

lemma staged_pure: "keeps (staged s) (sret x)" "keeps (staged s) (sraise e)" "keeps (staged s) (\<lambda>F. (F, f F))"
  "keeps (staged s) (slift r)"
  by (auto simp: keeps_def staged_refl)

lemma staged_change:
  assumes "\<And>q. \<not> strict_prefix s q \<Longrightarrow> F q \<noteq> None \<or> \<not> prefix q s \<Longrightarrow> F' q = F q"
    and "\<And>q. strict_prefix s q \<Longrightarrow> F' q = F q \<or> link_at F' q = None"
  shows "staged s F F'"
proof (unfold staged_def, intro impI conjI)
  assume dirs: "\<forall>q. prefix q s \<longrightarrow> F q = Some Dir"
  have same: "F' q = F q" if "\<not> strict_prefix s q" for q
    using assms(1) [OF that] dirs by auto
  then show "same_off s F' F" by (auto simp: same_off_def strict_prefix_def)
  show "\<forall>q. prefix q s \<longrightarrow> F' q = Some Dir" using same dirs by (metis prefix_order.antisym strict_prefix_def)
  show "\<forall>p. prefix s p \<longrightarrow> link_at F' p = None" if "\<forall>p. prefix s p \<longrightarrow> link_at F p = None"
  proof (intro allI impI)
    fix p assume "prefix s p"
    then show "link_at F' p = None" using that assms(2) [of p] same [of p] by (cases "strict_prefix s p") (auto simp: link_at_def)
  qed
qed

lemma staged_make_directory: "prefix s d \<Longrightarrow> keeps (staged s) (make_directory d)"
  by (rule keepsI, unfold make_directory_def, simp split: if_splits, intro conjI impI staged_refl staged_change)
    (auto simp: link_at_def strict_prefix_def dest: prefix_same_cases)

lemma staged_write_text: "strict_prefix s target \<Longrightarrow> keeps (staged s) (write_text env target content executable)"
  by (rule keepsI, unfold write_text_def, simp add: Let_def split: if_splits, intro conjI impI staged_refl staged_change)
    (auto simp: link_at_def)

lemma staged_stage_file: "keeps (staged s) (stage_file env s g)"
  unfolding stage_file_def
  by (rule staged_bind staged_pure)+
    (auto intro!: staged_bind staged_pure staged_make_directory staged_write_text simp: strict_prefix_butlast)

lemma staged_smap: "(\<And>x. keeps (staged s) (f x)) \<Longrightarrow> keeps (staged s) (smap f xs)"
  by (induction xs) (auto intro!: staged_bind staged_pure)

lemma staged_fill: "keeps (staged s) (fill_staging env c i t sources enabled s files)"
  unfolding fill_staging_def Let_def
  by (intro staged_bind staged_pure staged_smap staged_stage_file staged_write_text) (simp_all add: strict_prefix_def)

lemma fill_staging_returns:
  assumes "fill_staging env c i t sources enabled s files F = (F', Inr (st, m))"
  shows "st = s \<and> sm_skill_id m = i \<and> sm_enabled m = enabled"
  using assms by (auto simp: fill_staging_def Let_def sbind_Inr_iff new_manifest_def)

text \<open>A candidate whose files are not in their categories leaves an empty staging directory.\<close>

definition staging_left :: "registry_env \<Rightarrow> skill_candidate \<Rightarrow> string \<Rightarrow> fs \<Rightarrow> fs \<Rightarrow> bool" where
  "staging_left env c i F F' \<longleftrightarrow>
     (\<exists>e. candidate_files c = Inl e) \<and> F' = F(ge_root env @ [staging_name env i] \<mapsto> Dir)"

lemma write_staging_effect:
  assumes plain: "plain_registry env F" and name: "slug_name i" "CHR ''/'' \<notin> set (ge_staging_uuid env)"
    and fresh: "F (ge_root env @ [staging_name env i]) = None"
    and "write_staging env c i t sources enabled F = (F', r)"
  shows "case r of
      Inl e \<Rightarrow> F' = F \<or> staging_left env c i F F'
    | Inr (st, m) \<Rightarrow> st = ge_root env @ [staging_name env i] \<and> same_off st F' F \<and> F' st = Some Dir \<and>
        (\<forall>p. prefix st p \<longrightarrow> link_at F' p = None) \<and> sm_skill_id m = i \<and> sm_enabled m = enabled"
proof -
  let ?s = "ge_root env @ [staging_name env i]"
  note clean = staging_name_clean [OF name]
  have boundary: "boundary_resolve F (ge_root env) (staging_name env i) False = Inr ?s"
    using plain clean plain_root_link [OF plain] by (intro boundary_name) (auto simp: plain_registry_def)
  have wf: "wf_fs F" and dir: "F (ge_root env) = Some Dir" using plain by (simp_all add: plain_registry_def)
  have above: "F q = Some Dir" if "strict_prefix q ?s" for q
    using that wf_fs_parents [OF wf, of "ge_root env" q] dir by (auto simp: strict_prefix_def prefix_snoc)
  have below: "F x = None" if "prefix ?s x" for x
    using that fresh wf_fs_no_children [OF wf, of ?s x] by (cases "x = ?s") (auto simp: strict_prefix_def)
  have "make_directory ?s F = (F(?s \<mapsto> Dir), Inr ())"
  proof -
    have "\<not> is_file F q" if "prefix q ?s" for q
      using that above [of q] fresh by (cases "q = ?s") (auto simp: is_file_def strict_prefix_def)
    moreover have "(\<lambda>p. if F p = None \<and> prefix p ?s then Some Dir else F p) = F(?s \<mapsto> Dir)"
    proof (rule ext)
      fix p
      show "(if F p = None \<and> prefix p ?s then Some Dir else F p) = (F(?s \<mapsto> Dir)) p"
        using above [of p] fresh by (cases "p = ?s") (auto simp: strict_prefix_def)
    qed
    ultimately show ?thesis by (auto simp: make_directory_def list_ex_iff)
  qed
  then have staged_at: "write_staging env c i t sources enabled F =
      sbind (slift (candidate_files c)) (\<lambda>files. scatch (fill_staging env c i t sources enabled ?s files)
        (\<lambda>e. Some (sbind (remove_tree ?s) (\<lambda>_. sraise e)))) (F(?s \<mapsto> Dir))"
    using boundary fresh by (simp add: write_staging_def sbind_def path_exists_def)
  show ?thesis
  proof (cases "candidate_files c")
    case (Inl e)
    then show ?thesis using assms(5) staged_at by (auto simp: sbind_def staging_left_def)
  next
    case (Inr files)
    obtain G q where G: "fill_staging env c i t sources enabled ?s files (F(?s \<mapsto> Dir)) = (G, q)" by fastforce
    have "staged ?s (F(?s \<mapsto> Dir)) G" by (rule keepsD [OF staged_fill G])
    moreover have "(F(?s \<mapsto> Dir)) q = Some Dir" if "prefix q ?s" for q
      using that above [of q] by (cases "q = ?s") (auto simp: strict_prefix_def)
    moreover have "link_at (F(?s \<mapsto> Dir)) p = None" if "prefix ?s p" for p
      using below [OF that] by (simp add: link_at_def)
    ultimately have G_at: "same_off ?s G (F(?s \<mapsto> Dir)) \<and> G ?s = Some Dir \<and> (\<forall>p. prefix ?s p \<longrightarrow> link_at G p = None)"
      by (rule stagedD)
    have same': "same_off ?s G F" using G_at by (auto simp: same_off_def)
    show ?thesis
    proof (cases q)
      case (Inl e)
      have "rmtree ?s G = rmtree ?s F" by (rule rmtree_same_off [OF same'])
      also have "\<dots> = F" by (rule rmtree_id) (rule below)
      finally have "rmtree ?s G = F" .
      then show ?thesis using assms(5) unfolding staged_at by (auto simp: sbind_def scatch_def remove_tree_def Inr G Inl)
    next
      case Inr_sm: (Inr sm)
      then obtain st m where sm: "sm = (st, m)" by fastforce
      have "F' = G" "r = Inr (st, m)" using assms(5) unfolding staged_at by (simp_all add: sbind_def scatch_def Inr G Inr_sm sm)
      then show ?thesis using same' G_at fill_staging_returns [OF G [unfolded Inr_sm sm]] by simp
    qed
  qed
qed

section \<open>A failing installation\<close>

text \<open>What holds before an installation of the skill \<open>i\<close>: fresh random names, and renames back do not fail.\<close>

definition install_ready :: "registry_env \<Rightarrow> string \<Rightarrow> fs \<Rightarrow> bool" where
  "install_ready env i F \<longleftrightarrow> plain_registry env F \<and> CHR ''/'' \<notin> set (ge_staging_uuid env) \<and>
     F (ge_root env @ [staging_name env i]) = None \<and> F (old_previous_of env (ge_root env @ [i])) = None \<and>
     ge_rename_error env (previous_of (ge_root env @ [i])) (package_of (ge_root env @ [i])) = None \<and>
     ge_rename_error env (old_previous_of env (ge_root env @ [i])) (previous_of (ge_root env @ [i])) = None"

lemma install_ready_below:
  assumes "install_ready env i F" and "F p = None" and "prefix p x"
  shows "F x = None"
proof -
  have "wf_fs F" using assms(1) by (simp add: install_ready_def plain_registry_def)
  then show ?thesis using wf_fs_no_children [of F p x] assms(2,3) by (cases "x = p") (auto simp: strict_prefix_def)
qed

lemma install_boundary:
  assumes "install_ready env i F" and "slug_name i" and "same_off (ge_root env @ [staging_name env i]) G F"
  shows "boundary_resolve G (ge_root env) i False = Inr (ge_root env @ [i])"
proof (rule boundary_name)
  show "clean_part i \<and> i \<noteq> ''..''" using slug_name_clean [OF assms(2)] by simp
  show "''..'' \<notin> set (ge_root env)" using assms(1) by (simp add: install_ready_def plain_registry_def)
  fix q assume q: "prefix q (ge_root env @ [i])"
  have "staging_name env i \<noteq> i" using staging_name_clean [OF assms(2)] assms(1) by (simp add: install_ready_def)
  then have "\<not> prefix (ge_root env @ [staging_name env i]) q" using q by (auto simp: prefix_def append_eq_append_conv2 Cons_eq_append_conv)
  then show "link_at G q = None"
    using same_offD [OF assms(3)] plain_root_link [OF _ q] assms(1) by (simp add: link_at_def install_ready_def)
qed

lemma readonly_same_off: "same_off s (fst (make_package_readonly s G)) G"
  by (auto simp: same_off_def make_package_readonly_def strict_prefix_def split: option.splits node.splits)

text \<open>A step leaves the tables as they are, and without the staging directory the files are \<open>F\<close>.\<close>

definition undone :: "path \<Rightarrow> fs \<Rightarrow> skill_world \<Rightarrow> skill_world \<Rightarrow> bool" where
  "undone s F w w' \<longleftrightarrow> kw_tables w' = kw_tables w \<and> rmtree s (kw_fs w') = F"

lemma install_update_fails:
  assumes ready: "install_ready env i F" and name: "slug_name i" and off: "same_off (ge_root env @ [staging_name env i]) (kw_fs w) F"
    and "install_update env i (ge_root env @ [staging_name env i]) m c key w = (w', Inl e)"
  shows "undone (ge_root env @ [staging_name env i]) F w w'"
proof -
  let ?s = "ge_root env @ [staging_name env i]" and ?d = "ge_root env @ [i]"
  let ?w = "w\<lparr>kw_fs := fst (make_package_readonly ?s (kw_fs w))\<rparr>"
  have rm: "rmtree ?s F = F"
    by (rule rmtree_id) (use ready in \<open>auto intro: install_ready_below simp: install_ready_def\<close>)
  have gone: "rmtree ?s (kw_fs w) = F" using rmtree_same_off [OF off] rm by simp
  have boundary: "boundary_resolve (kw_fs w) (ge_root env) i False = Inr ?d" by (rule install_boundary [OF ready name off])
  have "staging_name env i \<noteq> i" using staging_name_clean [OF name] ready by (simp add: install_ready_def)
  then have s: "apart ?s ?d" by simp
  show ?thesis
  proof (cases "kw_fs w (package_of ?d) = Some Dir")
    case False
    then have "w' = w\<lparr>kw_fs := rmtree ?s (kw_fs w)\<rparr>"
      using assms(4) boundary
      by (simp add: install_update_def sbind_def on_fs_def sfocus_def Let_def remove_tree_def)
    then show ?thesis using gone rm by (simp add: undone_def)
  next
    case True
    have pkg: "F (package_of ?d) = Some Dir" using True same_offD [OF off apart_not_prefix(2) [OF s]] by simp
    then have "F ?d \<noteq> None" using install_ready_below [OF ready, of ?d "package_of ?d"] by auto
    with pkg have lay: "update_layout env ?d ?s F"
      using ready s install_ready_below [OF ready] by (auto simp: update_layout_def install_ready_def)
    have "same_off ?s (kw_fs ?w) F" using same_off_trans [OF readonly_same_off off] by simp
    note fails = swap_fails [OF lay this]
    have "make_package_readonly ?s (kw_fs w) = (fst (make_package_readonly ?s (kw_fs w)), Inr ())"
      by (simp add: make_package_readonly_def)
    then have "swap_package env (package_of ?d) (previous_of ?d) (old_previous_of env ?d) ?s m c key ?w = (w', Inl e)"
      using assms(4) boundary True
      by (auto simp: install_update_def sbind_def on_fs_def sfocus_def Let_def remove_tree_def split: prod.splits sum.splits)
    from fails [OF this] show ?thesis using rm by (simp add: undone_def)
  qed
qed

text \<open>A new skill: its directory and its memory file are made first, and removed again when they are new.\<close>

definition skill_dir_made :: "path \<Rightarrow> fs \<Rightarrow> fs" where
  "skill_dir_made d G = (if G d = None then G(d \<mapsto> Dir) else G)"

definition new_skill_undone :: "path \<Rightarrow> bool \<Rightarrow> bool \<Rightarrow> path \<Rightarrow> fs \<Rightarrow> fs" where
  "new_skill_undone d root_existed memory_existed s G =
     rmtree s ((if root_existed then id else rmtree d)
       ((if memory_existed then id else (\<lambda>G. G(d @ [''memory.md''] := None))) (rmtree (package_of d) G)))"

lemma make_skill_dir:
  assumes "install_ready env i F" and "slug_name i" and "same_off (ge_root env @ [staging_name env i]) G F"
    and "make_directory (ge_root env @ [i]) G = (G', Inr ())"
  shows "G' = skill_dir_made (ge_root env @ [i]) G"
proof -
  let ?d = "ge_root env @ [i]"
  have wf: "wf_fs F" and root: "F (ge_root env) = Some Dir"
    using assms(1) by (simp_all add: install_ready_def plain_registry_def)
  have "staging_name env i \<noteq> i" using staging_name_clean [OF assms(2)] assms(1) by (simp add: install_ready_def)
  then have off: "\<not> prefix (ge_root env @ [staging_name env i]) q" if "prefix q ?d" for q
    using that by (auto simp: prefix_def append_eq_append_conv2 Cons_eq_append_conv)
  have above: "G q \<noteq> None" if "prefix q ?d" "q \<noteq> ?d" for q
    using that wf_fs_parents [OF wf, of "ge_root env" q] root same_offD [OF assms(3) off [OF that(1)]]
    by (cases "q = ge_root env") (auto simp: prefix_snoc strict_prefix_def)
  have "G' = (\<lambda>p. if G p = None \<and> prefix p ?d then Some Dir else G p)"
    using assms(4) by (simp add: make_directory_def split: if_splits)
  moreover have "(if G p = None \<and> prefix p ?d then Some Dir else G p) = skill_dir_made ?d G p" for p
    using above [of p] by (cases "p = ?d") (auto simp: skill_dir_made_def)
  ultimately show ?thesis by auto
qed

lemma new_skill_undone_at:
  assumes ready: "install_ready env i F" and "d = ge_root env @ [i]" and "s = ge_root env @ [staging_name env i]"
    and "apart s d" and off: "same_off s G F" and pkg: "G (package_of d) = None"
    and H: "\<And>x. \<not> prefix s x \<Longrightarrow> \<not> prefix (package_of d) x \<Longrightarrow>
      x \<noteq> d @ [''memory.md''] \<or> skill_dir_made d G x \<noteq> None \<Longrightarrow> H x = skill_dir_made d G x"
  shows "new_skill_undone d (G d \<noteq> None) (skill_dir_made d G (d @ [''memory.md'']) \<noteq> None) s H = F"
proof (rule ext)
  fix x
  note none = install_ready_below [OF ready]
  note same = same_offD [OF off]
  have fresh: "F s = None" using ready assms(3) by (simp add: install_ready_def)
  have d: "\<not> prefix s d" "\<not> prefix s (d @ y)" for y using apart_not_prefix [OF assms(4)] by simp_all
  consider "prefix s x" | "\<not> prefix s x" "prefix (package_of d) x" | "\<not> prefix s x" "x = d @ [''memory.md'']"
    | "\<not> prefix s x" "\<not> prefix (package_of d) x" "x \<noteq> d @ [''memory.md'']" by blast
  then show "new_skill_undone d (G d \<noteq> None) (skill_dir_made d G (d @ [''memory.md'']) \<noteq> None) s H x = F x"
  proof cases
    case 1
    then show ?thesis using none [OF fresh] by (simp add: new_skill_undone_def rmtree_def)
  next
    case 2
    moreover have "F (package_of d) = None" using pkg same [OF d(2)] by simp
    ultimately show ?thesis using none by (auto simp: new_skill_undone_def rmtree_def)
  next
    case 3
    then show ?thesis using H [of x] same [of x] none [of d x] same [OF d(1)]
      by (auto simp: new_skill_undone_def rmtree_def skill_dir_made_def split: if_splits)
  next
    case 4
    then show ?thesis using H [of x] same [of x] none [of d x] same [OF d(1)]
      by (auto simp: new_skill_undone_def rmtree_def skill_dir_made_def split: if_splits)
  qed
qed

text \<open>The run of \<open>install_new\<close> once the directory is made.\<close>

definition memory_made :: "registry_env \<Rightarrow> path \<Rightarrow> fs \<Rightarrow> fs" where
  "memory_made env d D = (if D (d @ [''memory.md'']) = None then D(d @ [''memory.md''] \<mapsto> Reg [] (ge_file_mode env)) else D)"

lemma install_new_run:
  assumes boundary: "boundary_resolve (kw_fs w) (ge_root env) i False = Inr d" and "kw_fs w (package_of d) = None"
    and D: "make_directory d (kw_fs w) = (D, Inr ())" and R: "R = fst (make_package_readonly s (memory_made env d D))"
    and H: "rename env s (package_of d) R = (H, q)"
  shows "install_new env i s m c key w =
    (let G = new_skill_undone d (kw_fs w d \<noteq> None) (D (d @ [''memory.md'']) \<noteq> None) s H in
     case q of
       Inl x \<Rightarrow> (w\<lparr>kw_fs := G\<rparr>, Inl x)
     | Inr _ \<Rightarrow> (case upsert_rows env m (package_of d) c key (kw_tables w) of
         (t, Inl x) \<Rightarrow> (w\<lparr>kw_tables := t, kw_fs := G\<rparr>, Inl x)
       | (t, Inr _) \<Rightarrow> (w\<lparr>kw_tables := t, kw_fs := H\<rparr>, Inr \<lparr>rs_manifest = m, rs_package_path = package_of d\<rparr>)))"
proof -
  note defs = sbind_def scatch_def on_fs_def on_tables_def sfocus_def Let_def remove_tree_def whenever_def path_exists_def
  have made: "whenever (D (d @ [''memory.md'']) = None) (write_text env (d @ [''memory.md'']) [] False) D = (memory_made env d D, Inr ())"
    by (auto simp: whenever_def write_text_def memory_made_def)
  have readonly: "make_package_readonly s (memory_made env d D) = (R, Inr ())" by (simp add: make_package_readonly_def R)
  show ?thesis using assms(2) D boundary made readonly H
    by (auto simp: install_new_def defs new_skill_undone_def split: sum.splits prod.splits)
qed

lemma install_new_fails:
  assumes ready: "install_ready env i F" and name: "slug_name i"
    and off: "same_off (ge_root env @ [staging_name env i]) (kw_fs w) F" and dir: "kw_fs w (ge_root env @ [staging_name env i]) = Some Dir"
    and "install_new env i (ge_root env @ [staging_name env i]) m c key w = (w', Inl e)"
  shows "undone (ge_root env @ [staging_name env i]) F w w'"
proof -
  let ?s = "ge_root env @ [staging_name env i]" and ?d = "ge_root env @ [i]"
  let ?G = "kw_fs w" and ?mem = "(ge_root env @ [i]) @ [''memory.md'']"
  note defs = sbind_def scatch_def on_fs_def on_tables_def sfocus_def Let_def remove_tree_def whenever_def path_exists_def
  have rm: "rmtree ?s F = F"
    by (rule rmtree_id) (use ready in \<open>auto intro: install_ready_below simp: install_ready_def\<close>)
  have gone: "rmtree ?s ?G = F" using rmtree_same_off [OF off] rm by simp
  note boundary = install_boundary [OF ready name off]
  have "staging_name env i \<noteq> i" using staging_name_clean [OF name] ready by (simp add: install_ready_def)
  then have s: "apart ?s ?d" by simp
  obtain D r where D: "make_directory ?d ?G = (D, r)" by fastforce
  show ?thesis
  proof (cases "?G (package_of ?d) = None \<and> r = Inr ()")
    case False
    have "D = ?G" if "r = Inl x" for x using D that by (auto simp: make_directory_def split: if_splits)
    then have "w' = w"
      using False D assms(5) boundary by (cases r) (auto simp: install_new_def defs split: if_splits)
    then show ?thesis using gone by (simp add: undone_def)
  next
    case True
    have DG: "D = skill_dir_made ?d ?G" by (rule make_skill_dir [OF ready name off]) (use D True in simp)
    define M where "M = memory_made env ?d D"
    define R where "R = fst (make_package_readonly ?s M)"
    obtain H q where H: "rename env ?s (package_of ?d) R = (H, q)" by fastforce
    have R: "R x = M x" if "\<not> prefix ?s x" for x using that by (auto simp: R_def intro: same_offD [OF readonly_same_off])
    have "H x = skill_dir_made ?d ?G x" if x: "\<not> prefix ?s x" "\<not> prefix (package_of ?d) x"
        "x \<noteq> ?mem \<or> skill_dir_made ?d ?G x \<noteq> None" for x
    proof -
      have "H x = R x" using H x(1,2) by (cases q) (auto simp: rename_Inr move_tree_at dest: rename_Inl)
      then show ?thesis using x R [OF x(1)] by (auto simp: M_def memory_made_def DG)
    qed
    from new_skill_undone_at [OF ready refl refl s off _ this] True
    have undo_eq: "new_skill_undone ?d (?G ?d \<noteq> None) (D ?mem \<noteq> None) ?s H = F" by (simp add: DG)
    note install = install_new_run [OF boundary _ _ R_def [unfolded M_def] H, of m c key]
    have "upsert_rows env m (package_of ?d) c key (kw_tables w) = (t, Inl x) \<Longrightarrow> t = kw_tables w" for t x
      by (auto simp: upsert_rows_def split: option.splits)
    then show ?thesis using assms(5) undo_eq rm install True D
      by (auto simp: undone_def Let_def split: sum.splits prod.splits)
  qed
qed

lemma check_fails:
  assumes "check_and_install env s m inst w = (w', Inl e)" and "rmtree s (kw_fs w) = F" and "rmtree s F = F"
    and "\<And>w1 x. inst w = (w1, Inl x) \<Longrightarrow> undone s F w w1"
  shows "w' = w\<lparr>kw_fs := F\<rparr>"
proof -
  note defs = check_and_install_def sbind_def scatch_def on_fs_def sfocus_def remove_tree_def undone_def
  consider x where "validate_package env (kw_fs w) s m = Inl x"
    | x xs where "validate_package env (kw_fs w) s m = Inr (x # xs)" | "validate_package env (kw_fs w) s m = Inr []"
    by (metis neq_Nil_conv obj_sumE)
  then show ?thesis
  proof cases
    case 3
    then obtain w1 x where "inst w = (w1, Inl x)" "w' = w1\<lparr>kw_fs := rmtree s (kw_fs w1)\<rparr>"
      using assms(1) by (auto simp: defs split: sum.splits prod.splits)
    with assms(4) [of w1 x] show ?thesis using assms(3) by (simp add: undone_def)
  qed (use assms(1,2) in \<open>simp_all add: defs\<close>)
qed

text \<open>The two operations that install a package, as calls.\<close>

datatype install_call = CreateSkill skill_candidate "string option" | UpdateSkill string skill_candidate

fun call_candidate :: "install_call \<Rightarrow> skill_candidate" where
  "call_candidate (CreateSkill c skill_id) = c"
| "call_candidate (UpdateSkill skill_id c) = c"

fun call_skill_id :: "install_call \<Rightarrow> string res" where
  "call_skill_id (CreateSkill c skill_id) = slug (or_else skill_id (sc_name c))"
| "call_skill_id (UpdateSkill skill_id c) = Inr skill_id"

fun install_skill :: "registry_env \<Rightarrow> install_call \<Rightarrow> string option \<Rightarrow> (skill_world, registered_skill) io" where
  "install_skill env (CreateSkill c skill_id) key = create_skill env c skill_id key"
| "install_skill env (UpdateSkill skill_id c) key = update_skill env skill_id c key"

text \<open>What both do after the replay and the lookup.\<close>

definition stage_and_install ::
  "registry_env \<Rightarrow> skill_candidate \<Rightarrow> string \<Rightarrow> int option \<Rightarrow> string list \<Rightarrow> bool \<Rightarrow>
   (path \<Rightarrow> skill_manifest \<Rightarrow> (skill_world, registered_skill) io) \<Rightarrow> (skill_world, registered_skill) io" where
  "stage_and_install env c i t sources enabled inst =
     sbind (on_fs (write_staging env c i t sources enabled)) (\<lambda>(staging, manifest).
     check_and_install env staging manifest (inst staging manifest))"

lemma replayed_skill_state: "replayed_skill key t = (t', r) \<Longrightarrow> t' = t"
  by (auto simp: replayed_skill_def sbind_def split: option.splits json.splits if_splits)

lemma replayed_skill_value:
  "replayed_skill key t = (t', Inr (Some reg)) \<Longrightarrow> applied key t \<and> (\<exists>i. get_skill i t = Some reg)"
  by (auto simp: applied_def replayed_skill_def sbind_def split: option.splits json.splits if_splits)

definition installer :: "registry_env \<Rightarrow> skill_candidate \<Rightarrow> string option \<Rightarrow> string \<Rightarrow> skill_tables \<Rightarrow>
    path \<Rightarrow> skill_manifest \<Rightarrow> (skill_world, registered_skill) io" where
  "installer env c key i t = (\<lambda>s m. if get_skill i t = None then install_new env i s m c key else install_update env i s m c key)"

lemma install_skill_cases:
  assumes "install_skill env call key w = (w', r)"
  shows "w' = w \<and> (\<forall>reg. r = Inr reg \<longrightarrow> applied key (kw_tables w) \<and> (\<exists>i. get_skill i (kw_tables w) = Some reg)) \<or>
     (\<exists>i t sources enabled. call_skill_id call = Inr i \<and>
        (\<forall>reg. get_skill i (kw_tables w) = Some reg \<longrightarrow> enabled = sm_enabled (rs_manifest reg)) \<and>
        (get_skill i (kw_tables w) = None \<longrightarrow> (\<exists>c skill_id. call = CreateSkill c skill_id)) \<and>
        stage_and_install env (call_candidate call) i t sources enabled
          (installer env (call_candidate call) key i (kw_tables w)) w = (w', r))"
proof -
  obtain t' q where q: "replayed_skill key (kw_tables w) = (t', q)" by fastforce
  note t' = replayed_skill_state [OF q]
  show ?thesis
  proof (cases "q = Inr None")
    case False
    then consider x where "q = Inl x" | reg where "q = Inr (Some reg)"
      by (metis obj_sumE option.exhaust)
    then show ?thesis using assms q t' replayed_skill_value [of key "kw_tables w" t']
      by cases (cases call; force simp: create_skill_def update_skill_def sbind_def on_tables_def sfocus_def)+
  next
    case True
    then have q: "replayed_skill key (kw_tables w) = (kw_tables w, Inr None)" using q t' by simp
    show ?thesis
    proof (cases call)
      case (CreateSkill c skill_id)
      show ?thesis
      proof (cases "slug (or_else skill_id (sc_name c))")
        case (Inl e)
        then show ?thesis using assms q CreateSkill by (auto simp: create_skill_def sbind_def on_tables_def sfocus_def)
      next
        case (Inr i)
        then show ?thesis using assms q CreateSkill
          by (cases "get_skill i (kw_tables w)")
            (auto simp: create_skill_def sbind_def on_tables_def sfocus_def stage_and_install_def installer_def)
      qed
    next
      case (UpdateSkill i c)
      then show ?thesis using assms q
        by (cases "get_skill i (kw_tables w)")
          (auto simp: update_skill_def sbind_def on_tables_def sfocus_def stage_and_install_def installer_def Let_def)
    qed
  qed
qed

lemma join_chars: "set (join sep xs) \<subseteq> set sep \<union> \<Union> (set ` set xs)"
  by (induction sep xs rule: join.induct) auto

lemma runs_chars: "r \<in> set (runs P xs) \<Longrightarrow> r \<noteq> [] \<and> (\<forall>x \<in> set r. P x)"
proof (induction P xs rule: runs.induct)
  case (2 P x xs)
  show ?case
  proof (cases "P x")
    case True
    then have "r = x # takeWhile P xs \<or> r \<in> set (runs P (dropWhile P xs))" using "2.prems" by simp
    then show ?thesis
    proof
      assume r: "r = x # takeWhile P xs"
      show ?thesis unfolding r using True set_takeWhileD [of _ P xs] by auto
    qed (rule "2.IH"(1) [OF True])
  next
    case False
    then have "r \<in> set (runs P xs)" using "2.prems" by simp
    then show ?thesis by (rule "2.IH"(2) [OF False])
  qed
qed simp

lemma slug_result: "slug v = Inr i \<Longrightarrow> slug_name i \<and> length i \<le> 80"
proof -
  assume "slug v = Inr i"
  then have i: "i = take 80 (join ''-'' (runs slug_char (lower v)))" "i \<noteq> []" by (auto simp: slug_def Let_def split: if_splits)
  have "set i \<subseteq> set ''-'' \<union> \<Union> (set ` set (runs slug_char (lower v)))"
    unfolding i(1) using set_take_subset join_chars by (rule order_trans)
  then have "slug_char c \<or> c = CHR ''-''" if "c \<in> set i" for c using that runs_chars by fastforce
  then show ?thesis using i by (auto simp: slug_name_def list_all_iff)
qed

definition named_skills :: "skill_tables \<Rightarrow> bool" where
  "named_skills t \<longleftrightarrow> list_all (\<lambda>r. slug_name (kr_skill_id r)) (kt_skills t)"

lemma get_skill_named: "named_skills t \<Longrightarrow> get_skill i t \<noteq> None \<Longrightarrow> slug_name i"
  by (auto simp: named_skills_def get_skill_def find_Some_iff list_all_length)

lemma install_call_name:
  assumes "named_skills t" and "call_skill_id call = Inr i"
    and "get_skill i t = None \<longrightarrow> (\<exists>c skill_id. call = CreateSkill c skill_id)"
  shows "slug_name i"
proof (cases "get_skill i t = None")
  case True
  then obtain c skill_id where "call = CreateSkill c skill_id" using assms(3) by blast
  then show ?thesis using assms(2) slug_result by auto
qed (use get_skill_named [OF assms(1)] in blast)

section \<open>A small registry\<close>

definition demo_registry :: "pyexc option \<Rightarrow> registry_env" where
  "demo_registry commit_error = \<lparr>ge_root = [''r''], ge_now = 7, ge_staging_uuid = ''a1'', ge_previous_uuid = ''b2'', ge_sha = id,
     ge_decode = id, ge_file_mode = 420, ge_manifest_json = (\<lambda>m. ''{}''), ge_rename_error = (\<lambda>p q. None),
     ge_commit_error = commit_error, ge_secret = (\<lambda>s. False), ge_parse = (\<lambda>s. Inr [OtherNode]),
     ge_test_files = (\<lambda>fs p. []),
     ge_pytest = (\<lambda>fs p. (\<lparr>cr_argv = [], cr_cwd = p, cr_exit_code = 0, cr_stdout = [], cr_stderr = [], cr_timed_out = False, cr_truncated = False\<rparr>, None)),
     ge_utc_now = demo_now, ge_iso_other = (\<lambda>s. None)\<rparr>"

definition demo_skill :: skill_candidate where
  "demo_skill = \<lparr>sc_name = ''Fix It'', sc_description = ''d'', sc_triggers = [], sc_task_families = [], sc_skill_md = ''md'',
     sc_spec = None, sc_scripts = [\<lparr>gf_path = ''scripts/a.py'', gf_content = ''x = 1'', gf_executable = True\<rparr>], sc_references = [],
     sc_templates = [], sc_tests = [], sc_source_run_ids = [''run''], sc_confidence = 1,
     sc_permissions = \<lparr>sp_read_workspace = True, sp_write_workspace = False, sp_execute = False, sp_network = False\<rparr>\<rparr>"

definition demo_skill_world :: skill_world where
  "demo_skill_world = \<lparr>kw_fs = [[] \<mapsto> Dir, [''r''] \<mapsto> Dir], kw_tables = empty_skills\<rparr>"

lemma demo_skill_id: "call_skill_id (CreateSkill demo_skill None) = Inr ''fix-it''"
  by code_simp

lemma demo_named: "named_skills (kw_tables demo_skill_world)"
  by code_simp

lemma demo_ready: "install_ready (demo_registry e) ''fix-it'' (kw_fs demo_skill_world)"
  by (auto simp: install_ready_def plain_registry_def wf_fs_def link_at_def demo_registry_def demo_skill_world_def
      staging_name_def split: option.splits if_splits)

lemma demo_installed: "isl (snd (install_skill (demo_registry None) (CreateSkill demo_skill None) (Some ''k'') demo_skill_world)) = False"
  by code_simp

lemma demo_locked:
  "snd (install_skill (demo_registry (Some (DatabaseError ''locked''))) (CreateSkill demo_skill None) (Some ''k'') demo_skill_world) =
   Inl (DatabaseError ''locked'')"
  by code_simp

text \<open>
  C36: installing a skill is atomic. When the creation or the update of a skill raises, whatever failed --
  a file of the candidate, its validation, any of the renames or the transaction -- the tables are as they
  were, and so are the files: the package, the previous package, the memory of the skill and everything
  else. There is one exception: a candidate with a file outside its category leaves an empty staging
  directory behind. Needed are fresh random names, and that the renames that move the old packages back
  do not fail.
\<close>

theorem skill_install_atomic:
  assumes "install_skill env call key w = (w', Inl e)" and "named_skills (kw_tables w)"
    and "\<And>i. call_skill_id call = Inr i \<Longrightarrow> install_ready env i (kw_fs w)"
  shows "kw_tables w' = kw_tables w \<and>
     (kw_fs w' = kw_fs w \<or> (\<exists>i. call_skill_id call = Inr i \<and> staging_left env (call_candidate call) i (kw_fs w) (kw_fs w')))"
proof -
  let ?c = "call_candidate call"
  from install_skill_cases [OF assms(1)] show ?thesis
  proof (elim disjE exE conjE)
    fix i t sources enabled
    assume 2: "call_skill_id call = Inr i" "get_skill i (kw_tables w) = None \<longrightarrow> (\<exists>c skill_id. call = CreateSkill c skill_id)"
      "stage_and_install env ?c i t sources enabled (installer env ?c key i (kw_tables w)) w = (w', Inl e)"
    note ready = assms(3) [OF 2(1)]
    have name: "slug_name i" by (rule install_call_name [OF assms(2) 2(1,2)])
    let ?s = "ge_root env @ [staging_name env i]"
    obtain F' r where F': "write_staging env ?c i t sources enabled (kw_fs w) = (F', r)" by fastforce
    have effect: "case r of Inl e \<Rightarrow> F' = kw_fs w \<or> staging_left env ?c i (kw_fs w) F'
      | Inr (st, m) \<Rightarrow> st = ?s \<and> same_off st F' (kw_fs w) \<and> F' st = Some Dir \<and>
          (\<forall>p. prefix st p \<longrightarrow> link_at F' p = None) \<and> sm_skill_id m = i \<and> sm_enabled m = enabled"
      by (rule write_staging_effect [OF _ name _ _ F']) (use ready in \<open>simp_all add: install_ready_def\<close>)
    show ?thesis
    proof (cases r)
      case (Inl x)
      then show ?thesis using 2(1,3) F' effect
        by (auto simp: stage_and_install_def sbind_def on_fs_def sfocus_def)
    next
      case (Inr sm)
      then obtain m where sm: "sm = (?s, m)" and off: "same_off ?s F' (kw_fs w)" and dir: "F' ?s = Some Dir"
        using effect by (cases sm) auto
      let ?w = "w\<lparr>kw_fs := F'\<rparr>"
      have rm: "rmtree ?s (kw_fs w) = kw_fs w"
        by (rule rmtree_id) (use ready in \<open>auto intro: install_ready_below simp: install_ready_def\<close>)
      have "check_and_install env ?s m (installer env ?c key i (kw_tables w) ?s m) ?w = (w', Inl e)"
        using 2(3) F' by (simp add: stage_and_install_def sbind_def on_fs_def sfocus_def Inr sm)
      moreover have "rmtree ?s (kw_fs ?w) = kw_fs w" using rmtree_same_off [OF off] rm by simp
      moreover have "undone ?s (kw_fs w) ?w w1" if "installer env ?c key i (kw_tables w) ?s m ?w = (w1, Inl x)" for w1 x
        using that install_new_fails [OF ready name, of ?w m ?c key w1 x] install_update_fails [OF ready name, of ?w m ?c key w1 x]
          off dir by (simp add: installer_def split: if_splits)
      ultimately have "w' = ?w\<lparr>kw_fs := kw_fs w\<rparr>" by (rule check_fails [OF _ _ rm])
      then show ?thesis by simp
    qed
  qed simp
qed

theorem skill_install_atomic_witness:
  "let w = demo_skill_world; w' = fst (install_skill (demo_registry (Some (DatabaseError ''locked''))) (CreateSkill demo_skill None) (Some ''k'') w)
   in kw_tables w' = kw_tables w \<and>
     (kw_fs w' = kw_fs w \<or> (\<exists>i. call_skill_id (CreateSkill demo_skill None) = Inr i \<and>
        staging_left (demo_registry (Some (DatabaseError ''locked''))) (call_candidate (CreateSkill demo_skill None)) i (kw_fs w) (kw_fs w')))"
  unfolding Let_def
  by (rule skill_install_atomic [OF _ demo_named]) (use demo_locked demo_skill_id demo_ready in \<open>auto simp: prod_eq_iff\<close>)

section \<open>What is installed has been validated\<close>

lemma find_upsert: "find (\<lambda>x. key x = key r) (upsert key (\<lambda>_. r) r rows) = Some r"
  by (induction rows) (auto simp: upsert_def)

lemma get_upserted:
  "get_skill (sm_skill_id m) (upserted_rows now m p c key t) = Some \<lparr>rs_manifest = m, rs_package_path = p\<rparr>"
  using find_upsert [of kr_skill_id "\<lparr>kr_skill_id = sm_skill_id m, kr_enabled = sm_enabled m, kr_manifest = m, kr_package_path = p\<rparr>"]
  by (simp add: get_skill_def upserted_rows_def Let_def)

lemma upsert_rows_Inr: "upsert_rows env m p c key t = (t', Inr u) \<Longrightarrow> t' = upserted_rows (ge_now env) m p c key t"
  by (auto simp: upsert_rows_def split: option.splits)

text \<open>A finished installation: the staged files, read-only, are the package.\<close>

definition installed_from :: "registry_env \<Rightarrow> path \<Rightarrow> path \<Rightarrow> skill_manifest \<Rightarrow> skill_candidate \<Rightarrow> string option \<Rightarrow>
    skill_world \<Rightarrow> skill_world \<Rightarrow> registered_skill \<Rightarrow> bool" where
  "installed_from env d s m c key w w' reg \<longleftrightarrow> reg = \<lparr>rs_manifest = m, rs_package_path = package_of d\<rparr> \<and>
     kw_tables w' = upserted_rows (ge_now env) m (package_of d) c key (kw_tables w) \<and>
     (\<forall>x. kw_fs w' (package_of d @ x) = fst (make_package_readonly s (kw_fs w)) (s @ x))"

lemma readonly_cong: "(\<And>x. G (s @ x) = H (s @ x)) \<Longrightarrow> fst (make_package_readonly s G) (s @ x) = fst (make_package_readonly s H) (s @ x)"
  by (simp add: make_package_readonly_def)

lemma install_new_done:
  assumes boundary: "boundary_resolve (kw_fs w) (ge_root env) i False = Inr d" and s: "apart s d"
    and "install_new env i s m c key w = (w', Inr reg)"
  shows "installed_from env d s m c key w w' reg"
proof -
  obtain D r where D: "make_directory d (kw_fs w) = (D, r)" by fastforce
  define R where "R = fst (make_package_readonly s (memory_made env d D))"
  obtain H q where H: "rename env s (package_of d) R = (H, q)" by fastforce
  obtain t y where t: "upsert_rows env m (package_of d) c key (kw_tables w) = (t, y)" by fastforce
  have start: "kw_fs w (package_of d) = None \<and> r = Inr ()"
    using assms(3) boundary D
    by (cases r) (auto simp: install_new_def sbind_def on_fs_def sfocus_def Let_def path_exists_def split: if_splits)
  have sub: "memory_made env d D (s @ x) = kw_fs w (s @ x)" for x
  proof -
    have "\<not> prefix (s @ x) d" using s by (auto simp: apart_def dest: append_prefixD)
    moreover have "s @ x \<noteq> d @ z" for z using apart_child [OF s, of z] by (metis apart_def prefixI)
    ultimately show ?thesis using D
      by (auto simp: make_directory_def memory_made_def split: if_splits)
  qed
  have "reg = \<lparr>rs_manifest = m, rs_package_path = package_of d\<rparr> \<and> w' = w\<lparr>kw_fs := H, kw_tables := t\<rparr> \<and> q = Inr () \<and> y = Inr ()"
    using assms(3) install_new_run [OF boundary _ _ R_def H, of m c key] start D t
    by (auto simp: Let_def split: sum.splits)
  moreover from this have "H (package_of d @ x) = R (s @ x)" for x using H by (auto simp: rename_Inr move_tree_def)
  moreover have "R (s @ x) = fst (make_package_readonly s (kw_fs w)) (s @ x)" for x
    using readonly_cong [of "memory_made env d D" s "kw_fs w" x, OF sub] by (simp add: R_def)
  ultimately show ?thesis using upsert_rows_Inr t by (auto simp: installed_from_def)
qed

lemma install_update_done:
  assumes boundary: "boundary_resolve (kw_fs w) (ge_root env) i False = Inr d" and s: "apart s d"
    and "install_update env i s m c key w = (w', Inr reg)"
  shows "installed_from env d s m c key w w' reg \<and>
    (\<forall>x. kw_fs w' (previous_of d @ x) = fst (make_package_readonly s (kw_fs w)) (package_of d @ x))"
proof -
  let ?a = "package_of d" and ?b = "previous_of d" and ?o = "old_previous_of env d"
  note defs = sbind_def scatch_def on_fs_def on_tables_def sfocus_def Let_def remove_tree_def
  obtain R v where R: "make_package_readonly s (kw_fs w) = (R, v)" by fastforce
  obtain G1 r1 where 1: "whenever (path_exists R ?b) (rename env ?b ?o) R = (G1, r1)" by fastforce
  obtain G2 r2 where 2: "rename env ?a ?b G1 = (G2, r2)" by fastforce
  obtain G3 r3 where 3: "rename env s ?a G2 = (G3, r3)" by fastforce
  obtain t y where t: "upsert_rows env m ?a c key (kw_tables w) = (t, y)" by fastforce
  have "reg = \<lparr>rs_manifest = m, rs_package_path = ?a\<rparr> \<and> w' = w\<lparr>kw_fs := rmtree ?o G3, kw_tables := t\<rparr> \<and>
      r1 = Inr () \<and> r2 = Inr () \<and> r3 = Inr () \<and> y = Inr ()"
    using assms(3) boundary R 1 2 3 t
    by (auto simp: install_update_def swap_package_def defs make_package_readonly_def split: if_splits sum.splits prod.splits)
  note finished = this
  have off: "\<not> prefix p (s @ x)" if "p \<in> {?a, ?b, ?o}" for p x
    using that apart_below [OF apart_child [OF s], of "s @ x"] by auto
  have G1: "G1 = R \<or> G1 = move_tree ?b ?o R" using 1 finished by (auto simp: whenever_def rename_Inr split: if_splits)
  have G23: "G2 = move_tree ?a ?b G1" "G3 = move_tree s ?a G2" using 2 3 finished by (simp_all add: rename_Inr)
  have "G3 (?a @ x) = R (s @ x)" for x using G1 off by (auto simp: G23 move_tree_def)
  moreover have "G3 (?b @ x) = R (?a @ x)" for x
    using G1 apart_not_prefix(2) [OF s] by (auto simp: G23 move_tree_def)
  ultimately show ?thesis using finished R upsert_rows_Inr t by (auto simp: installed_from_def rmtree_def)
qed

text \<open>The staged files have safe names, so that the validated file is the one at its name.\<close>

lemma stage_file_name: "stage_file env s g F = (F', Inr f) \<Longrightarrow> \<exists>rel. safe_relative (sf_path f) None = Inr rel"
  by (auto simp: stage_file_def sbind_Inr_iff split: if_splits)

lemma smap_Inr_set: "smap f xs F = (F', Inr ys) \<Longrightarrow> y \<in> set ys \<Longrightarrow> \<exists>x G G'. f x G = (G', Inr y)"
  by (induction xs arbitrary: F ys) (auto simp: sbind_Inr_iff, blast)

lemma write_staging_names:
  assumes "write_staging env c i t sources enabled F = (F', Inr (st, m))" and "f \<in> set (sm_files m)"
  shows "\<exists>rel. safe_relative (sf_path f) None = Inr rel"
proof -
  obtain files s G where "fill_staging env c i t sources enabled s files G = (F', Inr (st, m))"
    using assms(1) by (auto simp: write_staging_def sbind_Inr_iff scatch_def remove_tree_def sbind_def split: sum.splits prod.splits if_splits)
  then obtain fs G G' where "smap (stage_file env s) files G = (G', Inr fs)" "sm_files m = fs"
    by (auto simp: fill_staging_def sbind_Inr_iff Let_def new_manifest_def)
  then show ?thesis using smap_Inr_set stage_file_name assms(2) by metis
qed

lemma safe_relative_join:
  assumes "safe_relative p None = Inr rel"
  shows "rel \<noteq> [] \<and> ''..'' \<notin> set rel \<and> join_root d p = d @ rel"
  using assms by (auto simp: safe_relative_def join_root_def path_parts_def split: if_splits)

definition verified_file :: "registry_env \<Rightarrow> fs \<Rightarrow> path \<Rightarrow> skill_file \<Rightarrow> bool" where
  "verified_file env F package f \<longleftrightarrow> (\<exists>rel b m. safe_relative (sf_path f) None = Inr rel \<and>
     F (package @ rel) = Some (Reg b m) \<and> m AND 146 = 0 \<and> content_errors env f (universal_newlines (ge_decode env b)) = [])"

lemma validated_files:
  assumes "validate_package env G s m = Inr []" and "f \<in> set (sm_files m)" and rel: "safe_relative (sf_path f) None = Inr rel"
    and links: "\<And>q. prefix q s \<or> prefix s q \<Longrightarrow> link_at G q = None" and "''..'' \<notin> set s"
  shows "\<exists>b mode. G (s @ rel) = Some (Reg b mode) \<and> content_errors env f (universal_newlines (ge_decode env b)) = []"
proof -
  have "package_errors env G s m = Inr []"
    using assms(1) by (auto simp: validate_package_def rbind_Inr_iff split: if_splits option.splits)
  then obtain errors where "mapM (file_errors env G s) (sm_files m) = Inr errors" "concat errors = []"
    by (auto simp: package_errors_def rbind_Inr_iff)
  then have "file_errors env G s f = Inr []" using assms(2)
    by (fastforce simp: mapM_Inr_iff list_all2_conv_all_nth in_set_conv_nth dest: nth_mem)
  moreover have "resolve_path G (s @ rel) = Inr (s @ rel)"
    using safe_relative_join [OF rel] assms(5) by (intro resolve_path_lexical links) (auto simp: prefix_append)
  ultimately show ?thesis
    using safe_relative_join [OF rel, of s]
    by (auto simp: file_errors_def rbind_Inr_iff is_file_def file_bytes_def split: if_splits option.splits node.splits)
qed

lemma unwritable: "(m AND NOT 146) AND (146 :: int) = 0"
  by (simp add: and.assoc)

lemma check_done:
  assumes "check_and_install env s m inst w = (w', Inr reg)"
  shows "validate_package env (kw_fs w) s m = Inr [] \<and> inst w = (w', Inr reg)"
  using assms by (auto simp: check_and_install_def sbind_def scatch_def on_fs_def sfocus_def remove_tree_def
      split: sum.splits prod.splits if_splits)

lemma verified_install:
  assumes inst: "installed_from env d s m c key w w' reg" and valid: "validate_package env (kw_fs w) s m = Inr []"
    and names: "\<And>f. f \<in> set (sm_files m) \<Longrightarrow> \<exists>rel. safe_relative (sf_path f) None = Inr rel"
    and links: "\<And>q. prefix q s \<or> prefix s q \<Longrightarrow> link_at (kw_fs w) q = None" and "''..'' \<notin> set s"
  shows "list_all (verified_file env (kw_fs w') (package_of d)) (sm_files m)"
proof (unfold list_all_iff, intro ballI)
  fix f assume f: "f \<in> set (sm_files m)"
  then obtain rel where rel: "safe_relative (sf_path f) None = Inr rel" using names by blast
  from validated_files [OF valid f rel links assms(5)] obtain b mode where
    b: "kw_fs w (s @ rel) = Some (Reg b mode)" "content_errors env f (universal_newlines (ge_decode env b)) = []" by blast
  have "rel \<noteq> []" using safe_relative_join [OF rel] by blast
  then have "kw_fs w' (package_of d @ rel) = Some (Reg b (mode AND NOT 146))"
    using inst b(1) by (simp add: installed_from_def make_package_readonly_def strict_prefix_def)
  then show "verified_file env (kw_fs w') (package_of d) f"
    using rel b(2) unwritable unfolding verified_file_def by blast
qed

lemma install_done:
  assumes "install_skill env call key w = (w', Inr reg)" and "\<not> applied key (kw_tables w)" and "named_skills (kw_tables w)"
    and "\<And>i. call_skill_id call = Inr i \<Longrightarrow> install_ready env i (kw_fs w)"
  shows "\<exists>i m. call_skill_id call = Inr i \<and> sm_skill_id m = i \<and> reg = \<lparr>rs_manifest = m, rs_package_path = package_of (ge_root env @ [i])\<rparr> \<and>
     kw_tables w' = upserted_rows (ge_now env) m (package_of (ge_root env @ [i])) (call_candidate call) key (kw_tables w) \<and>
     list_all (verified_file env (kw_fs w') (package_of (ge_root env @ [i]))) (sm_files m) \<and>
     (get_skill i (kw_tables w) \<noteq> None \<longrightarrow>
        (\<forall>x. kw_fs w' (previous_of (ge_root env @ [i]) @ x) = kw_fs w (package_of (ge_root env @ [i]) @ x)))"
proof -
  let ?c = "call_candidate call"
  from install_skill_cases [OF assms(1)] obtain i t sources enabled where
    i: "call_skill_id call = Inr i" "get_skill i (kw_tables w) = None \<longrightarrow> (\<exists>c skill_id. call = CreateSkill c skill_id)"
    and run: "stage_and_install env ?c i t sources enabled (installer env ?c key i (kw_tables w)) w = (w', Inr reg)"
    using assms(2) by (elim disjE exE conjE) auto
  let ?d = "ge_root env @ [i]" and ?s = "ge_root env @ [staging_name env i]"
  note ready = assms(4) [OF i(1)] and name = install_call_name [OF assms(3) i]
  have plain: "plain_registry env (kw_fs w)" using ready by (simp add: install_ready_def)
  obtain F' st m where F': "write_staging env ?c i t sources enabled (kw_fs w) = (F', Inr (st, m))"
    and checked: "check_and_install env st m (installer env ?c key i (kw_tables w) st m) (w\<lparr>kw_fs := F'\<rparr>) = (w', Inr reg)"
    using run by (auto simp: stage_and_install_def sbind_def on_fs_def sfocus_def split: sum.splits prod.splits)
  have effect: "st = ?s \<and> same_off ?s F' (kw_fs w) \<and> F' ?s = Some Dir \<and> (\<forall>p. prefix ?s p \<longrightarrow> link_at F' p = None) \<and> sm_skill_id m = i"
    using write_staging_effect [OF plain name _ _ F'] ready by (auto simp: install_ready_def)
  note valid = check_done [OF checked]
  have "staging_name env i \<noteq> i" "staging_name env i \<noteq> ''..''"
    using staging_name_clean [OF name] ready by (simp_all add: install_ready_def)
  then have s: "apart ?s ?d" and dots: "''..'' \<notin> set ?s" using plain by (auto simp: plain_registry_def)
  have boundary: "boundary_resolve (kw_fs (w\<lparr>kw_fs := F'\<rparr>)) (ge_root env) i False = Inr ?d"
    using install_boundary [OF ready name] effect by simp
  have links: "link_at F' q = None" if "prefix q ?s \<or> prefix ?s q" for q
    using that effect plain_root_link [OF plain, of q "staging_name env i"] same_offD [of ?s F' "kw_fs w" q]
    by (cases "prefix ?s q") (auto simp: link_at_def)
  have inst: "installed_from env ?d ?s m ?c key (w\<lparr>kw_fs := F'\<rparr>) w' reg \<and>
      (get_skill i (kw_tables w) \<noteq> None \<longrightarrow>
        (\<forall>x. kw_fs w' (previous_of ?d @ x) = fst (make_package_readonly ?s F') (package_of ?d @ x)))"
    using valid effect install_new_done [OF boundary s] install_update_done [OF boundary s]
    by (cases "get_skill i (kw_tables w)") (auto simp: installer_def)
  have "list_all (verified_file env (kw_fs w') (package_of ?d)) (sm_files m)"
    by (rule verified_install [OF conjunct1 [OF inst] _ _ _ dots])
      (use valid effect links write_staging_names [OF F'] in auto)
  moreover have "fst (make_package_readonly ?s F') (package_of ?d @ x) = kw_fs w (package_of ?d @ x)" for x
    using apart_not_prefix(2) [OF s, of "''package'' # x"] effect
    by (auto intro: same_off_trans [OF readonly_same_off, THEN same_offD])
  ultimately show ?thesis using i(1) inst effect
    by (intro exI [of _ i] exI [of _ m]) (auto simp: installed_from_def)
qed

text \<open>
  C37: a package in the registry has been validated. When a creation or an update that was not applied
  before returns, the returned skill is the one the table gives under its identifier, at the package
  directory of the skill; and every file of its manifest is there, cannot be written, has the SHA-256 of
  the manifest, and none of the secrets, forbidden texts, imports and calls. The package an update
  replaces is kept as the previous one.
\<close>

theorem installed_package_is_verified:
  assumes "install_skill env call key w = (w', Inr reg)" and "\<not> applied key (kw_tables w)" and "named_skills (kw_tables w)"
    and "\<And>i. call_skill_id call = Inr i \<Longrightarrow> install_ready env i (kw_fs w)"
  shows "\<exists>i. call_skill_id call = Inr i \<and> rs_package_path reg = package_of (ge_root env @ [i]) \<and>
     get_skill i (kw_tables w') = Some reg \<and>
     list_all (verified_file env (kw_fs w') (package_of (ge_root env @ [i]))) (sm_files (rs_manifest reg)) \<and>
     (\<forall>x b m. get_skill i (kw_tables w) \<noteq> None \<and> kw_fs w (package_of (ge_root env @ [i]) @ x) = Some (Reg b m) \<longrightarrow>
        kw_fs w' (previous_of (ge_root env @ [i]) @ x) = Some (Reg b m))"
proof -
  from install_done [OF assms] obtain i m where "call_skill_id call = Inr i" "sm_skill_id m = i"
    "reg = \<lparr>rs_manifest = m, rs_package_path = package_of (ge_root env @ [i])\<rparr>"
    "kw_tables w' = upserted_rows (ge_now env) m (package_of (ge_root env @ [i])) (call_candidate call) key (kw_tables w)"
    "list_all (verified_file env (kw_fs w') (package_of (ge_root env @ [i]))) (sm_files m)"
    "get_skill i (kw_tables w) \<noteq> None \<longrightarrow>
        (\<forall>x. kw_fs w' (previous_of (ge_root env @ [i]) @ x) = kw_fs w (package_of (ge_root env @ [i]) @ x))" by blast
  then show ?thesis using get_upserted [of m] by (intro exI [of _ i]) auto
qed

text \<open>
  C38: an installation is applied once. When a creation or an update under a key has returned a skill, every
  later creation or update under that key, of whatever candidate and with whatever environment, returns
  the same skill and changes neither files nor tables.
\<close>

theorem skill_install_replay:
  assumes "install_skill env call (Some k) w = (w', Inr reg)" and "k \<noteq> []" and "\<not> applied (Some k) (kw_tables w)"
    and "named_skills (kw_tables w)" and "\<And>i. call_skill_id call = Inr i \<Longrightarrow> install_ready env i (kw_fs w)"
  shows "install_skill env' call' (Some k) w' = (w', Inr reg)"
proof -
  from install_done [OF assms(1,3,4,5)] obtain i m where m: "sm_skill_id m = i"
    "reg = \<lparr>rs_manifest = m, rs_package_path = package_of (ge_root env @ [i])\<rparr>"
    "kw_tables w' = upserted_rows (ge_now env) m (package_of (ge_root env @ [i])) (call_candidate call) (Some k) (kw_tables w)" by blast
  have none: "map_of (kt_operations (kw_tables w)) k = None"
    using assms(2,3) by (simp add: applied_def skill_operation_result_def truthy_def)
  then have "k \<notin> fst ` set (kt_operations (kw_tables w))" by (simp add: map_of_eq_None_iff)
  then have "skill_operation_result k (kw_tables w') = Some [(''skill_id'', JStr i)]"
    using assms(2) m(1) none unfolding m(3)
    by (simp add: skill_operation_result_def upserted_rows_def Let_def insert_or_ignore_def truthy_def map_add_def)
  moreover have "get_skill i (kw_tables w') = Some reg" using get_upserted [of m] m by simp
  ultimately have "replayed_skill (Some k) (kw_tables w') = (kw_tables w', Inr (Some reg))"
    using assms(2) by (simp add: replayed_skill_def sbind_def truthy_def jget_def)
  then show ?thesis by (cases call') (simp_all add: create_skill_def update_skill_def sbind_def on_tables_def sfocus_def)
qed

theorem skill_install_replay_witness:
  "let run = install_skill (demo_registry None) (CreateSkill demo_skill None) (Some ''k'') demo_skill_world
   in install_skill (demo_registry None) (UpdateSkill ''other'' demo_skill) (Some ''k'') (fst run) = (fst run, Inr (projr (snd run)))"
  unfolding Let_def
proof (rule skill_install_replay [OF _ _ _ demo_named])
  show "install_skill (demo_registry None) (CreateSkill demo_skill None) (Some ''k'') demo_skill_world =
      (fst (install_skill (demo_registry None) (CreateSkill demo_skill None) (Some ''k'') demo_skill_world),
       Inr (projr (snd (install_skill (demo_registry None) (CreateSkill demo_skill None) (Some ''k'') demo_skill_world))))"
    using demo_installed by (simp add: prod_eq_iff)
  show "\<not> applied (Some ''k'') (kw_tables demo_skill_world)" by code_simp
  show "install_ready (demo_registry None) i (kw_fs demo_skill_world)"
    if "call_skill_id (CreateSkill demo_skill None) = Inr i" for i
    using that demo_skill_id demo_ready by simp
qed simp

theorem installed_package_is_verified_witness:
  "let w = demo_skill_world; call = CreateSkill demo_skill None; env = demo_registry None;
     w' = fst (install_skill env call (Some ''k'') w); reg = projr (snd (install_skill env call (Some ''k'') w))
   in \<exists>i. call_skill_id call = Inr i \<and> rs_package_path reg = package_of (ge_root env @ [i]) \<and>
     get_skill i (kw_tables w') = Some reg \<and>
     list_all (verified_file env (kw_fs w') (package_of (ge_root env @ [i]))) (sm_files (rs_manifest reg)) \<and>
     (\<forall>x b m. get_skill i (kw_tables w) \<noteq> None \<and> kw_fs w (package_of (ge_root env @ [i]) @ x) = Some (Reg b m) \<longrightarrow>
        kw_fs w' (previous_of (ge_root env @ [i]) @ x) = Some (Reg b m))"
  unfolding Let_def
proof (rule installed_package_is_verified [OF _ _ demo_named])
  show "install_skill (demo_registry None) (CreateSkill demo_skill None) (Some ''k'') demo_skill_world =
      (fst (install_skill (demo_registry None) (CreateSkill demo_skill None) (Some ''k'') demo_skill_world),
       Inr (projr (snd (install_skill (demo_registry None) (CreateSkill demo_skill None) (Some ''k'') demo_skill_world))))"
    using demo_installed by (simp add: prod_eq_iff)
  show "\<not> applied (Some ''k'') (kw_tables demo_skill_world)" by code_simp
  show "install_ready (demo_registry None) i (kw_fs demo_skill_world)"
    if "call_skill_id (CreateSkill demo_skill None) = Inr i" for i
    using that demo_skill_id demo_ready by simp
qed

text \<open>The exception of the atomicity: a script outside of its category leaves the staging directory.\<close>

theorem misplaced_file_leaves_staging:
  "kw_fs (fst (create_skill (demo_registry None) (demo_skill\<lparr>sc_scripts := [\<lparr>gf_path = ''a.py'', gf_content = [], gf_executable = False\<rparr>]\<rparr>)
     None None demo_skill_world)) [''r'', ''.staging-fix-it-a1''] = Some Dir"
  by code_simp

text \<open>
  A carriage return in a file makes every candidate invalid: the digest is taken of the text as given, and
  compared with the digest of the text as read, whose line ends are translated.
\<close>

theorem carriage_return_is_rejected:
  "snd (create_skill (demo_registry None) (demo_skill\<lparr>sc_skill_md := ''a'' @ [CHR 0x0D, CHR 0x0A]\<rparr>) None None demo_skill_world) =
   Inl (CapabilityRegistryError ''skill validation failed: immutable hash mismatch: SKILL.md'')"
  by code_simp

end
