(* ===== verification/SkillTables.thy ===== *)
theory SkillTables
  imports SkillAtomic
begin

text \<open>
  The tables of the skill registry under every operation of \<^verbatim>\<open>capability/registry.py\<close>: their invariant, the
  replay of an operation under its key, and what is read of a skill's memory.
\<close>

section \<open>The invariant\<close>

text \<open>
  Every skill has one row, one row of the full-text index and one row of statistics, under an identifier
  that is a name of one directory; its columns agree with its manifest; every use was a success or a failure.
\<close>

definition stats_consistent :: "skill_stats \<Rightarrow> bool" where
  "stats_consistent x \<longleftrightarrow> ss_use_count x = ss_success_count x + ss_failure_count x \<and>
     0 \<le> ss_success_count x \<and> 0 \<le> ss_failure_count x \<and> 0 \<le> ss_patch_count x \<and> ss_patch_count x \<le> ss_use_count x \<and>
     0 \<le> ss_retrieval_count x \<and> 0 \<le> ss_selected_count x \<and> (ss_last_used_at x = None \<longleftrightarrow> ss_use_count x = 0)"

definition row_consistent :: "skill_row \<Rightarrow> bool" where
  "row_consistent r \<longleftrightarrow> slug_name (kr_skill_id r) \<and> sm_skill_id (kr_manifest r) = kr_skill_id r \<and>
     sm_enabled (kr_manifest r) = kr_enabled r"

definition tables_consistent :: "skill_tables \<Rightarrow> bool" where
  "tables_consistent t \<longleftrightarrow> list_all row_consistent (kt_skills t) \<and> list_all stats_consistent (kt_stats t) \<and>
     distinct (map kr_skill_id (kt_skills t)) \<and> distinct (map fst (kt_fts t)) \<and> distinct (map ss_skill_id (kt_stats t)) \<and>
     set (map fst (kt_fts t)) = set (map kr_skill_id (kt_skills t)) \<and>
     set (map ss_skill_id (kt_stats t)) = set (map kr_skill_id (kt_skills t)) \<and>
     distinct (map fst (kt_operations t))"

lemma consistent_named: "tables_consistent t \<Longrightarrow> named_skills t"
  by (auto simp: tables_consistent_def named_skills_def row_consistent_def list_all_iff)

interpretation skill_operations: keyed_log fst id "\<lambda>e t. fst (record_skill_operation (fst e) (snd e) t)" kt_operations
  by unfold_locales (auto simp: record_skill_operation_def insert_or_ignore_def)

section \<open>Every operation keeps it\<close>

lemma upsert_keys:
  assumes "\<And>x. key x = key r \<Longrightarrow> key (change x) = key r"
  shows "map key (upsert key change r rows) =
    (if list_ex (\<lambda>x. key x = key r) rows then map key rows else map key rows @ [key r])"
proof -
  have "map key (map (\<lambda>x. if key x = key r then change x else x) rows) = map key rows" using assms by auto
  then show ?thesis unfolding upsert_def by (simp only: if_distrib [of "map key"] map_append list.map cong: if_cong)
qed

lemma upsert_key_set:
  assumes "\<And>x. key x = key r \<Longrightarrow> key (change x) = key r"
  shows "set (map key (upsert key change r rows)) = insert (key r) (set (map key rows))"
    "distinct (map key rows) \<Longrightarrow> distinct (map key (upsert key change r rows))"
proof -
  have eq: "map key (upsert key change r rows) =
      (if list_ex (\<lambda>x. key x = key r) rows then map key rows else map key rows @ [key r])"
    by (rule upsert_keys) (rule assms)
  show "set (map key (upsert key change r rows)) = insert (key r) (set (map key rows))"
    unfolding eq by (auto simp: list_ex_iff) (metis imageI)
  show "distinct (map key (upsert key change r rows))" if "distinct (map key rows)"
    using that unfolding eq by (auto simp: list_ex_iff)
qed

lemma list_all_upsert: "list_all P rows \<Longrightarrow> (\<And>x. P x \<Longrightarrow> P (change x)) \<Longrightarrow> P r \<Longrightarrow> list_all P (upsert key change r rows)"
  by (auto simp: upsert_def list_all_iff)

lemma consistent_upserted:
  assumes "tables_consistent t" and "slug_name (sm_skill_id m)"
  shows "tables_consistent (upserted_rows now m p c key t)"
proof -
  let ?i = "sm_skill_id m"
  have stats: "list_all stats_consistent (upsert ss_skill_id (\<lambda>x. x\<lparr>ss_updated_at := now\<rparr>) (fresh_stats ?i now) (kt_stats t))"
    using assms(1) by (intro list_all_upsert) (auto simp: tables_consistent_def stats_consistent_def fresh_stats_def)
  have rows: "list_all row_consistent (upsert kr_skill_id (\<lambda>_. row) row (kt_skills t))"
    if "row = \<lparr>kr_skill_id = ?i, kr_enabled = sm_enabled m, kr_manifest = m, kr_package_path = p\<rparr>" for row
    using assms by (intro list_all_upsert) (auto simp: that tables_consistent_def row_consistent_def)
  have ids: "set (map ss_skill_id (upsert ss_skill_id (\<lambda>x. x\<lparr>ss_updated_at := now\<rparr>) (fresh_stats ?i now) (kt_stats t))) =
      insert ?i (set (map ss_skill_id (kt_stats t)))"
    "distinct (map ss_skill_id (upsert ss_skill_id (\<lambda>x. x\<lparr>ss_updated_at := now\<rparr>) (fresh_stats ?i now) (kt_stats t)))"
    "\<And>row. kr_skill_id row = ?i \<Longrightarrow> set (map kr_skill_id (upsert kr_skill_id (\<lambda>_. row) row (kt_skills t))) =
      insert ?i (set (map kr_skill_id (kt_skills t)))"
    "\<And>row. distinct (map kr_skill_id (upsert kr_skill_id (\<lambda>_. row) row (kt_skills t)))"
    using assms(1) upsert_key_set [of ss_skill_id "fresh_stats ?i now" "\<lambda>x. x\<lparr>ss_updated_at := now\<rparr>" "kt_stats t"]
      upsert_key_set [of kr_skill_id row "\<lambda>_. row" "kt_skills t" for row]
    by (auto simp: tables_consistent_def fresh_stats_def)
  have kept: "fst ` {f \<in> set (kt_fts t). fst f \<noteq> ?i} = fst ` set (kt_fts t) - {?i}" by auto
  have fts: "distinct (map fst (filter (\<lambda>f. fst f \<noteq> ?i) (kt_fts t) @ [(?i, x)]))"
    "set (map fst (filter (\<lambda>f. fst f \<noteq> ?i) (kt_fts t) @ [(?i, x)])) = insert ?i (set (map fst (kt_fts t)))" for x :: string
    using assms(1) kept by (simp_all add: tables_consistent_def distinct_map_filter)
  have operations: "distinct (map fst (insert_or_ignore fst (k, r) (kt_operations t)))" for k :: string and r
    using assms(1) by (auto simp: tables_consistent_def insert_or_ignore_def)
  show ?thesis
    using assms(1) stats rows ids operations fts
    unfolding tables_consistent_def upserted_rows_def Let_def skill_tables.simps by simp
qed

definition keeps_tables :: "skill_world \<Rightarrow> skill_world \<Rightarrow> bool" where
  "keeps_tables w w' \<longleftrightarrow> (tables_consistent (kw_tables w) \<longrightarrow> tables_consistent (kw_tables w'))"

lemma keeps_tables_refl: "keeps_tables w w"
  by (simp add: keeps_tables_def)

lemma keeps_tables_trans: "keeps_tables a b \<Longrightarrow> keeps_tables b c \<Longrightarrow> keeps_tables a c"
  by (simp add: keeps_tables_def)

lemmas tables_bind = keeps_bind [of keeps_tables, OF keeps_tables_trans]
lemmas tables_catch = keeps_catch [of keeps_tables, OF keeps_tables_trans]
lemmas tables_pure = keeps_pure [where R = keeps_tables, OF keeps_tables_refl]

lemma tables_fs: "keeps keeps_tables (on_fs m)"
  by (auto simp: keeps_def keeps_tables_def on_fs_def sfocus_def split: prod.splits)

lemma tables_upsert: "slug_name (sm_skill_id m) \<Longrightarrow> keeps keeps_tables (on_tables (upsert_rows env m p c key))"
  by (auto simp: keeps_def keeps_tables_def on_tables_def sfocus_def upsert_rows_def consistent_upserted split: option.splits)

lemma tables_undo: "keeps keeps_tables (sbind (on_fs m) (\<lambda>_. sraise e))"
  by (intro tables_bind tables_fs tables_pure)

lemma tables_install_new:
  assumes "slug_name (sm_skill_id m)"
  shows "keeps keeps_tables (install_new env i s m c key)"
  unfolding install_new_def Let_def
  by (intro tables_bind tables_fs tables_pure)
    (auto intro!: tables_bind tables_catch tables_fs tables_pure tables_upsert assms)

lemma tables_install_update:
  assumes "slug_name (sm_skill_id m)"
  shows "keeps keeps_tables (install_update env i s m c key)"
  unfolding install_update_def swap_package_def Let_def
  by (intro tables_bind tables_fs tables_pure)
    (auto intro!: tables_bind tables_catch tables_fs tables_pure tables_upsert assms)

lemma tables_check: "(\<And>s m. keeps keeps_tables inst) \<Longrightarrow> keeps keeps_tables (check_and_install env s m inst)"
  unfolding check_and_install_def
  by (intro tables_catch tables_bind tables_fs) (auto intro: tables_pure tables_undo)

lemma write_staging_id: "write_staging env c i t sources enabled F = (F', Inr (st, m)) \<Longrightarrow> sm_skill_id m = i"
  by (auto simp: write_staging_def sbind_Inr_iff scatch_def remove_tree_def sbind_def dest: fill_staging_returns
      split: sum.splits prod.splits if_splits)

lemma install_keeps_tables: "keeps keeps_tables (install_skill env call key)"
proof (rule keepsI)
  fix w
  obtain w' r where run: "install_skill env call key w = (w', r)" by fastforce
  show "keeps_tables w (fst (install_skill env call key w))"
  proof (cases "tables_consistent (kw_tables w)")
    case True
    from install_skill_cases [OF run] show ?thesis
    proof (elim disjE exE conjE)
      fix i t sources enabled
      let ?inst = "installer env (call_candidate call) key i (kw_tables w)"
      assume i: "call_skill_id call = Inr i" "get_skill i (kw_tables w) = None \<longrightarrow> (\<exists>c skill_id. call = CreateSkill c skill_id)"
        and stage: "stage_and_install env (call_candidate call) i t sources enabled ?inst w = (w', r)"
      have name: "slug_name i" by (rule install_call_name [OF consistent_named [OF True] i])
      obtain F' q where F': "write_staging env (call_candidate call) i t sources enabled (kw_fs w) = (F', q)" by fastforce
      show ?thesis
      proof (cases q)
        case (Inl e)
        then show ?thesis using run stage F'
          by (auto simp: stage_and_install_def sbind_def on_fs_def sfocus_def keeps_tables_def)
      next
        case (Inr sm)
        then obtain st m where sm: "sm = (st, m)" by fastforce
        have "sm_skill_id m = i" using write_staging_id F' Inr sm by blast
        then have "keeps keeps_tables (check_and_install env st m (?inst st m))"
          using name by (auto simp: installer_def intro!: tables_check tables_install_new tables_install_update)
        moreover have "check_and_install env st m (?inst st m) (w\<lparr>kw_fs := F'\<rparr>) = (w', r)"
          using stage F' by (simp add: stage_and_install_def sbind_def on_fs_def sfocus_def Inr sm)
        ultimately have "keeps_tables (w\<lparr>kw_fs := F'\<rparr>) w'" by (rule keepsD)
        then show ?thesis using run by (simp add: keeps_tables_def)
      qed
    qed (use run in \<open>simp add: keeps_tables_refl\<close>)
  qed (simp add: keeps_tables_def)
qed

text \<open>The operations on statistics, on the flag of a skill and on the keys.\<close>

lemma consistent_rows:
  assumes "tables_consistent t" and "map kr_skill_id rows = map kr_skill_id (kt_skills t)" and "list_all row_consistent rows"
  shows "tables_consistent (t\<lparr>kt_skills := rows\<rparr>)"
  using assms unfolding tables_consistent_def by (cases t) (simp del: set_map)

lemma consistent_stats_rows:
  assumes "tables_consistent t" and "map ss_skill_id xs = map ss_skill_id (kt_stats t)" and "list_all stats_consistent xs"
  shows "tables_consistent (t\<lparr>kt_stats := xs\<rparr>)"
  using assms unfolding tables_consistent_def by (cases t) (simp del: set_map)

lemma consistent_stats:
  assumes "tables_consistent t" and "\<And>x. ss_skill_id (f x) = ss_skill_id x" and "\<And>x. stats_consistent x \<Longrightarrow> stats_consistent (f x)"
  shows "tables_consistent (t\<lparr>kt_stats := map f (kt_stats t)\<rparr>)"
  by (rule consistent_stats_rows [OF assms(1)]) (use assms in \<open>auto simp: tables_consistent_def list_all_length\<close>)

lemma consistent_operation:
  assumes "tables_consistent t" and "\<not> applied key t"
  shows "tables_consistent (with_operation key p t)"
  using assms
  by (auto simp: tables_consistent_def with_operation_def applied_def skill_operation_result_def map_of_eq_None_iff)

lemma count_retrieval_consistent:
  "tables_consistent t \<Longrightarrow> tables_consistent (t\<lparr>kt_stats := fold (count_retrieval selected now) ids (kt_stats t)\<rparr>)"
proof (induction ids arbitrary: t)
  case (Cons i ids)
  have "tables_consistent (t\<lparr>kt_stats := count_retrieval selected now i (kt_stats t)\<rparr>)"
    unfolding count_retrieval_def by (rule consistent_stats [OF Cons.prems]) (auto simp: stats_consistent_def)
  from Cons.IH [OF this] show ?case by simp
qed simp

lemma applied_stats [simp]: "applied key (t\<lparr>kt_stats := xs\<rparr>) = applied key t"
  by (simp add: applied_def skill_operation_result_def)

lemma record_retrieval_consistent: "tables_consistent t \<Longrightarrow> tables_consistent (fst (record_retrieval env ids selected key t))"
  by (auto simp: record_retrieval_def consistent_operation count_retrieval_consistent split: option.splits)

lemma record_use_consistent: "tables_consistent t \<Longrightarrow> tables_consistent (fst (record_use env i success patched key t))"
  by (auto simp: record_use_def count_use_def stats_consistent_def intro!: consistent_operation consistent_stats split: option.splits)

lemma set_enabled_consistent: "tables_consistent t \<Longrightarrow> tables_consistent (fst (set_enabled env i b t))"
proof -
  assume t: "tables_consistent t"
  show ?thesis
  proof (cases "get_skill i t = None \<or> ge_commit_error env \<noteq> None")
    case False
    then obtain r where r: "find (\<lambda>r. kr_skill_id r = i) (kt_skills t) = Some r" by (auto simp: get_skill_def)
    then have "row_consistent r" "kr_skill_id r = i"
      using t by (auto simp: tables_consistent_def find_Some_iff list_all_length)
    then have "list_all row_consistent (map (\<lambda>x. if kr_skill_id x = i then x\<lparr>kr_enabled := b,
        kr_manifest := (kr_manifest r)\<lparr>sm_enabled := b\<rparr>\<rparr> else x) (kt_skills t))"
      using t by (auto simp: tables_consistent_def row_consistent_def list_all_iff)
    then show ?thesis using False r
      by (auto simp: set_enabled_def get_skill_def intro!: consistent_rows [OF t] cong: if_cong)
  qed (use t in \<open>auto simp: set_enabled_def split: option.splits\<close>)
qed

lemma record_operation_consistent: "tables_consistent t \<Longrightarrow> tables_consistent (fst (record_skill_operation key result t))"
  using skill_operations.append_distinct [of t "(key, result)"]
  by (auto simp: tables_consistent_def record_skill_operation_def)

datatype registry_call =
    Install registry_env install_call "string option"
  | SetEnabled registry_env string bool
  | RecordSkillOperation string payload
  | RecordRetrieval registry_env "string list" bool "string option"
  | RecordUse registry_env string bool bool "string option"
  | AppendSkillMemory registry_env string skill_memory_entry

fun registry_step :: "registry_call \<Rightarrow> skill_world \<Rightarrow> skill_world" where
  "registry_step (Install env call key) w = fst (install_skill env call key w)"
| "registry_step (SetEnabled env i b) w = fst (on_tables (set_enabled env i b) w)"
| "registry_step (RecordSkillOperation key result) w = fst (on_tables (record_skill_operation key result) w)"
| "registry_step (RecordRetrieval env ids selected key) w = fst (on_tables (record_retrieval env ids selected key) w)"
| "registry_step (RecordUse env i success patched key) w = fst (on_tables (record_use env i success patched key) w)"
| "registry_step (AppendSkillMemory env i e) w = fst (on_fs (append_skill_memory env i e) w)"

lemma fst_on_tables: "kw_tables (fst (on_tables m w)) = fst (m (kw_tables w))"
  by (auto simp: on_tables_def sfocus_def split: prod.splits)

lemma registry_step_consistent: "tables_consistent (kw_tables w) \<Longrightarrow> tables_consistent (kw_tables (registry_step call w))"
proof (cases call)
  case (Install env c key)
  assume "tables_consistent (kw_tables w)"
  then show ?thesis using install_keeps_tables [of env c key] by (simp add: Install keeps_def keeps_tables_def)
next
  case (AppendSkillMemory env i e)
  assume "tables_consistent (kw_tables w)"
  then show ?thesis using tables_fs [of "append_skill_memory env i e"] by (simp add: AppendSkillMemory keeps_def keeps_tables_def)
qed (simp_all add: fst_on_tables set_enabled_consistent record_operation_consistent record_retrieval_consistent record_use_consistent)

lemma registry_steps_consistent:
  "tables_consistent (kw_tables w) \<Longrightarrow> tables_consistent (kw_tables (fold registry_step calls w))"
  by (induction calls arbitrary: w) (simp_all add: registry_step_consistent)

text \<open>
  C39: the tables of the skill registry are consistent after any calls, in any order and whatever of them
  fails: each skill has exactly one row, one index row and one row of statistics, its identifier is a
  directory name of lower-case letters, digits and hyphens and is the one of its manifest, the flag is the
  one of the manifest, and the uses of a skill are its successes and failures.
\<close>

theorem skill_tables_consistent:
  "tables_consistent (kw_tables (fold registry_step calls \<lparr>kw_fs = fs, kw_tables = empty_skills\<rparr>))"
  by (rule registry_steps_consistent) (simp add: tables_consistent_def empty_skills_def)

section \<open>Reading the memory of a skill\<close>

abbreviation size_of :: "skill_memory_entry list \<Rightarrow> int" where
  "size_of es \<equiv> sum_list (map entry_size es)"

lemma recent_fitting_bounds:
  "prefix (recent_fitting max_chars nonempty used es) es \<and>
   (recent_fitting max_chars nonempty used es \<noteq> [] \<and> (nonempty \<or> 1 < length (recent_fitting max_chars nonempty used es)) \<longrightarrow>
      used + size_of (recent_fitting max_chars nonempty used es) \<le> max_chars)"
proof (induction max_chars nonempty used es rule: recent_fitting.induct)
  case (2 max_chars nonempty used e es)
  show ?case
  proof (cases "nonempty \<and> max_chars < used + entry_size e")
    case False
    let ?rest = "recent_fitting max_chars True (used + entry_size e) es"
    have "prefix ?rest es" "?rest \<noteq> [] \<Longrightarrow> used + entry_size e + size_of ?rest \<le> max_chars"
      using "2.IH" [OF False] by simp_all
    then show ?thesis using False by (cases "?rest = []") auto
  qed simp
qed simp

lemma recent_fitting_some: "es \<noteq> [] \<Longrightarrow> recent_fitting max_chars False used es \<noteq> []"
  by (cases es) simp_all

lemma last_entries_spec: "suffix (last_entries limit xs) xs \<and> (xs \<noteq> [] \<longrightarrow> last_entries limit xs \<noteq> []) \<and>
    (0 < limit \<longrightarrow> int (length (last_entries limit xs)) \<le> limit)"
  by (cases xs) (auto simp: last_entries_def suffix_drop)

text \<open>
  C30: What is read of a skill's memory is a window on its end: the newest entries in the order they were
  written, at least one when there is any, together within the limit of characters unless it is one entry
  alone, and for a positive limit no more of them than it says.
\<close>

theorem skill_memory_window:
  assumes "file_text fs (dir @ [''memory.md'']) = Inr content" and "skill_root fs skill_id t = Inr dir"
    and "read_skill_memory env skill_id limit max_chars fs t = Inr es"
  shows "suffix es (parse_skill_memory_entries (ge_iso_other env) (ge_utc_now env) content) \<and>
    (parse_skill_memory_entries (ge_iso_other env) (ge_utc_now env) content \<noteq> [] \<longrightarrow> es \<noteq> []) \<and>
    (length es \<le> 1 \<or> size_of es \<le> max_chars) \<and> (0 < limit \<longrightarrow> int (length es) \<le> limit)"
proof -
  let ?all = "parse_skill_memory_entries (ge_iso_other env) (ge_utc_now env) content"
  let ?recent = "last_entries limit ?all"
  let ?window = "recent_fitting max_chars False 0 (rev ?recent)"
  consider "is_file fs (dir @ [''memory.md''])" "es = rev ?window" | "\<not> is_file fs (dir @ [''memory.md''])"
    using assms by (auto simp: read_skill_memory_def Let_def split: if_splits)
  then show ?thesis
  proof cases
    case 1
    note spec = last_entries_spec [of limit ?all] and bounds = recent_fitting_bounds [of max_chars False 0 "rev ?recent"]
    have "suffix es ?recent" using bounds by (simp add: 1(2) suffix_to_prefix)
    moreover from this have "length es \<le> length ?recent" by (auto simp: suffix_def)
    moreover have "?recent \<noteq> [] \<longrightarrow> es \<noteq> []" using recent_fitting_some [of "rev ?recent"] by (simp add: 1(2))
    moreover have "length es \<le> 1 \<or> size_of es \<le> max_chars" using bounds by (auto simp: 1(2) rev_map [symmetric])
    ultimately show ?thesis using spec suffix_order.trans by fastforce
  qed (use assms(1) in \<open>auto simp: is_file_def file_text_def file_bytes_def rbind_Inr_iff split: option.splits node.splits\<close>)
qed

definition demo_remembered :: skill_world where
  "demo_remembered =
     \<lparr>kw_fs = [[] \<mapsto> Dir, [''r''] \<mapsto> Dir, [''r'', ''fix-it''] \<mapsto> Dir, [''r'', ''fix-it'', ''memory.md''] \<mapsto>
        Reg (memory_marker ''r1'' ''fix-it'' @ newline @ ''## yesterday'' @ newline @ ''- Run: r1'' @ newline @ ''- Repository: o/r'' @
          newline @ ''- Outcome: success'' @ newline @ ''- Task: fix'' @ newline @ ''- Lesson: run tox'') 420],
      kw_tables = empty_skills\<lparr>kt_skills := [\<lparr>kr_skill_id = ''fix-it'', kr_enabled = True,
        kr_manifest = new_manifest (demo_registry None) demo_skill ''fix-it'' None [] True [],
        kr_package_path = [''r'', ''fix-it'', ''package'']\<rparr>]\<rparr>\<rparr>"

lemma demo_remembered_files:
  "skill_root (kw_fs demo_remembered) ''fix-it'' (kw_tables demo_remembered) = Inr [''r'', ''fix-it'']"
  "isl (file_text (kw_fs demo_remembered) ([''r'', ''fix-it''] @ [''memory.md''])) = False"
  "isl (read_skill_memory (demo_registry None) ''fix-it'' 8 4000 (kw_fs demo_remembered) (kw_tables demo_remembered)) = False"
  by code_simp+

theorem skill_memory_window_witness:
  "let fs = kw_fs demo_remembered; content = projr (file_text fs ([''r'', ''fix-it''] @ [''memory.md'']));
     es = projr (read_skill_memory (demo_registry None) ''fix-it'' 8 4000 fs (kw_tables demo_remembered));
     all = parse_skill_memory_entries (ge_iso_other (demo_registry None)) (ge_utc_now (demo_registry None)) content
   in suffix es all \<and> (all \<noteq> [] \<longrightarrow> es \<noteq> []) \<and> (length es \<le> 1 \<or> size_of es \<le> 4000) \<and> ((0 :: int) < 8 \<longrightarrow> int (length es) \<le> 8)"
  unfolding Let_def
  by (rule skill_memory_window [OF _ demo_remembered_files(1)]) (use demo_remembered_files(2,3) in simp_all)

text \<open>A limit of zero entries returns all of them.\<close>

theorem zero_limit_reads_all:
  "read_skill_memory (demo_registry None) ''fix-it'' 0 4000 (kw_fs demo_remembered) (kw_tables demo_remembered) \<noteq> Inr []"
  by code_simp

end
