(* ===== verification/MemoryRetrieval.thy ===== *)
theory MemoryRetrieval
  imports Memory ToolLoop Tools
begin

text \<open>
  The catalogue of memories for a run: \<^verbatim>\<open>memory/retrieval.py\<close>. The fingerprint of a failure and the stable
  messages of its log, which \<^verbatim>\<open>memory/fingerprint.py\<close> extracts with regular expressions, are parameters.
\<close>

section \<open>Catalogue entries\<close>

text \<open>\<open>_clip\<close>\<close>

definition clip_words :: "string \<Rightarrow> nat \<Rightarrow> string" where
  "clip_words text limit =
     (let compact = join '' '' (words text) in
      if py_len compact \<le> limit then compact else rstrip (py_take (limit - 1) compact) @ ellipsis)"

definition preview_fields :: "string list" where
  "preview_fields = [''FAILURE_CLASS='', ''FAILURE_REASON='', ''ROOT_CAUSE='', ''SUCCESSFUL_FIX='', ''ATTEMPTED_FILES='']"

definition summary_line :: "string list \<Rightarrow> string" where
  "summary_line lines =
     (case find (\<lambda>l. strip l \<noteq> [] \<and> \<not> list_ex (\<lambda>f. starts_with f l) preview_fields \<and> CHR ''='' \<notin> set (py_take 32 l) \<and>
         \<not> starts_with ''HYPOTHESIS '' l) (drop 1 lines) of
        None \<Rightarrow> [] | Some l \<Rightarrow> l)"

definition preview_field :: "string list \<Rightarrow> string \<times> nat \<Rightarrow> string list" where
  "preview_field lines f =
     (case f of (label, limit) \<Rightarrow>
        case find (starts_with label) lines of
          None \<Rightarrow> []
        | Some l \<Rightarrow> let value = drop (length label) l in if value = [] then [] else [label @ clip_words value limit])"

definition preview :: "memory_hit \<Rightarrow> memory_hit" where
  "preview hit =
     (if \<not> starts_with ''episode:'' (mh_namespace hit)
      then hit\<lparr>mh_content := ''FACT='' @ clip_words (mh_content hit) 360\<rparr>
      else
        let lines = splitlines (mh_content hit);
            outcome = (case lines of [] \<Rightarrow> ''OUTCOME=unknown'' | l # _ \<Rightarrow> l);
            shown = (if outcome = ''OUTCOME=failed''
              then [(''FAILURE_CLASS='', 40), (''FAILURE_REASON='', 220), (''ATTEMPTED_FILES='', 100)]
              else [(''ROOT_CAUSE='', 150), (''SUCCESSFUL_FIX='', 180)])
        in hit\<lparr>mh_content := join newline
             ([outcome, ''SUMMARY='' @ clip_words (summary_line lines) 180] @ concat (map (preview_field lines) shown))\<rparr>)"

definition truncation_marker :: string where
  "truncation_marker = newline @ ''[truncated]''"

definition truncate_preserving_outcome :: "string \<Rightarrow> int \<Rightarrow> string" where
  "truncate_preserving_outcome content remaining =
     (if remaining \<le> 0 then []
      else if int (py_len content) \<le> remaining then content
      else if remaining \<le> int (py_len truncation_marker) then py_take (nat remaining) content
      else py_take (nat (remaining - int (py_len truncation_marker))) content @ truncation_marker)"

section \<open>Retrieval\<close>

text \<open>The first hit of each identifier, as a catalogue entry.\<close>

fun deduplicated :: "string list \<Rightarrow> memory_hit list \<Rightarrow> memory_hit list" where
  "deduplicated seen [] = []"
| "deduplicated seen (h # hs) =
     (if mh_memory_id h \<in> set seen then deduplicated seen hs
      else preview h # deduplicated (mh_memory_id h # seen) hs)"

fun select_hits :: "int \<Rightarrow> nat \<Rightarrow> memory_hit list \<Rightarrow> memory_hit list \<times> nat" where
  "select_hits limit used [] = ([], used)"
| "select_hits limit used (h # hs) =
     (let remaining = limit - int used; content = truncate_preserving_outcome (mh_content h) remaining in
      if remaining \<le> 0 \<or> content = [] then ([], used)
      else case select_hits limit (used + py_len content) hs of
        (rest, amount) \<Rightarrow> (h\<lparr>mh_content := content\<rparr> # rest, amount))"

definition retrieval_query :: "(ci_failure \<Rightarrow> string list) \<Rightarrow> ci_failure \<Rightarrow> string" where
  "retrieval_query messages failure =
     task_family failure @ '' '' @ cf_summary failure @ '' '' @ join '' '' (concat (failed_commands failure)) @ '' '' @
     join '' '' (messages failure) @ '' '' @ py_take 800 (cf_log_excerpt failure)"

definition retrieve_memories ::
  "fts_rank \<Rightarrow> (repo_spec \<Rightarrow> ci_failure \<Rightarrow> string) \<Rightarrow> (ci_failure \<Rightarrow> string list) \<Rightarrow> int \<Rightarrow> int \<Rightarrow>
   repo_spec \<Rightarrow> ci_failure \<Rightarrow> (memory_tables, memory_retrieval) io" where
  "retrieve_memories rank fingerprint messages context_limit now repo failure =
     (let query = retrieval_query messages failure in
      sbind (search_long_term rank now query (full_name repo) 4) (\<lambda>facts.
      sbind (sget (search_episodes_by_fingerprint (full_name repo) (fingerprint repo failure) 2)) (\<lambda>exact.
      sbind (sget (search_episodes rank query (full_name repo) 4)) (\<lambda>similar.
      let found = deduplicated [] (facts @ exact @ similar);
          (selected, used) = select_hits context_limit 0 found
      in sret \<lparr>mr_hits = selected, mr_query = query, mr_retrieved_ids = map mh_memory_id found,
           mr_selected_ids = map mh_memory_id selected, mr_context_chars = used\<rparr>))))"

section \<open>The budget of the context\<close>

lemma preview_id [simp]: "mh_memory_id (preview h) = mh_memory_id h" "mh_namespace (preview h) = mh_namespace h"
  by (simp_all add: preview_def Let_def)

lemma deduplicated_distinct:
  "distinct (map mh_memory_id (deduplicated seen hs)) \<and> mh_memory_id ` set (deduplicated seen hs) \<inter> set seen = {}"
proof (induction seen hs rule: deduplicated.induct)
  case (2 seen h hs)
  then show ?case by auto
qed simp

lemma truncate_fits: "0 < n \<Longrightarrow> int (py_len (truncate_preserving_outcome content n)) \<le> n"
proof -
  assume n: "0 < n"
  have m: "py_len truncation_marker = 12" by code_simp
  show ?thesis using n by (auto simp: truncate_preserving_outcome_def py_len_py_take m)
qed

lemma select_hits_spec:
  assumes "select_hits limit used hs = (sel, amount)" and "int used \<le> max 0 limit"
  shows "amount = used + sum_list (map (py_len \<circ> mh_content) sel)" "int amount \<le> max 0 limit"
    "prefix (map mh_memory_id sel) (map mh_memory_id hs)" "prefix (map mh_namespace sel) (map mh_namespace hs)"
proof -
  have "amount = used + sum_list (map (py_len \<circ> mh_content) sel) \<and> int amount \<le> max 0 limit \<and>
      prefix (map mh_memory_id sel) (map mh_memory_id hs) \<and> prefix (map mh_namespace sel) (map mh_namespace hs)"
    using assms
  proof (induction limit used hs arbitrary: sel amount rule: select_hits.induct)
    case (2 limit used h hs)
    define content where "content = truncate_preserving_outcome (mh_content h) (limit - int used)"
    show ?case
    proof (cases "limit - int used \<le> 0 \<or> content = []")
      case True
      with 2(2,3) show ?thesis by (auto simp: content_def Let_def)
    next
      case False
      obtain rest t where r: "select_hits limit (used + py_len content) hs = (rest, t)" by (cases "select_hits limit (used + py_len content) hs")
      from False r 2(2) have res: "sel = h\<lparr>mh_content := content\<rparr> # rest" "amount = t"
        by (auto simp: content_def Let_def)
      have "int (py_len content) \<le> limit - int used" using truncate_fits False unfolding content_def by auto
      then have "int (used + py_len content) \<le> max 0 limit" by simp
      with 2(1) [of "limit - int used" content rest t] False r res show ?thesis
        by (auto simp: content_def)
    qed
  qed auto
  then show "amount = used + sum_list (map (py_len \<circ> mh_content) sel)" "int amount \<le> max 0 limit"
    "prefix (map mh_memory_id sel) (map mh_memory_id hs)" "prefix (map mh_namespace sel) (map mh_namespace hs)" by blast+
qed

lemma deduplicated_namespaces: "mh_namespace ` set (deduplicated seen hs) \<subseteq> mh_namespace ` set hs"
  by (induction seen hs rule: deduplicated.induct) auto

lemma episodes_found:
  "h \<in> set (search_episodes_by_fingerprint repo fp n m) \<union> set (search_episodes rank q repo n' m) \<Longrightarrow>
   starts_with ''episode:'' (mh_namespace h)"
proof -
  have "starts_with ''episode:'' (mh_namespace (episode_hit r e))" for r e by (simp add: episode_hit_def starts_with_def)
  moreover assume "h \<in> set (search_episodes_by_fingerprint repo fp n m) \<union> set (search_episodes rank q repo n' m)"
  then have "\<exists>r e. h = episode_hit r e"
    unfolding search_episodes_by_fingerprint_def search_episodes_def Let_def by (force split: if_splits dest!: in_set_takeD)
  ultimately show ?thesis by blast
qed

text \<open>
  C27: the memories of a run fit its context. A retrieval always returns; the texts it selects together
  never have more code points than the limit, and the reported size is theirs; no memory is selected
  twice; what is selected is an initial part of what was retrieved; and every entry is a fact of the
  run's own repository or an episode.
\<close>

theorem memory_retrieval_bounds:
  "case snd (retrieve_memories rank fingerprint messages limit now repo failure m) of
     Inl e \<Rightarrow> False
   | Inr r \<Rightarrow>
       mr_context_chars r = sum_list (map (py_len \<circ> mh_content) (mr_hits r)) \<and> int (mr_context_chars r) \<le> max 0 limit \<and>
       mr_selected_ids r = map mh_memory_id (mr_hits r) \<and> distinct (mr_selected_ids r) \<and>
       prefix (mr_selected_ids r) (mr_retrieved_ids r) \<and>
       list_all (\<lambda>h. mh_namespace h = ''repo:'' @ full_name repo \<or> starts_with ''episode:'' (mh_namespace h)) (mr_hits r)"
proof -
  let ?q = "retrieval_query messages failure"
  obtain m1 facts where facts: "search_long_term rank now ?q (full_name repo) 4 m = (m1, Inr facts)"
    by (cases "fts_query ?q = [] \<or> full_name repo = []") (auto simp: search_long_term_def Let_def)
  let ?exact = "search_episodes_by_fingerprint (full_name repo) (fingerprint repo failure) 2 m1"
  let ?similar = "search_episodes rank ?q (full_name repo) 4 m1"
  let ?found = "deduplicated [] (facts @ ?exact @ ?similar)"
  obtain sel used where sel: "select_hits limit 0 ?found = (sel, used)" by (cases "select_hits limit 0 ?found")
  note spec = select_hits_spec [OF sel]
  let ?ok = "\<lambda>ns. ns = ''repo:'' @ full_name repo \<or> starts_with ''episode:'' ns"
  have "?ok (mh_namespace h)" if "h \<in> set facts" for h using searched_facts [OF facts that] by simp
  moreover have "starts_with ''episode:'' (mh_namespace h)" if "h \<in> set ?exact \<union> set ?similar" for h
    using that episodes_found [of h] by blast
  ultimately have known: "?ok ns" if "ns \<in> mh_namespace ` set (facts @ ?exact @ ?similar)" for ns using that by auto
  have sub: "set (map mh_namespace sel) \<subseteq> mh_namespace ` set (facts @ ?exact @ ?similar)"
    using set_mono_prefix [OF spec(4)] deduplicated_namespaces [of "[]" "facts @ ?exact @ ?similar"] by simp
  have "?ok (mh_namespace h)" if "h \<in> set sel" for h
    by (rule known, rule subsetD [OF sub]) (use that in simp)
  then have "list_all (\<lambda>h. ?ok (mh_namespace h)) sel" by (simp add: list_all_iff)
  moreover have "distinct (map mh_memory_id sel)"
    using spec(3) deduplicated_distinct [of "[]" "facts @ ?exact @ ?similar"] by (auto simp: prefix_def)
  ultimately show ?thesis
    using facts sel spec by (simp add: retrieve_memories_def sbind_def Let_def)
qed

end
