(* ===== verification/SkillCatalog.thy ===== *)
theory SkillCatalog
  imports SkillTables MemoryRetrieval
begin

text \<open>
  The catalogue of skills for a run: \<^verbatim>\<open>capability/retrieval.py\<close>. The ranking of the full-text index is the
  parameter \<open>rank\<close> (\<open>bm25\<close>, as in \<^verbatim>\<open>Memory\<close>), and so is \<open>order\<close>, the order in which Python iterates over a
  set of strings.
\<close>

section \<open>Words of a text\<close>

definition STOPWORDS :: "string list" where
  "STOPWORDS = [''bug'', ''command'', ''error'', ''failed'', ''failure'', ''file'', ''fix'', ''none'', ''python'', ''pytest'', ''test'', ''tests'']"

definition MAX_DESCRIPTION_CHARS :: int where
  "MAX_DESCRIPTION_CHARS = 400"

definition token_char :: "char \<Rightarrow> bool" where
  "token_char c \<longleftrightarrow> in_range 97 122 c \<or> in_range 65 90 c \<or> in_range 48 57 c \<or> c = CHR ''_''"

text \<open>The set of tokens, as a list without duplicates.\<close>

definition skill_tokens :: "string \<Rightarrow> string list" where
  "skill_tokens text = dedup (filter (\<lambda>t. 3 \<le> length t \<and> t \<notin> set STOPWORDS) (runs token_char (lower text)))"

definition skill_query :: "(string list \<Rightarrow> string list) \<Rightarrow> string \<Rightarrow> string" where
  "skill_query order text = join '' OR '' (map quoted (take 32 (order (skill_tokens text))))"

definition truncate_text :: "string \<Rightarrow> int \<Rightarrow> string" where
  "truncate_text s limit =
     (if limit \<le> 0 then [] else if int (py_len s) \<le> limit then s else if limit = 1 then ellipsis
      else rstrip (py_take (nat limit - 1) s) @ ellipsis)"

definition entry_chars :: "skill_catalog_entry \<Rightarrow> int" where
  "entry_chars e = int (py_len (sce_skill_id e) + py_len (sce_name e) + py_len (sce_description e))"

definition common :: "string list \<Rightarrow> string list \<Rightarrow> nat" where
  "common xs ys = length (filter (\<lambda>t. t \<in> set ys) xs)"

definition rank_score :: "skill_manifest \<Rightarrow> string \<Rightarrow> ci_failure \<Rightarrow> real" where
  "rank_score m name failure =
     (let query = skill_tokens (task_family failure @ '' '' @ cf_summary failure @ '' '' @ py_take 1200 (cf_log_excerpt failure));
          skill = skill_tokens (join '' '' ([name, sm_description m] @ sm_triggers m @ sm_task_families m))
      in real (common query skill) + 4 * real (common (skill_tokens (task_family failure)) skill))"

section \<open>Fitting the catalogue\<close>

definition clip_description :: "skill_catalog_entry \<Rightarrow> skill_catalog_entry" where
  "clip_description e =
     (if MAX_DESCRIPTION_CHARS < int (py_len (sce_description e))
      then e\<lparr>sce_description := truncate_text (sce_description e) MAX_DESCRIPTION_CHARS\<rparr> else e)"

abbreviation catalog_chars :: "skill_catalog_entry list \<Rightarrow> int" where
  "catalog_chars es \<equiv> sum_list (map entry_chars es)"

definition shrink_entry :: "int \<Rightarrow> skill_catalog_entry \<Rightarrow> skill_catalog_entry" where
  "shrink_entry limit e =
     (let room = limit - int (py_len (sce_skill_id e)) - int (py_len (sce_name e))
      in e\<lparr>sce_description := truncate_text (sce_description e) (max room 0)\<rparr>)"

function (sequential) fit_loop :: "int \<Rightarrow> skill_catalog_entry list \<Rightarrow> nat \<Rightarrow> skill_catalog_entry list \<times> nat" where
  "fit_loop limit [] omitted = ([], omitted)"
| "fit_loop limit (e # es) omitted =
     (if catalog_chars (e # es) \<le> limit then (e # es, omitted)
      else if es = [] then ([shrink_entry limit e], omitted)
      else fit_loop limit (butlast (e # es)) (omitted + 1))"
  by pat_completeness auto
termination
  by (relation "measure (\<lambda>(limit, es, omitted). length es)") auto

definition fit_catalog :: "skill_catalog_entry list \<Rightarrow> int \<Rightarrow> skill_catalog_entry list \<times> nat \<times> int" where
  "fit_catalog entries limit =
     (case fit_loop limit (map clip_description entries) 0 of (fitted, omitted) \<Rightarrow> (fitted, omitted, catalog_chars fitted))"

section \<open>Retrieval\<close>

text \<open>The rank of a skill in the index, and the boost the score gets of it.\<close>

definition index_rank :: "fts_rank \<Rightarrow> string \<Rightarrow> skill_tables \<Rightarrow> string \<Rightarrow> real option" where
  "index_rank rank expression t skill_id =
     (if expression = [] then None
      else map_of (rev (List.map_filter (\<lambda>f. map_option (\<lambda>r. (fst f, \<bar>r\<bar>)) (rank expression (kt_fts t) f)) (kt_fts t))) skill_id)"

definition fts_boost :: "real option \<Rightarrow> real" where
  "fts_boost r = (case r of None \<Rightarrow> 0 | Some x \<Rightarrow> 1 / (1 + x))"

definition ranked_entry ::
  "fts_rank \<Rightarrow> string \<Rightarrow> skill_tables \<Rightarrow> ci_failure \<Rightarrow> skill_row \<Rightarrow> real \<times> skill_catalog_entry" where
  "ranked_entry rank expression t failure r =
     (let m = kr_manifest r; name = or_else (Some (sm_name m)) (kr_skill_id r) in
      (rank_score m name failure + fts_boost (index_rank rank expression t (kr_skill_id r)),
       \<lparr>sce_skill_id = kr_skill_id r, sce_name = name, sce_description = sm_description m\<rparr>))"

definition ranked_entries ::
  "fts_rank \<Rightarrow> string \<Rightarrow> skill_tables \<Rightarrow> ci_failure \<Rightarrow> skill_catalog_entry list" where
  "ranked_entries rank expression t failure =
     map snd (sort_key (\<lambda>(score, e). - score)
       (map (ranked_entry rank expression t failure) (sort_key kr_skill_id (filter kr_enabled (kt_skills t)))))"

definition catalog_query :: "(string list \<Rightarrow> string list) \<Rightarrow> repo_spec \<Rightarrow> ci_failure \<Rightarrow> string" where
  "catalog_query order repo failure =
     skill_query order (full_name repo @ '' '' @ task_family failure @ '' '' @ cf_summary failure @ '' '' @
       py_take 2000 (cf_log_excerpt failure))"

definition retrieve_catalog ::
  "registry_env \<Rightarrow> fts_rank \<Rightarrow> (string list \<Rightarrow> string list) \<Rightarrow> int \<Rightarrow> repo_spec \<Rightarrow> ci_failure \<Rightarrow> string option \<Rightarrow>
   (skill_tables, skill_catalog) io" where
  "retrieve_catalog env rank order limit repo failure operation_key =
     (let expression = catalog_query order repo failure in
      sbind (sget (\<lambda>t. fit_catalog (ranked_entries rank expression t failure) limit)) (\<lambda>(fitted, omitted, context_chars).
      sbind (record_retrieval env (map sce_skill_id fitted) False operation_key) (\<lambda>_.
      sret \<lparr>sc_entries = fitted, sc_omitted_count = omitted, sc_context_chars = nat context_chars\<rparr>)))"

section \<open>The catalogue fits, and nothing more is left out than must be\<close>

lemma py_len_prefix: "prefix a b \<Longrightarrow> py_len a \<le> py_len b"
  by (auto simp: prefix_def)

lemma rstrip_prefix: "prefix (rstrip s) s"
proof -
  have "suffix (dropWhile is_space (rev s)) (rev s)" by (rule suffix_dropWhile)
  then show ?thesis by (simp add: rstrip_def suffix_to_prefix)
qed

lemma py_len_ellipsis: "py_len ellipsis = 1"
  by code_simp

lemma truncate_text_fits: "int (py_len (truncate_text s n)) \<le> max n 0"
proof -
  have "py_len (rstrip (py_take (nat n - 1) s)) \<le> nat n - 1"
    using py_len_prefix [OF rstrip_prefix [of "py_take (nat n - 1) s"]] by (simp add: py_len_py_take)
  then show ?thesis by (auto simp: truncate_text_def py_len_ellipsis)
qed

definition bare_chars :: "skill_catalog_entry \<Rightarrow> int" where
  "bare_chars e = int (py_len (sce_skill_id e) + py_len (sce_name e))"

lemma shrink_entry_chars: "entry_chars (shrink_entry limit e) \<le> max limit (bare_chars e)"
  using truncate_text_fits [of "sce_description e" "max (limit - bare_chars e) 0"]
  by (auto simp: entry_chars_def shrink_entry_def bare_chars_def Let_def algebra_simps)

text \<open>The reference: the longest initial part that fits, or the first entry alone, shortened.\<close>

definition fitting_prefix :: "int \<Rightarrow> skill_catalog_entry list \<Rightarrow> skill_catalog_entry list" where
  "fitting_prefix limit es =
     (case filter (\<lambda>p. catalog_chars p \<le> limit) (rev (tl (prefixes es))) of
        p # _ \<Rightarrow> p
      | [] \<Rightarrow> map (shrink_entry limit) (take 1 es))"

lemma fit_loop_step:
  "es \<noteq> [] \<Longrightarrow> fit_loop limit es omitted =
     (if catalog_chars es \<le> limit then (es, omitted)
      else if length es = 1 then (map (shrink_entry limit) es, omitted) else fit_loop limit (butlast es) (omitted + 1))"
  by (cases es) auto

lemma fitting_prefix_snoc:
  "fitting_prefix limit (es @ [e]) =
     (if catalog_chars (es @ [e]) \<le> limit then es @ [e]
      else if es = [] then [shrink_entry limit e] else fitting_prefix limit es)"
proof -
  have "tl (prefixes (es @ [e])) = (if es = [] then [[e]] else tl (prefixes es) @ [es @ [e]])"
    by (cases es) (auto simp: prefixes_snoc)
  then show ?thesis by (cases es) (auto simp: fitting_prefix_def split: list.splits)
qed

lemma fitting_prefix_Nil [simp]: "fitting_prefix limit [] = []"
  by (simp add: fitting_prefix_def)

lemma fit_loop_reference:
  "fit_loop limit es omitted = (fitting_prefix limit es, omitted + (length es - length (fitting_prefix limit es))) \<and>
   length (fitting_prefix limit es) \<le> length es"
proof (induction es arbitrary: omitted rule: rev_induct)
  case (snoc e es)
  show ?case
  proof (cases "catalog_chars (es @ [e]) \<le> limit \<or> es = []")
    case True
    then show ?thesis by (auto simp: fitting_prefix_snoc fit_loop_step)
  next
    case False
    then show ?thesis using snoc [of "omitted + 1"] by (auto simp: fitting_prefix_snoc fit_loop_step Suc_diff_le)
  qed
qed simp

lemma fitting_prefix_bound:
  "catalog_chars (fitting_prefix limit es) \<le> max (max limit 0) (case es of [] \<Rightarrow> 0 | e # _ \<Rightarrow> bare_chars e)"
proof (induction es rule: rev_induct)
  case (snoc e es)
  then show ?case using shrink_entry_chars [of limit e] fitting_prefix_snoc [of limit es e]
    by (cases es) (auto simp: max_def split: if_splits)
qed simp

lemma ranked_enabled: "sce_skill_id ` set (ranked_entries rank expression t failure) = kr_skill_id ` {r \<in> set (kt_skills t). kr_enabled r}"
  by (auto simp: ranked_entries_def ranked_entry_def Let_def image_image)

lemma length_ranked: "length (ranked_entries rank expression t failure) = length (filter kr_enabled (kt_skills t))"
  by (simp add: ranked_entries_def)

text \<open>
  C40: the catalogue of a run is the longest initial part of the ranking of the enabled skills, their
  descriptions clipped, that fits the limit of characters; when not even the first entry fits, it is that
  entry alone with a shortened description. What is reported agrees with it: the number left out and the
  number of characters, which exceeds the limit only by an identifier and a name that are longer than the
  limit themselves.
\<close>

theorem catalog_is_longest_fit:
  "case snd (retrieve_catalog env rank order limit repo failure key t) of
     Inl e \<Rightarrow> ge_commit_error env \<noteq> None
   | Inr c \<Rightarrow> (let entries = map clip_description (ranked_entries rank (catalog_query order repo failure) t failure) in
       sc_entries c = fitting_prefix limit entries \<and>
       sc_omitted_count c + length (sc_entries c) = length (filter kr_enabled (kt_skills t)) \<and>
       int (sc_context_chars c) = catalog_chars (sc_entries c) \<and>
       int (sc_context_chars c) \<le> max (max limit 0) (case entries of [] \<Rightarrow> 0 | e # _ \<Rightarrow> bare_chars e))"
proof -
  let ?x = "catalog_query order repo failure"
  let ?entries = "map clip_description (ranked_entries rank ?x t failure)"
  let ?fit = "fitting_prefix limit ?entries"
  have nonneg: "0 \<le> catalog_chars es" for es by (induction es) (auto simp: entry_chars_def)
  have fit: "fit_catalog (ranked_entries rank ?x t failure) limit = (?fit, length ?entries - length ?fit, catalog_chars ?fit)"
    using fit_loop_reference [of limit ?entries 0] by (simp add: fit_catalog_def)
  have len: "length ?fit \<le> length ?entries" using fit_loop_reference by blast
  show ?thesis
  proof (cases "ge_commit_error env")
    case None
    then have "snd (retrieve_catalog env rank order limit repo failure key t) =
        Inr \<lparr>sc_entries = ?fit, sc_omitted_count = length ?entries - length ?fit, sc_context_chars = nat (catalog_chars ?fit)\<rparr>"
      by (simp add: retrieve_catalog_def Let_def sbind_def fit record_retrieval_def)
    then show ?thesis using len nonneg [of ?fit] fitting_prefix_bound [of limit ?entries]
      by (simp add: length_ranked Let_def)
  qed (simp add: retrieve_catalog_def Let_def sbind_def fit record_retrieval_def)
qed

text \<open>
  Of two matches SQLite ranks the better one lower, below zero; the boost of the better one is the smaller
  one.
\<close>

theorem better_match_smaller_boost:
  assumes "better < worse" and "worse \<le> (0 :: real)"
  shows "fts_boost (Some \<bar>better\<bar>) < fts_boost (Some \<bar>worse\<bar>)"
  using assms by (simp add: fts_boost_def frac_less2)

end
