(* ===== verification/Trajectory.thy ===== *)
theory Trajectory
  imports Events ToolArgs
begin

text \<open>
  The projection of a run's events (\<^verbatim>\<open>runtime/trajectory.py\<close>): \<open>build_view\<close> reads the recorded events in
  their order and counts calls, joins results to their calls, and collects attempts, files, skills and
  memories. The payload of an event is JSON that Python code reads without a schema, so that a payload of
  another shape raises what Python raises. The conversion of a JSON value to the type of a model's field
  is the parameter \<open>coercion\<close> of \<^verbatim>\<open>ToolArgs\<close>, the \<open>repr\<close> of a float the argument \<open>fl\<close>. A set of strings is
  the list of what was added.
\<close>

section \<open>Python on JSON values\<close>

text \<open>\<open>payload.get(key, default)\<close>\<close>

definition jget_or :: "payload \<Rightarrow> string \<Rightarrow> json \<Rightarrow> json" where
  "jget_or p k d = (case map_of p k of None \<Rightarrow> d | Some v \<Rightarrow> v)"

text \<open>\<open>repr(value)\<close> and \<open>str(value)\<close>\<close>

fun json_repr :: "(real \<Rightarrow> string) \<Rightarrow> json \<Rightarrow> string" where
  "json_repr fl JNull = ''None''"
| "json_repr fl (JBool b) = (if b then ''True'' else ''False'')"
| "json_repr fl (JInt i) = show_int i"
| "json_repr fl (JFloat r) = fl r"
| "json_repr fl (JStr s) = py_repr s"
| "json_repr fl (JList xs) = ''['' @ join '', '' (map (json_repr fl) xs) @ '']''"
| "json_repr fl (JObj kvs) =
     ''{'' @ join '', '' (map (\<lambda>(k, v). py_repr k @ '': '' @ v) (map (\<lambda>(k, v). (k, json_repr fl v)) kvs)) @ ''}''"

fun json_str :: "(real \<Rightarrow> string) \<Rightarrow> json \<Rightarrow> string" where
  "json_str fl (JStr s) = s"
| "json_str fl j = json_repr fl j"

fun type_name :: "json \<Rightarrow> string" where
  "type_name JNull = ''NoneType''"
| "type_name (JBool b) = ''bool''"
| "type_name (JInt i) = ''int''"
| "type_name (JFloat r) = ''float''"
| "type_name (JStr s) = ''str''"
| "type_name (JList xs) = ''list''"
| "type_name (JObj kvs) = ''dict''"

definition quote_name :: "string \<Rightarrow> string" where
  "quote_name s = [char_of (39 :: nat)] @ s @ [char_of (39 :: nat)]"

text \<open>\<open>for x in value\<close>\<close>

fun json_iter :: "json \<Rightarrow> json list res" where
  "json_iter (JList xs) = Inr xs"
| "json_iter (JObj kvs) = Inr (map (JStr \<circ> fst) kvs)"
| "json_iter (JStr s) = Inr (map JStr (code_points s))"
| "json_iter j = Inl (TypeError (quote_name (type_name j) @ '' object is not iterable''))"

fun hashable :: "json \<Rightarrow> json res" where
  "hashable (JList xs) = Inl (TypeError (''unhashable type: '' @ quote_name ''list''))"
| "hashable (JObj kvs) = Inl (TypeError (''unhashable type: '' @ quote_name ''dict''))"
| "hashable j = Inr j"

text \<open>\<open>dict(value)\<close>: of a mapping, or of an iterable of pairs\<close>

definition json_pair :: "nat \<Rightarrow> json \<Rightarrow> (json \<times> json) res" where
  "json_pair n j =
     (case json_iter j of
        Inl e \<Rightarrow> Inl (TypeError (''cannot convert dictionary update sequence element #'' @ show_nat n @ '' to a sequence''))
      | Inr [k, v] \<Rightarrow> rbind (hashable k) (\<lambda>k. Inr (k, v))
      | Inr xs \<Rightarrow> Inl (ValueError (''dictionary update sequence element #'' @ show_nat n @ '' has length '' @
          show_nat (length xs) @ ''; 2 is required'')))"

fun dict_of :: "nat \<Rightarrow> json list \<Rightarrow> (json \<times> json) list \<Rightarrow> (json \<times> json) list res" where
  "dict_of n [] d = Inr d"
| "dict_of n (x # xs) d = rbind (json_pair n x) (\<lambda>(k, v). dict_of (Suc n) xs (AList.update k v d))"

fun json_dict :: "json \<Rightarrow> (json \<times> json) list res" where
  "json_dict (JObj kvs) = Inr (map (\<lambda>(k, v). (JStr k, v)) kvs)"
| "json_dict j = rbind (json_iter j) (\<lambda>xs. dict_of 0 xs [])"

text \<open>A value of a field \<open>dict[str, Any]\<close>\<close>

definition string_keys :: "coercion \<Rightarrow> (json \<times> json) list \<Rightarrow> payload option" where
  "string_keys co d = all_some (map (\<lambda>(k, v). map_option (\<lambda>s. (s, v)) (co_str co k)) d)"

section \<open>The view\<close>

record agent_trace =
  at_agent_id :: string
  at_model_calls :: nat
  at_tool_calls :: nat
  at_failed_tool_calls :: nat

record tool_trace =
  tt_call_id :: string
  tt_agent_id :: string
  tt_invocation_id :: "string option"
  tt_tool_name :: string
  tt_arguments :: payload
  tt_success :: "bool option"
  tt_exit_code :: json
  tt_error :: json
  tt_duration_seconds :: json
  tt_result :: json

datatype attempt_kind = ToolFailure | VerificationFailure | DiagnosisRejected | ReviewRejected | PatchRejected

record attempt_summary =
  ak_kind :: attempt_kind
  ak_agent_id :: "string option"
  ak_reason :: string
  ak_iteration :: "int option"

datatype usage_kind = ProcedureUse | ScriptUse

record skill_use_trace =
  ut_skill_id :: string
  ut_agent_id :: string
  ut_invocation_id :: "string option"
  ut_resource :: "string option"
  ut_execution_success :: "bool option"
  ut_usage_kind :: "usage_kind option"

datatype final_status = FinalSuccess | FinalFailed

record trajectory_view =
  tv_run_id :: string
  tv_agents :: "agent_trace list"
  tv_tool_calls :: "tool_trace list"
  tv_failed_attempts :: "attempt_summary list"
  tv_evidence :: "payload list"
  tv_diagnosis_history :: "payload list"
  tv_patch_history :: "payload list"
  tv_created_files :: "string list"
  tv_modified_files :: "string list"
  tv_verification_history :: "verification_result list"
  tv_skills_retrieved :: "skill_ref list"
  tv_skills_selected :: "skill_ref list"
  tv_skills_used :: "skill_ref list"
  tv_skill_use_traces :: "skill_use_trace list"
  tv_memories_retrieved :: "string list"
  tv_memories_selected :: "string list"
  tv_memories_used :: "string list"
  tv_final_status :: final_status
  tv_failure_reason :: "string option"

definition model_call_count :: "trajectory_view \<Rightarrow> nat" where
  "model_call_count v = sum_list (map at_model_calls (tv_agents v))"

definition tool_call_count :: "trajectory_view \<Rightarrow> nat" where
  "tool_call_count v = length (tv_tool_calls v)"

definition helper_markers :: "string list" where
  "helper_markers = [''helper'', ''diagnostic'', ''inspect'', ''analy'', ''script'', ''tool'']"

definition reusable_script_created :: "trajectory_view \<Rightarrow> bool" where
  "reusable_script_created v \<longleftrightarrow>
     list_ex (\<lambda>p. (ends_with ''.py'' p \<or> ends_with ''.sh'' p) \<and> list_ex (\<lambda>m. contains m (lower p)) helper_markers)
       (tv_created_files v)"

section \<open>The projection\<close>

record agent_counts =
  ac_model :: nat
  ac_tool :: nat
  ac_failed :: nat

record projection =
  pj_agents :: "(string \<times> agent_counts) list"
  pj_calls :: "(string \<times> tool_trace) list"
  pj_attempts :: "attempt_summary list"
  pj_evidence :: "(json \<times> json) list list"
  pj_diagnoses :: "(json \<times> json) list list"
  pj_patches :: "(json \<times> json) list list"
  pj_created :: "string list"
  pj_modified :: "string list"
  pj_memories :: "event_type \<Rightarrow> string list"
  pj_skills :: "event_type \<Rightarrow> string list"
  pj_traces :: "skill_use_trace list"
  pj_seen :: "(string \<times> string) list"

definition empty_projection :: projection where
  "empty_projection = \<lparr>pj_agents = [], pj_calls = [], pj_attempts = [], pj_evidence = [], pj_diagnoses = [], pj_patches = [],
     pj_created = [], pj_modified = [], pj_memories = (\<lambda>_. []), pj_skills = (\<lambda>_. []), pj_traces = [], pj_seen = []\<rparr>"

definition no_calls :: agent_counts where
  "no_calls = \<lparr>ac_model = 0, ac_tool = 0, ac_failed = 0\<rparr>"

definition counts_of :: "string \<Rightarrow> (string \<times> agent_counts) list \<Rightarrow> agent_counts" where
  "counts_of agent cs = (case map_of cs agent of None \<Rightarrow> no_calls | Some c \<Rightarrow> c)"

text \<open>\<open>per_agent[agent][kind] += 1\<close>\<close>

definition count_call :: "string \<Rightarrow> (agent_counts \<Rightarrow> agent_counts) \<Rightarrow> projection \<Rightarrow> projection" where
  "count_call agent f pj =
     pj\<lparr>pj_agents := AList.update agent (f (counts_of agent (pj_agents pj))) (pj_agents pj)\<rparr>"

definition event_agent :: "run_event \<Rightarrow> string" where
  "event_agent e = or_else (e_agent_id e) ''harness''"

definition trace_key :: "run_event \<Rightarrow> string \<Rightarrow> string" where
  "trace_key e call_id = event_agent e @ '':'' @ or_else (e_invocation_id e) ''default'' @ '':'' @ call_id"

definition project_tool_call :: "(real \<Rightarrow> string) \<Rightarrow> coercion \<Rightarrow> run_event \<Rightarrow> projection \<Rightarrow> projection res" where
  "project_tool_call fl co e pj0 =
     (let pj = count_call (event_agent e) (\<lambda>c. c\<lparr>ac_tool := Suc (ac_tool c)\<rparr>) pj0;
          p = e_payload e;
          call_id = json_str fl (jget_or p ''call_id'' (JStr (e_event_id e)))
      in rbind (json_dict (jget_or p ''arguments'' (JObj []))) (\<lambda>d.
         rbind (validated co ''ToolTrace'' p (string_keys co d)) (\<lambda>arguments.
         Inr (pj\<lparr>pj_calls := AList.update (trace_key e call_id)
                 \<lparr>tt_call_id = call_id, tt_agent_id = event_agent e, tt_invocation_id = e_invocation_id e,
                  tt_tool_name = json_str fl (jget_or p ''tool_name'' (JStr ''unknown'')), tt_arguments = arguments,
                  tt_success = None, tt_exit_code = JNull, tt_error = JNull, tt_duration_seconds = JNull, tt_result = JNull\<rparr>
                 (pj_calls pj)\<rparr>))))"

definition failed_result :: "(real \<Rightarrow> string) \<Rightarrow> coercion \<Rightarrow> run_event \<Rightarrow> attempt_summary res" where
  "failed_result fl co e =
     (let p = e_payload e in
      rbind (validated co ''AttemptSummary'' p (nullable (co_int co) (jget p ''iteration''))) (\<lambda>iteration.
      Inr \<lparr>ak_kind = ToolFailure, ak_agent_id = Some (event_agent e),
           ak_reason = (if jtruthy (jget p ''error'') then json_str fl (jget p ''error'') else ''tool returned failure''),
           ak_iteration = iteration\<rparr>))"

definition project_tool_result :: "(real \<Rightarrow> string) \<Rightarrow> coercion \<Rightarrow> run_event \<Rightarrow> projection \<Rightarrow> projection res" where
  "project_tool_result fl co e pj0 =
     (let p = e_payload e;
          key = trace_key e (json_str fl (jget_or p ''call_id'' (JStr [])));
          ok = jtruthy (jget p ''success'');
          pj1 = (case map_of (pj_calls pj0) key of
             None \<Rightarrow> pj0
           | Some t \<Rightarrow> pj0\<lparr>pj_calls := AList.update key
               (t\<lparr>tt_success := Some ok, tt_exit_code := jget p ''exit_code'', tt_error := jget p ''error'',
                  tt_duration_seconds := jget p ''duration_seconds'', tt_result := jget p ''result''\<rparr>) (pj_calls pj0)\<rparr>)
      in rbind (if ok then Inr pj1
                else rbind (failed_result fl co e) (\<lambda>a.
                  Inr (count_call (event_agent e) (\<lambda>c. c\<lparr>ac_failed := Suc (ac_failed c)\<rparr>)
                         (pj1\<lparr>pj_attempts := pj_attempts pj1 @ [a]\<rparr>)))) (\<lambda>pj2.
         rbind (json_iter (jget_or p ''created_files'' (JList []))) (\<lambda>created.
         rbind (json_iter (jget_or p ''modified_files'' (JList []))) (\<lambda>modified.
         Inr (pj2\<lparr>pj_created := pj_created pj2 @ map (json_str fl) created,
                  pj_modified := pj_modified pj2 @ map (json_str fl) modified\<rparr>)))))"

definition attempt_kind_of :: "json \<Rightarrow> attempt_kind option" where
  "attempt_kind_of j =
     (if j = JStr ''tool_failure'' then Some ToolFailure else if j = JStr ''verification_failure'' then Some VerificationFailure
      else if j = JStr ''diagnosis_rejected'' then Some DiagnosisRejected
      else if j = JStr ''review_rejected'' then Some ReviewRejected
      else if j = JStr ''patch_rejected'' then Some PatchRejected else None)"

definition attempt_of :: "coercion \<Rightarrow> payload \<Rightarrow> attempt_summary res" where
  "attempt_of co p = validated co ''AttemptSummary'' p
     (Option.bind (arg attempt_kind_of ''kind'' p) (\<lambda>kind.
      Option.bind (arg_or None (nullable (co_str co)) ''agent_id'' p) (\<lambda>agent.
      Option.bind (arg (co_str co) ''reason'' p) (\<lambda>reason.
      Option.bind (arg_or None (nullable (co_int co)) ''iteration'' p) (\<lambda>iteration.
      Some \<lparr>ak_kind = kind, ak_agent_id = agent, ak_reason = reason, ak_iteration = iteration\<rparr>)))))"

text \<open>The skills an event names: the field \<open>skill_id\<close>, then the new ones of the list \<open>skills\<close>.\<close>

fun listed_skill_ids :: "(real \<Rightarrow> string) \<Rightarrow> json list \<Rightarrow> string list \<Rightarrow> string list" where
  "listed_skill_ids fl [] ids = ids"
| "listed_skill_ids fl (raw # xs) ids =
     (case raw of
        JObj kvs \<Rightarrow>
          (let i = json_str fl (jget kvs ''skill_id'') in
           listed_skill_ids fl xs (if jtruthy (jget kvs ''skill_id'') \<and> i \<notin> set ids then ids @ [i] else ids))
      | _ \<Rightarrow> listed_skill_ids fl xs ids)"

definition event_skill_ids :: "(real \<Rightarrow> string) \<Rightarrow> payload \<Rightarrow> string list res" where
  "event_skill_ids fl p =
     (let first = (if jtruthy (jget p ''skill_id'') then [json_str fl (jget p ''skill_id'')] else []) in
      if jtruthy (jget p ''skills'')
      then rbind (json_iter (jget p ''skills'')) (\<lambda>xs. Inr (listed_skill_ids fl xs first))
      else Inr first)"

definition usage_kind_of :: "json \<Rightarrow> usage_kind option res" where
  "usage_kind_of j =
     rbind (hashable j) (\<lambda>j.
     Inr (if j = JStr ''procedure'' then Some ProcedureUse else if j = JStr ''script'' then Some ScriptUse else None))"

definition skill_trace :: "coercion \<Rightarrow> run_event \<Rightarrow> string \<Rightarrow> skill_use_trace res" where
  "skill_trace co e skill_id =
     (let p = e_payload e in
      rbind (usage_kind_of (jget p ''usage_kind'')) (\<lambda>kind.
      validated co ''SkillUseTrace'' p
        (Option.bind (nullable (co_str co) (jget p ''resource'')) (\<lambda>resource.
         Option.bind (nullable (co_bool co) (jget p ''success'')) (\<lambda>success.
         Some \<lparr>ut_skill_id = skill_id, ut_agent_id = event_agent e, ut_invocation_id = e_invocation_id e,
               ut_resource = resource, ut_execution_success = success, ut_usage_kind = kind\<rparr>)))))"

fun project_skills :: "coercion \<Rightarrow> run_event \<Rightarrow> string list \<Rightarrow> projection \<Rightarrow> projection res" where
  "project_skills co e [] pj = Inr pj"
| "project_skills co e (i # is) pj =
     (let pj1 = pj\<lparr>pj_skills := (pj_skills pj)(e_type e := pj_skills pj (e_type e) @ [i])\<rparr> in
      if e_type e \<noteq> SKILL_USED then project_skills co e is pj1
      else rbind (skill_trace co e i) (\<lambda>t.
        if (e_event_id e, i) \<in> set (pj_seen pj1) then project_skills co e is pj1
        else project_skills co e is
          (pj1\<lparr>pj_seen := pj_seen pj1 @ [(e_event_id e, i)], pj_traces := pj_traces pj1 @ [t]\<rparr>)))"

definition project_event :: "(real \<Rightarrow> string) \<Rightarrow> coercion \<Rightarrow> run_event \<Rightarrow> projection \<Rightarrow> projection res" where
  "project_event fl co e pj =
     (let p = e_payload e in
      case e_type e of
        MODEL_CALL \<Rightarrow> Inr (count_call (event_agent e) (\<lambda>c. c\<lparr>ac_model := Suc (ac_model c)\<rparr>) pj)
      | TOOL_CALL \<Rightarrow> project_tool_call fl co e pj
      | TOOL_RESULT \<Rightarrow> project_tool_result fl co e pj
      | ATTEMPT_FAILED \<Rightarrow> rbind (attempt_of co p) (\<lambda>a. Inr (pj\<lparr>pj_attempts := pj_attempts pj @ [a]\<rparr>))
      | EVIDENCE_CREATED \<Rightarrow> rbind (json_dict (jget_or p ''evidence'' (JObj []))) (\<lambda>d.
          Inr (pj\<lparr>pj_evidence := pj_evidence pj @ [d]\<rparr>))
      | DIAGNOSIS_CREATED \<Rightarrow> rbind (json_dict (jget_or p ''diagnosis'' (JObj []))) (\<lambda>d.
          Inr (pj\<lparr>pj_diagnoses := pj_diagnoses pj @ [d]\<rparr>))
      | PATCH_CREATED \<Rightarrow> rbind (json_dict (jget_or p ''fixer_output'' (JObj []))) (\<lambda>d.
          rbind (json_iter (jget_or p ''changed_files'' (JList []))) (\<lambda>changed.
          Inr (pj\<lparr>pj_patches := pj_patches pj @ [d], pj_modified := pj_modified pj @ map (json_str fl) changed\<rparr>)))
      | _ \<Rightarrow>
          if e_type e \<in> {MEMORY_RETRIEVED, MEMORY_SELECTED, MEMORY_USED}
          then rbind (json_iter (jget_or p ''memory_ids'' (JList []))) (\<lambda>ids.
            Inr (pj\<lparr>pj_memories := (pj_memories pj)(e_type e := pj_memories pj (e_type e) @ map (json_str fl) ids)\<rparr>))
          else if e_type e \<in> {SKILL_RETRIEVED, SKILL_SELECTED, SKILL_USED}
          then rbind (event_skill_ids fl p) (\<lambda>ids. project_skills co e ids pj)
          else Inr pj)"

fun project_events :: "(real \<Rightarrow> string) \<Rightarrow> coercion \<Rightarrow> run_event list \<Rightarrow> projection \<Rightarrow> projection res" where
  "project_events fl co [] pj = Inr pj"
| "project_events fl co (e # es) pj = rbind (project_event fl co e pj) (project_events fl co es)"

definition agent_traces :: "(string \<times> agent_counts) list \<Rightarrow> agent_trace list" where
  "agent_traces cs =
     map (\<lambda>(a, c). \<lparr>at_agent_id = a, at_model_calls = ac_model c, at_tool_calls = ac_tool c,
                     at_failed_tool_calls = ac_failed c\<rparr>) (sort_key fst cs)"

definition dicts :: "coercion \<Rightarrow> (json \<times> json) list list \<Rightarrow> payload list res" where
  "dicts co ds = validated co ''TrajectoryView'' [] (all_some (map (string_keys co) ds))"

definition refs_of :: "event_type \<Rightarrow> projection \<Rightarrow> skill_ref list" where
  "refs_of ty pj = map (\<lambda>i. \<lparr>sr_skill_id = i\<rparr>) (sorted_set (pj_skills pj ty))"

definition view_of ::
  "coercion \<Rightarrow> string \<Rightarrow> verification_result list \<Rightarrow> final_status \<Rightarrow> string option \<Rightarrow> projection \<Rightarrow> trajectory_view res" where
  "view_of co run_id verification_history final_status failure_reason pj =
     rbind (dicts co (pj_evidence pj)) (\<lambda>evidence.
     rbind (dicts co (pj_diagnoses pj)) (\<lambda>diagnoses.
     rbind (dicts co (pj_patches pj)) (\<lambda>patches.
     Inr \<lparr>tv_run_id = run_id, tv_agents = agent_traces (pj_agents pj), tv_tool_calls = map snd (pj_calls pj),
          tv_failed_attempts = pj_attempts pj, tv_evidence = evidence, tv_diagnosis_history = diagnoses,
          tv_patch_history = patches, tv_created_files = sorted_set (pj_created pj),
          tv_modified_files = sorted_set (pj_modified pj), tv_verification_history = verification_history,
          tv_skills_retrieved = refs_of SKILL_RETRIEVED pj, tv_skills_selected = refs_of SKILL_SELECTED pj,
          tv_skills_used = refs_of SKILL_USED pj, tv_skill_use_traces = pj_traces pj,
          tv_memories_retrieved = sorted_set (pj_memories pj MEMORY_RETRIEVED),
          tv_memories_selected = sorted_set (pj_memories pj MEMORY_SELECTED),
          tv_memories_used = sorted_set (pj_memories pj MEMORY_USED),
          tv_final_status = final_status, tv_failure_reason = failure_reason\<rparr>)))"

definition build_view ::
  "(real \<Rightarrow> string) \<Rightarrow> coercion \<Rightarrow> string \<Rightarrow> verification_result list \<Rightarrow> final_status \<Rightarrow> string option \<Rightarrow> recorder \<Rightarrow>
   trajectory_view res" where
  "build_view fl co run_id verification_history final_status failure_reason r =
     rbind (project_events fl co (rec_list run_id r) empty_projection)
       (view_of co run_id verification_history final_status failure_reason)"

section \<open>The counts are those of the events\<close>

definition calls_of :: "event_type \<Rightarrow> string \<Rightarrow> run_event list \<Rightarrow> nat" where
  "calls_of ty agent es = length (filter (\<lambda>e. e_type e = ty \<and> event_agent e = agent) es)"

definition failed_call :: "run_event \<Rightarrow> bool" where
  "failed_call e \<longleftrightarrow> e_type e = TOOL_RESULT \<and> \<not> jtruthy (jget (e_payload e) ''success'')"

definition failed_of :: "string \<Rightarrow> run_event list \<Rightarrow> nat" where
  "failed_of agent es = length (filter (\<lambda>e. failed_call e \<and> event_agent e = agent) es)"

definition true_counts :: "string \<Rightarrow> run_event list \<Rightarrow> agent_counts" where
  "true_counts agent es =
     \<lparr>ac_model = calls_of MODEL_CALL agent es, ac_tool = calls_of TOOL_CALL agent es, ac_failed = failed_of agent es\<rparr>"

definition counted :: "run_event list \<Rightarrow> projection \<Rightarrow> bool" where
  "counted es pj \<longleftrightarrow> distinct (map fst (pj_agents pj)) \<and> (\<forall>a. counts_of a (pj_agents pj) = true_counts a es) \<and>
     length (pj_attempts pj) = length (filter (\<lambda>e. e_type e = ATTEMPT_FAILED \<or> failed_call e) es) \<and>
     length (pj_calls pj) \<le> length (filter (\<lambda>e. e_type e = TOOL_CALL) es)"

lemma true_counts_simps [simp]: "true_counts a [] = no_calls"
  "true_counts a (es @ [e]) =
     (if event_agent e \<noteq> a then true_counts a es
      else if e_type e = MODEL_CALL then (true_counts a es)\<lparr>ac_model := Suc (ac_model (true_counts a es))\<rparr>
      else if e_type e = TOOL_CALL then (true_counts a es)\<lparr>ac_tool := Suc (ac_tool (true_counts a es))\<rparr>
      else if failed_call e then (true_counts a es)\<lparr>ac_failed := Suc (ac_failed (true_counts a es))\<rparr>
      else true_counts a es)"
  by (auto simp: true_counts_def calls_of_def failed_of_def no_calls_def failed_call_def)

lemma counts_of_update: "counts_of a (AList.update b c cs) = (if a = b then c else counts_of a cs)"
  by (simp add: counts_of_def update_conv')

lemma count_call_simps [simp]: "pj_attempts (count_call a f pj) = pj_attempts pj" "pj_calls (count_call a f pj) = pj_calls pj"
  "pj_skills (count_call a f pj) = pj_skills pj" "pj_traces (count_call a f pj) = pj_traces pj"
  "pj_seen (count_call a f pj) = pj_seen pj"
  "pj_agents (count_call a f pj) = AList.update a (f (counts_of a (pj_agents pj))) (pj_agents pj)"
  by (simp_all add: count_call_def)

lemma length_update: "length (AList.update k v al) \<le> Suc (length al)"
  by (induction al) auto

lemma length_update_known: "map_of al k \<noteq> None \<Longrightarrow> length (AList.update k v al) = length al"
  by (induction al) (auto split: if_splits)

lemma project_skills_same: "project_skills co e ids pj = Inr pj' \<Longrightarrow>
    pj_agents pj' = pj_agents pj \<and> pj_attempts pj' = pj_attempts pj \<and> pj_calls pj' = pj_calls pj"
  by (induction ids arbitrary: pj) (auto simp: Let_def rbind_Inr_iff split: if_splits)

lemma project_tool_call_effect:
  assumes "project_tool_call fl co e pj = Inr pj'"
  shows "pj_agents pj' = pj_agents (count_call (event_agent e) (\<lambda>c. c\<lparr>ac_tool := Suc (ac_tool c)\<rparr>) pj) \<and>
    pj_attempts pj' = pj_attempts pj \<and> length (pj_calls pj') \<le> Suc (length (pj_calls pj))"
  using assms unfolding project_tool_call_def Let_def by (auto simp: rbind_Inr_iff length_update)

lemma project_tool_result_effect:
  assumes "project_tool_result fl co e pj = Inr pj'"
  shows "length (pj_calls pj') = length (pj_calls pj) \<and>
    (if jtruthy (jget (e_payload e) ''success'') then pj_agents pj' = pj_agents pj \<and> pj_attempts pj' = pj_attempts pj
     else pj_agents pj' = pj_agents (count_call (event_agent e) (\<lambda>c. c\<lparr>ac_failed := Suc (ac_failed c)\<rparr>) pj) \<and>
       length (pj_attempts pj') = Suc (length (pj_attempts pj)))"
proof -
  let ?joined = "\<lambda>key t. case map_of (pj_calls pj) key of None \<Rightarrow> pj
    | Some x \<Rightarrow> pj\<lparr>pj_calls := AList.update key (t x) (pj_calls pj)\<rparr>"
  have joined: "pj_agents (?joined k t) = pj_agents pj" "pj_attempts (?joined k t) = pj_attempts pj"
    "length (pj_calls (?joined k t)) = length (pj_calls pj)" for k t
    by (auto simp: length_update_known split: option.split)
  show ?thesis
    using assms unfolding project_tool_result_def Let_def
    by (auto simp: rbind_Inr_iff joined split: if_splits)
qed

lemma project_other_effect:
  assumes "project_event fl co e pj = Inr pj'" and "e_type e \<notin> {MODEL_CALL, TOOL_CALL, TOOL_RESULT}"
  shows "pj_agents pj' = pj_agents pj \<and> pj_calls pj' = pj_calls pj \<and>
    (if e_type e = ATTEMPT_FAILED then \<exists>a. pj_attempts pj' = pj_attempts pj @ [a] else pj_attempts pj' = pj_attempts pj)"
  using assms unfolding project_event_def Let_def
  by (cases "e_type e") (auto simp: rbind_Inr_iff dest!: project_skills_same)

lemma counted_event:
  assumes "project_event fl co e pj = Inr pj'" and "counted es pj"
  shows "counted (es @ [e]) pj'"
proof (cases "e_type e \<in> {MODEL_CALL, TOOL_CALL, TOOL_RESULT}")
  case False
  then show ?thesis using project_other_effect [OF assms(1)] assms(2)
    by (auto simp: counted_def failed_call_def split: if_splits)
next
  case True
  then consider "e_type e = MODEL_CALL" | "e_type e = TOOL_CALL" | "e_type e = TOOL_RESULT" by blast
  then show ?thesis
  proof cases
    case 1
    then show ?thesis using assms
      by (auto simp: project_event_def counted_def counts_of_update distinct_update failed_call_def)
  next
    case 2
    then have "project_tool_call fl co e pj = Inr pj'" using assms(1) by (simp add: project_event_def)
    from project_tool_call_effect [OF this] 2 assms(2) show ?thesis
      by (auto simp: counted_def counts_of_update distinct_update failed_call_def)
  next
    case 3
    then have "project_tool_result fl co e pj = Inr pj'" using assms(1) by (simp add: project_event_def)
    from project_tool_result_effect [OF this] 3 assms(2) show ?thesis
      by (auto simp: counted_def counts_of_update distinct_update failed_call_def split: if_splits)
  qed
qed

lemma counted_events:
  "project_events fl co es pj = Inr pj' \<Longrightarrow> counted ds pj \<Longrightarrow> counted (ds @ es) pj'"
proof (induction es arbitrary: pj ds)
  case (Cons e es)
  then obtain pj1 where 1: "project_event fl co e pj = Inr pj1" "project_events fl co es pj1 = Inr pj'"
    by (auto simp: rbind_Inr_iff)
  show ?case using Cons.IH [OF 1(2) counted_event [OF 1(1) Cons.prems(2)]] by simp
qed simp

lemma sum_over_keys:
  assumes "distinct ks" and "\<And>x. x \<in> set xs \<Longrightarrow> f x \<in> set ks"
  shows "(\<Sum>k\<leftarrow>ks. length (filter (\<lambda>x. f x = k) xs)) = length xs"
  using assms(2)
proof (induction xs)
  case (Cons x xs)
  have "(\<Sum>k\<leftarrow>ks. if f x = k then 1 else 0) = (1 :: nat)"
    using assms(1) Cons.prems [of x] by (simp add: sum_list_distinct_conv_sum_set)
  moreover have "length (filter (\<lambda>x. f x = k) (x # xs)) = (if f x = k then 1 else 0) + length (filter (\<lambda>x. f x = k) xs)" for k
    by simp
  ultimately show ?case using Cons.IH Cons.prems by (simp only: sum_list_addf) simp
qed simp

lemma counts_eta [simp]: "\<lparr>ac_model = ac_model c, ac_tool = ac_tool c, ac_failed = ac_failed c\<rparr> = c"
  by (cases c) simp

text \<open>Every agent with a call has a row, so that the rows add up to the calls of the run.\<close>

lemma sum_of_calls:
  assumes "distinct (map fst cs)" and "\<And>a. g (counts_of a cs) = calls_of ty a es" and "g no_calls = 0"
  shows "(\<Sum>t\<leftarrow>agent_traces cs. g \<lparr>ac_model = at_model_calls t, ac_tool = at_tool_calls t, ac_failed = at_failed_tool_calls t\<rparr>)
    = length (filter (\<lambda>e. e_type e = ty) es)"
proof -
  let ?es = "filter (\<lambda>e. e_type e = ty) es"
  have row: "g c = length (filter (\<lambda>e. event_agent e = a) ?es)" if "(a, c) \<in> set cs" for a c
    using assms(1) assms(2) [of a] that by (simp add: counts_of_def calls_of_def conj_commute)
  have known: "event_agent e \<in> set (map fst (sort_key fst cs))" if "e \<in> set ?es" for e
  proof (rule ccontr)
    assume "event_agent e \<notin> set (map fst (sort_key fst cs))"
    then have "map_of cs (event_agent e) = None" by (simp add: map_of_eq_None_iff)
    then have "calls_of ty (event_agent e) es = 0" using assms(2) [of "event_agent e"] assms(3) by (simp add: counts_of_def)
    with that show False by (auto simp: calls_of_def filter_empty_conv)
  qed
  have "(\<Sum>t\<leftarrow>agent_traces cs. g \<lparr>ac_model = at_model_calls t, ac_tool = at_tool_calls t, ac_failed = at_failed_tool_calls t\<rparr>)
      = (\<Sum>p\<leftarrow>sort_key fst cs. g (snd p))"
    by (simp add: agent_traces_def comp_def case_prod_beta)
  also have "\<dots> = (\<Sum>p\<leftarrow>sort_key fst cs. length (filter (\<lambda>e. event_agent e = fst p) ?es))"
    by (intro arg_cong [where f = sum_list] map_cong) (auto simp: row)
  also have "\<dots> = (\<Sum>k\<leftarrow>map fst (sort_key fst cs). length (filter (\<lambda>e. event_agent e = k) ?es))"
    by (simp add: comp_def)
  also have "\<dots> = length ?es"
    by (rule sum_over_keys) (use assms(1) known in \<open>auto simp: distinct_map distinct_sort\<close>)
  finally show ?thesis .
qed

lemma build_view_parts:
  assumes "build_view fl co run_id vh status reason r = Inr v"
  obtains pj where "project_events fl co (rec_list run_id r) empty_projection = Inr pj"
    and "view_of co run_id vh status reason pj = Inr v"
  using assms by (auto simp: build_view_def rbind_Inr_iff)

lemma view_counted:
  assumes "build_view fl co run_id vh status reason r = Inr v"
  obtains pj where "counted (rec_list run_id r) pj" and "view_of co run_id vh status reason pj = Inr v"
proof -
  from assms obtain pj where 1: "project_events fl co (rec_list run_id r) empty_projection = Inr pj"
    and 2: "view_of co run_id vh status reason pj = Inr v" by (rule build_view_parts)
  have "counted [] empty_projection"
    by (simp add: counted_def empty_projection_def counts_of_def)
  from counted_events [OF 1 this] 2 show ?thesis by (intro that) simp_all
qed

text \<open>
  C34: the metrics of a trajectory are those of its events, agent by agent: the view has one row for each
  agent, in order, with the numbers of its model calls, tool calls and failed results; the rows add up to
  the counts of the recorder, every failed result and every failed attempt is listed, and no tool call is
  listed twice.
\<close>

theorem trajectory_counts_match_events:
  assumes "build_view fl co run_id vh status reason r = Inr v"
  shows "sorted (map at_agent_id (tv_agents v)) \<and> distinct (map at_agent_id (tv_agents v)) \<and>
    (\<forall>t \<in> set (tv_agents v). at_model_calls t = calls_of MODEL_CALL (at_agent_id t) (rec_list run_id r) \<and>
       at_tool_calls t = calls_of TOOL_CALL (at_agent_id t) (rec_list run_id r) \<and>
       at_failed_tool_calls t = failed_of (at_agent_id t) (rec_list run_id r)) \<and>
    model_call_count v = rec_count run_id MODEL_CALL None r \<and>
    sum_list (map at_tool_calls (tv_agents v)) = rec_count run_id TOOL_CALL None r \<and>
    tool_call_count v \<le> rec_count run_id TOOL_CALL None r \<and>
    length (tv_failed_attempts v) =
      length (filter (\<lambda>e. e_type e = ATTEMPT_FAILED \<or> failed_call e) (rec_list run_id r))"
proof -
  from assms obtain pj where c: "counted (rec_list run_id r) pj" and v: "view_of co run_id vh status reason pj = Inr v"
    by (rule view_counted)
  let ?es = "rec_list run_id r" and ?cs = "pj_agents pj"
  have dist: "distinct (map fst ?cs)" and cnt: "\<And>a. counts_of a ?cs = true_counts a ?es"
    using c by (auto simp: counted_def)
  have v': "tv_agents v = agent_traces ?cs" "tv_failed_attempts v = pj_attempts pj" "length (tv_tool_calls v) = length (pj_calls pj)"
    using v by (auto simp: view_of_def rbind_Inr_iff)
  have ids: "map at_agent_id (agent_traces ?cs) = map fst (sort_key fst ?cs)"
    by (simp add: agent_traces_def comp_def case_prod_beta)
  have rows: "at_model_calls t = calls_of MODEL_CALL (at_agent_id t) ?es \<and> at_tool_calls t = calls_of TOOL_CALL (at_agent_id t) ?es \<and>
      at_failed_tool_calls t = failed_of (at_agent_id t) ?es" if "t \<in> set (agent_traces ?cs)" for t
  proof -
    from that obtain a k where t: "(a, k) \<in> set ?cs" "t = \<lparr>at_agent_id = a, at_model_calls = ac_model k,
        at_tool_calls = ac_tool k, at_failed_tool_calls = ac_failed k\<rparr>" by (auto simp: agent_traces_def)
    then have "k = true_counts a ?es" using dist cnt [of a] by (simp add: counts_of_def)
    then show ?thesis by (simp add: t(2) true_counts_def)
  qed
  have model: "sum_list (map at_model_calls (agent_traces ?cs)) = length (filter (\<lambda>e. e_type e = MODEL_CALL) ?es)"
    using sum_of_calls [where g = ac_model, OF dist] cnt by (simp add: true_counts_def no_calls_def)
  have tool: "sum_list (map at_tool_calls (agent_traces ?cs)) = length (filter (\<lambda>e. e_type e = TOOL_CALL) ?es)"
    using sum_of_calls [where g = ac_tool, OF dist] cnt by (simp add: true_counts_def no_calls_def)
  show ?thesis
    using c dist rows model tool
    by (auto simp: v' ids model_call_count_def tool_call_count_def rec_count_def counted_def distinct_map distinct_sort)
qed

definition demo_trail :: recorder where
  "demo_trail =
     (let call = (\<lambda>n ty p r. snd (emit n [] ''r'' ty (Some ''worker'') (Some ''i1'') p (Some (show_nat (nat n))) r)) in
      call 3 TOOL_RESULT [(''call_id'', JStr ''c''), (''success'', JBool False), (''error'', JStr ''no such file''),
          (''created_files'', jstrs [''helper.py''])]
        (call 2 TOOL_CALL [(''call_id'', JStr ''c''), (''tool_name'', JStr ''read_file''), (''arguments'', JObj [])]
          (call 1 MODEL_CALL [] (new_recorder None))))"

theorem trajectory_counts_match_events_witness:
  "\<exists>v. build_view (\<lambda>_. []) strict_coercion ''r'' [] FinalFailed None demo_trail = Inr v \<and>
     model_call_count v = 1 \<and> length (tv_failed_attempts v) = 1"
proof -
  have "\<not> isl (build_view (\<lambda>_. []) strict_coercion ''r'' [] FinalFailed None demo_trail)" by code_simp
  then obtain v where v: "build_view (\<lambda>_. []) strict_coercion ''r'' [] FinalFailed None demo_trail = Inr v"
    by (cases "build_view (\<lambda>_. []) strict_coercion ''r'' [] FinalFailed None demo_trail") auto
  have "rec_count ''r'' MODEL_CALL None demo_trail = 1" by code_simp
  moreover have "length (filter (\<lambda>e. e_type e = ATTEMPT_FAILED \<or> failed_call e) (rec_list ''r'' demo_trail)) = 1" by code_simp
  ultimately show ?thesis using v trajectory_counts_match_events [OF v] by auto
qed

end
