(* ===== verification/Learning.thy ===== *)
theory Learning
  imports Trajectory Memory SkillTables
begin

text \<open>
  Learning at the end of a run: the bounded learning input (\<^verbatim>\<open>runtime/learning_payload.py\<close>), the decisions
  of the skill miner (\<^verbatim>\<open>capability/miner.py\<close>) and of the memory consolidator, and the learning part of
  \<open>persist_run_outcome\<close> (\<^verbatim>\<open>graph/outcome.py\<close>).

  The gateway to the model is a function of the two texts it is sent, the instructions and the question;
  it may change the world (it records its usage). It returns a validated model, so that a decision is a
  value of its record. The JSON text of the model library is a parameter.
\<close>

section \<open>The text of a JSON value\<close>

text \<open>\<open>json.dumps(value)\<close> with the keys in the order of the dictionary\<close>

fun json_text :: "(real \<Rightarrow> string) \<Rightarrow> json \<Rightarrow> string" where
  "json_text fl (JList xs) = ''['' @ join '', '' (map (json_text fl) xs) @ '']''"
| "json_text fl (JObj kvs) =
     ''{'' @ join '', '' (map (\<lambda>(k, v). json_string k @ '': '' @ v) (map (\<lambda>(k, v). (k, json_text fl v)) kvs)) @ ''}''"
| "json_text fl j = json_dumps fl j"

section \<open>Clipping\<close>

text \<open>\<open>text[:n]\<close> for an \<open>n\<close> that may be negative\<close>

definition py_slice :: "int \<Rightarrow> string \<Rightarrow> string" where
  "py_slice n s = (if n < 0 then py_take (py_len s - nat (- n)) s else py_take (nat n) s)"

definition FIELD_LIMIT :: int where "FIELD_LIMIT = 2000"
definition LIST_LIMIT :: nat where "LIST_LIMIT = 20"
definition ITEM_LIMIT :: int where "ITEM_LIMIT = 400"
definition TOOL_LIMIT :: nat where "TOOL_LIMIT = 40"

definition clip_text :: "int \<Rightarrow> string \<Rightarrow> string" where
  "clip_text limit v =
     (let s = strip v in
      if int (py_len s) \<le> limit then s else py_slice (limit - 15) s @ newline @ ''[truncated]'')"

definition clip_opt :: "int \<Rightarrow> string option \<Rightarrow> string option" where
  "clip_opt limit v = map_option (clip_text limit) v"

definition clip_list :: "string list \<Rightarrow> string list" where
  "clip_list vs = filter (\<lambda>s. s \<noteq> []) (map (clip_text ITEM_LIMIT) (take LIST_LIMIT vs))"

section \<open>The learning input\<close>

record learning_input =
  li_run_id :: string
  li_repo :: string
  li_task_family :: string
  li_failure_summary :: string
  li_plan_revisions :: "string list"
  li_worker_summaries :: "string list"
  li_change_summaries :: "string list"
  li_changed_files :: "string list"
  li_key_verification :: payload
  li_knowledge_usage :: payload
  li_outcome :: string
  li_root_cause :: "string option"
  li_evidence_ids :: "string list"
  li_used_skill_ids :: "string list"
  li_used_memory_ids :: "string list"
  li_recommended_skill_ids :: "string list"
  li_payload_chars :: nat

definition clip_error :: "json \<Rightarrow> json res" where
  "clip_error j =
     (case j of
        JNull \<Rightarrow> Inr JNull
      | JStr s \<Rightarrow> Inr (JStr (clip_text 240 s))
      | _ \<Rightarrow> Inl (AttributeError (quote_name (type_name j) @ '' object has no attribute '' @ quote_name ''strip'')))"

definition compact_tool_trace :: "tool_trace \<Rightarrow> json res" where
  "compact_tool_trace t =
     rbind (clip_error (tt_error t)) (\<lambda>error.
     Inr (JObj [(''tool_name'', JStr (tt_tool_name t)),
       (''success'', case tt_success t of None \<Rightarrow> JNull | Some b \<Rightarrow> JBool b),
       (''exit_code'', tt_exit_code t), (''error'', error), (''agent_id'', JStr (tt_agent_id t))]))"

definition compact_tool_traces :: "tool_trace list \<Rightarrow> json list res" where
  "compact_tool_traces traces = mapM compact_tool_trace (take TOOL_LIMIT traces)"

definition compact_command :: "verification_command_result \<Rightarrow> json" where
  "compact_command c = JObj [(''command'', jstrs (vc_command c)), (''exit_code'', JInt (vc_exit_code c)),
     (''stderr'', JStr (clip_text 400 (vc_stderr c))), (''timed_out'', JBool (vc_timed_out c)),
     (''source'', JStr (command_source_str (vc_source c)))]"

definition compact_verification :: "verification_result option \<Rightarrow> payload" where
  "compact_verification v =
     (case v of
        None \<Rightarrow> []
      | Some r \<Rightarrow>
          [(''passed'', JBool (vr_passed r)), (''status'', JStr (verification_status_str (vr_status r))),
           (''failures'', JList (take LIST_LIMIT (map compact_command
              (filter (\<lambda>c. vc_executed c \<and> (vc_exit_code c \<noteq> 0 \<or> vc_timed_out c)) (vr_commands r))))),
           (''expected_count'', JInt (int (vr_expected_count r))), (''executed_count'', JInt (int (vr_executed_count r)))])"

definition outcome_str :: "bool \<Rightarrow> string" where
  "outcome_str success = (if success then ''success'' else ''failed'')"

definition decision_line :: "supervisor_decision \<Rightarrow> string" where
  "decision_line d = supervisor_action_str (sd_action d) @ '': '' @ sd_reasoning_summary d"

definition worker_line :: "worker_execution_result \<Rightarrow> string" where
  "worker_line w = wr_task_id w @ '':'' @ worker_task_status_str (wr_status w) @ '':'' @ wr_summary w"

definition change_line :: "worker_execution_result \<Rightarrow> string" where
  "change_line w = wr_task_id w @ '': '' @ or_else (Some (join '', '' (wr_changed_files w))) ''no files''"

definition evidence_ids :: "coercion \<Rightarrow> payload list \<Rightarrow> string list res" where
  "evidence_ids co evidence =
     validated co ''LearningInput'' []
       (all_some (map (co_str co) (filter jtruthy (map (\<lambda>item. jget item ''id'') (take 10 evidence)))))"

definition used_skill_ids :: "trajectory_view \<Rightarrow> string list" where
  "used_skill_ids v = dedup (map sr_skill_id (tv_skills_used v))"

definition learning_input_of ::
  "coercion \<Rightarrow> string \<Rightarrow> string \<Rightarrow> string \<Rightarrow> string \<Rightarrow> supervisor_decision list \<Rightarrow> worker_execution_result list \<Rightarrow>
   verification_result option \<Rightarrow> trajectory_view \<Rightarrow> bool \<Rightarrow> string option \<Rightarrow> failed_candidate_ref list \<Rightarrow> string list \<Rightarrow>
   learning_input res" where
  "learning_input_of co run_id repo family failure_summary decisions worker_results verification trajectory success
       failure_reason failed_candidates recommended =
     rbind (compact_tool_traces (tv_tool_calls trajectory)) (\<lambda>tools.
     rbind (evidence_ids co (tv_evidence trajectory)) (\<lambda>evidence.
     Inr \<lparr>li_run_id = run_id, li_repo = repo, li_task_family = family,
          li_failure_summary = clip_text FIELD_LIMIT failure_summary,
          li_plan_revisions = clip_list (map decision_line decisions),
          li_worker_summaries = clip_list (map worker_line worker_results),
          li_change_summaries = clip_list (map change_line (filter (\<lambda>w. wr_changed_files w \<noteq> []) worker_results)),
          li_changed_files = clip_list (dedup (concat (map wr_changed_files worker_results))),
          li_key_verification = compact_verification verification,
          li_knowledge_usage =
            [(''used_skill_ids'', jstrs (used_skill_ids trajectory)),
             (''used_memory_ids'', jstrs (tv_memories_used trajectory)),
             (''recommended_skill_ids'', jstrs recommended),
             (''failed_candidates'', jstrs (map fc_candidate_id failed_candidates)),
             (''tool_summaries'', JList tools), (''outcome'', JStr (outcome_str success)),
             (''failure_reason'', jopt (clip_opt FIELD_LIMIT failure_reason))],
          li_outcome = outcome_str success,
          li_root_cause = (if decisions = [] then None
            else Some (clip_text FIELD_LIMIT (sd_reasoning_summary (last decisions)))),
          li_evidence_ids = evidence, li_used_skill_ids = used_skill_ids trajectory,
          li_used_memory_ids = tv_memories_used trajectory, li_recommended_skill_ids = recommended,
          li_payload_chars = 0\<rparr>))"

text \<open>\<open>encode\<close> is the JSON text of the model library.\<close>

definition build_learning_input ::
  "(learning_input \<Rightarrow> string) \<Rightarrow> coercion \<Rightarrow> string \<Rightarrow> string \<Rightarrow> string \<Rightarrow> string \<Rightarrow> supervisor_decision list \<Rightarrow>
   worker_execution_result list \<Rightarrow> verification_result option \<Rightarrow> trajectory_view \<Rightarrow> bool \<Rightarrow> string option \<Rightarrow>
   failed_candidate_ref list \<Rightarrow> string list \<Rightarrow> learning_input res" where
  "build_learning_input encode co run_id repo family failure_summary decisions worker_results verification trajectory
       success failure_reason failed_candidates recommended =
     rbind (learning_input_of co run_id repo family failure_summary decisions worker_results verification trajectory
       success failure_reason failed_candidates recommended) (\<lambda>li.
     Inr (li\<lparr>li_payload_chars := py_len (encode li)\<rparr>))"

definition json_learning :: "learning_input \<Rightarrow> json" where
  "json_learning li = JObj
     [(''run_id'', JStr (li_run_id li)), (''repo'', JStr (li_repo li)), (''task_family'', JStr (li_task_family li)),
      (''failure_summary'', JStr (li_failure_summary li)), (''plan_revisions'', jstrs (li_plan_revisions li)),
      (''worker_summaries'', jstrs (li_worker_summaries li)), (''change_summaries'', jstrs (li_change_summaries li)),
      (''changed_files'', jstrs (li_changed_files li)), (''key_verification'', JObj (li_key_verification li)),
      (''knowledge_usage'', JObj (li_knowledge_usage li)), (''outcome'', JStr (li_outcome li)),
      (''root_cause'', jopt (li_root_cause li)), (''evidence_ids'', jstrs (li_evidence_ids li)),
      (''used_skill_ids'', jstrs (li_used_skill_ids li)), (''used_memory_ids'', jstrs (li_used_memory_ids li)),
      (''recommended_skill_ids'', jstrs (li_recommended_skill_ids li)),
      (''payload_chars'', JInt (int (li_payload_chars li)))]"

section \<open>The skill miner\<close>

datatype learning_action = NoAction | NewSkill | UpdateTarget

record usage_lesson =
  ul_skill_id :: string
  ul_lesson :: string

record learning_decision =
  ld_action :: learning_action
  ld_rationale :: string
  ld_candidate_skill :: "skill_candidate option"
  ld_target_skill_id :: "string option"
  ld_usage_lessons :: "usage_lesson list"

fun learning_action_str :: "learning_action \<Rightarrow> string" where
  "learning_action_str NoAction = ''none''"
| "learning_action_str NewSkill = ''new_skill''"
| "learning_action_str UpdateTarget = ''update_skill''"

definition action_payload_is_complete :: "learning_decision \<Rightarrow> learning_decision res" where
  "action_payload_is_complete d =
     (if ld_action d \<in> {NewSkill, UpdateTarget} \<and> ld_candidate_skill d = None
      then Inl (ValueError (learning_action_str (ld_action d) @ '' requires candidate_skill''))
      else if ld_action d = UpdateTarget \<and> \<not> truthy (ld_target_skill_id d)
      then Inl (ValueError ''update_skill requires target_skill_id'')
      else if ld_action d = NewSkill \<and> ld_target_skill_id d \<noteq> None
      then Inl (ValueError ''new_skill cannot declare update lineage'')
      else if ld_action d = NoAction \<and> ld_candidate_skill d \<noteq> None
      then Inl (ValueError ''none cannot include candidate_skill'')
      else Inr d)"

definition should_mine :: "bool \<Rightarrow> failure_class option \<Rightarrow> string list \<Rightarrow> bool" where
  "should_mine success failure_class skills_used =
     (if failure_class \<in> {Some FCInfrastructure, Some FCModel} then False
      else if success then True
      else failure_class \<in> {None, Some FCRepair} \<and> skills_used \<noteq> [])"

definition json_agent_trace :: "agent_trace \<Rightarrow> json" where
  "json_agent_trace t = JObj [(''agent_id'', JStr (at_agent_id t)), (''model_calls'', JInt (int (at_model_calls t))),
     (''tool_calls'', JInt (int (at_tool_calls t))), (''failed_tool_calls'', JInt (int (at_failed_tool_calls t)))]"

fun attempt_kind_str :: "attempt_kind \<Rightarrow> string" where
  "attempt_kind_str ToolFailure = ''tool_failure''"
| "attempt_kind_str VerificationFailure = ''verification_failure''"
| "attempt_kind_str DiagnosisRejected = ''diagnosis_rejected''"
| "attempt_kind_str ReviewRejected = ''review_rejected''"
| "attempt_kind_str PatchRejected = ''patch_rejected''"

definition json_attempt :: "attempt_summary \<Rightarrow> json" where
  "json_attempt a = JObj [(''kind'', JStr (attempt_kind_str (ak_kind a))), (''agent_id'', jopt (ak_agent_id a)),
     (''reason'', JStr (ak_reason a)), (''iteration'', jint_opt (ak_iteration a))]"

fun final_status_str :: "final_status \<Rightarrow> string" where
  "final_status_str FinalSuccess = ''success''"
| "final_status_str FinalFailed = ''failed''"

definition registry_block :: "(real \<Rightarrow> string) \<Rightarrow> payload list \<Rightarrow> string" where
  "registry_block fl skills =
     (if skills \<noteq> []
      then ''Current skill registry (the only valid update_skill targets):'' @ newline @
        json_text fl (JList (map JObj skills)) @ newline @ ''For update_skill, set target_skill_id from this list.''
      else ''The skill registry is empty. update_skill is not available; choose none or new_skill.'')"

definition used_block :: "(real \<Rightarrow> string) \<Rightarrow> string list \<Rightarrow> string" where
  "used_block fl used =
     (if used \<noteq> []
      then ''Skills actually used in this run: '' @ json_text fl (jstrs used) @
        ''. usage_lessons may only reference these skill IDs.''
      else ''No skills were used in this run. usage_lessons must be empty.'')"

definition run_constraint :: "final_status \<Rightarrow> string" where
  "run_constraint status =
     (if status \<noteq> FinalSuccess
      then ''This repair failed. You cannot create or update a skill. '' @
        ''Return action=none. You may add usage_lessons for actually used skills; '' @
        ''those lessons are counterevidence, not recommended procedures.''
      else ''If no skill was used, you may create a new reusable procedure. '' @
        ''If a skill was used, prefer update_skill when the procedure should change, '' @
        ''and always include usage_lessons for used skills. '' @
        ''Do not write long-term memory facts; the harness extracts those separately. '' @
        ''Prefer new_skill over none when the trajectory contains a reusable procedure.'')"

definition compact_trajectory :: "trajectory_view \<Rightarrow> learning_input option \<Rightarrow> payload res" where
  "compact_trajectory v learning =
     rbind (compact_tool_traces (tv_tool_calls v)) (\<lambda>tools.
     Inr ([(''run_id'', JStr (tv_run_id v)), (''final_status'', JStr (final_status_str (tv_final_status v))),
           (''failure_reason'', jopt (tv_failure_reason v)), (''agents'', JList (map json_agent_trace (tv_agents v))),
           (''failed_attempts'', JList (map json_attempt (tv_failed_attempts v))),
           (''evidence'', JList (map JObj (take 20 (tv_evidence v)))),
           (''created_files'', jstrs (tv_created_files v)), (''modified_files'', jstrs (tv_modified_files v)),
           (''skills_used'', JList (map json_skill_ref (tv_skills_used v))), (''tool_summaries'', JList tools)] @
          (case learning of None \<Rightarrow> [] | Some li \<Rightarrow> [(''learning'', json_learning li)])))"

text \<open>The instructions and the question: the first time, and after an answer that was not valid.\<close>

definition mining_system :: "string \<Rightarrow> string \<Rightarrow> string \<Rightarrow> string option \<Rightarrow> string" where
  "mining_system limits used registry repair_error =
     (case repair_error of
        None \<Rightarrow>
          ''Decide whether this trajectory teaches nothing, a new reusable procedure, '' @
          ''or an update to an existing skill. Skills must generalize beyond the current '' @
          ''run and preserve useful helper artifacts as package scripts when applicable. '' @
          ''When proposing a skill, fill candidate_skill.spec (purpose, when_to_use, '' @
          ''procedure, pitfalls, verification, bundled_resources). spec.verification is '' @
          ''guidance for future agents about how to verify a repair in the repository; '' @
          ''it is not executed when the skill is installed. Do not write SKILL.md; '' @
          ''the runtime renders it. Scripts must be Python. ''
      | Some e \<Rightarrow>
          ''Repair the previous invalid skill decision. Fill SkillSpec '' @
          ''fields instead of SKILL.md. This is a content repair, not a network retry.'' @ newline) @
     limits @ newline @ used @ newline @ registry"

definition mining_question :: "string \<Rightarrow> string option \<Rightarrow> string" where
  "mining_question question repair_error =
     (case repair_error of
        None \<Rightarrow> question
      | Some e \<Rightarrow> question @ newline @ newline @ ''Previous structured output failed validation: '' @ e @ ''. '' @
          ''Return a complete SkillLearningDecision. If proposing a skill, include a valid '' @
          ''spec with every required field.'')"

type_synonym ('w, 'a) gateway = "string \<Rightarrow> string \<Rightarrow> ('w, 'a) io"

definition complete ::
  "(real \<Rightarrow> string) \<Rightarrow> ('w, learning_decision) gateway \<Rightarrow> trajectory_view \<Rightarrow> payload list \<Rightarrow> string list \<Rightarrow>
   learning_input option \<Rightarrow> string option \<Rightarrow> ('w, learning_decision) io" where
  "complete fl gateway v skills used_skills learning repair_error =
     (let used = (if used_skills = [] then map sr_skill_id (tv_skills_used v) else used_skills) in
      sbind (slift (compact_trajectory v learning)) (\<lambda>question.
      gateway (mining_system (run_constraint (tv_final_status v)) (used_block fl used) (registry_block fl skills) repair_error)
        (mining_question (json_text fl (JObj question)) repair_error)))"

definition constrain :: "learning_decision \<Rightarrow> trajectory_view \<Rightarrow> string list \<Rightarrow> learning_decision" where
  "constrain d v allowed =
     (let lessons = filter (\<lambda>l. ul_skill_id l \<in> set allowed) (ld_usage_lessons d);
          dropped =
            (if tv_final_status v \<noteq> FinalSuccess then True
             else if allowed \<noteq> [] then ld_action d \<noteq> UpdateTarget \<or>
               (case ld_target_skill_id d of None \<Rightarrow> True | Some i \<Rightarrow> i \<notin> set allowed)
             else ld_action d = UpdateTarget);
          action = (if dropped then NoAction else ld_action d)
      in d\<lparr>ld_action := action,
           ld_candidate_skill := (if action = NoAction then None else ld_candidate_skill d),
           ld_target_skill_id := (if action = NoAction then None else ld_target_skill_id d),
           ld_usage_lessons := lessons\<rparr>)"

definition nothing_to_learn :: learning_decision where
  "nothing_to_learn = \<lparr>ld_action = NoAction,
     ld_rationale = ''trajectory has no tool usage or reusable scripts to learn from'', ld_candidate_skill = None,
     ld_target_skill_id = None, ld_usage_lessons = []\<rparr>"

definition decide ::
  "(real \<Rightarrow> string) \<Rightarrow> ('w, learning_decision) gateway \<Rightarrow> trajectory_view \<Rightarrow> payload list \<Rightarrow> string list \<Rightarrow>
   learning_input option \<Rightarrow> ('w, learning_decision) io" where
  "decide fl gateway v skills used_skills learning =
     (let used = (if used_skills = [] then map sr_skill_id (tv_skills_used v) else used_skills) in
      if tv_final_status v = FinalSuccess \<and> sum_list (map at_tool_calls (tv_agents v)) = 0 \<and> \<not> reusable_script_created v
      then sret nothing_to_learn
      else sbind (scatch (complete fl gateway v skills used learning None) (\<lambda>e. Some
             (scatch (complete fl gateway v skills used learning (Some (exc_str e))) (\<lambda>_. Some (sraise e)))))
             (\<lambda>d. sret (constrain d v used)))"

section \<open>The memory consolidator\<close>

definition fact_instructions :: string where
  "fact_instructions =
     ''Extract one durable fact about this repository, or none. Facts describe '' @
     ''what the repository is like: test runner, generated directories, legacy '' @
     ''APIs, or similar stable conditions. Do not write workflows or procedures; '' @
     ''those belong in Skills. Do not output a namespace or repository field; the '' @
     ''harness binds the fact to the current repository. If existing_repository_facts '' @
     ''already covers the useful fact, return type=none.''"

definition propose ::
  "(real \<Rightarrow> string) \<Rightarrow> ('w, fact_candidate) gateway \<Rightarrow> string \<Rightarrow> string \<Rightarrow> string \<Rightarrow> learning_input \<Rightarrow> string list \<Rightarrow>
   ('w, fact_candidate) io" where
  "propose fl gateway run_id repo family learning existing_facts =
     gateway fact_instructions (json_text fl (JObj
       [(''run_id'', JStr run_id), (''repo'', JStr repo), (''task_family'', JStr family),
        (''learning'', json_learning learning), (''existing_repository_facts'', jstrs existing_facts)]))"

section \<open>What is handed to the models is bounded\<close>

text \<open>A text as it is handed over: without outer blanks where it fits, cut and marked where it does not\<close>

definition clipped :: "int \<Rightarrow> string \<Rightarrow> string \<Rightarrow> bool" where
  "clipped limit v s \<longleftrightarrow> int (py_len s) \<le> limit \<and>
     (if int (py_len (strip v)) \<le> limit then s = strip v else ends_with ''[truncated]'' s)"

lemma clipped_clip_text:
  assumes "15 \<le> limit"
  shows "clipped limit v (clip_text limit v)"
proof -
  have "py_len (newline @ ''[truncated]'') = 12" by code_simp
  moreover have "ends_with ''[truncated]'' (p @ newline @ ''[truncated]'')" for p by (simp add: ends_with_def starts_with_def)
  ultimately show ?thesis using assms by (auto simp: clipped_def clip_text_def Let_def py_slice_def py_len_py_take)
qed

text \<open>The first entries of a list, clipped, in their order and without the empty ones\<close>

definition clipped_list :: "string list \<Rightarrow> string list \<Rightarrow> bool" where
  "clipped_list vs ys \<longleftrightarrow> (\<exists>zs. list_all2 (clipped 400) (take 20 vs) zs \<and> ys = filter (\<lambda>s. s \<noteq> []) zs)"

lemma clipped_clip_list [simp]: "clipped_list vs (clip_list vs)"
  unfolding clipped_list_def clip_list_def ITEM_LIMIT_def LIST_LIMIT_def
  by (intro exI [of _ "map (clip_text 400) (take 20 vs)"])
    (simp add: list_all2_conv_all_nth clipped_clip_text)

lemma clipped_list_bounds: "clipped_list vs ys \<Longrightarrow> length ys \<le> 20 \<and> (\<forall>y \<in> set ys. y \<noteq> [] \<and> int (py_len y) \<le> 400)"
proof (unfold clipped_list_def, elim exE conjE)
  fix zs assume zs: "list_all2 (clipped 400) (take 20 vs) zs" "ys = filter (\<lambda>s. s \<noteq> []) zs"
  have "length ys \<le> length zs" using zs(2) by simp
  also have "\<dots> \<le> 20" using list_all2_lengthD [OF zs(1)] by simp
  finally have "length ys \<le> 20" .
  moreover have "\<forall>z \<in> set zs. int (py_len z) \<le> 400"
    using zs(1) by (induction rule: list_all2_induct) (simp_all add: clipped_def)
  ultimately show "length ys \<le> 20 \<and> (\<forall>y \<in> set ys. y \<noteq> [] \<and> int (py_len y) \<le> 400)" using zs(2) by simp
qed

definition json_entry :: "json \<Rightarrow> string \<Rightarrow> json" where
  "json_entry j k = (case j of JObj kvs \<Rightarrow> jget kvs k | _ \<Rightarrow> JNull)"

definition clipped_failure :: "verification_command_result \<Rightarrow> json \<Rightarrow> bool" where
  "clipped_failure c j \<longleftrightarrow> json_entry j ''command'' = jstrs (vc_command c) \<and> json_entry j ''exit_code'' = JInt (vc_exit_code c) \<and>
     (\<exists>s. json_entry j ''stderr'' = JStr s \<and> clipped 400 (vc_stderr c) s)"

definition clipped_tool :: "tool_trace \<Rightarrow> json \<Rightarrow> bool" where
  "clipped_tool t j \<longleftrightarrow> json_entry j ''tool_name'' = JStr (tt_tool_name t) \<and>
     (case tt_error t of JStr e \<Rightarrow> \<exists>s. json_entry j ''error'' = JStr s \<and> clipped 240 e s | _ \<Rightarrow> json_entry j ''error'' = JNull)"

lemma clipped_compact_command: "clipped_failure c (compact_command c)"
  using clipped_clip_text [of 400] by (simp add: clipped_failure_def compact_command_def json_entry_def jget_def)

lemma clipped_compact_tools: "compact_tool_traces ts = Inr js \<Longrightarrow> list_all2 clipped_tool (take 40 ts) js"
proof -
  have "clipped_tool t j" if "compact_tool_trace t = Inr j" for t j
    using that clipped_clip_text [of 240]
    by (cases "tt_error t") (auto simp: compact_tool_trace_def clip_error_def clipped_tool_def json_entry_def jget_def)
  then show "compact_tool_traces ts = Inr js \<Longrightarrow> list_all2 clipped_tool (take 40 ts) js"
    unfolding compact_tool_traces_def TOOL_LIMIT_def mapM_Inr_iff by (auto elim: list_all2_mono)
qed

lemma all_some_length: "all_some xs = Some ys \<Longrightarrow> length ys = length xs"
  by (induction xs arbitrary: ys) (auto split: option.splits)

lemma evidence_ids_length: "evidence_ids co evidence = Inr ids \<Longrightarrow> length ids \<le> 10"
proof -
  assume "evidence_ids co evidence = Inr ids"
  then have "length ids = length (filter jtruthy (map (\<lambda>item. jget item ''id'') (take 10 evidence)))"
    by (auto simp: evidence_ids_def validated_def split: option.splits dest: all_some_length)
  also have "\<dots> \<le> length (map (\<lambda>item. jget item ''id'') (take 10 evidence))" by (rule length_filter_le)
  finally show ?thesis by simp
qed


section \<open>What the miner may decide\<close>

definition skills_in_play :: "trajectory_view \<Rightarrow> string list \<Rightarrow> string list" where
  "skills_in_play v used = (if used = [] then map sr_skill_id (tv_skills_used v) else used)"

definition allowed_decision :: "trajectory_view \<Rightarrow> string list \<Rightarrow> learning_decision \<Rightarrow> bool" where
  "allowed_decision v used d \<longleftrightarrow> action_payload_is_complete d = Inr d \<and>
     (ld_action d \<noteq> NoAction \<longrightarrow> tv_final_status v = FinalSuccess) \<and>
     (ld_action d = NewSkill \<longrightarrow> used = []) \<and>
     (ld_action d = UpdateTarget \<longrightarrow> (\<exists>i \<in> set used. ld_target_skill_id d = Some i)) \<and>
     (\<forall>l \<in> set (ld_usage_lessons d). ul_skill_id l \<in> set used)"

lemma constrain_allowed:
  assumes "action_payload_is_complete d = Inr d"
  shows "allowed_decision v used (constrain d v used)"
  using assms by (cases "ld_action d")
    (auto simp: allowed_decision_def constrain_def action_payload_is_complete_def Let_def split: if_splits option.splits)

lemma map_sum_InrE: "Inr d = map_sum f g q \<Longrightarrow> (\<And>x. q = Inr x \<Longrightarrow> d = g x \<Longrightarrow> P) \<Longrightarrow> P"
  by (cases q) auto

lemma map_sum_InlE: "Inl e = map_sum f g q \<Longrightarrow> (\<And>x. q = Inl x \<Longrightarrow> e = f x \<Longrightarrow> P) \<Longrightarrow> P"
  by (cases q) auto

lemma decide_cases:
  assumes "decide fl gateway v skills used learning w = (w', r)"
  shows "(w' = w \<and> r = Inr nothing_to_learn) \<or>
    (\<exists>d. complete fl gateway v skills (skills_in_play v used) learning None w = (w', Inr d) \<and>
       r = Inr (constrain d v (skills_in_play v used))) \<or>
    (\<exists>e w1 q. complete fl gateway v skills (skills_in_play v used) learning None w = (w1, Inl e) \<and>
       complete fl gateway v skills (skills_in_play v used) learning (Some (exc_str e)) w1 = (w', q) \<and>
       r = map_sum (\<lambda>_. e) (\<lambda>d. constrain d v (skills_in_play v used)) q)"
  using assms unfolding decide_def Let_def skills_in_play_def [symmetric]
  by (auto simp: sbind_def scatch_def split: if_splits prod.splits sum.splits)

lemma complete_Inr:
  "complete fl gateway v skills used learning err w = (w', Inr d) \<Longrightarrow> \<exists>p q. gateway p q w = (w', Inr d)"
  by (auto simp: complete_def Let_def sbind_def split: sum.splits)

lemma decide_allowed:
  assumes "\<And>p q s s' d. gateway p q s = (s', Inr d) \<Longrightarrow> action_payload_is_complete d = Inr d"
    and "decide fl gateway v skills used learning w = (w', Inr d)"
  shows "allowed_decision v (skills_in_play v used) d"
proof -
  have idle: "allowed_decision v (skills_in_play v used) nothing_to_learn"
    by (simp add: allowed_decision_def nothing_to_learn_def action_payload_is_complete_def)
  have answer: "allowed_decision v u (constrain d' v u)" if "complete fl gateway v skills u learning err s = (s', Inr d')" for u err s s' d'
    using complete_Inr [OF that] assms(1) by (intro constrain_allowed) blast
  show ?thesis
    using decide_cases [OF assms(2)] idle answer by (auto split: sum.splits elim!: map_sum_InrE)
qed

lemma decide_error:
  assumes "decide fl gateway v skills used learning w = (w', Inl e)"
  obtains w1 e' where "complete fl gateway v skills (skills_in_play v used) learning None w = (w1, Inl e)"
    and "complete fl gateway v skills (skills_in_play v used) learning (Some (exc_str e)) w1 = (w', Inl e')"
  using decide_cases [OF assms] by (auto elim!: map_sum_InlE)

text \<open>
  C33: what the miner decides is allowed, whatever the model answers. Given that the gateway returns only
  decisions that pass their validator, the decision of \<open>decide\<close> passes it again, although it is changed
  without validation; a failed run creates and updates nothing; a run that used skills updates only one of
  them and creates none; a run that used none never updates; and every lesson is about a skill that was
  used. An error of the first answer is asked about once more, and a second one leaves the first error.
\<close>

theorem miner_decision_is_allowed:
  assumes "\<And>p q s s' d. gateway p q s = (s', Inr d) \<Longrightarrow> action_payload_is_complete d = Inr d"
    and "decide fl gateway v skills used learning w = (w', r)"
  shows "case r of
      Inr d \<Rightarrow> allowed_decision v (skills_in_play v used) d
    | Inl e \<Rightarrow> \<exists>w1 e'. complete fl gateway v skills (skills_in_play v used) learning None w = (w1, Inl e) \<and>
        complete fl gateway v skills (skills_in_play v used) learning (Some (exc_str e)) w1 = (w', Inl e')"
proof (cases r)
  case (Inl e)
  with assms(2) show ?thesis by (auto elim: decide_error)
next
  case (Inr d)
  with assms(2) have "decide fl gateway v skills used learning w = (w', Inr d)" by simp
  from decide_allowed [OF assms(1) this] Inr show ?thesis by simp
qed

definition demo_view :: trajectory_view where
  "demo_view = (case build_view (\<lambda>_. []) strict_coercion ''r'' [] FinalSuccess None demo_trail of Inr v \<Rightarrow> v)"

text \<open>A model whose first answer is not valid.\<close>

definition demo_answer :: "(nat, learning_decision) gateway" where
  "demo_answer system question =
     (\<lambda>n. (Suc n, if n = 0 then Inl (ValidationError ''spec'')
       else Inr \<lparr>ld_action = NewSkill, ld_rationale = ''reusable'', ld_candidate_skill = Some demo_skill,
         ld_target_skill_id = None, ld_usage_lessons = [\<lparr>ul_skill_id = ''x'', ul_lesson = ''unused''\<rparr>]\<rparr>))"

theorem miner_decision_is_allowed_witness:
  "\<exists>d. decide (\<lambda>_. []) demo_answer demo_view [] [] None 0 = (2, Inr d) \<and> ld_action d = NewSkill \<and>
     allowed_decision demo_view (skills_in_play demo_view []) d"
proof -
  have "(case decide (\<lambda>_. []) demo_answer demo_view [] [] None 0 of
      (n, Inr d) \<Rightarrow> n = 2 \<and> ld_action d = NewSkill | (n, Inl e) \<Rightarrow> False)"
    by code_simp
  then obtain d where d: "decide (\<lambda>_. []) demo_answer demo_view [] [] None 0 = (2, Inr d)" "ld_action d = NewSkill"
    by (auto split: prod.splits sum.splits)
  have "demo_answer p q s = (s', Inr d') \<Longrightarrow> action_payload_is_complete d' = Inr d'" for p q s s' d'
    by (auto simp: demo_answer_def action_payload_is_complete_def split: if_splits)
  from miner_decision_is_allowed [OF this d(1)] d show ?thesis by simp
qed


end
