(* ===== verification/Outcome.thy ===== *)
theory Outcome
  imports Learning
begin

text \<open>
  The end of a run with its learning: \<open>persist_run_outcome\<close> of \<^verbatim>\<open>graph/outcome.py\<close> in full. The local
  variables of the function, the stores it writes and the world are one state, so that a stage whose
  exception is caught leaves what it did before it. Whatever a stage raises becomes a learning error, but for
  the episode, without which the run does not end normally.

  The graph (\<^verbatim>\<open>GraphState\<close>) has the learning part as a parameter; \<open>learn_in\<close> is its instance. The graph never
  passes details of an external failure (\<open>vd_details\<close>), which only the command line does. The event store
  accepts every event: an error of the database while an event is recorded, which the code hands to the \<open>try\<close>
  around it or to the caller, is outside the model.
\<close>

section \<open>State\<close>

record learning_failure =
  lf_stage :: string
  lf_error_type :: string
  lf_message :: string

record outcome_state =
  oc_world :: world
  oc_memory :: "memory_tables option"
  oc_skills :: skill_tables
  oc_events :: "run_event list"
  oc_errors :: "learning_failure list"
  oc_episode_id :: "string option"
  oc_candidate_skill_id :: "string option"
  oc_learning_decision :: "learning_decision option"
  oc_skill_action :: "string option"
  oc_facts_added :: nat
  oc_skill_memory :: "string option"

text \<open>
  The parts of the runtime that learning uses. \<open>le_registry n\<close> is what a call of the registry at the
  \<open>n\<close>-th reading of the clock depends on; \<open>le_episode_error\<close> is the error the database reports for the
  episode, if it does. \<open>le_read_fact\<close> and \<open>le_read_decision\<close> validate what \<open>le_dump_fact\<close> and
  \<open>le_dump_decision\<close> stored.
\<close>

record learning_env =
  le_coercion :: coercion
  le_repr :: "real \<Rightarrow> string"
  le_encode :: "learning_input \<Rightarrow> string"
  le_fingerprint :: "repo_spec \<Rightarrow> ci_failure \<Rightarrow> string"
  le_uuid5 :: "string \<Rightarrow> string"
  le_episode_error :: "pyexc option"
  le_consolidator :: "(world, fact_candidate) gateway option"
  le_dump_fact :: "fact_candidate \<Rightarrow> payload"
  le_read_fact :: "payload \<Rightarrow> fact_candidate res"
  le_registry :: "(nat \<Rightarrow> registry_env) option"
  le_miner :: "(world, learning_decision) gateway option"
  le_dump_decision :: "learning_decision \<Rightarrow> payload"
  le_read_decision :: "payload \<Rightarrow> learning_decision res"

text \<open>What the stages of one run read: the runtime, the state and the verdict.\<close>

record verdict =
  vd_rt :: runtime
  vd_state :: evo_state
  vd_success :: bool
  vd_reason :: "string option"
  vd_class :: "failure_class option"
  vd_details :: "string list"

definition start_outcome :: "memory_tables option \<Rightarrow> skill_tables \<Rightarrow> world \<Rightarrow> outcome_state" where
  "start_outcome m t w = \<lparr>oc_world = w, oc_memory = m, oc_skills = t, oc_events = [], oc_errors = [], oc_episode_id = None,
     oc_candidate_skill_id = None, oc_learning_decision = None, oc_skill_action = None, oc_facts_added = 0,
     oc_skill_memory = None\<rparr>"

definition in_world :: "(world, 'a) io \<Rightarrow> (outcome_state, 'a) io" where
  "in_world = sfocus oc_world (\<lambda>w s. s\<lparr>oc_world := w\<rparr>)"

definition clock :: "runtime \<Rightarrow> (outcome_state, int) io" where
  "clock rt = in_world (\<lambda>w. (w\<lparr>w_tick := Suc (w_tick w)\<rparr>, Inr (rt_clock rt (w_tick w))))"

text \<open>An operation of the memory store; there is one where it is called.\<close>

definition in_memory :: "(memory_tables, 'a) io \<Rightarrow> (outcome_state, 'a) io" where
  "in_memory m = (\<lambda>s. case oc_memory s of
      None \<Rightarrow> (s, Inl AssertionError)
    | Some t \<Rightarrow> (case m t of (t', r) \<Rightarrow> (s\<lparr>oc_memory := Some t'\<rparr>, r)))"

definition in_registry ::
  "(nat \<Rightarrow> registry_env) \<Rightarrow> (registry_env \<Rightarrow> (skill_world, 'a) io) \<Rightarrow> (outcome_state, 'a) io" where
  "in_registry env m = (\<lambda>s. let w = oc_world s in
     case m (env (w_tick w)) \<lparr>kw_fs = w_fs w, kw_tables = oc_skills s\<rparr> of
       (k, r) \<Rightarrow> (s\<lparr>oc_world := w\<lparr>w_fs := kw_fs k, w_tick := Suc (w_tick w)\<rparr>, oc_skills := kw_tables k\<rparr>, r))"

section \<open>Events and errors\<close>

definition outcome_key :: "evo_state \<Rightarrow> string \<Rightarrow> string list \<Rightarrow> string" where
  "outcome_key st key_type parts =
     (let prefix = key_type @ '':'' @ es_run_id st; suffix = join '':'' parts
      in if suffix = [] then prefix else prefix @ '':'' @ suffix)"

definition emitted :: "verdict \<Rightarrow> event_type \<Rightarrow> string \<Rightarrow> payload \<Rightarrow> (outcome_state, run_event) io" where
  "emitted vd ty discriminator p = in_world (emit_event (vd_rt vd) (vd_state vd) ty None None discriminator p)"

definition noted :: "verdict \<Rightarrow> event_type \<Rightarrow> string \<Rightarrow> payload \<Rightarrow> (outcome_state, unit) io" where
  "noted vd ty discriminator p =
     sbind (emitted vd ty discriminator p) (\<lambda>e. smodify (\<lambda>s. s\<lparr>oc_events := oc_events s @ [e]\<rparr>))"

definition post_run_call :: "verdict \<Rightarrow> string \<Rightarrow> (outcome_state, unit) io" where
  "post_run_call vd agent =
     sbind (in_world (emit_event (vd_rt vd) (vd_state vd) MODEL_CALL (Some agent) None ''final''
       [(''phase'', JStr ''structured''), (''budget_scope'', JStr ''post_run'')])) (\<lambda>_. sret ())"

definition learning_error :: "verdict \<Rightarrow> string \<Rightarrow> pyexc \<Rightarrow> (outcome_state, unit) io" where
  "learning_error vd stage e =
     (let message = or_else (Some (exc_str e)) (exc_name e) in
      sbind (smodify (\<lambda>s. s\<lparr>oc_errors := oc_errors s @ [\<lparr>lf_stage = stage, lf_error_type = exc_name e, lf_message = message\<rparr>]\<rparr>))
        (\<lambda>_. sbind (sget (\<lambda>s. length (oc_errors s))) (\<lambda>n.
        noted vd LEARNING_ERROR (stage @ '':'' @ show_nat n)
          [(''stage'', JStr stage), (''error_type'', JStr (exc_name e)), (''message'', JStr message)])))"

definition tried :: "verdict \<Rightarrow> string \<Rightarrow> (outcome_state, unit) io \<Rightarrow> (outcome_state, unit) io" where
  "tried vd stage m = scatch m (\<lambda>e. Some (learning_error vd stage e))"

section \<open>Episode\<close>

definition verification_failures :: "verification_result list \<Rightarrow> string list" where
  "verification_failures history =
     clip_list (map (\<lambda>c. or_else (Some (vc_stderr c)) (''exit code '' @ show_int (vc_exit_code c)))
       (filter (\<lambda>c. vc_exit_code c \<noteq> 0 \<or> vc_timed_out c) (concat (map vr_commands history))))"

definition failure_stage_of :: "verdict \<Rightarrow> string option" where
  "failure_stage_of vd =
     (if vd_success vd then None else or_opt (es_failure_stage (vd_state vd)) (es_phase (vd_state vd)))"

definition episode_of :: "learning_env \<Rightarrow> verdict \<Rightarrow> trajectory_view \<Rightarrow> learning_input \<Rightarrow> int \<Rightarrow> episode" where
  "episode_of env vd v li now =
     (let st = vd_state vd in
      \<lparr>ep_id = ''episode:'' @ es_run_id st, ep_run_id = es_run_id st, ep_repo = full_name (es_repo st),
       ep_task_family = task_family (es_ci_failure st),
       ep_failure_summary = clip_text FIELD_LIMIT (cf_summary (es_ci_failure st)),
       ep_root_cause = li_root_cause li, ep_important_evidence = li_evidence_ids li, ep_attempts = es_supervisor_batch st,
       ep_successful_fix_summary = (if vd_success vd
         then map_option (\<lambda>o'. clip_text FIELD_LIMIT (pp_summary (fo_proposal o'))) (es_fixer_output st) else None),
       ep_tools_used = clip_list (map tt_tool_name (tv_tool_calls v)), ep_hypotheses_attempted = li_plan_revisions li,
       ep_verification_failures = verification_failures (es_verification_history st),
       ep_failure_reason = clip_opt FIELD_LIMIT (vd_reason vd), ep_success = vd_success vd,
       ep_failure_fingerprint = le_fingerprint env (es_repo st) (es_ci_failure st),
       ep_repo_revision = Some (base_commit (es_repo st)),
       ep_failure_class = (case vd_class vd of None \<Rightarrow> FCRepair | Some c \<Rightarrow> c),
       ep_failure_stage = failure_stage_of vd, ep_attempted_fix_summaries = li_change_summaries li,
       ep_attempted_files = clip_list (tv_created_files v @ tv_modified_files v),
       ep_external_failure_details = clip_list (vd_details vd), ep_created_at = now\<rparr>)"

definition learn_episode :: "learning_env \<Rightarrow> verdict \<Rightarrow> trajectory_view \<Rightarrow> learning_input \<Rightarrow> (outcome_state, unit) io" where
  "learn_episode env vd v li =
     sbind (sget (\<lambda>s. oc_memory s \<noteq> None \<and> should_persist_episode (vd_success vd) (vd_class vd) (vd_state vd))) (\<lambda>wanted.
     if \<not> wanted then sret ()
     else scatch
       (sbind (clock (vd_rt vd)) (\<lambda>now.
        let episode = episode_of env vd v li now in
        sbind (case le_episode_error env of Some e \<Rightarrow> sraise e | None \<Rightarrow> in_memory (add_episode episode)) (\<lambda>_.
        sbind (smodify (\<lambda>s. s\<lparr>oc_episode_id := Some (ep_id episode)\<rparr>)) (\<lambda>_.
        noted vd MEMORY_CREATED ''episode'' [(''episode_id'', JStr (ep_id episode)), (''success'', JBool (vd_success vd)),
          (''failure_class'', json_failure_class (vd_class vd))]))))
       (\<lambda>e. Some (sbind (learning_error vd ''episode'' e) (\<lambda>_.
          sraise (RuntimeError (''Critical: failed to persist episode: '' @ exc_str e))))))"

section \<open>Uses of skills\<close>

definition explicit_failure :: "trajectory_view \<Rightarrow> string \<Rightarrow> bool" where
  "explicit_failure v i \<longleftrightarrow>
     list_ex (\<lambda>t. ut_skill_id t = i \<and> ut_execution_success t = Some False) (tv_skill_use_traces v)"

definition attributed_success :: "verdict \<Rightarrow> trajectory_view \<Rightarrow> string \<Rightarrow> bool" where
  "attributed_success vd v i \<longleftrightarrow> vd_success vd \<and> \<not> explicit_failure v i"

definition record_skill_use :: "(nat \<Rightarrow> registry_env) \<Rightarrow> verdict \<Rightarrow> trajectory_view \<Rightarrow> string \<Rightarrow> (outcome_state, unit) io" where
  "record_skill_use reg vd v i =
     sbind (sget (\<lambda>s. get_skill i (oc_skills s))) (\<lambda>found.
     if found = None then sret ()
     else tried vd (''skill_use_'' @ i)
       (sbind (in_registry reg (\<lambda>env. on_tables (record_use env i (attributed_success vd v i)
          (tv_created_files v \<noteq> [] \<or> tv_modified_files v \<noteq> [])
          (Some (outcome_key (vd_state vd) ''skill-use'' [i]))))) (\<lambda>_. sret ())))"

fun each :: "('a \<Rightarrow> ('s, unit) io) \<Rightarrow> 'a list \<Rightarrow> ('s, unit) io" where
  "each f [] = sret ()"
| "each f (x # xs) = sbind (f x) (\<lambda>_. each f xs)"

definition learnable :: "failure_class option \<Rightarrow> bool" where
  "learnable fc \<longleftrightarrow> fc \<notin> {Some FCInfrastructure, Some FCModel, Some FCBudget}"

definition record_skill_uses :: "learning_env \<Rightarrow> verdict \<Rightarrow> trajectory_view \<Rightarrow> (outcome_state, unit) io" where
  "record_skill_uses env vd v =
     (case le_registry env of
        None \<Rightarrow> sret ()
      | Some reg \<Rightarrow>
          if learnable (vd_class vd)
          then tried vd ''skill_outcomes'' (each (record_skill_use reg vd v) (used_skill_ids v))
          else sret ())"

section \<open>Facts\<close>

definition fact_decision :: "learning_env \<Rightarrow> verdict \<Rightarrow> (world, fact_candidate) gateway \<Rightarrow> learning_input \<Rightarrow>
    (outcome_state, fact_candidate) io" where
  "fact_decision env vd gateway li =
     (let st = vd_state vd; key = ''memory-decision:'' @ es_run_id st in
      sbind (in_memory (sget (operation_result key))) (\<lambda>previous.
      case previous of
        Some p \<Rightarrow> slift (le_read_fact env p)
      | None \<Rightarrow>
          sbind (post_run_call vd ''memory-consolidator'') (\<lambda>_.
          sbind (in_memory (sget (list_long_term (full_name (es_repo st)) 8))) (\<lambda>facts.
          sbind (in_world (propose (le_repr env) gateway (es_run_id st) (full_name (es_repo st)) (task_family (es_ci_failure st)) li
            (map lt_content facts))) (\<lambda>candidate.
          sbind (in_memory (record_operation key (le_dump_fact env candidate))) (\<lambda>_. sret candidate))))))"

definition learn_fact :: "learning_env \<Rightarrow> verdict \<Rightarrow> learning_input \<Rightarrow> (outcome_state, unit) io" where
  "learn_fact env vd li =
     (let st = vd_state vd in
      sbind (sget (\<lambda>s. oc_memory s \<noteq> None)) (\<lambda>store.
      case le_consolidator env of
        None \<Rightarrow> sret ()
      | Some gateway \<Rightarrow>
          if \<not> (vd_success vd \<and> store \<and> es_verification st \<noteq> None) then sret ()
          else tried vd ''memory_consolidation''
            (sbind (fact_decision env vd gateway li) (\<lambda>candidate.
             sbind (clock (vd_rt vd)) (\<lambda>now.
             sbind (in_memory (commit_candidate (le_uuid5 env) now candidate (es_run_id st) (full_name (es_repo st))
               (Some (outcome_key st ''memory-commit'' [])))) (\<lambda>memory_id.
             if truthy memory_id
             then sbind (smodify (\<lambda>s. s\<lparr>oc_facts_added := 1\<rparr>)) (\<lambda>_.
               noted vd MEMORY_CREATED ''long-term'' [(''memory_id'', jopt memory_id)])
             else sret ()))))))"

section \<open>Skills\<close>

definition json_registered :: "registered_skill \<Rightarrow> payload" where
  "json_registered r = (let m = rs_manifest r in
     [(''skill_id'', JStr (sm_skill_id m)), (''name'', JStr (sm_name m)), (''description'', JStr (sm_description m)),
      (''triggers'', jstrs (sm_triggers m)), (''task_families'', jstrs (sm_task_families m))])"

definition skill_decision :: "learning_env \<Rightarrow> verdict \<Rightarrow> (world, learning_decision) gateway \<Rightarrow>
    trajectory_view \<Rightarrow> learning_input \<Rightarrow> (outcome_state, learning_decision) io" where
  "skill_decision env vd gateway v li =
     (let key = ''learning-decision:'' @ es_run_id (vd_state vd) in
      sbind (sget (\<lambda>s. skill_operation_result key (oc_skills s))) (\<lambda>previous.
      case previous of
        Some p \<Rightarrow> slift (le_read_decision env p)
      | None \<Rightarrow>
          sbind (post_run_call vd ''skill-miner'') (\<lambda>_.
          sbind (sget (\<lambda>s. map json_registered (list_skills True (oc_skills s)))) (\<lambda>existing.
          sbind (in_world (decide (le_repr env) gateway v existing (used_skill_ids v) (Some li))) (\<lambda>d.
          sbind (sfocus oc_skills (\<lambda>t s. s\<lparr>oc_skills := t\<rparr>) (record_skill_operation key (le_dump_decision env d)))
            (\<lambda>_. sret d))))))"

definition asserted :: "'a option \<Rightarrow> ('s, 'a) io" where
  "asserted x = (case x of None \<Rightarrow> sraise AssertionError | Some y \<Rightarrow> sret y)"

definition install_decided :: "(nat \<Rightarrow> registry_env) \<Rightarrow> verdict \<Rightarrow> learning_decision \<Rightarrow> skill_candidate \<Rightarrow>
    (outcome_state, unit) io" where
  "install_decided reg vd d c =
     (let key = Some (outcome_key (vd_state vd) ''learning-skill'' []) in
      sbind (if ld_action d = UpdateTarget
        then sbind (asserted (ld_target_skill_id d)) (\<lambda>target.
          sbind (in_registry reg (\<lambda>env. update_skill env target c key)) (\<lambda>r. sret (r, ''updated'')))
        else sbind (in_registry reg (\<lambda>env. create_skill env c None key)) (\<lambda>r. sret (r, ''created''))) (\<lambda>(created, action).
      let i = sm_skill_id (rs_manifest created) in
      sbind (smodify (\<lambda>s. s\<lparr>oc_skill_action := Some action, oc_candidate_skill_id := Some i\<rparr>)) (\<lambda>_.
      noted vd (if action = ''updated'' then SKILL_UPDATED else SKILL_CANDIDATE_CREATED) i
        [(''skill_id'', JStr i), (''action'', JStr action)])))"

text \<open>The lessons of the decision for the skills that were used; a later one replaces an earlier one.\<close>

definition lessons_of :: "string list \<Rightarrow> learning_decision \<Rightarrow> (string \<times> string) list" where
  "lessons_of used d =
     fold (\<lambda>l m. AList.update (ul_skill_id l) (ul_lesson l) m)
       (filter (\<lambda>l. ul_skill_id l \<in> set used) (ld_usage_lessons d)) []"

definition mine_skills :: "learning_env \<Rightarrow> (nat \<Rightarrow> registry_env) \<Rightarrow> (world, learning_decision) gateway \<Rightarrow>
    verdict \<Rightarrow> trajectory_view \<Rightarrow> learning_input \<Rightarrow> (outcome_state, unit) io" where
  "mine_skills env reg gateway vd v li =
     sbind (skill_decision env vd gateway v li) (\<lambda>d.
     sbind (smodify (\<lambda>s. s\<lparr>oc_learning_decision := Some d\<rparr>)) (\<lambda>_.
     if vd_success vd \<and> ld_action d \<noteq> NoAction
     then sbind (asserted (ld_candidate_skill d)) (\<lambda>c.
       tried vd ''skill_candidate_creation'' (install_decided reg vd d c))
     else sret ()))"

definition learn_skills :: "learning_env \<Rightarrow> verdict \<Rightarrow> trajectory_view \<Rightarrow> learning_input \<Rightarrow> (outcome_state, unit) io" where
  "learn_skills env vd v li =
     (case (le_registry env, le_miner env) of
        (Some reg, Some gateway) \<Rightarrow>
          if learnable (vd_class vd) \<and> should_mine (vd_success vd) (vd_class vd) (used_skill_ids v)
          then tried vd ''skill_mining'' (mine_skills env reg gateway vd v li)
          else sret ()
      | _ \<Rightarrow> sret ())"

section \<open>The memories of the used skills\<close>

definition script_failure_lesson :: string where
  "script_failure_lesson = ''The skill script failed during this run even though the overall repair succeeded.''"

definition success_fallback :: string where
  "success_fallback = ''This skill was used during a successful repair.''"

definition failure_fallback :: string where
  "failure_fallback = ''This skill was used but the repair failed; treat this as counterevidence, not a verified procedure.''"

definition skill_lesson ::
  "verdict \<Rightarrow> trajectory_view \<Rightarrow> (string \<times> string) list \<Rightarrow> string \<Rightarrow> skill_outcome \<times> string" where
  "skill_lesson vd v lessons i =
     (let told = (\<lambda>d. case map_of lessons i of None \<Rightarrow> d | Some l \<Rightarrow> l) in
      if explicit_failure v i then (SkillFailure, if vd_success vd then script_failure_lesson else failure_fallback)
      else if attributed_success vd v i then (SkillSuccess, told success_fallback)
      else (SkillFailure, told failure_fallback))"

definition remember_skill :: "(nat \<Rightarrow> registry_env) \<Rightarrow> verdict \<Rightarrow> trajectory_view \<Rightarrow> (string \<times> string) list \<Rightarrow> string \<Rightarrow>
    (outcome_state, unit) io" where
  "remember_skill reg vd v lessons i =
     (case skill_lesson vd v lessons i of (outcome, lesson) \<Rightarrow>
      tried vd (''skill_memory_'' @ i)
        (sbind (in_registry reg (\<lambda>env. Skills.on_fs (append_skill_memory env i
           \<lparr>se_run_id = es_run_id (vd_state vd), se_repository = full_name (es_repo (vd_state vd)),
            se_task_summary = cf_summary (es_ci_failure (vd_state vd)), se_outcome = outcome, se_lesson = lesson,
            se_created_at = ge_utc_now env\<rparr>))) (\<lambda>appended.
         if appended
         then smodify (\<lambda>s. s\<lparr>oc_skill_memory := Some (if outcome = SkillSuccess then ''success appended'' else ''failure appended'')\<rparr>)
         else sret ())))"

definition remember_skills :: "learning_env \<Rightarrow> verdict \<Rightarrow> trajectory_view \<Rightarrow> (outcome_state, unit) io" where
  "remember_skills env vd v =
     (case le_registry env of
        None \<Rightarrow> sret ()
      | Some reg \<Rightarrow>
          if vd_class vd \<notin> {Some FCInfrastructure, Some FCModel} \<and> (vd_success vd \<or> vd_class vd \<in> {None, Some FCRepair})
          then sbind (sget (\<lambda>s. case oc_learning_decision s of None \<Rightarrow> [] | Some d \<Rightarrow> lessons_of (used_skill_ids v) d)) (\<lambda>lessons.
            each (remember_skill reg vd v lessons) (used_skill_ids v))
          else sret ())"

section \<open>The outcome\<close>

definition learn :: "learning_env \<Rightarrow> verdict \<Rightarrow> trajectory_view \<Rightarrow> learning_input \<Rightarrow> (outcome_state, unit) io" where
  "learn env vd v li =
     sbind (learn_episode env vd v li) (\<lambda>_.
     sbind (record_skill_uses env vd v) (\<lambda>_.
     sbind (learn_fact env vd li) (\<lambda>_.
     sbind (learn_skills env vd v li) (\<lambda>_. remember_skills env vd v))))"

definition trajectory_of :: "learning_env \<Rightarrow> verdict \<Rightarrow> (outcome_state, trajectory_view) io" where
  "trajectory_of env vd = (\<lambda>s. (s, build_view (le_repr env) (le_coercion env) (es_run_id (vd_state vd))
     (es_verification_history (vd_state vd)) (if vd_success vd then FinalSuccess else FinalFailed) (vd_reason vd)
     (w_recorder (oc_world s))))"

definition learning_of :: "learning_env \<Rightarrow> verdict \<Rightarrow> trajectory_view \<Rightarrow> learning_input res" where
  "learning_of env vd v =
     (let st = vd_state vd in
      build_learning_input (le_encode env) (le_coercion env) (es_run_id st) (full_name (es_repo st))
        (task_family (es_ci_failure st)) (cf_summary (es_ci_failure st))
        (case es_decision st of None \<Rightarrow> [] | Some d \<Rightarrow> [d]) (es_worker_results st) (es_verification st) v (vd_success vd)
        (vd_reason vd) (es_failed_candidates st) (es_recommended_skill_ids st))"

definition learning_summary :: "trajectory_view \<Rightarrow> learning_input \<Rightarrow> outcome_state \<Rightarrow> payload" where
  "learning_summary v li s =
     [(''episode'', JStr (if truthy (oc_episode_id s) then ''stored'' else ''none'')),
      (''long_term_facts'', JInt (int (oc_facts_added s))),
      (''skill'', JStr (if truthy (oc_skill_action s) \<and> truthy (oc_candidate_skill_id s)
         then the (oc_candidate_skill_id s) @ '' '' @ the (oc_skill_action s)
         else (case used_skill_ids v of [] \<Rightarrow> ''none'' | i # _ \<Rightarrow> i @ '' used''))),
      (''skill_memory'', JStr (or_else (oc_skill_memory s) ''none'')),
      (''payload_chars'', JInt (int (li_payload_chars li)))]"

text \<open>The update of the graph's state that \<open>persist_run_outcome\<close> returns.\<close>

record outcome_update =
  ou_phase :: string
  ou_status :: run_status
  ou_failure_reason :: "string option"
  ou_failure_class :: "failure_class option"
  ou_failure_stage :: "string option"
  ou_episode_id :: "string option"
  ou_candidate_skill_id :: "string option"
  ou_learning_decision :: "learning_decision option"
  ou_learning_errors :: "learning_failure list"
  ou_learning_deferred :: bool
  ou_learning_summary :: payload
  ou_learning_payload_chars :: nat
  ou_usage_complete :: bool
  ou_events :: "run_event list"

definition outcome_of :: "verdict \<Rightarrow> trajectory_view \<Rightarrow> learning_input \<Rightarrow> outcome_state \<Rightarrow> outcome_update" where
  "outcome_of vd v li s =
     \<lparr>ou_phase = (if vd_success vd then ''finalize'' else ''failed''),
      ou_status = (if vd_success vd then Success else Failed),
      ou_failure_reason = vd_reason vd, ou_failure_class = vd_class vd, ou_failure_stage = failure_stage_of vd,
      ou_episode_id = oc_episode_id s, ou_candidate_skill_id = oc_candidate_skill_id s,
      ou_learning_decision = oc_learning_decision s, ou_learning_errors = oc_errors s, ou_learning_deferred = False,
      ou_learning_summary = learning_summary v li s, ou_learning_payload_chars = li_payload_chars li,
      ou_usage_complete = usage_complete_from_events (rec_list (es_run_id (vd_state vd)) (w_recorder (oc_world s))),
      ou_events = oc_events s\<rparr>"

definition persist_learning :: "learning_env \<Rightarrow> verdict \<Rightarrow> (outcome_state, outcome_update) io" where
  "persist_learning env vd =
     sbind (trajectory_of env vd) (\<lambda>v.
     sbind (slift (learning_of env vd v)) (\<lambda>li.
     sbind (learn env vd v li) (\<lambda>_. sget (outcome_of vd v li))))"

definition persist_outcome ::
  "learning_env \<Rightarrow> runtime \<Rightarrow> evo_state \<Rightarrow> bool \<Rightarrow> string option \<Rightarrow> failure_class option \<Rightarrow> string list \<Rightarrow>
   (outcome_state, outcome_update) io" where
  "persist_outcome env rt st success failure_reason failure_class details =
     (let resolved_class = (case failure_class of Some c \<Rightarrow> Some c | None \<Rightarrow> resolve_failure_class st success);
          vd = \<lparr>vd_rt = rt, vd_state = st, vd_success = success, vd_reason = failure_reason, vd_class = resolved_class,
                vd_details = details\<rparr>
      in sbind (noted vd (if success then RUN_COMPLETED else RUN_FAILED) ''terminal''
           [(''status'', JStr (outcome_str success)), (''reason'', jopt failure_reason),
            (''failure_class'', json_failure_class resolved_class)]) (\<lambda>_.
         sbind (in_world (update_run_status rt st (if success then Success else Failed))) (\<lambda>_.
         persist_learning env vd)))"

end
