(* ===== verification/OutcomeProps.thy ===== *)
theory OutcomeProps
  imports Outcome GraphLive
begin

text \<open>
  What the end of a run guarantees: the verdict does not depend on what can be learned from the run, a
  failed run teaches no skill and no fact and leaves at most failures in the memories of the skills it used, a
  decision of the model is made once, and the two models of the end of a run agree.
\<close>

section \<open>Stages that always return\<close>

definition settles :: "('s, 'a) io \<Rightarrow> bool" where
  "settles m \<longleftrightarrow> (\<forall>s. \<exists>s' x. m s = (s', Inr x))"

named_theorems settles_rules \<open>computations that always return\<close>

lemma settlesD: "settles m \<Longrightarrow> \<exists>s' x. m s = (s', Inr x)"
  by (simp add: settles_def)

lemma settles_pure [settles_rules]: "settles (sret x)" "settles (sget f)" "settles (smodify g)"
  by (simp_all add: settles_def)

lemma settles_bind [settles_rules]: "settles m \<Longrightarrow> (\<And>x. settles (f x)) \<Longrightarrow> settles (sbind m f)"
  unfolding settles_def sbind_def by (metis (no_types, lifting) case_prod_conv old.sum.simps(6))

lemma settles_catch:
  assumes "\<And>e. \<exists>k. h e = Some k \<and> settles k"
  shows "settles (scatch m h)"
  unfolding settles_def
proof
  fix s
  obtain s1 r where m: "m s = (s1, r)" by (cases "m s")
  show "\<exists>s' x. scatch m h s = (s', Inr x)"
  proof (cases r)
    case (Inl e)
    with assms obtain k where "h e = Some k" "settles k" by blast
    then show ?thesis using m Inl settlesD [of k s1] by (simp add: scatch_def)
  qed (simp add: scatch_def m)
qed

lemma settles_if [settles_rules]: "(b \<Longrightarrow> settles m) \<Longrightarrow> (\<not> b \<Longrightarrow> settles m') \<Longrightarrow> settles (if b then m else m')"
  by simp

lemma settles_option [settles_rules]:
  "(x = None \<Longrightarrow> settles m) \<Longrightarrow> (\<And>y. x = Some y \<Longrightarrow> settles (f y)) \<Longrightarrow> settles (case x of None \<Rightarrow> m | Some y \<Rightarrow> f y)"
  by (cases x) auto

lemma settles_focus: "settles m \<Longrightarrow> settles (sfocus get put m)"
  unfolding settles_def sfocus_def by (metis (no_types, lifting) case_prod_conv)

lemma settles_emit: "settles (emit_event rt st ty a i k p)"
  by (auto simp: settles_def emit_event_def split: prod.splits)

lemma settles_noted [settles_rules]: "settles (noted vd ty k p)"
  unfolding noted_def emitted_def in_world_def by (intro settles_rules settles_focus settles_emit)

lemma settles_learning_error: "settles (learning_error vd stage e)"
  unfolding learning_error_def Let_def by (intro settles_rules)

lemma settles_tried [settles_rules]: "settles (tried vd stage m)"
  unfolding tried_def by (rule settles_catch) (simp add: settles_learning_error)

lemma settles_each [settles_rules]: "(\<And>x. settles (f x)) \<Longrightarrow> settles (each f xs)"
  by (induction xs) (auto intro: settles_rules)

lemma settles_stages: "settles (record_skill_uses env vd v)" "settles (learn_fact env vd li)" "settles (learn_skills env vd v li)"
  "settles (remember_skills env vd v)"
  unfolding record_skill_uses_def learn_fact_def Let_def learn_skills_def remember_skills_def remember_skill_def
  by (intro settles_rules | simp add: case_prod_beta settles_rules split: option.split)+

text \<open>Without an error of the database the episode is stored.\<close>

lemma clock_value: "clock rt s = (s\<lparr>oc_world := (oc_world s)\<lparr>w_tick := Suc (w_tick (oc_world s))\<rparr>\<rparr>, Inr (rt_clock rt (w_tick (oc_world s))))"
  by (simp add: clock_def in_world_def sfocus_def)

definition episode_wanted :: "verdict \<Rightarrow> outcome_state \<Rightarrow> bool" where
  "episode_wanted vd s \<longleftrightarrow> oc_memory s \<noteq> None \<and> should_persist_episode (vd_success vd) (vd_class vd) (vd_state vd)"

lemma learn_episode_skipped: "\<not> episode_wanted vd s \<Longrightarrow> learn_episode env vd v li s = (s, Inr ())"
  by (auto simp: learn_episode_def episode_wanted_def sbind_def)

lemma sbind_get: "sbind (sget f) k s = k (f s) s"
  by (simp add: sbind_def)

lemma achievesD_unit: "achieves P m Q \<Longrightarrow> P s \<Longrightarrow> \<exists>s'. m s = (s', Inr ()) \<and> Q () s'"
  by (auto simp: achieves_def)

lemma noted_keeps_episode: "oc_episode_id (fst (noted vd ty k p s)) = oc_episode_id s"
  by (simp add: noted_def emitted_def in_world_def sfocus_def sbind_def emit_event_def split: prod.splits)

lemma achieves_clock: "achieves (\<lambda>s. oc_memory s \<noteq> None) (clock rt) (\<lambda>_ s. oc_memory s \<noteq> None)"
  by (simp add: achieves_def clock_value)

lemma achieves_store: "achieves (\<lambda>s. oc_memory s \<noteq> None) (in_memory (add_episode e)) (\<lambda>_ _. True)"
  by (auto simp: achieves_def in_memory_def add_episode_def)

lemma achieves_noted: "achieves (\<lambda>s. oc_episode_id s = x) (noted vd ty k p) (\<lambda>_ s. oc_episode_id s = x)"
  unfolding achieves_def using settlesD [OF settles_noted] noted_keeps_episode by (metis fst_conv)

lemma achieves_catch: "achieves P m Q \<Longrightarrow> achieves P (scatch m h) Q"
  unfolding achieves_def scatch_def by fastforce

lemma learn_episode_stored:
  assumes "episode_wanted vd s" and "le_episode_error env = None"
  shows "\<exists>s'. learn_episode env vd v li s = (s', Inr ()) \<and> oc_episode_id s' = Some (''episode:'' @ es_run_id (vd_state vd))"
proof -
  have id: "ep_id (episode_of env vd v li now) = ''episode:'' @ es_run_id (vd_state vd)" for now
    by (simp add: episode_of_def Let_def)
  have wanted: "(oc_memory s \<noteq> None \<and> should_persist_episode (vd_success vd) (vd_class vd) (vd_state vd)) = True"
    using assms(1) by (simp add: episode_wanted_def)
  have "learn_episode env vd v li s = scatch
      (sbind (clock (vd_rt vd)) (\<lambda>now. sbind (in_memory (add_episode (episode_of env vd v li now))) (\<lambda>_.
       sbind (smodify (\<lambda>s. s\<lparr>oc_episode_id := Some (''episode:'' @ es_run_id (vd_state vd))\<rparr>)) (\<lambda>_.
       noted vd MEMORY_CREATED ''episode'' [(''episode_id'', JStr (''episode:'' @ es_run_id (vd_state vd))),
         (''success'', JBool (vd_success vd)), (''failure_class'', json_failure_class (vd_class vd))]))))
      (\<lambda>e. Some (sbind (learning_error vd ''episode'' e) (\<lambda>_.
          sraise (RuntimeError (''Critical: failed to persist episode: '' @ exc_str e))))) s"
    unfolding learn_episode_def Let_def id assms(2) sbind_get wanted by simp
  moreover have ach: "achieves (\<lambda>s. oc_memory s \<noteq> None) (scatch
      (sbind (clock (vd_rt vd)) (\<lambda>now. sbind (in_memory (add_episode (episode_of env vd v li now))) (\<lambda>_.
       sbind (smodify (\<lambda>s. s\<lparr>oc_episode_id := Some i\<rparr>)) (\<lambda>_. noted vd MEMORY_CREATED ''episode'' p)))) h)
      (\<lambda>_ s. oc_episode_id s = Some i)" for i p h
    by (intro achieves_catch achieves_bind [OF achieves_clock] achieves_bind [OF achieves_store]
        achieves_bind [where R = "\<lambda>_ s. oc_episode_id s = Some i", OF achieves_modify] achieves_noted) simp
  ultimately show ?thesis
    using assms(1) by (simp only:) (rule achievesD_unit [OF ach], simp add: episode_wanted_def)
qed

lemma learn_episode_fails:
  assumes "episode_wanted vd s" and "le_episode_error env = Some e"
  shows "\<exists>s'. learn_episode env vd v li s = (s', Inl (RuntimeError (''Critical: failed to persist episode: '' @ exc_str e))) \<and>
    oc_memory s' = oc_memory s \<and> oc_skills s' = oc_skills s"
proof -
  let ?s1 = "s\<lparr>oc_world := (oc_world s)\<lparr>w_tick := Suc (w_tick (oc_world s))\<rparr>\<rparr>"
  obtain s2 x where 2: "learning_error vd ''episode'' e ?s1 = (s2, Inr x)" using settlesD [OF settles_learning_error] by blast
  have "oc_memory (fst (learning_error vd stage e s)) = oc_memory s \<and> oc_skills (fst (learning_error vd stage e s)) = oc_skills s"
    for stage s
    by (simp add: learning_error_def Let_def noted_def emitted_def in_world_def sfocus_def sbind_def emit_event_def split: prod.splits)
  from this [of "''episode''" ?s1] 2 assms show ?thesis
    by (auto simp: learn_episode_def episode_wanted_def sbind_def clock_value scatch_def Let_def)
qed

section \<open>What the stages leave alone\<close>

text \<open>
  A relation between the states before and after that does not see the world, the events and the errors is
  kept by everything that only records.
\<close>

locale outcome_frame =
  fixes R :: "outcome_state \<Rightarrow> outcome_state \<Rightarrow> bool"
  assumes refl: "R s s" and trans: "R a b \<Longrightarrow> R b c \<Longrightarrow> R a c"
    and world: "R s (s\<lparr>oc_world := w\<rparr>)" and events: "R s (s\<lparr>oc_events := es\<rparr>)" and errors: "R s (s\<lparr>oc_errors := fs\<rparr>)"
begin

lemma bind: "keeps R m \<Longrightarrow> (\<And>x. keeps R (f x)) \<Longrightarrow> keeps R (sbind m f)"
  by (rule keeps_bind [OF trans])

lemmas pure = keeps_pure [where R = R, OF refl]

lemma modify: "(\<And>s. R s (f s)) \<Longrightarrow> keeps R (smodify f)"
  by (simp add: keeps_def)

lemma in_world: "keeps R (in_world m)"
  by (auto simp: keeps_def in_world_def sfocus_def world split: prod.splits)

lemma noted: "keeps R (noted vd ty k p)"
  unfolding noted_def emitted_def by (intro bind in_world modify events)

lemma learning_error: "keeps R (learning_error vd stage e)"
  unfolding learning_error_def Let_def by (intro bind modify errors pure noted)

lemma tried: "keeps R m \<Longrightarrow> keeps R (tried vd stage m)"
  unfolding tried_def by (rule keeps_catch [OF trans]) (auto intro: learning_error)

lemma each: "(\<And>x. keeps R (f x)) \<Longrightarrow> keeps R (each f xs)"
  by (induction xs) (auto intro: bind pure)

lemma clock: "keeps R (clock rt)"
  unfolding clock_def by (rule in_world)

lemma post_run_call: "keeps R (post_run_call vd agent)"
  unfolding post_run_call_def by (intro bind in_world pure)

lemma registry:
  assumes "\<And>env fs s. R s (s\<lparr>oc_skills := kw_tables (fst (m env \<lparr>kw_fs = fs, kw_tables = oc_skills s\<rparr>))\<rparr>)"
  shows "keeps R (in_registry reg m)"
proof (rule keepsI)
  fix s :: outcome_state
  obtain k r where m: "m (reg (w_tick (oc_world s))) \<lparr>kw_fs = w_fs (oc_world s), kw_tables = oc_skills s\<rparr> = (k, r)"
    by (cases "m (reg (w_tick (oc_world s))) \<lparr>kw_fs = w_fs (oc_world s), kw_tables = oc_skills s\<rparr>")
  have "R (s\<lparr>oc_world := w\<rparr>) (s\<lparr>oc_world := w, oc_skills := kw_tables k\<rparr>)" for w
    using assms [of "s\<lparr>oc_world := w\<rparr>" "reg (w_tick (oc_world s))" "w_fs (oc_world s)"] m by simp
  from trans [OF world this] have "R s (s\<lparr>oc_world := w, oc_skills := kw_tables k\<rparr>)" for w .
  then show "R s (fst (in_registry reg m s))" by (simp add: in_registry_def Let_def m)
qed

lemma registry_tables:
  assumes "\<And>env s. R s (s\<lparr>oc_skills := fst (m env (oc_skills s))\<rparr>)"
  shows "keeps R (in_registry reg (\<lambda>env. on_tables (m env)))"
  by (rule registry) (use assms in \<open>simp add: on_tables_def sfocus_def case_prod_beta\<close>)

lemma record_uses:
  assumes "\<And>env i ok p key s. R s (s\<lparr>oc_skills := fst (record_use env i ok p key (oc_skills s))\<rparr>)"
  shows "keeps R (record_skill_uses env vd v)"
proof -
  have "keeps R (record_skill_use reg vd v i)" for reg i
    unfolding record_skill_use_def
    by (intro bind pure) (auto intro!: tried bind registry_tables pure assms)
  then show ?thesis
    unfolding record_skill_uses_def by (auto intro!: tried each pure split: option.split)
qed

lemma remember:
  assumes "\<And>x s. R s (s\<lparr>oc_skill_memory := x\<rparr>)"
  shows "keeps R (remember_skills env vd v)"
proof -
  have "R s (s\<lparr>oc_skills := kw_tables (fst (Skills.on_fs m \<lparr>kw_fs = fs, kw_tables = oc_skills s\<rparr>))\<rparr>)" for m :: "(fs, bool) io" and fs and s :: outcome_state
    by (simp add: Skills.on_fs_def sfocus_def refl split: prod.split)
  then have "keeps R (remember_skill reg vd v lessons i)" for reg lessons i
    unfolding remember_skill_def
    by (auto intro!: tried bind clock registry pure modify assms split: prod.split)
  then show ?thesis
    unfolding remember_skills_def by (auto intro!: bind each pure split: option.split)
qed

end

section \<open>The verdict\<close>

definition same_episode :: "outcome_state \<Rightarrow> outcome_state \<Rightarrow> bool" where
  "same_episode s s' \<longleftrightarrow> oc_episode_id s' = oc_episode_id s"

interpretation episode_frame: outcome_frame same_episode
  by unfold_locales (simp_all add: same_episode_def)

lemma same_episode_memory: "keeps same_episode (in_memory m)"
  by (auto simp: keeps_def same_episode_def in_memory_def split: option.split prod.split)

lemma same_episode_skills: "keeps same_episode (sfocus oc_skills (\<lambda>t s. s\<lparr>oc_skills := t\<rparr>) m)"
  by (auto simp: keeps_def same_episode_def sfocus_def split: prod.split)

lemma same_episode_registry: "keeps same_episode (in_registry reg m)"
  by (rule episode_frame.registry) (simp add: same_episode_def)

lemma same_episode_modify:
  "keeps same_episode (smodify (\<lambda>s. s\<lparr>oc_facts_added := n\<rparr>))" "keeps same_episode (smodify (\<lambda>s. s\<lparr>oc_learning_decision := d\<rparr>))"
  "keeps same_episode (smodify (\<lambda>s. s\<lparr>oc_skill_action := a, oc_candidate_skill_id := i\<rparr>))"
  by (simp_all add: keeps_def same_episode_def)

lemma keeps_asserted: "(\<And>s. R s s) \<Longrightarrow> keeps R (asserted x)"
  by (cases x) (auto simp: asserted_def intro: keeps_pure)

lemmas episode_rules = episode_frame.bind episode_frame.pure episode_frame.in_world episode_frame.noted episode_frame.tried
  episode_frame.each episode_frame.clock episode_frame.post_run_call same_episode_memory same_episode_skills
  same_episode_registry same_episode_modify keeps_asserted [where R = same_episode, OF episode_frame.refl]

lemma same_episode_fact: "keeps same_episode (learn_fact env vd li)"
proof -
  have "keeps same_episode (fact_decision env vd gateway li)" for gateway
    unfolding fact_decision_def Let_def by (intro episode_rules) (auto intro!: episode_rules split: option.split)
  then show ?thesis
    unfolding learn_fact_def Let_def by (intro episode_rules) (auto intro!: episode_rules split: option.split)
qed

lemma same_episode_mining: "keeps same_episode (learn_skills env vd v li)"
proof -
  have 1: "keeps same_episode (skill_decision env vd gateway v li)" for gateway
    unfolding skill_decision_def Let_def by (intro episode_rules) (auto intro!: episode_rules split: option.split)
  have 2: "keeps same_episode (install_decided reg vd d c)" for reg d c
    unfolding install_decided_def Let_def by (auto intro!: episode_rules split: prod.split)
  show ?thesis
    unfolding learn_skills_def mine_skills_def by (auto intro!: episode_rules 1 2 split: option.split)
qed

lemma same_episode_stages:
  "keeps same_episode (record_skill_uses env vd v)" "keeps same_episode (learn_fact env vd li)"
  "keeps same_episode (learn_skills env vd v li)" "keeps same_episode (remember_skills env vd v)"
  by (auto intro!: episode_frame.record_uses episode_frame.remember same_episode_fact same_episode_mining
      simp: same_episode_def)

definition later_stages :: "learning_env \<Rightarrow> verdict \<Rightarrow> trajectory_view \<Rightarrow> learning_input \<Rightarrow> (outcome_state, unit) io" where
  "later_stages env vd v li =
     sbind (record_skill_uses env vd v) (\<lambda>_. sbind (learn_fact env vd li) (\<lambda>_.
     sbind (learn_skills env vd v li) (\<lambda>_. remember_skills env vd v)))"

lemma later_stages_return:
  "\<exists>s'. later_stages env vd v li s = (s', Inr ()) \<and> oc_episode_id s' = oc_episode_id s"
proof -
  have "settles (later_stages env vd v li)" unfolding later_stages_def by (intro settles_rules settles_stages)
  then obtain s' where s': "later_stages env vd v li s = (s', Inr ())" using settlesD by fastforce
  have "keeps same_episode (later_stages env vd v li)"
    unfolding later_stages_def by (intro episode_rules same_episode_stages)
  from keepsD [OF this s'] s' show ?thesis by (auto simp: same_episode_def)
qed

lemma learn_split: "learn env vd v li = sbind (learn_episode env vd v li) (\<lambda>_. later_stages env vd v li)"
  by (simp add: learn_def later_stages_def)

definition keeps_verdict :: "verdict \<Rightarrow> outcome_update \<Rightarrow> bool" where
  "keeps_verdict vd u \<longleftrightarrow> ou_phase u = (if vd_success vd then ''finalize'' else ''failed'') \<and>
     ou_status u = (if vd_success vd then Success else Failed) \<and> ou_failure_reason u = vd_reason vd \<and>
     ou_failure_class u = vd_class vd \<and> ou_failure_stage u = failure_stage_of vd \<and> \<not> ou_learning_deferred u"

lemma outcome_keeps_verdict: "keeps_verdict vd (outcome_of vd v li s)"
  by (simp add: keeps_verdict_def outcome_of_def)

text \<open>
  C29: learning never changes the verdict of a run. Whatever the model, the consolidator, the registry and
  the memory store answer, and whatever they raise, the end of a run whose events form a trajectory returns
  the verdict it was given, with the episode stored where one is wanted; the errors of the stages are handed
  over beside it. The two premises are the parts of \<open>persist_run_outcome\<close> that no \<open>try\<close> guards: the events form
  a trajectory, and \<open>build_learning_input\<close> does not raise. Only an episode that cannot be stored ends the run with an error, before any skill or fact
  is touched.
\<close>

theorem learning_keeps_verdict:
  assumes "trajectory_of env vd s = (s, Inr v)" and "learning_of env vd v = Inr li"
  shows "case (if episode_wanted vd s then le_episode_error env else None) of
      None \<Rightarrow> \<exists>s' u. persist_learning env vd s = (s', Inr u) \<and> keeps_verdict vd u \<and>
        (episode_wanted vd s \<longrightarrow> ou_episode_id u = Some (''episode:'' @ es_run_id (vd_state vd))) \<and>
        ou_learning_errors u = oc_errors s'
    | Some e \<Rightarrow> \<exists>s'. persist_learning env vd s = (s', Inl (RuntimeError (''Critical: failed to persist episode: '' @ exc_str e))) \<and>
        oc_memory s' = oc_memory s \<and> oc_skills s' = oc_skills s"
proof -
  have run: "persist_learning env vd s = sbind (learn env vd v li) (\<lambda>_. sget (outcome_of vd v li)) s"
    using assms by (simp add: persist_learning_def sbind_def)
  show ?thesis
  proof (cases "if episode_wanted vd s then le_episode_error env else None")
    case (Some e)
    then have "episode_wanted vd s" "le_episode_error env = Some e" by (auto split: if_splits)
    then obtain s' where "learn_episode env vd v li s = (s', Inl (RuntimeError (''Critical: failed to persist episode: '' @ exc_str e)))"
      "oc_memory s' = oc_memory s" "oc_skills s' = oc_skills s"
      using learn_episode_fails by blast
    with Some show ?thesis by (simp add: run learn_split sbind_def)
  next
    case None
    obtain s1 where 1: "learn_episode env vd v li s = (s1, Inr ())"
      "episode_wanted vd s \<Longrightarrow> oc_episode_id s1 = Some (''episode:'' @ es_run_id (vd_state vd))"
      using None learn_episode_stored [of vd s env v li] learn_episode_skipped [of vd s env v li] by (cases "episode_wanted vd s") auto
    obtain s2 where 2: "later_stages env vd v li s1 = (s2, Inr ())" "oc_episode_id s2 = oc_episode_id s1"
      using later_stages_return by blast
    have "persist_learning env vd s = (s2, Inr (outcome_of vd v li s2))"
      using 1 2 by (simp add: run learn_split sbind_def)
    then show ?thesis using None 1(2) 2(2) outcome_keeps_verdict [of vd v li s2] by (auto simp: outcome_of_def)
  qed
qed

section \<open>A failed run\<close>

text \<open>What a failed run leaves as it was: the skills with their manifests and their index, and the facts.\<close>

definition knowledge_kept :: "outcome_state \<Rightarrow> outcome_state \<Rightarrow> bool" where
  "knowledge_kept s s' \<longleftrightarrow>
     kt_skills (oc_skills s') = kt_skills (oc_skills s) \<and> kt_fts (oc_skills s') = kt_fts (oc_skills s) \<and>
     map_option mt_facts (oc_memory s') = map_option mt_facts (oc_memory s) \<and>
     map_option mt_facts_fts (oc_memory s') = map_option mt_facts_fts (oc_memory s) \<and>
     oc_facts_added s' = oc_facts_added s \<and> oc_candidate_skill_id s' = oc_candidate_skill_id s"

interpretation knowledge_frame: outcome_frame knowledge_kept
  by unfold_locales (simp_all add: knowledge_kept_def)

lemma knowledge_kept_modify:
  "keeps knowledge_kept (smodify (\<lambda>s. s\<lparr>oc_learning_decision := d\<rparr>))"
  "keeps knowledge_kept (smodify (\<lambda>s. s\<lparr>oc_episode_id := x\<rparr>))"
  by (simp_all add: keeps_def knowledge_kept_def)

lemma record_use_rows: "kt_skills (fst (record_use env i ok p key t)) = kt_skills t \<and> kt_fts (fst (record_use env i ok p key t)) = kt_fts t"
  by (simp add: record_use_def with_operation_def split: option.split)

lemma knowledge_kept_operation:
  "keeps knowledge_kept (sfocus oc_skills (\<lambda>t s. s\<lparr>oc_skills := t\<rparr>) (record_skill_operation key p))"
  by (simp add: keeps_def knowledge_kept_def sfocus_def record_skill_operation_def)

lemma knowledge_kept_episode: "keeps knowledge_kept (in_memory (add_episode e))"
  by (auto simp: keeps_def knowledge_kept_def in_memory_def add_episode_def split: option.split)

lemmas knowledge_rules = knowledge_frame.bind knowledge_frame.pure knowledge_frame.in_world knowledge_frame.noted
  knowledge_frame.tried knowledge_frame.clock knowledge_frame.post_run_call knowledge_frame.learning_error
  knowledge_kept_modify knowledge_kept_operation knowledge_kept_episode

lemma knowledge_kept_uses: "keeps knowledge_kept (record_skill_uses env vd v)"
  by (rule knowledge_frame.record_uses) (simp add: knowledge_kept_def record_use_rows)

lemma knowledge_kept_memories: "keeps knowledge_kept (remember_skills env vd v)"
  by (rule knowledge_frame.remember) (simp add: knowledge_kept_def)

lemma knowledge_kept_learn_episode: "keeps knowledge_kept (learn_episode env vd v li)"
proof -
  have catch: "keeps knowledge_kept (scatch m h)" if "keeps knowledge_kept m" "\<And>e k. h e = Some k \<Longrightarrow> keeps knowledge_kept k"
    for m :: "(outcome_state, unit) io" and h
    by (rule keeps_catch [OF knowledge_frame.trans that])
  show ?thesis
    unfolding learn_episode_def Let_def
    by (intro knowledge_frame.bind knowledge_rules) (auto intro!: catch knowledge_rules split: option.split)
qed

lemma knowledge_kept_fact: "\<not> vd_success vd \<Longrightarrow> keeps knowledge_kept (learn_fact env vd li)"
  unfolding learn_fact_def Let_def by (intro knowledge_rules) (auto intro!: knowledge_rules split: option.split)

lemma knowledge_kept_mining: "\<not> vd_success vd \<Longrightarrow> keeps knowledge_kept (learn_skills env vd v li)"
proof -
  assume failed: "\<not> vd_success vd"
  have "keeps knowledge_kept (skill_decision env vd gateway v li)" for gateway
    unfolding skill_decision_def Let_def by (intro knowledge_rules) (auto intro!: knowledge_rules split: option.split)
  with failed show ?thesis
    unfolding learn_skills_def mine_skills_def by (auto intro!: knowledge_rules split: option.split)
qed

lemma knowledge_kept_learn: "\<not> vd_success vd \<Longrightarrow> keeps knowledge_kept (learn env vd v li)"
  unfolding learn_def
  by (intro knowledge_frame.bind knowledge_kept_learn_episode knowledge_kept_uses knowledge_kept_fact knowledge_kept_mining
      knowledge_kept_memories)

subsection \<open>What the skills remember\<close>

abbreviation files_of :: "outcome_state \<Rightarrow> fs" where
  "files_of s \<equiv> w_fs (oc_world s)"

definition same_files :: "outcome_state \<Rightarrow> outcome_state \<Rightarrow> bool" where
  "same_files s s' \<longleftrightarrow> files_of s' = files_of s"

lemma same_files_trans: "same_files a b \<Longrightarrow> same_files b c \<Longrightarrow> same_files a c"
  by (simp add: same_files_def)

lemma files_in_world: "(\<And>w. w_fs (fst (m w)) = w_fs w) \<Longrightarrow> keeps same_files (in_world m)"
  by (auto simp: keeps_def same_files_def in_world_def sfocus_def split: prod.splits) (metis fst_conv)

lemma files_emit: "w_fs (fst (emit_event rt st ty a i k p w)) = w_fs w"
  by (simp add: emit_event_def split: prod.split)

lemma files_pure: "keeps same_files (sret x)" "keeps same_files (sraise e)" "keeps same_files (sget f)" "keeps same_files (slift r)"
  by (simp_all add: keeps_def same_files_def)

lemma files_modify: "(\<And>s. files_of (f s) = files_of s) \<Longrightarrow> keeps same_files (smodify f)"
  by (simp add: keeps_def same_files_def)

lemmas files_bind = keeps_bind [where R = same_files, OF same_files_trans]
lemmas files_catch = keeps_catch [where R = same_files, OF same_files_trans]

lemma files_noted: "keeps same_files (noted vd ty k p)"
  unfolding noted_def emitted_def by (intro files_bind files_in_world files_emit files_modify) simp_all

lemma files_learning_error: "keeps same_files (learning_error vd stage e)"
  unfolding learning_error_def Let_def by (intro files_bind files_pure files_modify files_noted) simp_all

lemma files_tried: "keeps same_files m \<Longrightarrow> keeps same_files (tried vd stage m)"
  unfolding tried_def by (rule files_catch) (auto intro: files_learning_error)

lemma files_each: "(\<And>x. keeps same_files (f x)) \<Longrightarrow> keeps same_files (each f xs)"
  by (induction xs) (auto intro: files_bind files_pure)

lemma files_clock: "keeps same_files (clock rt)"
  unfolding clock_def by (rule files_in_world) simp

lemma files_in_memory: "keeps same_files (in_memory m)"
  by (auto simp: keeps_def same_files_def in_memory_def split: option.split prod.split)

lemma files_registry: "keeps same_files (in_registry reg (\<lambda>env. on_tables (m env)))"
  by (auto simp: keeps_def same_files_def in_registry_def on_tables_def sfocus_def Let_def split: prod.splits)

lemma files_operation: "keeps same_files (sfocus oc_skills (\<lambda>t s. s\<lparr>oc_skills := t\<rparr>) m)"
  by (auto simp: keeps_def same_files_def sfocus_def split: prod.split)

lemma files_asserted: "keeps same_files (asserted x)"
  by (cases x) (auto simp: asserted_def files_pure)

lemmas files_rules = files_bind files_pure files_noted files_learning_error files_tried files_each files_clock
  files_in_memory files_registry files_operation files_asserted

text \<open>The gateway of the miner asks a model; it does not write files.\<close>

definition miner_writes_no_file :: "learning_env \<Rightarrow> bool" where
  "miner_writes_no_file env \<longleftrightarrow>
     (\<forall>gateway. le_miner env = Some gateway \<longrightarrow> (\<forall>system user w. w_fs (fst (gateway system user w)) = w_fs w))"

lemma files_decide:
  fixes gateway :: "(world, learning_decision) gateway"
  assumes "\<And>p q w. w_fs (fst (gateway p q w)) = w_fs w"
  shows "w_fs (fst (decide fl gateway v skills used learning w)) = w_fs w"
proof -
  let ?R = "\<lambda>w w' :: world. w_fs w' = w_fs w"
  have trans: "?R a b \<Longrightarrow> ?R b c \<Longrightarrow> ?R a c" for a b c by simp
  note pures = keeps_pure [where R = ?R]
  have gw: "keeps ?R (gateway p q)" for p q using assms by (simp add: keeps_def)
  have complete: "keeps ?R (complete fl gateway v skills used' learning err)" for used' err
    unfolding complete_def Let_def by (rule keeps_bind [where R = ?R, OF trans]) (simp_all add: pures gw)
  have "keeps ?R (decide fl gateway v skills used learning)"
    unfolding decide_def Let_def
    by (auto intro!: keeps_bind [where R = ?R, OF trans] keeps_catch [where R = ?R, OF trans] pures complete)
  then show ?thesis by (simp add: keeps_def)
qed

lemma files_stages:
  assumes "\<not> vd_success vd"
  shows "keeps same_files (learn_episode env vd v li)" "keeps same_files (record_skill_uses env vd v)"
    "keeps same_files (learn_fact env vd li)" "miner_writes_no_file env \<Longrightarrow> keeps same_files (learn_skills env vd v li)"
proof -
  show "keeps same_files (learn_episode env vd v li)"
    unfolding learn_episode_def Let_def
    by (intro files_bind files_pure) (auto intro!: files_catch files_rules files_modify split: option.split)
  have "keeps same_files (record_skill_use reg vd v i)" for reg i
    unfolding record_skill_use_def by (intro files_rules) (auto intro!: files_rules)
  then show "keeps same_files (record_skill_uses env vd v)"
    unfolding record_skill_uses_def by (auto intro!: files_rules split: option.split)
  show "keeps same_files (learn_fact env vd li)"
    unfolding learn_fact_def Let_def using assms by (intro files_rules) (auto intro!: files_rules split: option.split)
  assume miner: "miner_writes_no_file env"
  have "keeps same_files (post_run_call vd agent)" for agent
    unfolding post_run_call_def by (intro files_rules files_in_world files_emit)
  then have "keeps same_files (skill_decision env vd gateway v li)" if "le_miner env = Some gateway" for gateway
    unfolding skill_decision_def Let_def using miner that
    by (intro files_bind files_pure)
      (auto intro!: files_rules files_in_world files_decide simp: miner_writes_no_file_def split: option.split)
  then show "keeps same_files (learn_skills env vd v li)"
    unfolding learn_skills_def mine_skills_def using assms
    by (auto intro!: files_rules files_modify split: option.split)
qed

text \<open>What \<open>append_skill_memory\<close> does to the files\<close>

definition memory_path :: "path \<Rightarrow> string \<Rightarrow> path" where
  "memory_path base i = join_root base i @ [''memory.md'']"

definition memory_lock_path :: "path \<Rightarrow> string \<Rightarrow> path" where
  "memory_lock_path base i = join_root base i @ [''.memory.lock'']"

definition installed_at :: "path \<Rightarrow> string \<Rightarrow> fs \<Rightarrow> bool" where
  "installed_at base i fs \<longleftrightarrow> fs (join_root base i @ [''package'']) = Some Dir"

definition memory_bytes :: "path \<Rightarrow> string \<Rightarrow> fs \<Rightarrow> string option" where
  "memory_bytes base i fs = (case fs (memory_path base i) of None \<Rightarrow> Some [] | Some (Reg b m) \<Rightarrow> Some b | _ \<Rightarrow> None)"

lemma append_value:
  "append_skill_memory env i e fs =
     (let memory = memory_path (ge_root env) i; lock = memory_lock_path (ge_root env) i;
          fs1 = (if path_exists fs lock then fs else fs(lock \<mapsto> Reg [] (ge_file_mode env)));
          fs2 = (if path_exists fs1 memory then fs1 else fs1(memory \<mapsto> Reg [] (ge_file_mode env)))
      in if \<not> installed_at (ge_root env) i fs then (fs, Inr False)
         else case file_text fs2 memory of
           Inl x \<Rightarrow> (fs2, Inl x)
         | Inr existing \<Rightarrow>
             (case memory_addition i existing e of
                None \<Rightarrow> (fs2, Inr False)
              | Some added \<Rightarrow>
                  (case fs2 memory of Some (Reg b m) \<Rightarrow> fs2(memory \<mapsto> Reg (b @ added) m) | _ \<Rightarrow> fs2, Inr True)))"
  by (simp add: append_skill_memory_def memory_path_def memory_lock_path_def installed_at_def Let_def sbind_def split: sum.split option.split)

lemma append_frame:
  assumes "p \<noteq> memory_path (ge_root env) i" and "p \<noteq> memory_lock_path (ge_root env) i"
  shows "fst (append_skill_memory env i e fs) p = fs p"
proof -
  have "(case x of Some (Reg b m) \<Rightarrow> g(memory_path (ge_root env) i \<mapsto> Reg (b @ added) m) | _ \<Rightarrow> g) p = g p" for x and g :: fs and added
    using assms(1) by (simp split: option.split node.split)
  note stays = this
  let ?memory = "memory_path (ge_root env) i" and ?lock = "memory_lock_path (ge_root env) i"
  define fs1 where "fs1 = (if path_exists fs ?lock then fs else fs(?lock \<mapsto> Reg [] (ge_file_mode env)))"
  define fs2 where "fs2 = (if path_exists fs1 ?memory then fs1 else fs1(?memory \<mapsto> Reg [] (ge_file_mode env)))"
  have "fs1 p = fs p" using assms(2) by (simp add: fs1_def)
  moreover have "fs2 p = fs1 p" using assms(1) by (simp add: fs2_def)
  ultimately show ?thesis
    unfolding append_value Let_def fs1_def [symmetric] fs2_def [symmetric] by (simp add: stays split: sum.split option.split)
qed

lemma append_effect:
  assumes "installed_at (ge_root env) i fs" and "memory_bytes (ge_root env) i fs = Some old" and "read_text old = Inr t"
  shows "file_bytes (fst (append_skill_memory env i e fs)) (memory_path (ge_root env) i) =
    Inr (old @ (case memory_addition i t e of None \<Rightarrow> [] | Some added \<Rightarrow> added))"
proof -
  let ?memory = "memory_path (ge_root env) i" and ?lock = "memory_lock_path (ge_root env) i"
  define fs1 where "fs1 = (if path_exists fs ?lock then fs else fs(?lock \<mapsto> Reg [] (ge_file_mode env)))"
  define fs2 where "fs2 = (if path_exists fs1 ?memory then fs1 else fs1(?memory \<mapsto> Reg [] (ge_file_mode env)))"
  have "?memory \<noteq> ?lock" by (simp add: memory_path_def memory_lock_path_def)
  then have "fs1 ?memory = fs ?memory" by (simp add: fs1_def)
  then obtain m where m: "fs2 ?memory = Some (Reg old m)"
    using assms(2) by (auto simp: fs2_def path_exists_def memory_bytes_def split: option.splits node.splits)
  then have "file_text fs2 ?memory = Inr t" using assms(3) by (simp add: file_text_def file_bytes_def)
  then show ?thesis
    unfolding append_value Let_def fs1_def [symmetric] fs2_def [symmetric] using assms(1) m
    by (simp add: file_bytes_def split: option.split)
qed

lemma tried_files: "files_of (fst (tried vd stage m s)) = files_of (fst (m s))"
proof -
  obtain s1 r where m: "m s = (s1, r)" by (cases "m s")
  have "files_of (fst (learning_error vd stage e s1)) = files_of s1" for e
    using files_learning_error [of vd stage e] by (simp add: keeps_def same_files_def)
  then show ?thesis by (cases r) (simp_all add: tried_def scatch_def m)
qed

lemma remember_skill_files:
  obtains n e where "files_of (fst (remember_skill reg vd v lessons i s)) = fst (append_skill_memory (reg n) i e (files_of s))"
    and "se_outcome e = fst (skill_lesson vd v lessons i)" and "se_run_id e = es_run_id (vd_state vd)"
proof -
  obtain outcome lesson where l: "skill_lesson vd v lessons i = (outcome, lesson)" by fastforce
  let ?env = "reg (w_tick (oc_world s))"
  let ?e = "\<lparr>se_run_id = es_run_id (vd_state vd), se_repository = full_name (es_repo (vd_state vd)),
    se_task_summary = cf_summary (es_ci_failure (vd_state vd)), se_outcome = outcome, se_lesson = lesson, se_created_at = ge_utc_now ?env\<rparr>"
  obtain fs r where a: "append_skill_memory ?env i ?e (files_of s) = (fs, r)" by fastforce
  have "files_of (fst (remember_skill reg vd v lessons i s)) = fst (append_skill_memory ?env i ?e (files_of s))"
    unfolding remember_skill_def l prod.case tried_files
    by (simp add: sbind_def in_registry_def Let_def Skills.on_fs_def sfocus_def a split: sum.split)
  then show thesis by (rule that) (simp_all add: l)
qed

lemma failed_lesson: "\<not> vd_success vd \<Longrightarrow> fst (skill_lesson vd v lessons i) = SkillFailure"
  by (simp add: skill_lesson_def attributed_success_def Let_def split: option.split)

text \<open>
  The memory of a used skill after a failed run: where the package is installed in a directory of its own and
  the memory is a text, an entry that says failure is appended to it, unless the run already has its entry.
\<close>

definition remembers_failure :: "path \<Rightarrow> string \<Rightarrow> string list \<Rightarrow> fs \<Rightarrow> fs \<Rightarrow> string \<Rightarrow> bool" where
  "remembers_failure base run_id used fs fs' i \<longleftrightarrow>
     installed_at base i fs \<and> (\<forall>j \<in> set used. j \<noteq> i \<longrightarrow> join_root base j \<noteq> join_root base i) \<longrightarrow>
     (\<forall>old t. memory_bytes base i fs = Some old \<and> read_text old = Inr t \<longrightarrow>
        (\<exists>e. se_run_id e = run_id \<and> se_outcome e = SkillFailure \<and>
           file_bytes fs' (memory_path base i) = Inr (old @ (case memory_addition i t e of None \<Rightarrow> [] | Some added \<Rightarrow> added))))"

definition other_files_kept :: "path \<Rightarrow> string list \<Rightarrow> fs \<Rightarrow> fs \<Rightarrow> bool" where
  "other_files_kept base used fs fs' \<longleftrightarrow>
     (\<forall>p. (\<forall>i \<in> set used. p \<noteq> memory_path base i \<and> p \<noteq> memory_lock_path base i) \<longrightarrow> fs' p = fs p)"

lemma memory_paths:
  "memory_path base i = memory_path base j \<longleftrightarrow> join_root base i = join_root base j"
  "memory_path base i \<noteq> memory_lock_path base j" "join_root base i @ [''package''] \<noteq> memory_path base j"
  "join_root base i @ [''package''] \<noteq> memory_lock_path base j"
  by (simp_all add: memory_path_def memory_lock_path_def)

lemma kept_trans: "other_files_kept base [i] f g \<Longrightarrow> other_files_kept base used g h \<Longrightarrow> other_files_kept base (i # used) f h"
  by (simp add: other_files_kept_def)

lemma remember_each:
  assumes failed: "\<not> vd_success vd" and base: "\<And>n. ge_root (reg n) = base" and "distinct used"
  shows "other_files_kept base used (files_of s) (files_of (fst (each (remember_skill reg vd v lessons) used s))) \<and>
    (\<forall>i \<in> set used. remembers_failure base (es_run_id (vd_state vd)) used (files_of s)
       (files_of (fst (each (remember_skill reg vd v lessons) used s))) i)"
  using \<open>distinct used\<close>
proof (induction used arbitrary: s)
  case (Cons i used)
  let ?run = "es_run_id (vd_state vd)"
  have "settles (remember_skill reg vd v lessons i)"
    unfolding remember_skill_def by (simp add: case_prod_beta settles_rules split: option.split)
  then obtain s1 where s1: "remember_skill reg vd v lessons i s = (s1, Inr ())" using settlesD by fastforce
  let ?s2 = "fst (each (remember_skill reg vd v lessons) used s1)"
  have rest: "fst (each (remember_skill reg vd v lessons) (i # used) s) = ?s2" by (simp add: sbind_def s1)
  obtain n e where step: "files_of s1 = fst (append_skill_memory (reg n) i e (files_of s))"
    and e: "se_outcome e = SkillFailure" "se_run_id e = ?run"
    using remember_skill_files [of reg vd v lessons i s] s1 failed_lesson [OF failed] by (metis fst_conv)
  have "other_files_kept base [i] (files_of s) (files_of s1)"
    unfolding other_files_kept_def step using append_frame [of _ "reg n" i] by (simp add: base)
  note one = this
  from Cons have IH: "other_files_kept base used (files_of s1) (files_of ?s2)"
    "\<forall>j \<in> set used. remembers_failure base ?run used (files_of s1) (files_of ?s2) j" by simp_all
  have "remembers_failure base ?run (i # used) (files_of s) (files_of ?s2) i"
    unfolding remembers_failure_def
  proof (intro impI allI)
    fix old t
    assume own: "installed_at base i (files_of s) \<and> (\<forall>j \<in> set (i # used). j \<noteq> i \<longrightarrow> join_root base j \<noteq> join_root base i)"
      and old: "memory_bytes base i (files_of s) = Some old \<and> read_text old = Inr t"
    have "i \<notin> set used" using Cons.prems by simp
    then have "files_of ?s2 (memory_path base i) = files_of s1 (memory_path base i)"
      using IH(1) own unfolding other_files_kept_def by (metis memory_paths(1,2) list.set_intros(2))
    then show "\<exists>e. se_run_id e = ?run \<and> se_outcome e = SkillFailure \<and> file_bytes (files_of ?s2) (memory_path base i) =
        Inr (old @ (case memory_addition i t e of None \<Rightarrow> [] | Some added \<Rightarrow> added))"
      using append_effect [of "reg n" i "files_of s" old t e] own old e by (auto simp: base step file_bytes_def)
  qed
  moreover have "remembers_failure base ?run (i # used) (files_of s) (files_of ?s2) j" if j: "j \<in> set used" for j
    unfolding remembers_failure_def
  proof (intro impI)
    assume own: "installed_at base j (files_of s) \<and> (\<forall>k \<in> set (i # used). k \<noteq> j \<longrightarrow> join_root base k \<noteq> join_root base j)"
    have "i \<noteq> j" using j Cons.prems by auto
    then have "files_of s1 (memory_path base j) = files_of s (memory_path base j)"
      "files_of s1 (join_root base j @ [''package'']) = files_of s (join_root base j @ [''package''])"
      using one own memory_paths [of base j] unfolding other_files_kept_def by (metis list.set_intros(1) list.set(1) list.set(2) insert_iff empty_iff)+
    with own have "installed_at base j (files_of s1)" "memory_bytes base j (files_of s1) = memory_bytes base j (files_of s)"
      by (simp_all add: installed_at_def memory_bytes_def)
    with IH(2) own j show "\<forall>old t. memory_bytes base j (files_of s) = Some old \<and> read_text old = Inr t \<longrightarrow>
        (\<exists>e. se_run_id e = ?run \<and> se_outcome e = SkillFailure \<and> file_bytes (files_of ?s2) (memory_path base j) =
           Inr (old @ (case memory_addition j t e of None \<Rightarrow> [] | Some added \<Rightarrow> added)))"
      by (simp add: remembers_failure_def)
  qed
  ultimately show ?case using kept_trans [OF one IH(1)] unfolding rest by simp
qed (simp add: other_files_kept_def)

text \<open>What a failed run leaves in the files: the memories of the used skills, of a run that ended with a failed repair\<close>

definition failure_memories :: "learning_env \<Rightarrow> verdict \<Rightarrow> path \<Rightarrow> string list \<Rightarrow> fs \<Rightarrow> fs \<Rightarrow> bool" where
  "failure_memories env vd base used fs fs' \<longleftrightarrow>
     (if le_registry env \<noteq> None \<and> vd_class vd \<in> {None, Some FCRepair}
      then other_files_kept base used fs fs' \<and> (\<forall>i \<in> set used. remembers_failure base (es_run_id (vd_state vd)) used fs fs' i)
      else fs' = fs)"

text \<open>The root of the registry is set once, by its constructor.\<close>

definition registry_at :: "learning_env \<Rightarrow> path \<Rightarrow> bool" where
  "registry_at env base \<longleftrightarrow> (\<forall>reg n. le_registry env = Some reg \<longrightarrow> ge_root (reg n) = base)"

lemma failed_remember_skills:
  assumes "\<not> vd_success vd" and "registry_at env base"
  shows "failure_memories env vd base (used_skill_ids v) (files_of s) (files_of (fst (remember_skills env vd v s)))"
proof (cases "le_registry env")
  case (Some reg)
  have "distinct (used_skill_ids v)" by (simp add: used_skill_ids_def)
  moreover have "ge_root (reg n) = base" for n using assms(2) Some by (simp add: registry_at_def)
  ultimately show ?thesis using remember_each [OF assms(1)] assms(1) Some
    by (auto simp: failure_memories_def remember_skills_def sbind_get)
qed (simp add: failure_memories_def remember_skills_def)

lemma failed_learn_files:
  assumes "\<not> vd_success vd" and "miner_writes_no_file env" and "registry_at env base"
    and "learn env vd v li s = (s', r)"
  shows "case r of Inl e \<Rightarrow> files_of s' = files_of s | Inr u \<Rightarrow> failure_memories env vd base (used_skill_ids v) (files_of s) (files_of s')"
proof -
  note stages = files_stages [OF assms(1)]
  obtain s1 r1 where 1: "learn_episode env vd v li s = (s1, r1)" by fastforce
  have f1: "files_of s1 = files_of s" using keepsD [OF stages(1) 1] by (simp add: same_files_def)
  show ?thesis
  proof (cases r1)
    case (Inl e)
    then show ?thesis using assms(4) 1 f1 by (auto simp: learn_def sbind_def)
  next
    case (Inr u)
    obtain s2 where 2: "record_skill_uses env vd v s1 = (s2, Inr ())" using settlesD [OF settles_stages(1)] by fastforce
    obtain s3 where 3: "learn_fact env vd li s2 = (s3, Inr ())" using settlesD [OF settles_stages(2)] by fastforce
    obtain s4 where 4: "learn_skills env vd v li s3 = (s4, Inr ())" using settlesD [OF settles_stages(3)] by fastforce
    obtain s5 where 5: "remember_skills env vd v s4 = (s5, Inr ())" using settlesD [OF settles_stages(4)] by fastforce
    have "files_of s4 = files_of s"
      using f1 keepsD [OF stages(2) 2] keepsD [OF stages(3) 3] keepsD [OF stages(4) [OF assms(2)] 4] by (simp add: same_files_def)
    moreover have "s' = s5" "r = Inr ()" using assms(4) 1 2 3 4 5 Inr by (simp_all add: learn_def sbind_def)
    ultimately show ?thesis using failed_remember_skills [OF assms(1,3), of v s4] 5 by simp
  qed
qed

text \<open>
  C31: a failed run teaches no procedure and no fact. However it ends and whatever the miner and the
  consolidator would say, the registry keeps its skills, their manifests and its index, the memory store its
  facts, and nothing is reported as learned. The files stay as they are, but for the memories of the skills the
  run used, and these only when the run ended with a failed repair or no class of failure: then every used
  skill that is installed gets one entry of the run, which says failure, and never one that says success. A run
  that failed by its budget, by policy, by the model or by its infrastructure is not remembered. The miner's
  gateway, which asks a model, writes no file itself, and the registry has one root.
\<close>

theorem failed_run_teaches_nothing:
  assumes "\<not> vd_success vd" and "persist_learning env vd s = (s', r)"
    and "miner_writes_no_file env" and "registry_at env base"
  shows "knowledge_kept s s' \<and>
    (case (snd (trajectory_of env vd s), r) of
       (Inr v, Inr u) \<Rightarrow> failure_memories env vd base (used_skill_ids v) (files_of s) (files_of s')
     | _ \<Rightarrow> files_of s' = files_of s)"
proof -
  have "keeps knowledge_kept (persist_learning env vd)"
    unfolding persist_learning_def
    by (intro knowledge_frame.bind knowledge_kept_learn knowledge_rules assms)
      (simp add: keeps_def trajectory_of_def knowledge_frame.refl)
  from keepsD [OF this assms(2)] have kept: "knowledge_kept s s'" .
  have same: "trajectory_of env vd s = (s, snd (trajectory_of env vd s))" by (simp add: trajectory_of_def)
  show ?thesis
  proof (cases "snd (trajectory_of env vd s)")
    case (Inl e)
    then show ?thesis using kept assms(2) same by (auto simp: persist_learning_def sbind_def split: sum.splits)
  next
    case v: (Inr v)
    show ?thesis
    proof (cases "learning_of env vd v")
      case (Inl e)
      then show ?thesis using kept v assms(2) same by (auto simp: persist_learning_def sbind_def)
    next
      case (Inr li)
      obtain s1 r1 where l: "learn env vd v li s = (s1, r1)" by fastforce
      with v Inr same assms(2) have "s' = s1" "r = (case r1 of Inl e \<Rightarrow> Inl e | Inr _ \<Rightarrow> Inr (outcome_of vd v li s1))"
        by (auto simp: persist_learning_def sbind_def split: sum.splits)
      with failed_learn_files [OF assms(1,3,4) l] show ?thesis using kept v by (cases r1) simp_all
    qed
  qed
qed

section \<open>Decisions are made once\<close>

lemma map_of_prefix: "prefix xs ys \<Longrightarrow> map_of xs k = Some x \<Longrightarrow> map_of ys k = Some x"
  by (auto simp: prefix_def map_add_def split: option.splits)

lemma skill_decision_replayed:
  assumes "skill_operation_result (''learning-decision:'' @ es_run_id (vd_state vd)) (oc_skills s) = Some p"
  shows "skill_decision env vd gateway v li s = (s, le_read_decision env p)"
  using assms by (simp add: skill_decision_def Let_def sbind_get)

lemma post_run_call_returns: "\<exists>s'. post_run_call vd agent s = (s', Inr ()) \<and> oc_skills s' = oc_skills s"
proof -
  let ?m = "emit_event (vd_rt vd) (vd_state vd) MODEL_CALL (Some agent) None ''final''
       [(''phase'', JStr ''structured''), (''budget_scope'', JStr ''post_run'')]"
  obtain w e where "?m (oc_world s) = (w, Inr e)" using settlesD [OF settles_emit] by blast
  then show ?thesis by (simp add: post_run_call_def in_world_def sfocus_def sbind_def)
qed

lemma operation_recorded:
  "sfocus oc_skills (\<lambda>t s. s\<lparr>oc_skills := t\<rparr>) (record_skill_operation key p) s =
     (s\<lparr>oc_skills := fst (record_skill_operation key p (oc_skills s))\<rparr>, Inr (map_of (kt_operations (oc_skills s)) key = None))"
  by (simp add: sfocus_def record_skill_operation_def)

lemma skill_decision_made:
  assumes "skill_decision env vd gateway v li s = (s', Inr d)"
    and "skill_operation_result (''learning-decision:'' @ es_run_id (vd_state vd)) (oc_skills s) = None"
  obtains s1 existing w w' where "decide (le_repr env) gateway v existing (used_skill_ids v) (Some li) w = (w', Inr d)"
    and "skill_operation_result (''learning-decision:'' @ es_run_id (vd_state vd)) (oc_skills s') = Some (le_dump_decision env d)"
proof -
  let ?key = "''learning-decision:'' @ es_run_id (vd_state vd)"
  obtain s1 where 1: "post_run_call vd ''skill-miner'' s = (s1, Inr ())" "oc_skills s1 = oc_skills s"
    using post_run_call_returns by blast
  from assms have "sbind (in_world (decide (le_repr env) gateway v (map json_registered (list_skills True (oc_skills s1))) (used_skill_ids v) (Some li)))
      (\<lambda>d. sbind (sfocus oc_skills (\<lambda>t s. s\<lparr>oc_skills := t\<rparr>) (record_skill_operation ?key (le_dump_decision env d))) (\<lambda>_. sret d)) s1
      = (s', Inr d)"
    using 1 by (simp add: skill_decision_def Let_def sbind_get sbind_steps(1) [of "post_run_call vd ''skill-miner''" s s1 "()", OF 1(1)])
  then obtain s2 where 2: "in_world (decide (le_repr env) gateway v (map json_registered (list_skills True (oc_skills s1))) (used_skill_ids v) (Some li)) s1
      = (s2, Inr d)" "s' = s2\<lparr>oc_skills := fst (record_skill_operation ?key (le_dump_decision env d) (oc_skills s2))\<rparr>"
    by (auto simp: sbind_Inr_iff operation_recorded)
  from 2(1) have 3: "decide (le_repr env) gateway v (map json_registered (list_skills True (oc_skills s1))) (used_skill_ids v) (Some li) (oc_world s1)
      = (oc_world s2, Inr d)" "oc_skills s2 = oc_skills s"
    using 1(2) by (auto simp: in_world_def sfocus_def split: prod.splits)
  have "map_of (kt_operations (oc_skills s)) ?key = None" using assms(2) by (simp add: skill_operation_result_def)
  moreover from this have "kt_operations (oc_skills s') = kt_operations (oc_skills s) @ [(?key, le_dump_decision env d)]"
    using 2(2) 3(2) by (simp add: record_skill_operation_def insert_or_ignore_def map_of_eq_None_iff)
  ultimately have "skill_operation_result ?key (oc_skills s') = Some (le_dump_decision env d)"
    by (simp add: skill_operation_result_def map_add_def)
  with 3(1) show ?thesis by (rule that)
qed

text \<open>
  A successful run without tool calls is decided without a model, whatever the gateway is; the call of the
  model is recorded all the same.
\<close>

lemma idle_run_records_a_call:
  assumes "skill_operation_result (''learning-decision:'' @ es_run_id (vd_state vd)) (oc_skills s) = None"
    and "tv_final_status v = FinalSuccess" and "sum_list (map at_tool_calls (tv_agents v)) = 0" and "\<not> reusable_script_created v"
  shows "\<exists>s1 s2. post_run_call vd ''skill-miner'' s = (s1, Inr ()) \<and> skill_decision env vd gateway v li s = (s2, Inr nothing_to_learn) \<and>
    oc_world s2 = oc_world s1"
proof -
  obtain s1 where 1: "post_run_call vd ''skill-miner'' s = (s1, Inr ())" using post_run_call_returns by blast
  have "decide (le_repr env) gateway v existing (used_skill_ids v) (Some li) w = (w, Inr nothing_to_learn)" for existing w
    using assms(2-4) by (simp add: decide_def del: sum_list_eq_0_iff)
  then show ?thesis
    using assms(1) 1 by (simp add: skill_decision_def Let_def sbind_get sbind_def in_world_def sfocus_def record_skill_operation_def)
qed

text \<open>
  C32: the model decides once what a run teaches. When the decision of a run has been made, then in every
  later state of the registry, whose log of operations only grows, deciding again gives the same decision,
  asks no model, records no call and changes nothing, so that a crash after the decision is replayed with
  it. Given: the gateway returns decisions that pass their validator, and a decision that passes it is read back
  as it was stored.
\<close>

theorem skill_decision_made_once:
  assumes "\<And>p q s s' d. gateway p q s = (s', Inr d) \<Longrightarrow> action_payload_is_complete d = Inr d"
    and "action_payload_is_complete d = Inr d \<Longrightarrow> le_read_decision env (le_dump_decision env d) = Inr d"
    and "skill_decision env vd gateway v li s = (s1, Inr d)"
    and "prefix (kt_operations (oc_skills s1)) (kt_operations (oc_skills s2))"
  shows "skill_decision env vd gateway' v' li' s2 = (s2, Inr d)"
proof -
  let ?key = "''learning-decision:'' @ es_run_id (vd_state vd)"
  have "\<exists>p. skill_operation_result ?key (oc_skills s1) = Some p \<and> le_read_decision env p = Inr d"
  proof (cases "skill_operation_result ?key (oc_skills s)")
    case None
    with assms(3) obtain existing w w' where made: "decide (le_repr env) gateway v existing (used_skill_ids v) (Some li) w = (w', Inr d)"
      and "skill_operation_result ?key (oc_skills s1) = Some (le_dump_decision env d)"
      by (rule skill_decision_made)
    moreover have "action_payload_is_complete d = Inr d"
      using decide_allowed [OF assms(1) made] by (simp add: allowed_decision_def)
    ultimately show ?thesis using assms(2) by blast
  next
    case (Some p)
    then show ?thesis using skill_decision_replayed [OF Some] assms(3) by auto
  qed
  then obtain p where p: "skill_operation_result ?key (oc_skills s1) = Some p" "le_read_decision env p = Inr d" by blast
  have "skill_operation_result ?key (oc_skills s2) = Some p"
    using p(1) map_of_prefix [OF assms(4)] by (simp add: skill_operation_result_def)
  from skill_decision_replayed [OF this] p(2) show ?thesis by simp
qed

section \<open>The learning part of the graph\<close>

text \<open>The events before the learning do not matter to it: a stage adds its own behind them.\<close>

definition behind :: "run_event list \<Rightarrow> outcome_state \<Rightarrow> outcome_state" where
  "behind es s = s\<lparr>oc_events := es @ oc_events s\<rparr>"

definition event_blind :: "(outcome_state, 'a) io \<Rightarrow> bool" where
  "event_blind m \<longleftrightarrow> (\<forall>es s. m (behind es s) = apfst (behind es) (m s))"

named_theorems blind_rules \<open>computations that do not read the events\<close>

lemma behind_simps [simp]: "oc_world (behind es s) = oc_world s" "oc_memory (behind es s) = oc_memory s"
  "oc_skills (behind es s) = oc_skills s" "oc_errors (behind es s) = oc_errors s"
  "oc_learning_decision (behind es s) = oc_learning_decision s" "oc_events (behind es s) = es @ oc_events s"
  "oc_episode_id (behind es s) = oc_episode_id s" "oc_candidate_skill_id (behind es s) = oc_candidate_skill_id s"
  "oc_skill_action (behind es s) = oc_skill_action s" "oc_facts_added (behind es s) = oc_facts_added s"
  "oc_skill_memory (behind es s) = oc_skill_memory s"
  by (simp_all add: behind_def)

lemma blind_pure [blind_rules]: "event_blind (sret x)" "event_blind (sraise e)" "event_blind (slift r)"
  by (simp_all add: event_blind_def)

lemma blind_get: "(\<And>es s. f (behind es s) = f s) \<Longrightarrow> event_blind (sget f)"
  by (simp add: event_blind_def)

lemma blind_modify: "(\<And>es s. f (behind es s) = behind es (f s)) \<Longrightarrow> event_blind (smodify f)"
  by (simp add: event_blind_def)

lemma blind_bind [blind_rules]: "event_blind m \<Longrightarrow> (\<And>x. event_blind (f x)) \<Longrightarrow> event_blind (sbind m f)"
  by (auto simp: event_blind_def sbind_def split: prod.split sum.split)

lemma blind_catch: "event_blind m \<Longrightarrow> (\<And>e k. h e = Some k \<Longrightarrow> event_blind k) \<Longrightarrow> event_blind (scatch m h)"
  by (auto simp: event_blind_def scatch_def split: prod.split sum.split option.split)

lemma blind_if [blind_rules]: "(b \<Longrightarrow> event_blind m) \<Longrightarrow> (\<not> b \<Longrightarrow> event_blind m') \<Longrightarrow> event_blind (if b then m else m')"
  by simp

lemma blind_option [blind_rules]:
  "(x = None \<Longrightarrow> event_blind m) \<Longrightarrow> (\<And>y. x = Some y \<Longrightarrow> event_blind (f y)) \<Longrightarrow> event_blind (case x of None \<Rightarrow> m | Some y \<Rightarrow> f y)"
  by (cases x) auto

lemma blind_prod [blind_rules]: "(\<And>a b. x = (a, b) \<Longrightarrow> event_blind (f a b)) \<Longrightarrow> event_blind (case x of (a, b) \<Rightarrow> f a b)"
  by (cases x) auto

lemma blind_stores [blind_rules]: "event_blind (in_world m)" "event_blind (in_memory m')" "event_blind (in_registry reg m'')"
  "event_blind (sfocus oc_skills (\<lambda>t s. s\<lparr>oc_skills := t\<rparr>) m3)"
  by (auto simp: event_blind_def in_world_def in_memory_def in_registry_def sfocus_def behind_def Let_def
      split: prod.split option.split)

lemma blind_noted [blind_rules]: "event_blind (noted vd ty k p)"
  unfolding noted_def emitted_def by (intro blind_rules blind_modify) (simp add: behind_def)

lemma blind_learning_error [blind_rules]: "event_blind (learning_error vd stage e)"
  unfolding learning_error_def Let_def by (intro blind_rules blind_modify blind_get) (simp_all add: behind_def)

lemma blind_tried [blind_rules]: "event_blind m \<Longrightarrow> event_blind (tried vd stage m)"
  unfolding tried_def by (rule blind_catch) (auto intro: blind_rules)

lemma blind_each [blind_rules]: "(\<And>x. event_blind (f x)) \<Longrightarrow> event_blind (each f xs)"
  by (induction xs) (auto intro: blind_rules)

lemma blind_small [blind_rules]: "event_blind (clock rt)" "event_blind (post_run_call vd agent)" "event_blind (asserted x)"
  unfolding clock_def post_run_call_def asserted_def by (intro blind_rules)+

lemma blind_learn_episode: "event_blind (learn_episode env vd v li)"
  unfolding learn_episode_def Let_def
  by (intro blind_rules blind_get blind_catch blind_modify) (auto simp: behind_def intro: blind_rules)

lemma blind_record_uses: "event_blind (record_skill_uses env vd v)"
  unfolding record_skill_uses_def record_skill_use_def by (intro blind_rules blind_get) simp

lemma blind_fact: "event_blind (learn_fact env vd li)"
  unfolding learn_fact_def fact_decision_def Let_def by (intro blind_rules blind_get blind_modify) (simp_all add: behind_def)

lemma blind_skills: "event_blind (learn_skills env vd v li)"
proof -
  have 1: "event_blind (skill_decision env vd gateway v li)" for gateway
    unfolding skill_decision_def Let_def by (intro blind_rules blind_get) simp_all
  have 2: "event_blind (install_decided reg vd d c)" for reg d c
    unfolding install_decided_def Let_def by (intro blind_rules blind_modify) (simp_all add: behind_def)
  show ?thesis
    unfolding learn_skills_def mine_skills_def by (intro blind_rules blind_modify 1 2) (simp add: behind_def)
qed

lemma blind_memories: "event_blind (remember_skills env vd v)"
  unfolding remember_skills_def remember_skill_def
  by (intro blind_rules blind_get blind_modify) (simp_all add: behind_def)

lemma blind_learn: "event_blind (learn env vd v li)"
  unfolding learn_def
  by (intro blind_rules blind_learn_episode blind_record_uses blind_fact blind_skills blind_memories)

lemma persist_learning_behind:
  "persist_learning env vd (behind es s) =
     (case persist_learning env vd s of (s', r) \<Rightarrow>
        (behind es s', map_sum id (\<lambda>u. u\<lparr>ou_events := es @ ou_events u\<rparr>) r))"
proof -
  have outcome: "outcome_of vd v li (behind es s') = (outcome_of vd v li s')\<lparr>ou_events := es @ oc_events s'\<rparr>" for v li s'
    by (simp add: outcome_of_def learning_summary_def)
  have blind: "learn env vd v li (behind es s) = apfst (behind es) (learn env vd v li s)" for v li
    using blind_learn by (auto simp: event_blind_def)
  define q where "q = snd (trajectory_of env vd s)"
  have q: "trajectory_of env vd s = (s, q)" "trajectory_of env vd (behind es s) = (behind es s, q)"
    by (simp_all add: q_def trajectory_of_def)
  show ?thesis
  proof (cases q)
    case (Inr v)
    show ?thesis
    proof (cases "learning_of env vd v")
      case li: (Inr li)
      obtain s1 r1 where 1: "learn env vd v li s = (s1, r1)" by (cases "learn env vd v li s")
      have ev: "ou_events (outcome_of vd v li s1) = oc_events s1" by (simp add: outcome_of_def)
      show ?thesis using q Inr li 1 blind [of v li] ev by (cases r1) (simp_all add: persist_learning_def sbind_def outcome)
    qed (use q Inr in \<open>simp add: persist_learning_def sbind_def\<close>)
  qed (use q in \<open>simp add: persist_learning_def sbind_def\<close>)
qed

definition learn_in :: "learning_env \<Rightarrow> runtime \<Rightarrow> memory_tables option \<Rightarrow> skill_tables \<Rightarrow>
    bool \<Rightarrow> string option \<Rightarrow> failure_class option \<Rightarrow> evo_state \<Rightarrow> (world, run_event list) io" where
  "learn_in env rt m t success reason fc st = (\<lambda>w.
     case persist_learning env \<lparr>vd_rt = rt, vd_state = st, vd_success = success, vd_reason = reason, vd_class = fc, vd_details = []\<rparr>
         (start_outcome m t w) of (s, r) \<Rightarrow> (oc_world s, map_sum id ou_events r))"

definition graph_update :: "evo_state \<Rightarrow> outcome_update \<Rightarrow> evo_state" where
  "graph_update st u =
     st\<lparr>es_phase := Some (ou_phase u), es_status := Some (ou_status u), es_failure_reason := ou_failure_reason u,
        es_failure_class := ou_failure_class u, es_failure_stage := ou_failure_stage u,
        es_learning_deferred := ou_learning_deferred u, es_events := es_events st @ ou_events u\<rparr>"

lemma emit_event_clock: "emit_event (rt\<lparr>rt_learn := l\<rparr>) st ty a i k p = emit_event rt st ty a i k p"
  "update_run_status (rt\<lparr>rt_learn := l\<rparr>) st status = update_run_status rt st status"
  by (simp_all add: emit_event_def update_run_status_def fun_eq_iff)

text \<open>
  The two models of the end of a run agree: with \<open>learn_in\<close>, which runs the whole of the learning over the
  stores of memory and skills, as the learning part of a runtime, the graph's \<open>persist_run_outcome\<close> leaves the
  world and returns the state of \<open>persist_outcome\<close>.
\<close>

lemma outcome_in_graph:
  "persist_run_outcome (rt\<lparr>rt_learn := learn_in env rt m t\<rparr>) st success reason fc w =
     (case persist_outcome env rt st success reason fc [] (start_outcome m t w) of
        (s, r) \<Rightarrow> (oc_world s, map_sum id (graph_update st) r))"
proof -
  define cls where "cls = (case fc of Some c \<Rightarrow> Some c | None \<Rightarrow> resolve_failure_class st success)"
  define vd where "vd = \<lparr>vd_rt = rt, vd_state = st, vd_success = success, vd_reason = reason, vd_class = cls, vd_details = []\<rparr>"
  define p where "p = [(''status'', JStr (outcome_str success)), (''reason'', jopt reason), (''failure_class'', json_failure_class cls)]"
  define ty where "ty = (if success then RUN_COMPLETED else RUN_FAILED)"
  define status where "status = (if success then Success else Failed)"
  obtain w1 e where e: "emit_event rt st ty None None ''terminal'' p w = (w1, Inr e)"
    using settlesD [OF settles_emit] by blast
  obtain w2 where w2: "update_run_status rt st status w1 = (w2, Inr ())"
    by (simp add: update_run_status_def)
  obtain s r where run: "persist_learning env vd (start_outcome m t w2) = (s, r)" by (cases "persist_learning env vd (start_outcome m t w2)")
  have start: "(start_outcome m t w)\<lparr>oc_events := [e], oc_world := w2\<rparr> = behind [e] (start_outcome m t w2)"
    by (simp add: start_outcome_def behind_def)
  have vd: "vd_rt vd = rt" "vd_state vd = st" "vd_success vd = success" "vd_reason vd = reason" "vd_class vd = cls"
    by (simp_all add: vd_def)
  have begun: "oc_world (start_outcome m t w) = w" "oc_events (start_outcome m t w) = []" by (simp_all add: start_outcome_def)
  have "noted vd ty ''terminal'' p (start_outcome m t w) = ((start_outcome m t w)\<lparr>oc_world := w1, oc_events := [e]\<rparr>, Inr ())"
    by (simp add: noted_def emitted_def in_world_def sfocus_def sbind_def vd begun e)
  then have "persist_outcome env rt st success reason fc [] (start_outcome m t w) =
      persist_learning env vd (behind [e] (start_outcome m t w2))"
    unfolding persist_outcome_def Let_def cls_def [symmetric] vd_def [symmetric] p_def [symmetric] ty_def [symmetric] status_def [symmetric]
    by (simp add: sbind_def in_world_def sfocus_def w2 start [symmetric])
  then have full: "persist_outcome env rt st success reason fc [] (start_outcome m t w) =
      (behind [e] s, map_sum id (\<lambda>u. u\<lparr>ou_events := e # ou_events u\<rparr>) r)"
    by (simp add: persist_learning_behind run)
  have outcome: "r = Inr u \<Longrightarrow> \<exists>v li s'. u = outcome_of vd v li s'" for u
    using run by (auto simp: persist_learning_def sbind_Inr_iff)
  have "persist_run_outcome (rt\<lparr>rt_learn := learn_in env rt m t\<rparr>) st success reason fc w =
      (oc_world s, map_sum id (graph_update st) (map_sum id (\<lambda>u. u\<lparr>ou_events := e # ou_events u\<rparr>) r))"
    unfolding persist_run_outcome_def Let_def cls_def [symmetric] outcome_str_def [symmetric] p_def [symmetric] ty_def [symmetric]
      status_def [symmetric] emit_event_clock
    using e w2 run outcome
    by (cases r) (auto simp: sbind_def learn_in_def vd_def [symmetric] graph_update_def outcome_of_def failure_stage_of_def vd
      status_def)
  then show ?thesis by (simp add: full)
qed

section \<open>A run that learns\<close>

definition demo_new_skill :: learning_decision where
  "demo_new_skill = \<lparr>ld_action = NewSkill, ld_rationale = ''reusable'', ld_candidate_skill = Some demo_skill,
     ld_target_skill_id = None, ld_usage_lessons = []\<rparr>"

definition demo_learning :: "pyexc option \<Rightarrow> learning_env" where
  "demo_learning episode_error = \<lparr>le_coercion = strict_coercion, le_repr = (\<lambda>_. []), le_encode = (\<lambda>_. []), le_fingerprint = (\<lambda>_ _. ''f''),
     le_uuid5 = id, le_episode_error = episode_error, le_consolidator = None, le_dump_fact = (\<lambda>_. []),
     le_read_fact = (\<lambda>_. Inl AssertionError), le_registry = Some (\<lambda>_. demo_registry None),
     le_miner = Some (\<lambda>_ _. sret demo_new_skill), le_dump_decision = (\<lambda>_. []), le_read_decision = (\<lambda>_. Inr demo_new_skill)\<rparr>"

definition demo_verdict :: "bool \<Rightarrow> verdict" where
  "demo_verdict success = \<lparr>vd_rt = green_rt, vd_state = green_state, vd_success = success, vd_reason = None,
     vd_class = (if success then None else Some FCRepair), vd_details = []\<rparr>"

definition demo_start :: outcome_state where
  "demo_start = start_outcome (Some empty_memory) empty_skills green_world"

lemma demo_trajectory: "\<exists>v li. trajectory_of (demo_learning e) (demo_verdict False) demo_start = (demo_start, Inr v) \<and>
    learning_of (demo_learning e) (demo_verdict False) v = Inr li"
proof -
  have "(case snd (trajectory_of (demo_learning e) (demo_verdict False) demo_start) of
      Inr v \<Rightarrow> \<not> isl (learning_of (demo_learning e) (demo_verdict False) v) | Inl x \<Rightarrow> False)"
    by code_simp
  then obtain v where v: "snd (trajectory_of (demo_learning e) (demo_verdict False) demo_start) = Inr v"
    and "\<not> isl (learning_of (demo_learning e) (demo_verdict False) v)" by (auto split: sum.splits)
  moreover from this(2) obtain li where "learning_of (demo_learning e) (demo_verdict False) v = Inr li"
    by (cases "learning_of (demo_learning e) (demo_verdict False) v") auto
  ultimately show ?thesis by (auto simp: trajectory_of_def)
qed

theorem learning_keeps_verdict_witness:
  "\<exists>s' u. persist_learning (demo_learning None) (demo_verdict False) demo_start = (s', Inr u) \<and>
     keeps_verdict (demo_verdict False) u \<and> ou_episode_id u = Some ''episode:r''"
proof -
  obtain v li where "trajectory_of (demo_learning None) (demo_verdict False) demo_start = (demo_start, Inr v)"
    "learning_of (demo_learning None) (demo_verdict False) v = Inr li"
    using demo_trajectory by blast
  note outcome = learning_keeps_verdict [OF this]
  have no_error: "le_episode_error (demo_learning None) = None" by (simp add: demo_learning_def)
  from outcome have "\<exists>s' u. persist_learning (demo_learning None) (demo_verdict False) demo_start = (s', Inr u) \<and>
     keeps_verdict (demo_verdict False) u \<and>
     (episode_wanted (demo_verdict False) demo_start \<longrightarrow> ou_episode_id u = Some (''episode:'' @ es_run_id (vd_state (demo_verdict False))))"
    using no_error by (simp only: if_cancel option.case) blast
  moreover have "episode_wanted (demo_verdict False) demo_start"
    by (simp add: episode_wanted_def demo_start_def start_outcome_def demo_verdict_def should_persist_episode_def)
  ultimately show ?thesis by (auto simp: demo_verdict_def green_state_def)
qed

text \<open>A failed run that used an installed skill\<close>

definition demo_used :: outcome_state where
  "demo_used = demo_start\<lparr>oc_world := green_world
     \<lparr>w_recorder := snd (emit 3 [] ''r'' SKILL_USED (Some ''worker'') (Some ''i1'') [(''skill_id'', JStr ''fix-it'')] (Some ''1'') (new_recorder None)),
      w_fs := [[''r'', ''fix-it'', ''package''] \<mapsto> Dir]\<rparr>\<rparr>"

lemma demo_used_runs:
  "case (snd (trajectory_of (demo_learning None) (demo_verdict False) demo_used),
         snd (persist_learning (demo_learning None) (demo_verdict False) demo_used)) of
     (Inr v, Inr u) \<Rightarrow> used_skill_ids v = [''fix-it''] | _ \<Rightarrow> False"
  by code_simp

theorem failed_run_teaches_nothing_witness:
  "\<exists>s' e added. fst (persist_learning (demo_learning None) (demo_verdict False) demo_used) = s' \<and> knowledge_kept demo_used s' \<and>
     se_run_id e = ''r'' \<and> se_outcome e = SkillFailure \<and> memory_addition ''fix-it'' [] e = Some added \<and>
     file_bytes (files_of s') [''r'', ''fix-it'', ''memory.md''] = Inr added"
proof -
  let ?env = "demo_learning None" and ?vd = "demo_verdict False"
  obtain s' r where run: "persist_learning ?env ?vd demo_used = (s', r)" by fastforce
  with demo_used_runs obtain v u where v: "snd (trajectory_of ?env ?vd demo_used) = Inr v" and u: "r = Inr u"
    and used: "used_skill_ids v = [''fix-it'']" by (auto split: sum.splits)
  have "\<not> vd_success ?vd" by (simp add: demo_verdict_def)
  moreover have "miner_writes_no_file ?env" by (auto simp: miner_writes_no_file_def demo_learning_def)
  moreover have "registry_at ?env [''r'']" by (auto simp: registry_at_def demo_learning_def demo_registry_def)
  ultimately have facts: "knowledge_kept demo_used s'" "failure_memories ?env ?vd [''r''] [''fix-it''] (files_of demo_used) (files_of s')"
    using failed_run_teaches_nothing [of ?vd ?env demo_used s' r "[''r'']"] run v u used by simp_all
  have "le_registry ?env \<noteq> None" "vd_class ?vd = Some FCRepair" "es_run_id (vd_state ?vd) = ''r''"
    by (simp_all add: demo_learning_def demo_verdict_def green_state_def)
  with facts(2) have "remembers_failure [''r''] ''r'' [''fix-it''] (files_of demo_used) (files_of s') ''fix-it''"
    by (simp add: failure_memories_def)
  moreover have "join_root [''r''] ''fix-it'' = [''r'', ''fix-it'']" by code_simp
  moreover have "read_text [] = Inr []" by code_simp
  ultimately obtain e where e: "se_run_id e = ''r''" "se_outcome e = SkillFailure"
    "file_bytes (files_of s') [''r'', ''fix-it'', ''memory.md''] = Inr (case memory_addition ''fix-it'' [] e of None \<Rightarrow> [] | Some a \<Rightarrow> a)"
    by (auto simp: remembers_failure_def installed_at_def memory_bytes_def memory_path_def demo_used_def)
  moreover have "\<not> contains (memory_marker ''r'' ''fix-it'') []" by code_simp
  then obtain added where "memory_addition ''fix-it'' [] e = Some added" using e(1) by (simp add: memory_addition_def)
  ultimately show ?thesis using run facts(1) by (metis fst_conv option.case(2))
qed

lemma demo_decided:
  "\<exists>s1. skill_decision (demo_learning None) (demo_verdict True) (\<lambda>_ _. sret demo_new_skill) demo_view li demo_start = (s1, Inr demo_new_skill)"
proof -
  have "\<not> isl (compact_tool_traces (tv_tool_calls demo_view))" by code_simp
  then obtain tools where "compact_tool_traces (tv_tool_calls demo_view) = Inr tools"
    by (cases "compact_tool_traces (tv_tool_calls demo_view)") auto
  moreover have "tv_skills_used demo_view = []" "tv_final_status demo_view = FinalSuccess"
    "sum_list (map at_tool_calls (tv_agents demo_view)) \<noteq> 0"
    by code_simp+
  ultimately have "decide fl (\<lambda>_ _. sret demo_new_skill) demo_view existing [] (Some li) w = (w, Inr demo_new_skill)" for fl existing and w :: world
    by (simp add: decide_def complete_def compact_trajectory_def Let_def scatch_def sbind_def constrain_def demo_new_skill_def del: sum_list_eq_0_iff)
  moreover have "used_skill_ids demo_view = []" by code_simp
  moreover obtain s0 where "post_run_call (demo_verdict True) ''skill-miner'' demo_start = (s0, Inr ())"
    using post_run_call_returns by blast
  ultimately show ?thesis
    by (simp add: skill_decision_def Let_def sbind_def demo_start_def start_outcome_def empty_skills_def skill_operation_result_def
        in_world_def sfocus_def record_skill_operation_def)
qed

theorem skill_decision_made_once_witness:
  "\<exists>s1. \<forall>v li. skill_decision (demo_learning None) (demo_verdict True) (\<lambda>_ _. sraise AssertionError) v li s1 = (s1, Inr demo_new_skill)"
proof -
  obtain li0 :: learning_input where True by simp
  obtain s1 where s1: "skill_decision (demo_learning None) (demo_verdict True) (\<lambda>_ _. sret demo_new_skill) demo_view li0 demo_start
      = (s1, Inr demo_new_skill)"
    using demo_decided by blast
  have "skill_decision (demo_learning None) (demo_verdict True) (\<lambda>_ _. sraise AssertionError) v li s1 = (s1, Inr demo_new_skill)"
    for v li
    by (rule skill_decision_made_once [OF _ _ s1])
      (auto simp: demo_new_skill_def demo_learning_def action_payload_is_complete_def)
  then show ?thesis by blast
qed

end
