(* ===== verification/Spec2Isabelle.thy ===== *)
theory Spec2Isabelle
  imports GraphSpec AgentScope SkillCatalog OutcomeProps
begin

text \<open>
  EvoCI: a harness that repairs failing continuous-integration runs with language-model agents. A run
  is a graph of nodes over a shared state: it retrieves context, asks a supervisor for a decision,
  prepares one worker task and a snapshot of the workspace, runs the worker in a staging copy, asks a
  human where the candidate is risky, applies the candidate to the workspace, verifies it, and either
  finalises the run or rolls the workspace back and asks the supervisor again. All sources are below
  \<^verbatim>\<open>src/src/evoci/\<close>.

  \<^bold>\<open>Conventions.\<close> An operation that may raise returns \<open>pyexc + 'a\<close>; a stateful one is a function from
  the state to the state it leaves and such a result (\<^verbatim>\<open>Effects\<close>), so that what was done before an
  exception stays done. Files are a map from absolute paths to directories, regular files with a mode
  and symbolic links. Strings are character lists, Python integers are \<open>int\<close>, dictionaries are
  association lists or maps. What lies outside the repository is a parameter: Git, SHA-256, the
  decoding of bytes, the clock, processes, directory listings, the model agents, the retrievers, the
  human's answer. Where a theorem needs something of a parameter it is a hypothesis with a name
  (\<open>git_confined\<close>), and a witness instantiates it.

  \<^bold>\<open>Theories, in the order of their imports.\<close>

  \<^item> \<^verbatim>\<open>Prelude\<close>: the Python prelude of the model (exceptions, strings, paths, JSON, keyed logs) and the
    lemmas the components share.
  \<^item> \<^verbatim>\<open>Effects\<close>: computations with state and exceptions, what they keep (\<open>keeps\<close>) and return (\<open>returns\<close>).
  \<^item> \<^verbatim>\<open>Domain\<close>: \<^verbatim>\<open>domain/models.py\<close>, records, enumerations and validators.
  \<^item> \<^verbatim>\<open>Policy\<close>: \<^verbatim>\<open>tools/policy.py\<close>, \<^verbatim>\<open>tools/scope.py\<close>, \<^verbatim>\<open>graph/scheduler.py\<close>, \<^verbatim>\<open>graph/routing.py\<close>. Paths stay
    inside the workspace, links followed; what an accepted command and an accepted task satisfy; the
    scan of a diff for bypass markers is complete.
  \<^item> \<^verbatim>\<open>Events\<close>: \<^verbatim>\<open>runtime/events.py\<close>, \<^verbatim>\<open>event_store.py\<close>, \<^verbatim>\<open>run_store.py\<close>, the recorder of \<^verbatim>\<open>trajectory.py\<close>,
    \<^verbatim>\<open>usage.py\<close>. Emitting again under a key adds nothing; what is appended is listed.
  \<^item> \<^verbatim>\<open>Budget\<close>: \<^verbatim>\<open>runtime/budget.py\<close>. A budget of \<open>n\<close> calls allows exactly \<open>n\<close>, also across restarts.
  \<^item> \<^verbatim>\<open>Files\<close>: \<^verbatim>\<open>tools/filesystem.py\<close>, \<^verbatim>\<open>tools/patch.py\<close>. Patch application is idempotent and can be
    replayed after a crash; an attempt can be undone from any point.
  \<^item> \<^verbatim>\<open>Shell\<close>: \<^verbatim>\<open>tools/shell.py\<close>, \<^verbatim>\<open>tools/git.py\<close>. What runs, where, with which environment, and which part
    of the output is kept.
  \<^item> \<^verbatim>\<open>Verification\<close>: \<^verbatim>\<open>verification/service.py\<close>. When a verification passes and what it costs.
  \<^item> \<^verbatim>\<open>Integration\<close>: \<^verbatim>\<open>tools/isolation.py\<close>, \<^verbatim>\<open>graph/integration.py\<close>. Snapshots and their restoration,
    artifacts, scope checks.
  \<^item> \<^verbatim>\<open>GraphState\<close>, \<^verbatim>\<open>Graph\<close>: \<^verbatim>\<open>graph/state.py\<close>, \<^verbatim>\<open>agents/base.py\<close>, \<^verbatim>\<open>graph/outcome.py\<close>, \<^verbatim>\<open>graph/builder.py\<close>, one
    definition for each node and router; a step of the relation \<open>step\<close> is a node that returned and the
    edge that was taken.
  \<^item> \<^verbatim>\<open>GraphProps\<close>, \<^verbatim>\<open>GraphLive\<close>, \<^verbatim>\<open>GraphSpec\<close>: what each node keeps, the invariant of the reachable
    configurations, a measure that every step decreases, the simulation by the abstract protocol, a
    run that succeeds, and the properties.

  \<^bold>\<open>Interfaces.\<close> Locales state the contracts the components share: keyed logs (\<^verbatim>\<open>Prelude\<close>), counters of
  calls (\<^verbatim>\<open>Budget\<close>), desired-state application of a list of changes (\<^verbatim>\<open>Files\<close>), ranked steps and
  simulation with stuttering (\<^verbatim>\<open>GraphProps\<close>); each is interpreted on the model's definitions.

  \<^bold>\<open>Fuel.\<close> \<open>run_graph\<close> takes a bound on the super-steps; \<open>run_graph_terminates\<close> shows that
  \<open>8 * (max_supervisor_batches - batch) + 4\<close> is enough for every run. All other recursions are structural.
  Link resolution follows at most forty links, as the operating system does.

  \<^bold>\<open>Not modelled.\<close> The model gateway (HTTP), prompts and the tool loop around the model, the Docker runs
  and campaign bookkeeping of the benchmark, the command line, checkpoint serialisation; memory,
  capabilities and the learning part of \<open>persist_run_outcome\<close> are parameters of the graph. Cancellation
  of asynchronous tasks and concurrent runs over one store are outside the model.
\<close>

end
